(* ===== verification/Mingo_Prelude.thy ===== *)
theory Mingo_Prelude
  imports Main "HOL-Library.Word" "HOL-Library.Sublist"
begin

unbundle bit_operations_syntax

text \<open>
  Shared vocabulary of the development: the widths of the C++ integers, the errors a C++
  operation can end in, operations on a state that may fail (the state reached at the failure is
  kept, as a C++ exception keeps the writes made before the throw), the memory representation of
  an unsigned integer, and the generic facts on equally sized blocks that the chunked buffer needs.
\<close>

section \<open>Machine integers\<close>

type_synonym byte = "8 word"
type_synonym u16 = "16 word"
type_synonym u32 = "32 word"
type_synonym u64 = "64 word"

text \<open>
  \<open>size_t\<close> values are natural numbers; a subtraction that can go below zero in the code is written
  with the wrap-around of the 64-bit type.
\<close>

definition sub64 :: "nat \<Rightarrow> nat \<Rightarrow> nat" where
  "sub64 a b = (a + 2 ^ 64 - b mod 2 ^ 64) mod 2 ^ 64"

lemma sub64_le: "b \<le> a \<Longrightarrow> a < 2 ^ 64 \<Longrightarrow> sub64 a b = a - b"
proof -
  assume "b \<le> a" "a < 2 ^ 64"
  then have "a + 2 ^ 64 - b mod 2 ^ 64 = (a - b) + 2 ^ 64" "a - b < 2 ^ 64" by simp_all
  then show ?thesis by (simp only: sub64_def mod_add_self2 mod_less)
qed

lemma sub64_wrap: "a < b \<Longrightarrow> b < 2 ^ 64 \<Longrightarrow> sub64 a b = a + (2 ^ 64 - b)"
  by (simp add: sub64_def)

text \<open>The conversion of a wider integer to \<open>int\<close>.\<close>

definition c_int :: "int \<Rightarrow> int" where
  "c_int v = sint (word_of_int v :: u32)"

lemma c_int_id: "- (2 ^ 31) \<le> v \<Longrightarrow> v < 2 ^ 31 \<Longrightarrow> c_int v = v"
  by (simp add: c_int_def signed_of_int signed_take_bit_int_eq_self)

section \<open>Errors and failing operations\<close>

datatype cpp_error =
    OutOfRange          \<comment> \<open>\<open>std::out_of_range\<close>\<close>
  | InvalidArgument     \<comment> \<open>\<open>std::invalid_argument\<close>\<close>
  | LogicError          \<comment> \<open>\<open>std::logic_error\<close>\<close>
  | NullDeref           \<comment> \<open>access through a null pointer\<close>
  | DivByZero           \<comment> \<open>integer division by zero\<close>
  | AssertFail          \<comment> \<open>\<open>MINGO_ASSERT\<close>\<close>
  | BadMemory           \<comment> \<open>access outside an object\<close>
  | NoReturn            \<comment> \<open>an endless loop\<close>
  | BadFunctionCall     \<comment> \<open>\<open>std::bad_function_call\<close>\<close>
  | LengthError         \<comment> \<open>\<open>std::length_error\<close>\<close>
  | BadAlloc            \<comment> \<open>\<open>std::bad_alloc\<close>\<close>
  | BadLexicalCast      \<comment> \<open>\<open>boost::bad_lexical_cast\<close>\<close>
  | YamlError           \<comment> \<open>\<open>YAML::Exception\<close>\<close>
  | BadShift            \<comment> \<open>a shift by at least the width of the operand\<close>

type_synonym 'a res = "cpp_error + 'a"
type_synonym ('s, 'a) oper = "'s \<Rightarrow> (cpp_error + 'a) \<times> 's"

definition ret :: "'a \<Rightarrow> ('s, 'a) oper" where
  "ret x = (\<lambda>s. (Inr x, s))"

definition raise :: "cpp_error \<Rightarrow> ('s, 'a) oper" where
  "raise e = (\<lambda>s. (Inl e, s))"

definition andthen :: "('s, 'a) oper \<Rightarrow> ('a \<Rightarrow> ('s, 'b) oper) \<Rightarrow> ('s, 'b) oper" where
  "andthen m f = (\<lambda>s. case m s of (Inl e, s') \<Rightarrow> (Inl e, s') | (Inr x, s') \<Rightarrow> f x s')"

named_theorems oper_simps \<open>evaluation of failing operations\<close>

lemma ret_apply [simp, oper_simps]: "ret x s = (Inr x, s)"
  by (simp add: ret_def)

lemma raise_apply [simp, oper_simps]: "raise e s = (Inl e, s)"
  by (simp add: raise_def)

lemma andthen_Inl [oper_simps]: "m s = (Inl e, s') \<Longrightarrow> andthen m f s = (Inl e, s')"
  by (simp add: andthen_def)

lemma andthen_Inr [oper_simps]: "m s = (Inr x, s') \<Longrightarrow> andthen m f s = f x s'"
  by (simp add: andthen_def)

lemma andthen_cases:
  "P (andthen m f s) \<longleftrightarrow>
     (\<forall>e s'. m s = (Inl e, s') \<longrightarrow> P (Inl e, s')) \<and>
     (\<forall>x s'. m s = (Inr x, s') \<longrightarrow> P (f x s'))"
  by (auto simp: andthen_def split: prod.splits sum.splits)

text \<open>An operation that succeeds from a state, and the result it gives there.\<close>

lemma andthen_eq_InrE:
  assumes "andthen m f s = (Inr y, s'')"
  obtains x s' where "m s = (Inr x, s')" and "f x s' = (Inr y, s'')"
  using assms by (auto simp: andthen_def split: prod.splits sum.splits)

section \<open>Memory representation of unsigned integers\<close>

text \<open>
  \<open>le_bytes n w\<close> are the low \<open>n\<close> bytes of \<open>w\<close>, least significant first (what memory holds on a
  little-endian host); \<open>le_word\<close> reads such a run back.
\<close>

primrec le_bytes :: "nat \<Rightarrow> 'a::len word \<Rightarrow> byte list" where
  "le_bytes 0 w = []"
| "le_bytes (Suc n) w = ucast w # le_bytes n (drop_bit 8 w)"

primrec le_word :: "byte list \<Rightarrow> 'a::len word" where
  "le_word [] = 0"
| "le_word (b # bs) = ucast b OR push_bit 8 (le_word bs)"

lemma length_le_bytes [simp]: "length (le_bytes n w) = n"
  by (induction n arbitrary: w) auto

lemma le_word_le_bytes: "le_word (le_bytes n w) = take_bit (8 * n) (w :: 'a::len word)"
proof (induction n arbitrary: w)
  case 0
  then show ?case by simp
next
  case (Suc n)
  show ?case
    by (rule bit_word_eqI)
      (auto simp: Suc bit_or_iff bit_push_bit_iff bit_ucast_iff bit_take_bit_iff bit_drop_bit_eq
        bit_imp_le_length)
qed

lemma le_word_le_bytes_full [simp]:
  "LENGTH('a::len) \<le> 8 * n \<Longrightarrow> le_word (le_bytes n w) = (w :: 'a word)"
  by (simp add: le_word_le_bytes take_bit_word_eq_self)

lemma ucast_or_push8: "ucast (ucast b OR push_bit 8 w :: 'a::len word) = (b :: byte)"
  if "8 \<le> LENGTH('a)"
  using that
  by (intro bit_word_eqI) (auto simp: bit_ucast_iff bit_or_iff bit_push_bit_iff)

lemma drop8_or_push8:
  "drop_bit 8 (ucast (b :: byte) OR push_bit 8 w) = (take_bit (LENGTH('a) - 8) w :: 'a::len word)"
  by (rule bit_word_eqI)
    (auto simp: bit_drop_bit_eq bit_or_iff bit_push_bit_iff bit_ucast_iff bit_take_bit_iff
      dest: bit_imp_le_length)

lemma le_bytes_take_bit: "8 * n \<le> k \<Longrightarrow> le_bytes n (take_bit k w) = le_bytes n w"
proof (induction n arbitrary: k w)
  case 0
  then show ?case by simp
next
  case (Suc n)
  have "ucast (take_bit k w) = (ucast w :: byte)"
    using Suc.prems by (intro bit_word_eqI) (auto simp: bit_ucast_iff bit_take_bit_iff)
  moreover have "drop_bit 8 (take_bit k w) = take_bit (k - 8) (drop_bit 8 w)"
    by (simp add: drop_bit_take_bit)
  ultimately show ?case
    using Suc by simp
qed

lemma le_bytes_le_word:
  "8 * length bs \<le> LENGTH('a::len) \<Longrightarrow> le_bytes (length bs) (le_word bs :: 'a word) = bs"
proof (induction bs)
  case Nil
  then show ?case by simp
next
  case (Cons b bs)
  then show ?case
    by (simp del: drop_bit_or add: ucast_or_push8 drop8_or_push8 le_bytes_take_bit)
qed

section \<open>The first element with a property\<close>

lemma find_first: "\<forall>y \<in> set pre. \<not> P y \<Longrightarrow> P x \<Longrightarrow> find P (pre @ x # post) = Some x"
  by (induction pre) auto

lemma find_none: "\<forall>y \<in> set xs. \<not> P y \<Longrightarrow> find P xs = None"
  by (simp add: find_None_iff)

lemma find_SomeD: "find P xs = Some x \<Longrightarrow> x \<in> set xs \<and> P x"
  by (auto simp: find_Some_iff)

section \<open>Overwriting a range of a list\<close>

definition put :: "nat \<Rightarrow> 'a list \<Rightarrow> 'a list \<Rightarrow> 'a list" where
  "put k xs ys = take k ys @ xs @ drop (k + length xs) ys"

lemma put_Nil [simp]: "put k [] ys = ys"
  by (simp add: put_def)

lemma length_put [simp]: "k + length xs \<le> length ys \<Longrightarrow> length (put k xs ys) = length ys"
  by (simp add: put_def)

lemma take_put: "k \<le> length ys \<Longrightarrow> take k (put k xs ys) = take k ys"
  by (simp add: put_def)

lemma drop_put: "k \<le> length ys \<Longrightarrow> drop (k + length xs) (put k xs ys) = drop (k + length xs) ys"
  by (simp add: put_def)

lemma take_drop_put: "k \<le> length ys \<Longrightarrow> take (length xs) (drop k (put k xs ys)) = xs"
  by (simp add: put_def)

lemma put_put_append:
  "k \<le> length ys \<Longrightarrow> put (k + length xs) zs (put k xs ys) = put k (xs @ zs) ys"
  by (simp add: put_def ac_simps)

lemma put_append_left:
  "k + length xs \<le> length ys \<Longrightarrow> put k xs (ys @ zs) = put k xs ys @ zs"
  by (simp add: put_def)

lemma put_end [simp]: "put (length ys) xs ys = ys @ xs"
  by (simp add: put_def)

section \<open>Equally sized blocks\<close>

definition blocks :: "nat \<Rightarrow> 'a list list \<Rightarrow> bool" where
  "blocks b ns \<longleftrightarrow> (\<forall>n \<in> set ns. length n = b)"

lemma length_concat_blocks [simp]: "blocks b ns \<Longrightarrow> length (concat ns) = b * length ns"
  by (induction ns) (auto simp: blocks_def algebra_simps)

lemma blocks_nth [simp]: "blocks b ns \<Longrightarrow> i < length ns \<Longrightarrow> length (ns ! i) = b"
  by (simp add: blocks_def)

lemma blocks_take: "blocks b ns \<Longrightarrow> blocks b (take i ns)"
  by (auto simp: blocks_def dest: in_set_takeD)

lemma blocks_drop: "blocks b ns \<Longrightarrow> blocks b (drop i ns)"
  by (auto simp: blocks_def dest: in_set_dropD)

lemma blocks_update: "blocks b ns \<Longrightarrow> length n = b \<Longrightarrow> blocks b (ns[i := n])"
  by (auto simp: blocks_def dest: subsetD [OF set_update_subset_insert])

lemma blocks_append [simp]: "blocks b (ns @ ms) \<longleftrightarrow> blocks b ns \<and> blocks b ms"
  by (auto simp: blocks_def)

lemma blocks_split:
  assumes "blocks b ns" and "i < length ns"
  shows "concat ns = concat (take i ns) @ ns ! i @ concat (drop (Suc i) ns)"
    and "length (concat (take i ns)) = b * i"
proof -
  have "ns = take i ns @ ns ! i # drop (Suc i) ns"
    using assms(2) by (simp add: id_take_nth_drop)
  then have "concat ns = concat (take i ns @ ns ! i # drop (Suc i) ns)"
    by simp
  then show "concat ns = concat (take i ns) @ ns ! i @ concat (drop (Suc i) ns)"
    by simp
  show "length (concat (take i ns)) = b * i"
    using length_concat_blocks [OF blocks_take [OF assms(1)], of i] assms(2) by simp
qed

text \<open>Reading and writing inside one block is reading and writing the flat memory.\<close>

lemma block_take_drop:
  assumes "blocks b ns" and "i < length ns" and "k + n \<le> b"
  shows "take n (drop k (ns ! i)) = take n (drop (b * i + k) (concat ns))"
proof -
  have "length (ns ! i) = b"
    using assms by simp
  with assms(3) show ?thesis
    by (subst blocks_split(1) [OF assms(1,2)]) (simp add: blocks_split(2) [OF assms(1,2)])
qed

lemma block_put:
  assumes "blocks b ns" and "i < length ns" and "k + length xs \<le> b"
  shows "concat (ns[i := put k xs (ns ! i)]) = put (b * i + k) xs (concat ns)"
proof -
  let ?pre = "concat (take i ns)" and ?post = "concat (drop (Suc i) ns)"
  have l: "length ?pre = b * i" and n: "length (ns ! i) = b"
    using assms blocks_split(2) by auto
  have "concat (ns[i := put k xs (ns ! i)]) = ?pre @ put k xs (ns ! i) @ ?post"
    using assms(2) by (simp add: upd_conv_take_nth_drop)
  also have "\<dots> = put (b * i + k) xs (?pre @ ns ! i @ ?post)"
    using assms(3) l n by (simp add: put_def)
  also have "\<dots> = put (b * i + k) xs (concat ns)"
    using blocks_split(1) [OF assms(1,2)] by simp
  finally show ?thesis .
qed

end
