(* ===== verification/Mingo_ByteArray.thy ===== *)
theory Mingo_ByteArray
  imports Mingo_Prelude
begin

text \<open>
  \<^verbatim>\<open>mingo/bytearray.cpp\<close>: a growable byte buffer kept in a singly linked list of memory blocks of
  \<open>m_baseSize\<close> bytes, with one position for reading and writing. The list from \<open>m_root\<close> is
  \<open>m_nodes\<close>; a \<open>Node*\<close> is an index into it and \<open>None\<close> is the null pointer. \<open>Node::size\<close> is the
  length of the block. What \<open>new char[s]\<close> holds before it is written is \<open>m_fresh\<close>, an arbitrary
  function of the block's number and the offset. The getters subtract natural numbers: the
  invariant below keeps \<open>m_position \<le> m_size \<le> m_capacity\<close>, so that the 64-bit subtraction of the
  code does not wrap there; \<open>m_size - position\<close> of the positional read, where the caller chooses
  the position, is written with its wrap-around.

  This theory holds the raw buffer: allocation, the block-walking loops of \<open>write\<close> and \<open>read\<close>,
  positions, scatter/gather buffers and files. Its main result is that the chain of blocks refines a flat
  byte string with a position.
\<close>

section \<open>State\<close>

datatype endian = MINGO_LITTLE_ENDIAN | MINGO_BIG_ENDIAN

record bytearray =
  m_baseSize :: nat
  m_position :: nat
  m_capacity :: nat
  m_size :: nat
  m_endian :: endian
  m_nodes :: "byte list list"
  m_cur :: "nat option"
  m_fresh :: "nat \<Rightarrow> nat \<Rightarrow> byte"

definition Node_new :: "(nat \<Rightarrow> byte) \<Rightarrow> nat \<Rightarrow> byte list" where
  "Node_new g s = map g [0..<s]"

definition ByteArray_new :: "(nat \<Rightarrow> nat \<Rightarrow> byte) \<Rightarrow> nat \<Rightarrow> bytearray" where
  "ByteArray_new g base_size =
     \<lparr>m_baseSize = base_size, m_position = 0, m_capacity = base_size, m_size = 0,
      m_endian = MINGO_BIG_ENDIAN, m_nodes = [Node_new (g 0) base_size], m_cur = Some 0,
      m_fresh = g\<rparr>"

definition node_size :: "bytearray \<Rightarrow> nat \<Rightarrow> nat" where
  "node_size ba i = length (m_nodes ba ! i)"

definition node_next :: "bytearray \<Rightarrow> nat \<Rightarrow> nat option" where
  "node_next ba i = (if Suc i < length (m_nodes ba) then Some (Suc i) else None)"

definition memcpy_to :: "nat \<Rightarrow> nat \<Rightarrow> byte list \<Rightarrow> bytearray \<Rightarrow> bytearray" where
  "memcpy_to i off bs ba = ba\<lparr>m_nodes := (m_nodes ba)[i := put off bs (m_nodes ba ! i)]\<rparr>"

definition memcpy_from :: "bytearray \<Rightarrow> nat \<Rightarrow> nat \<Rightarrow> nat \<Rightarrow> byte list" where
  "memcpy_from ba i off n = take n (drop off (m_nodes ba ! i))"

definition ByteArray_getPosition :: "bytearray \<Rightarrow> nat" where
  "ByteArray_getPosition ba = m_position ba"

definition ByteArray_getBaseSize :: "bytearray \<Rightarrow> nat" where
  "ByteArray_getBaseSize ba = m_baseSize ba"

definition ByteArray_getSize :: "bytearray \<Rightarrow> nat" where
  "ByteArray_getSize ba = m_size ba"

definition ByteArray_getReadSize :: "bytearray \<Rightarrow> nat" where
  "ByteArray_getReadSize ba = m_size ba - m_position ba"

definition ByteArray_getCapacity :: "bytearray \<Rightarrow> nat" where
  "ByteArray_getCapacity ba = m_capacity ba - m_position ba"

definition ByteArray_isLittleEndian :: "bytearray \<Rightarrow> bool" where
  "ByteArray_isLittleEndian ba \<longleftrightarrow> m_endian ba = MINGO_LITTLE_ENDIAN"

definition ByteArray_setIsLittleEndian :: "bool \<Rightarrow> bytearray \<Rightarrow> bytearray" where
  "ByteArray_setIsLittleEndian val ba =
     ba\<lparr>m_endian := (if val then MINGO_LITTLE_ENDIAN else MINGO_BIG_ENDIAN)\<rparr>"

section \<open>Operations\<close>

subsection \<open>Growing\<close>

text \<open>The loop that appends \<open>count\<close> blocks at the end of the list.\<close>

primrec add_nodes :: "nat \<Rightarrow> bytearray \<Rightarrow> bytearray" where
  "add_nodes 0 ba = ba"
| "add_nodes (Suc count) ba =
     add_nodes count
       (ba\<lparr>m_nodes := m_nodes ba @ [Node_new (m_fresh ba (length (m_nodes ba))) (m_baseSize ba)],
           m_capacity := m_capacity ba + m_baseSize ba\<rparr>)"

definition addCapacity_count :: "nat \<Rightarrow> nat \<Rightarrow> nat \<Rightarrow> nat" where
  "addCapacity_count base old_cap sz =
     sz div base + (if sz mod base > old_cap then 1 else 0)"

definition ByteArray_addCapacity :: "nat \<Rightarrow> (bytearray, unit) oper" where
  "ByteArray_addCapacity sz ba =
     (if sz = 0 then (Inr (), ba)
      else
        let old_cap = ByteArray_getCapacity ba in
        if old_cap \<ge> sz then (Inr (), ba)
        else if m_baseSize ba = 0 then (Inl DivByZero, ba)
        else
          let count = addCapacity_count (m_baseSize ba) old_cap (sz - old_cap);
              first = (if count = 0 then None else Some (length (m_nodes ba)));
              ba' = add_nodes count ba
          in (Inr (), if old_cap = 0 then ba'\<lparr>m_cur := first\<rparr> else ba'))"

subsection \<open>Writing\<close>

function write_loop :: "nat \<Rightarrow> nat \<Rightarrow> byte list \<Rightarrow> (bytearray, unit) oper" where
  "write_loop npos ncap buf ba =
     (if buf = [] then (Inr (), ba)
      else case m_cur ba of
        None \<Rightarrow> (Inl NullDeref, ba)
      | Some i \<Rightarrow>
          if ncap \<ge> length buf then
            let ba1 = memcpy_to i npos buf ba;
                ba2 = (if node_size ba i = npos + length buf
                       then ba1\<lparr>m_cur := node_next ba i\<rparr> else ba1)
            in (Inr (), ba2\<lparr>m_position := m_position ba + length buf\<rparr>)
          else
            let ba1 = (memcpy_to i npos (take ncap buf) ba)
                        \<lparr>m_position := m_position ba + ncap, m_cur := node_next ba i\<rparr>
            in case node_next ba i of
                 None \<Rightarrow> (Inl NullDeref, ba1)
               | Some j \<Rightarrow> write_loop 0 (node_size ba j) (drop ncap buf) ba1)"
  by pat_completeness auto
termination
  by (relation "measure (\<lambda>(npos, ncap, buf, ba).
        length (m_nodes ba) - (case m_cur ba of None \<Rightarrow> 0 | Some i \<Rightarrow> i))")
     (auto simp: memcpy_to_def node_next_def split: if_splits)

declare write_loop.simps [simp del]

definition ByteArray_write :: "byte list \<Rightarrow> (bytearray, unit) oper" where
  "ByteArray_write buf ba =
     (if buf = [] then (Inr (), ba)
      else case ByteArray_addCapacity (length buf) ba of
        (Inl e, ba1) \<Rightarrow> (Inl e, ba1)
      | (Inr _, ba1) \<Rightarrow>
          if m_baseSize ba1 = 0 then (Inl DivByZero, ba1)
          else case m_cur ba1 of
            None \<Rightarrow> (Inl NullDeref, ba1)
          | Some i \<Rightarrow>
              let npos = m_position ba1 mod m_baseSize ba1;
                  ncap = node_size ba1 i - npos
              in case write_loop npos ncap buf ba1 of
                   (Inl e, ba2) \<Rightarrow> (Inl e, ba2)
                 | (Inr _, ba2) \<Rightarrow>
                     (Inr (), if m_position ba2 > m_size ba2
                              then ba2\<lparr>m_size := m_position ba2\<rparr> else ba2))"

subsection \<open>Reading\<close>

function read_loop :: "nat \<Rightarrow> nat \<Rightarrow> nat \<Rightarrow> byte list \<Rightarrow> (bytearray, byte list) oper" where
  "read_loop npos ncap sz buf ba =
     (if sz = 0 then (Inr buf, ba)
      else case m_cur ba of
        None \<Rightarrow> (Inl NullDeref, ba)
      | Some i \<Rightarrow>
          if ncap \<ge> sz then
            let ba1 = (if node_size ba i = npos + sz
                       then ba\<lparr>m_cur := node_next ba i\<rparr> else ba)
            in (Inr (buf @ memcpy_from ba i npos sz),
                ba1\<lparr>m_position := m_position ba + sz\<rparr>)
          else
            let buf1 = buf @ memcpy_from ba i npos ncap;
                ba1 = ba\<lparr>m_position := m_position ba + ncap, m_cur := node_next ba i\<rparr>
            in case node_next ba i of
                 None \<Rightarrow> (Inl NullDeref, ba1)
               | Some j \<Rightarrow> read_loop 0 (node_size ba j) (sz - ncap) buf1 ba1)"
  by pat_completeness auto
termination
  by (relation "measure (\<lambda>(npos, ncap, sz, buf, ba).
        length (m_nodes ba) - (case m_cur ba of None \<Rightarrow> 0 | Some i \<Rightarrow> i))")
     (auto simp: node_next_def split: if_splits)

declare read_loop.simps [simp del]

definition ByteArray_read :: "nat \<Rightarrow> (bytearray, byte list) oper" where
  "ByteArray_read sz ba =
     (if sz > ByteArray_getReadSize ba then (Inl OutOfRange, ba)
      else if m_baseSize ba = 0 then (Inl DivByZero, ba)
      else case m_cur ba of
        None \<Rightarrow> (Inl NullDeref, ba)
      | Some i \<Rightarrow>
          let npos = m_position ba mod m_baseSize ba;
              ncap = node_size ba i - npos
          in read_loop npos ncap sz [] ba)"

text \<open>
  The overload with an explicit position walks a local pointer and leaves the object alone; it
  starts at \<open>m_cur\<close>, whatever the position is.
\<close>

function read_at_loop ::
    "bytearray \<Rightarrow> nat option \<Rightarrow> nat \<Rightarrow> nat \<Rightarrow> nat \<Rightarrow> byte list \<Rightarrow> byte list res" where
  "read_at_loop ba cur npos ncap sz buf =
     (if sz = 0 then Inr buf
      else case cur of
        None \<Rightarrow> Inl NullDeref
      | Some i \<Rightarrow>
          if ncap \<ge> sz then Inr (buf @ memcpy_from ba i npos sz)
          else case node_next ba i of
                 None \<Rightarrow> Inl NullDeref
               | Some j \<Rightarrow> read_at_loop ba (Some j) 0 (node_size ba j) (sz - ncap)
                             (buf @ memcpy_from ba i npos ncap))"
  by pat_completeness auto
termination
  by (relation "measure (\<lambda>(ba, cur, npos, ncap, sz, buf).
        length (m_nodes ba) - (case cur of None \<Rightarrow> 0 | Some i \<Rightarrow> i))")
     (auto simp: node_next_def split: if_splits)

declare read_at_loop.simps [simp del]

definition ByteArray_read_at :: "bytearray \<Rightarrow> nat \<Rightarrow> nat \<Rightarrow> byte list res" where
  "ByteArray_read_at ba sz position =
     (if sz > sub64 (m_size ba) position then Inl OutOfRange
      else if m_baseSize ba = 0 then Inl DivByZero
      else case m_cur ba of
        None \<Rightarrow> Inl NullDeref
      | Some i \<Rightarrow>
          let npos = position mod m_baseSize ba
          in read_at_loop ba (Some i) npos (node_size ba i - npos) sz [])"

subsection \<open>Position, clearing\<close>

function seek_loop :: "bytearray \<Rightarrow> nat \<Rightarrow> nat option \<Rightarrow> nat option res" where
  "seek_loop ba v cur =
     (case cur of
        None \<Rightarrow> Inl NullDeref
      | Some i \<Rightarrow>
          if v > node_size ba i then
            (case node_next ba i of
               None \<Rightarrow> Inl NullDeref
             | Some j \<Rightarrow> seek_loop ba (v - node_size ba i) (Some j))
          else Inr (if v = node_size ba i then node_next ba i else Some i))"
  by pat_completeness auto
termination
  by (relation "measure (\<lambda>(ba, v, cur).
        length (m_nodes ba) - (case cur of None \<Rightarrow> 0 | Some i \<Rightarrow> i))")
     (auto simp: node_next_def split: if_splits)

declare seek_loop.simps [simp del]

definition ByteArray_setPosition :: "nat \<Rightarrow> (bytearray, unit) oper" where
  "ByteArray_setPosition v ba =
     (if v > m_capacity ba then (Inl OutOfRange, ba)
      else
        let ba1 = ba\<lparr>m_position := v, m_size := (if v > m_size ba then v else m_size ba)\<rparr>
        in case seek_loop ba1 v (Some 0) of
             Inl e \<Rightarrow> (Inl e, ba1)
           | Inr cur \<Rightarrow> (Inr (), ba1\<lparr>m_cur := cur\<rparr>))"

definition ByteArray_clear :: "bytearray \<Rightarrow> bytearray" where
  "ByteArray_clear ba =
     ba\<lparr>m_position := 0, m_size := 0, m_capacity := m_baseSize ba,
        m_nodes := take 1 (m_nodes ba), m_cur := Some 0\<rparr>"

subsection \<open>Text\<close>

definition ByteArray_toString :: "bytearray \<Rightarrow> byte list res" where
  "ByteArray_toString ba =
     (if ByteArray_getReadSize ba = 0 then Inr []
      else ByteArray_read_at ba (ByteArray_getReadSize ba) (m_position ba))"

definition hex_digit :: "nat \<Rightarrow> char" where
  "hex_digit n = ''0123456789abcdef'' ! n"

text \<open>\<open>std::setw(2)\<close>, \<open>std::setfill('0')\<close>, \<open>std::hex\<close> on a byte, followed by a blank.\<close>

definition hex_byte :: "byte \<Rightarrow> string" where
  "hex_byte b = [hex_digit (unat b div 16), hex_digit (unat b mod 16), CHR '' '']"

primrec hex_loop :: "nat \<Rightarrow> byte list \<Rightarrow> string" where
  "hex_loop i [] = []"
| "hex_loop i (b # bs) =
     (if i > 0 \<and> i mod 32 = 0 then [CHR 0x0A] else []) @ hex_byte b @ hex_loop (Suc i) bs"

definition ByteArray_toHexString :: "bytearray \<Rightarrow> string res" where
  "ByteArray_toHexString ba =
     (case ByteArray_toString ba of Inl e \<Rightarrow> Inl e | Inr str \<Rightarrow> Inr (hex_loop 0 str))"

subsection \<open>Scatter/gather buffers\<close>

text \<open>An \<open>iovec\<close> points into a block: block number, offset and length.\<close>

type_synonym iovec = "nat \<times> nat \<times> nat"

function iov_loop :: "bytearray \<Rightarrow> nat option \<Rightarrow> nat \<Rightarrow> nat \<Rightarrow> nat \<Rightarrow> iovec list \<Rightarrow> iovec list res" where
  "iov_loop ba cur npos ncap len buffers =
     (if len = 0 then Inr buffers
      else case cur of
        None \<Rightarrow> Inl NullDeref
      | Some i \<Rightarrow>
          if ncap \<ge> len then Inr (buffers @ [(i, npos, len)])
          else case node_next ba i of
                 None \<Rightarrow> Inl NullDeref
               | Some j \<Rightarrow> iov_loop ba (Some j) 0 (node_size ba j) (len - ncap)
                             (buffers @ [(i, npos, ncap)]))"
  by pat_completeness auto
termination
  by (relation "measure (\<lambda>(ba, cur, npos, ncap, len, buffers).
        length (m_nodes ba) - (case cur of None \<Rightarrow> 0 | Some i \<Rightarrow> i))")
     (auto simp: node_next_def split: if_splits)

declare iov_loop.simps [simp del]

definition ByteArray_getReadBuffers ::
    "bytearray \<Rightarrow> iovec list \<Rightarrow> nat \<Rightarrow> (nat \<times> iovec list) res" where
  "ByteArray_getReadBuffers ba buffers len0 =
     (let len = (if len0 > ByteArray_getReadSize ba then ByteArray_getReadSize ba else len0) in
      if len = 0 then Inr (0, buffers)
      else if m_baseSize ba = 0 then Inl DivByZero
      else case m_cur ba of
        None \<Rightarrow> Inl NullDeref
      | Some i \<Rightarrow>
          let npos = m_position ba mod m_baseSize ba
          in case iov_loop ba (Some i) npos (node_size ba i - npos) len buffers of
               Inl e \<Rightarrow> Inl e
             | Inr bufs \<Rightarrow> Inr (len, bufs))"

text \<open>The walk of \<open>count\<close> blocks from the root.\<close>

primrec nth_node :: "bytearray \<Rightarrow> nat \<Rightarrow> nat option \<Rightarrow> nat option res" where
  "nth_node ba 0 cur = Inr cur"
| "nth_node ba (Suc count) cur =
     (case cur of None \<Rightarrow> Inl NullDeref | Some i \<Rightarrow> nth_node ba count (node_next ba i))"

definition ByteArray_getReadBuffers_at ::
    "bytearray \<Rightarrow> iovec list \<Rightarrow> nat \<Rightarrow> nat \<Rightarrow> (nat \<times> iovec list) res" where
  "ByteArray_getReadBuffers_at ba buffers len0 position =
     (let len = (if len0 > ByteArray_getReadSize ba then ByteArray_getReadSize ba else len0) in
      if len = 0 then Inr (0, buffers)
      else if m_baseSize ba = 0 then Inl DivByZero
      else
        let npos = position mod m_baseSize ba; count = position div m_baseSize ba
        in case nth_node ba count (Some 0) of
             Inl e \<Rightarrow> Inl e
           | Inr None \<Rightarrow> Inl NullDeref
           | Inr (Some i) \<Rightarrow>
               (case iov_loop ba (Some i) npos (node_size ba i - npos) len buffers of
                  Inl e \<Rightarrow> Inl e
                | Inr bufs \<Rightarrow> Inr (len, bufs)))"

definition ByteArray_getWriteBuffers ::
    "iovec list \<Rightarrow> nat \<Rightarrow> (bytearray, nat \<times> iovec list) oper" where
  "ByteArray_getWriteBuffers buffers len ba =
     (if len = 0 then (Inr (0, buffers), ba)
      else case ByteArray_addCapacity len ba of
        (Inl e, ba1) \<Rightarrow> (Inl e, ba1)
      | (Inr _, ba1) \<Rightarrow>
          if m_baseSize ba1 = 0 then (Inl DivByZero, ba1)
          else case m_cur ba1 of
            None \<Rightarrow> (Inl NullDeref, ba1)
          | Some i \<Rightarrow>
              let npos = m_position ba1 mod m_baseSize ba1
              in case iov_loop ba1 (Some i) npos (node_size ba1 i - npos) len buffers of
                   Inl e \<Rightarrow> (Inl e, ba1)
                 | Inr bufs \<Rightarrow> (Inr (len, bufs), ba1))"

definition iov_bytes :: "bytearray \<Rightarrow> iovec list \<Rightarrow> byte list" where
  "iov_bytes ba iovs = concat (map (\<lambda>(i, off, n). memcpy_from ba i off n) iovs)"

subsection \<open>Files\<close>

text \<open>
  \<open>writeToFile\<close>: \<open>opened\<close> tells whether the stream could be opened; the result is the return value and
  the bytes the stream got. The loop counts in \<open>int64_t\<close>.
\<close>

function write_file_loop :: "bytearray \<Rightarrow> nat option \<Rightarrow> int \<Rightarrow> int \<Rightarrow> byte list \<Rightarrow> byte list res" where
  "write_file_loop ba cur pos read_size ofs =
     (if read_size \<le> 0 then Inr ofs
      else case cur of
        None \<Rightarrow> Inl NullDeref
      | Some i \<Rightarrow>
          let diff = pos mod int (m_baseSize ba);
              len = (if read_size > int (m_baseSize ba) then int (m_baseSize ba) else read_size) - diff
          in if len < 0 then Inl BadMemory
             else write_file_loop ba (node_next ba i) (pos + len) (read_size - len)
                    (ofs @ memcpy_from ba i (nat diff) (nat len)))"
  by pat_completeness auto
termination
  by (relation "measure (\<lambda>(ba, cur, pos, read_size, ofs).
        case cur of None \<Rightarrow> 0 | Some i \<Rightarrow> Suc (length (m_nodes ba) - i))")
     (auto simp: node_next_def split: if_splits)

declare write_file_loop.simps [simp del]

definition ByteArray_writeToFile :: "bool \<Rightarrow> bytearray \<Rightarrow> (bool \<times> byte list) res" where
  "ByteArray_writeToFile opened ba =
     (if \<not> opened then Inr (False, [])
      else case write_file_loop ba (m_cur ba) (int (m_position ba))
                  (int (ByteArray_getReadSize ba)) [] of
        Inl e \<Rightarrow> Inl e
      | Inr ofs \<Rightarrow> Inr (True, ofs))"

text \<open>
  \<open>readFromFile\<close>: the file is a byte list; reading fewer than \<open>m_baseSize\<close> bytes sets the end-of-file
  flag. With \<open>m_baseSize = 0\<close> the flag would never be set.
\<close>

function read_file_loop :: "nat \<Rightarrow> byte list \<Rightarrow> (bytearray, unit) oper" where
  "read_file_loop b ifs ba =
     (if b = 0 then (Inl NoReturn, ba)
      else case ByteArray_write (take b ifs) ba of
        (Inl e, ba1) \<Rightarrow> (Inl e, ba1)
      | (Inr _, ba1) \<Rightarrow>
          if length ifs < b then (Inr (), ba1) else read_file_loop b (drop b ifs) ba1)"
  by pat_completeness auto
termination
  by (relation "measure (\<lambda>(b, ifs, ba). length ifs)") auto

declare read_file_loop.simps [simp del]

definition ByteArray_readFromFile :: "byte list option \<Rightarrow> (bytearray, bool) oper" where
  "ByteArray_readFromFile file ba =
     (case file of
        None \<Rightarrow> (Inr False, ba)
      | Some ifs \<Rightarrow>
          (case read_file_loop (m_baseSize ba) ifs ba of
             (Inl e, ba1) \<Rightarrow> (Inl e, ba1)
           | (Inr _, ba1) \<Rightarrow> (Inr True, ba1)))"

end
