(* ===== verification/Mingo_ByteArray_Spec.thy ===== *)
theory Mingo_ByteArray_Spec
  imports Mingo_ByteArray
begin

text \<open>
  Correctness of the raw buffer: the invariant of the block chain, the flat byte string it stands
  for, and the refinement of every operation of \<^verbatim>\<open>ByteArray\<close> to the flat one. The contract that the
  serialisation layer relies on is the locale \<open>byte_buffer\<close>, interpreted here on the chain.
\<close>

section \<open>Invariant and abstraction\<close>

definition cursor_at :: "bytearray \<Rightarrow> nat \<Rightarrow> nat option" where
  "cursor_at ba p = (if p < m_capacity ba then Some (p div m_baseSize ba) else None)"

definition ba_inv :: "bytearray \<Rightarrow> bool" where
  "ba_inv ba \<longleftrightarrow>
     0 < m_baseSize ba \<and> blocks (m_baseSize ba) (m_nodes ba) \<and> m_nodes ba \<noteq> [] \<and>
     m_capacity ba = m_baseSize ba * length (m_nodes ba) \<and>
     m_position ba \<le> m_size ba \<and> m_size ba \<le> m_capacity ba \<and>
     m_cur ba = cursor_at ba (m_position ba)"

definition ba_contents :: "bytearray \<Rightarrow> byte list" where
  "ba_contents ba = take (m_size ba) (concat (m_nodes ba))"

text \<open>Room for \<open>n\<close> bytes at the position, after the growth that \<open>addCapacity\<close> makes.\<close>

definition write_fits :: "nat \<Rightarrow> bytearray \<Rightarrow> bool" where
  "write_fits n ba \<longleftrightarrow>
     (let cap = ByteArray_getCapacity ba; r = n - cap
      in n \<le> cap \<or> r mod m_baseSize ba = 0 \<or> cap < r mod m_baseSize ba)"

lemma length_ba_contents [simp]: "ba_inv ba \<Longrightarrow> length (ba_contents ba) = m_size ba"
  by (auto simp: ba_inv_def ba_contents_def)

lemma ba_inv_cursor:
  assumes "ba_inv ba" and "m_position ba < m_capacity ba"
  obtains i where "m_cur ba = Some i" "i = m_position ba div m_baseSize ba" "i < length (m_nodes ba)"
    "m_position ba = m_baseSize ba * i + m_position ba mod m_baseSize ba"
    "node_size ba i = m_baseSize ba"
proof -
  let ?i = "m_position ba div m_baseSize ba"
  have "?i < length (m_nodes ba)"
    using assms by (simp add: ba_inv_def less_mult_imp_div_less mult.commute)
  then show thesis
    using assms that [of ?i] by (simp add: ba_inv_def cursor_at_def node_size_def)
qed

lemma node_next_cursor:
  "m_capacity ba = m_baseSize ba * length (m_nodes ba) \<Longrightarrow> 0 < m_baseSize ba \<Longrightarrow>
   node_next ba i = cursor_at ba (m_baseSize ba * Suc i)"
  using mult_less_cancel1 [of "m_baseSize ba" "Suc i" "length (m_nodes ba)"]
  by (simp add: node_next_def cursor_at_def del: mult_Suc_right)

lemma cursor_at_in_block:
  "m_capacity ba = m_baseSize ba * length (m_nodes ba) \<Longrightarrow> i < length (m_nodes ba) \<Longrightarrow>
   k < m_baseSize ba \<Longrightarrow> cursor_at ba (m_baseSize ba * i + k) = Some i"
proof -
  assume a: "m_capacity ba = m_baseSize ba * length (m_nodes ba)" "i < length (m_nodes ba)"
    "k < m_baseSize ba"
  then have "m_baseSize ba * i + k < m_baseSize ba * Suc i" by simp
  also have "\<dots> \<le> m_capacity ba" using a by (simp only: a(1)) (rule mult_le_mono2, simp)
  finally show ?thesis using a by (simp add: cursor_at_def)
qed

text \<open>Where the cursor goes when a transfer ends inside or at the end of block \<open>i\<close>.\<close>

lemma cursor_after_block:
  assumes "m_capacity ba = m_baseSize ba * length (m_nodes ba)" "i < length (m_nodes ba)"
    and "0 < m_baseSize ba" "k \<le> m_baseSize ba"
  shows "(if m_baseSize ba = k then node_next ba i else Some i) = cursor_at ba (m_baseSize ba * i + k)"
proof (cases "m_baseSize ba = k")
  case True
  then show ?thesis using node_next_cursor [OF assms(1,3), of i] by (simp add: add.commute)
next
  case False
  then show ?thesis using cursor_at_in_block [of ba i k] assms by simp
qed

lemma node_next_Some:
  assumes "m_capacity ba = m_baseSize ba * length (m_nodes ba)" "m_baseSize ba * Suc i < m_capacity ba"
  shows "node_next ba i = Some (Suc i)" "Suc i < length (m_nodes ba)"
  using assms mult_less_cancel1 [of "m_baseSize ba" "Suc i" "length (m_nodes ba)"]
  by (auto simp: node_next_def simp del: mult_Suc_right)

lemma cursor_at_cong:
  "m_capacity ba' = m_capacity ba \<Longrightarrow> m_baseSize ba' = m_baseSize ba \<Longrightarrow>
   cursor_at ba' p = cursor_at ba p"
  by (simp add: cursor_at_def)

section \<open>The write loop\<close>

text \<open>What the loops may assume at a block: a well-formed chain and the position inside block \<open>i\<close>.\<close>

definition at_block :: "bytearray \<Rightarrow> nat \<Rightarrow> nat \<Rightarrow> bool" where
  "at_block ba i npos \<longleftrightarrow>
     0 < m_baseSize ba \<and> blocks (m_baseSize ba) (m_nodes ba) \<and>
     m_capacity ba = m_baseSize ba * length (m_nodes ba) \<and>
     i < length (m_nodes ba) \<and> npos < m_baseSize ba"

lemma at_block_size [simp]: "at_block ba i npos \<Longrightarrow> node_size ba i = m_baseSize ba"
  by (simp add: at_block_def node_size_def)

lemma at_block_cong:
  "m_baseSize ba' = m_baseSize ba \<Longrightarrow> m_nodes ba' = m_nodes ba \<Longrightarrow> m_capacity ba' = m_capacity ba \<Longrightarrow>
   at_block ba' i npos = at_block ba i npos"
  by (simp add: at_block_def)

lemma at_block_next:
  assumes "at_block ba i npos" "m_position ba = m_baseSize ba * i + npos"
    and "m_baseSize ba - npos < n" "m_position ba + n \<le> m_capacity ba"
  shows "node_next ba i = Some (Suc i)" "at_block ba (Suc i) 0"
    "m_position ba + (m_baseSize ba - npos) = m_baseSize ba * Suc i"
proof -
  show p: "m_position ba + (m_baseSize ba - npos) = m_baseSize ba * Suc i"
    using assms by (simp add: at_block_def)
  then have "m_baseSize ba * Suc i < m_capacity ba" using assms by linarith
  with assms show "node_next ba i = Some (Suc i)" "at_block ba (Suc i) 0"
    using node_next_Some [of ba i] by (auto simp: at_block_def)
qed

lemma at_block_memcpy:
  assumes "at_block ba i npos" "npos + length buf \<le> m_baseSize ba"
  shows "blocks (m_baseSize ba) (m_nodes (memcpy_to i npos buf ba))"
    and "concat (m_nodes (memcpy_to i npos buf ba)) =
         put (m_baseSize ba * i + npos) buf (concat (m_nodes ba))"
proof -
  have "length (m_nodes ba ! i) = m_baseSize ba"
    using assms(1) by (simp add: at_block_def)
  then have "length (put npos buf (m_nodes ba ! i)) = m_baseSize ba"
    using assms(2) by simp
  then show "blocks (m_baseSize ba) (m_nodes (memcpy_to i npos buf ba))"
    using assms by (simp add: at_block_def memcpy_to_def blocks_update)
  show "concat (m_nodes (memcpy_to i npos buf ba)) =
         put (m_baseSize ba * i + npos) buf (concat (m_nodes ba))"
    using assms block_put [of "m_baseSize ba" "m_nodes ba" i npos buf]
    by (simp add: at_block_def memcpy_to_def)
qed

text \<open>One round of the loop: the transfer ends in this block, or it fills the block and moves on.\<close>

lemma write_loop_last:
  assumes "at_block ba i npos" "m_cur ba = Some i" "m_position ba = m_baseSize ba * i + npos"
    and "buf \<noteq> []" "npos + length buf \<le> m_baseSize ba"
  shows "write_loop npos (m_baseSize ba - npos) buf ba =
    (Inr (), (memcpy_to i npos buf ba)\<lparr>m_position := m_position ba + length buf,
               m_cur := cursor_at ba (m_position ba + length buf)\<rparr>)"
  using assms cursor_after_block [of ba i "npos + length buf"]
  by (subst write_loop.simps) (auto simp: Let_def memcpy_to_def at_block_def node_size_def add.assoc)

lemma write_loop_next:
  assumes "m_cur ba = Some i" "ncap < length buf" "node_next ba i = Some j"
  shows "write_loop npos ncap buf ba =
    write_loop 0 (node_size ba j) (drop ncap buf)
      ((memcpy_to i npos (take ncap buf) ba)\<lparr>m_position := m_position ba + ncap, m_cur := Some j\<rparr>)"
  using assms by (subst write_loop.simps) (auto simp: Let_def)

lemma write_loop_spec:
  assumes "at_block ba i npos" "m_cur ba = Some i" "m_position ba = m_baseSize ba * i + npos"
    and "buf \<noteq> []" "m_position ba + length buf \<le> m_capacity ba"
  shows "\<exists>ns. write_loop npos (m_baseSize ba - npos) buf ba =
      (Inr (), ba\<lparr>m_nodes := ns, m_position := m_position ba + length buf,
                  m_cur := cursor_at ba (m_position ba + length buf)\<rparr>) \<and>
      blocks (m_baseSize ba) ns \<and> length ns = length (m_nodes ba) \<and>
      concat ns = put (m_position ba) buf (concat (m_nodes ba))"
  using assms
proof (induction "length (m_nodes ba) - i" arbitrary: npos buf ba i)
  case 0
  then show ?case by (simp add: at_block_def)
next
  case (Suc x)
  let ?b = "m_baseSize ba" and ?k = "m_baseSize ba - npos"
  note A = Suc.prems
  show ?case
  proof (cases "npos + length buf \<le> ?b")
    case True
    with A show ?thesis
      using write_loop_last [OF A(1-4) True] at_block_memcpy [OF A(1) True]
      by (auto simp: memcpy_to_def)
  next
    case False
    then have long: "?k < length buf" using A(1) unfolding at_block_def by linarith
    let ?ba1 = "(memcpy_to i npos (take ?k buf) ba)\<lparr>m_position := m_position ba + ?k, m_cur := Some (Suc i)\<rparr>"
    note nx = at_block_next [OF A(1,3) long A(5)]
    have fit: "npos + length (take ?k buf) \<le> ?b" using A(1) by (auto simp: at_block_def min_def)
    note mc = at_block_memcpy [OF A(1) fit]
    have at1: "at_block ?ba1 (Suc i) 0"
      using nx(2) mc(1) by (simp add: at_block_def memcpy_to_def)
    have pos1: "m_position ?ba1 + length (drop ?k buf) = m_position ba + length buf"
      using long by simp
    have cur1: "cursor_at ?ba1 p = cursor_at ba p" for p
      by (rule cursor_at_cong) (simp_all add: memcpy_to_def)
    have "\<exists>ns. write_loop 0 (m_baseSize ?ba1 - 0) (drop ?k buf) ?ba1 =
      (Inr (), ?ba1\<lparr>m_nodes := ns, m_position := m_position ?ba1 + length (drop ?k buf),
                  m_cur := cursor_at ?ba1 (m_position ?ba1 + length (drop ?k buf))\<rparr>) \<and>
      blocks (m_baseSize ?ba1) ns \<and> length ns = length (m_nodes ?ba1) \<and>
      concat ns = put (m_position ?ba1) (drop ?k buf) (concat (m_nodes ?ba1))"
      using Suc.hyps(2) nx(3) A(5) long at1
      by (intro Suc.hyps(1)) (auto simp: memcpy_to_def)
    then obtain ns where ns: "write_loop 0 ?b (drop ?k buf) ?ba1 =
      (Inr (), ba\<lparr>m_nodes := ns, m_position := m_position ba + length buf,
                  m_cur := cursor_at ba (m_position ba + length buf)\<rparr>)"
      "blocks ?b ns" "length ns = length (m_nodes ba)"
      "concat ns = put (m_position ba + ?k) (drop ?k buf)
                     (put (m_position ba) (take ?k buf) (concat (m_nodes ba)))"
      unfolding pos1 cur1 using mc(2) A(3) by (auto simp: memcpy_to_def)
    have "write_loop npos ?k buf ba = write_loop 0 ?b (drop ?k buf) ?ba1"
      using write_loop_next [OF A(2) long nx(1), of npos] nx(2) by simp
    moreover have "concat ns = put (m_position ba) buf (concat (m_nodes ba))"
      using put_put_append [of "m_position ba" "concat (m_nodes ba)" "take ?k buf" "drop ?k buf"]
        A(1,5) long ns(4) by (auto simp: at_block_def min_def)
    ultimately show ?thesis using ns by auto
  qed
qed

text \<open>When the chain is too short for the transfer, the loop runs off its end.\<close>

lemma write_loop_overrun:
  assumes "at_block ba i npos" "m_cur ba = Some i" "m_position ba = m_baseSize ba * i + npos"
    and "m_capacity ba < m_position ba + length buf"
  shows "fst (write_loop npos (m_baseSize ba - npos) buf ba) = Inl NullDeref"
  using assms
proof (induction "length (m_nodes ba) - i" arbitrary: npos buf ba i)
  case 0
  then show ?case by (simp add: at_block_def)
next
  case (Suc x)
  let ?b = "m_baseSize ba" and ?k = "m_baseSize ba - npos"
  note A = Suc.prems
  have end_i: "m_position ba + ?k = ?b * Suc i" "?b * Suc i \<le> m_capacity ba"
    using A mult_le_mono2 [of "Suc i" "length (m_nodes ba)" ?b] by (auto simp: at_block_def)
  then have long: "?k < length buf" using A(4) by linarith
  show ?case
  proof (cases "Suc i < length (m_nodes ba)")
    case False
    then show ?thesis
      using A(2) long by (subst write_loop.simps) (auto simp: Let_def node_next_def)
  next
    case True
    let ?ba1 = "(memcpy_to i npos (take ?k buf) ba)\<lparr>m_position := m_position ba + ?k, m_cur := Some (Suc i)\<rparr>"
    have fit: "npos + length (take ?k buf) \<le> ?b" using A(1) by (auto simp: at_block_def min_def)
    have "fst (write_loop 0 (m_baseSize ?ba1 - 0) (drop ?k buf) ?ba1) = Inl NullDeref"
      using Suc.hyps(2) A True end_i long at_block_memcpy(1) [OF A(1) fit]
      by (intro Suc.hyps(1)) (auto simp: at_block_def memcpy_to_def)
    then show ?thesis
      using write_loop_next [OF A(2) long, of "Suc i" npos] A(1) True
      by (auto simp: at_block_def memcpy_to_def node_size_def node_next_def)
  qed
qed

lemma ba_inv_at_block:
  assumes "ba_inv ba" "m_position ba < m_capacity ba"
  obtains i where "m_cur ba = Some i" "at_block ba i (m_position ba mod m_baseSize ba)"
    "m_position ba = m_baseSize ba * i + m_position ba mod m_baseSize ba"
    "node_size ba i = m_baseSize ba" "0 < m_baseSize ba"
  using ba_inv_cursor [OF assms] assms by (metis at_block_def ba_inv_def mod_less_divisor)

section \<open>Growth\<close>

lemma add_nodes_eq:
  "\<exists>ns. add_nodes count ba =
     ba\<lparr>m_nodes := m_nodes ba @ ns, m_capacity := m_capacity ba + m_baseSize ba * count\<rparr> \<and>
     length ns = count \<and> blocks (m_baseSize ba) ns"
proof (induction count arbitrary: ba)
  case 0
  have "ba\<lparr>m_nodes := m_nodes ba @ [], m_capacity := m_capacity ba + m_baseSize ba * 0\<rparr> = ba"
    by simp
  then show ?case by (auto simp: blocks_def)
next
  case (Suc count)
  let ?n = "Node_new (m_fresh ba (length (m_nodes ba))) (m_baseSize ba)"
  from Suc [of "ba\<lparr>m_nodes := m_nodes ba @ [?n], m_capacity := m_capacity ba + m_baseSize ba\<rparr>"]
  obtain ns where
    "add_nodes (Suc count) ba = ba\<lparr>m_nodes := m_nodes ba @ (?n # ns),
       m_capacity := m_capacity ba + m_baseSize ba * Suc count\<rparr>"
    "length ns = count" "blocks (m_baseSize ba) ns"
    by (auto simp: add.assoc)
  then show ?case
    by (intro exI [of _ "?n # ns"]) (auto simp: blocks_def Node_new_def)
qed

lemma addCapacity_count_enough:
  assumes "0 < b"
  shows "r \<le> b * addCapacity_count b old r \<longleftrightarrow> r mod b = 0 \<or> old < r mod b"
proof -
  define q m where "q = r div b" and "m = r mod b"
  have r: "r = b * q + m" and m: "m < b"
    using assms by (simp_all add: q_def m_def)
  have "b * q + m \<le> b * (q + (if old < m then 1 else 0)) \<longleftrightarrow> m = 0 \<or> old < m"
    using m by (auto simp: algebra_simps)
  then show ?thesis
    by (simp only: addCapacity_count_def r [symmetric] q_def [symmetric] m_def [symmetric])
qed

lemma ba_inv_append:
  assumes inv: "ba_inv ba" and ns: "blocks (m_baseSize ba) ns" "length ns = c"
    and c: "m_position ba = m_capacity ba \<Longrightarrow> 0 < c"
  shows "ba_inv (ba\<lparr>m_nodes := m_nodes ba @ ns, m_capacity := m_capacity ba + m_baseSize ba * c,
     m_cur := (if m_position ba = m_capacity ba then Some (length (m_nodes ba)) else m_cur ba)\<rparr>)"
    and "m_position ba < m_capacity ba + m_baseSize ba * c"
proof -
  show lt: "m_position ba < m_capacity ba + m_baseSize ba * c"
    using inv c by (cases "m_position ba = m_capacity ba") (auto simp: ba_inv_def)
  have "m_position ba = m_capacity ba \<Longrightarrow> m_position ba div m_baseSize ba = length (m_nodes ba)"
    using inv by (simp add: ba_inv_def)
  moreover have "m_position ba \<le> m_capacity ba" using inv by (simp add: ba_inv_def)
  ultimately show "ba_inv (ba\<lparr>m_nodes := m_nodes ba @ ns, m_capacity := m_capacity ba + m_baseSize ba * c,
     m_cur := (if m_position ba = m_capacity ba then Some (length (m_nodes ba)) else m_cur ba)\<rparr>)"
    using inv ns lt by (auto simp: ba_inv_def cursor_at_def distrib_left)
qed

lemma addCapacity_spec:
  assumes inv: "ba_inv ba" and n: "0 < n"
  obtains ba' where "ByteArray_addCapacity n ba = (Inr (), ba')" "ba_inv ba'"
    "ba_contents ba' = ba_contents ba" "m_position ba' = m_position ba" "m_size ba' = m_size ba"
    "m_endian ba' = m_endian ba" "m_baseSize ba' = m_baseSize ba"
    "m_position ba + n \<le> m_capacity ba' \<longleftrightarrow> write_fits n ba"
    "m_position ba < m_capacity ba'"
proof (cases "n \<le> ByteArray_getCapacity ba")
  case True
  have "ByteArray_addCapacity n ba = (Inr (), ba)"
    using True n by (simp add: ByteArray_addCapacity_def)
  then show thesis
    using True inv n
    by (intro that [of ba]) (auto simp: write_fits_def ByteArray_getCapacity_def ba_inv_def)
next
  case False
  let ?b = "m_baseSize ba" and ?old = "ByteArray_getCapacity ba"
  let ?c = "addCapacity_count ?b ?old (n - ?old)"
  obtain ns where ns: "add_nodes ?c ba =
      ba\<lparr>m_nodes := m_nodes ba @ ns, m_capacity := m_capacity ba + ?b * ?c\<rparr>"
      "length ns = ?c" "blocks ?b ns"
    using add_nodes_eq by blast
  have b: "0 < ?b" using inv by (simp add: ba_inv_def)
  have fits: "m_position ba + n \<le> m_capacity ba + ?b * ?c \<longleftrightarrow> write_fits n ba"
    using False inv addCapacity_count_enough [OF b, of "n - ?old" ?old]
    by (auto simp: write_fits_def Let_def ByteArray_getCapacity_def ba_inv_def)
  have c: "?old = 0 \<Longrightarrow> 0 < ?c"
    using n b addCapacity_count_enough [OF b, of n 0] by (cases "?c = 0") auto
  have old: "?old = 0 \<longleftrightarrow> m_position ba = m_capacity ba"
    using inv by (auto simp: ByteArray_getCapacity_def ba_inv_def)
  let ?ba' = "(add_nodes ?c ba)\<lparr>m_cur := (if ?old = 0 then Some (length (m_nodes ba)) else m_cur ba)\<rparr>"
  have "ByteArray_addCapacity n ba = (Inr (), ?ba')"
    using False n b c ns(1) by (auto simp: ByteArray_addCapacity_def Let_def)
  moreover have "ba_inv ?ba'" "m_position ba < m_capacity ba + ?b * ?c"
    using ba_inv_append [OF inv ns(3,2)] c old ns(1) by simp_all
  moreover have "m_size ba \<le> length (concat (m_nodes ba))"
    using inv by (auto simp: ba_inv_def)
  then have "ba_contents ?ba' = ba_contents ba"
    using ns by (simp add: ba_contents_def)
  ultimately show thesis
    using ns fits by (intro that [of ?ba']) simp_all
qed

section \<open>Write refines the flat write\<close>

lemma put_take:
  "k \<le> n \<Longrightarrow> n \<le> length ys \<Longrightarrow> k + length xs \<le> length ys \<Longrightarrow>
   take (max n (k + length xs)) (put k xs ys) = put k xs (take n ys)"
  by (auto simp: put_def max_def drop_take)

lemma write_refines:
  assumes inv: "ba_inv ba" and fits: "write_fits (length buf) ba"
  shows "\<exists>ba'. ByteArray_write buf ba = (Inr (), ba') \<and> ba_inv ba' \<and>
     ba_contents ba' = put (m_position ba) buf (ba_contents ba) \<and>
     m_position ba' = m_position ba + length buf \<and>
     m_size ba' = max (m_size ba) (m_position ba + length buf) \<and>
     m_endian ba' = m_endian ba \<and> m_baseSize ba' = m_baseSize ba"
proof (cases "buf = []")
  case True
  then show ?thesis using inv by (auto simp: ByteArray_write_def ba_inv_def)
next
  case False
  then have n: "0 < length buf" by simp
  from addCapacity_spec [OF inv n] obtain ba1 where
    A: "ByteArray_addCapacity (length buf) ba = (Inr (), ba1)" "ba_inv ba1"
      "ba_contents ba1 = ba_contents ba" "m_position ba1 = m_position ba" "m_size ba1 = m_size ba"
      "m_endian ba1 = m_endian ba" "m_baseSize ba1 = m_baseSize ba"
      "m_position ba + length buf \<le> m_capacity ba1" "m_position ba < m_capacity ba1"
    using fits by metis
  let ?npos = "m_position ba1 mod m_baseSize ba1"
  obtain i where I: "m_cur ba1 = Some i" "at_block ba1 i ?npos"
      "m_position ba1 = m_baseSize ba1 * i + ?npos" "node_size ba1 i = m_baseSize ba1" "0 < m_baseSize ba1"
    using ba_inv_at_block [of ba1] A by metis
  obtain ns where W: "write_loop ?npos (m_baseSize ba1 - ?npos) buf ba1 =
      (Inr (), ba1\<lparr>m_nodes := ns, m_position := m_position ba1 + length buf,
                  m_cur := cursor_at ba1 (m_position ba1 + length buf)\<rparr>)"
      "blocks (m_baseSize ba1) ns" "length ns = length (m_nodes ba1)"
      "concat ns = put (m_position ba1) buf (concat (m_nodes ba1))"
    using write_loop_spec [OF I(2,1,3) False] A by auto
  let ?ba' = "ba1\<lparr>m_nodes := ns, m_position := m_position ba + length buf,
      m_size := max (m_size ba) (m_position ba + length buf),
      m_cur := cursor_at ba1 (m_position ba + length buf)\<rparr>"
  have "ByteArray_write buf ba = (Inr (), ?ba')"
    using False A(1,4,5) I(1,4,5) W(1) by (simp add: ByteArray_write_def Let_def max_def)
  moreover have "ba_inv ?ba'"
    using A W by (auto simp: ba_inv_def cursor_at_def)
  moreover have "ba_contents ?ba' = put (m_position ba) buf (ba_contents ba1)"
    using A W put_take [of "m_position ba" "m_size ba" "concat (m_nodes ba1)" buf]
    by (auto simp: ba_contents_def ba_inv_def)
  ultimately show ?thesis using A by auto
qed

lemma write_overruns:
  assumes inv: "ba_inv ba" and fits: "\<not> write_fits (length buf) ba"
  shows "fst (ByteArray_write buf ba) = Inl NullDeref"
proof -
  have buf: "buf \<noteq> []" using fits by (auto simp: write_fits_def)
  then have n: "0 < length buf" by simp
  from addCapacity_spec [OF inv n] obtain ba1 where
    A: "ByteArray_addCapacity (length buf) ba = (Inr (), ba1)" "ba_inv ba1"
      "m_position ba1 = m_position ba" "m_baseSize ba1 = m_baseSize ba"
      "m_capacity ba1 < m_position ba + length buf" "m_position ba < m_capacity ba1"
    using fits not_le by metis
  let ?npos = "m_position ba1 mod m_baseSize ba1"
  obtain i where I: "m_cur ba1 = Some i" "at_block ba1 i ?npos"
      "m_position ba1 = m_baseSize ba1 * i + ?npos" "node_size ba1 i = m_baseSize ba1" "0 < m_baseSize ba1"
    using ba_inv_at_block [of ba1] A by metis
  have "fst (write_loop ?npos (m_baseSize ba1 - ?npos) buf ba1) = Inl NullDeref"
    using write_loop_overrun [OF I(2,1,3)] A by simp
  then show ?thesis
    using A(1) I(1,4,5) buf by (auto simp: ByteArray_write_def Let_def split: prod.splits sum.splits)
qed

section \<open>The read loops\<close>

lemma at_block_memcpy_from:
  assumes "at_block ba i npos" "npos + n \<le> m_baseSize ba"
  shows "memcpy_from ba i npos n = take n (drop (m_baseSize ba * i + npos) (concat (m_nodes ba)))"
  using assms block_take_drop by (auto simp: at_block_def memcpy_from_def)

lemma take_drop_split:
  "k \<le> n \<Longrightarrow> take k (drop p xs) @ take (n - k) (drop (p + k) xs) = take n (drop p xs)"
  by (metis add.commute drop_drop le_add_diff_inverse take_add)

lemma memcpy_from_cong: "m_nodes ba' = m_nodes ba \<Longrightarrow> memcpy_from ba' i off n = memcpy_from ba i off n"
  by (simp add: memcpy_from_def)

lemma read_loop_spec:
  assumes "at_block ba i npos" "m_cur ba = Some i" "m_position ba = m_baseSize ba * i + npos"
    and "0 < n" "m_position ba + n \<le> m_capacity ba"
  shows "read_loop npos (m_baseSize ba - npos) n buf ba =
      (Inr (buf @ take n (drop (m_position ba) (concat (m_nodes ba)))),
       ba\<lparr>m_position := m_position ba + n, m_cur := cursor_at ba (m_position ba + n)\<rparr>)"
  using assms
proof (induction "length (m_nodes ba) - i" arbitrary: npos n buf ba i)
  case 0
  then show ?case by (simp add: at_block_def)
next
  case (Suc x)
  let ?b = "m_baseSize ba" and ?k = "m_baseSize ba - npos"
  note A = Suc.prems
  show ?case
  proof (cases "npos + n \<le> ?b")
    case True
    have cur: "(if ?b = npos + n then node_next ba i else Some i) = cursor_at ba (m_position ba + n)"
      using cursor_after_block [of ba i "npos + n"] A True by (simp add: at_block_def add.assoc)
    have "read_loop npos ?k n buf ba = (Inr (buf @ memcpy_from ba i npos n),
       ba\<lparr>m_position := m_position ba + n, m_cur := (if ?b = npos + n then node_next ba i else Some i)\<rparr>)"
      using A True by (subst read_loop.simps) (auto simp: Let_def)
    then show ?thesis
      unfolding cur using at_block_memcpy_from [OF A(1) True] A(3) by simp
  next
    case False
    then have long: "?k < n" using A(1) unfolding at_block_def by linarith
    let ?ba1 = "ba\<lparr>m_position := m_position ba + ?k, m_cur := Some (Suc i)\<rparr>"
    note nx = at_block_next [OF A(1,3) long A(5)]
    have at1: "at_block ?ba1 (Suc i) 0" using nx(2) by (simp add: at_block_def)
    have cur1: "cursor_at ?ba1 p = cursor_at ba p" for p by (rule cursor_at_cong) simp_all
    have fit: "npos + ?k \<le> ?b" using A(1) by (simp add: at_block_def)
    have "read_loop npos ?k n buf ba =
        read_loop 0 (m_baseSize ?ba1 - 0) (n - ?k) (buf @ memcpy_from ba i npos ?k) ?ba1"
      using A long nx by (subst read_loop.simps) (simp add: Let_def)
    also have "\<dots> = (Inr ((buf @ memcpy_from ba i npos ?k) @
          take (n - ?k) (drop (m_position ?ba1) (concat (m_nodes ?ba1)))),
        ?ba1\<lparr>m_position := m_position ?ba1 + (n - ?k), m_cur := cursor_at ?ba1 (m_position ?ba1 + (n - ?k))\<rparr>)"
      using Suc.hyps(2) nx(3) A(5) long at1 by (intro Suc.hyps(1)) auto
    also have "\<dots> = (Inr (buf @ take n (drop (m_position ba) (concat (m_nodes ba)))),
       ba\<lparr>m_position := m_position ba + n, m_cur := cursor_at ba (m_position ba + n)\<rparr>)"
      unfolding cur1
      using at_block_memcpy_from [OF A(1) fit] A(3) long
        take_drop_split [of ?k n "m_position ba" "concat (m_nodes ba)"] by (simp add: add.assoc)
    finally show ?thesis .
  qed
qed

text \<open>The positional read and the scatter list walk the chain in the same way.\<close>

lemma read_at_loop_frame [simp]:
  "read_at_loop (ba\<lparr>m_position := p, m_cur := c\<rparr>) cur npos ncap n buf = read_at_loop ba cur npos ncap n buf"
  by (induction "ba\<lparr>m_position := p, m_cur := c\<rparr>" cur npos ncap n buf rule: read_at_loop.induct)
    (subst (1 2) read_at_loop.simps,
      auto simp: memcpy_from_def node_next_def node_size_def split: option.splits)

lemma fst_read_loop:
  "fst (read_loop npos ncap n buf ba) = read_at_loop ba (m_cur ba) npos ncap n buf"
proof (induction npos ncap n buf ba rule: read_loop.induct)
  case (1 npos ncap n buf ba)
  show ?case
    using 1
    by (subst read_loop.simps, subst read_at_loop.simps) (auto simp: Let_def split: option.splits)
qed

lemma read_at_loop_iov:
  "read_at_loop ba cur npos ncap n (iov_bytes ba iovs) =
     (case iov_loop ba cur npos ncap n iovs of Inl e \<Rightarrow> Inl e | Inr v \<Rightarrow> Inr (iov_bytes ba v))"
proof (induction ba cur npos ncap n iovs rule: iov_loop.induct)
  case (1 ba cur npos ncap n iovs)
  then show ?case
    by (subst read_at_loop.simps, subst iov_loop.simps) (auto simp: iov_bytes_def split: option.splits)
qed

lemma iov_loop_total:
  "iov_loop ba cur npos ncap n iovs = Inr v \<Longrightarrow>
   sum_list (map (\<lambda>(i, off, l). l) v) = sum_list (map (\<lambda>(i, off, l). l) iovs) + n"
proof (induction ba cur npos ncap n iovs rule: iov_loop.induct)
  case (1 ba cur npos ncap n iovs)
  then show ?case
    by (subst (asm) iov_loop.simps) (auto split: option.splits if_splits)
qed

lemma read_at_loop_spec:
  assumes "at_block ba i npos" "0 < n" "m_baseSize ba * i + npos + n \<le> m_capacity ba"
  shows "read_at_loop ba (Some i) npos (m_baseSize ba - npos) n buf =
     Inr (buf @ take n (drop (m_baseSize ba * i + npos) (concat (m_nodes ba))))"
proof -
  let ?ba = "ba\<lparr>m_position := m_baseSize ba * i + npos, m_cur := Some i\<rparr>"
  have "fst (read_loop npos (m_baseSize ?ba - npos) n buf ?ba) =
      Inr (buf @ take n (drop (m_position ?ba) (concat (m_nodes ?ba))))"
    using read_loop_spec [of ?ba i npos n buf] assms by (simp add: at_block_def)
  then show ?thesis by (simp add: fst_read_loop)
qed

section \<open>Read, seek and clear refine the flat operations\<close>

lemma take_drop_contents:
  "p + n \<le> m_size ba \<Longrightarrow> take n (drop p (concat (m_nodes ba))) = take n (drop p (ba_contents ba))"
  by (simp add: ba_contents_def drop_take min_def)

lemma read_refines:
  assumes inv: "ba_inv ba" and n: "0 < n" "m_position ba + n \<le> m_size ba"
  shows "ByteArray_read n ba = (Inr (take n (drop (m_position ba) (ba_contents ba))),
     ba\<lparr>m_position := m_position ba + n, m_cur := cursor_at ba (m_position ba + n)\<rparr>)"
proof -
  have cap: "m_position ba < m_capacity ba" "m_position ba + n \<le> m_capacity ba"
    using inv n by (auto simp: ba_inv_def)
  obtain i where I: "m_cur ba = Some i" "at_block ba i (m_position ba mod m_baseSize ba)"
      "m_position ba = m_baseSize ba * i + m_position ba mod m_baseSize ba"
      "node_size ba i = m_baseSize ba" "0 < m_baseSize ba"
    using ba_inv_at_block [OF inv cap(1)] .
  show ?thesis
    using read_loop_spec [OF I(2,1,3) n(1) cap(2), of "[]"] I(1,4,5) n(2) take_drop_contents [OF n(2)]
    by (simp add: ByteArray_read_def ByteArray_getReadSize_def Let_def)
qed

lemma read_inv:
  assumes "ba_inv ba" "m_position ba + n \<le> m_size ba"
  shows "ba_inv (ba\<lparr>m_position := m_position ba + n, m_cur := cursor_at ba (m_position ba + n)\<rparr>)"
  using assms by (auto simp: ba_inv_def cursor_at_def)

lemma read_out_of_range:
  "m_size ba - m_position ba < n \<Longrightarrow> ByteArray_read n ba = (Inl OutOfRange, ba)"
  by (simp add: ByteArray_read_def ByteArray_getReadSize_def)

text \<open>A read of no bytes touches \<open>m_cur\<close> all the same, and that pointer is null at the end of the chain.\<close>

lemma read_zero:
  assumes "ba_inv ba"
  shows "ByteArray_read 0 ba =
     (if m_position ba = m_capacity ba then (Inl NullDeref, ba) else (Inr [], ba))"
proof -
  have "m_cur ba = (if m_position ba = m_capacity ba then None
        else Some (m_position ba div m_baseSize ba))" "0 < m_baseSize ba"
    using assms by (auto simp: ba_inv_def cursor_at_def)
  then show ?thesis by (simp add: ByteArray_read_def Let_def read_loop.simps)
qed

lemma seek_loop_spec:
  assumes "0 < m_baseSize ba" "blocks (m_baseSize ba) (m_nodes ba)" "i < length (m_nodes ba)"
    and "m_capacity ba = m_baseSize ba * length (m_nodes ba)" "m_baseSize ba * i + v \<le> m_capacity ba"
  shows "seek_loop ba v (Some i) = Inr (cursor_at ba (m_baseSize ba * i + v))"
  using assms
proof (induction "length (m_nodes ba) - i" arbitrary: v i)
  case 0
  then show ?case by simp
next
  case (Suc x)
  note A = Suc.prems
  have sz: "node_size ba i = m_baseSize ba" using A by (simp add: node_size_def)
  show ?case
  proof (cases "m_baseSize ba < v")
    case True
    then have lt: "m_baseSize ba * Suc i < m_capacity ba" using A(5) by simp
    note nx = node_next_Some [OF A(4) lt]
    have "seek_loop ba v (Some i) = seek_loop ba (v - m_baseSize ba) (Some (Suc i))"
      using True sz nx by (subst seek_loop.simps) simp
    also have "\<dots> = Inr (cursor_at ba (m_baseSize ba * Suc i + (v - m_baseSize ba)))"
      using Suc.hyps(2) A True nx by (intro Suc.hyps(1)) auto
    finally show ?thesis using True by (simp add: add.commute)
  next
    case False
    then show ?thesis
      using sz cursor_after_block [of ba i v] A by (subst seek_loop.simps) auto
  qed
qed

lemma setPosition_refines:
  assumes "ba_inv ba" "v \<le> m_capacity ba"
  shows "ByteArray_setPosition v ba =
     (Inr (), ba\<lparr>m_position := v, m_size := max (m_size ba) v, m_cur := cursor_at ba v\<rparr>)"
proof -
  let ?ba1 = "ba\<lparr>m_position := v, m_size := max (m_size ba) v\<rparr>"
  have "seek_loop ?ba1 v (Some 0) = Inr (cursor_at ?ba1 (m_baseSize ?ba1 * 0 + v))"
    using assms by (intro seek_loop_spec) (auto simp: ba_inv_def)
  moreover have "(if v > m_size ba then v else m_size ba) = max (m_size ba) v"
    by simp
  moreover have "cursor_at ?ba1 v = cursor_at ba v"
    by (rule cursor_at_cong) simp_all
  ultimately show ?thesis
    using assms(2) unfolding ByteArray_setPosition_def by (simp add: Let_def)
qed

lemma setPosition_inv:
  assumes "ba_inv ba" "v \<le> m_capacity ba"
  shows "ba_inv (ba\<lparr>m_position := v, m_size := max (m_size ba) v, m_cur := cursor_at ba v\<rparr>)"
  using assms by (auto simp: ba_inv_def cursor_at_def)

lemma ByteArray_new_inv: "0 < b \<Longrightarrow> ba_inv (ByteArray_new g b)"
  by (simp add: ba_inv_def ByteArray_new_def cursor_at_def blocks_def Node_new_def)

lemma ByteArray_clear_inv:
  assumes "ba_inv ba"
  shows "ba_inv (ByteArray_clear ba)" "ba_contents (ByteArray_clear ba) = []"
proof -
  have "length (take 1 (m_nodes ba)) = 1"
    using assms by (cases "m_nodes ba") (auto simp: ba_inv_def)
  then show "ba_inv (ByteArray_clear ba)"
    using assms by (auto simp: ba_inv_def ByteArray_clear_def cursor_at_def blocks_take)
  show "ba_contents (ByteArray_clear ba) = []"
    by (simp add: ba_contents_def ByteArray_clear_def)
qed

section \<open>Views of the readable bytes\<close>

text \<open>The readable bytes, \<open>[m_position, m_size)\<close>.\<close>

definition ba_rest :: "bytearray \<Rightarrow> byte list" where
  "ba_rest ba = drop (m_position ba) (ba_contents ba)"

lemma sub64_diff: "b \<le> a \<Longrightarrow> a < 2 ^ 64 \<Longrightarrow> sub64 a b = a - b"
  by (simp add: sub64_def mod_if)

lemma length_ba_rest: "ba_inv ba \<Longrightarrow> length (ba_rest ba) = ByteArray_getReadSize ba"
  by (simp add: ba_rest_def ByteArray_getReadSize_def)

lemma toString_rest:
  assumes inv: "ba_inv ba" and sz: "m_size ba < 2 ^ 64"
  shows "ByteArray_toString ba = Inr (ba_rest ba)"
proof (cases "m_position ba = m_size ba")
  case True
  then show ?thesis
    using inv by (simp add: ByteArray_toString_def ByteArray_getReadSize_def ba_rest_def)
next
  case False
  let ?n = "m_size ba - m_position ba"
  have n: "0 < ?n" "m_position ba + ?n \<le> m_capacity ba" "m_position ba < m_capacity ba"
    "m_position ba + ?n \<le> m_size ba" "m_position ba \<le> m_size ba"
    using inv False by (auto simp: ba_inv_def)
  obtain i where I: "m_cur ba = Some i" "at_block ba i (m_position ba mod m_baseSize ba)"
      "m_position ba = m_baseSize ba * i + m_position ba mod m_baseSize ba"
      "node_size ba i = m_baseSize ba" "0 < m_baseSize ba"
    using ba_inv_at_block [OF inv n(3)] .
  have "read_at_loop ba (Some i) (m_position ba mod m_baseSize ba)
      (m_baseSize ba - m_position ba mod m_baseSize ba) ?n [] =
      Inr (take ?n (drop (m_position ba) (ba_contents ba)))"
    using read_at_loop_spec [OF I(2) n(1), of "[]"] I(3) n(2) take_drop_contents [OF n(4)] by simp
  moreover have "take ?n (drop (m_position ba) (ba_contents ba)) = ba_rest ba"
    using inv by (simp add: ba_rest_def)
  ultimately show ?thesis
    using I(1,4,5) n sz
    by (simp add: ByteArray_toString_def ByteArray_getReadSize_def ByteArray_read_at_def sub64_diff)
qed

lemma iov_loop_spec:
  assumes "at_block ba i npos" "0 < n" "m_baseSize ba * i + npos + n \<le> m_capacity ba"
  obtains v where "iov_loop ba (Some i) npos (m_baseSize ba - npos) n [] = Inr v"
    "iov_bytes ba v = take n (drop (m_baseSize ba * i + npos) (concat (m_nodes ba)))"
    "sum_list (map (\<lambda>(i, off, l). l) v) = n"
proof -
  have "iov_bytes ba [] = []" by (simp add: iov_bytes_def)
  then have "(case iov_loop ba (Some i) npos (m_baseSize ba - npos) n [] of
      Inl e \<Rightarrow> Inl e | Inr v \<Rightarrow> Inr (iov_bytes ba v)) =
      (Inr (take n (drop (m_baseSize ba * i + npos) (concat (m_nodes ba)))) :: byte list res)"
    using read_at_loop_iov [of ba "Some i" npos _ n "[]"] read_at_loop_spec [OF assms, of "[]"] by simp
  then obtain v where "iov_loop ba (Some i) npos (m_baseSize ba - npos) n [] = Inr v"
      "iov_bytes ba v = take n (drop (m_baseSize ba * i + npos) (concat (m_nodes ba)))"
    by (auto split: sum.splits)
  then show thesis using that iov_loop_total by fastforce
qed

lemma getReadBuffers_rest:
  assumes inv: "ba_inv ba"
  shows "\<exists>v. ByteArray_getReadBuffers ba [] len = Inr (min len (length (ba_rest ba)), v) \<and>
     iov_bytes ba v = take len (ba_rest ba) \<and>
     sum_list (map (\<lambda>(i, off, l). l) v) = min len (length (ba_rest ba))"
proof (cases "len = 0 \<or> m_position ba = m_size ba")
  case True
  then show ?thesis
    using inv by (auto simp: ByteArray_getReadBuffers_def ByteArray_getReadSize_def ba_rest_def iov_bytes_def)
next
  case False
  let ?n = "min len (m_size ba - m_position ba)"
  have n: "0 < ?n" "m_position ba + ?n \<le> m_capacity ba" "m_position ba < m_capacity ba"
    "m_position ba + ?n \<le> m_size ba"
    using inv False by (auto simp: ba_inv_def min_def)
  obtain i where I: "m_cur ba = Some i" "at_block ba i (m_position ba mod m_baseSize ba)"
      "m_position ba = m_baseSize ba * i + m_position ba mod m_baseSize ba"
      "node_size ba i = m_baseSize ba" "0 < m_baseSize ba"
    using ba_inv_at_block [OF inv n(3)] .
  obtain v where v: "iov_loop ba (Some i) (m_position ba mod m_baseSize ba)
        (m_baseSize ba - m_position ba mod m_baseSize ba) ?n [] = Inr v"
      "iov_bytes ba v = take ?n (drop (m_position ba) (concat (m_nodes ba)))"
      "sum_list (map (\<lambda>(i, off, l). l) v) = ?n"
    using iov_loop_spec [OF I(2) n(1)] I(3) n(2) by auto
  have "take ?n (drop (m_position ba) (ba_contents ba)) = take len (ba_rest ba)"
    using inv by (auto simp: ba_rest_def min_def)
  moreover have clip: "(if len > m_size ba - m_position ba then m_size ba - m_position ba else len) = ?n"
    by simp
  ultimately show ?thesis
    using v I(1,4,5) n(1) take_drop_contents [OF n(4)] inv
    unfolding ByteArray_getReadBuffers_def ByteArray_getReadSize_def clip
    by (intro exI [of _ v]) (auto simp: ba_rest_def Let_def)
qed

text \<open>The gather list for a write covers the next \<open>n\<close> bytes of the memory, grown when needed.\<close>

lemma getWriteBuffers_spec:
  assumes inv: "ba_inv ba" and fits: "write_fits n ba" and n: "0 < n"
  shows "\<exists>v ba'. ByteArray_getWriteBuffers [] n ba = (Inr (n, v), ba') \<and> ba_inv ba' \<and>
     ba_contents ba' = ba_contents ba \<and> m_position ba' = m_position ba \<and>
     iov_bytes ba' v = take n (drop (m_position ba) (concat (m_nodes ba'))) \<and>
     length (iov_bytes ba' v) = n"
proof -
  from addCapacity_spec [OF inv n] obtain ba1 where
    A: "ByteArray_addCapacity n ba = (Inr (), ba1)" "ba_inv ba1" "ba_contents ba1 = ba_contents ba"
      "m_position ba1 = m_position ba" "m_position ba + n \<le> m_capacity ba1"
      "m_position ba < m_capacity ba1"
    using fits by metis
  obtain i where I: "m_cur ba1 = Some i" "at_block ba1 i (m_position ba1 mod m_baseSize ba1)"
      "m_position ba1 = m_baseSize ba1 * i + m_position ba1 mod m_baseSize ba1"
      "node_size ba1 i = m_baseSize ba1" "0 < m_baseSize ba1"
    using ba_inv_at_block [of ba1] A by metis
  obtain v where v: "iov_loop ba1 (Some i) (m_position ba1 mod m_baseSize ba1)
        (m_baseSize ba1 - m_position ba1 mod m_baseSize ba1) n [] = Inr v"
      "iov_bytes ba1 v = take n (drop (m_position ba1) (concat (m_nodes ba1)))"
    using iov_loop_spec [OF I(2) n] I(3) A(4,5) by auto
  have "length (concat (m_nodes ba1)) = m_capacity ba1"
    using A(2) by (auto simp: ba_inv_def)
  then have "length (iov_bytes ba1 v) = n"
    using v(2) A(4,5) by simp
  then show ?thesis
    using v A I(1,4,5) n by (auto simp: ByteArray_getWriteBuffers_def Let_def)
qed

section \<open>Files\<close>

lemma write_file_loop_aligned:
  assumes "0 < m_baseSize ba" "blocks (m_baseSize ba) (m_nodes ba)" "i < length (m_nodes ba)"
    and "m_capacity ba = m_baseSize ba * length (m_nodes ba)" "m_baseSize ba * i + n \<le> m_capacity ba"
  shows "write_file_loop ba (Some i) (int (m_baseSize ba * i)) (int n) ofs =
     Inr (ofs @ take n (drop (m_baseSize ba * i) (concat (m_nodes ba))))"
  using assms
proof (induction "length (m_nodes ba) - i" arbitrary: n i ofs)
  case 0
  then show ?case by simp
next
  case (Suc x)
  let ?b = "m_baseSize ba"
  note A = Suc.prems
  have at: "at_block ba i 0" using A by (simp add: at_block_def)
  show ?case
  proof (cases "?b < n")
    case True
    then have lt: "?b * Suc i < m_capacity ba" using A(5) by simp
    note nx = node_next_Some [OF A(4) lt]
    have "write_file_loop ba (Some i) (int (?b * i)) (int n) ofs =
        write_file_loop ba (Some (Suc i)) (int (?b * Suc i)) (int (n - ?b)) (ofs @ memcpy_from ba i 0 ?b)"
      using True A nx by (subst write_file_loop.simps) (simp add: Let_def algebra_simps)
    also have "\<dots> = Inr ((ofs @ memcpy_from ba i 0 ?b) @
        take (n - ?b) (drop (?b * Suc i) (concat (m_nodes ba))))"
      using Suc.hyps(2) A True nx by (intro Suc.hyps(1)) auto
    finally show ?thesis
      using at_block_memcpy_from [OF at, of ?b] True take_drop_split [of ?b n "?b * i" "concat (m_nodes ba)"]
      by (simp add: add.commute)
  next
    case False
    then show ?thesis
      using at_block_memcpy_from [OF at, of n] A
      by (subst write_file_loop.simps) (simp add: Let_def write_file_loop.simps)
  qed
qed

lemma writeToFile_aligned:
  assumes inv: "ba_inv ba" and al: "m_position ba mod m_baseSize ba = 0"
  shows "ByteArray_writeToFile True ba = Inr (True, ba_rest ba)"
proof (cases "m_position ba = m_size ba")
  case True
  then show ?thesis
    using inv by (simp add: ByteArray_writeToFile_def ByteArray_getReadSize_def ba_rest_def write_file_loop.simps)
next
  case False
  let ?n = "m_size ba - m_position ba"
  have n: "m_position ba < m_capacity ba" "m_position ba + ?n \<le> m_capacity ba"
    "m_position ba + ?n \<le> m_size ba"
    using inv False by (auto simp: ba_inv_def)
  obtain i where I: "m_cur ba = Some i" "i < length (m_nodes ba)" "m_position ba = m_baseSize ba * i"
    using ba_inv_cursor [OF inv n(1)] al by (metis add.right_neutral)
  have "write_file_loop ba (m_cur ba) (int (m_position ba)) (int ?n) [] =
      Inr (take ?n (drop (m_position ba) (concat (m_nodes ba))))"
    using write_file_loop_aligned [of ba i ?n "[]"] inv I n by (simp add: ba_inv_def)
  then show ?thesis
    using take_drop_contents [OF n(3)] inv
    by (simp add: ByteArray_writeToFile_def ByteArray_getReadSize_def ba_rest_def)
qed

lemma write_fits_aligned:
  assumes "ba_inv ba" "m_position ba mod m_baseSize ba = 0" "n \<le> m_baseSize ba"
  shows "write_fits n ba"
proof -
  let ?b = "m_baseSize ba"
  obtain k where k: "m_capacity ba - m_position ba = ?b * k"
    using assms mod_mult_self1_is_0
    by (metis ba_inv_def dvd_def dvd_diff_nat dvd_triv_left mod_0_imp_dvd)
  show ?thesis
  proof (cases k)
    case 0
    then show ?thesis using k assms by (auto simp: write_fits_def ByteArray_getCapacity_def)
  next
    case (Suc k')
    then show ?thesis using k assms by (simp add: write_fits_def ByteArray_getCapacity_def)
  qed
qed

lemma read_file_loop_aligned:
  assumes "ba_inv ba" "m_position ba mod m_baseSize ba = 0"
  shows "\<exists>ba'. read_file_loop (m_baseSize ba) ifs ba = (Inr (), ba') \<and> ba_inv ba' \<and>
     ba_contents ba' = put (m_position ba) ifs (ba_contents ba) \<and>
     m_position ba' = m_position ba + length ifs"
  using assms
proof (induction "length ifs" arbitrary: ifs ba rule: less_induct)
  case less
  let ?b = "m_baseSize ba"
  have b: "0 < ?b" using less.prems by (simp add: ba_inv_def)
  have "write_fits (length (take ?b ifs)) ba"
    using less.prems by (intro write_fits_aligned) auto
  from write_refines [OF less.prems(1) this] obtain ba1 where
    W: "ByteArray_write (take ?b ifs) ba = (Inr (), ba1)" "ba_inv ba1"
      "ba_contents ba1 = put (m_position ba) (take ?b ifs) (ba_contents ba)"
      "m_position ba1 = m_position ba + length (take ?b ifs)" "m_baseSize ba1 = ?b"
    by auto
  show ?case
  proof (cases "length ifs < ?b")
    case True
    then show ?thesis using W b by (subst read_file_loop.simps) auto
  next
    case False
    have "m_position ba1 mod m_baseSize ba1 = 0" using W False less.prems by (simp add: min_def)
    then have "\<exists>ba'. read_file_loop (m_baseSize ba1) (drop ?b ifs) ba1 = (Inr (), ba') \<and> ba_inv ba' \<and>
        ba_contents ba' = put (m_position ba1) (drop ?b ifs) (ba_contents ba1) \<and>
        m_position ba' = m_position ba1 + length (drop ?b ifs)"
      using less.hyps [of "drop ?b ifs" ba1] W(2) b False by simp
    moreover have "m_position ba \<le> length (ba_contents ba)"
      using less.prems by (auto simp: ba_inv_def)
    ultimately show ?thesis
      using W b False put_put_append [of "m_position ba" "ba_contents ba" "take ?b ifs" "drop ?b ifs"]
      by (subst read_file_loop.simps) auto
  qed
qed

section \<open>The contract of the raw buffer\<close>

text \<open>
  What the serialisation layer needs of a buffer: a position in a byte string; a write puts bytes at
  the position when there is room and fails otherwise; a read of at least one byte returns the
  bytes at the position; both move the position behind what they touched; a seek moves it
  anywhere inside the string. \<open>tag\<close> is the part of the state no transfer changes (the byte order).
\<close>

locale byte_buffer =
  fixes ok :: "'s \<Rightarrow> bool"
    and cont :: "'s \<Rightarrow> byte list"
    and pos :: "'s \<Rightarrow> nat"
    and tag :: "'s \<Rightarrow> 't"
    and room :: "nat \<Rightarrow> 's \<Rightarrow> bool"
    and wr :: "byte list \<Rightarrow> ('s, unit) oper"
    and rd :: "nat \<Rightarrow> ('s, byte list) oper"
    and seek :: "nat \<Rightarrow> ('s, unit) oper"
  assumes pos_le: "ok s \<Longrightarrow> pos s \<le> length (cont s)"
    and wr_room: "ok s \<Longrightarrow> room (length bs) s \<Longrightarrow>
      \<exists>s'. wr bs s = (Inr (), s') \<and> ok s' \<and> cont s' = put (pos s) bs (cont s) \<and>
           pos s' = pos s + length bs \<and> tag s' = tag s"
    and wr_full: "ok s \<Longrightarrow> \<not> room (length bs) s \<Longrightarrow> \<exists>e. fst (wr bs s) = Inl e"
    and rd_in: "ok s \<Longrightarrow> 0 < n \<Longrightarrow> pos s + n \<le> length (cont s) \<Longrightarrow>
      \<exists>s'. rd n s = (Inr (take n (drop (pos s) (cont s))), s') \<and> ok s' \<and> cont s' = cont s \<and>
           pos s' = pos s + n \<and> tag s' = tag s"
    and rd_out: "ok s \<Longrightarrow> length (cont s) < pos s + n \<Longrightarrow> rd n s = (Inl OutOfRange, s)"
    and seek_in: "ok s \<Longrightarrow> p \<le> length (cont s) \<Longrightarrow>
      \<exists>s'. seek p s = (Inr (), s') \<and> ok s' \<and> cont s' = cont s \<and> pos s' = p \<and> tag s' = tag s"
begin

text \<open>A writer emits \<open>bs\<close>; a reader decodes \<open>bs\<close>, standing at the position, to \<open>v\<close>.\<close>

definition emits :: "'t \<Rightarrow> ('s, unit) oper \<Rightarrow> byte list \<Rightarrow> bool" where
  "emits t w bs \<longleftrightarrow> (\<forall>s s'. ok s \<longrightarrow> tag s = t \<longrightarrow> w s = (Inr (), s') \<longrightarrow>
     ok s' \<and> cont s' = put (pos s) bs (cont s) \<and> pos s' = pos s + length bs \<and> tag s' = t)"

definition decodes :: "'t \<Rightarrow> ('s, 'a) oper \<Rightarrow> byte list \<Rightarrow> 'a \<Rightarrow> bool" where
  "decodes t r bs v \<longleftrightarrow> (\<forall>s. ok s \<longrightarrow> tag s = t \<longrightarrow> prefix bs (drop (pos s) (cont s)) \<longrightarrow>
     (\<exists>s'. r s = (Inr v, s') \<and> ok s' \<and> cont s' = cont s \<and> pos s' = pos s + length bs \<and> tag s' = t))"

lemma emitsD:
  assumes "emits t w bs" "ok s" "tag s = t" "w s = (Inr (), s')"
  shows "ok s'" "cont s' = put (pos s) bs (cont s)" "pos s' = pos s + length bs" "tag s' = t"
  using assms unfolding emits_def by blast+

lemma decodesD:
  assumes "decodes t r bs v" "ok s" "tag s = t" "prefix bs (drop (pos s) (cont s))"
  obtains s' where "r s = (Inr v, s')" "ok s'" "cont s' = cont s" "pos s' = pos s + length bs" "tag s' = t"
  using assms unfolding decodes_def by blast

lemma decodes_map:
  assumes "decodes t r bs v"
    and "\<And>s s'. tag s' = t \<Longrightarrow> r s = (Inr v, s') \<Longrightarrow> r' s = (Inr v', s')"
  shows "decodes t r' bs v'"
  unfolding decodes_def
proof (intro allI impI)
  fix s assume s: "ok s" "tag s = t" "prefix bs (drop (pos s) (cont s))"
  obtain s' where s': "r s = (Inr v, s')" "ok s'" "cont s' = cont s" "pos s' = pos s + length bs" "tag s' = t"
    using decodesD [OF assms(1) s] .
  then show "\<exists>s'. r' s = (Inr v', s') \<and> ok s' \<and> cont s' = cont s \<and> pos s' = pos s + length bs \<and> tag s' = t"
    using assms(2) [OF s'(5,1)] by blast
qed

lemma emits_wr: "emits t (wr bs) bs"
  unfolding emits_def
proof (intro allI impI)
  fix s s' assume s: "ok s" "tag s = t" "wr bs s = (Inr (), s')"
  then have "room (length bs) s" using wr_full by fastforce
  then show "ok s' \<and> cont s' = put (pos s) bs (cont s) \<and> pos s' = pos s + length bs \<and> tag s' = t"
    using wr_room [of s bs] s by auto
qed

lemma emits_seq:
  assumes 1: "emits t w1 b1" and 2: "emits t w2 b2"
  shows "emits t (andthen w1 (\<lambda>_. w2)) (b1 @ b2)"
  unfolding emits_def
proof (intro allI impI)
  fix s s' assume s: "ok s" "tag s = t" "andthen w1 (\<lambda>_. w2) s = (Inr (), s')"
  from s(3) obtain s1 where w: "w1 s = (Inr (), s1)" "w2 s1 = (Inr (), s')"
    by (auto elim: andthen_eq_InrE)
  note s1 = emitsD [OF 1 s(1,2) w(1)]
  note s2 = emitsD [OF 2 s1(1,4) w(2)]
  show "ok s' \<and> cont s' = put (pos s) (b1 @ b2) (cont s) \<and>
      pos s' = pos s + length (b1 @ b2) \<and> tag s' = t"
    using put_put_append [of "pos s" "cont s" b1 b2] pos_le [OF s(1)] s1 s2 by simp
qed

lemma decodes_rd: "bs \<noteq> [] \<Longrightarrow> decodes t (rd (length bs)) bs bs"
  unfolding decodes_def
proof (intro allI impI)
  fix s assume bs: "bs \<noteq> []" and s: "ok s" "tag s = t" "prefix bs (drop (pos s) (cont s))"
  then have "pos s + length bs \<le> length (cont s)"
    using prefix_length_le [OF s(3)] pos_le [OF s(1)] by simp
  moreover have "take (length bs) (drop (pos s) (cont s)) = bs"
    using s(3) by (auto simp: prefix_def)
  ultimately show "\<exists>s'. rd (length bs) s = (Inr bs, s') \<and> ok s' \<and> cont s' = cont s \<and>
      pos s' = pos s + length bs \<and> tag s' = t"
    using rd_in [OF s(1), of "length bs"] bs s(2) by simp
qed

lemma decodes_seq:
  assumes 1: "decodes t r1 b1 v1" and 2: "decodes t (f v1) b2 v2"
  shows "decodes t (andthen r1 f) (b1 @ b2) v2"
  unfolding decodes_def
proof (intro allI impI)
  fix s assume s: "ok s" "tag s = t" "prefix (b1 @ b2) (drop (pos s) (cont s))"
  then have "prefix b1 (drop (pos s) (cont s))" by (auto simp: prefix_def)
  with 1 s obtain s1 where s1: "r1 s = (Inr v1, s1)" "ok s1" "cont s1 = cont s"
      "pos s1 = pos s + length b1" "tag s1 = t"
    unfolding decodes_def by blast
  have "prefix b2 (drop (pos s1) (cont s1))"
    using s(3) s1(3,4) by (auto simp: prefix_def drop_drop [symmetric] add.commute simp del: drop_drop)
  with 2 s1 obtain s' where "f v1 s1 = (Inr v2, s')" "ok s'" "cont s' = cont s1"
      "pos s' = pos s1 + length b2" "tag s' = t"
    unfolding decodes_def by blast
  then show "\<exists>s'. andthen r1 f s = (Inr v2, s') \<and> ok s' \<and> cont s' = cont s \<and>
      pos s' = pos s + length (b1 @ b2) \<and> tag s' = t"
    using s1 by (simp add: andthen_Inr)
qed

lemma decodes_ret: "decodes t r bs v \<Longrightarrow> decodes t (andthen r (\<lambda>x. ret (f x))) bs (f v)"
  using decodes_seq [of t r bs v "\<lambda>x. ret (f x)" "[]" "f v"] by (simp add: decodes_def)

text \<open>What a writer emitted, a matching reader decodes after a seek back.\<close>

lemma write_seek_read:
  assumes w: "emits (tag s) w bs" and r: "decodes (tag s) r bs v"
    and s: "ok s" "w s = (Inr (), s1)"
  shows "\<exists>s2 s3. seek (pos s) s1 = (Inr (), s2) \<and> r s2 = (Inr v, s3) \<and>
     ok s3 \<and> cont s3 = cont s1 \<and> pos s3 = pos s1"
proof -
  note s1 = emitsD [OF w s(1) refl s(2)]
  have "pos s \<le> length (cont s1)" using pos_le [OF s1(1)] s1(3) by simp
  then obtain s2 where s2: "seek (pos s) s1 = (Inr (), s2)" "ok s2" "cont s2 = cont s1"
      "pos s2 = pos s" "tag s2 = tag s"
    using seek_in [OF s1(1), of "pos s"] s1(4) by auto
  have "prefix bs (drop (pos s2) (cont s2))"
    using s2 s1(2) pos_le [OF s(1)] by (simp add: put_def)
  with r s2 obtain s3 where "r s2 = (Inr v, s3)" "ok s3" "cont s3 = cont s2" "pos s3 = pos s2 + length bs"
    unfolding decodes_def by blast
  with s2 s1(3) show ?thesis by simp
qed

end

interpretation chain: byte_buffer ba_inv ba_contents m_position m_endian write_fits
  ByteArray_write ByteArray_read ByteArray_setPosition
proof unfold_locales
  fix s :: bytearray and bs :: "byte list" and n p :: nat
  assume inv: "ba_inv s"
  then show "m_position s \<le> length (ba_contents s)" by (simp add: ba_inv_def)
  show "\<exists>s'. ByteArray_write bs s = (Inr (), s') \<and> ba_inv s' \<and>
      ba_contents s' = put (m_position s) bs (ba_contents s) \<and>
      m_position s' = m_position s + length bs \<and> m_endian s' = m_endian s"
    if "write_fits (length bs) s"
    using write_refines [OF inv that] by blast
  show "\<exists>e. fst (ByteArray_write bs s) = Inl e" if "\<not> write_fits (length bs) s"
    using write_overruns [OF inv that] by blast
  show "ByteArray_read n s = (Inl OutOfRange, s)" if "length (ba_contents s) < m_position s + n"
    using that inv by (intro read_out_of_range) (auto simp: ba_inv_def)
  show "\<exists>s'. ByteArray_read n s = (Inr (take n (drop (m_position s) (ba_contents s))), s') \<and> ba_inv s' \<and>
      ba_contents s' = ba_contents s \<and> m_position s' = m_position s + n \<and> m_endian s' = m_endian s"
    if "0 < n" "m_position s + n \<le> length (ba_contents s)"
    using read_refines [OF inv that(1)] read_inv [OF inv] that inv by (simp add: ba_contents_def)
  show "\<exists>s'. ByteArray_setPosition p s = (Inr (), s') \<and> ba_inv s' \<and> ba_contents s' = ba_contents s \<and>
      m_position s' = p \<and> m_endian s' = m_endian s" if "p \<le> length (ba_contents s)"
  proof -
    have "p \<le> m_size s" "p \<le> m_capacity s" using that inv by (auto simp: ba_inv_def)
    then show ?thesis
      using setPosition_refines [OF inv, of p] setPosition_inv [OF inv, of p]
      by (simp add: ba_contents_def max_absorb1)
  qed
qed

end
