(* ===== verification/Mingo_ByteArray_Codec.thy ===== *)
theory Mingo_ByteArray_Codec
  imports Mingo_ByteArray_Spec
begin

unbundle bit_operations_syntax

text \<open>
  The typed layer of \<^verbatim>\<open>mingo/bytearray.cpp\<close> over the raw buffer, with \<^verbatim>\<open>mingo/endian.h\<close>: fixed-width
  integers in the array's byte order, variable-length integers, zigzag coding of signed
  ones, floating-point numbers as bit patterns, and length-prefixed strings. A signed integer is
  the word of its two's complement; a \<open>float\<close> or \<open>double\<close> is its 32- or 64-bit pattern, which is
  what the \<open>memcpy\<close> of the code transfers. \<open>host\<close> is \<open>MINGO_BYTE_ORDER\<close>, the byte order of the
  machine. \<open>std::string::resize\<close> is taken to succeed: with a length that memory cannot hold, the
  following \<open>read\<close> fails in the model where the C++ allocation fails.
\<close>

section \<open>Byte order\<close>

definition byteswap :: "'a::len word \<Rightarrow> 'a word" where
  "byteswap v = le_word (rev (le_bytes (LENGTH('a) div 8) v))"

definition byteswapOnLittleEndian :: "endian \<Rightarrow> 'a::len word \<Rightarrow> 'a word" where
  "byteswapOnLittleEndian host t = (if host = MINGO_BIG_ENDIAN then t else byteswap t)"

definition byteswapOnBigEndian :: "endian \<Rightarrow> 'a::len word \<Rightarrow> 'a word" where
  "byteswapOnBigEndian host t = (if host = MINGO_BIG_ENDIAN then byteswap t else t)"

text \<open>The bytes of an object of unsigned type in the memory of the host, and back.\<close>

definition mem_bytes :: "endian \<Rightarrow> 'a::len word \<Rightarrow> byte list" where
  "mem_bytes host v =
     (let bs = le_bytes (LENGTH('a) div 8) v in if host = MINGO_LITTLE_ENDIAN then bs else rev bs)"

definition mem_word :: "endian \<Rightarrow> byte list \<Rightarrow> 'a::len word" where
  "mem_word host bs = le_word (if host = MINGO_LITTLE_ENDIAN then bs else rev bs)"

section \<open>Fixed-width integers\<close>

definition write_fixed :: "endian \<Rightarrow> 'a::len word \<Rightarrow> (bytearray, unit) oper" where
  "write_fixed host v ba =
     ByteArray_write (mem_bytes host (if m_endian ba \<noteq> host then byteswap v else v)) ba"

definition read_fixed :: "endian \<Rightarrow> (bytearray, 'a::len word) oper" where
  "read_fixed host ba =
     (case ByteArray_read (LENGTH('a) div 8) ba of
        (Inl e, ba1) \<Rightarrow> (Inl e, ba1)
      | (Inr bs, ba1) \<Rightarrow>
          (Inr (if m_endian ba1 = host then mem_word host bs else byteswap (mem_word host bs)), ba1))"

definition ByteArray_writeFint8 :: "byte \<Rightarrow> (bytearray, unit) oper" where
  "ByteArray_writeFint8 v = ByteArray_write [v]"

definition ByteArray_writeFuint8 :: "byte \<Rightarrow> (bytearray, unit) oper" where
  "ByteArray_writeFuint8 v = ByteArray_write [v]"

definition ByteArray_writeFint16 :: "endian \<Rightarrow> u16 \<Rightarrow> (bytearray, unit) oper" where
  "ByteArray_writeFint16 host v = write_fixed host v"

definition ByteArray_writeFuint16 :: "endian \<Rightarrow> u16 \<Rightarrow> (bytearray, unit) oper" where
  "ByteArray_writeFuint16 host v = write_fixed host v"

definition ByteArray_writeFint32 :: "endian \<Rightarrow> u32 \<Rightarrow> (bytearray, unit) oper" where
  "ByteArray_writeFint32 host v = write_fixed host v"

definition ByteArray_writeFuint32 :: "endian \<Rightarrow> u32 \<Rightarrow> (bytearray, unit) oper" where
  "ByteArray_writeFuint32 host v = write_fixed host v"

definition ByteArray_writeFint64 :: "endian \<Rightarrow> u64 \<Rightarrow> (bytearray, unit) oper" where
  "ByteArray_writeFint64 host v = write_fixed host v"

definition ByteArray_writeFuint64 :: "endian \<Rightarrow> u64 \<Rightarrow> (bytearray, unit) oper" where
  "ByteArray_writeFuint64 host v = write_fixed host v"

definition ByteArray_readFint8 :: "(bytearray, byte) oper" where
  "ByteArray_readFint8 = andthen (ByteArray_read 1) (\<lambda>bs. ret (hd bs))"

definition ByteArray_readFuint8 :: "(bytearray, byte) oper" where
  "ByteArray_readFuint8 = andthen (ByteArray_read 1) (\<lambda>bs. ret (hd bs))"

definition ByteArray_readFint16 :: "endian \<Rightarrow> (bytearray, u16) oper" where
  "ByteArray_readFint16 host = read_fixed host"

definition ByteArray_readFuint16 :: "endian \<Rightarrow> (bytearray, u16) oper" where
  "ByteArray_readFuint16 host = read_fixed host"

definition ByteArray_readFint32 :: "endian \<Rightarrow> (bytearray, u32) oper" where
  "ByteArray_readFint32 host = read_fixed host"

definition ByteArray_readFuint32 :: "endian \<Rightarrow> (bytearray, u32) oper" where
  "ByteArray_readFuint32 host = read_fixed host"

definition ByteArray_readFint64 :: "endian \<Rightarrow> (bytearray, u64) oper" where
  "ByteArray_readFint64 host = read_fixed host"

definition ByteArray_readFuint64 :: "endian \<Rightarrow> (bytearray, u64) oper" where
  "ByteArray_readFuint64 host = read_fixed host"

definition ByteArray_writeFloat :: "endian \<Rightarrow> u32 \<Rightarrow> (bytearray, unit) oper" where
  "ByteArray_writeFloat host v = ByteArray_writeFuint32 host v"

definition ByteArray_writeDouble :: "endian \<Rightarrow> u64 \<Rightarrow> (bytearray, unit) oper" where
  "ByteArray_writeDouble host v = ByteArray_writeFuint64 host v"

definition ByteArray_readFloat :: "endian \<Rightarrow> (bytearray, u32) oper" where
  "ByteArray_readFloat host = ByteArray_readFuint32 host"

definition ByteArray_readDouble :: "endian \<Rightarrow> (bytearray, u64) oper" where
  "ByteArray_readDouble host = ByteArray_readFuint64 host"

section \<open>Zigzag and variable-length integers\<close>

definition EncodeZigzag32 :: "u32 \<Rightarrow> u32" where
  "EncodeZigzag32 v = (if sint v < 0 then (- v) * 2 - 1 else v * 2)"

definition EncodeZigzag64 :: "u64 \<Rightarrow> u64" where
  "EncodeZigzag64 v = (if sint v < 0 then (- v) * 2 - 1 else v * 2)"

definition DecodeZigzag32 :: "u32 \<Rightarrow> u32" where
  "DecodeZigzag32 v = drop_bit 1 v XOR (- (v AND 1))"

definition DecodeZigzag64 :: "u64 \<Rightarrow> u64" where
  "DecodeZigzag64 v = drop_bit 1 v XOR (- (v AND 1))"

text \<open>The byte run that the loop of \<open>writeUint32\<close> (\<open>writeUint64\<close>) leaves in \<open>tmp\<close>.\<close>

function writeUint32_tmp :: "u32 \<Rightarrow> byte list" where
  "writeUint32_tmp v =
     (if v \<ge> 0x80 then ucast ((v AND 0x7F) OR 0x80) # writeUint32_tmp (drop_bit 7 v) else [ucast v])"
  by pat_completeness auto
termination
  by (relation "measure unat") (auto simp: word_le_nat_alt unat_div drop_bit_eq_div)

declare writeUint32_tmp.simps [simp del]

function writeUint64_tmp :: "u64 \<Rightarrow> byte list" where
  "writeUint64_tmp v =
     (if v \<ge> 0x80 then ucast ((v AND 0x7F) OR 0x80) # writeUint64_tmp (drop_bit 7 v) else [ucast v])"
  by pat_completeness auto
termination
  by (relation "measure unat") (auto simp: word_le_nat_alt unat_div drop_bit_eq_div)

declare writeUint64_tmp.simps [simp del]

definition ByteArray_writeUint32 :: "u32 \<Rightarrow> (bytearray, unit) oper" where
  "ByteArray_writeUint32 v = ByteArray_write (writeUint32_tmp v)"

definition ByteArray_writeUint64 :: "u64 \<Rightarrow> (bytearray, unit) oper" where
  "ByteArray_writeUint64 v = ByteArray_write (writeUint64_tmp v)"

definition ByteArray_writeInt32 :: "u32 \<Rightarrow> (bytearray, unit) oper" where
  "ByteArray_writeInt32 v = ByteArray_writeUint32 (EncodeZigzag32 v)"

definition ByteArray_writeInt64 :: "u64 \<Rightarrow> (bytearray, unit) oper" where
  "ByteArray_writeInt64 v = ByteArray_writeUint64 (EncodeZigzag64 v)"

function readUint32_loop :: "nat \<Rightarrow> u32 \<Rightarrow> (bytearray, u32) oper" where
  "readUint32_loop i result ba =
     (if i < 32 then
        (case ByteArray_readFuint8 ba of
           (Inl e, ba1) \<Rightarrow> (Inl e, ba1)
         | (Inr b, ba1) \<Rightarrow>
             if b < 0x80 then (Inr (result OR push_bit i (ucast b)), ba1)
             else readUint32_loop (i + 7) (result OR push_bit i (ucast (b AND 0x7f))) ba1)
      else (Inr result, ba))"
  by pat_completeness auto
termination
  by (relation "measure (\<lambda>(i, result, ba). 32 - i)") auto

declare readUint32_loop.simps [simp del]

function readUint64_loop :: "nat \<Rightarrow> u64 \<Rightarrow> (bytearray, u64) oper" where
  "readUint64_loop i result ba =
     (if i < 64 then
        (case ByteArray_readFuint8 ba of
           (Inl e, ba1) \<Rightarrow> (Inl e, ba1)
         | (Inr b, ba1) \<Rightarrow>
             if b < 0x80 then (Inr (result OR push_bit i (ucast b)), ba1)
             else readUint64_loop (i + 7) (result OR push_bit i (ucast (b AND 0x7f))) ba1)
      else (Inr result, ba))"
  by pat_completeness auto
termination
  by (relation "measure (\<lambda>(i, result, ba). 64 - i)") auto

declare readUint64_loop.simps [simp del]

definition ByteArray_readUint32 :: "(bytearray, u32) oper" where
  "ByteArray_readUint32 = readUint32_loop 0 0"

definition ByteArray_readUint64 :: "(bytearray, u64) oper" where
  "ByteArray_readUint64 = readUint64_loop 0 0"

definition ByteArray_readInt32 :: "(bytearray, u32) oper" where
  "ByteArray_readInt32 = andthen ByteArray_readUint32 (\<lambda>v. ret (DecodeZigzag32 v))"

definition ByteArray_readInt64 :: "(bytearray, u64) oper" where
  "ByteArray_readInt64 = andthen ByteArray_readUint64 (\<lambda>v. ret (DecodeZigzag64 v))"

section \<open>Strings\<close>

definition ByteArray_writeStringF16 :: "endian \<Rightarrow> byte list \<Rightarrow> (bytearray, unit) oper" where
  "ByteArray_writeStringF16 host value =
     andthen (ByteArray_writeFuint16 host (of_nat (length value))) (\<lambda>_. ByteArray_write value)"

definition ByteArray_writeStringF32 :: "endian \<Rightarrow> byte list \<Rightarrow> (bytearray, unit) oper" where
  "ByteArray_writeStringF32 host value =
     andthen (ByteArray_writeFuint32 host (of_nat (length value))) (\<lambda>_. ByteArray_write value)"

definition ByteArray_writeStringF64 :: "endian \<Rightarrow> byte list \<Rightarrow> (bytearray, unit) oper" where
  "ByteArray_writeStringF64 host value =
     andthen (ByteArray_writeFuint64 host (of_nat (length value))) (\<lambda>_. ByteArray_write value)"

definition ByteArray_writeStringVint :: "byte list \<Rightarrow> (bytearray, unit) oper" where
  "ByteArray_writeStringVint value =
     andthen (ByteArray_writeUint64 (of_nat (length value))) (\<lambda>_. ByteArray_write value)"

definition ByteArray_writeStringWithoutLength :: "byte list \<Rightarrow> (bytearray, unit) oper" where
  "ByteArray_writeStringWithoutLength value = ByteArray_write value"

definition ByteArray_readStringF16 :: "endian \<Rightarrow> (bytearray, byte list) oper" where
  "ByteArray_readStringF16 host = andthen (ByteArray_readFuint16 host) (\<lambda>len. ByteArray_read (unat len))"

definition ByteArray_readStringF32 :: "endian \<Rightarrow> (bytearray, byte list) oper" where
  "ByteArray_readStringF32 host = andthen (ByteArray_readFuint32 host) (\<lambda>len. ByteArray_read (unat len))"

definition ByteArray_readStringF64 :: "endian \<Rightarrow> (bytearray, byte list) oper" where
  "ByteArray_readStringF64 host = andthen (ByteArray_readFuint64 host) (\<lambda>len. ByteArray_read (unat len))"

definition ByteArray_readStringVint :: "(bytearray, byte list) oper" where
  "ByteArray_readStringVint = andthen ByteArray_readUint64 (\<lambda>len. ByteArray_read (unat len))"

section \<open>Byte order facts\<close>

lemma le_bytes_full:
  "length bs = LENGTH('a::len) div 8 \<Longrightarrow> le_bytes (LENGTH('a) div 8) (le_word bs :: 'a word) = bs"
  using le_bytes_le_word [of bs, where 'a = 'a] by simp

lemma byteswap_byteswap:
  "8 dvd LENGTH('a) \<Longrightarrow> byteswap (byteswap v) = (v :: 'a::len word)"
  unfolding byteswap_def by (subst le_bytes_full) (auto elim!: dvdE)

lemma length_mem_bytes [simp]: "length (mem_bytes host (v :: 'a::len word)) = LENGTH('a) div 8"
  by (simp add: mem_bytes_def Let_def)

lemma mem_word_mem_bytes:
  "8 dvd LENGTH('a) \<Longrightarrow> mem_word host (mem_bytes host v) = (v :: 'a::len word)"
  by (auto simp: mem_word_def mem_bytes_def Let_def)

text \<open>The wire form of an integer: its bytes in the array's byte order, whatever the host's order is.\<close>

definition wire_bytes :: "endian \<Rightarrow> 'a::len word \<Rightarrow> byte list" where
  "wire_bytes e v = mem_bytes e v"

lemma mem_bytes_swapped:
  "mem_bytes host (if e \<noteq> host then byteswap v else v) = wire_bytes e v"
  by (cases e; cases host)
    (auto simp: wire_bytes_def mem_bytes_def byteswap_def Let_def le_bytes_full)

lemma write_fixed_wire: "write_fixed host v ba = ByteArray_write (wire_bytes (m_endian ba) v) ba"
  by (simp only: write_fixed_def mem_bytes_swapped)

lemma mem_word_swapped:
  "8 dvd LENGTH('a) \<Longrightarrow>
   (if e = host then mem_word host (wire_bytes e v) else byteswap (mem_word host (wire_bytes e v)))
    = (v :: 'a::len word)"
  by (cases e; cases host)
    (auto simp: wire_bytes_def mem_bytes_def mem_word_def byteswap_def Let_def le_bytes_full)

lemma emits_fixed: "chain.emits e (write_fixed host v) (wire_bytes e v)"
  unfolding chain.emits_def write_fixed_wire
proof (intro allI impI)
  fix s s' assume s: "ba_inv s" "m_endian s = e" "ByteArray_write (wire_bytes (m_endian s) v) s = (Inr (), s')"
  note D = chain.emitsD [OF chain.emits_wr s(1,2), of "wire_bytes e v" s']
  show "ba_inv s' \<and> ba_contents s' = put (m_position s) (wire_bytes e v) (ba_contents s) \<and>
      m_position s' = m_position s + length (wire_bytes e v) \<and> m_endian s' = e"
    using D s(2,3) by simp
qed

lemma decodes_fixed:
  assumes "8 dvd LENGTH('a)"
  shows "chain.decodes e (read_fixed host) (wire_bytes e v) (v :: 'a::len word)"
proof -
  have len: "length (wire_bytes e v) = LENGTH('a) div 8" by (simp add: wire_bytes_def)
  moreover have "8 \<le> LENGTH('a)" using assms by (simp add: dvd_imp_le)
  ultimately have pos: "wire_bytes e v \<noteq> []" by (cases "wire_bytes e v") auto
  show ?thesis
    by (rule chain.decodes_map [OF chain.decodes_rd [OF pos, of e]])
      (use mem_word_swapped [OF assms, of e host v] in \<open>simp add: read_fixed_def len\<close>)
qed

section \<open>Zigzag facts\<close>

lemma drop1_double:
  assumes "\<not> bit x (LENGTH('a) - 1)"
  shows "drop_bit 1 (x * 2) = (x :: 'a::len word)" "x * 2 AND 1 = 0"
    "drop_bit 1 (x * 2 + 1) = x" "(x * 2 + 1) AND 1 = 1"
proof -
  have o: "x * 2 + 1 = x * 2 OR 1" by (simp add: or_one_eq)
  have top: "bit x n \<Longrightarrow> Suc n < LENGTH('a)" for n
    using assms bit_imp_le_length [of x n] by (cases "n = LENGTH('a) - 1") auto
  have d: "bit (x * 2) n \<longleftrightarrow> n \<noteq> 0 \<and> n < LENGTH('a) \<and> bit x (n - 1)" for n
    using bit_double_iff [of x n] by (auto simp: mult.commute dest: bit_imp_le_length)
  show "drop_bit 1 (x * 2) = x" "drop_bit 1 (x * 2 + 1) = x"
    unfolding o using top by (auto intro!: bit_word_eqI simp: bit_drop_bit_eq bit_or_iff bit_1_iff d)
  show "x * 2 AND 1 = 0" "(x * 2 + 1) AND 1 = 1"
    unfolding o by (auto intro!: bit_word_eqI simp: bit_and_iff bit_or_iff bit_1_iff d)
qed

lemma zigzag_roundtrip:
  fixes v :: "'a::len word"
  defines "enc \<equiv> (if sint v < 0 then (- v) * 2 - 1 else v * 2)"
  shows "drop_bit 1 enc XOR (- (enc AND 1)) = v"
proof (cases "sint v < 0")
  case False
  then have "\<not> bit v (LENGTH('a) - 1)" by (simp add: bit_last_iff)
  from drop1_double [OF this] False show ?thesis by (simp add: enc_def)
next
  case True
  let ?x = "NOT v"
  have "bit v (LENGTH('a) - 1)" using True by (simp add: bit_last_iff)
  then have "\<not> bit ?x (LENGTH('a) - 1)" by (simp add: bit_not_iff)
  note D = drop1_double [OF this]
  have "enc = ?x * 2 + 1" using True by (simp add: enc_def not_eq_complement algebra_simps)
  then have "drop_bit 1 enc XOR (- (enc AND 1)) = ?x XOR (- 1)" using D by simp
  then show ?thesis by simp
qed

lemma DecodeZigzag32_Encode [simp]: "DecodeZigzag32 (EncodeZigzag32 v) = v"
  unfolding DecodeZigzag32_def EncodeZigzag32_def by (rule zigzag_roundtrip)

lemma DecodeZigzag64_Encode [simp]: "DecodeZigzag64 (EncodeZigzag64 v) = v"
  unfolding DecodeZigzag64_def EncodeZigzag64_def by (rule zigzag_roundtrip)

section \<open>Variable-length facts\<close>

text \<open>The byte run of a natural number in base 128, continuation bit set on all bytes but the last.\<close>

fun varint :: "nat \<Rightarrow> byte list" where
  "varint n = (if n \<ge> 128 then ((of_nat n AND 0x7F) OR 0x80) # varint (n div 128) else [of_nat n])"

declare varint.simps [simp del]

lemma varint_nonempty [simp]: "varint n \<noteq> []"
  by (subst varint.simps) simp

lemma writeUint32_tmp_varint: "writeUint32_tmp v = varint (unat v)"
proof (induction v rule: writeUint32_tmp.induct)
  case (1 v)
  have "unat (drop_bit 7 v) = unat v div 128" by (simp add: drop_bit_eq_div unat_div)
  moreover have "ucast ((v AND 0x7F) OR 0x80) = ((of_nat (unat v) AND 0x7F) OR 0x80 :: byte)"
    by (simp add: unsigned_or_eq unsigned_and_eq)
  ultimately show ?case
    using 1 by (subst writeUint32_tmp.simps, subst varint.simps) (auto simp: word_le_nat_alt)
qed

lemma writeUint64_tmp_varint: "writeUint64_tmp v = varint (unat v)"
proof (induction v rule: writeUint64_tmp.induct)
  case (1 v)
  have "unat (drop_bit 7 v) = unat v div 128" by (simp add: drop_bit_eq_div unat_div)
  moreover have "ucast ((v AND 0x7F) OR 0x80) = ((of_nat (unat v) AND 0x7F) OR 0x80 :: byte)"
    by (simp add: unsigned_or_eq unsigned_and_eq)
  ultimately show ?case
    using 1 by (subst writeUint64_tmp.simps, subst varint.simps) (auto simp: word_le_nat_alt)
qed

lemma length_varint: "0 < k \<Longrightarrow> n < 128 ^ k \<Longrightarrow> length (varint n) \<le> k"
proof (induction k arbitrary: n)
  case 0
  then show ?case by simp
next
  case (Suc k)
  show ?case
  proof (cases "n \<ge> 128")
    case True
    then have "k \<noteq> 0" using Suc.prems by (cases k) auto
    moreover have "n div 128 < 128 ^ k" using Suc.prems by (simp add: less_mult_imp_div_less mult.commute)
    ultimately show ?thesis using Suc.IH True by (subst varint.simps) simp
  next
    case False
    then show ?thesis by (subst varint.simps) simp
  qed
qed

text \<open>One byte of the run: recognised as a continuation byte, and its seven payload bits.\<close>

lemma varint_byte:
  fixes x :: byte
  shows "\<not> (x AND 0x7F) OR 0x80 < 0x80" "((x AND 0x7F) OR 0x80) AND 0x7F = x AND 0x7F"
proof -
  have "(0x80 :: byte) = ((x AND 0x7F) OR 0x80) AND 0x80"
    by (simp add: bit.conj_disj_distrib2 and.assoc)
  then have "(0x80 :: byte) \<le> (x AND 0x7F) OR 0x80" by (metis word_and_le2)
  then show "\<not> (x AND 0x7F) OR 0x80 < 0x80" by simp
  show "((x AND 0x7F) OR 0x80) AND 0x7F = x AND 0x7F"
    by (simp add: bit.conj_disj_distrib2 and.assoc)
qed

lemma bit_of_nat_word: "bit (of_nat n :: 'a::len word) k \<longleftrightarrow> k < LENGTH('a) \<and> bit n k"
  by transfer (simp add: bit_take_bit_iff bit_of_nat_iff)

lemma varint_payload:
  assumes "8 \<le> LENGTH('a)"
  shows "(of_nat n :: 'a::len word) = ucast (of_nat n AND 0x7F :: byte) OR push_bit 7 (of_nat (n div 128))"
proof (rule bit_word_eqI)
  fix k assume k: "k < LENGTH('a)"
  have d: "n div 128 = drop_bit 7 n" by (simp add: drop_bit_eq_div)
  have m: "(of_nat n AND 0x7F :: byte) = take_bit 7 (of_nat n)"
    by (simp add: take_bit_eq_mask mask_eq_exp_minus_1)
  show "bit (of_nat n :: 'a word) k =
      bit (ucast (of_nat n AND 0x7F :: byte) OR push_bit 7 (of_nat (n div 128)) :: 'a word) k"
    using k assms unfolding d m
    by (cases "k < 7")
      (auto simp: bit_or_iff bit_push_bit_iff bit_ucast_iff bit_take_bit_iff bit_of_nat_word bit_drop_bit_eq)
qed

lemma decodes_readFuint8: "chain.decodes e ByteArray_readFuint8 [b] b"
  unfolding ByteArray_readFuint8_def
  using chain.decodes_ret [OF chain.decodes_rd [of "[b]" e], of hd] by simp

lemma decodes_readFint8: "chain.decodes e ByteArray_readFint8 [b] b"
  using decodes_readFuint8 by (simp add: ByteArray_readFint8_def ByteArray_readFuint8_def)

text \<open>
  Both varint readers have the same round: a continuation byte feeds seven bits and goes on, any
  other byte ends the number.
\<close>

lemma decodes_step:
  assumes "\<And>s s1. ByteArray_readFuint8 s = (Inr b, s1) \<Longrightarrow> r s = f s1"
    and "chain.decodes e f bs v"
  shows "chain.decodes e r (b # bs) v"
  unfolding chain.decodes_def
proof (intro allI impI)
  fix s assume s: "ba_inv s" "m_endian s = e" "prefix (b # bs) (drop (m_position s) (ba_contents s))"
  then have b: "prefix [b] (drop (m_position s) (ba_contents s))" by (auto simp: prefix_def)
  obtain s1 where s1: "ByteArray_readFuint8 s = (Inr b, s1)" "ba_inv s1" "ba_contents s1 = ba_contents s"
      "m_position s1 = m_position s + length [b]" "m_endian s1 = e"
    using chain.decodesD [OF decodes_readFuint8 s(1,2) b] .
  have "prefix bs (drop (m_position s1) (ba_contents s1))"
    using s(3) s1(3,4) by (auto simp: prefix_def drop_Suc tl_drop [symmetric])
  then obtain s2 where "f s1 = (Inr v, s2)" "ba_inv s2" "ba_contents s2 = ba_contents s1"
      "m_position s2 = m_position s1 + length bs" "m_endian s2 = e"
    using chain.decodesD [OF assms(2) s1(2,5)] by blast
  then show "\<exists>s'. r s = (Inr v, s') \<and> ba_inv s' \<and> ba_contents s' = ba_contents s \<and>
      m_position s' = m_position s + length (b # bs) \<and> m_endian s' = e"
    using assms(1) [OF s1(1)] s1 by simp
qed

lemma decodes_done: "chain.decodes e (\<lambda>s. (Inr v, s)) [] v"
  by (simp add: chain.decodes_def)

lemma varint_room:
  fixes n :: nat
  assumes "128 \<le> n" "n < 2 ^ (w - i)"
  shows "i + 7 < w" "n div 128 < 2 ^ (w - (i + 7))"
proof -
  have "(2::nat) ^ 7 < 2 ^ (w - i)" using assms by simp
  then have "7 < w - i" by (subst (asm) power_strict_increasing_iff) auto
  then show i: "i + 7 < w" by simp
  then have "w - i = 7 + (w - (i + 7))" by simp
  then have "(2::nat) ^ (w - i) = 2 ^ 7 * 2 ^ (w - (i + 7))" by (metis power_add)
  then show "n div 128 < 2 ^ (w - (i + 7))"
    using assms(2) by (simp add: less_mult_imp_div_less mult.commute)
qed

lemma varint_accumulate:
  "8 \<le> LENGTH('a) \<Longrightarrow>
   (r OR push_bit i (ucast (of_nat n AND 0x7F :: byte))) OR push_bit (i + 7) (of_nat (n div 128))
     = r OR push_bit i (of_nat n :: 'a::len word)"
  by (subst (2) varint_payload) (simp_all add: push_bit_or or.assoc add.commute)

lemma varint_last:
  assumes "n < 128" "8 \<le> LENGTH('a)"
  shows "ucast (of_nat n :: byte) = (of_nat n :: 'a::len word)"
proof (rule bit_word_eqI)
  fix k assume "k < LENGTH('a)"
  have "n = take_bit 7 n" using assms(1) by (simp add: take_bit_nat_eq_self)
  then have "bit n k \<Longrightarrow> k < 7" by (metis bit_take_bit_iff)
  then show "bit (ucast (of_nat n :: byte) :: 'a word) k = bit (of_nat n :: 'a word) k"
    by (auto simp: bit_ucast_iff bit_of_nat_word)
qed

lemma decodes_readUint32_loop:
  "i < 32 \<Longrightarrow> n < 2 ^ (32 - i) \<Longrightarrow>
   chain.decodes e (readUint32_loop i r) (varint n) (r OR push_bit i (of_nat n))"
proof (induction n arbitrary: i r rule: varint.induct)
  case (1 n)
  show ?case
  proof (cases "128 \<le> n")
    case True
    note room = varint_room [OF True "1.prems"(2)]
    note IH = "1.IH" [OF True room, of "r OR push_bit i (ucast (of_nat n AND 0x7F :: byte))"]
    have "chain.decodes e (readUint32_loop i r)
        (((of_nat n AND 0x7F) OR 0x80) # varint (n div 128)) (r OR push_bit i (of_nat n))"
      using "1.prems"(1) varint_byte [of "of_nat n"] IH
      by (intro decodes_step) (subst readUint32_loop.simps, auto simp: varint_accumulate)
    then show ?thesis using True by (simp add: varint.simps [of n])
  next
    case False
    have "chain.decodes e (readUint32_loop i r) [of_nat n] (r OR push_bit i (ucast (of_nat n :: byte)))"
      using False "1.prems"(1)
      by (intro decodes_step [OF _ decodes_done])
        (subst readUint32_loop.simps, simp add: word_less_nat_alt unat_of_nat)
    then show ?thesis using False by (simp add: varint.simps [of n] varint_last)
  qed
qed

lemma decodes_readUint64_loop:
  "i < 64 \<Longrightarrow> n < 2 ^ (64 - i) \<Longrightarrow>
   chain.decodes e (readUint64_loop i r) (varint n) (r OR push_bit i (of_nat n))"
proof (induction n arbitrary: i r rule: varint.induct)
  case (1 n)
  show ?case
  proof (cases "128 \<le> n")
    case True
    note room = varint_room [OF True "1.prems"(2)]
    note IH = "1.IH" [OF True room, of "r OR push_bit i (ucast (of_nat n AND 0x7F :: byte))"]
    have "chain.decodes e (readUint64_loop i r)
        (((of_nat n AND 0x7F) OR 0x80) # varint (n div 128)) (r OR push_bit i (of_nat n))"
      using "1.prems"(1) varint_byte [of "of_nat n"] IH
      by (intro decodes_step) (subst readUint64_loop.simps, auto simp: varint_accumulate)
    then show ?thesis using True by (simp add: varint.simps [of n])
  next
    case False
    have "chain.decodes e (readUint64_loop i r) [of_nat n] (r OR push_bit i (ucast (of_nat n :: byte)))"
      using False "1.prems"(1)
      by (intro decodes_step [OF _ decodes_done])
        (subst readUint64_loop.simps, simp add: word_less_nat_alt unat_of_nat)
    then show ?thesis using False by (simp add: varint.simps [of n] varint_last)
  qed
qed

lemma decodes_readUint32: "chain.decodes e ByteArray_readUint32 (writeUint32_tmp v) v"
  using decodes_readUint32_loop [of 0 "unat v" e 0] unsigned_less [of v, where ?'a = nat]
  by (simp add: ByteArray_readUint32_def writeUint32_tmp_varint)

lemma decodes_readUint64: "chain.decodes e ByteArray_readUint64 (writeUint64_tmp v) v"
  using decodes_readUint64_loop [of 0 "unat v" e 0] unsigned_less [of v, where ?'a = nat]
  by (simp add: ByteArray_readUint64_def writeUint64_tmp_varint)

lemma decodes_readInt32: "chain.decodes e ByteArray_readInt32 (writeUint32_tmp (EncodeZigzag32 v)) v"
  using chain.decodes_ret [OF decodes_readUint32 [of e "EncodeZigzag32 v"], of DecodeZigzag32]
  by (simp add: ByteArray_readInt32_def)

lemma decodes_readInt64: "chain.decodes e ByteArray_readInt64 (writeUint64_tmp (EncodeZigzag64 v)) v"
  using chain.decodes_ret [OF decodes_readUint64 [of e "EncodeZigzag64 v"], of DecodeZigzag64]
  by (simp add: ByteArray_readInt64_def)

text \<open>A string behind its length: the body is not empty and the length fits the prefix.\<close>

lemma decodes_body:
  assumes "chain.decodes e r pre len" "unat (len :: 'a::len word) = length v" "v \<noteq> []"
  shows "chain.decodes e (andthen r (\<lambda>len. ByteArray_read (unat len))) (pre @ v) v"
  using assms chain.decodes_seq [OF assms(1), of "\<lambda>len. ByteArray_read (unat len)" v v]
    chain.decodes_rd [of v e] by simp

lemma unat_of_nat_small: "n < 2 ^ LENGTH('a) \<Longrightarrow> unat (of_nat n :: 'a::len word) = n"
  by (simp add: unat_of_nat)

section \<open>Round trips\<close>

text \<open>
  \<open>reads_back w r v ba\<close>: whenever the writer \<open>w\<close> returns normally on \<open>ba\<close>, setting the position back
  to where it started succeeds, the reader \<open>r\<close> then returns \<open>v\<close>, and it stops exactly where the
  writer stopped.
\<close>

definition reads_back ::
    "(bytearray, unit) oper \<Rightarrow> (bytearray, 'a) oper \<Rightarrow> 'a \<Rightarrow> bytearray \<Rightarrow> bool" where
  "reads_back w r v ba \<longleftrightarrow> (\<forall>ba1. w ba = (Inr (), ba1) \<longrightarrow>
     (\<exists>ba2 ba3. ByteArray_setPosition (m_position ba) ba1 = (Inr (), ba2) \<and>
        r ba2 = (Inr v, ba3) \<and> ba_inv ba3 \<and> m_position ba3 = m_position ba1))"

lemma reads_backI:
  assumes "ba_inv ba" "chain.emits (m_endian ba) w bs" "chain.decodes (m_endian ba) r bs v"
  shows "reads_back w r v ba"
  unfolding reads_back_def
  using chain.write_seek_read [OF assms(2,3,1)] by blast

text \<open>A writer that is one \<open>write\<close> call of \<open>n\<close> bytes returns normally exactly when they fit.\<close>

lemma write_returns_iff:
  assumes "ba_inv ba"
  shows "(\<exists>ba1. ByteArray_write bs ba = (Inr (), ba1)) \<longleftrightarrow> write_fits (length bs) ba"
  using write_refines [OF assms, of bs] write_overruns [OF assms, of bs]
  by (cases "write_fits (length bs) ba") auto

end
