(* ===== verification/Mingo_ByteArray_Props.thy ===== *)
theory Mingo_ByteArray_Props
  imports Mingo_ByteArray_Codec
begin

text \<open>
  The properties of \<^verbatim>\<open>ByteArray\<close>: every operation against the flat byte string, the invariant over
  arbitrary call sequences, the round trips of the typed layer, and the inputs on which the code
  does not do what it means to.
\<close>

section \<open>Call sequences\<close>

datatype ba_op =
    OpWrite "byte list" | OpRead nat | OpSetPosition nat | OpClear
  | OpSetIsLittleEndian bool | OpGetWriteBuffers nat | OpReadFromFile "byte list"

fun ba_exec :: "ba_op \<Rightarrow> bytearray \<Rightarrow> (cpp_error + unit) \<times> bytearray" where
  "ba_exec (OpWrite bs) ba = ByteArray_write bs ba"
| "ba_exec (OpRead n) ba = (case ByteArray_read n ba of (Inl e, ba1) \<Rightarrow> (Inl e, ba1) | (Inr _, ba1) \<Rightarrow> (Inr (), ba1))"
| "ba_exec (OpSetPosition v) ba = ByteArray_setPosition v ba"
| "ba_exec OpClear ba = (Inr (), ByteArray_clear ba)"
| "ba_exec (OpSetIsLittleEndian b) ba = (Inr (), ByteArray_setIsLittleEndian b ba)"
| "ba_exec (OpGetWriteBuffers n) ba =
     (case ByteArray_getWriteBuffers [] n ba of (Inl e, ba1) \<Rightarrow> (Inl e, ba1) | (Inr _, ba1) \<Rightarrow> (Inr (), ba1))"
| "ba_exec (OpReadFromFile f) ba =
     (case ByteArray_readFromFile (Some f) ba of (Inl e, ba1) \<Rightarrow> (Inl e, ba1) | (Inr _, ba1) \<Rightarrow> (Inr (), ba1))"

text \<open>A run goes on after a C++ exception (\<open>std::out_of_range\<close>) and ends with a crash.\<close>

fun ba_run :: "ba_op list \<Rightarrow> bytearray \<Rightarrow> bytearray option" where
  "ba_run [] ba = Some ba"
| "ba_run (x # xs) ba =
     (case ba_exec x ba of
        (Inr _, ba1) \<Rightarrow> ba_run xs ba1
      | (Inl OutOfRange, ba1) \<Rightarrow> ba_run xs ba1
      | (Inl _, ba1) \<Rightarrow> None)"

lemma write_inv:
  assumes "ba_inv ba" "ByteArray_write bs ba = (Inr (), ba1)"
  shows "ba_inv ba1" "m_baseSize ba1 = m_baseSize ba"
proof -
  have "write_fits (length bs) ba" using write_returns_iff [OF assms(1), of bs] assms(2) by blast
  from write_refines [OF assms(1) this] assms(2) show "ba_inv ba1" "m_baseSize ba1 = m_baseSize ba" by auto
qed

lemma read_inv_all:
  assumes "ba_inv ba" "ByteArray_read n ba = (r, ba1)" "r \<noteq> Inl NullDeref"
  shows "ba_inv ba1"
proof (cases "n = 0")
  case True
  then show ?thesis using read_zero [OF assms(1)] assms by (auto split: if_splits)
next
  case False
  show ?thesis
  proof (cases "m_position ba + n \<le> m_size ba")
    case True
    then show ?thesis using read_refines [OF assms(1) _ True] read_inv [OF assms(1) True] False assms(2) by simp
  next
    case short: False
    then have "m_size ba - m_position ba < n" using False by linarith
    then show ?thesis using read_out_of_range assms by fastforce
  qed
qed

lemma getWriteBuffers_inv:
  assumes inv: "ba_inv ba" and r: "ByteArray_getWriteBuffers [] n ba = (r, ba1)"
  shows "ba_inv ba1"
proof (cases "n = 0")
  case True
  then show ?thesis using assms by (simp add: ByteArray_getWriteBuffers_def)
next
  case False
  then obtain ba' where "ByteArray_addCapacity n ba = (Inr (), ba')" "ba_inv ba'"
    using addCapacity_spec [OF inv, of n] by auto
  then show ?thesis
    using r False by (auto simp: ByteArray_getWriteBuffers_def Let_def split: if_splits option.splits sum.splits)
qed

lemma read_file_loop_inv:
  "ba_inv ba \<Longrightarrow> b = m_baseSize ba \<Longrightarrow> read_file_loop b f ba = (Inr (), ba1) \<Longrightarrow> ba_inv ba1"
proof (induction b f ba rule: read_file_loop.induct)
  case (1 b f ba)
  have b: "b \<noteq> 0" using 1 by (simp add: ba_inv_def)
  obtain ba2 where w: "ByteArray_write (take b f) ba = (Inr (), ba2)"
    using "1.prems"(3) b by (subst (asm) read_file_loop.simps) (auto split: prod.splits sum.splits)
  note i = write_inv [OF "1.prems"(1) w]
  show ?case
  proof (cases "length f < b")
    case True
    then show ?thesis using "1.prems"(3) b w i by (subst (asm) read_file_loop.simps) simp
  next
    case False
    then have "read_file_loop b (drop b f) ba2 = (Inr (), ba1)"
      using "1.prems"(3) b w by (subst (asm) read_file_loop.simps) simp
    then show ?thesis using "1.IH" [OF b w [symmetric] refl] False i "1.prems"(2) by simp
  qed
qed

lemma setPosition_out_of_range: "m_capacity ba < v \<Longrightarrow> ByteArray_setPosition v ba = (Inl OutOfRange, ba)"
  by (simp add: ByteArray_setPosition_def)

lemma write_error: "ba_inv ba \<Longrightarrow> ByteArray_write bs ba = (Inl e, ba1) \<Longrightarrow> e = NullDeref"
  using write_refines [of ba bs] write_overruns [of ba bs] by (cases "write_fits (length bs) ba") auto

lemma read_file_loop_error:
  "ba_inv ba \<Longrightarrow> b = m_baseSize ba \<Longrightarrow> read_file_loop b f ba = (Inl e, ba1) \<Longrightarrow> e = NullDeref"
proof (induction b f ba rule: read_file_loop.induct)
  case (1 b f ba)
  have b: "b \<noteq> 0" using 1 by (simp add: ba_inv_def)
  show ?case
  proof (cases "ByteArray_write (take b f) ba")
    case (Pair r ba2)
    show ?thesis
    proof (cases r)
      case (Inl e')
      then show ?thesis
        using "1.prems" b Pair write_error by (subst (asm) read_file_loop.simps) auto
    next
      case (Inr u)
      then have w: "ByteArray_write (take b f) ba = (Inr (), ba2)" using Pair by simp
      note i = write_inv [OF "1.prems"(1) w]
      have "\<not> length f < b" "read_file_loop b (drop b f) ba2 = (Inl e, ba1)"
        using "1.prems"(3) b w by (subst (asm) read_file_loop.simps, simp split: if_splits)+
      then show ?thesis using "1.IH" [OF b w [symmetric] refl] i "1.prems"(2) by simp
    qed
  qed
qed

lemma ba_exec_inv:
  assumes inv: "ba_inv ba" and x: "ba_exec x ba = (r, ba1)" and r: "r = Inr () \<or> r = Inl OutOfRange"
  shows "ba_inv ba1"
proof (cases x)
  case (OpWrite bs)
  then show ?thesis using write_inv(1) [OF inv] write_error [OF inv] x r by fastforce
next
  case (OpRead n)
  then show ?thesis using read_inv_all [OF inv] x r by (fastforce split: prod.splits sum.splits)
next
  case (OpSetPosition v)
  then show ?thesis
    using setPosition_refines [OF inv, of v] setPosition_inv [OF inv, of v]
      setPosition_out_of_range [of ba v] x inv by (cases "v \<le> m_capacity ba") auto
next
  case OpClear
  then show ?thesis using ByteArray_clear_inv [OF inv] x by simp
next
  case (OpSetIsLittleEndian b)
  then show ?thesis using inv x by (auto simp: ByteArray_setIsLittleEndian_def ba_inv_def cursor_at_def)
next
  case (OpGetWriteBuffers n)
  then show ?thesis using getWriteBuffers_inv [OF inv] x by (auto split: prod.splits sum.splits)
next
  case (OpReadFromFile f)
  then show ?thesis
    using read_file_loop_inv [OF inv refl, of f] read_file_loop_error [OF inv refl, of f] x r
    by (auto simp: ByteArray_readFromFile_def split: prod.splits sum.splits)
qed

lemma ba_run_inv: "ba_inv ba \<Longrightarrow> ba_run xs ba = Some ba1 \<Longrightarrow> ba_inv ba1"
proof (induction xs arbitrary: ba)
  case Nil
  then show ?case by simp
next
  case (Cons x xs)
  obtain r ba2 where x: "ba_exec x ba = (r, ba2)" by (cases "ba_exec x ba") auto
  with Cons.prems(2) have "r = Inr () \<or> r = Inl OutOfRange" "ba_run xs ba2 = Some ba1"
    by (auto split: sum.splits cpp_error.splits)
  then show ?case using Cons.IH ba_exec_inv [OF Cons.prems(1) x] by blast
qed

section \<open>Properties\<close>

text \<open>
  C1: A write of any byte string to a well-formed array either overwrites exactly the bytes at the
  position of the flat contents and moves the position behind them, or, exactly when the growth
  computed by \<open>addCapacity\<close> is too small, runs off the end of the block chain.
\<close>

theorem ByteArray_write_correct:
  assumes "ba_inv ba"
  shows "if write_fits (length buf) ba
    then \<exists>ba'. ByteArray_write buf ba = (Inr (), ba') \<and> ba_inv ba' \<and>
           ba_contents ba' = put (m_position ba) buf (ba_contents ba) \<and>
           m_position ba' = m_position ba + length buf \<and>
           m_size ba' = max (m_size ba) (m_position ba + length buf)
    else fst (ByteArray_write buf ba) = Inl NullDeref"
  using write_refines [OF assms, of buf] write_overruns [OF assms, of buf] by auto

theorem ByteArray_write_correct_witness:
  "ba_inv (ByteArray_new (\<lambda>_ _. 0) 8) \<and>
   write_fits (length [1, 2, 3 :: byte]) (ByteArray_new (\<lambda>_ _. 0) 8) \<and>
   (\<exists>ba'. ByteArray_write [1, 2, 3] (ByteArray_new (\<lambda>_ _. 0) 8) = (Inr (), ba') \<and>
     ba_contents ba' = [1, 2, 3])"
proof -
  have i: "ba_inv (ByteArray_new (\<lambda>_ _. 0) 8)" by (rule ByteArray_new_inv) simp
  have f: "write_fits (length [1, 2, 3 :: byte]) (ByteArray_new (\<lambda>_ _. 0) 8)"
    by (simp add: write_fits_def ByteArray_new_def ByteArray_getCapacity_def)
  show ?thesis
    using ByteArray_write_correct [OF i, of "[1, 2, 3]"] i f
    by (auto simp: ByteArray_new_def ba_contents_def put_def)
qed

text \<open>
  C2: A read on a well-formed array: more bytes than are readable raise \<open>std::out_of_range\<close> and change
  nothing; otherwise at least one byte reads the flat contents at the position and moves behind
  it, keeping the contents; a read of no bytes crashes exactly at the end of the chain.
\<close>

theorem ByteArray_read_correct:
  assumes "ba_inv ba"
  shows "ByteArray_read n ba =
    (if m_size ba - m_position ba < n then (Inl OutOfRange, ba)
     else if n = 0 \<and> m_position ba = m_capacity ba then (Inl NullDeref, ba)
     else (Inr (take n (drop (m_position ba) (ba_contents ba))),
           ba\<lparr>m_position := m_position ba + n, m_cur := cursor_at ba (m_position ba + n)\<rparr>))"
proof (cases "n = 0")
  case True
  have "ba\<lparr>m_cur := cursor_at ba (m_position ba)\<rparr> = ba" using assms by (simp add: ba_inv_def)
  then show ?thesis using True read_zero [OF assms] by simp
next
  case False
  have le: "m_position ba \<le> m_size ba" using assms by (simp add: ba_inv_def)
  show ?thesis
  proof (cases "m_size ba - m_position ba < n")
    case True
    then show ?thesis by (simp add: read_out_of_range)
  next
    case short: False
    then have "m_position ba + n \<le> m_size ba" using le by linarith
    then show ?thesis using read_refines [OF assms, of n] False short by simp
  qed
qed

theorem ByteArray_read_correct_witness:
  "ba_inv (ByteArray_new (\<lambda>_ _. 7) 4) \<and>
   ByteArray_read 1 (ByteArray_new (\<lambda>_ _. 7) 4) = (Inl OutOfRange, ByteArray_new (\<lambda>_ _. 7) 4)"
proof -
  have i: "ba_inv (ByteArray_new (\<lambda>_ _. 7) 4)" by (rule ByteArray_new_inv) simp
  show ?thesis using ByteArray_read_correct [OF i, of 1] i by (simp add: ByteArray_new_def)
qed

text \<open>
  C12: The invariant of the block chain (blocks of equal size, capacity the sum of their sizes,
  position within size within capacity, cursor at the block of the position) holds after every
  sequence of public calls that does not crash, whatever exceptions the calls raised.
\<close>

theorem ByteArray_run_invariant:
  assumes "0 < base_size" "ba_run xs (ByteArray_new g base_size) = Some ba"
  shows "ba_inv ba"
  using ba_run_inv [OF ByteArray_new_inv [OF assms(1)] assms(2)] .

theorem ByteArray_run_invariant_witness:
  "\<exists>ba. ba_run [OpWrite [1, 2, 3, 4, 5], OpSetPosition 1, OpRead 2, OpRead 9, OpClear]
      (ByteArray_new (\<lambda>_ _. 0) 5) = Some ba \<and> ba_inv ba"
proof -
  have "case ba_run [OpWrite [1, 2, 3, 4, 5], OpSetPosition 1, OpRead 2, OpRead 9, OpClear]
      (ByteArray_new (\<lambda>_ _. 0) 5) of None \<Rightarrow> False | Some _ \<Rightarrow> True"
    by code_simp
  then obtain ba where r: "ba_run [OpWrite [1, 2, 3, 4, 5], OpSetPosition 1, OpRead 2, OpRead 9, OpClear]
      (ByteArray_new (\<lambda>_ _. 0) 5) = Some ba"
    by (auto split: option.splits)
  then show ?thesis using ByteArray_run_invariant [OF _ r] by auto
qed

text \<open>
  C13: Fixed-width integers and floating-point patterns: on every host byte order and for either byte
  order of the array, what \<open>writeF*\<close>, \<open>writeFloat\<close> or \<open>writeDouble\<close> stores, the matching reader gives back after the
  position is set back, and the reader stops where the writer stopped.
\<close>

theorem fixed_width_roundtrip:
  assumes "ba_inv ba"
  shows "reads_back (ByteArray_writeFint8 a) ByteArray_readFint8 a ba \<and>
         reads_back (ByteArray_writeFuint8 a) ByteArray_readFuint8 a ba \<and>
         reads_back (ByteArray_writeFint16 host b) (ByteArray_readFint16 host) b ba \<and>
         reads_back (ByteArray_writeFuint16 host b) (ByteArray_readFuint16 host) b ba \<and>
         reads_back (ByteArray_writeFint32 host c) (ByteArray_readFint32 host) c ba \<and>
         reads_back (ByteArray_writeFuint32 host c) (ByteArray_readFuint32 host) c ba \<and>
         reads_back (ByteArray_writeFint64 host d) (ByteArray_readFint64 host) d ba \<and>
         reads_back (ByteArray_writeFuint64 host d) (ByteArray_readFuint64 host) d ba \<and>
         reads_back (ByteArray_writeFloat host c) (ByteArray_readFloat host) c ba \<and>
         reads_back (ByteArray_writeDouble host d) (ByteArray_readDouble host) d ba"
  unfolding ByteArray_writeFint8_def ByteArray_writeFuint8_def ByteArray_writeFint16_def
    ByteArray_writeFuint16_def ByteArray_writeFint32_def ByteArray_writeFuint32_def
    ByteArray_writeFint64_def ByteArray_writeFuint64_def ByteArray_writeFloat_def
    ByteArray_writeDouble_def ByteArray_readFint16_def ByteArray_readFuint16_def
    ByteArray_readFint32_def ByteArray_readFuint32_def ByteArray_readFint64_def
    ByteArray_readFuint64_def ByteArray_readFloat_def ByteArray_readDouble_def
  by (intro conjI)
    (rule reads_backI [OF assms chain.emits_wr decodes_readFint8]
      reads_backI [OF assms chain.emits_wr decodes_readFuint8]
      reads_backI [OF assms emits_fixed decodes_fixed], simp?)+

theorem fixed_width_roundtrip_witness:
  "\<exists>ba1 ba2 ba3. ByteArray_writeFint32 MINGO_LITTLE_ENDIAN 0x01020304 (ByteArray_new (\<lambda>_ _. 0) 4) = (Inr (), ba1) \<and>
     ba_contents ba1 = [1, 2, 3, 4] \<and>
     ByteArray_setPosition 0 ba1 = (Inr (), ba2) \<and>
     ByteArray_readFint32 MINGO_LITTLE_ENDIAN ba2 = (Inr 0x01020304, ba3)"
proof -
  let ?ba = "ByteArray_new (\<lambda>_ _. 0) 4"
  have i: "ba_inv ?ba" by (rule ByteArray_new_inv) simp
  have "write_fits 4 ?ba" by (simp add: write_fits_def ByteArray_new_def ByteArray_getCapacity_def)
  then obtain ba1 where w: "ByteArray_writeFint32 MINGO_LITTLE_ENDIAN 0x01020304 ?ba = (Inr (), ba1)"
      and c: "ba_contents ba1 = put 0 (wire_bytes MINGO_BIG_ENDIAN (0x01020304 :: u32)) []"
    using write_refines [OF i, of "wire_bytes MINGO_BIG_ENDIAN (0x01020304 :: u32)"]
    by (auto simp: ByteArray_writeFint32_def write_fixed_wire wire_bytes_def ByteArray_new_def ba_contents_def)
  have "ba_contents ba1 = [1, 2, 3, 4]" unfolding c by code_simp
  with w fixed_width_roundtrip [OF i, of _ MINGO_LITTLE_ENDIAN _ "0x01020304"]
  show ?thesis unfolding reads_back_def by (fastforce simp: ByteArray_new_def)
qed



text \<open>
  The run that the varint loops leave in the fixed arrays \<open>tmp[5]\<close> and \<open>tmp[10]\<close> never exceeds
  them: at most five bytes for 32-bit and ten for 64-bit values, and at least one.
\<close>

theorem varint_tmp_bounds:
  "1 \<le> length (writeUint32_tmp a) \<and> length (writeUint32_tmp a) \<le> 5 \<and>
   1 \<le> length (writeUint64_tmp b) \<and> length (writeUint64_tmp b) \<le> 10"
proof -
  have "unat a < 128 ^ 5" using unsigned_less [of a, where ?'a = nat] by simp
  moreover have "unat b < 128 ^ 10" using unsigned_less [of b, where ?'a = nat] by simp
  moreover have "1 \<le> length (varint n)" for n by (cases "varint n") (use varint_nonempty in auto)
  ultimately show ?thesis
    by (simp add: writeUint32_tmp_varint writeUint64_tmp_varint length_varint)
qed

lemma string_fixed_reads_back:
  fixes ba :: bytearray
  assumes "ba_inv ba" "v \<noteq> []" "8 dvd LENGTH('a::len)" "length v < 2 ^ LENGTH('a)"
  shows "reads_back (andthen (write_fixed host (of_nat (length v) :: 'a word)) (\<lambda>_. ByteArray_write v))
    (andthen (read_fixed host :: (bytearray, 'a word) oper) (\<lambda>len. ByteArray_read (unat len))) v ba"
  using chain.emits_seq [OF emits_fixed chain.emits_wr]
    decodes_body [OF decodes_fixed [OF assms(3)] unat_of_nat_small [OF assms(4)] assms(2)]
  by (rule reads_backI [OF assms(1)])

lemma string_varint_reads_back:
  assumes "ba_inv ba" "v \<noteq> []" "length v < 2 ^ 64"
  shows "reads_back (andthen (ByteArray_write (writeUint64_tmp (of_nat (length v)))) (\<lambda>_. ByteArray_write v))
    (andthen ByteArray_readUint64 (\<lambda>len. ByteArray_read (unat len))) v ba"
proof -
  have "unat (of_nat (length v) :: u64) = length v" using assms(3) by (intro unat_of_nat_small) simp
  from decodes_body [OF decodes_readUint64 this assms(2)] show ?thesis
    by (rule reads_backI [OF assms(1) chain.emits_seq [OF chain.emits_wr chain.emits_wr]])
qed

text \<open>
  C15: Length-prefixed strings: a non-empty string whose length fits the prefix type (less than
  65536 bytes for the 16-bit prefix) is read back by the matching reader in all four forms.
\<close>

theorem string_roundtrip:
  assumes "ba_inv ba" "v \<noteq> []" "length v < 2 ^ 64"
  shows "(length v < 2 ^ 16 \<longrightarrow>
           reads_back (ByteArray_writeStringF16 host v) (ByteArray_readStringF16 host) v ba) \<and>
         (length v < 2 ^ 32 \<longrightarrow>
           reads_back (ByteArray_writeStringF32 host v) (ByteArray_readStringF32 host) v ba) \<and>
         reads_back (ByteArray_writeStringF64 host v) (ByteArray_readStringF64 host) v ba \<and>
         reads_back (ByteArray_writeStringVint v) ByteArray_readStringVint v ba"
proof -
  note F = string_fixed_reads_back [OF assms(1,2), of host]
  show ?thesis
    unfolding ByteArray_writeStringF16_def ByteArray_readStringF16_def ByteArray_writeStringF32_def
      ByteArray_readStringF32_def ByteArray_writeStringF64_def ByteArray_readStringF64_def
      ByteArray_writeStringVint_def ByteArray_readStringVint_def ByteArray_writeFuint16_def
      ByteArray_readFuint16_def ByteArray_writeFuint32_def ByteArray_readFuint32_def
      ByteArray_writeFuint64_def ByteArray_readFuint64_def ByteArray_writeUint64_def
    using F [where ?'a = 16] F [where ?'a = 32] F [where ?'a = 64]
      string_varint_reads_back [OF assms] assms(3) by simp
qed

theorem string_roundtrip_witness:
  "\<exists>ba1 ba2 ba3. ByteArray_writeStringF16 MINGO_LITTLE_ENDIAN [104, 105] (ByteArray_new (\<lambda>_ _. 0) 8) = (Inr (), ba1) \<and>
     ba_contents ba1 = [0, 2, 104, 105] \<and> ByteArray_setPosition 0 ba1 = (Inr (), ba2) \<and>
     ByteArray_readStringF16 MINGO_LITTLE_ENDIAN ba2 = (Inr [104, 105], ba3)"
proof -
  let ?ba = "ByteArray_new (\<lambda>_ _. 0) 8"
  have i: "ba_inv ?ba" by (rule ByteArray_new_inv) simp
  have "case ByteArray_writeStringF16 MINGO_LITTLE_ENDIAN [104, 105] ?ba of
      (Inl e, ba1) \<Rightarrow> False | (Inr _, ba1) \<Rightarrow> ba_contents ba1 = [0, 2, 104, 105]"
    by code_simp
  then obtain ba1 where "ByteArray_writeStringF16 MINGO_LITTLE_ENDIAN [104, 105] ?ba = (Inr (), ba1)"
      "ba_contents ba1 = [0, 2, 104, 105]"
    by (auto split: prod.splits sum.splits)
  with string_roundtrip [OF i, of "[104, 105]" MINGO_LITTLE_ENDIAN] show ?thesis
    unfolding reads_back_def by (fastforce simp: ByteArray_new_def)
qed

text \<open>
  The views of the readable bytes agree: \<open>toString\<close> returns exactly the bytes from the position
  to the size, and the \<open>iovec\<close> list of \<open>getReadBuffers\<close> describes the first \<open>len\<close> of them, with the
  returned count the sum of its lengths.
\<close>

theorem ByteArray_views:
  assumes "ba_inv ba" "m_size ba < 2 ^ 64"
  shows "ByteArray_toString ba = Inr (drop (m_position ba) (ba_contents ba)) \<and>
    (\<exists>v. ByteArray_getReadBuffers ba [] len = Inr (min len (ByteArray_getReadSize ba), v) \<and>
       iov_bytes ba v = take len (drop (m_position ba) (ba_contents ba)) \<and>
       sum_list (map (\<lambda>(i, off, l). l) v) = min len (ByteArray_getReadSize ba))"
  using toString_rest [OF assms] getReadBuffers_rest [OF assms(1), of len] length_ba_rest [OF assms(1)]
  by (simp add: ba_rest_def)

theorem ByteArray_views_witness:
  "let ba = (ByteArray_new (\<lambda>_ _. 0) 2)\<lparr>m_size := 2\<rparr> in
   ba_inv ba \<and> ByteArray_toString ba = Inr [0, 0] \<and>
   (\<exists>v. ByteArray_getReadBuffers ba [] 1 = Inr (1, v) \<and> iov_bytes ba v = [0])"
proof -
  let ?ba = "(ByteArray_new (\<lambda>_ _. 0) 2)\<lparr>m_size := 2\<rparr>"
  have i: "ba_inv ?ba"
    by (simp add: ba_inv_def ByteArray_new_def cursor_at_def blocks_def Node_new_def)
  have "ba_contents ?ba = [0, 0]" by code_simp
  then show ?thesis
    using ByteArray_views [OF i, of 1] i
    unfolding Let_def by (fastforce simp: ByteArray_getReadSize_def ByteArray_new_def)
qed

text \<open>
  Files: from a position at a block boundary \<open>writeToFile\<close> writes exactly the readable bytes, and
  \<open>readFromFile\<close> of a file into an empty array of any block size makes the file its contents.
\<close>

theorem ByteArray_file_roundtrip:
  assumes "ba_inv ba" "m_position ba mod m_baseSize ba = 0" "0 < b"
  shows "ByteArray_writeToFile True ba = Inr (True, drop (m_position ba) (ba_contents ba)) \<and>
    (\<exists>ba'. ByteArray_readFromFile (Some f) (ByteArray_new g b) = (Inr True, ba') \<and>
       ba_inv ba' \<and> ba_contents ba' = f \<and> m_position ba' = length f)"
proof -
  let ?new = "ByteArray_new g b"
  have "ba_inv ?new" "m_position ?new mod m_baseSize ?new = 0" "ba_contents ?new = []" "m_position ?new = 0"
    using ByteArray_new_inv [OF assms(3)] by (simp_all add: ByteArray_new_def ba_contents_def)
  with read_file_loop_aligned [of ?new f]
  have "\<exists>ba'. ByteArray_readFromFile (Some f) ?new = (Inr True, ba') \<and> ba_inv ba' \<and>
      ba_contents ba' = f \<and> m_position ba' = length f"
    by (auto simp: ByteArray_readFromFile_def put_def)
  then show ?thesis using writeToFile_aligned [OF assms(1,2)] by (simp add: ba_rest_def)
qed

theorem ByteArray_file_roundtrip_witness:
  "ByteArray_writeToFile True ((ByteArray_new (\<lambda>_ _. 9) 2)\<lparr>m_size := 1\<rparr>) = Inr (True, [9]) \<and>
   (\<exists>ba'. ByteArray_readFromFile (Some [5, 6, 7]) (ByteArray_new (\<lambda>_ _. 9) 2) = (Inr True, ba') \<and>
      ba_contents ba' = [5, 6, 7])"
proof -
  let ?ba = "(ByteArray_new (\<lambda>_ _. 9) 2)\<lparr>m_size := 1\<rparr>"
  have i: "ba_inv ?ba" "m_position ?ba mod m_baseSize ?ba = 0"
    by (simp_all add: ba_inv_def ByteArray_new_def cursor_at_def blocks_def Node_new_def)
  have "drop (m_position ?ba) (ba_contents ?ba) = [9]" by code_simp
  then show ?thesis using ByteArray_file_roundtrip [OF i, of 2 "[5, 6, 7]" "\<lambda>_ _. 9"] by auto
qed

section \<open>Inputs on which the code fails\<close>

text \<open>
  \<open>addCapacity\<close> compares the remainder with the old free space instead of with zero: writing four
  bytes where three are left allocates no block, and the copy runs off the chain.
\<close>

lemma write_overrun_example:
  "map_prod id m_position
     (andthen (ByteArray_write [1, 2, 3, 4, 5]) (\<lambda>_. ByteArray_write [6, 7, 8, 9]) (ByteArray_new (\<lambda>_ _. 0) 8))
   = (Inl NullDeref, 8)"
  by code_simp

text \<open>
  An empty string behind a length that ends at the end of the chain: the reader reads no bytes
  through the null cursor.
\<close>

lemma read_empty_string_example:
  "fst (andthen (ByteArray_writeStringF16 MINGO_LITTLE_ENDIAN [])
     (\<lambda>_. andthen (ByteArray_setPosition 0) (\<lambda>_. ByteArray_readStringF16 MINGO_LITTLE_ENDIAN))
     (ByteArray_new (\<lambda>_ _. 0) 2)) = Inl NullDeref"
  by code_simp

text \<open>A string longer than the prefix can hold is cut: the length is stored modulo 65536.\<close>

lemma string_f16_truncates: "(of_nat 65536 :: u16) = 0"
  by simp

text \<open>\<open>writeToFile\<close> from inside a block subtracts the offset from the rest instead of from the block.\<close>

lemma writeToFile_unaligned_example:
  "(case andthen (ByteArray_write [1, 2, 3, 4, 5, 6]) (\<lambda>_. ByteArray_setPosition 2) (ByteArray_new (\<lambda>_ _. 0) 8) of
      (Inl e, ba) \<Rightarrow> False
    | (Inr _, ba) \<Rightarrow> ba_rest ba = [3, 4, 5, 6] \<and> ByteArray_writeToFile True ba = Inl NullDeref)"
  by code_simp

text \<open>The positional \<open>read\<close> starts in the block of \<open>m_position\<close>, not in that of its argument.\<close>

lemma read_at_wrong_block_example:
  "let ba = (ByteArray_new (\<lambda>_ _. 0) 2)\<lparr>m_nodes := [[1, 2], [3, 4]], m_capacity := 4, m_size := 4\<rparr>
   in ba_inv ba \<and> ByteArray_read_at ba 1 2 = Inr [1] \<and> drop 2 (ba_contents ba) = [3, 4]"
  by (simp add: ByteArray_new_def ba_inv_def blocks_def cursor_at_def ByteArray_read_at_def sub64_def
      read_at_loop.simps node_size_def memcpy_from_def ba_contents_def)

end
