(* ===== verification/Mingo_Ordered.thy ===== *)
theory Mingo_Ordered
  imports Mingo_Prelude "HOL-Library.List_Lexorder" "HOL-Library.Char_ord"
begin

text \<open>
  \<open>std::set\<close> and \<open>std::map\<close> with a comparator, as the list of their elements in iteration order. Both
  compare with \<open>lt\<close> only: two keys neither of which is less than the other are the same key, and the
  stored key stays when a value is assigned. What the containers promise under a strict weak order,
  the requirement of the C++ standard on the comparator, is proved in the locale
  \<open>strict_weak\<close>; the comparators of the program interpret it.
\<close>

section \<open>Operations\<close>

fun sset_insert :: "('a \<Rightarrow> 'a \<Rightarrow> bool) \<Rightarrow> 'a \<Rightarrow> 'a list \<Rightarrow> 'a list" where
  "sset_insert lt x [] = [x]"
| "sset_insert lt x (y # ys) =
     (if lt y x then y # sset_insert lt x ys else if lt x y then x # y # ys else y # ys)"

fun sset_find :: "('a \<Rightarrow> 'a \<Rightarrow> bool) \<Rightarrow> 'a \<Rightarrow> 'a list \<Rightarrow> 'a option" where
  "sset_find lt x [] = None"
| "sset_find lt x (y # ys) =
     (if lt y x then sset_find lt x ys else if lt x y then None else Some y)"

fun smap_get :: "('k \<Rightarrow> 'k \<Rightarrow> bool) \<Rightarrow> 'k \<Rightarrow> ('k \<times> 'v) list \<Rightarrow> 'v option" where
  "smap_get lt k [] = None"
| "smap_get lt k ((k', v) # xs) =
     (if lt k' k then smap_get lt k xs else if lt k k' then None else Some v)"

fun smap_put :: "('k \<Rightarrow> 'k \<Rightarrow> bool) \<Rightarrow> 'k \<Rightarrow> 'v \<Rightarrow> ('k \<times> 'v) list \<Rightarrow> ('k \<times> 'v) list" where
  "smap_put lt k v [] = [(k, v)]"
| "smap_put lt k v ((k', v') # xs) =
     (if lt k' k then (k', v') # smap_put lt k v xs
      else if lt k k' then (k, v) # (k', v') # xs else (k', v) # xs)"

fun smap_del :: "('k \<Rightarrow> 'k \<Rightarrow> bool) \<Rightarrow> 'k \<Rightarrow> ('k \<times> 'v) list \<Rightarrow> ('k \<times> 'v) list" where
  "smap_del lt k [] = []"
| "smap_del lt k ((k', v') # xs) =
     (if lt k' k then (k', v') # smap_del lt k xs
      else if lt k k' then (k', v') # xs else xs)"

section \<open>Laws under a strict weak order\<close>

locale strict_weak =
  fixes lt :: "'k \<Rightarrow> 'k \<Rightarrow> bool"
  assumes asym: "lt x y \<Longrightarrow> \<not> lt y x"
    and neg_trans: "\<not> lt x y \<Longrightarrow> \<not> lt y z \<Longrightarrow> \<not> lt x z"
begin

definition same :: "'k \<Rightarrow> 'k \<Rightarrow> bool" where
  "same x y \<longleftrightarrow> \<not> lt x y \<and> \<not> lt y x"

lemma irrefl [simp]: "\<not> lt x x"
  using asym by blast

lemma lt_trans: "lt x y \<Longrightarrow> lt y z \<Longrightarrow> lt x z"
  using asym neg_trans by blast

lemma lt_cong1: "\<not> lt x y \<Longrightarrow> \<not> lt y x \<Longrightarrow> lt x z = lt y z"
  using neg_trans asym by blast

lemma lt_cong2: "\<not> lt x y \<Longrightarrow> \<not> lt y x \<Longrightarrow> lt z x = lt z y"
  using neg_trans asym by blast

lemma lt_le_trans: "lt x y \<Longrightarrow> \<not> lt z y \<Longrightarrow> lt x z"
  using neg_trans asym by blast

abbreviation ord :: "'k list \<Rightarrow> bool" where
  "ord \<equiv> sorted_wrt lt"

lemma set_sset_insert_subset: "set (sset_insert lt x xs) \<subseteq> insert x (set xs)"
  by (induction xs) auto

lemma ord_sset_insert: "ord xs \<Longrightarrow> ord (sset_insert lt x xs)"
  by (induction xs) (use set_sset_insert_subset in \<open>auto dest: lt_trans\<close>)

lemma key_smap_put: "q \<in> set (smap_put lt k v xs) \<Longrightarrow> fst q = k \<or> fst q \<in> fst ` set xs"
  by (induction xs) (force split: if_splits simp: split_paired_all)+

lemma key_smap_del: "q \<in> set (smap_del lt k xs) \<Longrightarrow> q \<in> set xs"
  by (induction xs) (auto split: if_splits simp: split_paired_all)

lemma ord_smap_put: "ord (map fst xs) \<Longrightarrow> ord (map fst (smap_put lt k v xs))"
proof (induction xs)
  case (Cons p xs)
  obtain k' v' where p: "p = (k', v')" by (cases p)
  have "lt k' (fst q)" if "q \<in> set (smap_put lt k v xs)" "lt k' k" for q
    using key_smap_put [OF that(1)] that(2) Cons.prems p by auto
  then show ?case using Cons p by (auto dest: lt_trans)
qed simp

lemma ord_smap_del: "ord (map fst xs) \<Longrightarrow> ord (map fst (smap_del lt k xs))"
  by (induction xs) (fastforce simp: split_paired_all dest: key_smap_del)+

text \<open>A key below all stored keys is not found.\<close>

lemma smap_get_below:
  "\<forall>y \<in> set (map fst xs). lt k y \<Longrightarrow> smap_get lt k xs = None"
  by (cases xs) (auto simp: split_paired_all dest: asym)

lemma smap_get_put:
  "ord (map fst xs) \<Longrightarrow> smap_get lt k' (smap_put lt k v xs) = (if same k k' then Some v else smap_get lt k' xs)"
proof (induction xs)
  case Nil
  then show ?case by (auto simp: same_def)
next
  case (Cons p xs)
  obtain a b where p: "p = (a, b)" by (cases p)
  consider "lt a k" | "lt k a" | "\<not> lt a k" "\<not> lt k a" by blast
  then show ?case
  proof cases
    case 1
    then show ?thesis using Cons p lt_le_trans [of a k k'] by (auto simp: same_def dest: asym)
  next
    case 2
    then show ?thesis
      using p asym [OF 2] lt_cong1 [of k k' a] lt_trans [of k' k a] asym [of k' a]
      by (auto simp: same_def)
  next
    case 3
    then show ?thesis using p lt_cong1 [OF 3(1,2)] lt_cong2 [OF 3(1,2)] by (auto simp: same_def)
  qed
qed

lemma smap_get_del:
  "ord (map fst xs) \<Longrightarrow> smap_get lt k' (smap_del lt k xs) = (if same k k' then None else smap_get lt k' xs)"
proof (induction xs)
  case Nil
  then show ?case by simp
next
  case (Cons p xs)
  obtain a b where p: "p = (a, b)" by (cases p)
  have below: "lt a y" if "y \<in> set (map fst xs)" for y using Cons.prems that p by auto
  consider "lt a k" | "lt k a" | "\<not> lt a k" "\<not> lt k a" by blast
  then show ?case
  proof cases
    case 1
    then show ?thesis using Cons p lt_le_trans [of a k k'] by (auto simp: same_def dest: asym)
  next
    case 2
    then show ?thesis using p asym [OF 2] lt_cong1 [of k k' a] lt_cong2 [of k k' a] by (auto simp: same_def)
  next
    case 3
    have "smap_get lt k' xs = None" if "\<not> lt a k'"
      using below that neg_trans by (intro smap_get_below) (metis lt_le_trans asym)
    then show ?thesis
      using p 3 lt_cong1 [OF 3(1,2)] lt_cong2 [OF 3(1,2)] by (auto simp: same_def)
  qed
qed

lemma sset_find_insert:
  "ord xs \<Longrightarrow> (sset_find lt x (sset_insert lt y xs) \<noteq> None) \<longleftrightarrow> same x y \<or> sset_find lt x xs \<noteq> None"
proof (induction xs)
  case Nil
  then show ?case by (auto simp: same_def)
next
  case (Cons a xs)
  consider "lt a y" | "lt y a" | "\<not> lt a y" "\<not> lt y a" by blast
  then show ?case
  proof cases
    case 1
    then show ?thesis using Cons lt_le_trans [of a y x] by (auto simp: same_def dest: asym)
  next
    case 2
    then show ?thesis using asym [OF 2] lt_trans [of x y a] asym [of x a] by (auto simp: same_def)
  next
    case 3
    then show ?thesis using lt_cong1 [OF 3(1,2)] lt_cong2 [OF 3(1,2)] by (auto simp: same_def)
  qed
qed

text \<open>A lookup in an ordered map, as a search for the first equivalent key.\<close>

lemma smap_get_find:
  "ord (map fst xs) \<Longrightarrow> smap_get lt k xs = map_option snd (find (\<lambda>kv. same (fst kv) k) xs)"
proof (induction xs)
  case Nil
  then show ?case by simp
next
  case (Cons p xs)
  obtain a b where p: "p = (a, b)" by (cases p)
  have "find (\<lambda>kv. same (fst kv) k) xs = None" if "lt k a"
    using Cons.prems p lt_trans [OF that] asym by (fastforce simp: find_None_iff same_def)
  then show ?case using Cons p asym by (auto simp: same_def)
qed

lemma smap_put_last: "\<forall>p \<in> set xs. lt (fst p) k \<Longrightarrow> smap_put lt k v xs = xs @ [(k, v)]"
  by (induction xs) auto

end

section \<open>Laws under a strict total order\<close>

text \<open>With a total comparator, equivalent elements are equal and the list is determined by its set.\<close>

locale strict_total = strict_weak +
  assumes total: "x \<noteq> y \<Longrightarrow> lt x y \<or> lt y x"
begin

lemma same_eq [simp]: "same x y \<longleftrightarrow> x = y"
  using total by (auto simp: same_def)

lemma set_sset_insert [simp]: "set (sset_insert lt x xs) = insert x (set xs)"
  by (induction xs) (use total in auto)

lemma ord_distinct: "ord xs \<Longrightarrow> distinct xs"
  by (induction xs) auto

lemma sset_find_eq: "ord xs \<Longrightarrow> sset_find lt x xs = (if x \<in> set xs then Some x else None)"
proof (induction xs)
  case (Cons a xs)
  then show ?case using total [of a x] by (auto dest: asym)
qed simp

lemma ord_remove1: "ord xs \<Longrightarrow> ord (remove1 x xs)"
  by (induction xs) (auto dest: notin_set_remove1 set_remove1_subset [THEN subsetD])

lemma hd_sset_insert: "xs \<noteq> [] \<Longrightarrow> hd (sset_insert lt x xs) = (if lt x (hd xs) then x else hd xs)"
  by (cases xs) (auto dest: asym)

lemma ord_hd_least: "ord xs \<Longrightarrow> x \<in> set xs \<Longrightarrow> \<not> lt x (hd xs)"
  by (cases xs) (auto dest: asym)

lemma ord_unique: "ord xs \<Longrightarrow> ord ys \<Longrightarrow> set xs = set ys \<Longrightarrow> xs = ys"
proof (induction xs arbitrary: ys)
  case Nil
  then show ?case by simp
next
  case (Cons x xs)
  then obtain y ys' where ys: "ys = y # ys'" by (cases ys) auto
  have "x = y"
  proof (rule ccontr)
    assume ne: "x \<noteq> y"
    have "x \<in> set (y # ys')" "y \<in> set (x # xs)" using Cons.prems(3) ys by auto
    then have "lt y x" "lt x y" using ne Cons.prems ys by auto
    then show False using asym by blast
  qed
  moreover have "x \<notin> set xs" "y \<notin> set ys'" using Cons.prems ys irrefl by auto
  ultimately have "set xs = set ys'" using Cons.prems(3) ys by auto
  then show ?case using Cons ys \<open>x = y\<close> by simp
qed

end

section \<open>Comparators of the standard library\<close>

text \<open>\<open>std::less\<close> on a linearly ordered type: integers, and strings by their bytes.\<close>

interpretation std_less: strict_total "(<) :: 'a::linorder \<Rightarrow> 'a \<Rightarrow> bool"
  by unfold_locales auto

end
