(* ===== verification/Mingo_Timer.thy ===== *)
theory Mingo_Timer
  imports Mingo_Ordered
begin

text \<open>
  \<^verbatim>\<open>mingo/timer.cpp\<close>: timers and their manager. A \<open>Timer::ptr\<close> is an address; the objects are in
  \<open>tm_heap\<close>, so that the manager's set and a caller's handle see the same object. \<open>m_timers\<close> is the
  \<open>std::set\<close> ordered by firing time and address. Times are 64-bit words in milliseconds and wrap;
  \<open>GetCurrentMS\<close> is the argument \<open>now\<close>. An empty \<open>std::function\<close> is \<open>None\<close>. Each operation runs under the manager's
  mutex and is one step; the virtual call \<open>onTimerInsertedAtFront\<close> is the flag an insertion returns.
\<close>

section \<open>State\<close>

text \<open>A callback of the user, or one bound to a weak condition by \<open>addConditionTimer\<close>.\<close>

datatype callback = Callback nat | OnTimer nat callback

text \<open>The user functions a callback runs, given which weak conditions can still be locked.\<close>

fun run_callback :: "(nat \<Rightarrow> bool) \<Rightarrow> callback \<Rightarrow> nat list" where
  "run_callback alive (Callback f) = [f]"
| "run_callback alive (OnTimer weak_cond cb) = (if alive weak_cond then run_callback alive cb else [])"

record timer =
  m_recurring :: bool
  m_ms :: u64
  m_next :: u64
  m_cb :: "callback option"

record timer_manager =
  tm_heap :: "nat \<Rightarrow> timer"
  m_timers :: "nat list"
  m_tickled :: bool
  m_previouseTime :: u64

definition Timer_Comparator :: "(nat \<times> timer) option \<Rightarrow> (nat \<times> timer) option \<Rightarrow> bool" where
  "Timer_Comparator lhs rhs =
     (case (lhs, rhs) of
        (None, None) \<Rightarrow> False
      | (None, Some _) \<Rightarrow> True
      | (Some _, None) \<Rightarrow> False
      | (Some (a, t), Some (b, u)) \<Rightarrow>
          if m_next t < m_next u then True
          else if m_next u < m_next t then False
          else a < b)"

definition timer_lt :: "(nat \<Rightarrow> timer) \<Rightarrow> nat \<Rightarrow> nat \<Rightarrow> bool" where
  "timer_lt h a b = Timer_Comparator (Some (a, h a)) (Some (b, h b))"

definition Timer_new :: "u64 \<Rightarrow> u64 \<Rightarrow> callback option \<Rightarrow> bool \<Rightarrow> timer" where
  "Timer_new now ms cb recurring =
     \<lparr>m_recurring = recurring, m_ms = ms, m_next = now + ms, m_cb = cb\<rparr>"

definition Timer_at :: "u64 \<Rightarrow> timer" where
  "Timer_at nxt = \<lparr>m_recurring = False, m_ms = 0, m_next = nxt, m_cb = None\<rparr>"

definition TimerManager_new :: "u64 \<Rightarrow> timer_manager" where
  "TimerManager_new now =
     \<lparr>tm_heap = (\<lambda>_. Timer_at 0), m_timers = [], m_tickled = False, m_previouseTime = now\<rparr>"

section \<open>Operations\<close>

definition addTimer_val :: "nat \<Rightarrow> timer_manager \<Rightarrow> bool \<times> timer_manager" where
  "addTimer_val a tm =
     (let ts = sset_insert (timer_lt (tm_heap tm)) a (m_timers tm);
          at_front = (hd ts = a \<and> \<not> m_tickled tm)
      in (at_front, tm\<lparr>m_timers := ts, m_tickled := (if at_front then True else m_tickled tm)\<rparr>))"

definition TimerManager_addTimer ::
    "u64 \<Rightarrow> nat \<Rightarrow> u64 \<Rightarrow> callback option \<Rightarrow> bool \<Rightarrow> timer_manager \<Rightarrow> bool \<times> timer_manager" where
  "TimerManager_addTimer now a ms cb recurring tm =
     addTimer_val a (tm\<lparr>tm_heap := (tm_heap tm)(a := Timer_new now ms cb recurring)\<rparr>)"

definition TimerManager_addConditionTimer ::
    "u64 \<Rightarrow> nat \<Rightarrow> u64 \<Rightarrow> callback \<Rightarrow> nat \<Rightarrow> bool \<Rightarrow> timer_manager \<Rightarrow> bool \<times> timer_manager" where
  "TimerManager_addConditionTimer now a ms cb weak_cond recurring tm =
     TimerManager_addTimer now a ms (Some (OnTimer weak_cond cb)) recurring tm"

definition Timer_cancel :: "nat \<Rightarrow> (timer_manager, bool) oper" where
  "Timer_cancel a tm =
     (if m_cb (tm_heap tm a) \<noteq> None then
        let tm1 = tm\<lparr>tm_heap := (tm_heap tm)(a := (tm_heap tm a)\<lparr>m_cb := None\<rparr>)\<rparr>
        in case sset_find (timer_lt (tm_heap tm1)) a (m_timers tm1) of
             None \<Rightarrow> (Inl BadMemory, tm1)
           | Some b \<Rightarrow> (Inr True, tm1\<lparr>m_timers := remove1 b (m_timers tm1)\<rparr>)
      else (Inr False, tm))"

definition Timer_refresh :: "u64 \<Rightarrow> nat \<Rightarrow> timer_manager \<Rightarrow> bool \<times> timer_manager" where
  "Timer_refresh now a tm =
     (if m_cb (tm_heap tm a) = None then (False, tm)
      else case sset_find (timer_lt (tm_heap tm)) a (m_timers tm) of
        None \<Rightarrow> (False, tm)
      | Some b \<Rightarrow>
          let ts = remove1 b (m_timers tm);
              h = (tm_heap tm)(a := (tm_heap tm a)\<lparr>m_next := now + m_ms (tm_heap tm a)\<rparr>)
          in (True, tm\<lparr>tm_heap := h, m_timers := sset_insert (timer_lt h) a ts\<rparr>))"

text \<open>The result is the return value and whether \<open>onTimerInsertedAtFront\<close> was called.\<close>

definition Timer_reset :: "u64 \<Rightarrow> u64 \<Rightarrow> bool \<Rightarrow> nat \<Rightarrow> timer_manager \<Rightarrow> (bool \<times> bool) \<times> timer_manager" where
  "Timer_reset now ms from_now a tm =
     (if ms = m_ms (tm_heap tm a) \<and> \<not> from_now then ((True, False), tm)
      else if m_cb (tm_heap tm a) = None then ((False, False), tm)
      else case sset_find (timer_lt (tm_heap tm)) a (m_timers tm) of
        None \<Rightarrow> ((False, False), tm)
      | Some b \<Rightarrow>
          let t = tm_heap tm a;
              start = (if from_now then now else m_next t - m_ms t);
              tm1 = tm\<lparr>m_timers := remove1 b (m_timers tm),
                       tm_heap := (tm_heap tm)(a := t\<lparr>m_ms := ms, m_next := start + ms\<rparr>)\<rparr>;
              r = addTimer_val a tm1
          in ((True, fst r), snd r))"

definition TimerManager_getNextTimer :: "u64 \<Rightarrow> timer_manager \<Rightarrow> u64 \<times> timer_manager" where
  "TimerManager_getNextTimer now tm =
     (let tm1 = tm\<lparr>m_tickled := False\<rparr> in
      case m_timers tm of
        [] \<Rightarrow> (- 1, tm1)
      | a # _ \<Rightarrow>
          (if now \<ge> m_next (tm_heap tm a) then 0 else m_next (tm_heap tm a) - now, tm1))"

definition TimerManager_detectClockRollover :: "u64 \<Rightarrow> timer_manager \<Rightarrow> bool \<times> timer_manager" where
  "TimerManager_detectClockRollover now tm =
     (now < m_previouseTime tm \<and> now < m_previouseTime tm - 60 * 60 * 1000,
      tm\<lparr>m_previouseTime := now\<rparr>)"

text \<open>
  The timers up to the iterator \<open>it\<close>: \<open>lower_bound\<close> of a temporary timer that expires now (its address is
  \<open>probe\<close>), then all that expire exactly now.
\<close>

definition expired_range :: "(nat \<Rightarrow> timer) \<Rightarrow> u64 \<Rightarrow> nat \<Rightarrow> bool \<Rightarrow> nat list \<Rightarrow> nat list \<times> nat list" where
  "expired_range h now probe rollover ts =
     (if rollover then (ts, [])
      else
        let less_now = (\<lambda>a. Timer_Comparator (Some (a, h a)) (Some (probe, Timer_at now)));
            rest = dropWhile less_now ts
        in (takeWhile less_now ts @ takeWhile (\<lambda>a. m_next (h a) = now) rest,
            dropWhile (\<lambda>a. m_next (h a) = now) rest))"

primrec expire_loop :: "u64 \<Rightarrow> nat list \<Rightarrow> callback option list \<Rightarrow> timer_manager \<Rightarrow>
    callback option list \<times> timer_manager" where
  "expire_loop now [] cbs tm = (cbs, tm)"
| "expire_loop now (a # as) cbs tm =
     (let t = tm_heap tm a;
          tm1 = (if m_recurring t then
                   let h = (tm_heap tm)(a := t\<lparr>m_next := now + m_ms t\<rparr>)
                   in tm\<lparr>tm_heap := h, m_timers := sset_insert (timer_lt h) a (m_timers tm)\<rparr>
                 else tm\<lparr>tm_heap := (tm_heap tm)(a := t\<lparr>m_cb := None\<rparr>)\<rparr>)
      in expire_loop now as (cbs @ [m_cb t]) tm1)"

definition TimerManager_listExpiredCb ::
    "u64 \<Rightarrow> nat \<Rightarrow> callback option list \<Rightarrow> timer_manager \<Rightarrow> callback option list \<times> timer_manager" where
  "TimerManager_listExpiredCb now probe cbs tm =
     (case m_timers tm of
        [] \<Rightarrow> (cbs, tm)
      | a # _ \<Rightarrow>
          (case TimerManager_detectClockRollover now tm of (rollover, tm1) \<Rightarrow>
             if \<not> rollover \<and> m_next (tm_heap tm1 a) > now then (cbs, tm1)
             else case expired_range (tm_heap tm1) now probe rollover (m_timers tm1) of (expired, rest) \<Rightarrow>
               expire_loop now expired cbs (tm1\<lparr>m_timers := rest\<rparr>)))"

definition TimerManager_hasTimer :: "timer_manager \<Rightarrow> bool" where
  "TimerManager_hasTimer tm \<longleftrightarrow> m_timers tm \<noteq> []"

section \<open>The order of the set\<close>

lemma timer_lt_key: "timer_lt h a b \<longleftrightarrow> m_next (h a) < m_next (h b) \<or> m_next (h a) = m_next (h b) \<and> a < b"
  by (auto simp: timer_lt_def Timer_Comparator_def)

interpretation tc: strict_total "timer_lt h" for h
  by unfold_locales (auto simp: timer_lt_key)

lemma timer_ord_upd:
  "a \<notin> set ts \<Longrightarrow> sorted_wrt (timer_lt (h(a := t))) ts \<longleftrightarrow> sorted_wrt (timer_lt h) ts"
  by (induction ts) (auto simp: timer_lt_key)

lemma timer_ord_cb [simp]: "timer_lt (h(a := (h a)\<lparr>m_cb := c\<rparr>)) = timer_lt h"
  by (intro ext) (auto simp: timer_lt_key)

text \<open>
  The invariant: the set is ordered without duplicates, and every timer that still has a callback is
  in it (what \<open>cancel\<close> relies on when it erases what it found).
\<close>

definition tm_inv :: "timer_manager \<Rightarrow> bool" where
  "tm_inv tm \<longleftrightarrow> sorted_wrt (timer_lt (tm_heap tm)) (m_timers tm) \<and>
     (\<forall>a. m_cb (tm_heap tm a) \<noteq> None \<longrightarrow> a \<in> set (m_timers tm))"

lemma tm_inv_find:
  "tm_inv tm \<Longrightarrow> sset_find (timer_lt (tm_heap tm)) a (m_timers tm) =
     (if a \<in> set (m_timers tm) then Some a else None)"
  by (simp add: tm_inv_def tc.sset_find_eq)

lemma tm_inv_distinct: "tm_inv tm \<Longrightarrow> distinct (m_timers tm)"
  using tc.ord_distinct by (auto simp: tm_inv_def)

lemma TimerManager_new_inv: "tm_inv (TimerManager_new now)"
  by (simp add: tm_inv_def TimerManager_new_def Timer_at_def)

text \<open>Putting an object that is not in the set there keeps the order, whatever its new firing time.\<close>

lemma timer_insert_ord:
  assumes "sorted_wrt (timer_lt h) ts" "a \<notin> set ts"
  shows "sorted_wrt (timer_lt (h(a := t))) (sset_insert (timer_lt (h(a := t))) a ts)"
  using assms by (intro tc.ord_sset_insert) (simp add: timer_ord_upd)

lemma addTimer_inv:
  assumes "tm_inv tm" "a \<notin> set (m_timers tm)"
  shows "tm_inv (snd (TimerManager_addTimer now a ms cb recurring tm))"
    and "set (m_timers (snd (TimerManager_addTimer now a ms cb recurring tm))) = insert a (set (m_timers tm))"
  using assms
  by (auto simp: tm_inv_def TimerManager_addTimer_def addTimer_val_def Let_def timer_insert_ord)

lemma cancel_spec:
  assumes "tm_inv tm"
  shows "Timer_cancel a tm =
    (if m_cb (tm_heap tm a) = None then (Inr False, tm)
     else (Inr True, tm\<lparr>tm_heap := (tm_heap tm)(a := (tm_heap tm a)\<lparr>m_cb := None\<rparr>),
                        m_timers := remove1 a (m_timers tm)\<rparr>))"
  using assms tm_inv_find [OF assms, of a] by (auto simp: Timer_cancel_def Let_def tm_inv_def)

lemma cancel_inv:
  assumes "tm_inv tm"
  shows "tm_inv (snd (Timer_cancel a tm))"
  using assms tm_inv_distinct [OF assms] unfolding cancel_spec [OF assms]
  by (auto simp: tm_inv_def tc.ord_remove1 split: if_splits)

text \<open>Moving a member of the set to another firing time.\<close>

lemma timer_move_ord:
  assumes "sorted_wrt (timer_lt h) ts"
  shows "sorted_wrt (timer_lt (h(a := t))) (sset_insert (timer_lt (h(a := t))) a (remove1 a ts))"
proof -
  have "distinct ts" using assms by (rule tc.ord_distinct)
  then show ?thesis using assms by (intro timer_insert_ord) (auto simp: tc.ord_remove1)
qed

lemma refresh_spec:
  assumes "tm_inv tm" "Timer_refresh now a tm = (r, tm')"
  shows "tm_inv tm'" "set (m_timers tm') = set (m_timers tm)"
    and "r \<longleftrightarrow> m_cb (tm_heap tm a) \<noteq> None"
    and "r \<Longrightarrow> tm_heap tm' = (tm_heap tm)(a := (tm_heap tm a)\<lparr>m_next := now + m_ms (tm_heap tm a)\<rparr>)"
  using assms tm_inv_find [OF assms(1), of a] timer_move_ord tm_inv_distinct [OF assms(1)]
  by (auto simp: Timer_refresh_def tm_inv_def Let_def split: if_splits)

lemma reset_spec:
  assumes "tm_inv tm" "Timer_reset now ms from_now a tm = ((r, front), tm')"
  shows "tm_inv tm'" "set (m_timers tm') = set (m_timers tm)"
    and "r \<longleftrightarrow> m_cb (tm_heap tm a) \<noteq> None \<or> ms = m_ms (tm_heap tm a) \<and> \<not> from_now"
    and "r \<Longrightarrow> tm_heap tm' = (tm_heap tm)(a := (tm_heap tm a)\<lparr>m_ms := ms,
           m_next := (if from_now then now else m_next (tm_heap tm a) - m_ms (tm_heap tm a)) + ms\<rparr>)"
  using assms tm_inv_find [OF assms(1), of a] timer_move_ord tm_inv_distinct [OF assms(1)]
  by (auto simp: Timer_reset_def addTimer_val_def tm_inv_def Let_def split: if_splits)

section \<open>Expiry\<close>

text \<open>On an ordered list, a downward closed predicate selects a prefix.\<close>

lemma sorted_takeWhile_filter:
  assumes "sorted_wrt lt xs" "\<And>x y. x \<in> set xs \<Longrightarrow> y \<in> set xs \<Longrightarrow> lt x y \<Longrightarrow> P y \<Longrightarrow> P x"
  shows "takeWhile P xs = filter P xs" "dropWhile P xs = filter (\<lambda>x. \<not> P x) xs"
  using assms
proof (induction xs)
  case (Cons x xs)
  {
    case 1
    show ?case
    proof (cases "P x")
      case False
      then have "filter P xs = []" using 1 by (auto simp: filter_empty_conv)
      with False show ?thesis by simp
    qed (use Cons.IH(1) 1 in auto)
  next
    case 2
    show ?case
    proof (cases "P x")
      case False
      then have "filter (\<lambda>x. \<not> P x) xs = xs" using 2 by (auto simp: filter_id_conv)
      with False show ?thesis by simp
    qed (use Cons.IH(2) 2 in auto)
  }
qed simp_all

lemma expired_range_spec:
  assumes ord: "sorted_wrt (timer_lt h) ts"
  shows "expired_range h now probe False ts =
     (filter (\<lambda>a. m_next (h a) \<le> now) ts, filter (\<lambda>a. \<not> m_next (h a) \<le> now) ts)"
proof -
  let ?L = "\<lambda>a. Timer_Comparator (Some (a, h a)) (Some (probe, Timer_at now))"
  have L: "?L a \<longleftrightarrow> m_next (h a) < now \<or> m_next (h a) = now \<and> a < probe" for a
    by (auto simp: Timer_Comparator_def Timer_at_def)
  let ?rest = "dropWhile ?L ts" and ?E = "\<lambda>a. m_next (h a) = now" and ?D = "\<lambda>a. m_next (h a) \<le> now"
  have rest: "?rest = filter (\<lambda>a. \<not> ?L a) ts" "takeWhile ?L ts = filter ?L ts"
    using ord by (intro sorted_takeWhile_filter [where lt = "timer_lt h"]; auto simp: timer_lt_key L)+
  have ord': "sorted_wrt (timer_lt h) ?rest" using ord by (simp add: rest sorted_wrt_filter)
  have "?E x" if "x \<in> set ?rest" "y \<in> set ?rest" "timer_lt h x y" "?E y" for x y
    using that unfolding rest(1) by (auto simp: L timer_lt_key)
  then have E: "takeWhile ?E ?rest = filter ?E ?rest" "dropWhile ?E ?rest = filter (\<lambda>a. \<not> ?E a) ?rest"
    by (rule sorted_takeWhile_filter [OF ord', of ?E]; blast)+
  have D: "takeWhile ?D ts = filter ?D ts" "dropWhile ?D ts = filter (\<lambda>a. \<not> ?D a) ts"
    using ord by (intro sorted_takeWhile_filter [where lt = "timer_lt h"]; auto simp: timer_lt_key)+
  have Z: "filter (\<lambda>a. \<not> ?E a) ?rest = filter (\<lambda>a. \<not> ?D a) ts"
    unfolding rest filter_filter by (rule filter_cong) (auto simp: L)
  have "(filter ?L ts @ filter ?E ?rest) @ filter (\<lambda>a. \<not> ?E a) ?rest = ts"
    unfolding rest(2) [symmetric] E [symmetric] append_assoc takeWhile_dropWhile_id by (rule refl)
  also have "ts = filter ?D ts @ filter (\<lambda>a. \<not> ?D a) ts"
    unfolding D [symmetric] takeWhile_dropWhile_id by (rule refl)
  finally have "filter ?L ts @ filter ?E ?rest = filter ?D ts"
    unfolding Z append_same_eq .
  then show ?thesis
    unfolding expired_range_def Let_def by (simp only: rest(2) E Z if_False)
qed

text \<open>What firing does to one timer object.\<close>

definition fired :: "u64 \<Rightarrow> timer \<Rightarrow> timer" where
  "fired now t = (if m_recurring t then t\<lparr>m_next := now + m_ms t\<rparr> else t\<lparr>m_cb := None\<rparr>)"

lemma expire_loop_spec:
  assumes "sorted_wrt (timer_lt (tm_heap tm)) (m_timers tm)" "distinct as"
    and "set as \<inter> set (m_timers tm) = {}"
  shows "\<exists>ts. expire_loop now as cbs tm =
      (cbs @ map (m_cb \<circ> tm_heap tm) as,
       tm\<lparr>tm_heap := (\<lambda>a. if a \<in> set as then fired now (tm_heap tm a) else tm_heap tm a), m_timers := ts\<rparr>) \<and>
     sorted_wrt (timer_lt (\<lambda>a. if a \<in> set as then fired now (tm_heap tm a) else tm_heap tm a)) ts \<and>
     set ts = set (m_timers tm) \<union> {a \<in> set as. m_recurring (tm_heap tm a)}"
  using assms
proof (induction as arbitrary: cbs tm)
  case Nil
  then show ?case by (intro exI [of _ "m_timers tm"]) simp
next
  case (Cons a as)
  let ?t = "tm_heap tm a" and ?h = "(tm_heap tm)(a := fired now (tm_heap tm a))"
  let ?ts = "if m_recurring ?t then sset_insert (timer_lt ?h) a (m_timers tm) else m_timers tm"
  let ?tm1 = "tm\<lparr>tm_heap := ?h, m_timers := ?ts\<rparr>"
  have step: "expire_loop now (a # as) cbs tm = expire_loop now as (cbs @ [m_cb ?t]) ?tm1"
    by (simp add: Let_def fired_def)
  have sel: "tm_heap ?tm1 = ?h" "m_timers ?tm1 = ?ts" by simp_all
  have ord1: "sorted_wrt (timer_lt (tm_heap ?tm1)) (m_timers ?tm1)"
    using Cons.prems by (simp add: timer_insert_ord timer_ord_upd)
  have ts1: "set ?ts = set (m_timers tm) \<union> (if m_recurring ?t then {a} else {})" by simp
  then have dj: "set as \<inter> set (m_timers ?tm1) = {}" using Cons.prems by auto
  have heap: "(\<lambda>b. if b \<in> set as then fired now (?h b) else ?h b) =
      (\<lambda>b. if b \<in> set (a # as) then fired now (tm_heap tm b) else tm_heap tm b)"
    using Cons.prems(2) by auto
  have cbs: "map (m_cb \<circ> ?h) as = map (m_cb \<circ> tm_heap tm) as"
    using Cons.prems(2) by auto
  have rec: "{b \<in> set as. m_recurring (?h b)} = {b \<in> set as. m_recurring (tm_heap tm b)}"
    using Cons.prems(2) by auto
  obtain ts where ts: "expire_loop now as (cbs @ [m_cb ?t]) ?tm1 =
      ((cbs @ [m_cb ?t]) @ map (m_cb \<circ> ?h) as,
       ?tm1\<lparr>tm_heap := (\<lambda>b. if b \<in> set as then fired now (?h b) else ?h b), m_timers := ts\<rparr>)"
      "sorted_wrt (timer_lt (\<lambda>b. if b \<in> set as then fired now (?h b) else ?h b)) ts"
      "set ts = set ?ts \<union> {b \<in> set as. m_recurring (?h b)}"
    using Cons.IH [OF ord1 _ dj, of "cbs @ [m_cb ?t]"] Cons.prems(2) unfolding sel
    by (auto simp only: distinct.simps simp_thms)
  have "set ts = set (m_timers tm) \<union> {b \<in> set (a # as). m_recurring (tm_heap tm b)}"
    unfolding ts(3) rec ts1 by auto
  then show ?case
    using ts(1,2) unfolding step heap cbs by (intro exI [of _ ts]) simp
qed

text \<open>The timers that a call of \<open>listExpiredCb\<close> fires, in order.\<close>

definition due_timers :: "u64 \<Rightarrow> timer_manager \<Rightarrow> nat list" where
  "due_timers now tm =
     (if fst (TimerManager_detectClockRollover now tm) then m_timers tm
      else filter (\<lambda>a. m_next (tm_heap tm a) \<le> now) (m_timers tm))"

definition kept_timers :: "u64 \<Rightarrow> timer_manager \<Rightarrow> nat list" where
  "kept_timers now tm =
     (if fst (TimerManager_detectClockRollover now tm) then []
      else filter (\<lambda>a. \<not> m_next (tm_heap tm a) \<le> now) (m_timers tm))"

lemma due_kept:
  "set (due_timers now tm) \<union> set (kept_timers now tm) = set (m_timers tm)"
  "set (due_timers now tm) \<inter> set (kept_timers now tm) = {}"
  by (auto simp: due_timers_def kept_timers_def)

text \<open>All branches of \<open>listExpiredCb\<close> are one: fire what is due, keep the rest.\<close>

lemma listExpired_eq:
  assumes inv: "tm_inv tm"
  shows "TimerManager_listExpiredCb now probe cbs tm =
     (if m_timers tm = [] then (cbs, tm)
      else expire_loop now (due_timers now tm) cbs
             (tm\<lparr>m_previouseTime := now, m_timers := kept_timers now tm\<rparr>))"
proof (cases "m_timers tm")
  case Nil
  then show ?thesis by (simp add: TimerManager_listExpiredCb_def)
next
  case (Cons a as)
  have ord: "sorted_wrt (timer_lt (tm_heap tm)) (m_timers tm)" using inv by (simp add: tm_inv_def)
  obtain r where r: "TimerManager_detectClockRollover now tm = (r, tm\<lparr>m_previouseTime := now\<rparr>)"
    by (simp add: TimerManager_detectClockRollover_def)
  have "expired_range (tm_heap tm) now probe r (m_timers tm) = (due_timers now tm, kept_timers now tm)"
    using expired_range_spec [OF ord] r
    by (cases r) (auto simp: due_timers_def kept_timers_def expired_range_def)
  moreover have "due_timers now tm = []" "kept_timers now tm = m_timers tm"
    if "\<not> r" "m_next (tm_heap tm a) > now"
  proof -
    have "\<not> m_next (tm_heap tm b) \<le> now" if "b \<in> set (m_timers tm)" for b
      using \<open>m_next (tm_heap tm a) > now\<close> that ord Cons by (auto simp: timer_lt_key)
    then show "due_timers now tm = []" "kept_timers now tm = m_timers tm"
      using that(1) r by (auto simp: due_timers_def kept_timers_def filter_empty_conv filter_id_conv)
  qed
  ultimately show ?thesis
    unfolding TimerManager_listExpiredCb_def by (auto simp: Cons r)
qed

lemma listExpired_spec:
  assumes inv: "tm_inv tm" and l: "TimerManager_listExpiredCb now probe cbs tm = (cbs', tm')"
  shows "cbs' = cbs @ map (m_cb \<circ> tm_heap tm) (due_timers now tm)"
    and "tm_heap tm' = (\<lambda>a. if a \<in> set (due_timers now tm) then fired now (tm_heap tm a) else tm_heap tm a)"
    and "set (m_timers tm') = set (m_timers tm) - {a \<in> set (due_timers now tm). \<not> m_recurring (tm_heap tm a)}"
    and "sorted_wrt (timer_lt (tm_heap tm')) (m_timers tm')" "m_tickled tm' = m_tickled tm"
proof -
  let ?due = "due_timers now tm" and ?tm1 = "tm\<lparr>m_previouseTime := now, m_timers := kept_timers now tm\<rparr>"
  have ord: "sorted_wrt (timer_lt (tm_heap tm)) (m_timers tm)" using inv by (simp add: tm_inv_def)
  then have "sorted_wrt (timer_lt (tm_heap tm)) (kept_timers now tm)" "distinct ?due"
    using tm_inv_distinct [OF inv] by (auto simp: due_timers_def kept_timers_def sorted_wrt_filter)
  with expire_loop_spec [of ?tm1 ?due now cbs] due_kept [of now tm] obtain ts where
    ts: "expire_loop now ?due cbs ?tm1 = (cbs @ map (m_cb \<circ> tm_heap tm) ?due,
         ?tm1\<lparr>tm_heap := (\<lambda>a. if a \<in> set ?due then fired now (tm_heap tm a) else tm_heap tm a), m_timers := ts\<rparr>)"
      "sorted_wrt (timer_lt (\<lambda>a. if a \<in> set ?due then fired now (tm_heap tm a) else tm_heap tm a)) ts"
      "set ts = set (kept_timers now tm) \<union> {a \<in> set ?due. m_recurring (tm_heap tm a)}"
    by (auto cong: if_cong)
  have "set ts = set (m_timers tm) - {a \<in> set ?due. \<not> m_recurring (tm_heap tm a)}"
    using ts(3) due_kept [of now tm] by blast
  moreover have "m_timers tm = [] \<Longrightarrow> ?due = []" by (simp add: due_timers_def)
  ultimately show "cbs' = cbs @ map (m_cb \<circ> tm_heap tm) ?due"
    "tm_heap tm' = (\<lambda>a. if a \<in> set ?due then fired now (tm_heap tm a) else tm_heap tm a)"
    "set (m_timers tm') = set (m_timers tm) - {a \<in> set ?due. \<not> m_recurring (tm_heap tm a)}"
    "sorted_wrt (timer_lt (tm_heap tm')) (m_timers tm')" "m_tickled tm' = m_tickled tm"
    using l ts(1,2) ord unfolding listExpired_eq [OF inv] by (auto split: if_splits)
qed

lemma listExpired_inv:
  assumes "tm_inv tm" "TimerManager_listExpiredCb now probe cbs tm = (cbs', tm')"
  shows "tm_inv tm'"
  using listExpired_spec [OF assms] assms(1) by (auto simp: tm_inv_def fired_def split: if_splits)

section \<open>Reachable managers\<close>

inductive tm_step :: "timer_manager \<Rightarrow> timer_manager \<Rightarrow> bool" where
  add: "a \<notin> set (m_timers tm) \<Longrightarrow> TimerManager_addTimer now a ms cb recurring tm = (front, tm') \<Longrightarrow> tm_step tm tm'"
| add_condition: "a \<notin> set (m_timers tm) \<Longrightarrow>
    TimerManager_addConditionTimer now a ms f weak_cond recurring tm = (front, tm') \<Longrightarrow> tm_step tm tm'"
| cancel: "Timer_cancel a tm = (r, tm') \<Longrightarrow> tm_step tm tm'"
| refresh: "Timer_refresh now a tm = (ok, tm') \<Longrightarrow> tm_step tm tm'"
| reset: "Timer_reset now ms from_now a tm = ((ok, front), tm') \<Longrightarrow> tm_step tm tm'"
| next_timer: "TimerManager_getNextTimer now tm = (w, tm') \<Longrightarrow> tm_step tm tm'"
| list_expired: "TimerManager_listExpiredCb now probe cbs tm = (cbs', tm') \<Longrightarrow> tm_step tm tm'"

inductive tm_reachable :: "timer_manager \<Rightarrow> bool" where
  start: "tm_reachable (TimerManager_new now)"
| step: "tm_reachable tm \<Longrightarrow> tm_step tm tm' \<Longrightarrow> tm_reachable tm'"

lemma getNextTimer_inv: "tm_inv tm \<Longrightarrow> TimerManager_getNextTimer now tm = (w, tm') \<Longrightarrow> tm_inv tm'"
  by (auto simp: TimerManager_getNextTimer_def tm_inv_def Let_def split: list.splits)

lemma tm_step_inv: "tm_step tm tm' \<Longrightarrow> tm_inv tm \<Longrightarrow> tm_inv tm'"
proof (induction rule: tm_step.induct)
  case (add a tm now ms cb recurring front tm')
  then show ?case using addTimer_inv(1) [of tm a] by (metis snd_conv)
next
  case (add_condition a tm now ms f weak_cond recurring front tm')
  then show ?case using addTimer_inv(1) [of tm a] by (metis TimerManager_addConditionTimer_def snd_conv)
next
  case (cancel a tm r tm')
  then show ?case using cancel_inv by (metis snd_conv)
qed (auto dest: refresh_spec(1) reset_spec(1) getNextTimer_inv listExpired_inv)

lemma tm_reachable_inv: "tm_reachable tm \<Longrightarrow> tm_inv tm"
  by (induction rule: tm_reachable.induct) (auto intro: TimerManager_new_inv tm_step_inv)

section \<open>Properties\<close>

text \<open>
  C16: In every state that any sequence of timer operations reaches, the set is strictly ordered by
  firing time and address, every timer with a callback is in it, and so \<open>cancel\<close> always erases an
  element it found: it never erases the end iterator.
\<close>

theorem timer_cancel_safe:
  assumes "tm_reachable tm"
  shows "tm_inv tm \<and> fst (Timer_cancel a tm) = Inr (m_cb (tm_heap tm a) \<noteq> None) \<and>
    (m_cb (tm_heap tm a) \<noteq> None \<longrightarrow> a \<notin> set (m_timers (snd (Timer_cancel a tm))))"
  using tm_reachable_inv [OF assms] tm_inv_distinct [OF tm_reachable_inv [OF assms]]
  by (auto simp: cancel_spec)

theorem timer_cancel_safe_witness:
  "let tm = snd (TimerManager_addTimer 1000 7 50 (Some (Callback 1)) False (TimerManager_new 1000)) in
   tm_reachable tm \<and> fst (Timer_cancel 7 tm) = Inr True \<and> 7 \<notin> set (m_timers (snd (Timer_cancel 7 tm)))"
proof -
  let ?tm = "snd (TimerManager_addTimer 1000 7 50 (Some (Callback 1)) False (TimerManager_new 1000))"
  have "tm_step (TimerManager_new 1000) ?tm"
    by (rule tm_step.add [of 7 _ 1000 50 "Some (Callback 1)" False]) (simp_all add: TimerManager_new_def prod_eq_iff)
  then have r: "tm_reachable ?tm" using tm_reachable.intros by blast
  have "m_cb (tm_heap ?tm 7) \<noteq> None"
    by (simp add: TimerManager_addTimer_def addTimer_val_def Let_def Timer_new_def)
  then show ?thesis using timer_cancel_safe [OF r, of 7] r by (simp only: Let_def) auto
qed

text \<open>
  C7: \<open>listExpiredCb\<close> on any well-formed manager: it hands out exactly the callbacks of the timers
  that are due (all of them after the clock was set back by more than an hour), in firing order;
  a recurring timer is re-armed one period after now and stays, any other loses its callback and leaves the set;
  no other timer changes and the invariant is kept.
\<close>

theorem listExpiredCb_correct:
  assumes "tm_inv tm" "TimerManager_listExpiredCb now probe cbs tm = (cbs', tm')"
  shows "cbs' = cbs @ map (m_cb \<circ> tm_heap tm) (due_timers now tm) \<and> tm_inv tm' \<and>
    set (m_timers tm') = set (m_timers tm) - {a \<in> set (due_timers now tm). \<not> m_recurring (tm_heap tm a)} \<and>
    (\<forall>a. tm_heap tm' a =
       (if a \<in> set (due_timers now tm)
        then (if m_recurring (tm_heap tm a) then (tm_heap tm a)\<lparr>m_next := now + m_ms (tm_heap tm a)\<rparr>
              else (tm_heap tm a)\<lparr>m_cb := None\<rparr>)
        else tm_heap tm a))"
  using listExpired_spec [OF assms] listExpired_inv [OF assms] by (auto simp: fired_def)

definition example_tm :: timer_manager where
  "example_tm = snd (TimerManager_addTimer 1000 2 20 (Some (Callback 2)) True
     (snd (TimerManager_addTimer 1000 1 10 (Some (Callback 1)) False (TimerManager_new 1000))))"

lemma example_tm_inv: "tm_inv example_tm"
  unfolding example_tm_def
  by (intro addTimer_inv(1) TimerManager_new_inv)
    (auto simp: addTimer_inv(2) [OF TimerManager_new_inv] TimerManager_new_def
        TimerManager_addTimer_def addTimer_val_def Let_def)

theorem listExpiredCb_correct_witness:
  "tm_inv example_tm \<and>
   fst (TimerManager_listExpiredCb 1020 9 [] example_tm) = [Some (Callback 1), Some (Callback 2)] \<and>
   set (m_timers (snd (TimerManager_listExpiredCb 1020 9 [] example_tm))) = {2}"
proof -
  have "due_timers 1020 example_tm = [1, 2]" "map (m_cb \<circ> tm_heap example_tm) [1, 2] = [Some (Callback 1), Some (Callback 2)]"
    "set (m_timers example_tm) = {1, 2}" "\<not> m_recurring (tm_heap example_tm 1)" "m_recurring (tm_heap example_tm 2)"
    by code_simp+
  moreover note listExpiredCb_correct [OF example_tm_inv, of 1020 9 "[]",
      OF surjective_pairing]
  ultimately show ?thesis using example_tm_inv by auto
qed

text \<open>
  \<open>getNextTimer\<close> returns \<open>~0\<close> without timers; otherwise 0 when some timer is due and else the time
  to the earliest one, so no timer of the set fires before now plus the result; it re-arms the wake-up
  flag and changes nothing else.
\<close>

theorem getNextTimer_correct:
  assumes "tm_inv tm" "TimerManager_getNextTimer now tm = (w, tm')"
  shows "tm' = tm\<lparr>m_tickled := False\<rparr> \<and>
    (if m_timers tm = [] then w = - 1
     else (\<exists>a \<in> set (m_timers tm). (\<forall>b \<in> set (m_timers tm). m_next (tm_heap tm a) \<le> m_next (tm_heap tm b)) \<and>
            w = (if m_next (tm_heap tm a) \<le> now then 0 else m_next (tm_heap tm a) - now)) \<and>
          (w = 0 \<longleftrightarrow> (\<exists>a \<in> set (m_timers tm). m_next (tm_heap tm a) \<le> now)))"
proof (cases "m_timers tm")
  case Nil
  then show ?thesis using assms by (simp add: TimerManager_getNextTimer_def)
next
  case (Cons a as)
  have least: "m_next (tm_heap tm a) \<le> m_next (tm_heap tm b)" if "b \<in> set (m_timers tm)" for b
    using assms(1) that Cons by (auto simp: tm_inv_def timer_lt_key)
  have w: "w = (if m_next (tm_heap tm a) \<le> now then 0 else m_next (tm_heap tm a) - now)"
    "tm' = tm\<lparr>m_tickled := False\<rparr>"
    using assms(2) Cons by (auto simp: TimerManager_getNextTimer_def Let_def)
  have "m_next (tm_heap tm a) \<le> now \<longleftrightarrow> (\<exists>b \<in> set (m_timers tm). m_next (tm_heap tm b) \<le> now)"
    using least Cons by (auto intro: order_trans)
  then show ?thesis using w Cons least by auto
qed

theorem getNextTimer_correct_witness:
  "fst (TimerManager_getNextTimer 1003 example_tm) = 7 \<and> tm_inv example_tm \<and>
   \<not> m_tickled (snd (TimerManager_getNextTimer 1003 example_tm))"
proof -
  have "fst (TimerManager_getNextTimer 1003 example_tm) = 7" by code_simp
  then show ?thesis
    using getNextTimer_correct [OF example_tm_inv surjective_pairing, of 1003] example_tm_inv by auto
qed

text \<open>
  The wake-up contract of adding a timer: if the new timer becomes the earliest, then either
  this call reports it or a wake-up is already pending since the last \<open>getNextTimer\<close>; a reported
  timer is the earliest one, and at most one wake-up is reported between two \<open>getNextTimer\<close> calls.
\<close>

theorem addTimer_wakeup:
  assumes "tm_inv tm" "a \<notin> set (m_timers tm)"
    and "TimerManager_addTimer now a ms cb recurring tm = (front, tm')"
  shows "tm_inv tm' \<and> set (m_timers tm') = insert a (set (m_timers tm)) \<and>
    m_next (tm_heap tm' a) = now + ms \<and>
    (front \<longleftrightarrow> \<not> m_tickled tm \<and> (\<forall>b \<in> set (m_timers tm). timer_lt (tm_heap tm') a b)) \<and>
    ((\<forall>b \<in> set (m_timers tm). m_next (tm_heap tm' a) < m_next (tm_heap tm' b)) \<longrightarrow> m_tickled tm') \<and>
    (m_tickled tm \<longrightarrow> \<not> front \<and> m_tickled tm')"
proof -
  let ?h = "(tm_heap tm)(a := Timer_new now ms cb recurring)"
  let ?ts = "sset_insert (timer_lt ?h) a (m_timers tm)"
  have eq: "front \<longleftrightarrow> hd ?ts = a \<and> \<not> m_tickled tm" "tm_heap tm' = ?h" "m_timers tm' = ?ts"
    "m_tickled tm' \<longleftrightarrow> front \<or> m_tickled tm"
    using assms(3) by (auto simp: TimerManager_addTimer_def addTimer_val_def Let_def)
  have ord: "sorted_wrt (timer_lt ?h) ?ts"
    using assms(1,2) by (simp add: tm_inv_def timer_insert_ord)
  have "hd ?ts = a \<longleftrightarrow> (\<forall>b \<in> set (m_timers tm). timer_lt ?h a b)"
  proof
    assume "hd ?ts = a"
    then show "\<forall>b \<in> set (m_timers tm). timer_lt ?h a b"
      using tc.ord_hd_least [OF ord] assms(2) tc.total by (metis insertCI tc.set_sset_insert)
  next
    assume *: "\<forall>b \<in> set (m_timers tm). timer_lt ?h a b"
    then show "hd ?ts = a" by (cases "m_timers tm") (auto dest: tc.asym)
  qed
  moreover have "tm_inv tm'" "set (m_timers tm') = insert a (set (m_timers tm))"
    using addTimer_inv [OF assms(1,2)] assms(3) by (metis snd_conv)+
  ultimately show ?thesis
    using eq by (auto simp: timer_lt_key Timer_new_def)
qed

theorem addTimer_wakeup_witness:
  "tm_inv (TimerManager_new 5) \<and>
   fst (TimerManager_addTimer 5 3 10 None False (TimerManager_new 5)) \<and>
   m_tickled (snd (TimerManager_addTimer 5 3 10 None False (TimerManager_new 5)))"
proof -
  have "3 \<notin> set (m_timers (TimerManager_new 5))" by (simp add: TimerManager_new_def)
  from addTimer_wakeup [OF TimerManager_new_inv this surjective_pairing, of 5 10 None False]
  show ?thesis using TimerManager_new_inv by (simp add: TimerManager_new_def)
qed

text \<open>
  Without a clock set back and with periods that do not wrap, firing makes progress: every
  timer left in the set fires strictly later than now, a second call at the same time fires nothing, and a
  one-shot timer that fired is dead: cancelling, refreshing and re-arming it all report failure.
\<close>

theorem timer_fires_once:
  assumes "tm_inv tm" "TimerManager_listExpiredCb now probe cbs tm = (cbs', tm')"
    and "\<not> fst (TimerManager_detectClockRollover now tm)"
    and "\<And>a. a \<in> set (due_timers now tm) \<Longrightarrow> m_recurring (tm_heap tm a) \<Longrightarrow> now < now + m_ms (tm_heap tm a)"
  shows "(\<forall>b \<in> set (m_timers tm'). now < m_next (tm_heap tm' b)) \<and>
    fst (TimerManager_listExpiredCb now probe' cbs' (tm'\<lparr>m_previouseTime := now\<rparr>)) = cbs' \<and>
    (\<forall>a \<in> set (due_timers now tm). \<not> m_recurring (tm_heap tm a) \<longrightarrow>
       fst (Timer_cancel a tm') = Inr False \<and> \<not> fst (Timer_refresh t a tm') \<and>
       \<not> fst (fst (Timer_reset t ms True a tm')))"
proof -
  note L = listExpired_spec [OF assms(1,2)]
  have inv: "tm_inv tm'" using listExpired_inv [OF assms(1,2)] .
  have later: "now < m_next (tm_heap tm' b)" if b: "b \<in> set (m_timers tm')" for b
  proof (cases "b \<in> set (due_timers now tm)")
    case True
    then show ?thesis using b assms(4) L by (auto simp: fired_def)
  next
    case False
    then show ?thesis using b assms(3) L by (auto simp: due_timers_def)
  qed
  let ?tm = "tm'\<lparr>m_previouseTime := now\<rparr>"
  have "tm_inv ?tm" "due_timers now ?tm = []"
    using inv later
    by (auto simp: tm_inv_def due_timers_def TimerManager_detectClockRollover_def filter_empty_conv not_le)
  then have "fst (TimerManager_listExpiredCb now probe' cbs' ?tm) = cbs'"
    by (simp add: listExpired_eq)
  moreover have "m_cb (tm_heap tm' a) = None"
    if "a \<in> set (due_timers now tm)" "\<not> m_recurring (tm_heap tm a)" for a
    using that L by (simp add: fired_def)
  ultimately show ?thesis
    using later by (auto simp: Timer_cancel_def Timer_refresh_def Timer_reset_def)
qed

theorem timer_fires_once_witness:
  "\<not> fst (TimerManager_detectClockRollover 1012 example_tm) \<and>
   1 \<in> set (due_timers 1012 example_tm) \<and>
   fst (Timer_cancel 1 (snd (TimerManager_listExpiredCb 1012 9 [] example_tm))) = Inr False"
proof -
  have d: "due_timers 1012 example_tm = [1]" "\<not> m_recurring (tm_heap example_tm 1)"
    "\<not> fst (TimerManager_detectClockRollover 1012 example_tm)"
    by code_simp+
  then show ?thesis
    using timer_fires_once [OF example_tm_inv surjective_pairing d(3), of 9 "[]"] by auto
qed

end
