(* ===== verification/Mingo_Text.thy ===== *)
theory Mingo_Text
  imports Mingo_Ordered
begin

text \<open>
  The C string functions the program calls, on strings as lists of bytes: \<open>c_str\<close> (a
  \<open>std::string\<close> seen through its terminator), \<open>strcmp\<close>, \<open>strncmp\<close>, \<open>strcasecmp\<close>, the decimal output
  of an unsigned integer, and the reading of lines that end in CR LF, with the facts the
  components share.
\<close>

named_theorems text_simps \<open>evaluation of the C string functions\<close>

section \<open>Terminated strings\<close>

definition c_str :: "string \<Rightarrow> string" where
  "c_str s = takeWhile (\<lambda>c. c \<noteq> CHR 0x00) s"

lemma c_str_id: "CHR 0x00 \<notin> set s \<Longrightarrow> c_str s = s"
  unfolding c_str_def by (rule takeWhile_eq_all_conv [THEN iffD2]) auto

lemma c_str_idem [simp]: "c_str (c_str s) = c_str s"
  unfolding c_str_def by (rule takeWhile_idem)

text \<open>\<open>strcmp\<close> gives the sign of the comparison of the bytes up to the terminator.\<close>

fun cmp_bytes :: "string \<Rightarrow> string \<Rightarrow> int" where
  "cmp_bytes [] [] = 0"
| "cmp_bytes [] (b # bs) = - 1"
| "cmp_bytes (a # as) [] = 1"
| "cmp_bytes (a # as) (b # bs) = (if a < b then - 1 else if b < a then 1 else cmp_bytes as bs)"

definition strcmp :: "string \<Rightarrow> string \<Rightarrow> int" where
  "strcmp a b = cmp_bytes (c_str a) (c_str b)"

definition strncmp :: "string \<Rightarrow> string \<Rightarrow> nat \<Rightarrow> int" where
  "strncmp a b n = cmp_bytes (take n (c_str a)) (take n (c_str b))"

definition tolower :: "char \<Rightarrow> char" where
  "tolower c = (if CHR ''A'' \<le> c \<and> c \<le> CHR ''Z'' then char_of (of_char c + 32 :: nat) else c)"

definition strcasecmp :: "string \<Rightarrow> string \<Rightarrow> int" where
  "strcasecmp a b = cmp_bytes (map tolower (c_str a)) (map tolower (c_str b))"

lemma cmp_bytes_0 [simp]: "cmp_bytes a b = 0 \<longleftrightarrow> a = b"
  by (induction a b rule: cmp_bytes.induct) auto

lemma cmp_bytes_neg [simp]: "cmp_bytes a b < 0 \<longleftrightarrow> a < b"
  by (induction a b rule: cmp_bytes.induct) auto

lemma strcmp_0: "strcmp a b = 0 \<longleftrightarrow> c_str a = c_str b"
  by (simp add: strcmp_def)

lemma strcasecmp_0: "strcasecmp a b = 0 \<longleftrightarrow> map tolower (c_str a) = map tolower (c_str b)"
  by (simp add: strcasecmp_def)

text \<open>A literal compared over its own length is a test for a prefix.\<close>

lemma strncmp_prefix:
  assumes "CHR 0x00 \<notin> set lit"
  shows "strncmp lit m (length lit) = 0 \<longleftrightarrow> prefix lit (c_str m)"
  using assms by (auto simp: strncmp_def c_str_id prefix_def)
    (metis append_take_drop_id)

text \<open>The text before the first occurrence of a character.\<close>

lemma takeWhile_before [simp]: "c \<notin> set p \<Longrightarrow> takeWhile (\<lambda>x. x \<noteq> c) (p @ c # r) = p"
  and dropWhile_before [simp]: "c \<notin> set p \<Longrightarrow> dropWhile (\<lambda>x. x \<noteq> c) (p @ c # r) = c # r"
  and takeWhile_absent [simp]: "c \<notin> set p \<Longrightarrow> takeWhile (\<lambda>x. x \<noteq> c) p = p"
  by (induction p) auto

section \<open>Decimal numbers\<close>

definition digit :: "nat \<Rightarrow> char" where
  "digit d = char_of (48 + d)"

fun dec :: "nat \<Rightarrow> string" where
  "dec n = (if n < 10 then [digit n] else dec (n div 10) @ [digit (n mod 10)])"

declare dec.simps [simp del]

definition digit_val :: "char \<Rightarrow> nat" where
  "digit_val c = of_char c - 48"

definition is_digit :: "char \<Rightarrow> bool" where
  "is_digit c \<longleftrightarrow> CHR ''0'' \<le> c \<and> c \<le> CHR ''9''"

definition undec :: "string \<Rightarrow> nat" where
  "undec s = foldl (\<lambda>a c. a * 10 + digit_val c) 0 s"

lemma of_char_digit: "d < 10 \<Longrightarrow> of_char (digit d) = 48 + d"
  by (simp add: digit_def)

lemma digit_val_digit [simp]: "d < 10 \<Longrightarrow> digit_val (digit d) = d"
  by (simp add: digit_val_def of_char_digit)

lemma is_digit_digit [simp]: "d < 10 \<Longrightarrow> is_digit (digit d)"
  by (simp add: is_digit_def less_eq_char_def of_char_digit)

lemma undec_snoc: "undec (s @ [c]) = undec s * 10 + digit_val c"
  by (simp add: undec_def)

lemma undec_dec [simp]: "undec (dec n) = n"
proof (induction n rule: less_induct)
  case (less n)
  show ?case
  proof (cases "n < 10")
    case True
    then show ?thesis by (subst dec.simps) (simp add: undec_def)
  next
    case False
    then have "undec (dec (n div 10)) = n div 10" using less by simp
    then show ?thesis using False by (subst dec.simps) (simp add: undec_snoc)
  qed
qed

lemma dec_inj [simp]: "dec m = dec n \<longleftrightarrow> m = n"
  by (metis undec_dec)

lemma dec_digits: "c \<in> set (dec n) \<Longrightarrow> is_digit c"
proof (induction n rule: less_induct)
  case (less n)
  have IH: "c \<in> set (dec (n div 10)) \<Longrightarrow> is_digit c" if "\<not> n < 10"
    using less.IH [of "n div 10"] that by auto
  have "c \<in> set (if n < 10 then [digit n] else dec (n div 10) @ [digit (n mod 10)])"
    using less.prems dec.simps [of n] by metis
  then show ?case using IH by (auto split: if_splits)
qed

lemma dec_nonempty [simp]: "dec n \<noteq> []"
  by (subst dec.simps) simp

section \<open>Lines\<close>

abbreviation CR :: char where "CR \<equiv> CHR 0x0D"
abbreviation LF :: char where "LF \<equiv> CHR 0x0A"

text \<open>The text up to the first line feed and what follows it.\<close>

fun get_line :: "string \<Rightarrow> (string \<times> string) option" where
  "get_line [] = None"
| "get_line (c # cs) = (if c = LF then Some ([], cs) else map_option (\<lambda>(l, r). (c # l, r)) (get_line cs))"

lemma get_line_append: "LF \<notin> set l \<Longrightarrow> get_line (l @ LF # r) = Some (l, r)"
  by (induction l) auto

lemma get_line_length: "get_line s = Some (l, r) \<Longrightarrow> length r < length s"
  by (induction s arbitrary: l) (auto split: if_splits)

text \<open>The lines of a message up to the first empty line, and the bytes after it.\<close>

function head_lines :: "string \<Rightarrow> (string list \<times> string) option" where
  "head_lines s =
     (case get_line s of
        None \<Rightarrow> None
      | Some (l, r) \<Rightarrow>
          if l = [CR] then Some ([], r)
          else map_option (\<lambda>(ls, b). (l # ls, b)) (head_lines r))"
  by pat_completeness auto
termination
  by (relation "measure length") (auto dest: get_line_length)

declare head_lines.simps [simp del]

definition crlf_lines :: "string list \<Rightarrow> string" where
  "crlf_lines ls = concat (map (\<lambda>l. l @ [CR, LF]) ls)"

lemma crlf_lines_Nil [simp]: "crlf_lines [] = []"
  and crlf_lines_Cons [simp]: "crlf_lines (l # ls) = l @ CR # LF # crlf_lines ls"
  and crlf_lines_append [simp]: "crlf_lines (ls @ ks) = crlf_lines ls @ crlf_lines ks"
  by (simp_all add: crlf_lines_def)

lemma head_lines_crlf:
  assumes "\<forall>l \<in> set ls. LF \<notin> set l \<and> l \<noteq> []"
  shows "head_lines (crlf_lines ls @ CR # LF # body) = Some (map (\<lambda>l. l @ [CR]) ls, body)"
  using assms
proof (induction ls)
  case Nil
  have "get_line (CR # LF # body) = Some ([CR], body)" by simp
  then show ?case by (subst head_lines.simps) simp
next
  case (Cons l ls)
  have "get_line (crlf_lines (l # ls) @ CR # LF # body) =
      Some (l @ [CR], crlf_lines ls @ CR # LF # body)"
    using get_line_append [of "l @ [CR]" "crlf_lines ls @ CR # LF # body"] Cons.prems by simp
  then show ?case using Cons by (subst head_lines.simps) simp
qed

section \<open>Bytes of a text\<close>

definition byte_of_char :: "char \<Rightarrow> byte" where
  "byte_of_char c = word_of_nat (of_char c)"

definition char_of_byte :: "byte \<Rightarrow> char" where
  "char_of_byte b = char_of (unat b)"

abbreviation to_bytes :: "string \<Rightarrow> byte list" where "to_bytes \<equiv> map byte_of_char"
abbreviation to_text :: "byte list \<Rightarrow> string" where "to_text \<equiv> map char_of_byte"

lemma char_of_byte_of_char [simp]: "char_of_byte (byte_of_char c) = c"
  by (simp add: byte_of_char_def char_of_byte_def unat_of_nat)

lemma byte_of_char_of_byte [simp]: "byte_of_char (char_of_byte b) = b"
  using unsigned_less [of b, where 'a = nat] by (simp add: byte_of_char_def char_of_byte_def)

lemma to_text_to_bytes [simp]: "to_text (to_bytes s) = s" "to_bytes (to_text bs) = bs"
  by (simp_all add: comp_def)

lemma to_text_comp [simp]: "map (char_of_byte \<circ> byte_of_char) s = s" "map (byte_of_char \<circ> char_of_byte) bs = bs"
  by (simp_all add: comp_def)

section \<open>Signed numbers\<close>

definition dec_int :: "int \<Rightarrow> string" where
  "dec_int i = (if i < 0 then ''-'' @ dec (nat (- i)) else dec (nat i))"

text \<open>\<open>strtol\<close> in a base, with its limits; \<open>atoi\<close> converts the result to \<open>int\<close>.\<close>

definition is_space :: "char \<Rightarrow> bool" where
  "is_space c \<longleftrightarrow> c = CHR '' '' \<or> (CHR 0x09 \<le> c \<and> c \<le> CHR 0x0D)"

definition numeral_val :: "char \<Rightarrow> nat" where
  "numeral_val c =
     (if is_digit c then digit_val c
      else if CHR ''a'' \<le> c \<and> c \<le> CHR ''z'' then of_char c - 87
      else if CHR ''A'' \<le> c \<and> c \<le> CHR ''Z'' then of_char c - 55
      else 36)"

definition strtol :: "nat \<Rightarrow> string \<Rightarrow> int" where
  "strtol base s =
     (let s1 = dropWhile is_space s;
          neg = (s1 \<noteq> [] \<and> hd s1 = CHR ''-'');
          s2 = (if s1 \<noteq> [] \<and> hd s1 \<in> {CHR ''-'', CHR ''+''} then tl s1 else s1);
          s3 = (if base = 16 \<and> 2 < length s2 \<and> hd s2 = CHR ''0'' \<and> hd (tl s2) \<in> {CHR ''x'', CHR ''X''} \<and> numeral_val (s2 ! 2) < 16
                then drop 2 s2 else s2);
          v = int (foldl (\<lambda>a c. a * base + numeral_val c) 0 (takeWhile (\<lambda>c. numeral_val c < base) s3))
      in if neg then max (- (2 ^ 63)) (- v) else min (2 ^ 63 - 1) v)"

definition atoi :: "string \<Rightarrow> int" where
  "atoi s = c_int (strtol 10 s)"

lemma numeral_val_10: "numeral_val c < 10 \<longleftrightarrow> is_digit c"
proof -
  have "c \<le> CHR ''9'' \<Longrightarrow> of_char c \<le> (57 :: nat)" by (simp add: less_eq_char_def)
  moreover have "CHR ''a'' \<le> c \<Longrightarrow> (97 :: nat) \<le> of_char c" "CHR ''A'' \<le> c \<Longrightarrow> (65 :: nat) \<le> of_char c"
    by (simp_all add: less_eq_char_def)
  ultimately show ?thesis by (auto simp: numeral_val_def is_digit_def digit_val_def)
qed

lemma undec_numeral: "\<forall>c \<in> set s. is_digit c \<Longrightarrow> foldl (\<lambda>a c. a * 10 + numeral_val c) n s = foldl (\<lambda>a c. a * 10 + digit_val c) n s"
  by (induction s arbitrary: n) (auto simp: numeral_val_def)

text \<open>A decimal number is read back, up to the first character that is no digit.\<close>

lemma atoi_dec:
  assumes "n < 2 ^ 31" and "r = [] \<or> \<not> is_digit (hd r)"
  shows "atoi (dec n @ r) = int n"
proof -
  have d: "\<forall>c \<in> set (dec n). is_digit c" by (simp add: dec_digits)
  obtain c cs where dec: "dec n = c # cs" by (cases "dec n") auto
  then have c: "is_digit c" using d by simp
  then have nb: "\<not> is_space c" "c \<noteq> CHR ''-''" "c \<noteq> CHR ''+''" by (auto simp: is_digit_def is_space_def less_eq_char_def)
  have t: "takeWhile (\<lambda>c. numeral_val c < 10) (dec n @ r) = dec n"
    using d assms(2) by (cases r) (auto simp: numeral_val_10 takeWhile_append)
  have "foldl (\<lambda>a c. a * 10 + numeral_val c) 0 (dec n) = n"
    using undec_numeral [OF d, of 0] undec_dec [of n] by (simp add: undec_def)
  then have "strtol 10 (dec n @ r) = min (2 ^ 63 - 1) (int n)"
    using t nb by (simp add: strtol_def dec Let_def)
  then show ?thesis using assms(1) by (simp add: atoi_def c_int_def signed_of_nat signed_take_bit_int_eq_self)
qed

end
