(* ===== verification/Mingo_Http.thy ===== *)
theory Mingo_Http
  imports Mingo_Text
begin

text \<open>
  \<^verbatim>\<open>mingo/http/http.cpp\<close> and \<^verbatim>\<open>http.h\<close>: the method and status tables, the case-insensitive map of
  headers, parameters and cookies, and the request and response objects with their text form. Strings are
  byte lists, \<open>uint8_t\<close> versions are 8-bit words. An \<open>HttpMethod\<close> is a constructor of the enumeration; an
  \<open>HttpStatus\<close> is its number, since the response parser casts the number on the wire.
  \<open>boost::lexical_cast\<close> is an argument (\<open>None\<close> when it throws).
\<close>

section \<open>Methods and status codes\<close>

datatype HttpMethod =
    DELETE | GET | HEAD | POST | PUT | CONNECT | OPTIONS | TRACE | COPY | LOCK | MKCOL | MOVE |
    PROPFIND | PROPPATCH | SEARCH | UNLOCK | BIND | REBIND | UNBIND | ACL | REPORT |
    MKACTIVITY | CHECKOUT | MERGE | MSEARCH | NOTIFY | SUBSCRIBE | UNSUBSCRIBE | PATCH |
    PURGE | MKCALENDAR | LINK | UNLINK | SOURCE | INVALID_METHOD

definition HTTP_METHOD_MAP :: "(nat \<times> HttpMethod \<times> string) list" where
  "HTTP_METHOD_MAP = [
     (0, DELETE, ''DELETE''), (1, GET, ''GET''), (2, HEAD, ''HEAD''), (3, POST, ''POST''),
     (4, PUT, ''PUT''), (5, CONNECT, ''CONNECT''), (6, OPTIONS, ''OPTIONS''),
     (7, TRACE, ''TRACE''), (8, COPY, ''COPY''), (9, LOCK, ''LOCK''), (10, MKCOL, ''MKCOL''),
     (11, MOVE, ''MOVE''), (12, PROPFIND, ''PROPFIND''), (13, PROPPATCH, ''PROPPATCH''),
     (14, SEARCH, ''SEARCH''), (15, UNLOCK, ''UNLOCK''), (16, BIND, ''BIND''),
     (17, REBIND, ''REBIND''), (18, UNBIND, ''UNBIND''), (19, ACL, ''ACL''),
     (20, REPORT, ''REPORT''), (21, MKACTIVITY, ''MKACTIVITY''), (22, CHECKOUT, ''CHECKOUT''),
     (23, MERGE, ''MERGE''), (24, MSEARCH, ''M-SEARCH''), (25, NOTIFY, ''NOTIFY''),
     (26, SUBSCRIBE, ''SUBSCRIBE''), (27, UNSUBSCRIBE, ''UNSUBSCRIBE''),
     (28, PATCH, ''PATCH''), (29, PURGE, ''PURGE''), (30, MKCALENDAR, ''MKCALENDAR''),
     (31, LINK, ''LINK''), (32, UNLINK, ''UNLINK''), (33, SOURCE, ''SOURCE'')]"

type_synonym HttpStatus = nat

definition HTTP_STATUS_MAP :: "(HttpStatus \<times> string \<times> string) list" where
  "HTTP_STATUS_MAP = [
     (100, ''CONTINUE'', ''Continue''),
     (101, ''SWITCHING_PROTOCOLS'', ''Switching Protocols''),
     (102, ''PROCESSING'', ''Processing''), (200, ''OK'', ''OK''),
     (201, ''CREATED'', ''Created''), (202, ''ACCEPTED'', ''Accepted''),
     (203, ''NON_AUTHORITATIVE_INFORMATION'', ''Non-Authoritative Information''),
     (204, ''NO_CONTENT'', ''No Content''), (205, ''RESET_CONTENT'', ''Reset Content''),
     (206, ''PARTIAL_CONTENT'', ''Partial Content''),
     (207, ''MULTI_STATUS'', ''Multi-Status''),
     (208, ''ALREADY_REPORTED'', ''Already Reported''), (226, ''IM_USED'', ''IM Used''),
     (300, ''MULTIPLE_CHOICES'', ''Multiple Choices''),
     (301, ''MOVED_PERMANENTLY'', ''Moved Permanently''), (302, ''FOUND'', ''Found''),
     (303, ''SEE_OTHER'', ''See Other''), (304, ''NOT_MODIFIED'', ''Not Modified''),
     (305, ''USE_PROXY'', ''Use Proxy''),
     (307, ''TEMPORARY_REDIRECT'', ''Temporary Redirect''),
     (308, ''PERMANENT_REDIRECT'', ''Permanent Redirect''),
     (400, ''BAD_REQUEST'', ''Bad Request''), (401, ''UNAUTHORIZED'', ''Unauthorized''),
     (402, ''PAYMENT_REQUIRED'', ''Payment Required''), (403, ''FORBIDDEN'', ''Forbidden''),
     (404, ''NOT_FOUND'', ''Not Found''),
     (405, ''METHOD_NOT_ALLOWED'', ''Method Not Allowed''),
     (406, ''NOT_ACCEPTABLE'', ''Not Acceptable''),
     (407, ''PROXY_AUTHENTICATION_REQUIRED'', ''Proxy Authentication Required''),
     (408, ''REQUEST_TIMEOUT'', ''Request Timeout''), (409, ''CONFLICT'', ''Conflict''),
     (410, ''GONE'', ''Gone''), (411, ''LENGTH_REQUIRED'', ''Length Required''),
     (412, ''PRECONDITION_FAILED'', ''Precondition Failed''),
     (413, ''PAYLOAD_TOO_LARGE'', ''Payload Too Large''),
     (414, ''URI_TOO_LONG'', ''URI Too Long''),
     (415, ''UNSUPPORTED_MEDIA_TYPE'', ''Unsupported Media Type''),
     (416, ''RANGE_NOT_SATISFIABLE'', ''Range Not Satisfiable''),
     (417, ''EXPECTATION_FAILED'', ''Expectation Failed''),
     (421, ''MISDIRECTED_REQUEST'', ''Misdirected Request''),
     (422, ''UNPROCESSABLE_ENTITY'', ''Unprocessable Entity''), (423, ''LOCKED'', ''Locked''),
     (424, ''FAILED_DEPENDENCY'', ''Failed Dependency''),
     (426, ''UPGRADE_REQUIRED'', ''Upgrade Required''),
     (428, ''PRECONDITION_REQUIRED'', ''Precondition Required''),
     (429, ''TOO_MANY_REQUESTS'', ''Too Many Requests''),
     (431, ''REQUEST_HEADER_FIELDS_TOO_LARGE'', ''Request Header Fields Too Large''),
     (451, ''UNAVAILABLE_FOR_LEGAL_REASONS'', ''Unavailable For Legal Reasons''),
     (500, ''INTERNAL_SERVER_ERROR'', ''Internal Server Error''),
     (501, ''NOT_IMPLEMENTED'', ''Not Implemented''), (502, ''BAD_GATEWAY'', ''Bad Gateway''),
     (503, ''SERVICE_UNAVAILABLE'', ''Service Unavailable''),
     (504, ''GATEWAY_TIMEOUT'', ''Gateway Timeout''),
     (505, ''HTTP_VERSION_NOT_SUPPORTED'', ''HTTP Version Not Supported''),
     (506, ''VARIANT_ALSO_NEGOTIATES'', ''Variant Also Negotiates''),
     (507, ''INSUFFICIENT_STORAGE'', ''Insufficient Storage''),
     (508, ''LOOP_DETECTED'', ''Loop Detected''), (510, ''NOT_EXTENDED'', ''Not Extended''),
     (511, ''NETWORK_AUTHENTICATION_REQUIRED'', ''Network Authentication Required'')]"

definition method_num :: "HttpMethod \<Rightarrow> nat" where
  "method_num m =
     (case find (\<lambda>(num, name, str). name = m) HTTP_METHOD_MAP of
        Some (num, _) \<Rightarrow> num | None \<Rightarrow> length HTTP_METHOD_MAP)"

definition StringToHttpMethod :: "string \<Rightarrow> HttpMethod" where
  "StringToHttpMethod m =
     (case find (\<lambda>(num, name, str). strcmp str (c_str m) = 0) HTTP_METHOD_MAP of
        Some (_, name, _) \<Rightarrow> name | None \<Rightarrow> INVALID_METHOD)"

definition CharsToHttpMethod :: "string \<Rightarrow> HttpMethod" where
  "CharsToHttpMethod m =
     (case find (\<lambda>(num, name, str). strncmp str m (length str) = 0) HTTP_METHOD_MAP of
        Some (_, name, _) \<Rightarrow> name | None \<Rightarrow> INVALID_METHOD)"

definition s_method_string :: "string list" where
  "s_method_string = map (\<lambda>(num, name, str). str) HTTP_METHOD_MAP"

definition HttpMethodToString :: "HttpMethod \<Rightarrow> string" where
  "HttpMethodToString m =
     (let idx = method_num m in
      if idx \<ge> length s_method_string then ''<unknown>'' else s_method_string ! idx)"

definition HttpStatusToString :: "HttpStatus \<Rightarrow> string" where
  "HttpStatusToString s =
     (case find (\<lambda>(code, name, msg). code = s) HTTP_STATUS_MAP of
        Some (_, _, msg) \<Rightarrow> msg | None \<Rightarrow> ''<unknown>'')"

section \<open>Case-insensitive maps\<close>

type_synonym MapType = "(string \<times> string) list"

definition CaseInsensitiveLess :: "string \<Rightarrow> string \<Rightarrow> bool" where
  "CaseInsensitiveLess lhs rhs \<longleftrightarrow> strcasecmp (c_str lhs) (c_str rhs) < 0"

abbreviation MapType_find :: "string \<Rightarrow> MapType \<Rightarrow> string option" where
  "MapType_find \<equiv> smap_get CaseInsensitiveLess"

abbreviation MapType_assign :: "string \<Rightarrow> string \<Rightarrow> MapType \<Rightarrow> MapType" where
  "MapType_assign \<equiv> smap_put CaseInsensitiveLess"

abbreviation MapType_erase :: "string \<Rightarrow> MapType \<Rightarrow> MapType" where
  "MapType_erase \<equiv> smap_del CaseInsensitiveLess"

text \<open>The result and the value stored through the reference \<open>val\<close>.\<close>

definition checkGetAs :: "(string \<Rightarrow> 'a option) \<Rightarrow> MapType \<Rightarrow> string \<Rightarrow> 'a \<Rightarrow> bool \<times> 'a" where
  "checkGetAs lexical_cast m key def =
     (case MapType_find key m of
        None \<Rightarrow> (False, def)
      | Some s \<Rightarrow> (case lexical_cast s of Some v \<Rightarrow> (True, v) | None \<Rightarrow> (False, def)))"

definition getAs :: "(string \<Rightarrow> 'a option) \<Rightarrow> MapType \<Rightarrow> string \<Rightarrow> 'a \<Rightarrow> 'a" where
  "getAs lexical_cast m key def =
     (case MapType_find key m of
        None \<Rightarrow> def
      | Some s \<Rightarrow> (case lexical_cast s of Some v \<Rightarrow> v | None \<Rightarrow> def))"

section \<open>Requests\<close>

record HttpRequest =
  req_method :: HttpMethod
  req_version :: byte
  req_close :: bool
  req_websocket :: bool
  req_parserParamFlag :: byte
  req_path :: string
  req_query :: string
  req_fragment :: string
  req_body :: string
  req_headers :: MapType
  req_params :: MapType
  req_cookies :: MapType

definition HttpRequest_new :: "byte \<Rightarrow> bool \<Rightarrow> HttpRequest" where
  "HttpRequest_new version close =
     \<lparr>req_method = GET, req_version = version, req_close = close, req_websocket = False,
      req_parserParamFlag = 0, req_path = ''/'', req_query = [], req_fragment = [], req_body = [],
      req_headers = [], req_params = [], req_cookies = []\<rparr>"

definition HttpRequest_setMethod :: "HttpMethod \<Rightarrow> HttpRequest \<Rightarrow> HttpRequest" where
  "HttpRequest_setMethod v r = r\<lparr>req_method := v\<rparr>"

definition HttpRequest_setVersion :: "byte \<Rightarrow> HttpRequest \<Rightarrow> HttpRequest" where
  "HttpRequest_setVersion v r = r\<lparr>req_version := v\<rparr>"

definition HttpRequest_setPath :: "string \<Rightarrow> HttpRequest \<Rightarrow> HttpRequest" where
  "HttpRequest_setPath v r = r\<lparr>req_path := v\<rparr>"

definition HttpRequest_setQuery :: "string \<Rightarrow> HttpRequest \<Rightarrow> HttpRequest" where
  "HttpRequest_setQuery v r = r\<lparr>req_query := v\<rparr>"

definition HttpRequest_setFragment :: "string \<Rightarrow> HttpRequest \<Rightarrow> HttpRequest" where
  "HttpRequest_setFragment v r = r\<lparr>req_fragment := v\<rparr>"

definition HttpRequest_setBody :: "string \<Rightarrow> HttpRequest \<Rightarrow> HttpRequest" where
  "HttpRequest_setBody v r = r\<lparr>req_body := v\<rparr>"

definition HttpRequest_setClose :: "bool \<Rightarrow> HttpRequest \<Rightarrow> HttpRequest" where
  "HttpRequest_setClose v r = r\<lparr>req_close := v\<rparr>"

definition HttpRequest_setWebsocket :: "bool \<Rightarrow> HttpRequest \<Rightarrow> HttpRequest" where
  "HttpRequest_setWebsocket v r = r\<lparr>req_websocket := v\<rparr>"

definition HttpRequest_setHeaders :: "MapType \<Rightarrow> HttpRequest \<Rightarrow> HttpRequest" where
  "HttpRequest_setHeaders v r = r\<lparr>req_headers := v\<rparr>"

definition HttpRequest_setParams :: "MapType \<Rightarrow> HttpRequest \<Rightarrow> HttpRequest" where
  "HttpRequest_setParams v r = r\<lparr>req_params := v\<rparr>"

definition HttpRequest_setCookies :: "MapType \<Rightarrow> HttpRequest \<Rightarrow> HttpRequest" where
  "HttpRequest_setCookies v r = r\<lparr>req_cookies := v\<rparr>"

definition HttpRequest_getHeader :: "string \<Rightarrow> string \<Rightarrow> HttpRequest \<Rightarrow> string" where
  "HttpRequest_getHeader key def r = (case MapType_find key (req_headers r) of None \<Rightarrow> def | Some v \<Rightarrow> v)"

definition HttpRequest_getParam :: "string \<Rightarrow> string \<Rightarrow> HttpRequest \<Rightarrow> string" where
  "HttpRequest_getParam key def r = (case MapType_find key (req_params r) of None \<Rightarrow> def | Some v \<Rightarrow> v)"

definition HttpRequest_getCookie :: "string \<Rightarrow> string \<Rightarrow> HttpRequest \<Rightarrow> string" where
  "HttpRequest_getCookie key def r = (case MapType_find key (req_cookies r) of None \<Rightarrow> def | Some v \<Rightarrow> v)"

definition HttpRequest_setHeader :: "string \<Rightarrow> string \<Rightarrow> HttpRequest \<Rightarrow> HttpRequest" where
  "HttpRequest_setHeader key val r = r\<lparr>req_headers := MapType_assign key val (req_headers r)\<rparr>"

definition HttpRequest_setParam :: "string \<Rightarrow> string \<Rightarrow> HttpRequest \<Rightarrow> HttpRequest" where
  "HttpRequest_setParam key val r = r\<lparr>req_params := MapType_assign key val (req_params r)\<rparr>"

definition HttpRequest_setCookie :: "string \<Rightarrow> string \<Rightarrow> HttpRequest \<Rightarrow> HttpRequest" where
  "HttpRequest_setCookie key val r = r\<lparr>req_cookies := MapType_assign key val (req_cookies r)\<rparr>"

definition HttpRequest_delHeader :: "string \<Rightarrow> HttpRequest \<Rightarrow> HttpRequest" where
  "HttpRequest_delHeader key r = r\<lparr>req_headers := MapType_erase key (req_headers r)\<rparr>"

definition HttpRequest_delParam :: "string \<Rightarrow> HttpRequest \<Rightarrow> HttpRequest" where
  "HttpRequest_delParam key r = r\<lparr>req_params := MapType_erase key (req_params r)\<rparr>"

definition HttpRequest_delCookie :: "string \<Rightarrow> HttpRequest \<Rightarrow> HttpRequest" where
  "HttpRequest_delCookie key r = r\<lparr>req_cookies := MapType_erase key (req_cookies r)\<rparr>"

text \<open>\<open>has\<close>: whether the key is there, and what \<open>*val\<close> holds afterwards (\<open>val\<close> is its content before).\<close>

definition map_has :: "string \<Rightarrow> string \<Rightarrow> MapType \<Rightarrow> bool \<times> string" where
  "map_has key val m = (case MapType_find key m of None \<Rightarrow> (False, val) | Some v \<Rightarrow> (True, v))"

definition HttpRequest_hasHeader :: "string \<Rightarrow> string \<Rightarrow> HttpRequest \<Rightarrow> bool \<times> string" where
  "HttpRequest_hasHeader key val r = map_has key val (req_headers r)"

definition HttpRequest_hasParam :: "string \<Rightarrow> string \<Rightarrow> HttpRequest \<Rightarrow> bool \<times> string" where
  "HttpRequest_hasParam key val r = map_has key val (req_params r)"

definition HttpRequest_hasCookie :: "string \<Rightarrow> string \<Rightarrow> HttpRequest \<Rightarrow> bool \<times> string" where
  "HttpRequest_hasCookie key val r = map_has key val (req_cookies r)"

definition HttpRequest_checkGetHeaderAs ::
    "(string \<Rightarrow> 'a option) \<Rightarrow> string \<Rightarrow> 'a \<Rightarrow> HttpRequest \<Rightarrow> bool \<times> 'a" where
  "HttpRequest_checkGetHeaderAs lexical_cast key def r = checkGetAs lexical_cast (req_headers r) key def"

definition HttpRequest_getHeaderAs ::
    "(string \<Rightarrow> 'a option) \<Rightarrow> string \<Rightarrow> 'a \<Rightarrow> HttpRequest \<Rightarrow> 'a" where
  "HttpRequest_getHeaderAs lexical_cast key def r = getAs lexical_cast (req_headers r) key def"

text \<open>What the output loops over the headers write.\<close>

abbreviation crlf :: string where "crlf \<equiv> [CR, LF]"

fun dump_headers :: "bool \<Rightarrow> MapType \<Rightarrow> string" where
  "dump_headers websocket [] = []"
| "dump_headers websocket ((k, v) # hs) =
     (if \<not> websocket \<and> strcasecmp k ''connection'' = 0 then dump_headers websocket hs
      else k @ '': '' @ v @ crlf @ dump_headers websocket hs)"

definition dump_version :: "byte \<Rightarrow> string" where
  "dump_version v = dec (unat (drop_bit 4 v)) @ ''.'' @ dec (unat (v AND 0x0F))"

definition dump_connection :: "bool \<Rightarrow> string" where
  "dump_connection close = ''connection: '' @ (if close then ''close'' else ''keep-alive'') @ crlf"

definition dump_body :: "string \<Rightarrow> string" where
  "dump_body body =
     (if body \<noteq> [] then ''content-length: '' @ dec (length body) @ crlf @ crlf @ body else crlf)"

definition HttpRequest_toString :: "HttpRequest \<Rightarrow> string" where
  "HttpRequest_toString r =
     HttpMethodToString (req_method r) @ '' ''
     @ req_path r
     @ (if req_query r = [] then '''' else ''?'') @ req_query r
     @ (if req_fragment r = [] then '''' else ''#'') @ req_fragment r
     @ '' HTTP/'' @ dump_version (req_version r) @ crlf
     @ (if \<not> req_websocket r then dump_connection (req_close r) else [])
     @ dump_headers (req_websocket r) (req_headers r)
     @ dump_body (req_body r)"

definition HttpRequest_init :: "HttpRequest \<Rightarrow> HttpRequest" where
  "HttpRequest_init r =
     (let conn = HttpRequest_getHeader ''connection'' [] r in
      if conn \<noteq> [] then
        if strcasecmp conn ''keep-alive'' = 0 then r\<lparr>req_close := False\<rparr> else r\<lparr>req_close := True\<rparr>
      else r)"

section \<open>Responses\<close>

record HttpResponse =
  rsp_status :: HttpStatus
  rsp_version :: byte
  rsp_close :: bool
  rsp_websocket :: bool
  rsp_body :: string
  rsp_reason :: string
  rsp_headers :: MapType
  rsp_cookies :: "string list"

definition HttpResponse_new :: "byte \<Rightarrow> bool \<Rightarrow> HttpResponse" where
  "HttpResponse_new version close =
     \<lparr>rsp_status = 200, rsp_version = version, rsp_close = close, rsp_websocket = False,
      rsp_body = [], rsp_reason = [], rsp_headers = [], rsp_cookies = []\<rparr>"

definition HttpResponse_setStatus :: "HttpStatus \<Rightarrow> HttpResponse \<Rightarrow> HttpResponse" where
  "HttpResponse_setStatus v r = r\<lparr>rsp_status := v\<rparr>"

definition HttpResponse_setVersion :: "byte \<Rightarrow> HttpResponse \<Rightarrow> HttpResponse" where
  "HttpResponse_setVersion v r = r\<lparr>rsp_version := v\<rparr>"

definition HttpResponse_setBody :: "string \<Rightarrow> HttpResponse \<Rightarrow> HttpResponse" where
  "HttpResponse_setBody v r = r\<lparr>rsp_body := v\<rparr>"

definition HttpResponse_setReason :: "string \<Rightarrow> HttpResponse \<Rightarrow> HttpResponse" where
  "HttpResponse_setReason v r = r\<lparr>rsp_reason := v\<rparr>"

definition HttpResponse_setHeaders :: "MapType \<Rightarrow> HttpResponse \<Rightarrow> HttpResponse" where
  "HttpResponse_setHeaders v r = r\<lparr>rsp_headers := v\<rparr>"

definition HttpResponse_setClose :: "bool \<Rightarrow> HttpResponse \<Rightarrow> HttpResponse" where
  "HttpResponse_setClose v r = r\<lparr>rsp_close := v\<rparr>"

definition HttpResponse_setWebsocket :: "bool \<Rightarrow> HttpResponse \<Rightarrow> HttpResponse" where
  "HttpResponse_setWebsocket v r = r\<lparr>rsp_websocket := v\<rparr>"

definition HttpResponse_getHeader :: "string \<Rightarrow> string \<Rightarrow> HttpResponse \<Rightarrow> string" where
  "HttpResponse_getHeader key def r = (case MapType_find key (rsp_headers r) of None \<Rightarrow> def | Some v \<Rightarrow> v)"

definition HttpResponse_setHeader :: "string \<Rightarrow> string \<Rightarrow> HttpResponse \<Rightarrow> HttpResponse" where
  "HttpResponse_setHeader key val r = r\<lparr>rsp_headers := MapType_assign key val (rsp_headers r)\<rparr>"

definition HttpResponse_delHeader :: "string \<Rightarrow> HttpResponse \<Rightarrow> HttpResponse" where
  "HttpResponse_delHeader key r = r\<lparr>rsp_headers := MapType_erase key (rsp_headers r)\<rparr>"

definition HttpResponse_setRedirect :: "string \<Rightarrow> HttpResponse \<Rightarrow> HttpResponse" where
  "HttpResponse_setRedirect uri r = HttpResponse_setHeader ''Location'' uri (r\<lparr>rsp_status := 302\<rparr>)"

definition HttpResponse_checkGetHeaderAs ::
    "(string \<Rightarrow> 'a option) \<Rightarrow> string \<Rightarrow> 'a \<Rightarrow> HttpResponse \<Rightarrow> bool \<times> 'a" where
  "HttpResponse_checkGetHeaderAs lexical_cast key def r = checkGetAs lexical_cast (rsp_headers r) key def"

definition HttpResponse_getHeaderAs ::
    "(string \<Rightarrow> 'a option) \<Rightarrow> string \<Rightarrow> 'a \<Rightarrow> HttpResponse \<Rightarrow> 'a" where
  "HttpResponse_getHeaderAs lexical_cast key def r = getAs lexical_cast (rsp_headers r) key def"

definition HttpResponse_toString :: "HttpResponse \<Rightarrow> string" where
  "HttpResponse_toString r =
     ''HTTP/'' @ dump_version (rsp_version r) @ '' '' @ dec (rsp_status r) @ '' ''
     @ (if rsp_reason r = [] then HttpStatusToString (rsp_status r) else rsp_reason r) @ crlf
     @ dump_headers (rsp_websocket r) (rsp_headers r)
     @ concat (map (\<lambda>c. ''Set-Cookie: '' @ c @ crlf) (rsp_cookies r))
     @ (if \<not> rsp_websocket r then dump_connection (rsp_close r) else [])
     @ dump_body (rsp_body r)"

end
