(* ===== verification/Mingo_Http_Props.thy ===== *)
theory Mingo_Http_Props
  imports Mingo_Http
begin

text \<open>
  Correctness of the request and response objects: the case-insensitive comparator is a strict weak
  order, so the maps obey the laws of \<open>std::map\<close>; the method table is read back and is prefix free; the text of a
  message is framed by its empty line.
\<close>

section \<open>The comparator\<close>

lemma CaseInsensitiveLess_lower:
  "CaseInsensitiveLess a b \<longleftrightarrow> map tolower (c_str a) < map tolower (c_str b)"
  by (simp add: CaseInsensitiveLess_def strcasecmp_def)

interpretation ci: strict_weak CaseInsensitiveLess
  by unfold_locales (auto simp: CaseInsensitiveLess_lower)

lemma ci_same: "ci.same a b \<longleftrightarrow> strcasecmp a b = 0"
  by (auto simp: ci.same_def CaseInsensitiveLess_lower strcasecmp_0)

lemmas MapType_laws = ci.smap_get_put ci.smap_get_del ci.ord_smap_put ci.ord_smap_del ci_same

section \<open>Requests reached by operations\<close>

datatype req_op =
    OpMethod HttpMethod | OpVersion byte | OpPath string | OpQuery string | OpFragment string
  | OpBody string | OpClose bool | OpWebsocket bool | OpInit
  | OpSetHeader string string | OpDelHeader string
  | OpSetParam string string | OpDelParam string
  | OpSetCookie string string | OpDelCookie string
  | OpHeaders "(string \<times> string) list" | OpParams "(string \<times> string) list"
  | OpCookies "(string \<times> string) list"

text \<open>A map value is what insertions in some order give.\<close>

definition MapType_of :: "(string \<times> string) list \<Rightarrow> MapType" where
  "MapType_of kvs = foldl (\<lambda>m (k, v). MapType_assign k v m) [] kvs"

fun req_apply :: "req_op \<Rightarrow> HttpRequest \<Rightarrow> HttpRequest" where
  "req_apply (OpMethod v) = HttpRequest_setMethod v"
| "req_apply (OpVersion v) = HttpRequest_setVersion v"
| "req_apply (OpPath v) = HttpRequest_setPath v"
| "req_apply (OpQuery v) = HttpRequest_setQuery v"
| "req_apply (OpFragment v) = HttpRequest_setFragment v"
| "req_apply (OpBody v) = HttpRequest_setBody v"
| "req_apply (OpClose v) = HttpRequest_setClose v"
| "req_apply (OpWebsocket v) = HttpRequest_setWebsocket v"
| "req_apply OpInit = HttpRequest_init"
| "req_apply (OpSetHeader k v) = HttpRequest_setHeader k v"
| "req_apply (OpDelHeader k) = HttpRequest_delHeader k"
| "req_apply (OpSetParam k v) = HttpRequest_setParam k v"
| "req_apply (OpDelParam k) = HttpRequest_delParam k"
| "req_apply (OpSetCookie k v) = HttpRequest_setCookie k v"
| "req_apply (OpDelCookie k) = HttpRequest_delCookie k"
| "req_apply (OpHeaders kvs) = HttpRequest_setHeaders (MapType_of kvs)"
| "req_apply (OpParams kvs) = HttpRequest_setParams (MapType_of kvs)"
| "req_apply (OpCookies kvs) = HttpRequest_setCookies (MapType_of kvs)"

definition req_run :: "byte \<Rightarrow> bool \<Rightarrow> req_op list \<Rightarrow> HttpRequest" where
  "req_run version close ops = fold req_apply ops (HttpRequest_new version close)"

definition map_ok :: "MapType \<Rightarrow> bool" where
  "map_ok m \<longleftrightarrow> sorted_wrt CaseInsensitiveLess (map fst m)"

lemma map_ok_Nil [simp]: "map_ok []"
  and map_ok_assign [simp]: "map_ok m \<Longrightarrow> map_ok (MapType_assign k v m)"
  and map_ok_erase [simp]: "map_ok m \<Longrightarrow> map_ok (MapType_erase k m)"
  by (simp_all add: map_ok_def MapType_laws)

lemma map_ok_foldl: "map_ok m \<Longrightarrow> map_ok (foldl (\<lambda>m (k, v). MapType_assign k v m) m kvs)"
  by (induction kvs arbitrary: m) auto

lemma map_ok_of [simp]: "map_ok (MapType_of kvs)"
  by (simp add: MapType_of_def map_ok_foldl)

definition req_ok :: "HttpRequest \<Rightarrow> bool" where
  "req_ok r \<longleftrightarrow> map_ok (req_headers r) \<and> map_ok (req_params r) \<and> map_ok (req_cookies r)"

lemmas req_op_defs =
  HttpRequest_setMethod_def HttpRequest_setVersion_def HttpRequest_setPath_def HttpRequest_setQuery_def
  HttpRequest_setFragment_def HttpRequest_setBody_def HttpRequest_setClose_def HttpRequest_setWebsocket_def
  HttpRequest_init_def HttpRequest_setHeader_def HttpRequest_delHeader_def HttpRequest_setParam_def
  HttpRequest_delParam_def HttpRequest_setCookie_def HttpRequest_delCookie_def HttpRequest_setHeaders_def
  HttpRequest_setParams_def HttpRequest_setCookies_def

lemma req_apply_ok: "req_ok r \<Longrightarrow> req_ok (req_apply p r)"
  by (cases p) (simp_all add: req_ok_def req_op_defs Let_def)

lemma req_run_ok: "req_ok (req_run version close ops)"
proof -
  have "req_ok r \<Longrightarrow> req_ok (fold req_apply ops r)" for r
    by (induction ops arbitrary: r) (auto simp: req_apply_ok)
  then show ?thesis by (simp add: req_run_def req_ok_def HttpRequest_new_def)
qed

text \<open>
  C17: Headers are a map from names up to letter case. In every request built by any sequence of the class's
  operations, the header read under a name is the value set last under a name that differs
  from it in letter case only, erased headers read as the default, other headers are untouched; no two stored
  names are equal up to case.
\<close>

theorem request_header_laws:
  "let r = req_run version close ops in
     HttpRequest_getHeader k' def (HttpRequest_setHeader k v r) =
       (if strcasecmp k k' = 0 then v else HttpRequest_getHeader k' def r)
   \<and> HttpRequest_getHeader k' def (HttpRequest_delHeader k r) =
       (if strcasecmp k k' = 0 then def else HttpRequest_getHeader k' def r)
   \<and> HttpRequest_hasHeader k' old (HttpRequest_setHeader k v r) =
       (if strcasecmp k k' = 0 then (True, v) else HttpRequest_hasHeader k' old r)
   \<and> fst (HttpRequest_hasHeader k' old (HttpRequest_delHeader k r)) =
       (strcasecmp k k' \<noteq> 0 \<and> fst (HttpRequest_hasHeader k' old r))
   \<and> sorted_wrt (\<lambda>a b. strcasecmp a b < 0) (map fst (req_headers r))"
proof -
  let ?r = "req_run version close ops"
  have ok: "sorted_wrt CaseInsensitiveLess (map fst (req_headers ?r))"
    using req_run_ok [of version close ops] by (simp add: req_ok_def map_ok_def)
  moreover have "CaseInsensitiveLess = (\<lambda>a b. strcasecmp a b < 0)"
    by (intro ext) (simp add: CaseInsensitiveLess_lower strcasecmp_def)
  ultimately show ?thesis
    unfolding Let_def HttpRequest_getHeader_def HttpRequest_hasHeader_def map_has_def req_op_defs
    by (simp add: MapType_laws split: option.splits)
qed

section \<open>Methods\<close>

lemma method_table_index:
  "\<forall>m \<in> set (map (\<lambda>(num, name, str). name) HTTP_METHOD_MAP).
     HttpMethodToString m \<noteq> ''<unknown>'' \<and> StringToHttpMethod (HttpMethodToString m) = m"
  by code_simp

lemma method_table_complete:
  "m = INVALID_METHOD \<or> m \<in> set (map (\<lambda>(num, name, str). name) HTTP_METHOD_MAP)"
  by (cases m) (simp_all add: HTTP_METHOD_MAP_def)

lemma method_table_strings:
  "\<forall>(num, name, str) \<in> set HTTP_METHOD_MAP.
     HttpMethodToString name = str \<and> name \<noteq> INVALID_METHOD \<and> list_all (\<lambda>c. c \<noteq> CHR 0x00) str"
  by code_simp

lemma method_table_prefix_free:
  "\<forall>(n1, m1, s1) \<in> set HTTP_METHOD_MAP. \<forall>(n2, m2, s2) \<in> set HTTP_METHOD_MAP.
     prefix s1 s2 \<longrightarrow> m1 = m2"
  by code_simp

lemma prefix_of_two:
  "prefix a s \<Longrightarrow> prefix b s \<Longrightarrow> prefix a b \<or> prefix b a"
  using prefix_same_cases by blast

lemma CharsToHttpMethod_iff:
  assumes "m \<noteq> INVALID_METHOD"
  shows "CharsToHttpMethod s = m \<longleftrightarrow> prefix (HttpMethodToString m) (c_str s)"
proof -
  let ?P = "\<lambda>(num :: nat, name :: HttpMethod, str). strncmp str s (length str) = 0"
  have P: "?P e \<longleftrightarrow> prefix (snd (snd e)) (c_str s)" if "e \<in> set HTTP_METHOD_MAP" for e
    using method_table_strings that by (cases e) (fastforce simp: strncmp_prefix list_all_iff)
  show ?thesis
  proof
    assume "CharsToHttpMethod s = m"
    then obtain num str where "find ?P HTTP_METHOD_MAP = Some (num, m, str)"
      using assms by (auto simp: CharsToHttpMethod_def split: option.splits prod.splits)
    from find_SomeD [OF this] have e: "(num, m, str) \<in> set HTTP_METHOD_MAP" "prefix str (c_str s)"
      using P by (auto)
    moreover have "HttpMethodToString m = str" using method_table_strings e(1) by fastforce
    ultimately show "prefix (HttpMethodToString m) (c_str s)" by simp
  next
    assume p: "prefix (HttpMethodToString m) (c_str s)"
    obtain num str where e: "(num, m, str) \<in> set HTTP_METHOD_MAP"
      using method_table_complete [of m] assms by auto
    then have str: "HttpMethodToString m = str" using method_table_strings by fastforce
    then have "?P (num, m, str)" using P [OF e] p by simp
    then obtain e' where f: "find ?P HTTP_METHOD_MAP = Some e'"
      using e by (cases "find ?P HTTP_METHOD_MAP") (auto simp: find_None_iff)
    obtain n' m' s' where e': "e' = (n', m', s')" by (cases e')
    have in': "(n', m', s') \<in> set HTTP_METHOD_MAP" "prefix s' (c_str s)"
      using find_SomeD [OF f] P e' by auto
    have "m' = m"
      using prefix_of_two [OF in'(2), of str] p str e in'(1) method_table_prefix_free by fastforce
    then show "CharsToHttpMethod s = m" using f e' by (simp add: CharsToHttpMethod_def)
  qed
qed

text \<open>
  The method names are read back. \<open>StringToHttpMethod\<close> inverts \<open>HttpMethodToString\<close> on every method and
  gives the invalid method for every other string, and \<open>CharsToHttpMethod\<close>, which
  compares a character pointer over the length of each name, gives the one method
  whose name the characters start with: the table is prefix free, so its order does not matter.
\<close>

theorem http_method_roundtrip:
  "StringToHttpMethod (HttpMethodToString m) = m
   \<and> (StringToHttpMethod s \<noteq> INVALID_METHOD \<longleftrightarrow> (\<exists>m. m \<noteq> INVALID_METHOD \<and> HttpMethodToString m = c_str s))
   \<and> (CharsToHttpMethod s = m \<longleftrightarrow>
        (if m = INVALID_METHOD
         then \<not> (\<exists>m'. m' \<noteq> INVALID_METHOD \<and> prefix (HttpMethodToString m') (c_str s))
         else prefix (HttpMethodToString m) (c_str s)))"
proof -
  have inv: "StringToHttpMethod (HttpMethodToString INVALID_METHOD) = INVALID_METHOD" by code_simp
  have rt: "StringToHttpMethod (HttpMethodToString m) = m" for m
    using method_table_complete [of m] method_table_index inv by blast
  have cs: "StringToHttpMethod (c_str s) = StringToHttpMethod s"
    by (simp add: StringToHttpMethod_def)
  have "StringToHttpMethod s \<noteq> INVALID_METHOD \<longleftrightarrow> (\<exists>m. m \<noteq> INVALID_METHOD \<and> HttpMethodToString m = c_str s)"
  proof
    assume "StringToHttpMethod s \<noteq> INVALID_METHOD"
    then obtain num m str where
      f: "find (\<lambda>(num, name, str). strcmp str (c_str s) = 0) HTTP_METHOD_MAP = Some (num, m, str)"
      by (auto simp: StringToHttpMethod_def split: option.splits prod.splits)
    from find_SomeD [OF this] have e: "(num, m, str) \<in> set HTTP_METHOD_MAP" "strcmp str (c_str s) = 0"
      by auto
    then have "HttpMethodToString m = str" "m \<noteq> INVALID_METHOD" "CHR 0x00 \<notin> set str"
      using method_table_strings by (fastforce simp: list_all_iff)+
    then show "\<exists>m. m \<noteq> INVALID_METHOD \<and> HttpMethodToString m = c_str s"
      using e(2) by (auto simp: strcmp_0 c_str_id)
  next
    assume "\<exists>m. m \<noteq> INVALID_METHOD \<and> HttpMethodToString m = c_str s"
    then show "StringToHttpMethod s \<noteq> INVALID_METHOD" using rt cs by metis
  qed
  moreover have "CharsToHttpMethod s = INVALID_METHOD \<longleftrightarrow>
      \<not> (\<exists>m'. m' \<noteq> INVALID_METHOD \<and> prefix (HttpMethodToString m') (c_str s))"
    using CharsToHttpMethod_iff by metis
  ultimately show ?thesis using rt CharsToHttpMethod_iff by auto
qed

section \<open>The text of a message\<close>

text \<open>The lines before the empty line, as a list.\<close>

definition header_lines :: "bool \<Rightarrow> MapType \<Rightarrow> string list" where
  "header_lines websocket hs =
     map (\<lambda>(k, v). k @ '': '' @ v)
       (filter (\<lambda>(k, v). websocket \<or> strcasecmp k ''connection'' \<noteq> 0) hs)"

definition connection_line :: "bool \<Rightarrow> string" where
  "connection_line close = ''connection: '' @ (if close then ''close'' else ''keep-alive'')"

definition length_lines :: "string \<Rightarrow> string list" where
  "length_lines body = (if body = [] then [] else [''content-length: '' @ dec (length body)])"

definition request_line :: "HttpRequest \<Rightarrow> string" where
  "request_line r =
     HttpMethodToString (req_method r) @ '' '' @ req_path r
     @ (if req_query r = [] then [] else ''?'' @ req_query r)
     @ (if req_fragment r = [] then [] else ''#'' @ req_fragment r)
     @ '' HTTP/'' @ dump_version (req_version r)"

definition status_line :: "HttpResponse \<Rightarrow> string" where
  "status_line r =
     ''HTTP/'' @ dump_version (rsp_version r) @ '' '' @ dec (rsp_status r) @ '' ''
     @ (if rsp_reason r = [] then HttpStatusToString (rsp_status r) else rsp_reason r)"

definition request_lines :: "HttpRequest \<Rightarrow> string list" where
  "request_lines r = [request_line r]
     @ (if req_websocket r then [] else [connection_line (req_close r)])
     @ header_lines (req_websocket r) (req_headers r) @ length_lines (req_body r)"

definition response_lines :: "HttpResponse \<Rightarrow> string list" where
  "response_lines r = [status_line r]
     @ header_lines (rsp_websocket r) (rsp_headers r)
     @ map ((@) ''Set-Cookie: '') (rsp_cookies r)
     @ (if rsp_websocket r then [] else [connection_line (rsp_close r)]) @ length_lines (rsp_body r)"

lemma dump_headers_lines: "dump_headers ws hs = crlf_lines (header_lines ws hs)"
  by (induction hs) (auto simp: header_lines_def)

lemma dump_body_lines: "dump_body body = crlf_lines (length_lines body) @ crlf @ body"
  by (simp add: dump_body_def length_lines_def)

lemma crlf_lines_map: "concat (map (\<lambda>c. p @ c @ crlf) cs) = crlf_lines (map (\<lambda>c. p @ c) cs)"
  by (induction cs) auto

lemma request_toString_lines: "HttpRequest_toString r = crlf_lines (request_lines r) @ crlf @ req_body r"
  by (simp add: HttpRequest_toString_def request_lines_def request_line_def dump_headers_lines
      dump_body_lines dump_connection_def connection_line_def)

lemma response_toString_lines: "HttpResponse_toString r = crlf_lines (response_lines r) @ crlf @ rsp_body r"
  unfolding HttpResponse_toString_def crlf_lines_map
  by (simp add: response_lines_def status_line_def dump_headers_lines
      dump_body_lines dump_connection_def connection_line_def)

lemma LF_dec [simp]: "LF \<notin> set (dec n)"
  using dec_digits [of LF n] by (auto simp: is_digit_def less_eq_char_def)

lemma LF_version [simp]: "LF \<notin> set (dump_version v)"
  by (simp add: dump_version_def)

lemma method_table_no_LF:
  "list_all (\<lambda>m. list_all (\<lambda>c. c \<noteq> LF) (HttpMethodToString m))
     (INVALID_METHOD # map (\<lambda>(num, name, str). name) HTTP_METHOD_MAP)"
  by code_simp

lemma method_no_LF [simp]: "LF \<notin> set (HttpMethodToString m)"
proof -
  have "m \<in> set (INVALID_METHOD # map (\<lambda>(num, name, str). name) HTTP_METHOD_MAP)"
    using method_table_complete [of m] by simp
  then have "list_all (\<lambda>c. c \<noteq> LF) (HttpMethodToString m)"
    using method_table_no_LF unfolding list_all_iff by blast
  then show ?thesis by (auto simp: list_all_iff)
qed

lemma status_table_no_LF: "list_all (\<lambda>(c, n, msg). list_all (\<lambda>c. c \<noteq> LF) msg) HTTP_STATUS_MAP"
  by code_simp

lemma status_no_LF [simp]: "LF \<notin> set (HttpStatusToString s)"
proof (cases "find (\<lambda>(code, name, msg). code = s) HTTP_STATUS_MAP")
  case None
  then show ?thesis by (simp add: HttpStatusToString_def)
next
  case (Some e)
  obtain c n msg where e: "e = (c, n, msg)" by (cases e)
  then have "(c, n, msg) \<in> set HTTP_STATUS_MAP" using find_SomeD [OF Some] by auto
  then have "list_all (\<lambda>c. c \<noteq> LF) msg"
    using status_table_no_LF unfolding list_all_iff [of _ HTTP_STATUS_MAP] by fast
  then have "LF \<notin> set msg" by (auto simp: list_all_iff)
  then show ?thesis using Some e by (simp add: HttpStatusToString_def)
qed

definition fields_no_LF :: "MapType \<Rightarrow> bool" where
  "fields_no_LF hs \<longleftrightarrow> list_all (\<lambda>(k, v). LF \<notin> set k \<and> LF \<notin> set v) hs"

lemma header_lines_no_LF:
  "fields_no_LF hs \<Longrightarrow> l \<in> set (header_lines ws hs) \<Longrightarrow> LF \<notin> set l \<and> l \<noteq> []"
  by (auto simp: header_lines_def fields_no_LF_def list_all_iff)

lemma length_lines_no_LF: "l \<in> set (length_lines body) \<Longrightarrow> LF \<notin> set l \<and> l \<noteq> []"
  by (auto simp: length_lines_def split: if_splits)

lemma connection_line_no_LF [simp]: "LF \<notin> set (connection_line c)" "connection_line c \<noteq> []"
  by (auto simp: connection_line_def)

text \<open>
  A dumped request is framed. When no path, query, fragment or header holds a line feed, reading the text
  line by line up to the first empty line gives the request line, one connection line computed
  from the keep-alive flag (none for a websocket), every stored header in order except connection, and the
  content-length line with the length of the body when there is a body; what follows the empty line is the body.
\<close>

theorem request_dump_framed:
  assumes "LF \<notin> set (req_path r)" and "LF \<notin> set (req_query r)" and "LF \<notin> set (req_fragment r)"
    and "fields_no_LF (req_headers r)"
  shows "head_lines (HttpRequest_toString r) =
    Some (map (\<lambda>l. l @ [CR]) (request_lines r), req_body r)"
proof -
  have "\<forall>l \<in> set (request_lines r). LF \<notin> set l \<and> l \<noteq> []"
    using assms
    by (auto simp: request_lines_def request_line_def split: if_splits
        dest: header_lines_no_LF length_lines_no_LF)
  from head_lines_crlf [OF this, of "req_body r"] show ?thesis
    by (simp add: request_toString_lines)
qed

theorem request_dump_framed_witness:
  "let r = req_run 0x11 False [OpSetHeader ''Host'' ''a'', OpSetHeader ''CONNECTION'' ''x'', OpBody [LF, CR, LF]] in
   head_lines (HttpRequest_toString r) =
     Some (map (\<lambda>l. l @ [CR]) [''GET / HTTP/1.1'', ''connection: keep-alive'', ''Host: a'', ''content-length: 3''],
       [LF, CR, LF])"
proof -
  let ?r = "req_run 0x11 False [OpSetHeader ''Host'' ''a'', OpSetHeader ''CONNECTION'' ''x'', OpBody [LF, CR, LF]]"
  have lines: "request_lines ?r = [''GET / HTTP/1.1'', ''connection: keep-alive'', ''Host: a'', ''content-length: 3'']"
    by code_simp
  have fields: "req_path ?r = ''/''" "req_query ?r = []" "req_fragment ?r = []" "fields_no_LF (req_headers ?r)"
    "req_body ?r = [LF, CR, LF]"
    by code_simp+
  show ?thesis
    using request_dump_framed [of ?r] fields lines by (simp add: Let_def)
qed

text \<open>
  A dumped response is framed: status line with the version, the number and the reason (the table's text
  when none was set), the stored headers except connection, one Set-Cookie line per cookie, the connection
  line, the content-length of a body that is not empty, then the body.
\<close>

theorem response_dump_framed:
  assumes "LF \<notin> set (rsp_reason r)" and "fields_no_LF (rsp_headers r)"
    and "list_all (\<lambda>c. LF \<notin> set c) (rsp_cookies r)"
  shows "head_lines (HttpResponse_toString r) =
    Some (map (\<lambda>l. l @ [CR]) (response_lines r), rsp_body r)"
proof -
  have "\<forall>l \<in> set (response_lines r). LF \<notin> set l \<and> l \<noteq> []"
    using assms
    by (auto simp: response_lines_def status_line_def list_all_iff split: if_splits
        dest: header_lines_no_LF length_lines_no_LF)
  from head_lines_crlf [OF this, of "rsp_body r"] show ?thesis
    by (simp add: response_toString_lines)
qed

theorem response_dump_framed_witness:
  "let r = HttpResponse_setRedirect ''/x'' (HttpResponse_new 0x10 True) in
   head_lines (HttpResponse_toString r) =
     Some (map (\<lambda>l. l @ [CR]) [''HTTP/1.0 302 Found'', ''Location: /x'', ''connection: close''], [])"
proof -
  let ?r = "HttpResponse_setRedirect ''/x'' (HttpResponse_new 0x10 True)"
  have lines: "response_lines ?r = [''HTTP/1.0 302 Found'', ''Location: /x'', ''connection: close'']"
    by code_simp
  have fields: "rsp_reason ?r = []" "fields_no_LF (rsp_headers ?r)" "rsp_cookies ?r = []" "rsp_body ?r = []"
    by code_simp+
  show ?thesis
    using response_dump_framed [of ?r] fields lines by (simp add: Let_def)
qed

text \<open>
  The keep-alive flag follows the connection header, whatever the letter case of its name and value. After a
  connection header that is not empty is set and \<open>init\<close> runs, the connection is kept exactly for keep-alive, and the
  dumped request says so in its second line, in place of the header that was set.
\<close>

theorem request_init_keepalive:
  assumes "v \<noteq> []" and "strcasecmp k ''connection'' = 0"
  shows "let r = HttpRequest_init (HttpRequest_setHeader k v (HttpRequest_setWebsocket False (req_run version close ops))) in
     req_close r = (strcasecmp v ''keep-alive'' \<noteq> 0)
   \<and> request_lines r ! 1 = (if strcasecmp v ''keep-alive'' = 0 then ''connection: keep-alive'' else ''connection: close'')
   \<and> HttpRequest_getHeader ''connection'' [] r = v"
proof -
  let ?r0 = "req_run version close ops"
  have ok: "sorted_wrt CaseInsensitiveLess (map fst (req_headers ?r0))"
    using req_run_ok [of version close ops] by (simp add: req_ok_def map_ok_def)
  then have "HttpRequest_getHeader ''connection'' [] (HttpRequest_setHeader k v (HttpRequest_setWebsocket False ?r0)) = v"
    using assms(2) by (simp add: HttpRequest_getHeader_def HttpRequest_setHeader_def HttpRequest_setWebsocket_def MapType_laws)
  then show ?thesis
    using assms(1)
    by (auto simp: Let_def HttpRequest_init_def HttpRequest_getHeader_def HttpRequest_setHeader_def HttpRequest_setWebsocket_def
        request_lines_def connection_line_def)
qed

theorem request_init_keepalive_witness:
  "let r = HttpRequest_init (HttpRequest_setHeader ''Connection'' ''Keep-Alive''
     (HttpRequest_setWebsocket False (req_run 0x11 True []))) in
     \<not> req_close r \<and> request_lines r ! 1 = ''connection: keep-alive''"
proof -
  have "strcasecmp ''Connection'' ''connection'' = 0" "strcasecmp ''Keep-Alive'' ''keep-alive'' = 0"
    by code_simp+
  then show ?thesis
    using request_init_keepalive [where v = "''Keep-Alive''" and k = "''Connection''" and version = "0x11" and close = True and ops = "[]"] by (simp add: Let_def)
qed

text \<open>A content-length header set by the user is written beside the computed one.\<close>

lemma request_dump_two_lengths:
  "let r = req_run 0x11 True [OpSetHeader ''Content-Length'' ''5'', OpBody ''abc''] in
   request_lines r =
     [''GET / HTTP/1.1'', ''connection: close'', ''Content-Length: 5'', ''content-length: 3'']"
  by code_simp

end
