(* ===== verification/Mingo_Fiber.thy ===== *)
theory Mingo_Fiber
  imports Mingo_Prelude
begin

text \<open>
  \<^verbatim>\<open>mingo/fiber.cpp\<close>: coroutines on \<open>ucontext\<close>. A \<open>Fiber*\<close> is an address of the heap \<open>fibers\<close>; the
  \<open>thread_local\<close> variables are a record per thread. A piece of running code is named by the stack it runs
  on: the native stack of a thread or the stack of a fiber. A saved context is the code it resumes; \<open>swapcontext\<close>
  saves the running code in one context and continues the other. The body \<open>m_cb\<close> is the user's code,
  named by a number: its effects are the operations it calls.
  The value of the configuration item \<open>fiber.stack_size\<close> is the argument \<open>cfg\<close>.
\<close>

section \<open>State\<close>

datatype fiber_state = INIT | HOLD | EXEC | TERM_s | READY | EXCEPT

datatype code = Native nat | Body nat

datatype entry = MainFunc | CallerMainFunc

datatype ucontext = Unset | Fresh entry | Saved code

record fiber =
  f_id :: u64
  m_stacksize :: u32
  m_state :: fiber_state
  m_ctx :: ucontext
  m_stack :: bool
  m_fcb :: "nat option"

record tls =
  t_fiber :: "nat option"
  t_threadFiber :: "nat option"
  t_scheduler_fiber :: "nat option"
  running :: code

record fworld =
  fibers :: "nat \<Rightarrow> fiber"
  f_next :: nat
  s_fiber_id :: u64
  s_fiber_count :: u64
  tls :: "nat \<Rightarrow> tls"

definition fiber_upd :: "nat \<Rightarrow> (fiber \<Rightarrow> fiber) \<Rightarrow> 'a fworld_scheme \<Rightarrow> 'a fworld_scheme" where
  "fiber_upd a f w = w\<lparr>fibers := (fibers w)(a := f (fibers w a))\<rparr>"

definition tls_upd :: "nat \<Rightarrow> (tls \<Rightarrow> tls) \<Rightarrow> 'a fworld_scheme \<Rightarrow> 'a fworld_scheme" where
  "tls_upd t f w = w\<lparr>tls := (tls w)(t := f (tls w t))\<rparr>"

lemma fiber_upd_simps [simp]:
  "fibers (fiber_upd a f w) = (fibers w)(a := f (fibers w a))"
  "tls (fiber_upd a f w) = tls w" "f_next (fiber_upd a f w) = f_next w"
  "s_fiber_id (fiber_upd a f w) = s_fiber_id w" "s_fiber_count (fiber_upd a f w) = s_fiber_count w"
  by (simp_all add: fiber_upd_def)

lemma tls_upd_simps [simp]:
  "tls (tls_upd t g w) = (tls w)(t := g (tls w t))"
  "fibers (tls_upd t g w) = fibers w" "f_next (tls_upd t g w) = f_next w"
  "s_fiber_id (tls_upd t g w) = s_fiber_id w" "s_fiber_count (tls_upd t g w) = s_fiber_count w"
  by (simp_all add: tls_upd_def)

section \<open>Contexts\<close>

definition resume :: "nat \<Rightarrow> ucontext \<Rightarrow> code \<Rightarrow> code" where
  "resume a c cur = (case c of Unset \<Rightarrow> cur | Fresh _ \<Rightarrow> Body a | Saved k \<Rightarrow> k)"

definition swapcontext :: "nat \<Rightarrow> nat \<Rightarrow> nat \<Rightarrow> 'a fworld_scheme \<Rightarrow> 'a fworld_scheme" where
  "swapcontext t src into w =
     (let cur = running (tls w t);
          w1 = fiber_upd src (m_ctx_update (\<lambda>_. Saved cur)) w
      in tls_upd t (running_update (\<lambda>_. resume into (m_ctx (fibers w1 into)) cur)) w1)"

section \<open>Operations\<close>

definition Fiber_SetThis :: "nat \<Rightarrow> nat option \<Rightarrow> 'a fworld_scheme \<Rightarrow> 'a fworld_scheme" where
  "Fiber_SetThis t f w = tls_upd t (t_fiber_update (\<lambda>_. f)) w"

definition Fiber_main_new :: "nat \<Rightarrow> ('a fworld_scheme, nat) oper" where
  "Fiber_main_new t w =
     (let a = f_next w;
          w1 = w\<lparr>fibers := (fibers w)(a := \<lparr>f_id = 0, m_stacksize = 0, m_state = EXEC,
                   m_ctx = Saved (running (tls w t)), m_stack = False, m_fcb = None\<rparr>),
                 f_next := a + 1, s_fiber_count := s_fiber_count w + 1\<rparr>
      in (Inr a, Fiber_SetThis t (Some a) w1))"

definition Fiber_new :: "u32 \<Rightarrow> nat option \<Rightarrow> nat \<Rightarrow> bool \<Rightarrow> ('a fworld_scheme, nat) oper" where
  "Fiber_new cfg cb stacksize use_caller w =
     (let a = f_next w;
          i = s_fiber_id w + 1
      in (Inr a, w\<lparr>fibers := (fibers w)(a := \<lparr>f_id = i,
                     m_stacksize = (if stacksize \<noteq> 0 then word_of_nat stacksize else cfg), m_state = INIT,
                     m_ctx = Fresh (if \<not> use_caller then MainFunc else CallerMainFunc),
                     m_stack = True, m_fcb = cb\<rparr>),
                   f_next := a + 1, s_fiber_id := i, s_fiber_count := s_fiber_count w + 1\<rparr>))"

definition Fiber_delete :: "nat \<Rightarrow> nat \<Rightarrow> ('a fworld_scheme, unit) oper" where
  "Fiber_delete t a w =
     (let w1 = w\<lparr>s_fiber_count := s_fiber_count w - 1\<rparr>; f = fibers w1 a in
      if m_stack f then
        if m_state f \<in> {TERM_s, EXCEPT, INIT} then (Inr (), w1) else (Inl AssertFail, w1)
      else if m_fcb f \<noteq> None then (Inl AssertFail, w1)
      else if m_state f \<noteq> EXEC then (Inl AssertFail, w1)
      else (Inr (), if t_fiber (tls w1 t) = Some a then Fiber_SetThis t None w1 else w1))"

definition Fiber_reset :: "nat \<Rightarrow> nat option \<Rightarrow> ('a fworld_scheme, unit) oper" where
  "Fiber_reset a cb w =
     (let f = fibers w a in
      if \<not> m_stack f then (Inl AssertFail, w)
      else if m_state f \<notin> {TERM_s, EXCEPT, INIT} then (Inl AssertFail, w)
      else (Inr (), fiber_upd a (\<lambda>f. f\<lparr>m_fcb := cb, m_ctx := Fresh MainFunc, m_state := INIT\<rparr>) w))"

definition Fiber_call :: "nat \<Rightarrow> nat \<Rightarrow> ('a fworld_scheme, unit) oper" where
  "Fiber_call t a w =
     (let w1 = fiber_upd a (m_state_update (\<lambda>_. EXEC)) (Fiber_SetThis t (Some a) w) in
      case t_threadFiber (tls w1 t) of
        None \<Rightarrow> (Inl NullDeref, w1)
      | Some m \<Rightarrow> (Inr (), swapcontext t m a w1))"

definition Fiber_back :: "nat \<Rightarrow> nat \<Rightarrow> ('a fworld_scheme, unit) oper" where
  "Fiber_back t a w =
     (let w1 = Fiber_SetThis t (t_threadFiber (tls w t)) w in
      case t_threadFiber (tls w1 t) of
        None \<Rightarrow> (Inl NullDeref, w1)
      | Some m \<Rightarrow> (Inr (), swapcontext t a m w1))"

definition Fiber_swapIn :: "nat \<Rightarrow> nat \<Rightarrow> ('a fworld_scheme, unit) oper" where
  "Fiber_swapIn t a w =
     (let w1 = Fiber_SetThis t (Some a) w in
      if m_state (fibers w1 a) = EXEC then (Inl AssertFail, w1)
      else
        let w2 = fiber_upd a (m_state_update (\<lambda>_. EXEC)) w1 in
        case t_scheduler_fiber (tls w2 t) of
          None \<Rightarrow> (Inl NullDeref, w2)
        | Some m \<Rightarrow> (Inr (), swapcontext t m a w2))"

definition Fiber_swapOut :: "nat \<Rightarrow> nat \<Rightarrow> ('a fworld_scheme, unit) oper" where
  "Fiber_swapOut t a w =
     (let w1 = Fiber_SetThis t (t_scheduler_fiber (tls w t)) w in
      case t_scheduler_fiber (tls w1 t) of
        None \<Rightarrow> (Inl NullDeref, w1)
      | Some m \<Rightarrow> (Inr (), swapcontext t a m w1))"

definition Fiber_GetThis :: "nat \<Rightarrow> ('a fworld_scheme, nat) oper" where
  "Fiber_GetThis t w =
     (case t_fiber (tls w t) of
        Some a \<Rightarrow> (Inr a, w)
      | None \<Rightarrow>
          andthen (Fiber_main_new t) (\<lambda>a w1.
            if t_fiber (tls w1 t) \<noteq> Some a then (Inl AssertFail, w1)
            else (Inr a, tls_upd t (t_threadFiber_update (\<lambda>_. Some a)) w1)) w)"

definition Fiber_GetFiberId :: "nat \<Rightarrow> 'a fworld_scheme \<Rightarrow> u64" where
  "Fiber_GetFiberId t w = (case t_fiber (tls w t) of Some a \<Rightarrow> f_id (fibers w a) | None \<Rightarrow> 0)"

definition Fiber_TotalFibers :: "'a fworld_scheme \<Rightarrow> u64" where
  "Fiber_TotalFibers w = s_fiber_count w"

text \<open>The part of a yield before the switch, and the whole yield.\<close>

definition yield_mark :: "fiber_state \<Rightarrow> nat \<Rightarrow> ('a fworld_scheme, nat) oper" where
  "yield_mark st t =
     andthen (Fiber_GetThis t) (\<lambda>cur w.
       if m_state (fibers w cur) \<noteq> EXEC then (Inl AssertFail, w)
       else (Inr cur, fiber_upd cur (m_state_update (\<lambda>_. st)) w))"

definition Fiber_YieldToReady :: "nat \<Rightarrow> ('a fworld_scheme, unit) oper" where
  "Fiber_YieldToReady t = andthen (yield_mark READY t) (Fiber_swapOut t)"

definition Fiber_YieldToHold :: "nat \<Rightarrow> ('a fworld_scheme, unit) oper" where
  "Fiber_YieldToHold t = andthen (yield_mark HOLD t) (Fiber_swapOut t)"

text \<open>
  What \<open>MainFunc\<close> and \<open>CallerMainFunc\<close> do when the body ends, normally or by an exception (calling an
  empty function throws too).
\<close>

definition body_end :: "bool \<Rightarrow> nat \<Rightarrow> ('a fworld_scheme, nat) oper" where
  "body_end threw t =
     andthen (Fiber_GetThis t) (\<lambda>cur w.
       (Inr cur,
        fiber_upd cur (\<lambda>f. if threw \<or> m_fcb f = None then f\<lparr>m_state := EXCEPT\<rparr>
                           else f\<lparr>m_fcb := None, m_state := TERM_s\<rparr>) w))"

definition Fiber_MainFunc :: "bool \<Rightarrow> nat \<Rightarrow> ('a fworld_scheme, unit) oper" where
  "Fiber_MainFunc threw t = andthen (body_end threw t) (Fiber_swapOut t)"

definition Fiber_CallerMainFunc :: "bool \<Rightarrow> nat \<Rightarrow> ('a fworld_scheme, unit) oper" where
  "Fiber_CallerMainFunc threw t = andthen (body_end threw t) (Fiber_back t)"

section \<open>The switching discipline\<close>

lemmas fiber_op_defs =
  Fiber_swapIn_def Fiber_swapOut_def Fiber_SetThis_def Fiber_GetThis_def swapcontext_def
  Fiber_call_def Fiber_back_def yield_mark_def body_end_def Fiber_YieldToReady_def Fiber_YieldToHold_def
  Fiber_MainFunc_def Fiber_CallerMainFunc_def andthen_def resume_def Let_def

text \<open>
  The scheduler fiber \<open>m\<close> has control on thread \<open>t\<close>: it is the current fiber, and the code that runs is \<open>k\<close>,
  the code its own context will resume.
\<close>

definition in_control :: "nat \<Rightarrow> nat \<Rightarrow> code \<Rightarrow> 'a fworld_scheme \<Rightarrow> bool" where
  "in_control t m k w \<longleftrightarrow>
     t_scheduler_fiber (tls w t) = Some m \<and> t_fiber (tls w t) = Some m \<and> running (tls w t) = k"

text \<open>A fiber that may be switched to: its context starts it or resumes its own code.\<close>

definition resumable :: "nat \<Rightarrow> 'a fworld_scheme \<Rightarrow> bool" where
  "resumable a w \<longleftrightarrow> m_state (fibers w a) \<noteq> EXEC \<and>
     (m_ctx (fibers w a) = Saved (Body a) \<or> m_ctx (fibers w a) = Fresh MainFunc)"

definition inside :: "nat \<Rightarrow> nat \<Rightarrow> code \<Rightarrow> nat \<Rightarrow> 'a fworld_scheme \<Rightarrow> bool" where
  "inside t m k a w \<longleftrightarrow>
     t_scheduler_fiber (tls w t) = Some m \<and> t_fiber (tls w t) = Some a \<and> running (tls w t) = Body a \<and>
     m_state (fibers w a) = EXEC \<and> m_ctx (fibers w m) = Saved k"

lemma swapIn_inside:
  assumes "in_control t m k w" and "resumable a w" and "a \<noteq> m"
  shows "fst (Fiber_swapIn t a w) = Inr () \<and> inside t m k a (snd (Fiber_swapIn t a w))"
  using assms by (auto simp: fiber_op_defs in_control_def resumable_def inside_def)

datatype leave = LeaveReady | LeaveHold | LeaveEnd bool

fun leave_op :: "leave \<Rightarrow> nat \<Rightarrow> ('a fworld_scheme, unit) oper" where
  "leave_op LeaveReady = Fiber_YieldToReady"
| "leave_op LeaveHold = Fiber_YieldToHold"
| "leave_op (LeaveEnd threw) = Fiber_MainFunc threw"

fun leave_state :: "leave \<Rightarrow> nat option \<Rightarrow> fiber_state" where
  "leave_state LeaveReady cb = READY"
| "leave_state LeaveHold cb = HOLD"
| "leave_state (LeaveEnd threw) cb = (if threw \<or> cb = None then EXCEPT else TERM_s)"

lemma leave_in_control:
  assumes "inside t m k a w" and "a \<noteq> m"
  shows "fst (leave_op l t w) = Inr ()"
    and "in_control t m k (snd (leave_op l t w))"
    and "m_state (fibers (snd (leave_op l t w)) a) = leave_state l (m_fcb (fibers w a))"
    and "m_ctx (fibers (snd (leave_op l t w)) a) = Saved (Body a)"
    and "\<And>b. b \<noteq> a \<Longrightarrow> fibers (snd (leave_op l t w)) b = fibers w b"
  using assms by (cases l; auto simp: fiber_op_defs in_control_def inside_def)+

text \<open>
  C18: Switching is a coroutine call. From the scheduler fiber in control, \<open>swapIn\<close> of another fiber that is not
  executing transfers control to that fiber's own code, at its start or where it left, with the
  state EXEC; whichever way the fiber leaves (yield to ready, yield to hold, its body ending or
  throwing), control is back in the scheduler fiber's code exactly as before, the fiber has the state of that exit, its
  context resumes its own code, and no third fiber has changed.
\<close>

theorem fiber_switch_roundtrip:
  assumes "in_control t m k w" and "resumable a w" and "a \<noteq> m"
    and "snd (Fiber_swapIn t a w) = w1" and "snd (leave_op l t w1) = w2"
  shows "fst (Fiber_swapIn t a w) = Inr () \<and> running (tls w1 t) = Body a \<and> m_state (fibers w1 a) = EXEC
    \<and> fst (leave_op l t w1) = Inr () \<and> in_control t m k w2
    \<and> m_state (fibers w2 a) = leave_state l (m_fcb (fibers w a))
    \<and> m_ctx (fibers w2 a) = Saved (Body a)
    \<and> (\<forall>b. b \<noteq> a \<longrightarrow> b \<noteq> m \<longrightarrow> fibers w2 b = fibers w b)"
proof -
  have i: "fst (Fiber_swapIn t a w) = Inr ()" "inside t m k a w1"
    using swapIn_inside [OF assms(1-3)] assms(4) by auto
  have same: "m_fcb (fibers w1 a) = m_fcb (fibers w a)"
    "\<And>b. b \<noteq> a \<Longrightarrow> b \<noteq> m \<Longrightarrow> fibers w1 b = fibers w b"
    using assms by (auto simp: fiber_op_defs in_control_def resumable_def)
  show ?thesis
    using i leave_in_control [OF i(2) assms(3), where l = l] assms(5) same
    by (auto simp: inside_def)
qed

definition fiber_demo :: "fworld" where
  "fiber_demo =
     \<lparr>fibers = (\<lambda>_. \<lparr>f_id = 0, m_stacksize = 0, m_state = INIT, m_ctx = Unset, m_stack = False, m_fcb = None\<rparr>),
      f_next = 1, s_fiber_id = 0, s_fiber_count = 0,
      tls = (\<lambda>t. \<lparr>t_fiber = None, t_threadFiber = None, t_scheduler_fiber = None, running = Native t\<rparr>)\<rparr>"

text \<open>A thread with its main fiber 1 as scheduler fiber and the new fiber 2 with body 7.\<close>

definition fiber_demo1 :: "fworld" where
  "fiber_demo1 =
     tls_upd 0 (t_scheduler_fiber_update (\<lambda>_. Some 1))
       (snd (Fiber_new 1024 (Some 7) 0 False (snd (Fiber_GetThis 0 fiber_demo))))"

theorem fiber_switch_roundtrip_witness:
  "let w2 = snd (Fiber_YieldToHold 0 (snd (Fiber_swapIn 0 2 fiber_demo1))) in
   in_control 0 1 (Native 0) w2 \<and> m_state (fibers w2 2) = HOLD \<and> m_ctx (fibers w2 2) = Saved (Body 2)"
proof -
  have "in_control 0 1 (Native 0) fiber_demo1" "resumable 2 fiber_demo1"
    by (code_simp, code_simp)
  then show ?thesis
    using fiber_switch_roundtrip [of 0 1 "Native 0" fiber_demo1 2 _ LeaveHold] by (simp add: Let_def)
qed

text \<open>
  The guards of the fiber class. \<open>reset\<close> succeeds exactly on a fiber with a stack that has not started, has
  ended or has thrown, and then the fiber starts afresh with the new body; \<open>swapIn\<close> is refused on an executing fiber;
  a yield is refused when the current fiber is not executing; the destructor accepts a fiber
  with a stack in the states that \<open>reset\<close> accepts.
\<close>

theorem fiber_guards:
  "(fst (Fiber_reset a cb w) = Inr () \<longleftrightarrow>
      m_stack (fibers w a) \<and> m_state (fibers w a) \<in> {TERM_s, EXCEPT, INIT})
   \<and> (if fst (Fiber_reset a cb w) = Inr ()
      then fibers (snd (Fiber_reset a cb w)) =
        (fibers w)(a := (fibers w a)\<lparr>m_fcb := cb, m_ctx := Fresh MainFunc, m_state := INIT\<rparr>)
      else Fiber_reset a cb w = (Inl AssertFail, w))
   \<and> (fst (Fiber_swapIn t a w) = Inl AssertFail \<longleftrightarrow> m_state (fibers w a) = EXEC)
   \<and> (fst (yield_mark st t w) = Inl AssertFail \<longleftrightarrow>
        (\<exists>c. t_fiber (tls w t) = Some c \<and> m_state (fibers w c) \<noteq> EXEC))
   \<and> (m_stack (fibers w a) \<and> fst (Fiber_delete t a w) = Inr () \<longleftrightarrow> fst (Fiber_reset a cb w) = Inr ())"
  by (auto simp: fiber_op_defs Fiber_reset_def Fiber_delete_def Fiber_main_new_def fiber_upd_def
      split: option.splits if_splits)

end
