(* ===== verification/Mingo_Scheduler.thy ===== *)
theory Mingo_Scheduler
  imports Mingo_Fiber Mingo_Text "HOL-Library.Multiset"
begin

text \<open>
  \<^verbatim>\<open>mingo/scheduler.cpp\<close> and \<^verbatim>\<open>scheduler.h\<close>: the N:M fiber scheduler. The state extends the fiber
  world by the queue, the counters, the flags and, per thread, the position in the loop of \<open>run\<close>, the reusable
  callback fiber and the idle fiber. The loop is cut at its points of interaction: the scan of the queue under the mutex, the
  dispatch up to the switch, and the code after the switch; any other thread may act in between. \<open>tickle\<close> is
  an event of the result. A function object is a number; 0 is \<open>Scheduler::run\<close> and 1 is
  \<open>Scheduler::idle\<close> bound to this scheduler, which is scheduler number 0 in \<open>t_scheduler\<close>.
\<close>

section \<open>State\<close>

record fiber_and_thread =
  ft_fiber :: "nat option"
  ft_cb :: "nat option"
  ft_thread :: int

datatype fiber_or_cb = FiberPtr "nat option" | Function "nat option"

fun FiberAndThread :: "fiber_or_cb \<Rightarrow> int \<Rightarrow> fiber_and_thread" where
  "FiberAndThread (FiberPtr f) thr = \<lparr>ft_fiber = f, ft_cb = None, ft_thread = thr\<rparr>"
| "FiberAndThread (Function f) thr = \<lparr>ft_fiber = None, ft_cb = f, ft_thread = thr\<rparr>"

definition ft_none :: fiber_and_thread where
  "ft_none = \<lparr>ft_fiber = None, ft_cb = None, ft_thread = - 1\<rparr>"

datatype pc =
    NotStarted | Begin | Scan | Dispatch fiber_and_thread bool | InFiber nat | InCb | InIdle | Done

datatype event = Queued fiber_and_thread | Taken nat fiber_and_thread | Tickle

record sched = fworld +
  m_fibers :: "fiber_and_thread list"
  m_threads :: "nat list"
  m_rootFiber :: "nat option"
  m_name :: string
  m_threadIds :: "int list"
  m_threadCount :: nat
  m_activeThreadCount :: u64
  m_idleThreadCount :: u64
  m_stopping :: bool
  m_autoStop :: bool
  m_rootThread :: int
  t_scheduler :: "nat \<Rightarrow> nat option"
  pc :: "nat \<Rightarrow> pc"
  cb_fiber :: "nat \<Rightarrow> nat option"
  idle_fiber :: "nat \<Rightarrow> nat"

definition set_pc :: "nat \<Rightarrow> pc \<Rightarrow> 'a sched_scheme \<Rightarrow> 'a sched_scheme" where
  "set_pc t p w = w\<lparr>pc := (pc w)(t := p)\<rparr>"

section \<open>Scheduling\<close>

definition scheduleNoLock :: "fiber_or_cb \<Rightarrow> int \<Rightarrow> 'a sched_scheme \<Rightarrow> bool \<times> event list \<times> 'a sched_scheme" where
  "scheduleNoLock fc thread w =
     (let need_tickle = (m_fibers w = []);
          ft = FiberAndThread fc thread
      in if ft_fiber ft \<noteq> None \<or> ft_cb ft \<noteq> None
         then (need_tickle, [Queued ft], w\<lparr>m_fibers := m_fibers w @ [ft]\<rparr>)
         else (need_tickle, [], w))"

definition Scheduler_schedule :: "fiber_or_cb \<Rightarrow> int \<Rightarrow> ('a sched_scheme, event list) oper" where
  "Scheduler_schedule fc thread w =
     (case scheduleNoLock fc thread w of (need_tickle, es, w1) \<Rightarrow>
        (Inr (es @ (if need_tickle then [Tickle] else [])), w1))"

fun schedule_loop :: "fiber_or_cb list \<Rightarrow> bool \<Rightarrow> event list \<Rightarrow> 'a sched_scheme \<Rightarrow> bool \<times> event list \<times> 'a sched_scheme" where
  "schedule_loop [] need_tickle es w = (need_tickle, es, w)"
| "schedule_loop (fc # fcs) need_tickle es w =
     (case scheduleNoLock fc (- 1) w of (n, es1, w1) \<Rightarrow>
        schedule_loop fcs (n \<or> need_tickle) (es @ es1) w1)"

definition Scheduler_schedule_range :: "fiber_or_cb list \<Rightarrow> ('a sched_scheme, event list) oper" where
  "Scheduler_schedule_range fcs w =
     (case schedule_loop fcs False [] w of (need_tickle, es, w1) \<Rightarrow>
        (Inr (es @ (if need_tickle then [Tickle] else [])), w1))"

definition Scheduler_stopping :: "'a sched_scheme \<Rightarrow> bool" where
  "Scheduler_stopping w \<longleftrightarrow> m_autoStop w \<and> m_stopping w \<and> m_fibers w = [] \<and> m_activeThreadCount w = 0"

definition Scheduler_hasIdleThreads :: "'a sched_scheme \<Rightarrow> bool" where
  "Scheduler_hasIdleThreads w \<longleftrightarrow> m_idleThreadCount w > 0"

section \<open>The loop of run\<close>

text \<open>The scan: the entry taken, the queue without it, and \<open>tickle_me\<close>.\<close>

fun scan :: "(nat \<Rightarrow> fiber) \<Rightarrow> int \<Rightarrow> fiber_and_thread list \<Rightarrow>
    (fiber_and_thread option \<times> fiber_and_thread list \<times> bool) res" where
  "scan fs tid [] = Inr (None, [], False)"
| "scan fs tid (x # xs) =
     (if ft_thread x \<noteq> - 1 \<and> ft_thread x \<noteq> tid then
        (case scan fs tid xs of Inl e \<Rightarrow> Inl e | Inr (ft, q, tickle_me) \<Rightarrow> Inr (ft, x # q, True))
      else if ft_fiber x = None \<and> ft_cb x = None then Inl AssertFail
      else if (case ft_fiber x of Some f \<Rightarrow> m_state (fs f) = EXEC | None \<Rightarrow> False) then
        (case scan fs tid xs of Inl e \<Rightarrow> Inl e | Inr (ft, q, tickle_me) \<Rightarrow> Inr (ft, x # q, tickle_me))
      else Inr (Some x, xs, xs \<noteq> []))"

definition run_begin :: "u32 \<Rightarrow> nat \<Rightarrow> ('a sched_scheme, event list) oper" where
  "run_begin cfg t =
     andthen (\<lambda>w.
        let w1 = w\<lparr>t_scheduler := (t_scheduler w)(t := Some 0)\<rparr> in
        if int t \<noteq> m_rootThread w1 then
          andthen (Fiber_GetThis t) (\<lambda>a w. (Inr (), tls_upd t (t_scheduler_fiber_update (\<lambda>_. Some a)) w)) w1
        else (Inr (), w1))
     (\<lambda>_. andthen (Fiber_new cfg (Some 1) 0 False) (\<lambda>a w.
        (Inr [], set_pc t Scan (w\<lparr>idle_fiber := (idle_fiber w)(t := a), cb_fiber := (cb_fiber w)(t := None)\<rparr>))))"

definition run_scan :: "nat \<Rightarrow> ('a sched_scheme, event list) oper" where
  "run_scan t w =
     (case scan (fibers w) (int t) (m_fibers w) of
        Inl e \<Rightarrow> (Inl e, w)
      | Inr (None, q, tickle_me) \<Rightarrow>
          (Inr (if tickle_me then [Tickle] else []), set_pc t (Dispatch ft_none False) (w\<lparr>m_fibers := q\<rparr>))
      | Inr (Some ft, q, tickle_me) \<Rightarrow>
          (Inr (Taken t ft # (if tickle_me then [Tickle] else [])),
           set_pc t (Dispatch ft True)
             (w\<lparr>m_fibers := q, m_activeThreadCount := m_activeThreadCount w + 1\<rparr>)))"

definition run_dispatch :: "u32 \<Rightarrow> nat \<Rightarrow> fiber_and_thread \<Rightarrow> bool \<Rightarrow> ('a sched_scheme, event list) oper" where
  "run_dispatch cfg t ft is_active w =
     (if (case ft_fiber ft of Some f \<Rightarrow> m_state (fibers w f) \<noteq> TERM_s \<and> m_state (fibers w f) \<noteq> EXCEPT | None \<Rightarrow> False) then
        andthen (Fiber_swapIn t (the (ft_fiber ft))) (\<lambda>_ w. (Inr [], set_pc t (InFiber (the (ft_fiber ft))) w)) w
      else if ft_cb ft \<noteq> None then
        andthen (\<lambda>w. case cb_fiber w t of
            Some c \<Rightarrow> andthen (Fiber_reset c (ft_cb ft)) (\<lambda>_. ret c) w
          | None \<Rightarrow> andthen (Fiber_new cfg (ft_cb ft) 0 False)
                      (\<lambda>c w. (Inr c, w\<lparr>cb_fiber := (cb_fiber w)(t := Some c)\<rparr>)) w)
          (\<lambda>c. andthen (Fiber_swapIn t c) (\<lambda>_ w. (Inr [], set_pc t InCb w))) w
      else if is_active then
        (Inr [], set_pc t Scan (w\<lparr>m_activeThreadCount := m_activeThreadCount w - 1\<rparr>))
      else if m_state (fibers w (idle_fiber w t)) = TERM_s then (Inr [], set_pc t Done w)
      else
        andthen (Fiber_swapIn t (idle_fiber w t)) (\<lambda>_ w. (Inr [], set_pc t InIdle w))
          (w\<lparr>m_idleThreadCount := m_idleThreadCount w + 1\<rparr>))"

definition run_return_fiber :: "nat \<Rightarrow> nat \<Rightarrow> ('a sched_scheme, event list) oper" where
  "run_return_fiber t f w =
     (let w1 = set_pc t Scan (w\<lparr>m_activeThreadCount := m_activeThreadCount w - 1\<rparr>) in
      if m_state (fibers w1 f) = READY then Scheduler_schedule (FiberPtr (Some f)) (- 1) w1
      else if m_state (fibers w1 f) \<noteq> TERM_s \<and> m_state (fibers w1 f) \<noteq> EXCEPT
      then (Inr [], fiber_upd f (m_state_update (\<lambda>_. HOLD)) w1)
      else (Inr [], w1))"

definition run_return_cb :: "nat \<Rightarrow> ('a sched_scheme, event list) oper" where
  "run_return_cb t w =
     (case cb_fiber w t of
        None \<Rightarrow> (Inl NullDeref, w)
      | Some c \<Rightarrow>
          let w1 = set_pc t Scan (w\<lparr>m_activeThreadCount := m_activeThreadCount w - 1\<rparr>) in
          if m_state (fibers w1 c) = READY then
            andthen (Scheduler_schedule (FiberPtr (Some c)) (- 1))
              (\<lambda>es w. (Inr es, w\<lparr>cb_fiber := (cb_fiber w)(t := None)\<rparr>)) w1
          else if m_state (fibers w1 c) = EXCEPT \<or> m_state (fibers w1 c) = TERM_s then
            andthen (Fiber_reset c None) (\<lambda>_. ret []) w1
          else
            (Inr [], (fiber_upd c (m_state_update (\<lambda>_. HOLD)) w1)\<lparr>cb_fiber := (cb_fiber w1)(t := None)\<rparr>))"

definition run_return_idle :: "nat \<Rightarrow> ('a sched_scheme, event list) oper" where
  "run_return_idle t w =
     (let w1 = set_pc t Scan (w\<lparr>m_idleThreadCount := m_idleThreadCount w - 1\<rparr>); i = idle_fiber w1 t in
      if m_state (fibers w1 i) \<noteq> TERM_s \<and> m_state (fibers w1 i) \<noteq> EXCEPT
      then (Inr [], fiber_upd i (m_state_update (\<lambda>_. HOLD)) w1)
      else (Inr [], w1))"

text \<open>The body of the idle fiber: one turn of its loop.\<close>

definition Scheduler_idle :: "nat \<Rightarrow> ('a sched_scheme, event list) oper" where
  "Scheduler_idle t w =
     (if \<not> Scheduler_stopping w then andthen (Fiber_YieldToHold t) (\<lambda>_. ret []) w
      else andthen (Fiber_MainFunc False t) (\<lambda>_. ret []) w)"

section \<open>Construction, start and stop\<close>

definition Scheduler_new :: "u32 \<Rightarrow> nat \<Rightarrow> nat \<Rightarrow> bool \<Rightarrow> string \<Rightarrow> ('a sched_scheme, event list) oper" where
  "Scheduler_new cfg t threads use_caller name w =
     (let w0 = w\<lparr>m_fibers := [], m_threads := [], m_rootFiber := None, m_name := name, m_threadIds := [],
                 m_threadCount := 0, m_activeThreadCount := 0, m_idleThreadCount := 0, m_stopping := True,
                 m_autoStop := False, m_rootThread := 0\<rparr> in
      if threads = 0 then (Inl AssertFail, w0)
      else if use_caller then
        andthen (Fiber_GetThis t) (\<lambda>_ w.
          if t_scheduler w t \<noteq> None then (Inl AssertFail, w)
          else
            andthen (Fiber_new cfg (Some 0) 0 True) (\<lambda>r w.
              (Inr [], (tls_upd t (t_scheduler_fiber_update (\<lambda>_. Some r)) w)
                \<lparr>m_rootFiber := Some r, m_rootThread := int t, m_threadIds := m_threadIds w @ [int t],
                 m_threadCount := threads - 1\<rparr>))
              (w\<lparr>t_scheduler := (t_scheduler w)(t := Some 0)\<rparr>)) w0
      else (Inr [], w0\<lparr>m_rootThread := - 1, m_threadCount := threads\<rparr>))"

definition Scheduler_delete :: "nat \<Rightarrow> ('a sched_scheme, event list) oper" where
  "Scheduler_delete t w =
     (if \<not> m_stopping w then (Inl AssertFail, w)
      else (Inr [], if t_scheduler w t = Some 0 then w\<lparr>t_scheduler := (t_scheduler w)(t := None)\<rparr> else w))"

text \<open>\<open>tids\<close> are the identifiers the system gives to the new threads, one per thread.\<close>

definition Scheduler_start :: "nat list \<Rightarrow> ('a sched_scheme, event list) oper" where
  "Scheduler_start tids w =
     (if \<not> m_stopping w then (Inr [], w)
      else
        let w1 = w\<lparr>m_stopping := False\<rparr> in
        if m_threads w1 \<noteq> [] then (Inl AssertFail, w1)
        else
          let ts = take (m_threadCount w1) tids in
          (Inr [], w1\<lparr>m_threads := ts, m_threadIds := m_threadIds w1 @ map int ts,
                      pc := (\<lambda>t. if t \<in> set ts then Begin else pc w1 t)\<rparr>))"

text \<open>\<open>stop\<close> up to the point where it waits for the threads.\<close>

definition Scheduler_stop :: "nat \<Rightarrow> ('a sched_scheme, event list) oper" where
  "Scheduler_stop t w =
     (let w1 = w\<lparr>m_autoStop := True\<rparr>;
          root_only = (case m_rootFiber w1 of
              Some r \<Rightarrow> m_threadCount w1 = 0 \<and> m_state (fibers w1 r) \<in> {TERM_s, INIT} | None \<Rightarrow> False);
          w2 = (if root_only then w1\<lparr>m_stopping := True\<rparr> else w1) in
      if root_only \<and> Scheduler_stopping w2 then (Inr [], w2)
      else if (if m_rootThread w2 \<noteq> - 1 then t_scheduler w2 t \<noteq> Some 0 else t_scheduler w2 t = Some 0)
      then (Inl AssertFail, w2)
      else
        let w3 = w2\<lparr>m_stopping := True\<rparr>;
            es = replicate (m_threadCount w3) Tickle @ (if m_rootFiber w3 \<noteq> None then [Tickle] else []) in
        case m_rootFiber w3 of
          Some r \<Rightarrow>
            if \<not> Scheduler_stopping w3 then
              andthen (Fiber_call t r)
                (\<lambda>_ w. (Inr es, if m_ctx (fibers w3 r) = Fresh CallerMainFunc then set_pc t Begin w else w)) w3
            else (Inr es, w3)
        | None \<Rightarrow> (Inr es, w3))"

definition stop_joined :: "('a sched_scheme, event list) oper" where
  "stop_joined w = (Inr [], w\<lparr>m_threads := []\<rparr>)"

text \<open>\<open>switchTo\<close> runs in a fiber on thread \<open>t\<close>.\<close>

definition Scheduler_switchTo :: "int \<Rightarrow> nat \<Rightarrow> ('a sched_scheme, event list) oper" where
  "Scheduler_switchTo thread t w =
     (if t_scheduler w t = None then (Inl AssertFail, w)
      else if t_scheduler w t = Some 0 \<and> (thread = - 1 \<or> thread = int t) then (Inr [], w)
      else
        andthen (Fiber_GetThis t) (\<lambda>cur.
          andthen (Scheduler_schedule (FiberPtr (Some cur)) thread) (\<lambda>es.
            andthen (Fiber_YieldToHold t) (\<lambda>_. ret es))) w)"

definition show_int :: "int \<Rightarrow> string" where
  "show_int i = (if i < 0 then ''-'' @ dec (nat (- i)) else dec (nat i))"

fun dump_ids :: "int list \<Rightarrow> bool \<Rightarrow> string" where
  "dump_ids [] first = []"
| "dump_ids (i # is) first = (if first then [] else '', '') @ show_int i @ dump_ids is False"

definition Scheduler_dump :: "'a sched_scheme \<Rightarrow> string" where
  "Scheduler_dump w =
     ''[Scheduler name='' @ m_name w @ '' size='' @ dec (m_threadCount w)
     @ '' active_count='' @ dec (unat (m_activeThreadCount w))
     @ '' idle_count='' @ dec (unat (m_idleThreadCount w))
     @ '' stopping='' @ (if m_stopping w then ''1'' else ''0'') @ '' ]'' @ [LF] @ ''    ''
     @ dump_ids (m_threadIds w) True"

end
