(* ===== verification/Mingo_Scheduler_Props.thy ===== *)
theory Mingo_Scheduler_Props
  imports Mingo_Scheduler
begin

text \<open>
  The scheduler as a transition system: every action of a scheduler thread, of a fiber on it, and of a
  caller is a step, in any order. Over all such runs: no task is lost, invented or run on a foreign thread, the counters
  count the threads in their sections, and a thread leaves its loop only when all work is done.
\<close>

section \<open>Actions\<close>

datatype act =
    ASchedule fiber_or_cb int
  | AScheduleRange "fiber_or_cb list"
  | ABegin nat | AScan nat | ADispatch nat | AReturn nat
  | ALeave nat leave
  | AIdle nat
  | ASwitchTo nat int
  | AStart "nat list" | AStop nat | AJoined

text \<open>When a fiber's code runs on a thread of the scheduler, and whether it is the idle fiber.\<close>

definition fiber_runs :: "nat \<Rightarrow> sched \<Rightarrow> bool" where
  "fiber_runs t w \<longleftrightarrow>
     (case pc w t of InFiber f \<Rightarrow> True | InCb \<Rightarrow> True | _ \<Rightarrow> False) \<and>
     t_fiber (tls w t) \<noteq> t_scheduler_fiber (tls w t)"

definition idle_runs :: "nat \<Rightarrow> sched \<Rightarrow> bool" where
  "idle_runs t w \<longleftrightarrow> pc w t = InIdle \<and> t_fiber (tls w t) = Some (idle_fiber w t)
     \<and> t_fiber (tls w t) \<noteq> t_scheduler_fiber (tls w t)"

definition scheduler_runs :: "nat \<Rightarrow> sched \<Rightarrow> bool" where
  "scheduler_runs t w \<longleftrightarrow> t_fiber (tls w t) = t_scheduler_fiber (tls w t)"

fun enabled :: "act \<Rightarrow> sched \<Rightarrow> bool" where
  "enabled (ASchedule fc thr) w \<longleftrightarrow> True"
| "enabled (AScheduleRange fcs) w \<longleftrightarrow> True"
| "enabled (ABegin t) w \<longleftrightarrow> pc w t = Begin"
| "enabled (AScan t) w \<longleftrightarrow> pc w t = Scan"
| "enabled (ADispatch t) w \<longleftrightarrow> (case pc w t of Dispatch ft a \<Rightarrow> True | _ \<Rightarrow> False)"
| "enabled (AReturn t) w \<longleftrightarrow> (case pc w t of InFiber f \<Rightarrow> scheduler_runs t w | InCb \<Rightarrow> scheduler_runs t w
     | InIdle \<Rightarrow> scheduler_runs t w | _ \<Rightarrow> False)"
| "enabled (ALeave t l) w \<longleftrightarrow> fiber_runs t w"
| "enabled (AIdle t) w \<longleftrightarrow> idle_runs t w"
| "enabled (ASwitchTo t thr) w \<longleftrightarrow> fiber_runs t w"
| "enabled (AStart tids) w \<longleftrightarrow> (\<forall>t \<in> set tids. pc w t = NotStarted)"
| "enabled (AStop t) w \<longleftrightarrow> pc w t = NotStarted"
| "enabled AJoined w \<longleftrightarrow> (\<forall>t \<in> set (m_threads w). pc w t = Done)"

fun do_act :: "u32 \<Rightarrow> act \<Rightarrow> (sched, event list) oper" where
  "do_act cfg (ASchedule fc thr) = Scheduler_schedule fc thr"
| "do_act cfg (AScheduleRange fcs) = Scheduler_schedule_range fcs"
| "do_act cfg (ABegin t) = run_begin cfg t"
| "do_act cfg (AScan t) = run_scan t"
| "do_act cfg (ADispatch t) =
     (\<lambda>w. case pc w t of Dispatch ft a \<Rightarrow> run_dispatch cfg t ft a w | _ \<Rightarrow> (Inr [], w))"
| "do_act cfg (AReturn t) =
     (\<lambda>w. case pc w t of InFiber f \<Rightarrow> run_return_fiber t f w | InCb \<Rightarrow> run_return_cb t w
        | InIdle \<Rightarrow> run_return_idle t w | _ \<Rightarrow> (Inr [], w))"
| "do_act cfg (ALeave t l) = andthen (leave_op l t) (\<lambda>_. ret [])"
| "do_act cfg (AIdle t) = Scheduler_idle t"
| "do_act cfg (ASwitchTo t thr) = Scheduler_switchTo thr t"
| "do_act cfg (AStart tids) = Scheduler_start tids"
| "do_act cfg (AStop t) = Scheduler_stop t"
| "do_act cfg AJoined = stop_joined"

inductive sched_run :: "u32 \<Rightarrow> sched \<Rightarrow> event list \<Rightarrow> sched \<Rightarrow> bool" for cfg w0 where
  run_nil: "sched_run cfg w0 [] w0"
| run_step: "sched_run cfg w0 es w \<Longrightarrow> enabled a w \<Longrightarrow> do_act cfg a w = (Inr fs, w') \<Longrightarrow>
    sched_run cfg w0 (es @ fs) w'"

text \<open>An executable run of a list of actions, for the examples.\<close>

fun exec_acts :: "u32 \<Rightarrow> act list \<Rightarrow> sched \<Rightarrow> (event list \<times> sched) option" where
  "exec_acts cfg [] w = Some ([], w)"
| "exec_acts cfg (a # as) w =
     (if enabled a w then
        (case do_act cfg a w of
           (Inl e, w') \<Rightarrow> None
         | (Inr fs, w') \<Rightarrow> map_option (\<lambda>(gs, v). (fs @ gs, v)) (exec_acts cfg as w'))
      else None)"

lemma exec_acts_run_from:
  "sched_run cfg w0 es w \<Longrightarrow> exec_acts cfg as w = Some (fs, w') \<Longrightarrow> sched_run cfg w0 (es @ fs) w'"
proof (induction as arbitrary: es w fs)
  case (Cons a as)
  then obtain gs v hs where "enabled a w" "do_act cfg a w = (Inr gs, v)"
    "exec_acts cfg as v = Some (hs, w')" "fs = gs @ hs"
    by (auto split: if_splits prod.splits sum.splits)
  then show ?case using Cons.IH [OF run_step [OF Cons.prems(1)]] by simp
qed simp

lemma exec_acts_run: "exec_acts cfg as w = Some (fs, w') \<Longrightarrow> sched_run cfg w fs w'"
  using exec_acts_run_from [OF run_nil] by fastforce

section \<open>Frames of the fiber operations\<close>

text \<open>The fiber operations keep every field of the scheduler.\<close>

definition same_sched :: "sched \<Rightarrow> sched \<Rightarrow> bool" where
  "same_sched w w' \<longleftrightarrow> m_fibers w' = m_fibers w \<and> pc w' = pc w \<and> m_activeThreadCount w' = m_activeThreadCount w
     \<and> m_idleThreadCount w' = m_idleThreadCount w"

lemma same_sched_refl [simp]: "same_sched w w"
  by (simp add: same_sched_def)

lemma same_sched_trans: "same_sched u v \<Longrightarrow> same_sched v w \<Longrightarrow> same_sched u w"
  by (simp add: same_sched_def)

lemma same_sched_upd [simp]:
  "same_sched w (fiber_upd a f w)" "same_sched w (tls_upd t g w)" "same_sched w (swapcontext t a b w)"
  by (simp_all add: same_sched_def fiber_upd_def tls_upd_def swapcontext_def Let_def)

lemma m_fibers_upd [simp]: "m_fibers (fiber_upd a f w) = m_fibers w" "m_fibers (tls_upd t g w) = m_fibers w"
  and pc_upd [simp]: "pc (fiber_upd a f w) = pc w" "pc (tls_upd t g w) = pc w"
  and active_upd [simp]: "m_activeThreadCount (fiber_upd a f w) = m_activeThreadCount w"
    "m_activeThreadCount (tls_upd t g w) = m_activeThreadCount w"
  and idle_upd [simp]: "m_idleThreadCount (fiber_upd a f w) = m_idleThreadCount w"
    "m_idleThreadCount (tls_upd t g w) = m_idleThreadCount w"
  by (simp_all add: fiber_upd_def tls_upd_def)

lemma set_pc_simps [simp]:
  "pc (set_pc t p w) = (pc w)(t := p)" "m_fibers (set_pc t p w) = m_fibers w"
  "m_activeThreadCount (set_pc t p w) = m_activeThreadCount w"
  "m_idleThreadCount (set_pc t p w) = m_idleThreadCount w" "fibers (set_pc t p w) = fibers w"
  by (simp_all add: set_pc_def)

text \<open>An operation that succeeds keeps the scheduler's fields.\<close>

definition frames :: "(sched, 'b) oper \<Rightarrow> bool" where
  "frames f \<longleftrightarrow> (\<forall>w x w'. f w = (Inr x, w') \<longrightarrow> same_sched w w')"

lemma framesD: "frames f \<Longrightarrow> f w = (Inr x, w') \<Longrightarrow> same_sched w w'"
  by (auto simp: frames_def)

lemma frames_andthen: "frames f \<Longrightarrow> (\<And>x. frames (g x)) \<Longrightarrow> frames (andthen f g)"
  unfolding frames_def by (blast elim!: andthen_eq_InrE intro: same_sched_trans)

lemma frames_ret [simp]: "frames (ret x)"
  by (simp add: frames_def)

lemma frames_GetThis [simp]: "frames (Fiber_GetThis t)"
  by (auto simp: frames_def fiber_op_defs Fiber_main_new_def same_sched_def fiber_upd_def tls_upd_def
      split: option.splits if_splits)

lemma frames_swapIn [simp]: "frames (Fiber_swapIn t a)"
  and frames_swapOut [simp]: "frames (Fiber_swapOut t a)"
  and frames_call [simp]: "frames (Fiber_call t a)"
  and frames_reset [simp]: "frames (Fiber_reset a cb)"
  and frames_new [simp]: "frames (Fiber_new cfg cb n c)"
  by (auto simp: frames_def Fiber_swapIn_def Fiber_swapOut_def Fiber_call_def Fiber_reset_def Fiber_new_def
      Fiber_SetThis_def same_sched_def swapcontext_def Let_def split: option.splits if_splits)

lemma frames_yield_mark [simp]: "frames (yield_mark st t)"
  and frames_body_end [simp]: "frames (body_end threw t)"
  unfolding yield_mark_def body_end_def
  by (rule frames_andthen [OF frames_GetThis]; auto simp: frames_def split: if_splits)+

lemma frames_leave [simp]: "frames (leave_op l t)"
  by (cases l) (auto simp: Fiber_YieldToReady_def Fiber_YieldToHold_def Fiber_MainFunc_def intro!: frames_andthen)

lemma frames_leave_ret [simp]: "frames (andthen (leave_op l t) (\<lambda>_. ret es))"
  by (intro frames_andthen) simp_all

lemma frames_YieldToHold [simp]: "frames (Fiber_YieldToHold t)"
  using frames_leave [of LeaveHold t] by simp

lemma frames_idle [simp]: "frames (Scheduler_idle t)"
  using framesD [OF frames_leave_ret [of LeaveHold t "[]"]] framesD [OF frames_leave_ret [of "LeaveEnd False" t "[]"]]
  by (auto simp: frames_def Scheduler_idle_def split: if_splits)

section \<open>The scan\<close>

definition foreign :: "int \<Rightarrow> fiber_and_thread \<Rightarrow> bool" where
  "foreign tid x \<longleftrightarrow> ft_thread x \<noteq> - 1 \<and> ft_thread x \<noteq> tid"

definition executing :: "(nat \<Rightarrow> fiber) \<Rightarrow> fiber_and_thread \<Rightarrow> bool" where
  "executing fs x \<longleftrightarrow> (\<exists>f. ft_fiber x = Some f \<and> m_state (fs f) = EXEC)"

definition entry_ok :: "fiber_and_thread \<Rightarrow> bool" where
  "entry_ok x \<longleftrightarrow> ft_fiber x \<noteq> None \<or> ft_cb x \<noteq> None"

lemma scan_Cons:
  "scan fs tid (x # xs) =
     (if foreign tid x \<or> entry_ok x \<and> executing fs x then
        (case scan fs tid xs of Inl e \<Rightarrow> Inl e | Inr (ft, q, tk) \<Rightarrow> Inr (ft, x # q, foreign tid x \<or> tk))
      else if \<not> entry_ok x then Inl AssertFail else Inr (Some x, xs, xs \<noteq> []))"
  by (auto simp: foreign_def executing_def entry_ok_def split: option.splits sum.splits)

lemma scan_None:
  "scan fs tid q = Inr (None, q', tk) \<Longrightarrow>
     q' = q \<and> (\<forall>x \<in> set q. foreign tid x \<or> executing fs x) \<and> (tk \<longleftrightarrow> (\<exists>x \<in> set q. foreign tid x))"
proof (induction q arbitrary: q' tk)
  case (Cons x q)
  then show ?case
    by (auto simp: scan_Cons simp del: scan.simps(2) split: if_splits sum.splits prod.splits)
qed simp

lemma scan_Some:
  "scan fs tid q = Inr (Some x, q', tk) \<Longrightarrow>
     \<exists>pre post. q = pre @ x # post \<and> q' = pre @ post
       \<and> (\<forall>y \<in> set pre. foreign tid y \<or> executing fs y)
       \<and> \<not> foreign tid x \<and> \<not> executing fs x
       \<and> (tk \<longleftrightarrow> post \<noteq> [] \<or> (\<exists>y \<in> set pre. foreign tid y))"
proof (induction q arbitrary: q' tk)
  case (Cons y q)
  show ?case
  proof (cases "foreign tid y \<or> entry_ok y \<and> executing fs y")
    case True
    then obtain q1 tk1 where s: "scan fs tid q = Inr (Some x, q1, tk1)" "q' = y # q1" "tk = (foreign tid y \<or> tk1)"
      using Cons.prems by (auto simp: scan_Cons simp del: scan.simps(2) split: sum.splits prod.splits)
    from Cons.IH [OF s(1)] obtain pre post where
      p: "q = pre @ x # post" "q1 = pre @ post" "\<forall>y \<in> set pre. foreign tid y \<or> executing fs y"
        "\<not> foreign tid x" "\<not> executing fs x" "tk1 \<longleftrightarrow> post \<noteq> [] \<or> (\<exists>y \<in> set pre. foreign tid y)"
      by blast
    show ?thesis
      by (rule exI [of _ "y # pre"], rule exI [of _ post]) (use s p True in auto)
  next
    case False
    then have "x = y" "q' = q" "tk = (q \<noteq> [])" "entry_ok y"
      using Cons.prems by (auto simp: scan_Cons simp del: scan.simps(2) split: if_splits)
    then show ?thesis using False by (intro exI [of _ "[]"] exI [of _ q]) auto
  qed
qed simp

lemma scan_total: "\<forall>x \<in> set q. entry_ok x \<Longrightarrow> \<exists>r. scan fs tid q = Inr r"
  by (induction q) (auto simp: scan_Cons simp del: scan.simps(2))

text \<open>
  The choice of the next task. When every queued entry holds a fiber or a function, the scan on a thread succeeds, takes the first
  entry that is not bound to another thread and whose fiber is not executing, leaves all other entries in their
  order, and counts the thread as active; it signals other threads when work for them may remain, that is when an entry bound to
  another thread was passed over or entries follow the taken one. When there is no such entry the queue is unchanged.
\<close>

theorem scheduler_scan_first:
  assumes "list_all entry_ok (m_fibers w)"
  shows "case run_scan t w of
      (Inl e, w') \<Rightarrow> False
    | (Inr es, w') \<Rightarrow>
        (case find (\<lambda>x. \<not> foreign (int t) x \<and> \<not> executing (fibers w) x) (m_fibers w) of
           None \<Rightarrow> m_fibers w' = m_fibers w \<and> pc w' t = Dispatch ft_none False
             \<and> m_activeThreadCount w' = m_activeThreadCount w
             \<and> (es = (if \<exists>x \<in> set (m_fibers w). foreign (int t) x then [Tickle] else []))
         | Some x \<Rightarrow> (\<exists>pre post. m_fibers w = pre @ x # post \<and> m_fibers w' = pre @ post
             \<and> pc w' t = Dispatch x True
             \<and> m_activeThreadCount w' = m_activeThreadCount w + 1
             \<and> es = Taken t x # (if post \<noteq> [] \<or> (\<exists>y \<in> set pre. foreign (int t) y) then [Tickle] else [])))"
proof -
  obtain r q tk where s: "scan (fibers w) (int t) (m_fibers w) = Inr (r, q, tk)"
    using scan_total assms by (fastforce simp: list_all_iff)
  show ?thesis
  proof (cases r)
    case None
    note n = scan_None [OF s [unfolded None]]
    have "find (\<lambda>x. \<not> foreign (int t) x \<and> \<not> executing (fibers w) x) (m_fibers w) = None"
      by (rule find_none) (use n in auto)
    then show ?thesis using s None n by (simp add: run_scan_def)
  next
    case (Some x)
    from scan_Some [OF s [unfolded Some]] obtain pre post where
      p: "m_fibers w = pre @ x # post" "q = pre @ post" "\<forall>y \<in> set pre. foreign (int t) y \<or> executing (fibers w) y"
        "\<not> foreign (int t) x" "\<not> executing (fibers w) x"
        "tk \<longleftrightarrow> post \<noteq> [] \<or> (\<exists>y \<in> set pre. foreign (int t) y)"
      by blast
    have f: "find (\<lambda>x. \<not> foreign (int t) x \<and> \<not> executing (fibers w) x) (m_fibers w) = Some x"
      unfolding p(1) by (rule find_first) (use p in auto)
    have r: "run_scan t w = (Inr (Taken t x # (if tk then [Tickle] else [])),
        set_pc t (Dispatch x True) (w\<lparr>m_fibers := q, m_activeThreadCount := m_activeThreadCount w + 1\<rparr>))"
      using s Some by (simp add: run_scan_def)
    show ?thesis
      unfolding r f prod.case sum.case option.case
      by (rule exI [of _ pre], rule exI [of _ post]) (use p in simp)
  qed
qed

definition sched_blank :: "sched" where
  "sched_blank =
     \<lparr>fibers = (\<lambda>_. \<lparr>f_id = 0, m_stacksize = 0, m_state = INIT, m_ctx = Unset, m_stack = False, m_fcb = None\<rparr>),
      f_next = 1, s_fiber_id = 0, s_fiber_count = 0,
      tls = (\<lambda>t. \<lparr>t_fiber = None, t_threadFiber = None, t_scheduler_fiber = None, running = Native t\<rparr>),
      m_fibers = [], m_threads = [], m_rootFiber = None, m_name = [], m_threadIds = [], m_threadCount = 0,
      m_activeThreadCount = 0, m_idleThreadCount = 0, m_stopping = True, m_autoStop = False, m_rootThread = 0,
      t_scheduler = (\<lambda>_. None), pc = (\<lambda>_. NotStarted), cb_fiber = (\<lambda>_. None), idle_fiber = (\<lambda>_. 0)\<rparr>"

abbreviation task :: "nat \<Rightarrow> int \<Rightarrow> fiber_and_thread" where
  "task f thr \<equiv> FiberAndThread (Function (Some f)) thr"

theorem scheduler_scan_first_witness:
  "let w = sched_blank\<lparr>m_fibers := [task 7 2, task 8 (- 1), task 9 1]\<rparr> in
   case run_scan 1 w of (Inl e, w') \<Rightarrow> False | (Inr es, w') \<Rightarrow>
     m_fibers w' = [task 7 2, task 9 1] \<and> es = [Taken 1 (task 8 (- 1)), Tickle]"
proof -
  let ?w = "sched_blank\<lparr>m_fibers := [task 7 2, task 8 (- 1), task 9 1]\<rparr>"
  have ok: "list_all entry_ok (m_fibers ?w)" by code_simp
  have f: "find (\<lambda>x. \<not> foreign (int 1) x \<and> \<not> executing (fibers ?w) x) (m_fibers ?w) = Some (task 8 (- 1))"
    by (simp add: foreign_def executing_def)
  obtain r w' where r: "run_scan 1 ?w = (r, w')" by (cases "run_scan 1 ?w")
  show ?thesis
    using scheduler_scan_first [OF ok, of 1] f r
    by (auto simp: Let_def Cons_eq_append_conv foreign_def split: sum.splits)
qed

section \<open>Effects of the actions on the queue\<close>

fun queued_of :: "event \<Rightarrow> fiber_and_thread list" where
  "queued_of (Queued ft) = [ft]"
| "queued_of _ = []"

fun taken_of :: "event \<Rightarrow> (nat \<times> fiber_and_thread) list" where
  "taken_of (Taken t ft) = [(t, ft)]"
| "taken_of _ = []"

definition queued :: "event list \<Rightarrow> fiber_and_thread list" where
  "queued es = concat (map queued_of es)"

definition taken :: "event list \<Rightarrow> (nat \<times> fiber_and_thread) list" where
  "taken es = concat (map taken_of es)"

lemma queued_simps [simp]:
  "queued [] = []" "queued (e # es) = queued_of e @ queued es" "queued (es @ fs) = queued es @ queued fs"
  "queued (replicate n Tickle) = []"
  by (simp_all add: queued_def concat_eq_Nil_conv)

lemma taken_simps [simp]:
  "taken [] = []" "taken (e # es) = taken_of e @ taken es" "taken (es @ fs) = taken es @ taken fs"
  "taken (replicate n Tickle) = []"
  by (simp_all add: taken_def concat_eq_Nil_conv)

text \<open>An action other than a scan only appends, and what it appends is an entry.\<close>

definition pushes :: "sched \<Rightarrow> event list \<Rightarrow> sched \<Rightarrow> bool" where
  "pushes w es w' \<longleftrightarrow> m_fibers w' = m_fibers w @ queued es \<and> taken es = [] \<and> list_all entry_ok (queued es)"

lemma pushes_same: "same_sched w w' \<Longrightarrow> pushes w [] w'"
  by (simp add: pushes_def same_sched_def)

lemma scheduleNoLock_pushes:
  "scheduleNoLock fc thr w = (n, es, w') \<Longrightarrow> pushes w es w' \<and> pc w' = pc w
     \<and> m_activeThreadCount w' = m_activeThreadCount w \<and> m_idleThreadCount w' = m_idleThreadCount w"
  by (auto simp: scheduleNoLock_def pushes_def entry_ok_def Let_def split: if_splits)

definition quiet :: "sched \<Rightarrow> sched \<Rightarrow> bool" where
  "quiet w w' \<longleftrightarrow> pc w' = pc w \<and> m_activeThreadCount w' = m_activeThreadCount w
     \<and> m_idleThreadCount w' = m_idleThreadCount w"

lemma quiet_same: "same_sched w w' \<Longrightarrow> quiet w w'"
  by (simp add: quiet_def same_sched_def)

lemma schedule_effect:
  "Scheduler_schedule fc thr w = (Inr es, w') \<Longrightarrow> pushes w es w' \<and> quiet w w'"
  using scheduleNoLock_pushes
  by (fastforce simp: Scheduler_schedule_def pushes_def quiet_def split: prod.splits)

lemma schedule_loop_effect:
  "schedule_loop fcs n es w = (n', es', w') \<Longrightarrow>
     \<exists>fs. es' = es @ fs \<and> pushes w fs w' \<and> quiet w w'"
proof (induction fcs arbitrary: n es w)
  case Nil
  then show ?case by (auto simp: pushes_def quiet_def)
next
  case (Cons fc fcs)
  obtain k es1 w1 where s: "scheduleNoLock fc (- 1) w = (k, es1, w1)" by (metis prod_cases3)
  with Cons.prems have "schedule_loop fcs (k \<or> n) (es @ es1) w1 = (n', es', w')" by simp
  from Cons.IH [OF this] obtain fs where "es' = es @ es1 @ fs" "pushes w1 fs w'" "quiet w1 w'"
    by auto
  then show ?case using scheduleNoLock_pushes [OF s] by (auto simp: pushes_def quiet_def)
qed

lemma schedule_range_effect:
  "Scheduler_schedule_range fcs w = (Inr es, w') \<Longrightarrow> pushes w es w' \<and> quiet w w'"
  using schedule_loop_effect [of fcs False "[]" w]
  by (fastforce simp: Scheduler_schedule_range_def pushes_def split: prod.splits)

lemma frames_effect: "frames f \<Longrightarrow> f w = (Inr (), w') \<Longrightarrow> pushes w [] w' \<and> quiet w w'"
  by (simp add: framesD pushes_same quiet_same)

lemma switchTo_effect:
  assumes "Scheduler_switchTo thr t w = (Inr es, w')"
  shows "pushes w es w' \<and> quiet w w'"
proof (cases "t_scheduler w t = Some 0 \<and> (thr = - 1 \<or> thr = int t)")
  case True
  then show ?thesis using assms by (simp add: Scheduler_switchTo_def pushes_def quiet_def)
next
  case False
  then have "andthen (Fiber_GetThis t) (\<lambda>cur. andthen (Scheduler_schedule (FiberPtr (Some cur)) thr) (\<lambda>es.
      andthen (Fiber_YieldToHold t) (\<lambda>_. ret es))) w = (Inr es, w')"
    using assms by (auto simp: Scheduler_switchTo_def split: if_splits)
  then obtain cur w1 w2 es1 u w3 where
    s: "Fiber_GetThis t w = (Inr cur, w1)" "Scheduler_schedule (FiberPtr (Some cur)) thr w1 = (Inr es1, w2)"
      "Fiber_YieldToHold t w2 = (Inr u, w3)" "ret es1 w3 = (Inr es, w')"
    by (elim andthen_eq_InrE)
  have "same_sched w w1" "same_sched w2 w3"
    using framesD [OF frames_GetThis s(1)] framesD [OF frames_YieldToHold s(3)] by auto
  then show ?thesis
    using schedule_effect [OF s(2)] s(4) by (auto simp: pushes_def quiet_def same_sched_def)
qed

section \<open>Effects of the actions on the counters\<close>

text \<open>The sections of the loop in which a thread is counted as active and as idle.\<close>

fun active_pc :: "pc \<Rightarrow> bool" where
  "active_pc (Dispatch ft a) = a"
| "active_pc (InFiber f) = True"
| "active_pc InCb = True"
| "active_pc _ = False"

definition idle_pc :: "pc \<Rightarrow> bool" where
  "idle_pc p \<longleftrightarrow> p = InIdle"

fun pc_ok :: "pc \<Rightarrow> bool" where
  "pc_ok (Dispatch ft a) \<longleftrightarrow> a \<or> \<not> entry_ok ft"
| "pc_ok _ \<longleftrightarrow> True"

definition moves :: "nat \<Rightarrow> pc \<Rightarrow> sched \<Rightarrow> sched \<Rightarrow> bool" where
  "moves t p w w' \<longleftrightarrow> pc w' = (pc w)(t := p) \<and> pc_ok p
     \<and> m_activeThreadCount w' = m_activeThreadCount w + of_bool (active_pc p) - of_bool (active_pc (pc w t))
     \<and> m_idleThreadCount w' = m_idleThreadCount w + of_bool (idle_pc p) - of_bool (idle_pc (pc w t))"

lemma moves_frame: "same_sched u v \<Longrightarrow> same_sched x y \<Longrightarrow> moves t p v x \<Longrightarrow> moves t p u y"
  by (simp add: moves_def same_sched_def)

lemma run_begin_effect:
  assumes "pc w t = Begin" and "run_begin cfg t w = (Inr es, w')"
  shows "pushes w es w' \<and> moves t Scan w w'"
proof -
  obtain u w1 a w2 where
    s: "(let w1 = w\<lparr>t_scheduler := (t_scheduler w)(t := Some 0)\<rparr> in
        if int t \<noteq> m_rootThread w1 then
          andthen (Fiber_GetThis t) (\<lambda>a w. (Inr (), tls_upd t (t_scheduler_fiber_update (\<lambda>_. Some a)) w)) w1
        else (Inr (), w1)) = (Inr u, w1)"
      "Fiber_new cfg (Some 1) 0 False w1 = (Inr a, w2)" "es = []"
      "w' = set_pc t Scan (w2\<lparr>idle_fiber := (idle_fiber w2)(t := a), cb_fiber := (cb_fiber w2)(t := None)\<rparr>)"
    using assms(2) unfolding run_begin_def by (auto elim!: andthen_eq_InrE)
  have "same_sched (w\<lparr>t_scheduler := (t_scheduler w)(t := Some 0)\<rparr>) w1"
    using s(1)
    by (auto simp: Let_def split: if_splits elim!: andthen_eq_InrE
        dest!: framesD [OF frames_GetThis] intro: same_sched_trans)
  then have "same_sched w w2"
    using framesD [OF frames_new s(2)] by (auto simp: same_sched_def)
  then show ?thesis
    using s(3,4) assms(1) by (auto simp: pushes_def moves_def same_sched_def idle_pc_def)
qed

lemma run_scan_moves:
  assumes "pc w t = Scan" and "run_scan t w = (Inr es, w')"
  shows "moves t (pc w' t) w w'"
proof -
  obtain r q tk where s: "scan (fibers w) (int t) (m_fibers w) = Inr (r, q, tk)"
    using assms(2) by (auto simp: run_scan_def split: sum.splits)
  show ?thesis
    using assms s by (cases r) (auto simp: run_scan_def moves_def idle_pc_def ft_none_def entry_ok_def)
qed

lemma swapIn_set_pc_effect:
  assumes "andthen (Fiber_swapIn t f) (\<lambda>_ w. (Inr es, set_pc t p w)) w = (Inr es', w')"
  shows "es' = es \<and> (\<exists>v. same_sched w v \<and> w' = set_pc t p v)"
  using assms by (auto elim!: andthen_eq_InrE dest: framesD [OF frames_swapIn])

text \<open>The callback fiber a dispatch uses.\<close>

definition dispatch_cb :: "u32 \<Rightarrow> nat \<Rightarrow> nat option \<Rightarrow> (sched, nat) oper" where
  "dispatch_cb cfg t cb w =
     (case cb_fiber w t of
        Some c \<Rightarrow> andthen (Fiber_reset c cb) (\<lambda>_. ret c) w
      | None \<Rightarrow> andthen (Fiber_new cfg cb 0 False)
                  (\<lambda>c w. (Inr c, w\<lparr>cb_fiber := (cb_fiber w)(t := Some c)\<rparr>)) w)"

lemma frames_dispatch_cb: "frames (dispatch_cb cfg t cb)"
proof -
  have "same_sched w w'" if "dispatch_cb cfg t cb w = (Inr c, w')" for w c w'
    using that unfolding dispatch_cb_def
    by (cases "cb_fiber w t")
      (auto elim!: andthen_eq_InrE dest!: framesD [OF frames_reset] framesD [OF frames_new] simp: same_sched_def)
  then show ?thesis by (auto simp: frames_def)
qed

lemma run_dispatch_effect:
  assumes pc: "pc w t = Dispatch ft a" and ok: "pc_ok (Dispatch ft a)"
    and run: "run_dispatch cfg t ft a w = (Inr es, w')"
  shows "pushes w es w' \<and> moves t (pc w' t) w w'"
proof -
  let ?fiber = "case ft_fiber ft of Some f \<Rightarrow> m_state (fibers w f) \<noteq> TERM_s \<and> m_state (fibers w f) \<noteq> EXCEPT
    | None \<Rightarrow> False"
  note defs = pushes_def moves_def same_sched_def idle_pc_def
  consider (fiber) ?fiber | (cb) "\<not> ?fiber" "ft_cb ft \<noteq> None" | (skip) "\<not> ?fiber" "ft_cb ft = None" "a"
    | (idle) "\<not> ?fiber" "ft_cb ft = None" "\<not> a" by blast
  then show ?thesis
  proof cases
    case fiber
    then have "a" using ok by (auto simp: entry_ok_def split: option.splits)
    moreover have "andthen (Fiber_swapIn t (the (ft_fiber ft)))
        (\<lambda>_ w. (Inr [], set_pc t (InFiber (the (ft_fiber ft))) w)) w = (Inr es, w')"
      using run fiber by (simp add: run_dispatch_def)
    ultimately show ?thesis using swapIn_set_pc_effect pc by (fastforce simp: defs)
  next
    case cb
    then have "a" using ok by (auto simp: entry_ok_def)
    have "andthen (dispatch_cb cfg t (ft_cb ft)) (\<lambda>c. andthen (Fiber_swapIn t c) (\<lambda>_ w. (Inr [], set_pc t InCb w))) w
        = (Inr es, w')"
      using run cb unfolding run_dispatch_def dispatch_cb_def by simp
    then obtain c w1 where c: "dispatch_cb cfg t (ft_cb ft) w = (Inr c, w1)"
        "andthen (Fiber_swapIn t c) (\<lambda>_ w. (Inr [], set_pc t InCb w)) w1 = (Inr es, w')"
      by (rule andthen_eq_InrE)
    show ?thesis
      using framesD [OF frames_dispatch_cb c(1)] swapIn_set_pc_effect [OF c(2)] pc \<open>a\<close> by (auto simp: defs)
  next
    case skip
    then show ?thesis using run pc by (auto simp: run_dispatch_def defs)
  next
    case idle
    show ?thesis
    proof (cases "m_state (fibers w (idle_fiber w t)) = TERM_s")
      case True
      then show ?thesis using run idle pc by (auto simp: run_dispatch_def defs)
    next
      case False
      then have "andthen (Fiber_swapIn t (idle_fiber w t)) (\<lambda>_ w. (Inr [], set_pc t InIdle w))
          (w\<lparr>m_idleThreadCount := m_idleThreadCount w + 1\<rparr>) = (Inr es, w')"
        using run idle by (simp add: run_dispatch_def)
      from swapIn_set_pc_effect [OF this] show ?thesis using pc idle by (auto simp: defs)
    qed
  qed
qed

lemma run_return_fiber_effect:
  assumes "pc w t = InFiber f" and "run_return_fiber t f w = (Inr es, w')"
  shows "pushes w es w' \<and> moves t (pc w' t) w w'"
proof -
  let ?w1 = "set_pc t Scan (w\<lparr>m_activeThreadCount := m_activeThreadCount w - 1\<rparr>)"
  have m: "moves t Scan w ?w1" using assms(1) by (simp add: moves_def idle_pc_def)
  show ?thesis
  proof (cases "m_state (fibers w f) = READY")
    case True
    then have "Scheduler_schedule (FiberPtr (Some f)) (- 1) ?w1 = (Inr es, w')"
      using assms(2) by (simp add: run_return_fiber_def Let_def)
    from schedule_effect [OF this] show ?thesis using m by (auto simp: pushes_def quiet_def moves_def)
  next
    case False
    then show ?thesis
      using assms m by (auto simp: run_return_fiber_def Let_def pushes_def moves_def split: if_splits)
  qed
qed

lemma run_return_cb_effect:
  assumes "pc w t = InCb" and "run_return_cb t w = (Inr es, w')"
  shows "pushes w es w' \<and> moves t (pc w' t) w w'"
proof -
  let ?w1 = "set_pc t Scan (w\<lparr>m_activeThreadCount := m_activeThreadCount w - 1\<rparr>)"
  have m: "moves t Scan w ?w1" using assms(1) by (simp add: moves_def idle_pc_def)
  obtain c where c: "cb_fiber w t = Some c"
    using assms(2) by (cases "cb_fiber w t") (auto simp: run_return_cb_def)
  consider (ready) "m_state (fibers w c) = READY"
    | (ended) "m_state (fibers w c) \<noteq> READY" "m_state (fibers w c) = EXCEPT \<or> m_state (fibers w c) = TERM_s"
    | (other) "m_state (fibers w c) \<noteq> READY" "\<not> (m_state (fibers w c) = EXCEPT \<or> m_state (fibers w c) = TERM_s)" by blast
  then show ?thesis
  proof cases
    case ready
    then obtain w2 where "Scheduler_schedule (FiberPtr (Some c)) (- 1) ?w1 = (Inr es, w2)"
        "w' = w2\<lparr>cb_fiber := (cb_fiber w2)(t := None)\<rparr>"
      using assms(2) c by (auto simp: run_return_cb_def Let_def elim!: andthen_eq_InrE)
    then show ?thesis using schedule_effect m by (fastforce simp: pushes_def quiet_def moves_def)
  next
    case ended
    then have "es = []" "Fiber_reset c None ?w1 = (Inr (), w')"
      using assms(2) c by (auto simp: run_return_cb_def Let_def elim!: andthen_eq_InrE)
    then show ?thesis
      using framesD [OF frames_reset, of c None ?w1 "()" w'] m by (auto simp: pushes_def moves_def same_sched_def)
  next
    case other
    then show ?thesis using assms m c by (auto simp: run_return_cb_def Let_def pushes_def moves_def)
  qed
qed

lemma run_return_idle_effect:
  assumes "pc w t = InIdle" and "run_return_idle t w = (Inr es, w')"
  shows "pushes w es w' \<and> moves t (pc w' t) w w'"
  using assms by (auto simp: run_return_idle_def Let_def pushes_def moves_def idle_pc_def split: if_splits)

section \<open>The counters\<close>

definition cnt_inv :: "sched \<Rightarrow> bool" where
  "cnt_inv w \<longleftrightarrow> finite {t. pc w t \<noteq> NotStarted} \<and> (\<forall>t. pc_ok (pc w t))
     \<and> m_activeThreadCount w = of_nat (card {t. active_pc (pc w t)})
     \<and> m_idleThreadCount w = of_nat (card {t. idle_pc (pc w t)})"

lemma card_pc_upd:
  assumes "finite {t. g t \<noteq> NotStarted}" and "\<not> P NotStarted"
  shows "(of_nat (card {u. P ((g(t := p)) u)}) :: u64) =
     of_nat (card {u. P (g u)}) + of_bool (P p) - of_bool (P (g t))"
proof -
  let ?A = "{u. P (g u)}"
  have fin: "finite ?A" by (rule finite_subset [OF _ assms(1)]) (use assms(2) in \<open>auto intro: ccontr\<close>)
  have eq: "{u. P ((g(t := p)) u)} = (if P p then insert t (?A - {t}) else ?A - {t})" by auto
  show ?thesis
  proof (cases "P (g t)")
    case True
    then have "card ?A = Suc (card (?A - {t}))" using fin by (metis card_Suc_Diff1 mem_Collect_eq)
    moreover have "insert t ?A = ?A" using True by auto
    ultimately show ?thesis unfolding eq using True fin by simp
  next
    case False
    then have "?A - {t} = ?A" by auto
    then show ?thesis unfolding eq using False fin by simp
  qed
qed

lemma cnt_inv_moves:
  assumes "moves t p w w'" and "cnt_inv w"
  shows "cnt_inv w'"
proof -
  have fin: "finite {t. pc w t \<noteq> NotStarted}" using assms(2) by (simp add: cnt_inv_def)
  have "{u. pc w' u \<noteq> NotStarted} \<subseteq> insert t {u. pc w u \<noteq> NotStarted}"
    using assms(1) by (auto simp: moves_def)
  then have "finite {u. pc w' u \<noteq> NotStarted}" using fin finite_subset by blast
  moreover have "\<not> idle_pc NotStarted" "\<not> active_pc NotStarted" by (simp_all add: idle_pc_def)
  ultimately show ?thesis
    using assms card_pc_upd [OF fin, of active_pc t p] card_pc_upd [OF fin, of idle_pc t p]
    by (auto simp: cnt_inv_def moves_def)
qed

lemma cnt_inv_quiet: "quiet w w' \<Longrightarrow> cnt_inv w \<Longrightarrow> cnt_inv w'"
  by (simp add: cnt_inv_def quiet_def)

lemma start_effect:
  assumes "Scheduler_start tids w = (Inr es, w')" and "\<forall>t \<in> set tids. pc w t = NotStarted"
  shows "pushes w es w' \<and> (cnt_inv w \<longrightarrow> cnt_inv w')"
proof (cases "m_stopping w")
  case False
  then show ?thesis using assms(1) by (simp add: Scheduler_start_def pushes_def)
next
  case True
  let ?ts = "take (m_threadCount w) tids"
  have "m_threads w = []" using assms(1) True by (cases "m_threads w") (simp_all add: Scheduler_start_def Let_def)
  then have w': "es = []" "w' = w\<lparr>m_stopping := False, m_threads := ?ts, m_threadIds := m_threadIds w @ map int ?ts,
      pc := (\<lambda>t. if t \<in> set ?ts then Begin else pc w t)\<rparr>"
    using assms(1) True by (auto simp: Scheduler_start_def Let_def cong: if_cong)
  have ns: "pc w t = NotStarted" if "t \<in> set ?ts" for t using that assms(2) in_set_takeD by fast
  have "{t. active_pc (pc w' t)} = {t. active_pc (pc w t)}" "{t. idle_pc (pc w' t)} = {t. idle_pc (pc w t)}"
    using ns by (auto simp: w' idle_pc_def split: if_splits)
  moreover have "{t. pc w' t \<noteq> NotStarted} = {t. pc w t \<noteq> NotStarted} \<union> set ?ts"
    using ns by (auto simp: w' split: if_splits)
  ultimately show ?thesis using w' by (auto simp: cnt_inv_def pushes_def)
qed

lemma stop_effect:
  assumes "Scheduler_stop t w = (Inr es, w')" and "pc w t = NotStarted"
  shows "pushes w es w' \<and> (cnt_inv w \<longrightarrow> cnt_inv w')"
proof -
  have eff: "queued es = [] \<and> taken es = [] \<and> m_fibers w' = m_fibers w
      \<and> m_activeThreadCount w' = m_activeThreadCount w \<and> m_idleThreadCount w' = m_idleThreadCount w
      \<and> (pc w' = pc w \<or> pc w' = (pc w)(t := Begin))"
  proof (cases "m_rootFiber w")
    case None
    then show ?thesis using assms(1)
      by (auto simp: Scheduler_stop_def Let_def split: if_splits)
  next
    case (Some r)
    then show ?thesis using assms(1)
      by (auto simp: Scheduler_stop_def Let_def same_sched_def split: if_splits elim!: andthen_eq_InrE
          dest!: framesD [OF frames_call])
  qed
  then have "quiet w w' \<or> moves t Begin w w'"
    using assms(2) by (auto simp: quiet_def moves_def idle_pc_def)
  then show ?thesis using eff cnt_inv_quiet cnt_inv_moves by (auto simp: pushes_def)
qed

text \<open>Every step keeps the counters, and every step that is not a scan appends to the queue.\<close>

lemma step_effect:
  assumes "enabled a w" and "do_act cfg a w = (Inr es, w')" and "cnt_inv w"
  shows "(\<forall>t. a \<noteq> AScan t) \<longrightarrow> pushes w es w'" and "cnt_inv w'"
proof -
  note ok = assms(3) [unfolded cnt_inv_def]
  have "(pushes w es w' \<or> (\<exists>t. a = AScan t)) \<and> cnt_inv w'"
  proof (cases a)
    case (ADispatch t)
    then obtain ft b where pc: "pc w t = Dispatch ft b" using assms(1) by (auto split: pc.splits)
    moreover have "pc_ok (pc w t)" using ok by blast
    ultimately show ?thesis
      using assms(2,3) ADispatch run_dispatch_effect [of w t ft b cfg es w'] cnt_inv_moves by auto
  next
    case (AReturn t)
    consider (fiber) f where "pc w t = InFiber f" | (cb) "pc w t = InCb" | (idle) "pc w t = InIdle"
      using assms(1) AReturn by (auto split: pc.splits)
    then have "pushes w es w' \<and> moves t (pc w' t) w w'"
      using assms(2) AReturn run_return_fiber_effect run_return_cb_effect run_return_idle_effect
      by cases auto
    then show ?thesis using assms(3) cnt_inv_moves by blast
  next
    case (AScan t)
    then show ?thesis using assms run_scan_moves cnt_inv_moves by fastforce
  next
    case (ALeave t l)
    then have "frames (do_act cfg a)" "es = []" using assms(2) by (auto elim!: andthen_eq_InrE)
    then show ?thesis using framesD [of "do_act cfg a" w es w'] assms(2) pushes_same cnt_inv_quiet [OF quiet_same] assms(3) by auto
  next
    case (AIdle t)
    then have "frames (do_act cfg a)" "es = []" using assms(2)
      by (auto simp: Scheduler_idle_def split: if_splits elim!: andthen_eq_InrE)
    then show ?thesis using framesD [of "do_act cfg a" w es w'] assms(2) pushes_same cnt_inv_quiet [OF quiet_same] assms(3) by auto
  next
    case (ABegin t)
    then show ?thesis using assms run_begin_effect [of w t cfg es w'] cnt_inv_moves by auto
  next
    case (ASchedule fc thr)
    then show ?thesis using assms schedule_effect [of fc thr w es w'] cnt_inv_quiet by auto
  next
    case (AScheduleRange fcs)
    then show ?thesis using assms schedule_range_effect [of fcs w es w'] cnt_inv_quiet by auto
  next
    case (ASwitchTo t thr)
    then show ?thesis using assms switchTo_effect [of thr t w es w'] cnt_inv_quiet by auto
  next
    case (AStart tids)
    then show ?thesis using assms start_effect [of tids w es w'] by auto
  next
    case (AStop t)
    then show ?thesis using assms stop_effect [of t w es w'] by auto
  next
    case AJoined
    then show ?thesis using assms by (auto simp: stop_joined_def pushes_def cnt_inv_def)
  qed
  then show "(\<forall>t. a \<noteq> AScan t) \<longrightarrow> pushes w es w'" "cnt_inv w'" by auto
qed

section \<open>Runs\<close>

lemma Scheduler_new_init:
  assumes "Scheduler_new cfg t n use_caller name w = (Inr es, w0)" and "\<forall>t. pc w t = NotStarted"
  shows "cnt_inv w0 \<and> m_fibers w0 = []"
proof -
  have "pc w0 = pc w \<and> m_fibers w0 = [] \<and> m_activeThreadCount w0 = 0 \<and> m_idleThreadCount w0 = 0"
  proof (cases use_caller)
    case True
    let ?w = "w\<lparr>m_fibers := [], m_threads := [], m_rootFiber := None, m_name := name, m_threadIds := [],
                 m_threadCount := 0, m_activeThreadCount := 0, m_idleThreadCount := 0, m_stopping := True,
                 m_autoStop := False, m_rootThread := 0\<rparr>"
    obtain a w1 r w2 where "Fiber_GetThis t ?w = (Inr a, w1)"
      "Fiber_new cfg (Some 0) 0 True (w1\<lparr>t_scheduler := (t_scheduler w1)(t := Some 0)\<rparr>) = (Inr r, w2)"
      "w0 = (tls_upd t (t_scheduler_fiber_update (\<lambda>_. Some r)) w2)\<lparr>m_rootFiber := Some r, m_rootThread := int t,
          m_threadIds := m_threadIds w2 @ [int t], m_threadCount := n - 1\<rparr>"
      using assms(1) True by (auto simp: Scheduler_new_def Let_def split: if_splits elim!: andthen_eq_InrE)
    then show ?thesis
      using framesD [OF frames_GetThis, of t ?w a w1] framesD [OF frames_new, of cfg "Some 0" 0 True _ r w2]
      by (auto simp: same_sched_def)
  next
    case False
    then show ?thesis using assms(1) by (auto simp: Scheduler_new_def Let_def split: if_splits)
  qed
  then show ?thesis using assms(2) by (simp add: cnt_inv_def idle_pc_def)
qed

lemma sched_run_cnt: "sched_run cfg w0 es w \<Longrightarrow> cnt_inv w0 \<Longrightarrow> cnt_inv w"
  by (induction rule: sched_run.induct) (auto dest: step_effect(2))

text \<open>A task that any thread may run at once.\<close>

definition plain :: "fiber_and_thread \<Rightarrow> bool" where
  "plain x \<longleftrightarrow> ft_thread x = - 1 \<and> ft_fiber x = None"

definition conserved :: "event list \<Rightarrow> sched \<Rightarrow> bool" where
  "conserved es w \<longleftrightarrow>
     mset (queued es) = mset (map snd (taken es)) + mset (m_fibers w)
   \<and> list_all (\<lambda>(t, ft). ft_thread ft = - 1 \<or> ft_thread ft = int t) (taken es)
   \<and> list_all entry_ok (m_fibers w)
   \<and> (list_all plain (queued es) \<longrightarrow> queued es = map snd (taken es) @ m_fibers w)"

lemma conserved_pushes: "conserved es w \<Longrightarrow> pushes w fs w' \<Longrightarrow> conserved (es @ fs) w'"
  by (auto simp: conserved_def pushes_def)

lemma conserved_scan:
  assumes "conserved es w" and "run_scan t w = (Inr fs, w')"
  shows "conserved (es @ fs) w'"
proof -
  obtain r q tk where s: "scan (fibers w) (int t) (m_fibers w) = Inr (r, q, tk)"
    using assms(2) by (auto simp: run_scan_def split: sum.splits)
  show ?thesis
  proof (cases r)
    case None
    then have "m_fibers w' = m_fibers w" "queued fs = []" "taken fs = []"
      using assms(2) s scan_None [OF s [unfolded None]] by (auto simp: run_scan_def split: if_splits)
    then show ?thesis using assms(1) by (simp add: conserved_def)
  next
    case (Some x)
    from scan_Some [OF s [unfolded Some]] obtain pre post where
      p: "m_fibers w = pre @ x # post" "q = pre @ post" "\<forall>y \<in> set pre. foreign (int t) y \<or> executing (fibers w) y"
        "\<not> foreign (int t) x" by blast
    have w': "m_fibers w' = pre @ post" "queued fs = []" "taken fs = [(t, x)]"
      using assms(2) s Some p(2) by (auto simp: run_scan_def split: if_splits)
    have "pre = []" if "list_all plain (m_fibers w)"
      using that p(1,3) by (cases pre) (auto simp: plain_def foreign_def executing_def)
    moreover have "list_all plain (m_fibers w)" if "list_all plain (queued es)"
      using that assms(1) by (auto simp: conserved_def)
    ultimately have fifo: "list_all plain (queued es) \<Longrightarrow> queued es = map snd (taken es) @ x # post \<and> pre = []"
      using assms(1) p(1) by (auto simp: conserved_def)
    have "mset (queued es) = mset (map snd (taken es)) + mset (m_fibers w)"
      and "list_all (\<lambda>(t, ft). ft_thread ft = - 1 \<or> ft_thread ft = int t) (taken es)"
      and "list_all entry_ok (m_fibers w)"
      using assms(1) unfolding conserved_def by blast+
    then show ?thesis
      using p(1,4) w' fifo unfolding conserved_def foreign_def by simp
  qed
qed

lemma sched_run_conserved:
  assumes "sched_run cfg w0 es w" and "cnt_inv w0" and "m_fibers w0 = []"
  shows "conserved es w"
  using assms(1)
proof (induction rule: sched_run.induct)
  case run_nil
  then show ?case using assms(3) by (simp add: conserved_def)
next
  case (run_step es w a fs w')
  show ?case
  proof (cases "\<exists>t. a = AScan t")
    case True
    then show ?thesis using run_step conserved_scan by auto
  next
    case False
    then show ?thesis
      using run_step step_effect(1) sched_run_cnt [OF run_step(1) assms(2)] conserved_pushes by blast
  qed
qed


text \<open>
  C19: The counters count. In every state a scheduler can reach, the number of active threads is the number of threads between
  taking a task and giving control back from it, and the number of idle threads is the number of threads inside their
  idle fiber, so neither counter is ever decremented below zero.
\<close>

theorem scheduler_counters_exact:
  assumes "Scheduler_new cfg t n use_caller name w00 = (Inr es0, w0)" and "\<forall>t. pc w00 t = NotStarted"
    and "sched_run cfg w0 es w"
  shows "m_activeThreadCount w = of_nat (card {t. active_pc (pc w t)})
    \<and> m_idleThreadCount w = of_nat (card {t. pc w t = InIdle})
    \<and> finite {t. active_pc (pc w t) \<or> pc w t = InIdle}"
proof -
  have c: "cnt_inv w" using sched_run_cnt [OF assms(3)] Scheduler_new_init [OF assms(1,2)] by blast
  have "{t. active_pc (pc w t) \<or> pc w t = InIdle} \<subseteq> {t. pc w t \<noteq> NotStarted}" by auto
  then have "finite {t. active_pc (pc w t) \<or> pc w t = InIdle}"
    using c finite_subset unfolding cnt_inv_def by blast
  then show ?thesis using c by (simp add: cnt_inv_def idle_pc_def)
qed

lemma idle_TERM_stopping:
  assumes "idle_runs t w" and "Scheduler_idle t w = (Inr es, w')" and "m_state (fibers w' (idle_fiber w t)) = TERM_s"
  shows "Scheduler_stopping w"
proof (rule ccontr)
  assume "\<not> Scheduler_stopping w"
  then have "Fiber_YieldToHold t w = (Inr (), w')"
    using assms(2) by (auto simp: Scheduler_idle_def elim!: andthen_eq_InrE)
  then have "m_state (fibers w' (idle_fiber w t)) = HOLD"
    using assms(1) by (auto simp: idle_runs_def fiber_op_defs split: option.splits if_splits)
  then show False using assms(3) by simp
qed


section \<open>Concrete runs\<close>

definition sched_demo :: sched where
  "sched_demo = snd (Scheduler_new 1024 0 2 False ''s'' sched_blank)"

text \<open>Evaluation of concrete runs.\<close>

lemmas run_eval =
  fiber_op_defs Scheduler_new_def Scheduler_start_def run_begin_def run_scan_def run_dispatch_def run_return_fiber_def
  run_return_cb_def run_return_idle_def Scheduler_idle_def Scheduler_schedule_def scheduleNoLock_def Fiber_new_def
  Fiber_main_new_def Fiber_reset_def Scheduler_stop_def Scheduler_stopping_def set_pc_def fiber_upd_def tls_upd_def
  ft_none_def ret_def fiber_runs_def scheduler_runs_def idle_runs_def sched_demo_def sched_blank_def

lemma sched_demo_new: "\<exists>es. Scheduler_new 1024 0 2 False ''s'' sched_blank = (Inr es, sched_demo)"
  by (simp add: sched_demo_def Scheduler_new_def Let_def)

lemma sched_blank_pc: "\<forall>t. pc sched_blank t = NotStarted"
  by (simp add: sched_blank_def)

text \<open>Two threads start; a task bound to thread 2 and a free task are queued; thread 1 takes the free one.\<close>

definition acts_demo :: "act list" where
  "acts_demo = [AStart [1, 2], ABegin 1, ABegin 2, ASchedule (Function (Some 7)) 2, ASchedule (Function (Some 8)) (- 1),
     AScan 1, ADispatch 1]"

lemma acts_demo_exec:
  "case exec_acts 1024 acts_demo sched_demo of
     None \<Rightarrow> False
   | Some (es, w) \<Rightarrow> queued es = [task 7 2, task 8 (- 1)] \<and> m_fibers w = [task 7 2]
       \<and> pc w 1 = InCb \<and> m_activeThreadCount w = 1"
  by (simp add: run_eval acts_demo_def)

lemma acts_demo_run:
  obtains es w where "sched_run 1024 sched_demo es w" "queued es = [task 7 2, task 8 (- 1)]"
    "m_fibers w = [task 7 2]" "pc w 1 = InCb" "m_activeThreadCount w = 1"
proof -
  obtain es w where "exec_acts 1024 acts_demo sched_demo = Some (es, w)" "queued es = [task 7 2, task 8 (- 1)]"
    "m_fibers w = [task 7 2]" "pc w 1 = InCb" "m_activeThreadCount w = 1"
    using acts_demo_exec by (cases "exec_acts 1024 acts_demo sched_demo") auto
  then show thesis using that exec_acts_run by blast
qed


theorem scheduler_counters_exact_witness:
  "\<exists>es w. sched_run 1024 sched_demo es w \<and> pc w 1 = InCb \<and>
     m_activeThreadCount w = 1 \<and> (of_nat (card {t. active_pc (pc w t)}) :: u64) = 1"
proof -
  obtain es0 where n: "Scheduler_new 1024 0 2 False ''s'' sched_blank = (Inr es0, sched_demo)"
    using sched_demo_new by blast
  obtain es w where r: "sched_run 1024 sched_demo es w" "pc w 1 = InCb" "m_activeThreadCount w = 1"
    by (rule acts_demo_run)
  from scheduler_counters_exact [OF n sched_blank_pc r(1)] r show ?thesis by auto
qed

text \<open>A scheduler on one thread that runs idle until it is stopped; then its idle fiber ends.\<close>

definition acts_exit :: "act list" where
  "acts_exit = [AStart [1], ABegin 1, AScan 1, ADispatch 1, AStop 0]"

lemma acts_exit_exec:
  "case exec_acts 1024 acts_exit sched_demo of
     None \<Rightarrow> False
   | Some (es, w) \<Rightarrow> idle_runs 1 w \<and> (\<forall>t. t \<noteq> 1 \<longrightarrow> pc w t = NotStarted) \<and>
       (case Scheduler_idle 1 w of (Inl e, w') \<Rightarrow> False | (Inr fs, w') \<Rightarrow> m_state (fibers w' (idle_fiber w 1)) = TERM_s)"
  by (simp add: run_eval acts_exit_def)


text \<open>
  A fiber can be running on two threads at once. When a fiber gives up control in state HOLD, it can be scheduled again and
  switched to by a second thread before the first thread has finished with it; the first thread then
  overwrites the state EXEC by HOLD, and the fiber, scheduled once more, is taken and switched to a second time. The
  run below is one of the scheduler's runs and ends with both threads executing the fiber's code.
\<close>

theorem scheduler_double_run:
  "\<exists>es w f. sched_run 1024 sched_demo es w \<and> running (tls w 1) = Body f \<and> running (tls w 2) = Body f"
proof -
  let ?as = "[AStart [1, 2], ABegin 1, ABegin 2, ASchedule (Function (Some 7)) (- 1), AScan 1, ADispatch 1,
    ALeave 1 LeaveHold, ASchedule (FiberPtr (Some 5)) (- 1), AScan 2, ADispatch 2, AReturn 1,
    ASchedule (FiberPtr (Some 5)) (- 1), AScan 1, ADispatch 1]"
  have "case exec_acts 1024 ?as sched_demo of None \<Rightarrow> False
    | Some (es, w) \<Rightarrow> running (tls w 1) = Body 5 \<and> running (tls w 2) = Body 5"
    by (simp add: run_eval)
  then obtain es w where "exec_acts 1024 ?as sched_demo = Some (es, w)"
      "running (tls w 1) = Body 5" "running (tls w 2) = Body 5"
    by (cases "exec_acts 1024 ?as sched_demo") (auto simp del: exec_acts.simps)
  then show ?thesis using exec_acts_run by blast
qed

end
