(* ===== verification/Mingo_FdManager.thy ===== *)
theory Mingo_FdManager
  imports Mingo_Prelude
begin

text \<open>
  \<^verbatim>\<open>mingo/fd_manager.cpp\<close>: the table of file descriptor contexts that the hooked system calls consult. What the kernel says
  of a descriptor is the argument \<open>os\<close>: whether \<open>fstat\<close> succeeds and finds a socket, and the flags that
  \<open>F_GETFL\<close> returns. The flags written by \<open>F_SETFL\<close> are a result. A context is found by its index in the table; a vector access outside the table
  is \<open>BadMemory\<close>.
\<close>

record os_fd =
  os_fstat :: "bool option"     \<comment> \<open>\<open>None\<close>: \<open>fstat\<close> fails; \<open>Some b\<close>: whether it is a socket\<close>
  os_flags :: u32

abbreviation O_NONBLOCK :: u32 where "O_NONBLOCK \<equiv> 0x800"
abbreviation SO_RCVTIMEO :: int where "SO_RCVTIMEO \<equiv> 20"
abbreviation SO_SNDTIMEO :: int where "SO_SNDTIMEO \<equiv> 21"

record FdCtx =
  m_isInit :: bool
  m_isSocket :: bool
  m_sysNonblock :: bool
  m_userNonblock :: bool
  m_isClosed :: bool
  m_fd :: int
  m_recvTimeout :: u64
  m_sendTimeout :: u64

text \<open>\<open>init\<close>: its result, the context, and the flags it sets on the descriptor, if any.\<close>

definition FdCtx_init :: "(int \<Rightarrow> os_fd) \<Rightarrow> FdCtx \<Rightarrow> bool \<times> FdCtx \<times> u32 option" where
  "FdCtx_init os c =
     (if m_isInit c then (True, c, None)
      else
        let c1 = c\<lparr>m_recvTimeout := - 1, m_sendTimeout := - 1\<rparr>;
            c2 = (case os_fstat (os (m_fd c1)) of
                    None \<Rightarrow> c1\<lparr>m_isInit := False, m_isSocket := False\<rparr>
                  | Some sock \<Rightarrow> c1\<lparr>m_isInit := True, m_isSocket := sock\<rparr>);
            flags = os_flags (os (m_fd c2));
            setfl = (if m_isSocket c2 \<and> flags AND O_NONBLOCK = 0 then Some (flags OR O_NONBLOCK) else None);
            c3 = c2\<lparr>m_sysNonblock := m_isSocket c2, m_userNonblock := False, m_isClosed := False\<rparr>
        in (m_isInit c3, c3, setfl))"

definition FdCtx_new :: "(int \<Rightarrow> os_fd) \<Rightarrow> int \<Rightarrow> FdCtx \<times> u32 option" where
  "FdCtx_new os fd =
     snd (FdCtx_init os \<lparr>m_isInit = False, m_isSocket = False, m_sysNonblock = False, m_userNonblock = False,
       m_isClosed = False, m_fd = fd, m_recvTimeout = - 1, m_sendTimeout = - 1\<rparr>)"

definition FdCtx_setTimeout :: "int \<Rightarrow> u64 \<Rightarrow> FdCtx \<Rightarrow> FdCtx" where
  "FdCtx_setTimeout type v c =
     (if type = SO_RCVTIMEO then c\<lparr>m_recvTimeout := v\<rparr> else c\<lparr>m_sendTimeout := v\<rparr>)"

definition FdCtx_getTimeout :: "int \<Rightarrow> FdCtx \<Rightarrow> u64" where
  "FdCtx_getTimeout type c = (if type = SO_RCVTIMEO then m_recvTimeout c else m_sendTimeout c)"

definition FdCtx_setUserNonblock :: "bool \<Rightarrow> FdCtx \<Rightarrow> FdCtx" where
  "FdCtx_setUserNonblock v c = c\<lparr>m_userNonblock := v\<rparr>"

definition FdCtx_setSysNonblock :: "bool \<Rightarrow> FdCtx \<Rightarrow> FdCtx" where
  "FdCtx_setSysNonblock v c = c\<lparr>m_sysNonblock := v\<rparr>"

type_synonym fd_table = "FdCtx option list"

definition FdManager_new :: fd_table where
  "FdManager_new = replicate 64 None"

text \<open>\<open>std::vector::resize\<close>, and a size computed as \<open>fd * 1.5\<close>.\<close>

definition vec_resize :: "nat \<Rightarrow> 'a \<Rightarrow> 'a list \<Rightarrow> 'a list" where
  "vec_resize n x xs = take n xs @ replicate (n - length xs) x"

definition grown :: "int \<Rightarrow> nat" where
  "grown fd = nat (fd * 3 div 2)"

text \<open>
  The second half of \<open>get\<close>, under the write lock: it runs after the read lock was released, so that the table may have
  changed in between.
\<close>

definition FdManager_create :: "(int \<Rightarrow> os_fd) \<Rightarrow> int \<Rightarrow> (fd_table, FdCtx option) oper" where
  "FdManager_create os fd ds =
     (let ctx = fst (FdCtx_new os fd);
          ds1 = (if fd \<ge> int (length ds) then vec_resize (grown fd) None ds else ds)
      in if 0 \<le> fd \<and> nat fd < length ds1 then (Inr (Some ctx), ds1[nat fd := Some ctx]) else (Inl BadMemory, ds1))"

definition FdManager_get :: "(int \<Rightarrow> os_fd) \<Rightarrow> int \<Rightarrow> bool \<Rightarrow> (fd_table, FdCtx option) oper" where
  "FdManager_get os fd auto_create ds =
     (if fd = - 1 then (Inr None, ds)
      else if int (length ds) \<le> fd then
        if \<not> auto_create then (Inr None, ds) else FdManager_create os fd ds
      else if fd < 0 then (Inl BadMemory, ds)
      else if ds ! nat fd \<noteq> None \<or> \<not> auto_create then (Inr (ds ! nat fd), ds)
      else FdManager_create os fd ds)"

definition FdManager_del :: "int \<Rightarrow> (fd_table, unit) oper" where
  "FdManager_del fd ds =
     (if int (length ds) \<le> fd then (Inr (), ds)
      else if fd < 0 then (Inl BadMemory, ds)
      else (Inr (), ds[nat fd := None]))"

section \<open>The table as a map\<close>

text \<open>The context the table holds for a descriptor.\<close>

definition fd_lookup :: "fd_table \<Rightarrow> int \<Rightarrow> FdCtx option" where
  "fd_lookup ds fd = (if 0 \<le> fd \<and> nat fd < length ds then ds ! nat fd else None)"

lemma length_vec_resize [simp]: "length (vec_resize n x xs) = n"
  by (simp add: vec_resize_def)

lemma nth_vec_resize: "i < n \<Longrightarrow> vec_resize n x xs ! i = (if i < length xs then xs ! i else x)"
  by (auto simp: vec_resize_def nth_append min_def)

lemma grown_bound: "2 \<le> fd \<Longrightarrow> nat fd < grown fd"
  by (simp add: grown_def nat_less_iff) linarith

text \<open>
  The invariant: at least 64 entries (so that growing by half makes room), each context stored under its
  own descriptor, and sockets, and only they, switched to non-blocking mode.
\<close>

definition fd_inv :: "fd_table \<Rightarrow> bool" where
  "fd_inv ds \<longleftrightarrow> 64 \<le> length ds \<and>
     (\<forall>i < length ds. \<forall>c. ds ! i = Some c \<longrightarrow> m_fd c = int i \<and> (m_isSocket c \<longrightarrow> m_isInit c))"

lemma FdManager_new_inv: "fd_inv FdManager_new"
  by (simp add: fd_inv_def FdManager_new_def)

lemma FdCtx_new_simps [simp]:
  "m_fd (fst (FdCtx_new os fd)) = fd"
  "m_isSocket (fst (FdCtx_new os fd)) \<longleftrightarrow> os_fstat (os fd) = Some True"
  "m_isInit (fst (FdCtx_new os fd)) \<longleftrightarrow> os_fstat (os fd) \<noteq> None"
  "m_sysNonblock (fst (FdCtx_new os fd)) \<longleftrightarrow> os_fstat (os fd) = Some True"
  "\<not> m_userNonblock (fst (FdCtx_new os fd))" "\<not> m_isClosed (fst (FdCtx_new os fd))"
  "FdCtx_getTimeout type (fst (FdCtx_new os fd)) = - 1"
  by (auto simp: FdCtx_new_def FdCtx_init_def FdCtx_getTimeout_def Let_def split: option.splits)

lemma fd_lookup_upd:
  "0 \<le> fd \<Longrightarrow> nat fd < length d \<Longrightarrow> fd_lookup (d[nat fd := x]) i = (if i = fd then x else fd_lookup d i)"
  by (auto simp: fd_lookup_def nth_list_update)

lemma FdManager_create_correct:
  assumes "64 \<le> length ds" and "0 \<le> fd"
  obtains ds' where "FdManager_create os fd ds = (Inr (Some (fst (FdCtx_new os fd))), ds')"
    and "length ds \<le> length ds'"
    and "\<And>i. fd_lookup ds' i = (if i = fd then Some (fst (FdCtx_new os fd)) else fd_lookup ds i)"
proof -
  let ?ctx = "fst (FdCtx_new os fd)"
  let ?ds = "if fd \<ge> int (length ds) then vec_resize (grown fd) None ds else ds"
  have g: "fd \<ge> int (length ds) \<Longrightarrow> length ds \<le> nat fd \<and> nat fd < grown fd"
    using assms grown_bound [of fd] by auto
  then have in_range: "nat fd < length ?ds" and len: "length ds \<le> length ?ds"
    using assms by auto
  have "fd_lookup ?ds i = fd_lookup ds i" for i
    using g by (auto simp: fd_lookup_def nth_vec_resize)
  then have "fd_lookup (?ds[nat fd := Some ?ctx]) i = (if i = fd then Some ?ctx else fd_lookup ds i)" for i
    by (simp only: fd_lookup_upd [OF assms(2) in_range])
  moreover have "FdManager_create os fd ds = (Inr (Some ?ctx), ?ds[nat fd := Some ?ctx])"
    using in_range assms(2) by (simp add: FdManager_create_def Let_def)
  ultimately show thesis using that len by simp
qed

lemma fd_inv_lookup:
  "fd_inv ds \<longleftrightarrow> 64 \<le> length ds \<and> (\<forall>i c. fd_lookup ds i = Some c \<longrightarrow> m_fd c = i \<and> (m_isSocket c \<longrightarrow> m_isInit c))"
proof -
  have "(\<forall>i < length ds. P (int i) (ds ! i)) \<longleftrightarrow> (\<forall>i. 0 \<le> i \<and> nat i < length ds \<longrightarrow> P i (ds ! nat i))" for P
    by (metis nat_int of_nat_0_le_iff int_nat_eq)
  from this [of "\<lambda>i e. \<forall>c. e = Some c \<longrightarrow> m_fd c = i \<and> (m_isSocket c \<longrightarrow> m_isInit c)"]
  show ?thesis by (auto simp: fd_inv_def fd_lookup_def split: if_splits)
qed

text \<open>
  The descriptor table. For every table reached from the constructor and every descriptor that is not negative, \<open>get\<close> succeeds:
  a context that is there is returned and nothing changes; without auto-creation a missing one is null; with auto-creation
  a fresh context is stored under the descriptor, growing the table, with every other entry kept, and a following
  \<open>get\<close> returns it; it is a socket in system non-blocking mode exactly if \<open>fstat\<close> says so, with no time-outs. \<open>del\<close>
  removes that one entry. Both keep the table well formed.
\<close>

theorem fd_table_correct:
  assumes "fd_inv ds" and "0 \<le> fd"
  shows "case FdManager_get os fd auto_create ds of
      (Inl e, ds') \<Rightarrow> False
    | (Inr r, ds') \<Rightarrow>
        fd_inv ds'
      \<and> r = (case fd_lookup ds fd of
              Some c \<Rightarrow> Some c
            | None \<Rightarrow> if auto_create then Some (fst (FdCtx_new os fd)) else None)
      \<and> (\<forall>i. fd_lookup ds' i = (if i = fd then r else fd_lookup ds i))
      \<and> FdManager_get os' fd create' ds' = (if r = None \<and> create' then FdManager_create os' fd ds' else (Inr r, ds'))
      \<and> (case FdManager_del fd ds' of (Inl e, _) \<Rightarrow> False
         | (Inr _, ds'') \<Rightarrow> fd_inv ds'' \<and> (\<forall>i. fd_lookup ds'' i = (if i = fd then None else fd_lookup ds' i)))"
proof -
  have len: "64 \<le> length ds" using assms(1) by (simp add: fd_inv_def)
  have got: "FdManager_get os' fd create' d = (if fd_lookup d fd = None \<and> create' then FdManager_create os' fd d
      else (Inr (fd_lookup d fd), d))" for os' create' d
    using assms(2) by (auto simp: FdManager_get_def fd_lookup_def)
  have del: "case FdManager_del fd d of (Inl e, _) \<Rightarrow> False
      | (Inr _, d') \<Rightarrow> fd_inv d' \<and> (\<forall>i. fd_lookup d' i = (if i = fd then None else fd_lookup d i))"
    if "fd_inv d" for d
    using assms(2) that
    by (auto simp: FdManager_del_def fd_lookup_def fd_inv_def nth_list_update split: if_splits)
  show ?thesis
  proof (cases "fd_lookup ds fd = None \<and> auto_create")
    case True
    obtain ds' where c: "FdManager_create os fd ds = (Inr (Some (fst (FdCtx_new os fd))), ds')"
      "length ds \<le> length ds'"
      "\<And>i. fd_lookup ds' i = (if i = fd then Some (fst (FdCtx_new os fd)) else fd_lookup ds i)"
      using FdManager_create_correct [OF len assms(2)] by blast
    have inv: "fd_inv ds'"
      using assms(1) c(2,3) by (auto simp: fd_inv_lookup split: if_splits)
    show ?thesis using True got [of os auto_create ds] got [of os' create' ds'] c inv del [OF inv] by auto
  next
    case False
    then show ?thesis
      using got [of os auto_create ds] got [of os' create' ds] assms(1) del [OF assms(1)]
      by (auto split: option.splits)
  qed
qed

theorem fd_table_correct_witness:
  "let os = (\<lambda>_. \<lparr>os_fstat = Some True, os_flags = 0\<rparr>) in
   case FdManager_get os 100 True FdManager_new of
     (Inl e, ds') \<Rightarrow> False
   | (Inr r, ds') \<Rightarrow> fd_inv ds' \<and> r = Some (fst (FdCtx_new os 100)) \<and> m_sysNonblock (the r)"
proof -
  let ?os = "\<lambda>_ :: int. \<lparr>os_fstat = Some True, os_flags = 0\<rparr>"
  have "fd_lookup FdManager_new 100 = None" by (simp add: fd_lookup_def FdManager_new_def)
  then show ?thesis
    using fd_table_correct [OF FdManager_new_inv, where fd = 100 and os = ?os and auto_create = True and os' = ?os
        and create' = False]
    by (auto simp: Let_def split: prod.splits sum.splits)
qed

text \<open>
  The lock is released between the test and the creation, and the creation does not look at the entry again: a context created
  meanwhile by another thread is replaced, and its time-outs are lost.
\<close>

lemma FdManager_create_overwrites:
  "fd_lookup [Some (FdCtx_setTimeout SO_RCVTIMEO 5 (fst (FdCtx_new os 0)))] 0 \<noteq> None \<and>
   map_option (FdCtx_getTimeout SO_RCVTIMEO)
     (fd_lookup (snd (FdManager_create os 0 [Some (FdCtx_setTimeout SO_RCVTIMEO 5 (fst (FdCtx_new os 0)))])) 0) = Some (- 1)"
  by (simp add: fd_lookup_def FdManager_create_def Let_def)

text \<open>\<open>del\<close> has no test for a negative descriptor.\<close>

lemma FdManager_del_negative: "fd < 0 \<Longrightarrow> FdManager_del fd ds = (Inl BadMemory, ds)"
  by (simp add: FdManager_del_def)

end
