(* ===== verification/Mingo_IOManager.thy ===== *)
theory Mingo_IOManager
  imports Mingo_Scheduler Mingo_Timer Mingo_FdManager
begin

text \<open>
  \<^verbatim>\<open>mingo/iomanager.cpp\<close>: the scheduler that waits for descriptor events with \<open>epoll\<close>. The state extends the scheduler's by
  the timers, the event contexts, the number of pending events, the bytes in the wake-up pipe, and what the kernel has
  registered for each descriptor (\<open>interest\<close>, the pipe apart). \<open>epoll_ctl\<close> follows its documentation: adding a registered
  descriptor and changing or deleting an unregistered one fail; it may also fail for other reasons, which is
  the argument \<open>fail\<close>. What \<open>epoll_wait\<close> reports is an argument. Each operation is one step under its locks.
\<close>

section \<open>State\<close>

abbreviation NONE :: u32 where "NONE \<equiv> 0"
abbreviation READ :: u32 where "READ \<equiv> 1"
abbreviation WRITE :: u32 where "WRITE \<equiv> 4"
abbreviation EPOLLIN :: u32 where "EPOLLIN \<equiv> 1"
abbreviation EPOLLOUT :: u32 where "EPOLLOUT \<equiv> 4"
abbreviation EPOLLERR :: u32 where "EPOLLERR \<equiv> 8"
abbreviation EPOLLHUP :: u32 where "EPOLLHUP \<equiv> 16"
abbreviation EPOLLET :: u32 where "EPOLLET \<equiv> 0x80000000"

record event_context =
  ec_scheduler :: "nat option"
  ec_fiber :: "nat option"
  ec_cb :: "nat option"

record fd_context =
  fc_read :: event_context
  fc_write :: event_context
  fc_fd :: int
  fc_events :: u32

record iom = sched +
  timers :: timer_manager
  m_pendingEventCount :: u64
  m_fdContexts :: "fd_context list"
  interest :: "int \<Rightarrow> u32 option"
  pipe_bytes :: nat

datatype epoll_op = EPOLL_CTL_ADD | EPOLL_CTL_MOD | EPOLL_CTL_DEL

definition epoll_ctl :: "bool \<Rightarrow> epoll_op \<Rightarrow> int \<Rightarrow> u32 \<Rightarrow> iom \<Rightarrow> int \<times> iom" where
  "epoll_ctl fail op fd ev w =
     (if fail \<or> (op = EPOLL_CTL_ADD) = (interest w fd \<noteq> None) then (- 1, w)
      else (0, w\<lparr>interest := (interest w)(fd := (if op = EPOLL_CTL_DEL then None else Some ev))\<rparr>))"

section \<open>Event contexts\<close>

definition no_context :: event_context where
  "no_context = \<lparr>ec_scheduler = None, ec_fiber = None, ec_cb = None\<rparr>"

definition getContext :: "u32 \<Rightarrow> fd_context \<Rightarrow> event_context res" where
  "getContext event c =
     (if event = READ then Inr (fc_read c) else if event = WRITE then Inr (fc_write c) else Inl AssertFail)"

definition putContext :: "u32 \<Rightarrow> event_context \<Rightarrow> fd_context \<Rightarrow> fd_context" where
  "putContext event e c = (if event = READ then c\<lparr>fc_read := e\<rparr> else c\<lparr>fc_write := e\<rparr>)"

definition set_ctx :: "nat \<Rightarrow> fd_context \<Rightarrow> iom \<Rightarrow> iom" where
  "set_ctx i c w = w\<lparr>m_fdContexts := (m_fdContexts w)[i := c]\<rparr>"

section \<open>Waking up\<close>

definition IOManager_tickle :: "iom \<Rightarrow> iom" where
  "IOManager_tickle w = (if \<not> Scheduler_hasIdleThreads w then w else w\<lparr>pipe_bytes := pipe_bytes w + 1\<rparr>)"

text \<open>The virtual call \<open>tickle\<close> of the scheduler's code, for each such event.\<close>

definition notify :: "event list \<Rightarrow> iom \<Rightarrow> iom" where
  "notify es w = fold (\<lambda>e w. if e = Tickle then IOManager_tickle w else w) es w"

definition IOManager_schedule :: "fiber_or_cb \<Rightarrow> int \<Rightarrow> (iom, event list) oper" where
  "IOManager_schedule fc thread = andthen (Scheduler_schedule fc thread) (\<lambda>es w. (Inr es, notify es w))"

definition IOManager_schedule_range :: "fiber_or_cb list \<Rightarrow> (iom, event list) oper" where
  "IOManager_schedule_range fcs = andthen (Scheduler_schedule_range fcs) (\<lambda>es w. (Inr es, notify es w))"

definition IOManager_onTimerInsertedAtFront :: "iom \<Rightarrow> iom" where
  "IOManager_onTimerInsertedAtFront w = IOManager_tickle w"

section \<open>Registering events\<close>

text \<open>
  The waiting task is handed to the scheduler stored with it: this one (number 0), or another whose state is not
  part of this model.
\<close>

definition triggerEvent :: "nat \<Rightarrow> u32 \<Rightarrow> (iom, event list) oper" where
  "triggerEvent i event w =
     (let c = m_fdContexts w ! i in
      if fc_events c AND event = 0 then (Inl AssertFail, w)
      else
        let c1 = c\<lparr>fc_events := fc_events c AND NOT event\<rparr>; w1 = set_ctx i c1 w in
        case getContext event c1 of
          Inl e \<Rightarrow> (Inl e, w1)
        | Inr ec \<Rightarrow>
            (case ec_scheduler ec of
               None \<Rightarrow> (Inl NullDeref, w1)
             | Some s \<Rightarrow>
                 let task = (if ec_cb ec \<noteq> None then Function (ec_cb ec) else FiberPtr (ec_fiber ec));
                     ec1 = (if ec_cb ec \<noteq> None then ec\<lparr>ec_cb := None, ec_scheduler := None\<rparr>
                            else ec\<lparr>ec_fiber := None, ec_scheduler := None\<rparr>);
                     w2 = set_ctx i (putContext event ec1 c1) w1
                 in if s = 0 then IOManager_schedule task (- 1) w2 else (Inr [], w2)))"

definition fresh_context :: "nat \<Rightarrow> fd_context" where
  "fresh_context i = \<lparr>fc_read = no_context, fc_write = no_context, fc_fd = int i, fc_events = NONE\<rparr>"

definition IOManager_contextResize :: "nat \<Rightarrow> iom \<Rightarrow> iom" where
  "IOManager_contextResize n w =
     w\<lparr>m_fdContexts := take n (m_fdContexts w) @ map fresh_context [length (m_fdContexts w)..<n]\<rparr>"

text \<open>The context of a descriptor, growing the table when it is too small.\<close>

definition locate :: "int \<Rightarrow> (iom, nat) oper" where
  "locate fd w =
     (if int (length (m_fdContexts w)) > fd
      then if fd < 0 then (Inl BadMemory, w) else (Inr (nat fd), w)
      else
        let w1 = IOManager_contextResize (grown fd) w in
        if nat fd < length (m_fdContexts w1) then (Inr (nat fd), w1) else (Inl BadMemory, w1))"

definition addEvent_attach :: "nat \<Rightarrow> u32 \<Rightarrow> nat option \<Rightarrow> nat \<Rightarrow> fd_context \<Rightarrow> (iom, int) oper" where
  "addEvent_attach t event cb i c w =
     (case getContext event c of
        Inl e \<Rightarrow> (Inl e, w)
      | Inr ec \<Rightarrow>
          if ec \<noteq> no_context then (Inl AssertFail, w)
          else
            let ec1 = ec\<lparr>ec_scheduler := t_scheduler w t\<rparr> in
            if cb \<noteq> None then (Inr 0, set_ctx i (putContext event (ec1\<lparr>ec_cb := cb\<rparr>) c) w)
            else
              andthen (Fiber_GetThis t) (\<lambda>f w.
                let w1 = set_ctx i (putContext event (ec1\<lparr>ec_fiber := Some f\<rparr>) c) w in
                if m_state (fibers w1 f) = EXEC then (Inr 0, w1) else (Inl AssertFail, w1)) w)"

definition addEvent_locked :: "nat \<Rightarrow> bool \<Rightarrow> int \<Rightarrow> u32 \<Rightarrow> nat option \<Rightarrow> nat \<Rightarrow> (iom, int) oper" where
  "addEvent_locked t fail fd event cb i w =
     (let c = m_fdContexts w ! i in
      if fc_events c AND event \<noteq> 0 then (Inl AssertFail, w)
      else
        let op = (if fc_events c \<noteq> 0 then EPOLL_CTL_MOD else EPOLL_CTL_ADD) in
        case epoll_ctl fail op fd (EPOLLET OR fc_events c OR event) w of (rt, w1) \<Rightarrow>
          if rt \<noteq> 0 then (Inr (- 1), w1)
          else
            let c1 = c\<lparr>fc_events := fc_events c OR event\<rparr> in
            addEvent_attach t event cb i c1
              (set_ctx i c1 (w1\<lparr>m_pendingEventCount := m_pendingEventCount w1 + 1\<rparr>)))"

definition IOManager_addEvent :: "nat \<Rightarrow> bool \<Rightarrow> int \<Rightarrow> u32 \<Rightarrow> nat option \<Rightarrow> (iom, int) oper" where
  "IOManager_addEvent t fail fd event cb = andthen (locate fd) (addEvent_locked t fail fd event cb)"

text \<open>
  The common part of \<open>delEvent\<close> and \<open>cancelEvent\<close>: find the context, test the event, and take it out of the kernel's
  set. The result is the index to go on with, or that the operation returns false.
\<close>

definition unregister :: "bool \<Rightarrow> int \<Rightarrow> u32 \<Rightarrow> (iom, nat option) oper" where
  "unregister fail fd event w =
     (if int (length (m_fdContexts w)) \<le> fd then (Inr None, w)
      else if fd < 0 then (Inl BadMemory, w)
      else
        let c = m_fdContexts w ! nat fd in
        if fc_events c AND event = 0 then (Inr None, w)
        else
          let new_events = fc_events c AND NOT event;
              op = (if new_events \<noteq> 0 then EPOLL_CTL_MOD else EPOLL_CTL_DEL) in
          case epoll_ctl fail op fd (EPOLLET OR new_events) w of (rt, w1) \<Rightarrow>
            if rt \<noteq> 0 then (Inr None, w1) else (Inr (Some (nat fd)), w1))"

definition pending_dec :: "iom \<Rightarrow> iom" where
  "pending_dec w = w\<lparr>m_pendingEventCount := m_pendingEventCount w - 1\<rparr>"

definition IOManager_delEvent :: "bool \<Rightarrow> int \<Rightarrow> u32 \<Rightarrow> (iom, bool) oper" where
  "IOManager_delEvent fail fd event =
     andthen (unregister fail fd event) (\<lambda>r w.
       case r of None \<Rightarrow> (Inr False, w)
       | Some i \<Rightarrow>
           let c = (m_fdContexts w ! i)\<lparr>fc_events := fc_events (m_fdContexts w ! i) AND NOT event\<rparr>;
               w1 = set_ctx i c (pending_dec w) in
           case getContext event c of
             Inl e \<Rightarrow> (Inl e, w1)
           | Inr ec \<Rightarrow> (Inr True, set_ctx i (putContext event no_context c) w1))"

definition IOManager_cancelEvent :: "bool \<Rightarrow> int \<Rightarrow> u32 \<Rightarrow> (iom, bool \<times> event list) oper" where
  "IOManager_cancelEvent fail fd event =
     andthen (unregister fail fd event) (\<lambda>r w.
       case r of None \<Rightarrow> (Inr (False, []), w)
       | Some i \<Rightarrow> andthen (triggerEvent i event) (\<lambda>es w. (Inr (True, es), pending_dec w)) w)"

text \<open>Trigger an event if the set has it, and count it as done.\<close>

definition trigger_if :: "u32 \<Rightarrow> nat \<Rightarrow> u32 \<Rightarrow> (iom, event list) oper" where
  "trigger_if evs i event w =
     (if evs AND event \<noteq> 0 then andthen (triggerEvent i event) (\<lambda>es w. (Inr es, pending_dec w)) w else (Inr [], w))"

definition IOManager_cancelAll :: "bool \<Rightarrow> int \<Rightarrow> (iom, bool \<times> event list) oper" where
  "IOManager_cancelAll fail fd w =
     (if int (length (m_fdContexts w)) \<le> fd then (Inr (False, []), w)
      else if fd < 0 then (Inl BadMemory, w)
      else if fc_events (m_fdContexts w ! nat fd) = 0 then (Inr (False, []), w)
      else
        case epoll_ctl fail EPOLL_CTL_DEL fd 0 w of (rt, w1) \<Rightarrow>
          if rt \<noteq> 0 then (Inr (False, []), w1)
          else
            andthen (\<lambda>w. trigger_if (fc_events (m_fdContexts w ! nat fd)) (nat fd) READ w) (\<lambda>es1.
            andthen (\<lambda>w. trigger_if (fc_events (m_fdContexts w ! nat fd)) (nat fd) WRITE w) (\<lambda>es2 w.
              if fc_events (m_fdContexts w ! nat fd) = 0 then (Inr (True, es1 @ es2), w) else (Inl AssertFail, w))) w1)"

section \<open>Waiting\<close>

definition IOManager_stopping :: "u64 \<Rightarrow> iom \<Rightarrow> (bool \<times> u64) \<times> iom" where
  "IOManager_stopping now w =
     (case TimerManager_getNextTimer now (timers w) of (timeout, tm) \<Rightarrow>
        ((timeout = - 1 \<and> m_pendingEventCount w = 0 \<and> Scheduler_stopping w, timeout), w\<lparr>timers := tm\<rparr>))"

definition to_int :: "u64 \<Rightarrow> int" where
  "to_int v = sint (ucast v :: u32)"

definition MAX_TIMEOUT :: u64 where
  "MAX_TIMEOUT = 3000"

definition clamp_timeout :: "u64 \<Rightarrow> u64" where
  "clamp_timeout next_timeout =
     (if next_timeout \<noteq> - 1 then (if to_int next_timeout > 3000 then MAX_TIMEOUT else next_timeout)
      else MAX_TIMEOUT)"

text \<open>What \<open>epoll_wait\<close> reports: the pipe, or a context with its event mask.\<close>

datatype epoll_report = PipeReady | FdReady nat u32

definition real_events_of :: "u32 \<Rightarrow> u32 \<Rightarrow> u32" where
  "real_events_of reported registered =
     (let ev = (if reported AND (EPOLLERR OR EPOLLHUP) \<noteq> 0
                then reported OR ((EPOLLIN OR EPOLLOUT) AND registered) else reported)
      in (if ev AND EPOLLIN \<noteq> 0 then READ else NONE) OR (if ev AND EPOLLOUT \<noteq> 0 then WRITE else NONE))"

fun idle_report :: "bool \<Rightarrow> epoll_report \<Rightarrow> (iom, event list) oper" where
  "idle_report fail PipeReady w = (Inr [], w\<lparr>pipe_bytes := 0\<rparr>)"
| "idle_report fail (FdReady i reported) w =
     (let c = m_fdContexts w ! i;
          real_events = real_events_of reported (fc_events c) in
      if fc_events c AND real_events = NONE then (Inr [], w)
      else
        let left_events = fc_events c AND NOT real_events;
            op = (if left_events \<noteq> 0 then EPOLL_CTL_MOD else EPOLL_CTL_DEL) in
        case epoll_ctl fail op (fc_fd c) (EPOLLET OR left_events) w of (rt2, w1) \<Rightarrow>
          if rt2 \<noteq> 0 then (Inr [], w1)
          else
            andthen (trigger_if real_events i READ) (\<lambda>es1.
            andthen (trigger_if real_events i WRITE) (\<lambda>es2. ret (es1 @ es2))) w1)"

fun idle_reports :: "(bool \<times> epoll_report) list \<Rightarrow> (iom, event list) oper" where
  "idle_reports [] w = (Inr [], w)"
| "idle_reports ((fail, r) # rs) w =
     andthen (idle_report fail r) (\<lambda>es1. andthen (idle_reports rs) (\<lambda>es2. ret (es1 @ es2))) w"

text \<open>
  One turn of the loop of \<open>idle\<close>: at most 256 reports. \<open>enc\<close> names the timers' callbacks as function objects, \<open>now\<close> and
  \<open>now'\<close> are the clock before and after the wait, \<open>probe\<close> the address of the temporary timer. The result is whether the loop ends.
\<close>

definition IOManager_idle ::
    "(callback \<Rightarrow> nat) \<Rightarrow> nat \<Rightarrow> u64 \<Rightarrow> u64 \<Rightarrow> nat \<Rightarrow> (bool \<times> epoll_report) list \<Rightarrow> (iom, bool \<times> event list) oper" where
  "IOManager_idle enc t now now' probe reports w =
     (case IOManager_stopping now w of ((stop, timeout), w1) \<Rightarrow>
        if stop then (Inr (True, []), w1)
        else
          case TimerManager_listExpiredCb now' probe [] (timers w1) of (cbs, tm) \<Rightarrow>
            andthen (\<lambda>w. if cbs \<noteq> [] then IOManager_schedule_range (map (\<lambda>cb. Function (map_option enc cb)) cbs) w
                         else (Inr [], w)) (\<lambda>es1.
            andthen (idle_reports (take 256 reports)) (\<lambda>es2.
            andthen (Fiber_GetThis t) (\<lambda>cur.
            andthen (Fiber_swapOut t cur) (\<lambda>_. ret (False, es1 @ es2))))) (w1\<lparr>timers := tm\<rparr>))"

section \<open>Construction and destruction\<close>

text \<open>\<open>sys\<close>: whether \<open>epoll_create\<close>, \<open>pipe\<close>, \<open>fcntl\<close> and \<open>epoll_ctl\<close> succeed.\<close>

definition IOManager_new ::
    "u32 \<Rightarrow> nat \<Rightarrow> nat \<Rightarrow> bool \<Rightarrow> string \<Rightarrow> nat list \<Rightarrow> bool list \<Rightarrow> u64 \<Rightarrow> (iom, event list) oper" where
  "IOManager_new cfg t threads use_caller name tids sys now =
     andthen (Scheduler_new cfg t threads use_caller name) (\<lambda>es w.
       let w1 = w\<lparr>timers := TimerManager_new now, m_pendingEventCount := 0, m_fdContexts := [],
                  interest := (\<lambda>_. None), pipe_bytes := 0\<rparr> in
       if list_all id sys then Scheduler_start tids (IOManager_contextResize 32 w1) else (Inl AssertFail, w1))"

definition IOManager_delete :: "nat \<Rightarrow> (iom, event list) oper" where
  "IOManager_delete t = andthen (Scheduler_stop t) (\<lambda>es w. (Inr es, w\<lparr>m_fdContexts := []\<rparr>))"

end
