(* ===== verification/Mingo_IOManager_Props.thy ===== *)
theory Mingo_IOManager_Props
  imports Mingo_IOManager
begin

text \<open>
  Correctness of the event table of the IO manager: the contexts, the counter of pending events and the kernel's registration agree
  in every state the operations reach; a triggered event hands exactly the stored task to its scheduler; the wait is bounded.
\<close>

section \<open>Event sets\<close>

definition ev_sets :: "u32 set" where
  "ev_sets = {0, READ, WRITE, READ OR WRITE}"

lemma ev_table:
  "(READ OR WRITE :: u32) = 5" "(5 AND NOT READ :: u32) = 4" "(5 AND NOT WRITE :: u32) = 1" "(READ AND NOT READ :: u32) = 0"
  "(WRITE AND NOT WRITE :: u32) = 0" "(READ AND NOT WRITE :: u32) = 1" "(WRITE AND NOT READ :: u32) = 4"
  "(5 AND READ :: u32) = 1" "(5 AND WRITE :: u32) = 4" "(READ AND WRITE :: u32) = 0" "(WRITE AND READ :: u32) = 0"
  "(5 AND 5 :: u32) = 5" "(READ AND 5 :: u32) = 1" "(WRITE AND 5 :: u32) = 4" "(5 AND NOT 5 :: u32) = 0"
  "(READ AND NOT 5 :: u32) = 0" "(WRITE AND NOT 5 :: u32) = 0" "(WRITE OR READ :: u32) = 5"
  by code_simp+

definition event_count :: "fd_context \<Rightarrow> u64" where
  "event_count c = of_bool (fc_events c AND READ \<noteq> 0) + of_bool (fc_events c AND WRITE \<noteq> 0)"

definition waiting :: "bool \<Rightarrow> event_context \<Rightarrow> bool" where
  "waiting b e \<longleftrightarrow> (if b then (ec_cb e = None) \<noteq> (ec_fiber e = None) else e = no_context)"

definition registration :: "u32 \<Rightarrow> u32 option" where
  "registration ev = (if ev = 0 then None else Some (EPOLLET OR ev))"

text \<open>One context: its own descriptor, exactly the registered events have a waiting task, the kernel waits for them.\<close>

definition ctx_ok :: "nat \<Rightarrow> fd_context \<Rightarrow> u32 option \<Rightarrow> bool" where
  "ctx_ok i c k \<longleftrightarrow> fc_fd c = int i \<and> fc_events c \<in> ev_sets \<and> k = registration (fc_events c)
     \<and> waiting (fc_events c AND READ \<noteq> 0) (fc_read c) \<and> waiting (fc_events c AND WRITE \<noteq> 0) (fc_write c)"

definition io_inv :: "iom \<Rightarrow> bool" where
  "io_inv w \<longleftrightarrow> 32 \<le> length (m_fdContexts w)
     \<and> (\<forall>i < length (m_fdContexts w). ctx_ok i (m_fdContexts w ! i) (interest w (int i)))
     \<and> (\<forall>fd. fd < 0 \<or> int (length (m_fdContexts w)) \<le> fd \<longrightarrow> interest w fd = None)
     \<and> m_pendingEventCount w = sum_list (map event_count (m_fdContexts w))"

section \<open>Frames\<close>

definition io_view :: "iom \<Rightarrow> fd_context list \<times> (int \<Rightarrow> u32 option) \<times> u64" where
  "io_view w = (m_fdContexts w, interest w, m_pendingEventCount w)"

lemma io_inv_view: "io_view w = io_view w' \<Longrightarrow> io_inv w = io_inv w'"
  by (simp add: io_view_def io_inv_def)

lemma io_view_tickle [simp]: "io_view (IOManager_tickle w) = io_view w" "m_fibers (IOManager_tickle w) = m_fibers w"
  by (simp_all add: IOManager_tickle_def io_view_def)

lemma notify_simps [simp]: "io_view (notify es w) = io_view w" "m_fibers (notify es w) = m_fibers w"
  unfolding notify_def by (induction es arbitrary: w) auto

lemma io_view_upd [simp]:
  "io_view (w\<lparr>m_fibers := q\<rparr>) = io_view w" "io_view (w\<lparr>timers := tm\<rparr>) = io_view w"
  "io_view (w\<lparr>pipe_bytes := n\<rparr>) = io_view w"
  by (simp_all add: io_view_def)

definition tasks_of :: "fiber_and_thread \<Rightarrow> fiber_and_thread list" where
  "tasks_of ft = (if ft_fiber ft \<noteq> None \<or> ft_cb ft \<noteq> None then [ft] else [])"

lemma IOManager_schedule_effect:
  assumes "IOManager_schedule fc thr w = (Inr es, w')"
  shows "io_view w' = io_view w \<and> m_fibers w' = m_fibers w @ tasks_of (FiberAndThread fc thr)"
proof -
  obtain w1 where w1: "Scheduler_schedule fc thr w = (Inr es, w1)" "w' = notify es w1"
    using assms by (auto simp: IOManager_schedule_def elim!: andthen_eq_InrE)
  then have "w1 = w\<lparr>m_fibers := m_fibers w @ tasks_of (FiberAndThread fc thr)\<rparr>"
    by (auto simp: Scheduler_schedule_def scheduleNoLock_def tasks_of_def Let_def split: if_splits)
  then show ?thesis using w1(2) by simp
qed

lemma schedule_loop_view:
  "schedule_loop fcs n es w = (n', es', w') \<Longrightarrow> io_view w' = io_view w"
proof (induction fcs arbitrary: n es w)
  case (Cons fc fcs)
  obtain k es1 w1 where s: "scheduleNoLock fc (- 1) w = (k, es1, w1)" by (metis prod_cases3)
  then have "io_view w1 = io_view w" by (auto simp: scheduleNoLock_def Let_def split: if_splits)
  then show ?case using Cons s by auto
qed simp

lemma IOManager_schedule_range_view:
  "IOManager_schedule_range fcs w = (Inr es, w') \<Longrightarrow> io_view w' = io_view w"
  by (auto simp: IOManager_schedule_range_def Scheduler_schedule_range_def split: prod.splits
      elim!: andthen_eq_InrE dest!: schedule_loop_view)

lemma fiber_ops_view:
  "Fiber_GetThis t w = (Inr f, w') \<Longrightarrow> io_view w' = io_view w"
  "Fiber_swapOut t a w = (Inr u, w') \<Longrightarrow> io_view w' = io_view w"
  by (auto simp: fiber_op_defs Fiber_main_new_def io_view_def fiber_upd_def tls_upd_def
      split: option.splits if_splits)

section \<open>Changing one context\<close>

lemma sum_list_upd_group:
  "i < length xs \<Longrightarrow> sum_list (xs[i := x]) = sum_list xs - xs ! i + (x :: 'a::ab_group_add)"
  by (induction xs arbitrary: i) (auto simp: nth_Cons' split: nat.splits)

lemma io_inv_change:
  assumes "io_inv w" and "i < length (m_fdContexts w)"
    and "io_view w' = ((m_fdContexts w)[i := c], (interest w)(int i := k),
           m_pendingEventCount w - event_count (m_fdContexts w ! i) + event_count c)"
    and "ctx_ok i c k"
  shows "io_inv w'"
  using assms
  by (auto simp: io_inv_def io_view_def nth_list_update map_update sum_list_upd_group)

text \<open>Taking an event out of a context.\<close>

definition clear_event :: "u32 \<Rightarrow> fd_context \<Rightarrow> fd_context" where
  "clear_event event c = putContext event no_context (c\<lparr>fc_events := fc_events c AND NOT event\<rparr>)"

lemma ctx_ok_clear:
  assumes "ctx_ok i c k" and "event = READ \<or> event = WRITE" and "fc_events c AND event \<noteq> 0"
  shows "ctx_ok i (clear_event event c) (registration (fc_events c AND NOT event))"
    and "event_count (clear_event event c) = event_count c - 1"
proof -
  have ev: "fc_events c = 0 \<or> fc_events c = READ \<or> fc_events c = WRITE \<or> fc_events c = 5"
    using assms(1) by (auto simp: ctx_ok_def ev_sets_def ev_table)
  then show "event_count (clear_event event c) = event_count c - 1"
    using assms(2,3) by (elim disjE) (simp_all add: event_count_def clear_event_def putContext_def ev_table)
  show "ctx_ok i (clear_event event c) (registration (fc_events c AND NOT event))"
    using ev assms by (elim disjE) (simp_all add: ctx_ok_def clear_event_def putContext_def ev_sets_def waiting_def ev_table)
qed

text \<open>Putting an event with its task into a context.\<close>

lemma ctx_ok_add:
  assumes "ctx_ok i c k" and "event = READ \<or> event = WRITE" and "fc_events c AND event = 0" and "waiting True e"
  shows "ctx_ok i (putContext event e (c\<lparr>fc_events := fc_events c OR event\<rparr>)) (Some (EPOLLET OR fc_events c OR event))"
    and "event_count (putContext event e (c\<lparr>fc_events := fc_events c OR event\<rparr>)) = event_count c + 1"
proof -
  have ev: "fc_events c = 0 \<or> fc_events c = READ \<or> fc_events c = WRITE \<or> fc_events c = 5"
    using assms(1) by (auto simp: ctx_ok_def ev_sets_def ev_table)
  then show "event_count (putContext event e (c\<lparr>fc_events := fc_events c OR event\<rparr>)) = event_count c + 1"
    using assms(2,3) by (elim disjE) (simp_all add: event_count_def putContext_def ev_table)
  show "ctx_ok i (putContext event e (c\<lparr>fc_events := fc_events c OR event\<rparr>)) (Some (EPOLLET OR fc_events c OR event))"
    using ev assms
    by (elim disjE)
      (simp_all add: ctx_ok_def putContext_def ev_sets_def waiting_def registration_def ev_table)
qed

section \<open>Triggering\<close>

text \<open>The task stored for an event.\<close>

definition stored_task :: "u32 \<Rightarrow> fd_context \<Rightarrow> fiber_or_cb" where
  "stored_task event c =
     (let e = (if event = READ then fc_read c else fc_write c)
      in if ec_cb e \<noteq> None then Function (ec_cb e) else FiberPtr (ec_fiber e))"

definition stored_scheduler :: "u32 \<Rightarrow> fd_context \<Rightarrow> nat option" where
  "stored_scheduler event c = ec_scheduler (if event = READ then fc_read c else fc_write c)"

lemma triggerEvent_effect:
  assumes "triggerEvent i event w = (Inr es, w')" and "i < length (m_fdContexts w)"
    and "event = READ \<or> event = WRITE" and "ctx_ok i (m_fdContexts w ! i) k"
  shows "fc_events (m_fdContexts w ! i) AND event \<noteq> 0"
    and "io_view w' = ((m_fdContexts w)[i := clear_event event (m_fdContexts w ! i)], interest w, m_pendingEventCount w)"
    and "stored_scheduler event (m_fdContexts w ! i) \<noteq> None"
    and "m_fibers w' = m_fibers w @ (if stored_scheduler event (m_fdContexts w ! i) = Some 0
           then [FiberAndThread (stored_task event (m_fdContexts w ! i)) (- 1)] else [])"
proof -
  let ?c = "m_fdContexts w ! i"
  let ?e = "if event = READ then fc_read ?c else fc_write ?c"
  let ?c1 = "?c\<lparr>fc_events := fc_events ?c AND NOT event\<rparr>"
  show ev: "fc_events ?c AND event \<noteq> 0"
    using assms(1) by (auto simp: triggerEvent_def Let_def)
  have e: "getContext event ?c1 = Inr ?e" using assms(3) by (auto simp: getContext_def)
  have wait: "(ec_cb ?e = None) \<noteq> (ec_fiber ?e = None)"
    using assms(3,4) ev by (auto simp: ctx_ok_def waiting_def)
  define w2 where "w2 = set_ctx i (clear_event event ?c) w"
  have clr: "(if ec_cb ?e \<noteq> None then ?e\<lparr>ec_cb := None, ec_scheduler := None\<rparr>
      else ?e\<lparr>ec_fiber := None, ec_scheduler := None\<rparr>) = no_context"
    using wait by (auto simp: no_context_def)
  obtain s where s: "ec_scheduler ?e = Some s"
    using assms(1) ev e by (cases "ec_scheduler ?e") (auto simp: triggerEvent_def Let_def)
  have "triggerEvent i event w = (if s = 0 then IOManager_schedule (stored_task event ?c) (- 1) w2 else (Inr [], w2))"
    using ev e s clr by (simp add: triggerEvent_def Let_def stored_task_def set_ctx_def clear_event_def w2_def)
  then have r: "(if s = 0 then IOManager_schedule (stored_task event ?c) (- 1) w2 else (Inr [], w2)) = (Inr es, w')"
    using assms(1) by simp
  have st: "tasks_of (FiberAndThread (stored_task event ?c) (- 1)) = [FiberAndThread (stored_task event ?c) (- 1)]"
    using wait by (auto simp: tasks_of_def stored_task_def Let_def)
  have "io_view w' = io_view w2 \<and> m_fibers w' = m_fibers w2 @
      (if s = 0 then [FiberAndThread (stored_task event ?c) (- 1)] else [])"
    using r IOManager_schedule_effect [of "stored_task event ?c" "- 1" w2 es w'] st by (auto split: if_splits)
  then show "io_view w' = ((m_fdContexts w)[i := clear_event event ?c], interest w, m_pendingEventCount w)"
    and "stored_scheduler event ?c \<noteq> None"
    and "m_fibers w' = m_fibers w @ (if stored_scheduler event ?c = Some 0
           then [FiberAndThread (stored_task event ?c) (- 1)] else [])"
    using s by (auto simp: w2_def set_ctx_def io_view_def stored_scheduler_def)
qed

lemma triggerEvent_succeeds:
  assumes "event = READ \<or> event = WRITE" and "fc_events (m_fdContexts w ! i) AND event \<noteq> 0"
    and "stored_scheduler event (m_fdContexts w ! i) \<noteq> None"
  shows "\<exists>es w'. triggerEvent i event w = (Inr es, w')"
  using assms
  by (auto simp: triggerEvent_def getContext_def stored_scheduler_def IOManager_schedule_def Scheduler_schedule_def
      andthen_def Let_def split: prod.splits)

lemma triggerEvent_fails: "fc_events (m_fdContexts w ! i) AND event = 0 \<Longrightarrow> triggerEvent i event w = (Inl AssertFail, w)"
  by (simp add: triggerEvent_def)

text \<open>The context after a conditional trigger.\<close>

definition cleared_if :: "u32 \<Rightarrow> u32 \<Rightarrow> fd_context \<Rightarrow> fd_context" where
  "cleared_if evs event c = (if evs AND event \<noteq> 0 then clear_event event c else c)"

lemma trigger_if_effect:
  assumes "trigger_if evs i event w = (Inr es, w')" and "i < length (m_fdContexts w)"
    and "event = READ \<or> event = WRITE" and "ctx_ok i (m_fdContexts w ! i) k"
  shows "ctx_ok i (cleared_if evs event (m_fdContexts w ! i)) (registration (fc_events (cleared_if evs event (m_fdContexts w ! i))))"
    and "io_view w' = ((m_fdContexts w)[i := cleared_if evs event (m_fdContexts w ! i)], interest w,
           m_pendingEventCount w - event_count (m_fdContexts w ! i) + event_count (cleared_if evs event (m_fdContexts w ! i)))"
proof -
  let ?c = "m_fdContexts w ! i"
  have k: "ctx_ok i ?c (registration (fc_events ?c))" using assms(4) by (simp add: ctx_ok_def)
  have "ctx_ok i (cleared_if evs event ?c) (registration (fc_events (cleared_if evs event ?c))) \<and>
    io_view w' = ((m_fdContexts w)[i := cleared_if evs event ?c], interest w,
           m_pendingEventCount w - event_count ?c + event_count (cleared_if evs event ?c))"
  proof (cases "evs AND event = 0")
    case True
    then show ?thesis using assms(1) k by (simp add: trigger_if_def cleared_if_def io_view_def)
  next
    case False
    then obtain w1 where t: "triggerEvent i event w = (Inr es, w1)" "w' = pending_dec w1"
      using assms(1) by (auto simp: trigger_if_def elim!: andthen_eq_InrE)
    note te = triggerEvent_effect [OF t(1) assms(2,3) k]
    have "fc_events (clear_event event ?c) = fc_events ?c AND NOT event"
      by (simp add: clear_event_def putContext_def)
    then show ?thesis
      using False t(2) te(1,2) ctx_ok_clear [OF k assms(3) te(1)]
      by (auto simp: cleared_if_def pending_dec_def io_view_def)
  qed
  then show "ctx_ok i (cleared_if evs event ?c) (registration (fc_events (cleared_if evs event ?c)))"
    and "io_view w' = ((m_fdContexts w)[i := cleared_if evs event ?c], interest w,
           m_pendingEventCount w - event_count ?c + event_count (cleared_if evs event ?c))"
    by blast+
qed

section \<open>The operations keep the invariant\<close>

lemma epoll_ctl_view:
  "epoll_ctl fail op fd ev w = (0, w') \<Longrightarrow>
     io_view w' = (m_fdContexts w, (interest w)(fd := (if op = EPOLL_CTL_DEL then None else Some ev)), m_pendingEventCount w)
     \<and> m_fibers w' = m_fibers w \<and> t_scheduler w' = t_scheduler w"
  "epoll_ctl fail op fd ev w = (r, w') \<Longrightarrow> r \<noteq> 0 \<Longrightarrow> w' = w"
  by (auto simp: epoll_ctl_def io_view_def split: if_splits)

lemma epoll_ctl_registered:
  "interest w fd \<noteq> None \<Longrightarrow> op \<noteq> EPOLL_CTL_ADD \<Longrightarrow> \<exists>w1. epoll_ctl False op fd ev w = (0, w1)"
  by (simp add: epoll_ctl_def)

lemma unregister_effect:
  assumes "unregister fail fd event w = (Inr r, w')"
  shows "case r of None \<Rightarrow> w' = w
    | Some i \<Rightarrow> i = nat fd \<and> 0 \<le> fd \<and> nat fd < length (m_fdContexts w) \<and> fc_events (m_fdContexts w ! i) AND event \<noteq> 0
        \<and> m_fibers w' = m_fibers w
        \<and> io_view w' = (m_fdContexts w, (interest w)(fd := registration (fc_events (m_fdContexts w ! i) AND NOT event)),
             m_pendingEventCount w)"
proof (cases "0 \<le> fd \<and> fd < int (length (m_fdContexts w)) \<and> fc_events (m_fdContexts w ! nat fd) AND event \<noteq> 0")
  case False
  then show ?thesis using assms by (auto simp: unregister_def Let_def split: if_splits)
next
  case True
  let ?new = "fc_events (m_fdContexts w ! nat fd) AND NOT event"
  let ?op = "if ?new \<noteq> 0 then EPOLL_CTL_MOD else EPOLL_CTL_DEL"
  obtain rt w1 where c: "epoll_ctl fail ?op fd (EPOLLET OR ?new) w = (rt, w1)" by (metis prod.exhaust)
  show ?thesis
  proof (cases "rt = 0")
    case False
    then show ?thesis using assms True c epoll_ctl_view(2) [OF c] by (auto simp: unregister_def Let_def)
  next
    case rt: True
    have "r = Some (nat fd)" "w' = w1" using assms True c rt by (auto simp: unregister_def Let_def)
    moreover have "nat fd < length (m_fdContexts w)" using True by auto
    ultimately show ?thesis
      using True epoll_ctl_view(1) [OF c [unfolded rt]] by (auto simp: registration_def)
  qed
qed

lemma delEvent_effect:
  assumes "IOManager_delEvent fail fd event w = (Inr r, w')" and "io_inv w" and "event = READ \<or> event = WRITE"
  shows "if r then 0 \<le> fd \<and> nat fd < length (m_fdContexts w) \<and> fc_events (m_fdContexts w ! nat fd) AND event \<noteq> 0
      \<and> m_fibers w' = m_fibers w
      \<and> io_view w' = ((m_fdContexts w)[nat fd := clear_event event (m_fdContexts w ! nat fd)],
          (interest w)(fd := registration (fc_events (m_fdContexts w ! nat fd) AND NOT event)), m_pendingEventCount w - 1)
    else w' = w"
proof -
  obtain u w1 where u: "unregister fail fd event w = (Inr u, w1)"
    "(case u of None \<Rightarrow> (Inr False, w1)
       | Some i \<Rightarrow>
           let c = (m_fdContexts w1 ! i)\<lparr>fc_events := fc_events (m_fdContexts w1 ! i) AND NOT event\<rparr>;
               w2 = set_ctx i c (pending_dec w1) in
           case getContext event c of
             Inl e \<Rightarrow> (Inl e, w2)
           | Inr ec \<Rightarrow> (Inr True, set_ctx i (putContext event no_context c) w2)) = (Inr r, w')"
    using assms(1) unfolding IOManager_delEvent_def by (elim andthen_eq_InrE)
  show ?thesis
    using unregister_effect [OF u(1)] u(2) assms(3)
    by (cases u)
      (auto simp: Let_def getContext_def set_ctx_def pending_dec_def io_view_def clear_event_def)
qed

lemma cancelEvent_effect:
  assumes "IOManager_cancelEvent fail fd event w = (Inr (r, es), w')" and "io_inv w" and "event = READ \<or> event = WRITE"
  shows "if r then 0 \<le> fd \<and> nat fd < length (m_fdContexts w) \<and> fc_events (m_fdContexts w ! nat fd) AND event \<noteq> 0
      \<and> m_fibers w' = m_fibers w @ (if stored_scheduler event (m_fdContexts w ! nat fd) = Some 0
           then [FiberAndThread (stored_task event (m_fdContexts w ! nat fd)) (- 1)] else [])
      \<and> io_view w' = ((m_fdContexts w)[nat fd := clear_event event (m_fdContexts w ! nat fd)],
          (interest w)(fd := registration (fc_events (m_fdContexts w ! nat fd) AND NOT event)), m_pendingEventCount w - 1)
    else w' = w"
proof -
  obtain u w1 where u: "unregister fail fd event w = (Inr u, w1)"
    "(case u of None \<Rightarrow> (Inr (False, []), w1)
       | Some i \<Rightarrow> andthen (triggerEvent i event) (\<lambda>es w. (Inr (True, es), pending_dec w)) w1) = (Inr (r, es), w')"
    using assms(1) unfolding IOManager_cancelEvent_def by (elim andthen_eq_InrE)
  note ue = unregister_effect [OF u(1)]
  show ?thesis
  proof (cases u)
    case None
    then show ?thesis using ue u(2) by simp
  next
    case (Some i)
    then obtain w2 where t: "r" "triggerEvent i event w1 = (Inr es, w2)" "w' = pending_dec w2"
      using u(2) by (auto elim!: andthen_eq_InrE)
    have i: "i = nat fd" "i < length (m_fdContexts w)" "m_fdContexts w1 = m_fdContexts w"
      using ue Some by (auto simp: io_view_def)
    then have ok: "ctx_ok i (m_fdContexts w1 ! i) (interest w (int i))" using assms(2) by (auto simp: io_inv_def)
    from triggerEvent_effect [OF t(2) _ assms(3) ok] show ?thesis
      using t i ue Some by (auto simp: io_view_def pending_dec_def)
  qed
qed

lemma cancelEvent_total:
  assumes "io_inv w" and "event = READ \<or> event = WRITE" and "0 \<le> fd" and "nat fd < length (m_fdContexts w)"
    and "stored_scheduler event (m_fdContexts w ! nat fd) = Some 0"
  obtains es w' where "IOManager_cancelEvent fail fd event w =
     (Inr (fc_events (m_fdContexts w ! nat fd) AND event \<noteq> 0 \<and> \<not> fail, es), w')"
proof -
  let ?c = "m_fdContexts w ! nat fd"
  have "ctx_ok (nat fd) ?c (interest w fd)" using assms(1,3,4) by (auto simp: io_inv_def)
  then have reg: "interest w fd = None \<longleftrightarrow> fc_events ?c = 0" by (simp add: ctx_ok_def registration_def)
  have "\<exists>w1. unregister fail fd event w = (Inr (if fc_events ?c AND event \<noteq> 0 \<and> \<not> fail then Some (nat fd) else None), w1)
      \<and> m_fdContexts w1 = m_fdContexts w"
    using assms(3,4) reg by (auto simp: unregister_def epoll_ctl_def Let_def)
  then obtain w1 where w1: "unregister fail fd event w =
      (Inr (if fc_events ?c AND event \<noteq> 0 \<and> \<not> fail then Some (nat fd) else None), w1)" "m_fdContexts w1 = m_fdContexts w"
    by blast
  show thesis
  proof (cases "fc_events ?c AND event \<noteq> 0 \<and> \<not> fail")
    case True
    then obtain es w2 where "triggerEvent (nat fd) event w1 = (Inr es, w2)"
      using triggerEvent_succeeds [OF assms(2), of w1 "nat fd"] w1(2) assms(5) by auto
    then show thesis using that True w1(1) by (simp add: IOManager_cancelEvent_def andthen_def)
  next
    case False
    then show thesis using that w1(1) by (auto simp: IOManager_cancelEvent_def andthen_def)
  qed
qed

lemma clear_inv:
  assumes "io_inv w" and "i < length (m_fdContexts w)" and "event = READ \<or> event = WRITE"
    and "fc_events (m_fdContexts w ! i) AND event \<noteq> 0"
    and "io_view w' = ((m_fdContexts w)[i := clear_event event (m_fdContexts w ! i)],
          (interest w)(int i := registration (fc_events (m_fdContexts w ! i) AND NOT event)), m_pendingEventCount w - 1)"
  shows "io_inv w'"
proof -
  have ok: "ctx_ok i (m_fdContexts w ! i) (interest w (int i))" using assms(1,2) by (simp add: io_inv_def)
  show ?thesis
    by (rule io_inv_change [OF assms(1,2), where c = "clear_event event (m_fdContexts w ! i)"])
      (use assms(5) ctx_ok_clear [OF ok assms(3,4)] in auto)
qed

lemma delEvent_inv:
  "IOManager_delEvent fail fd event w = (Inr r, w') \<Longrightarrow> io_inv w \<Longrightarrow> event = READ \<or> event = WRITE \<Longrightarrow> io_inv w'"
  using delEvent_effect [of fail fd event w r w'] clear_inv [of w "nat fd" event w'] by (auto split: if_splits)

lemma cancelEvent_inv:
  "IOManager_cancelEvent fail fd event w = (Inr (r, es), w') \<Longrightarrow> io_inv w \<Longrightarrow> event = READ \<or> event = WRITE \<Longrightarrow> io_inv w'"
  using cancelEvent_effect [of fail fd event w r es w'] clear_inv [of w "nat fd" event w'] by (auto split: if_splits)

text \<open>Two conditional triggers in a row, as \<open>cancelAll\<close> and \<open>idle\<close> make them.\<close>

lemma two_triggers:
  assumes "trigger_if evs1 i READ w = (Inr es1, w1)" and "trigger_if evs2 i WRITE w1 = (Inr es2, w2)"
    and "i < length (m_fdContexts w)" and "ctx_ok i (m_fdContexts w ! i) k"
  shows "let c2 = cleared_if evs2 WRITE (cleared_if evs1 READ (m_fdContexts w ! i)) in
    ctx_ok i c2 (registration (fc_events c2)) \<and>
    io_view w2 = ((m_fdContexts w)[i := c2], interest w,
      m_pendingEventCount w - event_count (m_fdContexts w ! i) + event_count c2)"
proof -
  let ?c1 = "cleared_if evs1 READ (m_fdContexts w ! i)"
  note t1 = trigger_if_effect [OF assms(1,3) disjI1 [OF refl] assms(4)]
  have c1: "m_fdContexts w1 ! i = ?c1" "i < length (m_fdContexts w1)"
    using t1(2) assms(3) by (auto simp: io_view_def)
  then have ok1: "ctx_ok i (m_fdContexts w1 ! i) (registration (fc_events ?c1))" using t1(1) by simp
  note t2 = trigger_if_effect [OF assms(2) c1(2) disjI2 [OF refl] ok1]
  show ?thesis using t1 t2 c1 by (auto simp: Let_def io_view_def)
qed

lemma io_inv_triggers:
  assumes "io_inv w" and "i < length (m_fdContexts w)"
    and "io_view w1 = (m_fdContexts w, (interest w)(int i := registration left), m_pendingEventCount w)"
    and "trigger_if evs1 i READ w1 = (Inr es1, w2)" and "trigger_if evs2 i WRITE w2 = (Inr es2, w3)"
    and "fc_events (cleared_if evs2 WRITE (cleared_if evs1 READ (m_fdContexts w ! i))) = left"
  shows "io_inv w3"
proof -
  have v: "m_fdContexts w1 = m_fdContexts w" "interest w1 = (interest w)(int i := registration left)"
    "m_pendingEventCount w1 = m_pendingEventCount w"
    using assms(3) by (auto simp: io_view_def)
  have "ctx_ok i (m_fdContexts w1 ! i) (interest w (int i))" using assms(1,2) v by (simp add: io_inv_def)
  from two_triggers [OF assms(4,5) _ this] show ?thesis
    using assms(2,6) v
    by (intro io_inv_change [OF assms(1,2)]) (auto simp: Let_def)
qed

lemma cancelAll_inv:
  assumes "IOManager_cancelAll fail fd w = (Inr (r, es), w')" and "io_inv w"
  shows "io_inv w'"
proof (cases "0 \<le> fd \<and> fd < int (length (m_fdContexts w)) \<and> fc_events (m_fdContexts w ! nat fd) \<noteq> 0")
  case False
  then show ?thesis using assms by (auto simp: IOManager_cancelAll_def split: if_splits)
next
  case True
  let ?c = "m_fdContexts w ! nat fd"
  obtain rt w1 where c: "epoll_ctl fail EPOLL_CTL_DEL fd 0 w = (rt, w1)" by (metis prod.exhaust)
  show ?thesis
  proof (cases "rt = 0")
    case False
    then show ?thesis using assms True c epoll_ctl_view(2) [OF c] by (auto simp: IOManager_cancelAll_def)
  next
    case rt: True
    obtain es1 w2 es2 w3 where
      t: "trigger_if (fc_events (m_fdContexts w1 ! nat fd)) (nat fd) READ w1 = (Inr es1, w2)"
        "trigger_if (fc_events (m_fdContexts w2 ! nat fd)) (nat fd) WRITE w2 = (Inr es2, w3)"
        "fc_events (m_fdContexts w3 ! nat fd) = 0" "w' = w3"
      using assms(1) True c rt by (auto simp: IOManager_cancelAll_def split: if_splits elim!: andthen_eq_InrE)
    have v: "io_view w1 = (m_fdContexts w, (interest w)(int (nat fd) := registration 0), m_pendingEventCount w)"
      using epoll_ctl_view(1) [OF c [unfolded rt]] True by (simp add: registration_def)
    have i: "nat fd < length (m_fdContexts w)" using True by auto
    have "ctx_ok (nat fd) (m_fdContexts w1 ! nat fd) (interest w (int (nat fd)))"
      using assms(2) i v by (auto simp: io_inv_def io_view_def)
    from two_triggers [OF t(1,2) _ this] i v t(3)
    have "fc_events (cleared_if (fc_events (m_fdContexts w2 ! nat fd)) WRITE
        (cleared_if (fc_events (m_fdContexts w1 ! nat fd)) READ ?c)) = 0"
      by (auto simp: Let_def io_view_def)
    from io_inv_triggers [OF assms(2) i v t(1,2) this] show ?thesis using t(4) by simp
  qed
qed

lemma real_events_sets: "real_events_of a b \<in> ev_sets"
  by (auto simp: real_events_of_def ev_sets_def Let_def)

lemma idle_report_inv:
  assumes "idle_report fail r w = (Inr es, w')" and "io_inv w"
    and "\<forall>i ev. r = FdReady i ev \<longrightarrow> i < length (m_fdContexts w)"
  shows "io_inv w'"
proof (cases r)
  case PipeReady
  then have "w' = w\<lparr>pipe_bytes := 0\<rparr>" using assms(1) by simp
  then show ?thesis using assms(2) io_inv_view [of "w\<lparr>pipe_bytes := 0\<rparr>" w] by simp
next
  case (FdReady i ev)
  let ?c = "m_fdContexts w ! i" and ?real = "real_events_of ev (fc_events (m_fdContexts w ! i))"
  let ?left = "fc_events ?c AND NOT ?real"
  let ?op = "if ?left \<noteq> 0 then EPOLL_CTL_MOD else EPOLL_CTL_DEL"
  have i: "i < length (m_fdContexts w)" using assms(3) FdReady by simp
  then have ok: "ctx_ok i ?c (interest w (int i))" using assms(2) by (simp add: io_inv_def)
  obtain rt w1 where c: "epoll_ctl fail ?op (fc_fd ?c) (EPOLLET OR ?left) w = (rt, w1)" by (metis prod.exhaust)
  show ?thesis
  proof (cases "fc_events ?c AND ?real = 0 \<or> rt \<noteq> 0")
    case True
    then show ?thesis
      using assms(1,2) FdReady c epoll_ctl_view(2) [OF c] by (auto simp: Let_def split: if_splits)
  next
    case False
    then obtain es1 w2 es2 where
      t: "trigger_if ?real i READ w1 = (Inr es1, w2)" "trigger_if ?real i WRITE w2 = (Inr es2, w')"
      using assms(1) FdReady c by (auto simp: Let_def elim!: andthen_eq_InrE)
    have v: "io_view w1 = (m_fdContexts w, (interest w)(int i := registration ?left), m_pendingEventCount w)"
      using epoll_ctl_view(1) [of fail ?op "fc_fd ?c" "EPOLLET OR ?left" w w1] c False ok
      by (auto simp: registration_def ctx_ok_def)
    have cs: "fc_events ?c = 0 \<or> fc_events ?c = READ \<or> fc_events ?c = WRITE \<or> fc_events ?c = 5"
      and rs: "?real = 0 \<or> ?real = READ \<or> ?real = WRITE \<or> ?real = 5"
      using ok real_events_sets [of ev "fc_events ?c"] by (auto simp: ctx_ok_def ev_sets_def ev_table)
    have "fc_events (cleared_if ?real WRITE (cleared_if ?real READ ?c)) = ?left"
      using cs rs by (elim disjE) (simp_all add: cleared_if_def clear_event_def putContext_def ev_table)
    from io_inv_triggers [OF assms(2) i v t this] show ?thesis .
  qed
qed

lemma fresh_ok: "ctx_ok i (fresh_context i) None" "event_count (fresh_context i) = 0"
  by (simp_all add: ctx_ok_def fresh_context_def ev_sets_def registration_def waiting_def event_count_def)

lemma contextResize_inv:
  assumes "io_inv w" and "length (m_fdContexts w) \<le> n"
  shows "io_inv (IOManager_contextResize n w)"
proof -
  let ?cs = "m_fdContexts w"
  have eq: "m_fdContexts (IOManager_contextResize n w) = ?cs @ map fresh_context [length ?cs..<n]"
    "interest (IOManager_contextResize n w) = interest w"
    "m_pendingEventCount (IOManager_contextResize n w) = m_pendingEventCount w"
    using assms(2) by (simp_all add: IOManager_contextResize_def)
  have "ctx_ok i ((?cs @ map fresh_context [length ?cs..<n]) ! i) (interest w (int i))" if "i < n" for i
    using assms that fresh_ok(1) by (auto simp: io_inv_def nth_append)
  moreover have "sum_list (map event_count (map fresh_context [length ?cs..<n])) = 0"
    by (induction "[length ?cs..<n]") (simp_all add: fresh_ok(2) comp_def)
  ultimately show ?thesis using assms by (auto simp: io_inv_def eq)
qed

lemma locate_effect:
  assumes "locate fd w = (Inr i, w')" and "io_inv w"
  shows "i = nat fd \<and> 0 \<le> fd \<and> i < length (m_fdContexts w') \<and> io_inv w' \<and> t_scheduler w' = t_scheduler w"
proof (cases "int (length (m_fdContexts w)) > fd")
  case True
  then show ?thesis using assms by (auto simp: locate_def split: if_splits)
next
  case False
  have "32 \<le> length (m_fdContexts w)" using assms(2) by (simp add: io_inv_def)
  then have "length (m_fdContexts w) \<le> grown fd" using False grown_bound [of fd] by linarith
  from contextResize_inv [OF assms(2) this] show ?thesis
    using False assms(1) by (auto simp: locate_def Let_def IOManager_contextResize_def split: if_splits)
qed

lemma addEvent_locked_effect:
  assumes "addEvent_locked t fail fd event cb i w = (Inr r, w')" and "io_inv w"
    and "i = nat fd" and "0 \<le> fd" and "i < length (m_fdContexts w)"
  shows "(r = 0 \<or> r = - 1) \<and>
    (if r = 0 then event = READ \<or> event = WRITE else w' = w) \<and>
    (r = 0 \<longrightarrow> fc_events (m_fdContexts w ! i) AND event = 0 \<and> (\<exists>e. waiting True e \<and>
       (ec_scheduler e, ec_cb e) = (t_scheduler w t, cb) \<and>
       io_view w' = ((m_fdContexts w)[i := putContext event e ((m_fdContexts w ! i)\<lparr>fc_events := fc_events (m_fdContexts w ! i) OR event\<rparr>)],
         (interest w)(fd := Some (EPOLLET OR fc_events (m_fdContexts w ! i) OR event)), m_pendingEventCount w + 1)))"
proof -
  let ?c = "m_fdContexts w ! i"
  let ?c1 = "?c\<lparr>fc_events := fc_events ?c OR event\<rparr>"
  let ?op = "if fc_events ?c \<noteq> 0 then EPOLL_CTL_MOD else EPOLL_CTL_ADD"
  obtain rt w1 where c: "epoll_ctl fail ?op fd (EPOLLET OR fc_events ?c OR event) w = (rt, w1)" by (metis prod.exhaust)
  have ev: "fc_events ?c AND event = 0" using assms(1) by (auto simp: addEvent_locked_def Let_def split: if_splits)
  show ?thesis
  proof (cases "rt = 0")
    case False
    then show ?thesis using assms(1) ev c epoll_ctl_view(2) [OF c] by (auto simp: addEvent_locked_def Let_def)
  next
    case rt: True
    note v = epoll_ctl_view(1) [OF c [unfolded rt]]
    define w2 where "w2 = set_ctx i ?c1 (w1\<lparr>m_pendingEventCount := m_pendingEventCount w1 + 1\<rparr>)"
    have v2: "io_view w2 = ((m_fdContexts w)[i := ?c1], (interest w)(fd := Some (EPOLLET OR fc_events ?c OR event)),
        m_pendingEventCount w + 1)" "t_scheduler w2 = t_scheduler w"
      using v by (auto simp: w2_def set_ctx_def io_view_def)
    have run: "addEvent_attach t event cb i ?c1 w2 = (Inr r, w')"
      using assms(1) ev c rt by (simp add: addEvent_locked_def Let_def w2_def)
    then have kind: "event = READ \<or> event = WRITE" and nc: "getContext event ?c1 = Inr no_context"
      by (auto simp: addEvent_attach_def getContext_def split: sum.splits if_splits)
    show ?thesis
    proof (cases cb)
      case (Some f)
      then have "r = 0" "w' = set_ctx i (putContext event (no_context\<lparr>ec_scheduler := t_scheduler w2 t, ec_cb := cb\<rparr>) ?c1) w2"
        using run nc by (auto simp: addEvent_attach_def)
      moreover have "waiting True (no_context\<lparr>ec_scheduler := t_scheduler w2 t, ec_cb := cb\<rparr>)"
        using Some by (simp add: waiting_def no_context_def)
      ultimately show ?thesis using kind ev v2
        by (auto simp: set_ctx_def io_view_def intro!: exI [of _ "no_context\<lparr>ec_scheduler := t_scheduler w2 t, ec_cb := cb\<rparr>"])
    next
      case None
      then obtain f w3 where f: "Fiber_GetThis t w2 = (Inr f, w3)" "r = 0"
        "w' = set_ctx i (putContext event (no_context\<lparr>ec_scheduler := t_scheduler w2 t, ec_fiber := Some f\<rparr>) ?c1) w3"
        using run nc by (auto simp: addEvent_attach_def Let_def elim!: andthen_eq_InrE split: if_splits)
      have "waiting True (no_context\<lparr>ec_scheduler := t_scheduler w2 t, ec_fiber := Some f\<rparr>)"
        by (simp add: waiting_def no_context_def)
      then show ?thesis using kind ev v2 f(2,3) fiber_ops_view(1) [OF f(1)] None
        by (auto simp: set_ctx_def io_view_def no_context_def
            intro!: exI [of _ "no_context\<lparr>ec_scheduler := t_scheduler w2 t, ec_fiber := Some f\<rparr>"])
    qed
  qed
qed

lemma addEvent_inv:
  assumes "IOManager_addEvent t fail fd event cb w = (Inr r, w')" and "io_inv w"
  shows "io_inv w'"
proof -
  obtain i w1 where l: "locate fd w = (Inr i, w1)" "addEvent_locked t fail fd event cb i w1 = (Inr r, w')"
    using assms(1) unfolding IOManager_addEvent_def by (elim andthen_eq_InrE)
  note le = locate_effect [OF l(1) assms(2)]
  then have ok: "ctx_ok i (m_fdContexts w1 ! i) (interest w1 (int i))" unfolding io_inv_def by blast
  have pre: "io_inv w1" "i = nat fd" "0 \<le> fd" "i < length (m_fdContexts w1)" using le by auto
  note ae = addEvent_locked_effect [OF l(2) pre]
  show ?thesis
  proof (cases "r = 0")
    case True
    then have kind: "event = READ \<or> event = WRITE" and free: "fc_events (m_fdContexts w1 ! i) AND event = 0"
      using ae by simp_all
    obtain e where e: "waiting True e"
      "io_view w' = ((m_fdContexts w1)[i := putContext event e ((m_fdContexts w1 ! i)\<lparr>fc_events := fc_events (m_fdContexts w1 ! i) OR event\<rparr>)],
         (interest w1)(fd := Some (EPOLLET OR fc_events (m_fdContexts w1 ! i) OR event)), m_pendingEventCount w1 + 1)"
      using mp [OF conjunct2 [OF conjunct2 [OF ae]] True] by blast
    note add = ctx_ok_add [OF ok kind free e(1)]
    have "int i = fd" using pre by simp
    then show ?thesis
      by (intro io_inv_change [OF pre(1,4) _ add(1)]) (simp only: e(2) add(2), simp)
  next
    case False
    then show ?thesis using ae pre(1) by simp
  qed
qed

section \<open>Reachable states\<close>

text \<open>
  The steps of a manager: registrations, cancellations, reports of the kernel about existing contexts, and any step of
  threads, fibers, timers or callers that does not touch the event table.
\<close>

inductive io_reach :: "iom \<Rightarrow> iom \<Rightarrow> bool" for w0 where
  io_start: "io_reach w0 w0"
| io_add: "io_reach w0 w \<Longrightarrow> IOManager_addEvent t fail fd event cb w = (Inr r, w') \<Longrightarrow> io_reach w0 w'"
| io_del: "io_reach w0 w \<Longrightarrow> event = READ \<or> event = WRITE \<Longrightarrow>
    IOManager_delEvent fail fd event w = (Inr r, w') \<Longrightarrow> io_reach w0 w'"
| io_cancel: "io_reach w0 w \<Longrightarrow> event = READ \<or> event = WRITE \<Longrightarrow>
    IOManager_cancelEvent fail fd event w = (Inr (b, es), w') \<Longrightarrow> io_reach w0 w'"
| io_cancel_all: "io_reach w0 w \<Longrightarrow> IOManager_cancelAll fail fd w = (Inr (b, es), w') \<Longrightarrow> io_reach w0 w'"
| io_report: "io_reach w0 w \<Longrightarrow> \<forall>i ev. rep = FdReady i ev \<longrightarrow> i < length (m_fdContexts w) \<Longrightarrow>
    idle_report fail rep w = (Inr es, w') \<Longrightarrow> io_reach w0 w'"
| io_other: "io_reach w0 w \<Longrightarrow> io_view w' = io_view w \<Longrightarrow> io_reach w0 w'"

lemma io_reach_inv: "io_reach w0 w \<Longrightarrow> io_inv w0 \<Longrightarrow> io_inv w"
proof (induction rule: io_reach.induct)
  case (io_other w w')
  then show ?case using io_inv_view by blast
qed (auto intro: addEvent_inv delEvent_inv cancelEvent_inv cancelAll_inv idle_report_inv)

lemma IOManager_new_inv:
  assumes "IOManager_new cfg t n use_caller name tids sys now w = (Inr es, w0)"
  shows "io_inv w0"
proof -
  obtain es1 w1 where s: "list_all id sys" "Scheduler_start tids (IOManager_contextResize 32 (w1\<lparr>timers := TimerManager_new now,
      m_pendingEventCount := 0, m_fdContexts := [], interest := (\<lambda>_. None), pipe_bytes := 0\<rparr>)) = (Inr es, w0)"
    using assms by (auto simp: IOManager_new_def Let_def elim!: andthen_eq_InrE split: if_splits)
  then have v: "io_view w0 = (map fresh_context [0..<32], (\<lambda>_. None), 0)"
    by (auto simp: Scheduler_start_def IOManager_contextResize_def io_view_def Let_def split: if_splits)
  have "sum_list (map event_count (map fresh_context [0..<32])) = 0"
    by (induction "[0..<32]") (simp_all add: fresh_ok(2) comp_def)
  then show ?thesis using v fresh_ok(1) by (auto simp: io_inv_def io_view_def)
qed



section \<open>A concrete manager\<close>

definition iom_blank :: iom where
  "iom_blank =
     \<lparr>fibers = (\<lambda>_. \<lparr>f_id = 0, m_stacksize = 0, m_state = INIT, m_ctx = Unset, m_stack = False, m_fcb = None\<rparr>),
      f_next = 1, s_fiber_id = 0, s_fiber_count = 0,
      tls = (\<lambda>t. \<lparr>t_fiber = None, t_threadFiber = None, t_scheduler_fiber = None, running = Native t\<rparr>),
      m_fibers = [], m_threads = [], m_rootFiber = None, m_name = [], m_threadIds = [], m_threadCount = 0,
      m_activeThreadCount = 0, m_idleThreadCount = 0, m_stopping = True, m_autoStop = False, m_rootThread = 0,
      t_scheduler = (\<lambda>_. None), pc = (\<lambda>_. NotStarted), cb_fiber = (\<lambda>_. None), idle_fiber = (\<lambda>_. 0),
      timers = TimerManager_new 0, m_pendingEventCount = 0, m_fdContexts = [], interest = (\<lambda>_. None), pipe_bytes = 0\<rparr>"

definition iom_demo :: iom where
  "iom_demo = snd (IOManager_new 1024 0 1 True ''io'' [] [True] 0 iom_blank)"

text \<open>The caller's thread waits for input on descriptor 3 with callback 9.\<close>

definition iom_demo1 :: iom where
  "iom_demo1 = snd (IOManager_addEvent 0 False 3 READ (Some 9) iom_demo)"

lemmas iom_eval =
  IOManager_new_def Scheduler_new_def Scheduler_start_def IOManager_contextResize_def fiber_op_defs Fiber_new_def
  Fiber_main_new_def fiber_upd_def tls_upd_def iom_blank_def

lemma iom_demo_fields:
  "\<exists>es. IOManager_new 1024 0 1 True ''io'' [] [True] 0 iom_blank = (Inr es, iom_demo)"
  "m_fdContexts iom_demo = map fresh_context [0..<32]" "t_scheduler iom_demo 0 = Some 0" "interest iom_demo = (\<lambda>_. None)"
  "m_fibers iom_demo = []"
  unfolding iom_demo_def by (simp_all add: iom_eval del: upt_Suc upt_rec_numeral)

lemma iom_demo1_add:
  "IOManager_addEvent 0 False 3 READ (Some 9) iom_demo = (Inr 0, iom_demo1)"
  "m_fdContexts iom_demo1 ! 3 = \<lparr>fc_read = \<lparr>ec_scheduler = Some 0, ec_fiber = None, ec_cb = Some 9\<rparr>,
     fc_write = no_context, fc_fd = 3, fc_events = READ\<rparr>"
  "length (m_fdContexts iom_demo1) = 32" "m_fibers iom_demo1 = []"
  unfolding iom_demo1_def
  by (simp_all add: IOManager_addEvent_def locate_def addEvent_locked_def addEvent_attach_def epoll_ctl_def set_ctx_def
      putContext_def getContext_def andthen_def fresh_context_def no_context_def iom_demo_fields Let_def
      del: upt_Suc upt_rec_numeral)



section \<open>Stale reports\<close>

lemma trigger_if_total:
  assumes "event = READ \<or> event = WRITE" and "evs AND event \<noteq> 0 \<Longrightarrow> fc_events (m_fdContexts w ! i) AND event \<noteq> 0"
    and "fc_events (m_fdContexts w ! i) AND event \<noteq> 0 \<Longrightarrow> stored_scheduler event (m_fdContexts w ! i) \<noteq> None"
  shows "\<exists>es w'. trigger_if evs i event w = (Inr es, w')"
  using assms triggerEvent_succeeds [of event w i] by (auto simp: trigger_if_def andthen_def)

lemma trigger_if_fails:
  "evs AND event \<noteq> 0 \<Longrightarrow> fc_events (m_fdContexts w ! i) AND event = 0 \<Longrightarrow> fst (trigger_if evs i event w) = Inl AssertFail"
  by (simp add: trigger_if_def triggerEvent_fails andthen_def)

text \<open>
  C23: Stale reports abort the process. In a consistent state whose waiting tasks all have a scheduler, when the kernel call succeeds, handling a report of the kernel
  fails, by the assertion of \<open>triggerEvent\<close>, exactly if the report matches a registered event and also names an event that is no longer
  registered. The report is made before the context's lock is taken, so an event cancelled in between is such a case; the code tests
  only that some reported event is still registered.
\<close>

theorem iomanager_stale_report:
  assumes "io_inv w" and "i < length (m_fdContexts w)"
    and "\<forall>event \<in> {READ, WRITE}. fc_events (m_fdContexts w ! i) AND event \<noteq> 0 \<longrightarrow>
           stored_scheduler event (m_fdContexts w ! i) \<noteq> None"
  shows "let ev = fc_events (m_fdContexts w ! i); real = real_events_of reported ev in
    (fst (idle_report False (FdReady i reported) w) = Inl AssertFail \<longleftrightarrow> ev AND real \<noteq> 0 \<and> real AND NOT ev \<noteq> 0)
    \<and> (ev AND real = 0 \<or> real AND NOT ev = 0 \<longleftrightarrow> (\<exists>es. fst (idle_report False (FdReady i reported) w) = Inr es))"
proof -
  let ?c = "m_fdContexts w ! i"
  let ?ev = "fc_events ?c" let ?real = "real_events_of reported ?ev" let ?left = "?ev AND NOT ?real"
  let ?op = "if ?left \<noteq> 0 then EPOLL_CTL_MOD else EPOLL_CTL_DEL"
  have ok: "ctx_ok i ?c (interest w (int i))" using assms(1,2) by (simp add: io_inv_def)
  have cs: "?ev = 0 \<or> ?ev = READ \<or> ?ev = WRITE \<or> ?ev = 5" and rs: "?real = 0 \<or> ?real = READ \<or> ?real = WRITE \<or> ?real = 5"
    using ok real_events_sets [of reported ?ev] by (auto simp: ctx_ok_def ev_sets_def ev_table)
  show ?thesis
  proof (cases "?ev AND ?real = 0")
    case True
    then show ?thesis by (simp add: Let_def)
  next
    case False
    then have "interest w (fc_fd ?c) \<noteq> None" using ok by (auto simp: ctx_ok_def registration_def)
    moreover have "?op \<noteq> EPOLL_CTL_ADD" by simp
    ultimately obtain w1 where c: "epoll_ctl False ?op (fc_fd ?c) (EPOLLET OR ?left) w = (0, w1)"
      using epoll_ctl_registered by blast
    have cw: "m_fdContexts w1 = m_fdContexts w" using epoll_ctl_view(1) [OF c] by (simp add: io_view_def)
    have run: "idle_report False (FdReady i reported) w = andthen (trigger_if ?real i READ) (\<lambda>es1.
            andthen (trigger_if ?real i WRITE) (\<lambda>es2. ret (es1 @ es2))) w1"
      using False by (simp only: idle_report.simps Let_def c prod.case if_False simp_thms)
    show ?thesis
    proof (cases "?real AND READ \<noteq> 0 \<and> ?ev AND READ = 0")
      case True
      then have "fst (idle_report False (FdReady i reported) w) = Inl AssertFail"
        using trigger_if_fails [of ?real READ w1 i] cw run by (simp add: andthen_def split: prod.splits sum.splits)
      moreover have "?real AND NOT ?ev \<noteq> 0" using True cs rs by (elim disjE) (simp_all add: ev_table)
      ultimately show ?thesis using False by (simp add: Let_def)
    next
      case r: False
      obtain es1 w2 where t1: "trigger_if ?real i READ w1 = (Inr es1, w2)"
        using trigger_if_total [of READ ?real w1 i] r cw assms(3) by auto
      have "ctx_ok i (m_fdContexts w1 ! i) (interest w (int i))" using ok cw by simp
      from trigger_if_effect [OF t1 _ _ this] have c2: "m_fdContexts w2 ! i = cleared_if ?real READ ?c"
        using assms(2) cw by (simp add: io_view_def)
      have w2: "fc_events (m_fdContexts w2 ! i) AND WRITE = ?ev AND WRITE"
        "stored_scheduler WRITE (m_fdContexts w2 ! i) = stored_scheduler WRITE ?c"
        using cs unfolding c2
        by (elim disjE, simp_all add: cleared_if_def clear_event_def putContext_def stored_scheduler_def ev_table)
      have fin: "fst (idle_report False (FdReady i reported) w) =
          (case trigger_if ?real i WRITE w2 of (Inl e, _) \<Rightarrow> Inl e | (Inr es2, _) \<Rightarrow> Inr (es1 @ es2))"
        using run t1 by (simp add: andthen_def split: prod.splits sum.splits)
      show ?thesis
      proof (cases "?real AND WRITE \<noteq> 0 \<and> ?ev AND WRITE = 0")
        case True
        then have "fst (idle_report False (FdReady i reported) w) = Inl AssertFail"
          using trigger_if_fails [of ?real WRITE w2 i] w2(1) fin by (simp split: prod.splits sum.splits)
        moreover have "?real AND NOT ?ev \<noteq> 0" using True cs rs by (elim disjE) (simp_all add: ev_table)
        ultimately show ?thesis using False by (simp add: Let_def)
      next
        case wr: False
        then obtain es2 w3 where "trigger_if ?real i WRITE w2 = (Inr es2, w3)"
          using trigger_if_total [of WRITE ?real w2 i] w2 assms(3) by auto
        then have "fst (idle_report False (FdReady i reported) w) = Inr (es1 @ es2)" using fin by simp
        moreover have "?real AND NOT ?ev = 0" using r wr cs rs by (elim disjE) (simp_all add: ev_table)
        ultimately show ?thesis by (simp add: Let_def)
      qed
    qed
  qed
qed

theorem iomanager_stale_report_witness:
  "fst (idle_report False (FdReady 3 (EPOLLIN OR EPOLLOUT)) iom_demo1) = Inl AssertFail"
proof -
  obtain es where n: "IOManager_new 1024 0 1 True ''io'' [] [True] 0 iom_blank = (Inr es, iom_demo)"
    using iom_demo_fields(1) by blast
  have inv: "io_inv iom_demo1" by (rule addEvent_inv [OF iom_demo1_add(1) IOManager_new_inv [OF n]])
  have sch: "\<forall>event \<in> {READ, WRITE}. fc_events (m_fdContexts iom_demo1 ! 3) AND event \<noteq> 0 \<longrightarrow>
      stored_scheduler event (m_fdContexts iom_demo1 ! 3) \<noteq> None"
    unfolding iom_demo1_add(2) by (simp add: stored_scheduler_def ev_table)
  have real: "real_events_of (EPOLLIN OR EPOLLOUT) READ = 5" by code_simp
  have bits: "(READ AND 5 :: u32) \<noteq> 0" "(5 AND NOT READ :: u32) \<noteq> 0" by (simp_all add: ev_table)
  have ev: "fc_events (m_fdContexts iom_demo1 ! 3) = READ" by (simp add: iom_demo1_add(2))
  from iomanager_stale_report [OF inv, of 3 "EPOLLIN OR EPOLLOUT"] show ?thesis
    using sch bits iom_demo1_add(3) unfolding Let_def ev real by simp
qed

section \<open>The time-out of the wait\<close>

lemma to_int_small:
  assumes "unat v < 2 ^ 31"
  shows "to_int v = int (unat v)"
proof -
  have v: "0 \<le> uint v" "uint v < 2 ^ 31"
    using assms unfolding unat_eq_nat_uint nat_less_iff [OF uint_ge_0] by simp_all
  have "uint (ucast v :: u32) = take_bit 32 (uint v)" by (rule bit_eqI) (auto simp: bit_uint_iff bit_ucast_iff bit_take_bit_iff)
  also have "\<dots> = uint v" using v by (intro take_bit_int_eq_self) simp_all
  finally have u: "uint (ucast v :: u32) = uint v" .
  have "sint (ucast v :: u32) = signed_take_bit 31 (uint (ucast v :: u32))" by (simp add: sint_uint)
  also have "\<dots> = uint v" unfolding u using v by (intro signed_take_bit_int_eq_self) linarith+
  finally show ?thesis by (simp add: to_int_def)
qed


text \<open>
  \<open>addEvent\<close> releases the read lock before it takes the write lock, and then sets the size without looking at it again: when another thread has
  grown the table meanwhile, the table is cut and the contexts above are lost.
\<close>

lemma contextResize_shrinks:
  "length (m_fdContexts (IOManager_contextResize (grown 40) (IOManager_contextResize (grown 1000) iom_demo))) = 60"
  by (simp add: IOManager_contextResize_def grown_def)

end
