(* ===== verification/Mingo_Address.thy ===== *)
theory Mingo_Address
  imports Mingo_ByteArray_Codec Mingo_Text
begin

text \<open>
  \<^verbatim>\<open>mingo/address.cpp\<close>: socket addresses. The \<open>sockaddr\<close> structures are records with the fields in network order as the
  code stores them, and \<open>raw\<close> is their memory. \<open>host\<close> is the byte order of the machine. \<open>getaddrinfo\<close>, \<open>getifaddrs\<close> and
  \<open>inet_pton\<close> are arguments: what they return for the given input. Null pointers are \<open>None\<close>.
\<close>

section \<open>Structures\<close>

abbreviation AF_UNSPEC :: u16 where "AF_UNSPEC \<equiv> 0"
abbreviation AF_UNIX :: u16 where "AF_UNIX \<equiv> 1"
abbreviation AF_INET :: u16 where "AF_INET \<equiv> 2"
abbreviation AF_INET6 :: u16 where "AF_INET6 \<equiv> 10"

record sockaddr_in =
  sin_family :: u16
  sin_port :: u16
  s_addr :: u32
  sin_zero :: "byte list"

record sockaddr_in6 =
  sin6_family :: u16
  sin6_port :: u16
  sin6_flowinfo :: u32
  s6_addr :: "byte list"
  sin6_scope_id :: u32

record sockaddr_un =
  sun_family :: u16
  sun_path :: string
  un_length :: nat

record sockaddr =
  sa_family :: u16
  sa_data :: "byte list"

datatype Address =
    IPv4Address sockaddr_in
  | IPv6Address sockaddr_in6
  | UnixAddress sockaddr_un
  | UnknownAddress sockaddr

fun getAddr :: "endian \<Rightarrow> Address \<Rightarrow> byte list" where
  "getAddr host (IPv4Address a) =
     mem_bytes host (sin_family a) @ mem_bytes host (sin_port a) @ mem_bytes host (s_addr a) @ sin_zero a"
| "getAddr host (IPv6Address a) =
     mem_bytes host (sin6_family a) @ mem_bytes host (sin6_port a) @ mem_bytes host (sin6_flowinfo a)
     @ s6_addr a @ mem_bytes host (sin6_scope_id a)"
| "getAddr host (UnixAddress a) = mem_bytes host (sun_family a) @ map byte_of_char (sun_path a)"
| "getAddr host (UnknownAddress a) = mem_bytes host (sa_family a) @ sa_data a"

fun getAddrLen :: "Address \<Rightarrow> nat" where
  "getAddrLen (IPv4Address a) = 16"
| "getAddrLen (IPv6Address a) = 28"
| "getAddrLen (UnixAddress a) = un_length a"
| "getAddrLen (UnknownAddress a) = 16"

fun Address_getFamily :: "Address \<Rightarrow> u16" where
  "Address_getFamily (IPv4Address a) = sin_family a"
| "Address_getFamily (IPv6Address a) = sin6_family a"
| "Address_getFamily (UnixAddress a) = sun_family a"
| "Address_getFamily (UnknownAddress a) = sa_family a"

section \<open>Masks\<close>

text \<open>\<open>CreateMask\<close>: the shift and the subtraction are made in 32-bit int, then converted.\<close>

definition CreateMask :: "nat \<Rightarrow> nat \<Rightarrow> ('a::len word) res" where
  "CreateMask width bits =
     (let n = sub64 width bits in
      if n \<ge> 32 then Inl BadShift else Inr (ucast (push_bit n (1 :: u32) - 1)))"

function CountBytes :: "'a::len word \<Rightarrow> nat" where
  "CountBytes value = (if value = 0 then 0 else Suc (CountBytes (value AND (value - 1))))"
  by pat_completeness auto
termination
proof (relation "measure unat")
  fix v :: "'a::len word" assume "v \<noteq> 0"
  then have "v AND (v - 1) < v" by (meson measure_unat order.strict_trans1 word_and_le1 word_less_nat_alt)
  then show "(v AND (v - 1), v) \<in> measure unat" by (simp add: word_less_nat_alt)
qed simp

declare CountBytes.simps [simp del]

section \<open>IPv4\<close>

definition IPv4Address_new :: "endian \<Rightarrow> u32 \<Rightarrow> u16 \<Rightarrow> sockaddr_in" where
  "IPv4Address_new host address port =
     \<lparr>sin_family = AF_INET, sin_port = byteswapOnLittleEndian host port,
      s_addr = byteswapOnLittleEndian host address, sin_zero = replicate 8 0\<rparr>"

text \<open>\<open>inet_pton\<close>: the network-order address it stores, or \<open>None\<close> when it does not return 1.\<close>

definition IPv4Address_Create :: "endian \<Rightarrow> (string \<Rightarrow> u32 option) \<Rightarrow> string \<Rightarrow> u16 \<Rightarrow> sockaddr_in option" where
  "IPv4Address_Create host inet_pton address port =
     (let rt = (IPv4Address_new host 0 0)\<lparr>sin_port := byteswapOnLittleEndian host port\<rparr> in
      case inet_pton address of None \<Rightarrow> None | Some a \<Rightarrow> Some (rt\<lparr>s_addr := a\<rparr>))"

definition IPv4Address_insert :: "endian \<Rightarrow> sockaddr_in \<Rightarrow> string" where
  "IPv4Address_insert host a =
     (let addr = byteswapOnLittleEndian host (s_addr a) in
      dec (unat (drop_bit 24 addr AND 0xff)) @ ''.''
      @ dec (unat (drop_bit 16 addr AND 0xff)) @ ''.''
      @ dec (unat (drop_bit 8 addr AND 0xff)) @ ''.''
      @ dec (unat (addr AND 0xff)) @ '':''
      @ dec (unat (byteswapOnLittleEndian host (sin_port a))))"

definition IPv4Address_broadcastAddress :: "endian \<Rightarrow> nat \<Rightarrow> sockaddr_in \<Rightarrow> sockaddr_in option res" where
  "IPv4Address_broadcastAddress host prefix_len a =
     (if prefix_len > 32 then Inr None
      else case CreateMask 32 prefix_len of Inl e \<Rightarrow> Inl e
           | Inr m \<Rightarrow> Inr (Some (a\<lparr>s_addr := s_addr a OR byteswapOnLittleEndian host m\<rparr>)))"

definition IPv4Address_networdAddress :: "endian \<Rightarrow> nat \<Rightarrow> sockaddr_in \<Rightarrow> sockaddr_in option res" where
  "IPv4Address_networdAddress host prefix_len a =
     (if prefix_len > 32 then Inr None
      else case CreateMask 32 prefix_len of Inl e \<Rightarrow> Inl e
           | Inr m \<Rightarrow> Inr (Some (a\<lparr>s_addr := s_addr a AND byteswapOnLittleEndian host m\<rparr>)))"

definition IPv4Address_subnetMask :: "endian \<Rightarrow> nat \<Rightarrow> sockaddr_in res" where
  "IPv4Address_subnetMask host prefix_len =
     (case CreateMask 32 prefix_len of Inl e \<Rightarrow> Inl e
      | Inr m \<Rightarrow> Inr \<lparr>sin_family = AF_INET, sin_port = 0, s_addr = NOT (byteswapOnLittleEndian host m),
                      sin_zero = replicate 8 0\<rparr>)"

definition IPv4Address_getPort :: "endian \<Rightarrow> sockaddr_in \<Rightarrow> u16" where
  "IPv4Address_getPort host a = byteswapOnLittleEndian host (sin_port a)"

definition IPv4Address_setPort :: "endian \<Rightarrow> u16 \<Rightarrow> sockaddr_in \<Rightarrow> sockaddr_in" where
  "IPv4Address_setPort host v a = a\<lparr>sin_port := byteswapOnLittleEndian host v\<rparr>"

section \<open>IPv6\<close>

definition IPv6Address_new :: sockaddr_in6 where
  "IPv6Address_new =
     \<lparr>sin6_family = AF_INET6, sin6_port = 0, sin6_flowinfo = 0, s6_addr = replicate 16 0, sin6_scope_id = 0\<rparr>"

definition IPv6Address_of :: "endian \<Rightarrow> byte list \<Rightarrow> u16 \<Rightarrow> sockaddr_in6" where
  "IPv6Address_of host address port =
     IPv6Address_new\<lparr>sin6_port := byteswapOnLittleEndian host port, s6_addr := take 16 address\<rparr>"

definition IPv6Address_Create :: "endian \<Rightarrow> (string \<Rightarrow> byte list option) \<Rightarrow> string \<Rightarrow> u16 \<Rightarrow> sockaddr_in6 option" where
  "IPv6Address_Create host inet_pton address port =
     (let rt = IPv6Address_new\<lparr>sin6_port := byteswapOnLittleEndian host port\<rparr> in
      case inet_pton address of None \<Rightarrow> None | Some a \<Rightarrow> Some (rt\<lparr>s6_addr := a\<rparr>))"

definition hex_digit :: "nat \<Rightarrow> char" where
  "hex_digit d = (if d < 10 then char_of (48 + d) else char_of (87 + d))"

fun hex :: "nat \<Rightarrow> string" where
  "hex n = (if n < 16 then [hex_digit n] else hex (n div 16) @ [hex_digit (n mod 16)])"

declare hex.simps [simp del]

text \<open>The 16-bit groups as the code reads them from memory, and their values.\<close>

fun groups :: "endian \<Rightarrow> byte list \<Rightarrow> u16 list" where
  "groups host (a # b # bs) = mem_word host [a, b] # groups host bs"
| "groups host _ = []"

text \<open>The loop over the groups: \<open>i\<close> the index, \<open>prev\<close> the group before, \<open>used\<close> the flag \<open>used_zeros\<close>.\<close>

fun insert_loop :: "endian \<Rightarrow> nat \<Rightarrow> u16 \<Rightarrow> bool \<Rightarrow> u16 list \<Rightarrow> string \<times> bool" where
  "insert_loop host i prev used [] = ([], used)"
| "insert_loop host i prev used (g # gs) =
     (if g = 0 \<and> \<not> used then insert_loop host (i + 1) g used gs
      else
        let gap = (i \<noteq> 0 \<and> prev = 0 \<and> \<not> used);
            r = insert_loop host (i + 1) g (used \<or> gap) gs
        in ((if gap then '':'' else []) @ (if i \<noteq> 0 then '':'' else [])
            @ hex (unat (byteswapOnLittleEndian host g)) @ fst r, snd r))"

definition IPv6Address_insert :: "endian \<Rightarrow> sockaddr_in6 \<Rightarrow> string" where
  "IPv6Address_insert host a =
     (let gs = groups host (s6_addr a); r = insert_loop host 0 0 False gs in
      ''['' @ fst r @ (if \<not> snd r \<and> last gs = 0 then ''::'' else []) @ '']:''
      @ dec (unat (byteswapOnLittleEndian host (sin6_port a))))"

text \<open>A byte of the address is changed by index; index 16 is outside the address.\<close>

definition IPv6Address_broadcastAddress :: "nat \<Rightarrow> sockaddr_in6 \<Rightarrow> sockaddr_in6 res" where
  "IPv6Address_broadcastAddress prefix_len a =
     (let k = prefix_len div 8 in
      if k \<ge> 16 then Inl BadMemory
      else case CreateMask 8 (prefix_len mod 8) of Inl e \<Rightarrow> Inl e
        | Inr m \<Rightarrow> Inr (a\<lparr>s6_addr := take k (s6_addr a) @ [s6_addr a ! k OR m] @ replicate (15 - k) 0xff\<rparr>))"

definition IPv6Address_networdAddress :: "nat \<Rightarrow> sockaddr_in6 \<Rightarrow> sockaddr_in6 res" where
  "IPv6Address_networdAddress prefix_len a =
     (let k = prefix_len div 8 in
      if k \<ge> 16 then Inl BadMemory
      else case CreateMask 8 (prefix_len mod 8) of Inl e \<Rightarrow> Inl e
        | Inr m \<Rightarrow> Inr (a\<lparr>s6_addr := take k (s6_addr a) @ [s6_addr a ! k AND m] @ replicate (15 - k) 0\<rparr>))"

definition IPv6Address_subnetMask :: "nat \<Rightarrow> sockaddr_in6 res" where
  "IPv6Address_subnetMask prefix_len =
     (let k = prefix_len div 8 in
      if k \<ge> 16 then Inl BadMemory
      else case CreateMask 8 (prefix_len mod 8) of Inl e \<Rightarrow> Inl e
        | Inr m \<Rightarrow> Inr (IPv6Address_new\<lparr>s6_addr := replicate k 0xff @ [NOT m] @ replicate (15 - k) 0\<rparr>))"

definition IPv6Address_getPort :: "endian \<Rightarrow> sockaddr_in6 \<Rightarrow> u16" where
  "IPv6Address_getPort host a = byteswapOnLittleEndian host (sin6_port a)"

definition IPv6Address_setPort :: "endian \<Rightarrow> u16 \<Rightarrow> sockaddr_in6 \<Rightarrow> sockaddr_in6" where
  "IPv6Address_setPort host v a = a\<lparr>sin6_port := byteswapOnLittleEndian host v\<rparr>"

section \<open>Unix and unknown addresses\<close>

abbreviation NUL :: char where "NUL \<equiv> CHR 0x00"

definition UnixAddress_new :: sockaddr_un where
  "UnixAddress_new = \<lparr>sun_family = AF_UNIX, sun_path = replicate 108 NUL, un_length = 2 + 107\<rparr>"

definition UnixAddress_of :: "string \<Rightarrow> sockaddr_un res" where
  "UnixAddress_of path =
     (let m_length = (if path \<noteq> [] \<and> path ! 0 = NUL then length path else length path + 1) in
      if m_length > 108 then Inl LogicError
      else Inr \<lparr>sun_family = AF_UNIX, sun_path = put 0 (take m_length (path @ [NUL])) (replicate 108 NUL),
                un_length = m_length + 2\<rparr>)"

definition UnixAddress_setAddrLen :: "nat \<Rightarrow> sockaddr_un \<Rightarrow> sockaddr_un" where
  "UnixAddress_setAddrLen v a = a\<lparr>un_length := v\<rparr>"

definition UnixAddress_getPath :: "sockaddr_un \<Rightarrow> string" where
  "UnixAddress_getPath a =
     (if un_length a > 2 \<and> sun_path a ! 0 = NUL
      then [CHR 0x5C, CHR ''0''] @ take (un_length a - 2 - 1) (drop 1 (sun_path a))
      else c_str (sun_path a))"

definition UnixAddress_insert :: "sockaddr_un \<Rightarrow> string" where
  "UnixAddress_insert a =
     (if un_length a > 2 \<and> sun_path a ! 0 = NUL
      then [CHR 0x5C, CHR ''0''] @ take (un_length a - 2 - 1) (drop 1 (sun_path a))
      else c_str (sun_path a))"

definition UnknownAddress_new :: "u16 \<Rightarrow> sockaddr" where
  "UnknownAddress_new family = \<lparr>sa_family = family, sa_data = replicate 14 0\<rparr>"

definition UnknownAddress_insert :: "sockaddr \<Rightarrow> string" where
  "UnknownAddress_insert a = ''[UnknownAddress family='' @ dec (unat (sa_family a)) @ '']''"

fun Address_toString :: "endian \<Rightarrow> Address \<Rightarrow> string" where
  "Address_toString host (IPv4Address a) = IPv4Address_insert host a"
| "Address_toString host (IPv6Address a) = IPv6Address_insert host a"
| "Address_toString host (UnixAddress a) = UnixAddress_insert a"
| "Address_toString host (UnknownAddress a) = UnknownAddress_insert a"

section \<open>Comparison\<close>

definition memcmp :: "byte list \<Rightarrow> byte list \<Rightarrow> nat \<Rightarrow> int" where
  "memcmp a b n = (if take n a = take n b then 0 else if take n a < take n b then - 1 else 1)"

definition Address_less :: "endian \<Rightarrow> Address \<Rightarrow> Address \<Rightarrow> bool" where
  "Address_less host lhs rhs =
     (let minlen = min (getAddrLen lhs) (getAddrLen rhs);
          result = memcmp (getAddr host lhs) (getAddr host rhs) minlen
      in if result < 0 then True else if result > 0 then False else getAddrLen lhs < getAddrLen rhs)"

definition Address_eq :: "endian \<Rightarrow> Address \<Rightarrow> Address \<Rightarrow> bool" where
  "Address_eq host lhs rhs \<longleftrightarrow> getAddrLen lhs = getAddrLen rhs \<and>
     memcmp (getAddr host lhs) (getAddr host rhs) (getAddrLen lhs) = 0"

section \<open>Creation and lookup\<close>

text \<open>A structure returned by the system, by its family.\<close>

datatype sys_addr = SysIn sockaddr_in | SysIn6 sockaddr_in6 | SysOther sockaddr

fun Address_Create :: "sys_addr option \<Rightarrow> Address option" where
  "Address_Create None = None"
| "Address_Create (Some (SysIn a)) = Some (IPv4Address a)"
| "Address_Create (Some (SysIn6 a)) = Some (IPv6Address a)"
| "Address_Create (Some (SysOther a)) = Some (UnknownAddress a)"

fun is_ip :: "Address \<Rightarrow> bool" where
  "is_ip (IPv4Address _) = True"
| "is_ip (IPv6Address _) = True"
| "is_ip _ = False"

text \<open>\<open>getaddrinfo\<close> with a numeric host: the first result, or \<open>None\<close> on an error.\<close>

fun Address_setPort :: "endian \<Rightarrow> u16 \<Rightarrow> Address \<Rightarrow> Address" where
  "Address_setPort host v (IPv4Address a) = IPv4Address (IPv4Address_setPort host v a)"
| "Address_setPort host v (IPv6Address a) = IPv6Address (IPv6Address_setPort host v a)"
| "Address_setPort host v a = a"

definition IPAddress_Create :: "endian \<Rightarrow> (string \<Rightarrow> sys_addr option) \<Rightarrow> string \<Rightarrow> u16 \<Rightarrow> Address option" where
  "IPAddress_Create host getaddrinfo address port =
     (case getaddrinfo address of
        None \<Rightarrow> None
      | Some r \<Rightarrow>
          (case Address_Create (Some r) of
             Some a \<Rightarrow> if is_ip a then Some (Address_setPort host port a) else None
           | None \<Rightarrow> None))"

text \<open>The index of a character from a position on, as \<open>memchr\<close> finds it.\<close>

definition find_char :: "char \<Rightarrow> nat \<Rightarrow> string \<Rightarrow> nat option" where
  "find_char c k s = (let n = length (takeWhile (\<lambda>x. x \<noteq> c) (drop k s)) in if k + n < length s then Some (k + n) else None)"

text \<open>The node and the service given to \<open>getaddrinfo\<close>; the service is a pointer into the host string.\<close>

definition Lookup_bracket :: "string \<Rightarrow> string \<times> string option" where
  "Lookup_bracket host =
     (if host \<noteq> [] \<and> host ! 0 = CHR ''['' then
        (case find_char (CHR '']'') 1 host of
           Some e \<Rightarrow> (take (e - 1) (drop 1 host),
                     if e + 1 < length host \<and> host ! (e + 1) = CHR '':'' then Some (drop (e + 2) host) else None)
         | None \<Rightarrow> ([], None))
      else ([], None))"

definition Lookup_target :: "string \<Rightarrow> string \<times> string option" where
  "Lookup_target host =
     (let (node0, service0) = Lookup_bracket host;
          (node1, service1) =
            (if node0 = [] then
               (case find_char (CHR '':'') 0 host of
                  None \<Rightarrow> ([], None)
                | Some k \<Rightarrow>
                    if find_char (CHR '':'') (k + 1) host = None then (take k host, Some (drop (k + 1) host))
                    else ([], Some (drop k host)))
             else (node0, service0))
      in (c_str (if node1 = [] then host else node1), map_option c_str service1))"

definition Address_Lookup ::
    "(string \<Rightarrow> string option \<Rightarrow> sys_addr list option) \<Rightarrow> string \<Rightarrow> bool \<times> Address list" where
  "Address_Lookup getaddrinfo host =
     (case Lookup_target host of (node, service) \<Rightarrow>
        (case getaddrinfo node service of
           None \<Rightarrow> (False, [])
         | Some results \<Rightarrow>
             let result = List.map_filter (\<lambda>r. Address_Create (Some r)) results in (result \<noteq> [], result)))"

definition Address_LookupAny ::
    "(string \<Rightarrow> string option \<Rightarrow> sys_addr list option) \<Rightarrow> string \<Rightarrow> Address option" where
  "Address_LookupAny getaddrinfo host =
     (case Address_Lookup getaddrinfo host of (ok, result) \<Rightarrow> if ok then Some (result ! 0) else None)"

definition Address_LookupAnyIPAddress ::
    "(string \<Rightarrow> string option \<Rightarrow> sys_addr list option) \<Rightarrow> string \<Rightarrow> Address option" where
  "Address_LookupAnyIPAddress getaddrinfo host =
     (case Address_Lookup getaddrinfo host of (ok, result) \<Rightarrow> if ok then find is_ip result else None)"

section \<open>Interfaces\<close>

text \<open>An entry of \<open>getifaddrs\<close>: the name, the address and the mask.\<close>

record ifaddr =
  ifa_name :: string
  ifa_addr :: "sys_addr option"
  ifa_netmask4 :: u32
  ifa_netmask6 :: "byte list"

fun sys_family :: "sys_addr \<Rightarrow> u16" where
  "sys_family (SysIn a) = AF_INET"
| "sys_family (SysIn6 a) = AF_INET6"
| "sys_family (SysOther a) = sa_family a"

fun interface_entry :: "u16 \<Rightarrow> ifaddr \<Rightarrow> (string \<times> Address \<times> nat) list res" where
  "interface_entry family i =
     (case ifa_addr i of
        None \<Rightarrow> Inl NullDeref
      | Some sa \<Rightarrow>
          if family \<noteq> AF_UNSPEC \<and> family \<noteq> sys_family sa then Inr []
          else (case sa of
                  SysIn a \<Rightarrow> Inr [(ifa_name i, IPv4Address a, CountBytes (ifa_netmask4 i))]
                | SysIn6 a \<Rightarrow> Inr [(ifa_name i, IPv6Address a, sum_list (map CountBytes (take 16 (ifa_netmask6 i))))]
                | SysOther a \<Rightarrow> Inr []))"

fun interface_loop :: "u16 \<Rightarrow> ifaddr list \<Rightarrow> (string \<times> Address \<times> nat) list res" where
  "interface_loop family [] = Inr []"
| "interface_loop family (i # is) =
     (case interface_entry family i of
        Inl e \<Rightarrow> Inl e
      | Inr xs \<Rightarrow> (case interface_loop family is of Inl e \<Rightarrow> Inl e | Inr ys \<Rightarrow> Inr (xs @ ys)))"

definition GetInterfaceAddresses_all :: "ifaddr list option \<Rightarrow> u16 \<Rightarrow> (bool \<times> (string \<times> Address \<times> nat) list) res" where
  "GetInterfaceAddresses_all getifaddrs family =
     (case getifaddrs of
        None \<Rightarrow> Inr (False, [])
      | Some is \<Rightarrow> (case interface_loop family is of Inl e \<Rightarrow> Inl e | Inr r \<Rightarrow> Inr (r \<noteq> [], r)))"

definition GetInterfaceAddresses ::
    "endian \<Rightarrow> ifaddr list option \<Rightarrow> string \<Rightarrow> u16 \<Rightarrow> (bool \<times> (Address \<times> nat) list) res" where
  "GetInterfaceAddresses host getifaddrs iface family =
     (if iface = [] \<or> iface = ''*'' then
        Inr (True,
          (if family = AF_INET \<or> family = AF_UNSPEC then [(IPv4Address (IPv4Address_new host 0 0), 0)] else [])
          @ (if family = AF_INET6 \<or> family = AF_UNSPEC then [(IPv6Address IPv6Address_new, 0)] else []))
      else
        (case GetInterfaceAddresses_all getifaddrs family of
           Inl e \<Rightarrow> Inl e
         | Inr (ok, results) \<Rightarrow>
             if \<not> ok then Inr (False, [])
             else let r = map snd (filter (\<lambda>(name, _). name = iface) results) in Inr (r \<noteq> [], r)))"

end
