(* ===== verification/Mingo_Address_Props.thy ===== *)
theory Mingo_Address_Props
  imports Mingo_Address
begin

text \<open>
  Correctness of the address classes: subnet arithmetic in host order, the text of an IPv4 address, the order of addresses,
  the paths of Unix addresses, and how a host string is split for the resolver.
\<close>

section \<open>Byte swapping permutes the bits\<close>

lemma ucast_or8: "(ucast (a OR b) :: byte) = ucast a OR ucast b"
  and ucast_and8: "(ucast (a AND b) :: byte) = ucast a AND ucast b"
  for a b :: "'a::len word"
  by (rule bit_word_eqI; simp add: bit_ucast_iff bit_or_iff bit_and_iff; blast)+

lemma le_bytes_or: "le_bytes n (a OR b) = map2 (OR) (le_bytes n a) (le_bytes n b)"
  by (induction n arbitrary: a b) (auto simp: ucast_or8 drop_bit_or)

lemma le_bytes_and: "le_bytes n (a AND b) = map2 (AND) (le_bytes n a) (le_bytes n b)"
  by (induction n arbitrary: a b) (auto simp: ucast_and8 drop_bit_and)

lemma le_word_map2_or:
  "length xs = length ys \<Longrightarrow> le_word (map2 (OR) xs ys) = (le_word xs OR le_word ys :: 'a::len word)"
proof (induction xs ys rule: list_induct2)
  case (Cons x xs y ys)
  show ?case by (rule bit_word_eqI) (auto simp: Cons bit_or_iff bit_push_bit_iff bit_ucast_iff)
qed simp

lemma le_word_map2_and:
  "length xs = length ys \<Longrightarrow> le_word (map2 (AND) xs ys) = (le_word xs AND le_word ys :: 'a::len word)"
proof (induction xs ys rule: list_induct2)
  case (Cons x xs y ys)
  show ?case
    by (rule bit_word_eqI)
      (auto simp: Cons bit_or_iff bit_and_iff bit_push_bit_iff bit_ucast_iff dest: bit_imp_le_length)
qed simp

lemma byteswap_or: "byteswap (a OR b) = byteswap a OR byteswap b"
  by (simp add: byteswap_def le_bytes_or rev_map zip_rev le_word_map2_or [symmetric])

lemma byteswap_and: "byteswap (a AND b) = byteswap a AND byteswap b"
  by (simp add: byteswap_def le_bytes_and rev_map zip_rev le_word_map2_and [symmetric])

lemma byteswap_not32: "byteswap (NOT a) = NOT (byteswap (a :: u32))"
proof -
  have all: "byteswap (- 1 :: u32) = - 1" by code_simp
  have zero: "byteswap (0 :: u32) = 0" by code_simp
  have "byteswap a OR byteswap (NOT a) = - 1" "byteswap a AND byteswap (NOT a) = 0"
    using byteswap_or [of a "NOT a"] byteswap_and [of a "NOT a"] all zero by simp_all
  then show ?thesis using bit.compl_unique by metis
qed

lemma swap_host [simp]:
  "byteswapOnLittleEndian host (byteswapOnLittleEndian host (v :: u32)) = v"
  "byteswapOnLittleEndian host (byteswapOnLittleEndian host (p :: u16)) = p"
  by (simp_all add: byteswapOnLittleEndian_def byteswap_byteswap)

lemma swap_host_bits:
  "byteswapOnLittleEndian host (a OR b) = byteswapOnLittleEndian host a OR byteswapOnLittleEndian host b"
  "byteswapOnLittleEndian host (a AND b) = byteswapOnLittleEndian host a AND byteswapOnLittleEndian host b"
  "byteswapOnLittleEndian host (NOT c) = NOT (byteswapOnLittleEndian host (c :: u32))"
  by (simp_all add: byteswapOnLittleEndian_def byteswap_or byteswap_and byteswap_not32)

section \<open>Subnets\<close>

lemma CreateMask32: "1 \<le> p \<Longrightarrow> p \<le> 32 \<Longrightarrow> CreateMask 32 p = Inr (mask (32 - p) :: u32)"
  by (simp add: CreateMask_def sub64_le Let_def mask_eq_exp_minus_1 push_bit_eq_mult)

lemma CreateMask32_bad: "p = 0 \<or> 32 < p \<and> p < 2 ^ 32 \<Longrightarrow> (CreateMask 32 p :: u32 res) = Inl BadShift"
  by (auto simp: CreateMask_def sub64_le sub64_wrap Let_def)

text \<open>The stored masks of the 32 prefix lengths on a little-endian host.\<close>

definition le_masks :: "u32 list" where
  "le_masks = [0x80, 0xC0, 0xE0, 0xF0, 0xF8, 0xFC, 0xFE, 0xFF, 0x80FF, 0xC0FF, 0xE0FF, 0xF0FF, 0xF8FF,
      0xFCFF, 0xFEFF, 0xFFFF, 0x80FFFF, 0xC0FFFF, 0xE0FFFF, 0xF0FFFF, 0xF8FFFF, 0xFCFFFF,
      0xFEFFFF, 0xFFFFFF, 0x80FFFFFF, 0xC0FFFFFF, 0xE0FFFFFF, 0xF0FFFFFF, 0xF8FFFFFF,
      0xFCFFFFFF, 0xFEFFFFFF, 0xFFFFFFFF]"

lemma le_masks_swap: "map (\<lambda>p. NOT (byteswap (mask (32 - p) :: u32))) [1..<33] = le_masks"
  by code_simp

lemma CountBytes_le: "map CountBytes le_masks = [1..<33]"
  by (simp add: le_masks_def CountBytes.simps upt_rec)

lemma CountBytes_be: "map (\<lambda>p. CountBytes (NOT (mask (32 - p) :: u32))) [1..<33] = [1..<33]"
  by (simp add: CountBytes.simps mask_eq_exp_minus_1 upt_rec)

lemma CountBytes_netmask:
  assumes "1 \<le> p" and "p \<le> 32"
  shows "CountBytes (NOT (byteswapOnLittleEndian host (mask (32 - p) :: u32))) = p"
proof -
  have p: "p = [1..<33] ! (p - 1)" "p - 1 < length [1..<33]" using assms by auto
  have swapped: "CountBytes (NOT (byteswap (mask (32 - p) :: u32))) = p"
  proof -
    have "map (\<lambda>p. CountBytes (NOT (byteswap (mask (32 - p) :: u32)))) [1..<33] = [1..<33]"
      using CountBytes_le unfolding le_masks_swap [symmetric] by (simp only: map_map comp_def)
    then show ?thesis using p nth_map by metis
  qed
  have "CountBytes (NOT (mask (32 - p) :: u32)) = p" using CountBytes_be p nth_map by metis
  then show ?thesis using swapped by (simp add: byteswapOnLittleEndian_def)
qed

text \<open>
  Subnet arithmetic of IPv4. In host order, for a prefix length from 1 to 32: the broadcast address is the address with all host bits set, the subnet mask has
  exactly the prefix bits set, and counting the bits of the stored mask gives the prefix length back; \<open>networdAddress\<close>, however, keeps the host
  bits and clears the network bits. A prefix length above 32 gives no address; length 0 (and, for the mask, above 32) shifts by
  at least the width of int, which is undefined.
\<close>

theorem ipv4_subnet:
  assumes "1 \<le> p" and "p \<le> 32" and "32 < q" and "q < 2 ^ 32"
  shows "(\<exists>b n s. IPv4Address_broadcastAddress host p a = Inr (Some b)
      \<and> byteswapOnLittleEndian host (s_addr b) = byteswapOnLittleEndian host (s_addr a) OR mask (32 - p)
      \<and> b = a\<lparr>s_addr := s_addr b\<rparr>
      \<and> IPv4Address_networdAddress host p a = Inr (Some n)
      \<and> byteswapOnLittleEndian host (s_addr n) = byteswapOnLittleEndian host (s_addr a) AND mask (32 - p)
      \<and> IPv4Address_subnetMask host p = Inr s
      \<and> byteswapOnLittleEndian host (s_addr s) = NOT (mask (32 - p))
      \<and> CountBytes (s_addr s) = p)
    \<and> IPv4Address_broadcastAddress host q a = Inr None \<and> IPv4Address_networdAddress host q a = Inr None
    \<and> IPv4Address_subnetMask host q = Inl BadShift
    \<and> IPv4Address_broadcastAddress host 0 a = Inl BadShift"
  using assms CreateMask32 [OF assms(1,2)] CreateMask32_bad [of q] CreateMask32_bad [of 0] CountBytes_netmask [OF assms(1,2), of host]
  by (simp add: IPv4Address_broadcastAddress_def IPv4Address_networdAddress_def IPv4Address_subnetMask_def swap_host_bits)

theorem ipv4_subnet_witness:
  "\<exists>s. IPv4Address_subnetMask MINGO_LITTLE_ENDIAN 24 = Inr s \<and> CountBytes (s_addr s) = 24
     \<and> byteswapOnLittleEndian MINGO_LITTLE_ENDIAN (s_addr s) = NOT (mask 8)"
  using ipv4_subnet [of 24 33 MINGO_LITTLE_ENDIAN "IPv4Address_new MINGO_LITTLE_ENDIAN 0 0"] by auto

section \<open>The text of an IPv4 address\<close>

text \<open>A reference reader of a dotted address with a port.\<close>

definition cut :: "char \<Rightarrow> string \<Rightarrow> string \<times> string" where
  "cut c s = (takeWhile (\<lambda>x. x \<noteq> c) s, drop 1 (dropWhile (\<lambda>x. x \<noteq> c) s))"

definition parse_ipv4 :: "string \<Rightarrow> u32 \<times> u16" where
  "parse_ipv4 s =
     (let (a, r1) = cut (CHR ''.'') s; (b, r2) = cut (CHR ''.'') r1; (c, r3) = cut (CHR ''.'') r2;
          (d, p) = cut (CHR '':'') r3
      in (push_bit 24 (word_of_nat (undec a)) OR push_bit 16 (word_of_nat (undec b))
          OR push_bit 8 (word_of_nat (undec c)) OR word_of_nat (undec d), word_of_nat (undec p)))"

lemma cut_dec: "\<not> is_digit c \<Longrightarrow> cut c (dec n @ c # r) = (dec n, r)"
proof -
  assume c: "\<not> is_digit c"
  then have "c \<notin> set (dec n)" using dec_digits by blast
  then show ?thesis by (simp add: cut_def)
qed

lemma four_bytes:
  "push_bit 24 (drop_bit 24 w AND 0xff) OR push_bit 16 (drop_bit 16 w AND 0xff)
     OR push_bit 8 (drop_bit 8 w AND 0xff) OR (w AND 0xff) = (w :: u32)"
proof -
  have m: "(0xff :: u32) = mask 8" by code_simp
  show ?thesis unfolding m
  proof (rule bit_word_eqI)
    fix n assume "n < LENGTH(32)"
    then consider "n < 8" | "8 \<le> n" "n < 16" | "16 \<le> n" "n < 24" | "24 \<le> n" "n < 32" by fastforce
    then show "bit (push_bit 24 (drop_bit 24 w AND mask 8) OR push_bit 16 (drop_bit 16 w AND mask 8)
        OR push_bit 8 (drop_bit 8 w AND mask 8) OR (w AND mask 8)) n = bit w n"
      by cases (auto simp: bit_or_iff bit_and_iff bit_push_bit_iff bit_drop_bit_eq bit_mask_iff)
  qed
qed

text \<open>
  The text of an IPv4 address can be read back: the four decimal numbers separated by dots and the number after the colon give the address
  and the port in host order, on either byte order; in particular the text of an address made from numbers gives these numbers.
\<close>

theorem ipv4_text_roundtrip:
  "parse_ipv4 (IPv4Address_insert host a) = (byteswapOnLittleEndian host (s_addr a), IPv4Address_getPort host a)
   \<and> parse_ipv4 (IPv4Address_insert host (IPv4Address_new host address port)) = (address, port)
   \<and> IPv4Address_getPort host (IPv4Address_setPort host v a) = v"
proof -
  have d: "\<not> is_digit (CHR ''.'')" "\<not> is_digit (CHR '':'')" by code_simp+
  have p: "cut c (dec n @ [c] @ r) = (dec n, r)" if "\<not> is_digit c" for c n r using cut_dec [OF that] by simp
  have "parse_ipv4 (IPv4Address_insert host a) = (byteswapOnLittleEndian host (s_addr a), IPv4Address_getPort host a)" for a
    using four_bytes [of "byteswapOnLittleEndian host (s_addr a)"]
    unfolding parse_ipv4_def IPv4Address_insert_def Let_def
    by (simp add: cut_dec d IPv4Address_getPort_def)
  then show ?thesis by (simp add: IPv4Address_new_def IPv4Address_getPort_def IPv4Address_setPort_def)
qed

section \<open>The order of addresses\<close>

text \<open>The bytes that stand for an address, when its length lies within its structure.\<close>

definition raw :: "endian \<Rightarrow> Address \<Rightarrow> byte list" where
  "raw host a = take (getAddrLen a) (getAddr host a)"

definition addr_ok :: "endian \<Rightarrow> Address \<Rightarrow> bool" where
  "addr_ok host a \<longleftrightarrow> getAddrLen a \<le> length (getAddr host a)"

lemma lex_take_min:
  fixes x y :: "'a::linorder list"
  shows "x < y \<longleftrightarrow> (let n = min (length x) (length y) in
    take n x < take n y \<or> take n x = take n y \<and> length x < length y)"
proof (induction x arbitrary: y)
  case Nil
  then show ?case by (cases y) auto
next
  case (Cons a x)
  show ?case
  proof (cases y)
    case Nil
    then show ?thesis by (simp add: Let_def)
  next
    case y: (Cons b ys)
    let ?n = "min (length x) (length ys)"
    have IH: "x < ys \<longleftrightarrow> take ?n x < take ?n ys \<or> take ?n x = take ?n ys \<and> length x < length ys"
      using Cons [of ys] unfolding Let_def .
    have n: "min (length (a # x)) (length (b # ys)) = Suc ?n" by simp
    show ?thesis
      unfolding y Let_def n take_Suc_Cons Cons_less_Cons IH list.inject list.size(4) by auto
  qed
qed

lemma Address_less_raw:
  assumes "addr_ok host a" and "addr_ok host b"
  shows "Address_less host a b \<longleftrightarrow> raw host a < raw host b"
proof -
  have len: "length (raw host a) = getAddrLen a" "length (raw host b) = getAddrLen b"
    using assms by (simp_all add: raw_def addr_ok_def)
  let ?n = "min (getAddrLen a) (getAddrLen b)"
  have "take ?n (raw host a) = take ?n (getAddr host a)" "take ?n (raw host b) = take ?n (getAddr host b)"
    by (simp_all add: raw_def min_def)
  then show ?thesis
    unfolding lex_take_min [of "raw host a"] len by (auto simp: Address_less_def memcmp_def Let_def)
qed

lemma Address_eq_raw:
  assumes "addr_ok host a" and "addr_ok host b"
  shows "Address_eq host a b \<longleftrightarrow> raw host a = raw host b"
proof -
  have "length (raw host a) = getAddrLen a" "length (raw host b) = getAddrLen b"
    using assms by (simp_all add: raw_def addr_ok_def)
  then have "raw host a = raw host b \<Longrightarrow> getAddrLen a = getAddrLen b" by metis
  moreover have "Address_eq host a b \<longleftrightarrow> getAddrLen a = getAddrLen b \<and> raw host a = raw host b"
    by (simp add: Address_eq_def memcmp_def raw_def cong: conj_cong)
  ultimately show ?thesis by blast
qed

lemma addr_ok_constructed:
  "addr_ok host (IPv4Address (IPv4Address_new host address port))"
  "addr_ok host (IPv6Address IPv6Address_new)" "addr_ok host (UnixAddress UnixAddress_new)"
  "addr_ok host (UnknownAddress (UnknownAddress_new family))"
  "UnixAddress_of path = Inr u \<Longrightarrow> addr_ok host (UnixAddress u)"
  by (auto simp: addr_ok_def IPv4Address_new_def IPv6Address_new_def UnixAddress_new_def UnknownAddress_new_def
      UnixAddress_of_def Let_def split: if_splits)

text \<open>
  C25: Addresses are ordered by their bytes. On addresses whose length lies within their structure, as the constructors make them, exactly one of less,
  equal and greater holds, and less is transitive, so the comparison can order a map; equal addresses are those with the same bytes.
\<close>

theorem address_order_total:
  assumes "addr_ok host a" and "addr_ok host b" and "addr_ok host c"
  shows "(Address_eq host a b \<longleftrightarrow> raw host a = raw host b)
    \<and> (if Address_eq host a b then \<not> Address_less host a b \<and> \<not> Address_less host b a
       else Address_less host a b \<noteq> Address_less host b a)
    \<and> (Address_less host a b \<and> Address_less host b c \<longrightarrow> Address_less host a c)"
  using assms by (auto simp: Address_less_raw Address_eq_raw)

theorem address_order_total_witness:
  "let a = IPv4Address (IPv4Address_new MINGO_LITTLE_ENDIAN 1 80); b = UnixAddress UnixAddress_new in
   \<not> Address_eq MINGO_LITTLE_ENDIAN a b \<and> Address_less MINGO_LITTLE_ENDIAN a b \<noteq> Address_less MINGO_LITTLE_ENDIAN b a"
proof -
  let ?h = MINGO_LITTLE_ENDIAN
  let ?a = "IPv4Address (IPv4Address_new ?h 1 80)" and ?b = "UnixAddress UnixAddress_new"
  have "\<not> Address_eq ?h ?a ?b" by (simp add: Address_eq_def UnixAddress_new_def)
  then show ?thesis
    using address_order_total [OF addr_ok_constructed(1) addr_ok_constructed(3) addr_ok_constructed(3), of ?h 1 80]
    unfolding Let_def by presburger
qed

section \<open>Unix paths\<close>

lemma c_str_append_NUL: "NUL \<notin> set p \<Longrightarrow> c_str (p @ NUL # r) = p"
  by (simp add: c_str_def)

text \<open>
  Paths of Unix addresses. A path without a zero byte is accepted exactly up to 107 characters, and \<open>getPath\<close> gives it back; a path that starts with a zero
  byte (a name in the abstract space) is accepted up to 108 characters and shown with the escape \<open>\0\<close> in front of the rest;
  a longer one raises \<open>std::logic_error\<close>. The empty path is shown like an abstract name.
\<close>

theorem unix_path_roundtrip:
  assumes "path \<noteq> []" and "NUL \<notin> set path"
  shows "(if length path \<le> 107
      then \<exists>a. UnixAddress_of path = Inr a \<and> UnixAddress_getPath a = path \<and> un_length a = length path + 3
      else UnixAddress_of path = Inl LogicError)
    \<and> (if length rest \<le> 107
       then \<exists>a. UnixAddress_of (NUL # rest) = Inr a \<and> UnixAddress_getPath a = [CHR 0x5C, CHR ''0''] @ rest
       else UnixAddress_of (NUL # rest) = Inl LogicError)
    \<and> (\<exists>a. UnixAddress_of [] = Inr a \<and> UnixAddress_getPath a = [CHR 0x5C, CHR ''0''])"
proof -
  have first: "path ! 0 \<noteq> NUL" using assms by (metis length_greater_0_conv nth_mem)
  have pad: "put 0 xs (replicate 108 NUL) = xs @ replicate (108 - length xs) NUL" if "length xs \<le> 108" for xs
    using that by (simp add: put_def)
  have p: "\<exists>a. UnixAddress_of path = Inr a \<and> UnixAddress_getPath a = path \<and> un_length a = length path + 3"
    if "length path \<le> 107"
    using that first assms
    by (simp add: UnixAddress_of_def pad UnixAddress_getPath_def nth_append c_str_append_NUL)
  have r: "\<exists>a. UnixAddress_of (NUL # rest) = Inr a \<and> UnixAddress_getPath a = [CHR 0x5C, CHR ''0''] @ rest"
    if "length rest \<le> 107"
    using that by (simp add: UnixAddress_of_def pad UnixAddress_getPath_def)
  have e: "\<exists>a. UnixAddress_of [] = Inr a \<and> UnixAddress_getPath a = [CHR 0x5C, CHR ''0'']"
    by (simp add: UnixAddress_of_def pad UnixAddress_getPath_def)
  show ?thesis using p r e first assms(1) by (auto simp: UnixAddress_of_def)
qed

theorem unix_path_roundtrip_witness:
  "\<exists>a. UnixAddress_of ''/tmp/s'' = Inr a \<and> UnixAddress_getPath a = ''/tmp/s''"
  using unix_path_roundtrip [of "''/tmp/s''" "[]"] by auto

section \<open>Host strings\<close>

lemma find_char_none: "c \<notin> set (drop k s) \<Longrightarrow> find_char c k s = None"
  unfolding find_char_def Let_def by (subst takeWhile_absent) simp_all

lemma find_char_some:
  assumes "c \<notin> set (drop k p)" and "k \<le> length p"
  shows "find_char c k (p @ c # r) = Some (length p)"
proof -
  have "drop k (p @ c # r) = drop k p @ c # r" using assms(2) by simp
  then show ?thesis
    using assms unfolding find_char_def Let_def by (simp only: takeWhile_before) simp
qed

text \<open>
  How a host string is split for the resolver. For a name without brackets and colons: name and service are what stands before and after a single colon, and
  without a colon there is no service; an address in brackets is taken without them, with the service after a following
  colon. An IPv6 address without brackets, with two colons or more, keeps the whole string as node but passes the text from its first colon on as
  service.
\<close>

theorem lookup_target_split:
  assumes "name \<noteq> []" and "hd name \<noteq> CHR ''[''" and "v6 \<noteq> []"
    and "list_all (\<lambda>c. c \<noteq> NUL \<and> c \<noteq> CHR '':'') name" and "list_all (\<lambda>c. c \<noteq> NUL \<and> c \<noteq> CHR '':'') serv"
    and "list_all (\<lambda>c. c \<noteq> NUL \<and> c \<noteq> CHR '']'') v6" and "NUL \<notin> set rest"
  shows "Lookup_target (name @ '':'' @ serv) = (name, Some serv)
    \<and> Lookup_target name = (name, None)
    \<and> Lookup_target (''['' @ v6 @ '']'') = (v6, None)
    \<and> Lookup_target (''['' @ v6 @ '']:'' @ serv) = (v6, Some serv)
    \<and> Lookup_target (name @ '':'' @ serv @ '':'' @ rest) = (name @ '':'' @ serv @ '':'' @ rest, Some ('':'' @ serv @ '':'' @ rest))"
proof -
  have free: "c \<notin> set s \<and> d \<notin> set s" if "list_all (\<lambda>x. x \<noteq> c \<and> x \<noteq> d) s" for c d :: char and s
    using that by (auto simp: list_all_iff)
  have z: "NUL \<notin> set name" "NUL \<notin> set serv" "NUL \<notin> set v6" "CHR '':'' \<notin> set name" "CHR '':'' \<notin> set serv" "CHR '']'' \<notin> set v6"
    using free [OF assms(4)] free [OF assms(5)] free [OF assms(6)] by blast+
  have nb: "Lookup_bracket (name @ r) = ([], None)" for r
    using assms(1,2) by (cases name) (auto simp: Lookup_bracket_def)
  have one: "find_char (CHR '':'') 0 (name @ CHR '':'' # r) = Some (length name)" for r
    using z(4) by (intro find_char_some) simp_all
  have two: "find_char (CHR '':'') (Suc (length name)) (name @ CHR '':'' # serv) = None"
    using z(5) by (intro find_char_none) simp
  have three: "find_char (CHR '':'') (Suc (length name)) (name @ CHR '':'' # serv @ CHR '':'' # rest) = Some (length name + 1 + length serv)"
    using find_char_some [of "CHR '':''" "Suc (length name)" "name @ CHR '':'' # serv" rest] z(5) by simp
  have none: "find_char (CHR '':'') 0 name = None" using z(4) by (intro find_char_none) simp
  have br: "find_char (CHR '']'') 1 (CHR ''['' # v6 @ CHR '']'' # r) = Some (length v6 + 1)" for r
    using find_char_some [of "CHR '']''" 1 "CHR ''['' # v6" r] z(6) by simp
  have b1: "Lookup_bracket (CHR ''['' # v6 @ '']'') = (v6, None)"
    using br [of "[]"] by (simp add: Lookup_bracket_def)
  have after: "(CHR ''['' # v6 @ CHR '']'' # CHR '':'' # serv) ! (length v6 + 2) = CHR '':''"
    using nth_append_length [of "CHR ''['' # v6 @ [CHR '']'']" "CHR '':''" serv] by simp
  have b2: "Lookup_bracket (CHR ''['' # v6 @ CHR '']'' # CHR '':'' # serv) = (v6, Some serv)"
    using br [of "CHR '':'' # serv"] after by (simp add: Lookup_bracket_def)
  have "Lookup_target (name @ CHR '':'' # serv) = (name, Some serv)"
    unfolding Lookup_target_def nb prod.case Let_def using assms(1) one [of serv] two z by (simp add: c_str_id)
  moreover have "Lookup_target name = (name, None)"
    unfolding Lookup_target_def using nb [of "[]"] none z by (simp add: c_str_id)
  moreover have "Lookup_target (CHR ''['' # v6 @ '']'') = (v6, None)"
    unfolding Lookup_target_def b1 using assms(3) z by (simp add: c_str_id)
  moreover have "Lookup_target (CHR ''['' # v6 @ CHR '']'' # CHR '':'' # serv) = (v6, Some serv)"
    unfolding Lookup_target_def b2 using assms(3) z by (simp add: c_str_id)
  moreover have "Lookup_target (name @ CHR '':'' # serv @ CHR '':'' # rest) =
      (name @ CHR '':'' # serv @ CHR '':'' # rest, Some (CHR '':'' # serv @ CHR '':'' # rest))"
    unfolding Lookup_target_def nb prod.case Let_def
    using one [of "serv @ CHR '':'' # rest"] three z(1,2) assms(7) by (simp add: c_str_id)
  ultimately show ?thesis by simp
qed

theorem lookup_target_split_witness:
  "Lookup_target ''localhost:80'' = (''localhost'', Some ''80'') \<and> Lookup_target ''[::1]:80'' = (''::1'', Some ''80'')"
  using lookup_target_split [of "''localhost''" "''::1''" "''80''" "[]"] by simp

end
