(* ===== verification/Mingo_Servlet.thy ===== *)
theory Mingo_Servlet
  imports Mingo_Http_Props "HOL-Library.AList"
begin

text \<open>
  \<^verbatim>\<open>mingo/http/servlet.cpp\<close>: the handlers of requests and the dispatcher that chooses one by the path of the request.
  A servlet pointer may be null. A handler works on the request, the response and the session (whose type is
  left open), and its result is the \<open>int32_t\<close> it returns; an empty \<open>std::function\<close> throws when it is called.
  The dispatcher is itself a servlet, so that dispatchers nest. \<open>fnmatch\<close> of the C library is an argument: whether it returns 0 for
  a pattern and a string. The unordered map of exact paths is an association list.
\<close>

type_synonym 's exchange = "HttpRequest \<times> HttpResponse \<times> 's"
type_synonym 's handler = "('s exchange, int) oper"

datatype 'v dispatch = Dispatch
  (m_datas: "(string \<times> 'v option) list")
  (m_globs: "(string \<times> 'v option) list")
  (m_default: "'v option")

datatype 's servlet =
    FunctionServlet "'s handler option"
  | NotFoundServlet string string
  | ServletDispatch "'s servlet dispatch"

fun Servlet_getName :: "'s servlet \<Rightarrow> string" where
  "Servlet_getName (FunctionServlet cb) = ''FunctionServlet''"
| "Servlet_getName (NotFoundServlet name content) = ''NotFoundServlet''"
| "Servlet_getName (ServletDispatch d) = ''ServletDispatch''"

definition NotFoundServlet_new :: "string \<Rightarrow> 's servlet" where
  "NotFoundServlet_new name =
     NotFoundServlet name
       (''<html><head><title>404 Not Found'' @
        ''</title></head><body><center><h1>404 Not Found</h1></center>'' @
        ''<hr><center>'' @ name @ ''</center></body></html>'')"

definition NotFoundServlet_handle :: "string \<Rightarrow> 's handler" where
  "NotFoundServlet_handle content = (\<lambda>(request, response, session).
     let r1 = HttpResponse_setStatus 404 response;
         r2 = HttpResponse_setHeader ''Server'' ''mingo/1.0.0'' r1;
         r3 = HttpResponse_setHeader ''Content-Type'' ''text/html'' r2
     in (Inr 0, (request, HttpResponse_setBody content r3, session)))"

definition FunctionServlet_handle :: "'s handler option \<Rightarrow> 's handler" where
  "FunctionServlet_handle cb x = (case cb of None \<Rightarrow> (Inl BadFunctionCall, x) | Some f \<Rightarrow> f x)"

section \<open>The dispatcher\<close>

definition ServletDispatch_new :: "'s servlet dispatch" where
  "ServletDispatch_new = Dispatch [] [] (Some (NotFoundServlet_new ''mingo/1.0''))"

definition ServletDispatch_addServlet :: "string \<Rightarrow> 's servlet option \<Rightarrow> 's servlet dispatch \<Rightarrow> 's servlet dispatch" where
  "ServletDispatch_addServlet uri slt d = Dispatch (AList.update uri slt (m_datas d)) (m_globs d) (m_default d)"

definition ServletDispatch_addServlet_cb ::
    "string \<Rightarrow> 's handler option \<Rightarrow> 's servlet dispatch \<Rightarrow> 's servlet dispatch" where
  "ServletDispatch_addServlet_cb uri cb d =
     Dispatch (AList.update uri (Some (FunctionServlet cb)) (m_datas d)) (m_globs d) (m_default d)"

text \<open>The loop that erases the first glob of a pattern and stops there.\<close>

fun erase_glob :: "string \<Rightarrow> (string \<times> 'v) list \<Rightarrow> (string \<times> 'v) list" where
  "erase_glob uri [] = []"
| "erase_glob uri (g # gs) = (if fst g = uri then gs else g # erase_glob uri gs)"

definition ServletDispatch_addGlobServlet ::
    "string \<Rightarrow> 's servlet option \<Rightarrow> 's servlet dispatch \<Rightarrow> 's servlet dispatch" where
  "ServletDispatch_addGlobServlet uri slt d =
     Dispatch (m_datas d) (erase_glob uri (m_globs d) @ [(uri, slt)]) (m_default d)"

definition ServletDispatch_addGlobServlet_cb ::
    "string \<Rightarrow> 's handler option \<Rightarrow> 's servlet dispatch \<Rightarrow> 's servlet dispatch" where
  "ServletDispatch_addGlobServlet_cb uri cb d = ServletDispatch_addGlobServlet uri (Some (FunctionServlet cb)) d"

definition ServletDispatch_delServlet :: "string \<Rightarrow> 's servlet dispatch \<Rightarrow> 's servlet dispatch" where
  "ServletDispatch_delServlet uri d = Dispatch (AList.delete uri (m_datas d)) (m_globs d) (m_default d)"

definition ServletDispatch_delGlobServlet :: "string \<Rightarrow> 's servlet dispatch \<Rightarrow> 's servlet dispatch" where
  "ServletDispatch_delGlobServlet uri d = Dispatch (m_datas d) (erase_glob uri (m_globs d)) (m_default d)"

definition ServletDispatch_setDefault :: "'s servlet option \<Rightarrow> 's servlet dispatch \<Rightarrow> 's servlet dispatch" where
  "ServletDispatch_setDefault v d = Dispatch (m_datas d) (m_globs d) v"

definition ServletDispatch_getServlet :: "string \<Rightarrow> 's servlet dispatch \<Rightarrow> 's servlet option" where
  "ServletDispatch_getServlet uri d = (case map_of (m_datas d) uri of None \<Rightarrow> None | Some slt \<Rightarrow> slt)"

definition ServletDispatch_getGlobServlet :: "string \<Rightarrow> 's servlet dispatch \<Rightarrow> 's servlet option" where
  "ServletDispatch_getGlobServlet uri d =
     (case find (\<lambda>(pat, slt). pat = uri) (m_globs d) of Some (_, slt) \<Rightarrow> slt | None \<Rightarrow> None)"

definition ServletDispatch_getMatchedServlet ::
    "(string \<Rightarrow> string \<Rightarrow> bool) \<Rightarrow> string \<Rightarrow> 's servlet dispatch \<Rightarrow> 's servlet option" where
  "ServletDispatch_getMatchedServlet fnmatch uri d =
     (case map_of (m_datas d) uri of
        Some slt \<Rightarrow> slt
      | None \<Rightarrow>
          (case find (\<lambda>(pat, slt). fnmatch (c_str pat) (c_str uri)) (m_globs d) of
             Some (_, slt) \<Rightarrow> slt
           | None \<Rightarrow> m_default d))"

lemma matched_smaller:
  assumes "ServletDispatch_getMatchedServlet fnmatch uri d = Some slt"
  shows "size slt < size (ServletDispatch d)"
proof -
  have in_list: "size slt \<le> size_list (size_prod (\<lambda>_. 0) (size_option size)) xs" if "(k, Some slt) \<in> set xs"
    for k :: string and xs
    using size_list_estimation' [OF that, of "size slt" "size_prod (\<lambda>_. 0) (size_option size)"] by simp
  have "(\<exists>k. (k, Some slt) \<in> set (m_datas d)) \<or> (\<exists>k. (k, Some slt) \<in> set (m_globs d)) \<or> m_default d = Some slt"
    using assms
    by (auto simp: ServletDispatch_getMatchedServlet_def split: option.splits dest!: map_of_SomeD find_SomeD)
  then show ?thesis
    by (cases d) (auto dest: in_list)
qed

text \<open>The virtual call \<open>handle\<close>.\<close>

function Servlet_handle :: "(string \<Rightarrow> string \<Rightarrow> bool) \<Rightarrow> 's servlet \<Rightarrow> 's handler" where
  "Servlet_handle fnmatch (FunctionServlet cb) x = FunctionServlet_handle cb x"
| "Servlet_handle fnmatch (NotFoundServlet name content) x = NotFoundServlet_handle content x"
| "Servlet_handle fnmatch (ServletDispatch d) x =
     (case ServletDispatch_getMatchedServlet fnmatch (req_path (fst x)) d of
        None \<Rightarrow> (Inr 0, x)
      | Some slt \<Rightarrow>
          (case Servlet_handle fnmatch slt x of
             (Inl e, x') \<Rightarrow> (Inl e, x')
           | (Inr _, x') \<Rightarrow> (Inr 0, x')))"
  by pat_completeness auto
termination
  by (relation "measure (\<lambda>(fnmatch, slt, x). size slt)") (auto dest: matched_smaller)

definition ServletDispatch_handle :: "(string \<Rightarrow> string \<Rightarrow> bool) \<Rightarrow> 's servlet dispatch \<Rightarrow> 's handler" where
  "ServletDispatch_handle fnmatch d x = Servlet_handle fnmatch (ServletDispatch d) x"


section \<open>Routing after any sequence of registrations\<close>

datatype 's registration =
    AddServlet string "'s servlet option"
  | AddServletCb string "'s handler option"
  | AddGlob string "'s servlet option"
  | AddGlobCb string "'s handler option"
  | DelServlet string
  | DelGlob string
  | SetDefault "'s servlet option"

fun register :: "'s registration \<Rightarrow> 's servlet dispatch \<Rightarrow> 's servlet dispatch" where
  "register (AddServlet uri slt) d = ServletDispatch_addServlet uri slt d"
| "register (AddServletCb uri cb) d = ServletDispatch_addServlet_cb uri cb d"
| "register (AddGlob uri slt) d = ServletDispatch_addGlobServlet uri slt d"
| "register (AddGlobCb uri cb) d = ServletDispatch_addGlobServlet_cb uri cb d"
| "register (DelServlet uri) d = ServletDispatch_delServlet uri d"
| "register (DelGlob uri) d = ServletDispatch_delGlobServlet uri d"
| "register (SetDefault slt) d = ServletDispatch_setDefault slt d"

definition registered :: "'s registration list \<Rightarrow> 's servlet dispatch" where
  "registered rs = fold register rs ServletDispatch_new"

text \<open>
  The reference: what each registration says of an exact path, of a pattern and of the default, read off the history alone. The
  latest word on a path or pattern counts; patterns rank by the time of their latest registration.
\<close>

fun exact_word :: "string \<Rightarrow> 's registration \<Rightarrow> 's servlet option option option" where
  "exact_word uri (AddServlet u slt) = (if u = uri then Some (Some slt) else None)"
| "exact_word uri (AddServletCb u cb) = (if u = uri then Some (Some (Some (FunctionServlet cb))) else None)"
| "exact_word uri (DelServlet u) = (if u = uri then Some None else None)"
| "exact_word uri _ = None"

fun glob_word :: "'s registration \<Rightarrow> (string \<times> 's servlet option option) option" where
  "glob_word (AddGlob p slt) = Some (p, Some slt)"
| "glob_word (AddGlobCb p cb) = Some (p, Some (Some (FunctionServlet cb)))"
| "glob_word (DelGlob p) = Some (p, None)"
| "glob_word _ = None"

fun default_word :: "'s registration \<Rightarrow> 's servlet option option" where
  "default_word (SetDefault slt) = Some slt"
| "default_word _ = None"

text \<open>The last word of a history.\<close>

fun last_word :: "('r \<Rightarrow> 'w option) \<Rightarrow> 'w \<Rightarrow> 'r list \<Rightarrow> 'w" where
  "last_word f w [] = w"
| "last_word f w (r # rs) = last_word f (case f r of None \<Rightarrow> w | Some v \<Rightarrow> v) rs"

fun live_globs :: "'s registration list \<Rightarrow> (string \<times> 's servlet option) list" where
  "live_globs [] = []"
| "live_globs (r # rs) =
     (case glob_word r of
        Some (p, Some slt) \<Rightarrow>
          (if \<exists>r' \<in> set rs. \<exists>w. glob_word r' = Some (p, w) then live_globs rs else (p, slt) # live_globs rs)
      | _ \<Rightarrow> live_globs rs)"

definition route_spec ::
    "(string \<Rightarrow> string \<Rightarrow> bool) \<Rightarrow> 's registration list \<Rightarrow> string \<Rightarrow> 's servlet option" where
  "route_spec fnmatch rs uri =
     (case last_word (exact_word uri) None rs of
        Some slt \<Rightarrow> slt
      | None \<Rightarrow>
          (case filter (\<lambda>(p, slt). fnmatch (c_str p) (c_str uri)) (live_globs rs) of
             (p, slt) # _ \<Rightarrow> slt
           | [] \<Rightarrow> last_word default_word (Some (NotFoundServlet_new ''mingo/1.0'')) rs))"

lemma last_word_snoc: "last_word f w (rs @ [r]) = (case f r of None \<Rightarrow> last_word f w rs | Some v \<Rightarrow> v)"
  by (induction rs arbitrary: w) (auto split: option.splits)

lemma live_globs_snoc:
  "live_globs (rs @ [r]) =
     (case glob_word r of
        None \<Rightarrow> live_globs rs
      | Some (p, w) \<Rightarrow>
          filter (\<lambda>g. fst g \<noteq> p) (live_globs rs) @ (case w of None \<Rightarrow> [] | Some slt \<Rightarrow> [(p, slt)]))"
  by (induction rs) (auto split: option.splits)

lemma erase_glob_filter:
  "distinct (map fst gs) \<Longrightarrow> erase_glob p gs = filter (\<lambda>g. fst g \<noteq> p) gs"
proof (induction gs)
  case Nil
  then show ?case by simp
next
  case (Cons g gs)
  have "filter (\<lambda>h. fst h \<noteq> fst g) gs = gs"
    using Cons.prems by (simp add: filter_id_conv) (metis image_eqI)
  then show ?case using Cons by auto
qed

lemma distinct_filter_fst: "distinct (map fst gs) \<Longrightarrow> distinct (map fst (filter P gs))"
  by (induction gs) auto

text \<open>The dispatcher's state after a history: exact entries, patterns and default as the reference has them.\<close>

lemma registered_state:
  "map_of (m_datas (registered rs)) uri = last_word (exact_word uri) None rs \<and>
   m_globs (registered rs) = live_globs rs \<and> distinct (map fst (live_globs rs)) \<and>
   m_default (registered rs) = last_word default_word (Some (NotFoundServlet_new ''mingo/1.0'')) rs"
proof (induction rs rule: rev_induct)
  case Nil
  then show ?case by (simp add: registered_def ServletDispatch_new_def)
next
  case (snoc r rs)
  have step: "registered (rs @ [r]) = register r (registered rs)"
    by (simp add: registered_def)
  show ?case
    using snoc unfolding step
    by (cases r)
      (auto simp: last_word_snoc live_globs_snoc update_conv delete_conv erase_glob_filter distinct_filter_fst
        ServletDispatch_addServlet_def ServletDispatch_addServlet_cb_def ServletDispatch_addGlobServlet_def
        ServletDispatch_addGlobServlet_cb_def ServletDispatch_delServlet_def ServletDispatch_delGlobServlet_def
        ServletDispatch_setDefault_def)
qed

lemma case_find_filter:
  "(case find P gs of None \<Rightarrow> dflt | Some (p, slt) \<Rightarrow> slt) = (case filter P gs of [] \<Rightarrow> dflt | (p, slt) # _ \<Rightarrow> slt)"
  by (induction gs) auto

text \<open>
  C8: Routing. After any sequence of registrations and removals on a new dispatcher, the servlet chosen for a path is the one the
  history prescribes: the latest one registered for exactly this path and not removed since; otherwise the first, in the order of
  their latest registration, of the patterns still registered that match; otherwise the default last set, or the
  page-not-found servlet.
\<close>

theorem servlet_routing:
  "ServletDispatch_getMatchedServlet fnmatch uri (registered rs) = route_spec fnmatch rs uri"
  using registered_state [of rs uri]
  by (auto simp: ServletDispatch_getMatchedServlet_def route_spec_def case_find_filter
    split: option.split list.split)

section \<open>Handling\<close>

lemma NotFoundServlet_response:
  assumes "NotFoundServlet_handle content (request, response, session) = (r, request', response', session')"
  shows "r = Inr 0" "request' = request" "session' = session"
    "rsp_status response' = 404" "rsp_body response' = content"
    "rsp_close response' = rsp_close response" "rsp_version response' = rsp_version response"
  using assms by (auto simp: NotFoundServlet_handle_def HttpResponse_setStatus_def HttpResponse_setHeader_def
      HttpResponse_setBody_def Let_def)

end
