(* ===== verification/Mingo_Hook.thy ===== *)
theory Mingo_Hook
  imports Mingo_IOManager "HOL-Library.Signed_Division"
begin

text \<open>
  \<^verbatim>\<open>mingo/hook.cpp\<close>: the replacements of the blocking system calls, which suspend the calling fiber instead of its thread.
  The state is the IO manager that \<open>IOManager::GetThis()\<close> finds, the descriptor table, the thread-local
  switch and \<open>errno\<close>, and the kernel: per descriptor what \<open>fstat\<close> says and the file status flags
  (\<open>fcntl\<close> and \<open>ioctl\<close> follow their documentation; they may fail, an argument \<open>fail\<close>), and the rest of it, of any type. An
  original function such as \<open>recv_f\<close> with its arguments is a function on that rest, giving the result and the error number.
  A call that yields is cut there: it returns, or it is suspended, and a second definition continues it when the fiber
  runs again, on whatever thread and in whatever state. Clock values and the addresses of new timers are arguments.
\<close>

section \<open>State\<close>

abbreviation EINTR :: int where "EINTR \<equiv> 4"
abbreviation EBADF :: int where "EBADF \<equiv> 9"
abbreviation EAGAIN :: int where "EAGAIN \<equiv> 11"
abbreviation ETIMEDOUT :: int where "ETIMEDOUT \<equiv> 110"
abbreviation EINPROGRESS :: int where "EINPROGRESS \<equiv> 115"

text \<open>The object \<open>timer_info\<close> with what the time-out callback made for it captures; it lives as long as the call.\<close>

record timer_info =
  ti_cancelled :: int
  ti_fd :: int
  ti_event :: u32
  ti_alive :: bool

record 'k hstate =
  iomgr :: "iom option"
  fds :: fd_table
  t_hook_enable :: "nat \<Rightarrow> bool"
  h_errno :: "nat \<Rightarrow> int"
  kstat :: "int \<Rightarrow> bool option"
  kflags :: "int \<Rightarrow> u32"
  kern :: 'k
  infos :: "nat \<Rightarrow> timer_info"
  next_info :: nat

type_synonym 'k syscall = "'k \<Rightarrow> (int \<times> int) \<times> 'k"

datatype io_result = Returned int | Suspended "nat option"

definition set_errno :: "nat \<Rightarrow> int \<Rightarrow> 'k hstate \<Rightarrow> 'k hstate" where
  "set_errno t e h = h\<lparr>h_errno := (h_errno h)(t := e)\<rparr>"

definition sys_call :: "nat \<Rightarrow> 'k syscall \<Rightarrow> 'k hstate \<Rightarrow> int \<times> 'k hstate" where
  "sys_call t f h =
     (case f (kern h) of ((n, e), k) \<Rightarrow> (n, if n = - 1 then set_errno t e (h\<lparr>kern := k\<rparr>) else h\<lparr>kern := k\<rparr>))"

definition is_hook_enable :: "nat \<Rightarrow> 'k hstate \<Rightarrow> bool" where
  "is_hook_enable t h = t_hook_enable h t"

definition set_hook_enable :: "nat \<Rightarrow> bool \<Rightarrow> 'k hstate \<Rightarrow> 'k hstate" where
  "set_hook_enable t flag h = h\<lparr>t_hook_enable := (t_hook_enable h)(t := flag)\<rparr>"

text \<open>Operations of the IO manager, of its timers, and of the descriptor table, on this state.\<close>

definition on_iom :: "(iom, 'a) oper \<Rightarrow> ('k hstate, 'a) oper" where
  "on_iom f h =
     (case iomgr h of
        None \<Rightarrow> (Inl NullDeref, h)
      | Some w \<Rightarrow> (case f w of (r, w') \<Rightarrow> (r, h\<lparr>iomgr := Some w'\<rparr>)))"

definition add_timer :: "u64 \<Rightarrow> nat \<Rightarrow> u64 \<Rightarrow> callback option \<Rightarrow> (iom, nat) oper" where
  "add_timer now a ms cb w =
     (case TimerManager_addTimer now a ms cb False (timers w) of (at_front, tm) \<Rightarrow>
        let w1 = w\<lparr>timers := tm\<rparr> in (Inr a, if at_front then IOManager_onTimerInsertedAtFront w1 else w1))"

definition add_condition_timer :: "u64 \<Rightarrow> nat \<Rightarrow> u64 \<Rightarrow> callback \<Rightarrow> nat \<Rightarrow> (iom, nat) oper" where
  "add_condition_timer now a ms cb cond w =
     (case TimerManager_addConditionTimer now a ms cb cond False (timers w) of (at_front, tm) \<Rightarrow>
        let w1 = w\<lparr>timers := tm\<rparr> in (Inr a, if at_front then IOManager_onTimerInsertedAtFront w1 else w1))"

definition cancel_timer :: "nat option \<Rightarrow> ('k hstate, unit) oper" where
  "cancel_timer timer =
     (case timer of
        None \<Rightarrow> ret ()
      | Some a \<Rightarrow> on_iom (\<lambda>w. case Timer_cancel a (timers w) of
                              (Inl e, tm) \<Rightarrow> (Inl e, w\<lparr>timers := tm\<rparr>) | (Inr _, tm) \<Rightarrow> (Inr (), w\<lparr>timers := tm\<rparr>)))"

definition os_view :: "'k hstate \<Rightarrow> int \<Rightarrow> os_fd" where
  "os_view h fd = \<lparr>os_fstat = kstat h fd, os_flags = kflags h fd\<rparr>"

text \<open>\<open>FdMgr::getInstance()->get(fd)\<close>, and with \<open>auto_create\<close>, where a new context switches a socket to non-blocking mode.\<close>

definition fd_get :: "int \<Rightarrow> ('k hstate, FdCtx option) oper" where
  "fd_get fd h = (case FdManager_get (os_view h) fd False (fds h) of (r, ds) \<Rightarrow> (r, h\<lparr>fds := ds\<rparr>))"

definition fd_get_create :: "int \<Rightarrow> ('k hstate, FdCtx option) oper" where
  "fd_get_create fd h =
     (case FdManager_get (os_view h) fd True (fds h) of (r, ds) \<Rightarrow>
        let created = (fd_lookup (fds h) fd = None \<and> fd \<noteq> - 1) in
        (r, h\<lparr>fds := ds,
              kflags := (case snd (FdCtx_new (os_view h) fd) of
                           Some fl \<Rightarrow> if created then (kflags h)(fd := fl) else kflags h
                         | None \<Rightarrow> kflags h)\<rparr>))"

text \<open>A change of a context the table holds (the context is shared with the table).\<close>

definition fd_modify :: "int \<Rightarrow> (FdCtx \<Rightarrow> FdCtx) \<Rightarrow> 'k hstate \<Rightarrow> 'k hstate" where
  "fd_modify fd g h = h\<lparr>fds := (fds h)[nat fd := map_option g (fds h ! nat fd)]\<rparr>"

section \<open>Reading and writing\<close>

text \<open>The loop that repeats an interrupted call; an endless one has no result.\<close>

partial_function (option) eintr_loop :: "nat \<Rightarrow> 'k syscall \<Rightarrow> 'k hstate \<Rightarrow> (int \<times> 'k hstate) option" where
  "eintr_loop t f h =
     (case sys_call t f h of (n, h1) \<Rightarrow>
        if n = - 1 \<and> h_errno h1 t = EINTR then eintr_loop t f h1 else Some (n, h1))"

text \<open>The numbers of the callbacks given to timers: waking a fiber, and the time-out of a call.\<close>

definition cb_schedule :: "nat \<Rightarrow> callback" where "cb_schedule f = Callback (2 * f)"

definition cb_timeout :: "nat \<Rightarrow> callback" where "cb_timeout info = Callback (2 * info + 1)"

text \<open>The end of a call: its \<open>timer_info\<close> is destroyed.\<close>

definition io_return :: "nat \<Rightarrow> int \<Rightarrow> ('k hstate, io_result) oper" where
  "io_return info n h = (Inr (Returned n), h\<lparr>infos := (infos h)(info := (infos h info)\<lparr>ti_alive := False\<rparr>)\<rparr>)"

definition new_info :: "int \<Rightarrow> u32 \<Rightarrow> ('k hstate, nat) oper" where
  "new_info fd event h =
     (Inr (next_info h),
      h\<lparr>infos := (infos h)(next_info h := \<lparr>ti_cancelled = 0, ti_fd = fd, ti_event = event, ti_alive = True\<rparr>),
        next_info := next_info h + 1\<rparr>)"

text \<open>Waiting for the event, with a time-out unless it is \<open>(uint64_t)-1\<close>: the timer, then \<open>addEvent\<close>.\<close>

definition arm :: "nat \<Rightarrow> int \<Rightarrow> u32 \<Rightarrow> u64 \<Rightarrow> nat \<Rightarrow> u64 \<Rightarrow> nat \<Rightarrow> bool \<Rightarrow> ('k hstate, int \<times> nat option) oper" where
  "arm t fd event to info now a fail =
     andthen (if to \<noteq> - 1 then andthen (on_iom (add_condition_timer now a to (cb_timeout info) info)) (\<lambda>a. ret (Some a))
              else ret None)
       (\<lambda>timer. andthen (on_iom (IOManager_addEvent t fail fd event None)) (\<lambda>rt. ret (rt, timer)))"

text \<open>\<open>do_io\<close> from the label \<open>retry\<close> to the yield or the end.\<close>

definition do_io_retry ::
    "nat \<Rightarrow> 'k syscall \<Rightarrow> int \<Rightarrow> u32 \<Rightarrow> u64 \<Rightarrow> nat \<Rightarrow> u64 \<Rightarrow> nat \<Rightarrow> bool \<Rightarrow> ('k hstate, io_result) oper" where
  "do_io_retry t f fd event to info now a fail h =
     (case eintr_loop t f h of
        None \<Rightarrow> (Inl NoReturn, h)
      | Some (n, h1) \<Rightarrow>
          if n = - 1 \<and> h_errno h1 t = EAGAIN then
            andthen (arm t fd event to info now a fail) (\<lambda>(rt, timer).
              if rt \<noteq> 0 then andthen (cancel_timer timer) (\<lambda>_. io_return info (- 1))
              else andthen (on_iom (Fiber_YieldToHold t)) (\<lambda>_. ret (Suspended timer))) h1
          else io_return info n h1)"

definition do_io ::
    "nat \<Rightarrow> 'k syscall \<Rightarrow> int \<Rightarrow> u32 \<Rightarrow> int \<Rightarrow> u64 \<Rightarrow> nat \<Rightarrow> bool \<Rightarrow> ('k hstate, io_result) oper" where
  "do_io t f fd event timeout_so now a fail h =
     (if \<not> t_hook_enable h t then (case sys_call t f h of (n, h1) \<Rightarrow> (Inr (Returned n), h1))
      else
        andthen (fd_get fd) (\<lambda>ctx h.
          case ctx of
            None \<Rightarrow> (case sys_call t f h of (n, h1) \<Rightarrow> (Inr (Returned n), h1))
          | Some c \<Rightarrow>
              if m_isClosed c then (Inr (Returned (- 1)), set_errno t EBADF h)
              else if \<not> m_isSocket c \<or> m_userNonblock c
              then (case sys_call t f h of (n, h1) \<Rightarrow> (Inr (Returned n), h1))
              else
                andthen (new_info fd event) (\<lambda>info.
                  do_io_retry t f fd event (FdCtx_getTimeout timeout_so c) info now a fail) h) h)"

text \<open>\<open>do_io\<close> after the yield.\<close>

definition do_io_resume ::
    "nat \<Rightarrow> 'k syscall \<Rightarrow> int \<Rightarrow> u32 \<Rightarrow> u64 \<Rightarrow> nat \<Rightarrow> nat option \<Rightarrow> u64 \<Rightarrow> nat \<Rightarrow> bool \<Rightarrow> ('k hstate, io_result) oper" where
  "do_io_resume t f fd event to info timer now a fail =
     andthen (cancel_timer timer) (\<lambda>_ h.
       if ti_cancelled (infos h info) \<noteq> 0
       then io_return info (- 1) (set_errno t (ti_cancelled (infos h info)) h)
       else do_io_retry t f fd event to info now a fail h)"

text \<open>The callback of the time-out timer.\<close>

definition do_io_timeout :: "nat \<Rightarrow> bool \<Rightarrow> ('k hstate, unit) oper" where
  "do_io_timeout info fail h =
     (let i = infos h info in
      if \<not> ti_alive i \<or> ti_cancelled i \<noteq> 0 then (Inr (), h)
      else
        andthen (on_iom (IOManager_cancelEvent fail (ti_fd i) (ti_event i))) (\<lambda>_. ret ())
          (h\<lparr>infos := (infos h)(info := i\<lparr>ti_cancelled := ETIMEDOUT\<rparr>)\<rparr>))"

text \<open>What the scheduler runs for a timer's callback.\<close>

definition run_timer_cb :: "nat \<Rightarrow> bool \<Rightarrow> ('k hstate, unit) oper" where
  "run_timer_cb n fail =
     (if even n then andthen (on_iom (IOManager_schedule (FiberPtr (Some (n div 2))) (- 1))) (\<lambda>_. ret ())
      else do_io_timeout (n div 2) fail)"

definition hook_read :: "nat \<Rightarrow> 'k syscall \<Rightarrow> int \<Rightarrow> u64 \<Rightarrow> nat \<Rightarrow> bool \<Rightarrow> ('k hstate, io_result) oper" where
  "hook_read t read_f fd = do_io t read_f fd READ SO_RCVTIMEO"

definition hook_readv :: "nat \<Rightarrow> 'k syscall \<Rightarrow> int \<Rightarrow> u64 \<Rightarrow> nat \<Rightarrow> bool \<Rightarrow> ('k hstate, io_result) oper" where
  "hook_readv t readv_f fd = do_io t readv_f fd READ SO_RCVTIMEO"

definition hook_recv :: "nat \<Rightarrow> 'k syscall \<Rightarrow> int \<Rightarrow> u64 \<Rightarrow> nat \<Rightarrow> bool \<Rightarrow> ('k hstate, io_result) oper" where
  "hook_recv t recv_f sockfd = do_io t recv_f sockfd READ SO_RCVTIMEO"

definition hook_recvfrom :: "nat \<Rightarrow> 'k syscall \<Rightarrow> int \<Rightarrow> u64 \<Rightarrow> nat \<Rightarrow> bool \<Rightarrow> ('k hstate, io_result) oper" where
  "hook_recvfrom t recvfrom_f sockfd = do_io t recvfrom_f sockfd READ SO_RCVTIMEO"

definition hook_recvmsg :: "nat \<Rightarrow> 'k syscall \<Rightarrow> int \<Rightarrow> u64 \<Rightarrow> nat \<Rightarrow> bool \<Rightarrow> ('k hstate, io_result) oper" where
  "hook_recvmsg t recvmsg_f sockfd = do_io t recvmsg_f sockfd READ SO_RCVTIMEO"

definition hook_write :: "nat \<Rightarrow> 'k syscall \<Rightarrow> int \<Rightarrow> u64 \<Rightarrow> nat \<Rightarrow> bool \<Rightarrow> ('k hstate, io_result) oper" where
  "hook_write t write_f fd = do_io t write_f fd WRITE SO_SNDTIMEO"

definition hook_writev :: "nat \<Rightarrow> 'k syscall \<Rightarrow> int \<Rightarrow> u64 \<Rightarrow> nat \<Rightarrow> bool \<Rightarrow> ('k hstate, io_result) oper" where
  "hook_writev t writev_f fd = do_io t writev_f fd WRITE SO_SNDTIMEO"

definition hook_send :: "nat \<Rightarrow> 'k syscall \<Rightarrow> int \<Rightarrow> u64 \<Rightarrow> nat \<Rightarrow> bool \<Rightarrow> ('k hstate, io_result) oper" where
  "hook_send t send_f s = do_io t send_f s WRITE SO_SNDTIMEO"

definition hook_sendto :: "nat \<Rightarrow> 'k syscall \<Rightarrow> int \<Rightarrow> u64 \<Rightarrow> nat \<Rightarrow> bool \<Rightarrow> ('k hstate, io_result) oper" where
  "hook_sendto t sendto_f s = do_io t sendto_f s WRITE SO_SNDTIMEO"

definition hook_sendmsg :: "nat \<Rightarrow> 'k syscall \<Rightarrow> int \<Rightarrow> u64 \<Rightarrow> nat \<Rightarrow> bool \<Rightarrow> ('k hstate, io_result) oper" where
  "hook_sendmsg t sendmsg_f s = do_io t sendmsg_f s WRITE SO_SNDTIMEO"

text \<open>\<open>accept\<close>: the wait, and what follows when a descriptor came back.\<close>

definition accept_end :: "io_result \<Rightarrow> ('k hstate, io_result) oper" where
  "accept_end r =
     (case r of
        Returned fd \<Rightarrow> if fd \<ge> 0 then andthen (fd_get_create fd) (\<lambda>_. ret r) else ret r
      | Suspended _ \<Rightarrow> ret r)"

definition hook_accept :: "nat \<Rightarrow> 'k syscall \<Rightarrow> int \<Rightarrow> u64 \<Rightarrow> nat \<Rightarrow> bool \<Rightarrow> ('k hstate, io_result) oper" where
  "hook_accept t accept_f s now a fail = andthen (do_io t accept_f s READ SO_RCVTIMEO now a fail) accept_end"

definition hook_accept_resume ::
    "nat \<Rightarrow> 'k syscall \<Rightarrow> int \<Rightarrow> u64 \<Rightarrow> nat \<Rightarrow> nat option \<Rightarrow> u64 \<Rightarrow> nat \<Rightarrow> bool \<Rightarrow> ('k hstate, io_result) oper" where
  "hook_accept_resume t accept_f s to info timer now a fail =
     andthen (do_io_resume t accept_f s READ to info timer now a fail) accept_end"

section \<open>Sleeping\<close>

text \<open>The common part: a timer that schedules the calling fiber, and the yield.\<close>

definition sleep_for :: "nat \<Rightarrow> u64 \<Rightarrow> u64 \<Rightarrow> nat \<Rightarrow> ('k hstate, io_result) oper" where
  "sleep_for t ms now a =
     andthen (on_iom (Fiber_GetThis t)) (\<lambda>fiber.
     andthen (on_iom (add_timer now a ms (Some (cb_schedule fiber)))) (\<lambda>_.
     andthen (on_iom (Fiber_YieldToHold t)) (\<lambda>_. ret (Suspended None))))"

definition hook_sleep :: "nat \<Rightarrow> 'k syscall \<Rightarrow> u32 \<Rightarrow> u64 \<Rightarrow> nat \<Rightarrow> ('k hstate, io_result) oper" where
  "hook_sleep t sleep_f seconds now a h =
     (if \<not> t_hook_enable h t then (case sys_call t sleep_f h of (n, h1) \<Rightarrow> (Inr (Returned n), h1))
      else sleep_for t (ucast (seconds * 1000)) now a h)"

definition hook_usleep :: "nat \<Rightarrow> 'k syscall \<Rightarrow> u32 \<Rightarrow> u64 \<Rightarrow> nat \<Rightarrow> ('k hstate, io_result) oper" where
  "hook_usleep t usleep_f usec now a h =
     (if \<not> t_hook_enable h t then (case sys_call t usleep_f h of (n, h1) \<Rightarrow> (Inr (Returned n), h1))
      else sleep_for t (ucast (usec div 1000)) now a h)"

definition nanosleep_ms :: "int \<Rightarrow> int \<Rightarrow> int" where
  "nanosleep_ms tv_sec tv_nsec = sint (word_of_int (tv_sec * 1000 + tv_nsec sdiv 1000 sdiv 1000) :: u32)"

definition hook_nanosleep :: "nat \<Rightarrow> 'k syscall \<Rightarrow> int \<Rightarrow> int \<Rightarrow> u64 \<Rightarrow> nat \<Rightarrow> ('k hstate, io_result) oper" where
  "hook_nanosleep t nanosleep_f tv_sec tv_nsec now a h =
     (if \<not> t_hook_enable h t then (case sys_call t nanosleep_f h of (n, h1) \<Rightarrow> (Inr (Returned n), h1))
      else sleep_for t (word_of_int (nanosleep_ms tv_sec tv_nsec)) now a h)"

section \<open>Sockets\<close>

definition hook_socket :: "nat \<Rightarrow> 'k syscall \<Rightarrow> ('k hstate, int) oper" where
  "hook_socket t socket_f h =
     (case sys_call t socket_f h of (fd, h1) \<Rightarrow>
        if \<not> t_hook_enable h t then (Inr fd, h1)
        else if fd = - 1 then (Inr fd, h1)
        else andthen (fd_get_create fd) (\<lambda>_. ret fd) h1)"

text \<open>\<open>getsockopt(SO_ERROR)\<close>: \<open>None\<close> when the call fails.\<close>

definition connect_end :: "nat \<Rightarrow> int option \<Rightarrow> ('k hstate, int) oper" where
  "connect_end t so_error h =
     (case so_error of
        None \<Rightarrow> (Inr (- 1), h)
      | Some error \<Rightarrow> if error = 0 then (Inr 0, h) else (Inr (- 1), set_errno t error h))"

definition connect_with_timeout ::
    "nat \<Rightarrow> 'k syscall \<Rightarrow> int \<Rightarrow> u64 \<Rightarrow> int option \<Rightarrow> u64 \<Rightarrow> nat \<Rightarrow> bool \<Rightarrow> ('k hstate, io_result \<times> nat) oper" where
  "connect_with_timeout t connect_f fd timeout_ms so_error now a fail h =
     (let plain = (\<lambda>h. case sys_call t connect_f h of (n, h1) \<Rightarrow> (Inr (Returned n, 0), h1)) in
      if \<not> t_hook_enable h t then plain h
      else
        andthen (fd_get fd) (\<lambda>ctx h.
          case ctx of
            None \<Rightarrow> (Inr (Returned (- 1), 0), set_errno t EBADF h)
          | Some c \<Rightarrow>
              if m_isClosed c then (Inr (Returned (- 1), 0), set_errno t EBADF h)
              else if \<not> m_isSocket c then plain h
              else if m_userNonblock c then plain h
              else
                case sys_call t connect_f h of (n, h1) \<Rightarrow>
                  if n = 0 then (Inr (Returned 0, 0), h1)
                  else if n \<noteq> - 1 \<or> h_errno h1 t \<noteq> EINPROGRESS then (Inr (Returned n, 0), h1)
                  else
                    andthen (new_info fd WRITE) (\<lambda>info.
                    andthen (arm t fd WRITE timeout_ms info now a fail) (\<lambda>(rt, timer).
                      if rt = 0 then andthen (on_iom (Fiber_YieldToHold t)) (\<lambda>_. ret (Suspended timer, info))
                      else
                        andthen (cancel_timer timer) (\<lambda>_.
                        andthen (connect_end t so_error) (\<lambda>n.
                        andthen (io_return info n) (\<lambda>r. ret (r, info)))))) h1) h)"

definition connect_resume :: "nat \<Rightarrow> nat \<Rightarrow> nat option \<Rightarrow> int option \<Rightarrow> ('k hstate, io_result) oper" where
  "connect_resume t info timer so_error =
     andthen (cancel_timer timer) (\<lambda>_ h.
       if ti_cancelled (infos h info) \<noteq> 0
       then io_return info (- 1) (set_errno t (ti_cancelled (infos h info)) h)
       else andthen (connect_end t so_error) (io_return info) h)"

definition s_connect_timeout :: u64 where
  "s_connect_timeout = - 1"

definition hook_connect ::
    "nat \<Rightarrow> 'k syscall \<Rightarrow> int \<Rightarrow> int option \<Rightarrow> u64 \<Rightarrow> nat \<Rightarrow> bool \<Rightarrow> ('k hstate, io_result \<times> nat) oper" where
  "hook_connect t connect_f sockfd = connect_with_timeout t connect_f sockfd s_connect_timeout"

definition hook_close :: "nat \<Rightarrow> 'k syscall \<Rightarrow> int \<Rightarrow> bool \<Rightarrow> ('k hstate, int) oper" where
  "hook_close t close_f fd fail h =
     (let plain = (\<lambda>h. case sys_call t close_f h of (n, h1) \<Rightarrow> (Inr n, h1)) in
      if \<not> t_hook_enable h t then plain h
      else
        andthen (fd_get fd) (\<lambda>ctx.
        andthen (\<lambda>h. case ctx of
              None \<Rightarrow> (Inr (), h)
            | Some c \<Rightarrow>
                andthen (\<lambda>h. if iomgr h \<noteq> None
                             then andthen (on_iom (IOManager_cancelAll fail fd)) (\<lambda>_. ret ()) h else (Inr (), h))
                  (\<lambda>_ h. case FdManager_del fd (fds h) of (r, ds) \<Rightarrow> (r, h\<lparr>fds := ds\<rparr>)) h)
          (\<lambda>_. plain)) h)"

section \<open>Flags and options\<close>

abbreviation F_GETFL :: int where "F_GETFL \<equiv> 3"
abbreviation F_SETFL :: int where "F_SETFL \<equiv> 4"

text \<open>
  The commands with an argument: integers (\<open>F_DUPFD\<close>, \<open>F_DUPFD_CLOEXEC\<close>, \<open>F_SETFD\<close>, \<open>F_SETOWN\<close>, \<open>F_SETSIG\<close>, \<open>F_SETLEASE\<close>,
  \<open>F_NOTIFY\<close>, \<open>F_SETPIPE_SZ\<close>), locks (\<open>F_SETLK\<close>, \<open>F_SETLKW\<close>, \<open>F_GETLK\<close>), owners (\<open>F_GETOWN_EX\<close>, \<open>F_SETOWN_EX\<close>).
\<close>

definition arg_cmds :: "int list" where
  "arg_cmds = [0, 1030, 2, 8, 10, 1024, 1026, 1031, 6, 7, 5, 16, 15]"

text \<open>The kernel's flags of a descriptor; -1 is the result of a failure.\<close>

definition fcntl_getfl :: "bool \<Rightarrow> int \<Rightarrow> 'k hstate \<Rightarrow> u32" where
  "fcntl_getfl fail fd h = (if fail then - 1 else kflags h fd)"

definition fcntl_setfl :: "bool \<Rightarrow> int \<Rightarrow> u32 \<Rightarrow> 'k hstate \<Rightarrow> u32 \<times> 'k hstate" where
  "fcntl_setfl fail fd arg h = (if fail then (- 1, h) else (0, h\<lparr>kflags := (kflags h)(fd := arg)\<rparr>))"

definition hook_fcntl ::
    "nat \<Rightarrow> (int \<Rightarrow> u32 option \<Rightarrow> 'k syscall) \<Rightarrow> bool \<Rightarrow> int \<Rightarrow> int \<Rightarrow> u32 \<Rightarrow> ('k hstate, u32) oper" where
  "hook_fcntl t fcntl_f fail fd cmd arg h =
     (if cmd = F_SETFL then
        andthen (fd_get fd) (\<lambda>ctx h.
          case ctx of
            None \<Rightarrow> (case fcntl_setfl fail fd arg h of (r, h1) \<Rightarrow> (Inr r, h1))
          | Some c \<Rightarrow>
              if m_isClosed c \<or> \<not> m_isSocket c then (case fcntl_setfl fail fd arg h of (r, h1) \<Rightarrow> (Inr r, h1))
              else
                let h1 = fd_modify fd (FdCtx_setUserNonblock (arg AND O_NONBLOCK \<noteq> 0)) h;
                    arg1 = (if m_sysNonblock c then arg OR O_NONBLOCK else arg AND NOT O_NONBLOCK)
                in case fcntl_setfl fail fd arg1 h1 of (r, h2) \<Rightarrow> (Inr r, h2)) h
      else if cmd = F_GETFL then
        andthen (fd_get fd) (\<lambda>ctx h.
          let arg1 = fcntl_getfl fail fd h in
          case ctx of
            None \<Rightarrow> (Inr arg1, h)
          | Some c \<Rightarrow>
              if m_isClosed c \<or> \<not> m_isSocket c then (Inr arg1, h)
              else (Inr (if m_userNonblock c then arg1 OR O_NONBLOCK else arg1 AND NOT O_NONBLOCK), h)) h
      else
        case sys_call t (fcntl_f cmd (if cmd \<in> set arg_cmds then Some arg else None)) h of
          (n, h1) \<Rightarrow> (Inr (word_of_int n), h1))"

abbreviation FIONBIO :: int where "FIONBIO \<equiv> 0x5421"

definition ioctl_fionbio :: "bool \<Rightarrow> int \<Rightarrow> bool \<Rightarrow> 'k hstate \<Rightarrow> int \<times> 'k hstate" where
  "ioctl_fionbio fail d on h =
     (if fail then (- 1, h)
      else (0, h\<lparr>kflags := (kflags h)(d := (if on then kflags h d OR O_NONBLOCK else kflags h d AND NOT O_NONBLOCK))\<rparr>))"

text \<open>\<open>arg\<close> is the integer that the pointer of \<open>FIONBIO\<close> points to.\<close>

definition hook_ioctl :: "nat \<Rightarrow> 'k syscall \<Rightarrow> bool \<Rightarrow> int \<Rightarrow> int \<Rightarrow> int \<Rightarrow> ('k hstate, int) oper" where
  "hook_ioctl t ioctl_f fail d request arg h =
     (if request = FIONBIO then
        let user_nonblock = (arg \<noteq> 0) in
        andthen (fd_get d) (\<lambda>ctx h.
          case ctx of
            None \<Rightarrow> (case ioctl_fionbio fail d (arg \<noteq> 0) h of (r, h1) \<Rightarrow> (Inr r, h1))
          | Some c \<Rightarrow>
              if m_isClosed c \<or> \<not> m_isSocket c
              then (case ioctl_fionbio fail d (arg \<noteq> 0) h of (r, h1) \<Rightarrow> (Inr r, h1))
              else
                case ioctl_fionbio fail d (arg \<noteq> 0) (fd_modify d (FdCtx_setUserNonblock user_nonblock) h) of
                  (r, h1) \<Rightarrow> (Inr r, h1)) h
      else case sys_call t ioctl_f h of (n, h1) \<Rightarrow> (Inr n, h1))"

definition hook_getsockopt :: "nat \<Rightarrow> 'k syscall \<Rightarrow> ('k hstate, int) oper" where
  "hook_getsockopt t getsockopt_f h = (case sys_call t getsockopt_f h of (n, h1) \<Rightarrow> (Inr n, h1))"

abbreviation SOL_SOCKET :: int where "SOL_SOCKET \<equiv> 1"

definition timeval_ms :: "int \<Rightarrow> int \<Rightarrow> u64" where
  "timeval_ms tv_sec tv_usec = word_of_int (tv_sec * 1000 + tv_usec sdiv 1000)"

text \<open>\<open>tv_sec\<close> and \<open>tv_usec\<close>: the \<open>timeval\<close> that the option value points to.\<close>

definition hook_setsockopt :: "nat \<Rightarrow> 'k syscall \<Rightarrow> int \<Rightarrow> int \<Rightarrow> int \<Rightarrow> int \<Rightarrow> int \<Rightarrow> ('k hstate, int) oper" where
  "hook_setsockopt t setsockopt_f sockfd level optname tv_sec tv_usec h =
     (let plain = (\<lambda>h. case sys_call t setsockopt_f h of (n, h1) \<Rightarrow> (Inr n, h1)) in
      if \<not> t_hook_enable h t then plain h
      else if level = SOL_SOCKET \<and> (optname = SO_RCVTIMEO \<or> optname = SO_SNDTIMEO) then
        andthen (fd_get sockfd) (\<lambda>ctx h.
          plain (if ctx \<noteq> None then fd_modify sockfd (FdCtx_setTimeout optname (timeval_ms tv_sec tv_usec)) h else h)) h
      else plain h)"

end
