(* ===== verification/Mingo_Hook_Props.thy ===== *)
theory Mingo_Hook_Props
  imports Mingo_Hook Mingo_IOManager_Props
begin

text \<open>
  What the hooked calls guarantee: a call that would block parks its fiber with the event registered and the thread back in
  the scheduler; a time-out or a readiness report wakes exactly this fiber; flags that the user sets are read back while the
  descriptor stays non-blocking for the system; sleeping, connecting and closing.
\<close>

section \<open>The parts that do not touch the event table\<close>

definition same_fibers :: "iom \<Rightarrow> iom \<Rightarrow> bool" where
  "same_fibers w w' \<longleftrightarrow> fibers w' = fibers w \<and> tls w' = tls w \<and> t_scheduler w' = t_scheduler w \<and> m_fibers w' = m_fibers w"

lemma same_fibers_refl [simp]: "same_fibers w w"
  by (simp add: same_fibers_def)

lemma tickle_frame [simp]:
  "same_fibers w (IOManager_tickle w1) \<longleftrightarrow> same_fibers w w1" "same_fibers w (w\<lparr>timers := tm\<rparr>)" "timers (IOManager_tickle w1) = timers w1"
  by (simp_all add: same_fibers_def IOManager_tickle_def)

lemma add_timer_effect:
  assumes "a \<notin> set (m_timers (timers w))" and "tm_inv (timers w)"
  obtains w' where "add_timer now a ms cb w = (Inr a, w')" "io_view w' = io_view w" "same_fibers w w'"
    "tm_inv (timers w')" "set (m_timers (timers w')) = insert a (set (m_timers (timers w)))"
    "tm_heap (timers w') = (tm_heap (timers w))(a := Timer_new now ms cb False)"
proof -
  obtain front tm where t: "TimerManager_addTimer now a ms cb False (timers w) = (front, tm)" by (metis prod.exhaust)
  have "tm_heap tm = (tm_heap (timers w))(a := Timer_new now ms cb False)"
    using t by (auto simp: TimerManager_addTimer_def addTimer_val_def Let_def)
  moreover note addTimer_inv [OF assms(2,1), of now ms cb False]
  ultimately show thesis
    using that [of "if front then IOManager_tickle (w\<lparr>timers := tm\<rparr>) else w\<lparr>timers := tm\<rparr>"] t
    by (cases front) (auto simp: add_timer_def IOManager_onTimerInsertedAtFront_def Let_def)
qed

lemma add_condition_timer_eq:
  "add_condition_timer now a ms cb cond = add_timer now a ms (Some (OnTimer cond cb))"
  by (intro ext) (simp add: add_condition_timer_def add_timer_def TimerManager_addConditionTimer_def)

lemma on_iom_Inr: "iomgr h = Some w \<Longrightarrow> f w = (r, w') \<Longrightarrow> on_iom f h = (r, h\<lparr>iomgr := Some w'\<rparr>)"
  by (simp add: on_iom_def)

lemma cancel_timer_disarms:
  assumes "iomgr h = Some w" and "tm_inv (timers w)"
  obtains tm where "cancel_timer timer h = (Inr (), h\<lparr>iomgr := Some (w\<lparr>timers := tm\<rparr>)\<rparr>)" "tm_inv tm"
    "\<forall>b. timer = Some b \<longrightarrow> m_cb (tm_heap tm b) = None"
proof (cases timer)
  case None
  have "h\<lparr>iomgr := Some (w\<lparr>timers := timers w\<rparr>)\<rparr> = h" using assms(1) by simp
  then show thesis using that [of "timers w"] None assms(2) by (simp add: cancel_timer_def)
next
  case (Some a)
  obtain b tm where r: "Timer_cancel a (timers w) = (Inr b, tm)" "m_cb (tm_heap tm a) = None"
    using cancel_spec [OF assms(2), of a] by (auto split: if_splits)
  then show thesis
    using that [of tm] cancel_inv [OF assms(2), of a] Some assms(1) by (simp add: cancel_timer_def on_iom_def)
qed

section \<open>Registering the running fiber\<close>

definition has_event :: "iom \<Rightarrow> int \<Rightarrow> u32 \<Rightarrow> bool" where
  "has_event w fd event \<longleftrightarrow> nat fd < length (m_fdContexts w) \<and> fc_events (m_fdContexts w ! nat fd) AND event \<noteq> 0"

text \<open>The fiber \<open>g\<close> waits for an event of a descriptor.\<close>

definition awaits :: "iom \<Rightarrow> int \<Rightarrow> u32 \<Rightarrow> nat \<Rightarrow> bool" where
  "awaits w fd event g \<longleftrightarrow> 0 \<le> fd \<and> has_event w fd event
     \<and> (if event = READ then fc_read (m_fdContexts w ! nat fd) else fc_write (m_fdContexts w ! nat fd))
       = \<lparr>ec_scheduler = Some 0, ec_fiber = Some g, ec_cb = None\<rparr>"

lemma locate_total:
  assumes "io_inv w" and "0 \<le> fd"
  obtains w1 where "locate fd w = (Inr (nat fd), w1)" "same_fibers w w1" "timers w1 = timers w"
    "\<And>event. has_event w1 fd event = has_event w fd event"
proof (cases "int (length (m_fdContexts w)) > fd")
  case True
  then show thesis using that [of w] assms(2) by (simp add: locate_def)
next
  case False
  have len: "length (m_fdContexts w) \<le> nat fd" "nat fd < grown fd"
    using False assms grown_bound [of fd] by (auto simp: io_inv_def)
  let ?w = "IOManager_contextResize (grown fd) w"
  have "m_fdContexts ?w = m_fdContexts w @ map fresh_context [length (m_fdContexts w)..<grown fd]"
    using len by (simp add: IOManager_contextResize_def)
  then have "length (m_fdContexts ?w) = grown fd" "m_fdContexts ?w ! nat fd = fresh_context (nat fd)"
    using len by (simp_all add: nth_append)
  then show thesis
    using that [of ?w] len False
    by (auto simp: locate_def Let_def has_event_def fresh_context_def same_fibers_def IOManager_contextResize_def)
qed


lemma addEvent_fiber:
  assumes inv: "io_inv w" and fd: "0 \<le> fd" and ev: "event = READ \<or> event = WRITE" and free: "\<not> has_event w fd event"
    and g: "t_fiber (tls w t) = Some g" "m_state (fibers w g) = EXEC" and sch: "t_scheduler w t = Some 0"
  obtains w' where "IOManager_addEvent t False fd event None w = (Inr 0, w')" "io_inv w'" "same_fibers w w'"
    "timers w' = timers w" "awaits w' fd event g"
proof -
  obtain w1 where l: "locate fd w = (Inr (nat fd), w1)" "same_fibers w w1" "timers w1 = timers w"
      "\<And>event. has_event w1 fd event = has_event w fd event"
    using locate_total [OF inv fd] by blast
  note le = locate_effect [OF l(1) inv]
  let ?c = "m_fdContexts w1 ! nat fd"
  have ok: "ctx_ok (nat fd) ?c (interest w1 fd)" "nat fd < length (m_fdContexts w1)"
    using le fd by (auto simp: io_inv_def)
  have none: "fc_events ?c AND event = 0" using free l(4) [of event] ok(2) by (auto simp: has_event_def)
  have reg: "(interest w1 fd \<noteq> None) \<longleftrightarrow> fc_events ?c \<noteq> 0" using ok(1) by (auto simp: ctx_ok_def registration_def)
  have nc: "getContext event (?c\<lparr>fc_events := fc_events ?c OR event\<rparr>) = Inr no_context"
    using ok(1) ev none by (auto simp: ctx_ok_def getContext_def waiting_def)
  have wf: "t_fiber (tls w1 t) = Some g" "m_state (fibers w1 g) = EXEC" "t_scheduler w1 t = Some 0"
    using l(2) g sch by (simp_all add: same_fibers_def)
  let ?e = "no_context\<lparr>ec_scheduler := Some 0, ec_fiber := Some g\<rparr>"
  let ?c1 = "?c\<lparr>fc_events := fc_events ?c OR event\<rparr>"
  let ?w2 = "w1\<lparr>interest := (interest w1)(fd := Some (EPOLLET OR fc_events ?c OR event)),
      m_pendingEventCount := m_pendingEventCount w1 + 1,
      m_fdContexts := (m_fdContexts w1)[nat fd := putContext event ?e ?c1]\<rparr>"
  have run: "addEvent_locked t False fd event None (nat fd) w1 = (Inr 0, ?w2)"
    using none reg nc wf
    by (simp add: addEvent_locked_def addEvent_attach_def epoll_ctl_def set_ctx_def Fiber_GetThis_def andthen_def Let_def)
  have add: "IOManager_addEvent t False fd event None w = (Inr 0, ?w2)"
    using l(1) run by (simp add: IOManager_addEvent_def andthen_def)
  have "fc_events ?c1 AND event \<noteq> 0"
    using ev by (auto simp: bit.conj_disj_distrib2 ev_table)
  then have aw: "awaits ?w2 fd event g"
    using ev fd ok(2) by (auto simp: awaits_def has_event_def putContext_def no_context_def)
  show thesis
    using that [OF add addEvent_inv [OF add inv] _ _ aw] l(2,3) by (simp add: same_fibers_def)
qed


section \<open>Interrupted calls\<close>

text \<open>The rest of the kernel after \<open>m\<close> calls.\<close>

definition after_calls :: "'k syscall \<Rightarrow> nat \<Rightarrow> 'k \<Rightarrow> 'k" where
  "after_calls f m k = ((\<lambda>k. snd (f k)) ^^ m) k"

text \<open>The kernel interrupts \<open>m\<close> times and then answers \<open>n\<close> with error number \<open>e\<close>.\<close>

definition answers :: "'k syscall \<Rightarrow> nat \<Rightarrow> 'k \<Rightarrow> int \<Rightarrow> int \<Rightarrow> bool" where
  "answers f m k n e \<longleftrightarrow> (\<forall>j < m. fst (f (after_calls f j k)) = (- 1, EINTR))
     \<and> fst (f (after_calls f m k)) = (n, e) \<and> \<not> (n = - 1 \<and> e = EINTR)"

lemma after_calls_Suc: "after_calls f (Suc m) k = after_calls f m (snd (f k))"
  by (simp add: after_calls_def funpow_Suc_right del: funpow.simps)

lemma answers_Suc: "answers f (Suc m) k n e \<longleftrightarrow> fst (f k) = (- 1, EINTR) \<and> answers f m (snd (f k)) n e"
  unfolding answers_def All_less_Suc2 after_calls_Suc by (auto simp: after_calls_def)

lemma eintr_loop_answers:
  assumes "answers f m (kern h) n e"
  obtains en where "eintr_loop t f h = Some (n, h\<lparr>kern := after_calls f (Suc m) (kern h), h_errno := en\<rparr>)"
    "n = - 1 \<longrightarrow> en t = e"
  using assms
proof (induction m arbitrary: h thesis)
  case 0
  obtain k where "f (kern h) = ((n, e), k)" "\<not> (n = - 1 \<and> e = EINTR)"
    using 0(2) by (cases "f (kern h)") (auto simp: answers_def after_calls_def)
  then have "eintr_loop t f h = Some (n, h\<lparr>kern := after_calls f (Suc 0) (kern h),
      h_errno := if n = - 1 then (h_errno h)(t := e) else h_errno h\<rparr>)"
    by (subst eintr_loop.simps) (auto simp: sys_call_def set_errno_def after_calls_def)
  then show ?case using 0(1) by auto
next
  case (Suc m)
  obtain k where k: "f (kern h) = ((- 1, EINTR), k)" "answers f m k n e"
    using Suc.prems(2) by (cases "f (kern h)") (auto simp: answers_Suc)
  let ?h = "h\<lparr>kern := k, h_errno := (h_errno h)(t := EINTR)\<rparr>"
  have "eintr_loop t f h = eintr_loop t f ?h"
    using k(1) by (subst eintr_loop.simps) (simp add: sys_call_def set_errno_def)
  moreover have "answers f m (kern ?h) n e" using k(2) by simp
  then obtain en where "eintr_loop t f ?h = Some (n, ?h\<lparr>kern := after_calls f (Suc m) (kern ?h), h_errno := en\<rparr>)"
      "n = - 1 \<longrightarrow> en t = e"
    using Suc.IH [of ?h] by blast
  ultimately show ?case
    using Suc.prems(1) [of en] k(1) by (simp add: after_calls_Suc)
qed


section \<open>Suspending\<close>

text \<open>
  A fiber is parked in a call: its event is registered for it, the information object of the call is alive, and the timer
  is armed if there is a time-out.
\<close>

definition parked ::
    "'k hstate \<Rightarrow> int \<Rightarrow> u32 \<Rightarrow> u64 \<Rightarrow> nat \<Rightarrow> nat option \<Rightarrow> nat \<Rightarrow> bool" where
  "parked h fd event at info timer g \<longleftrightarrow>
     (case iomgr h of None \<Rightarrow> False
      | Some w \<Rightarrow>
          io_inv w \<and> tm_inv (timers w) \<and> (event = READ \<or> event = WRITE) \<and> awaits w fd event g
        \<and> infos h info = \<lparr>ti_cancelled = 0, ti_fd = fd, ti_event = event, ti_alive = True\<rparr>
        \<and> (case timer of None \<Rightarrow> True
           | Some a \<Rightarrow> a \<in> set (m_timers (timers w)) \<and> m_next (tm_heap (timers w) a) = at
               \<and> m_cb (tm_heap (timers w) a) = Some (OnTimer info (cb_timeout info))))"

text \<open>A call from fiber \<open>g\<close>, switched to on thread \<open>t\<close> by the scheduler fiber \<open>m\<close>.\<close>

definition calls_from :: "'k hstate \<Rightarrow> nat \<Rightarrow> nat \<Rightarrow> code \<Rightarrow> nat \<Rightarrow> iom \<Rightarrow> bool" where
  "calls_from h t m k g w \<longleftrightarrow> iomgr h = Some w \<and> io_inv w \<and> tm_inv (timers w) \<and> inside t m k g w \<and> g \<noteq> m
     \<and> t_scheduler w t = Some 0"

lemma arm_effect:
  assumes c: "calls_from h t m k g w" and fd: "0 \<le> fd" and ev: "event = READ \<or> event = WRITE"
    and free: "\<not> has_event w fd event" and a: "a \<notin> set (m_timers (timers w))"
  obtains w' timer where "arm t fd event to info now a False h = (Inr (0, timer), h\<lparr>iomgr := Some w'\<rparr>)"
    "timer = (if to = - 1 then None else Some a)"
    "io_inv w'" "tm_inv (timers w')" "same_fibers w w'" "awaits w' fd event g"
    "to \<noteq> - 1 \<Longrightarrow> a \<in> set (m_timers (timers w'))
       \<and> tm_heap (timers w') a = Timer_new now to (Some (OnTimer info (cb_timeout info))) False"
proof -
  have h: "iomgr h = Some w" "io_inv w" "tm_inv (timers w)" and wf: "inside t m k g w" "t_scheduler w t = Some 0"
    using c by (auto simp: calls_from_def)
  obtain w1 where w1: "io_view w1 = io_view w" "same_fibers w w1" "tm_inv (timers w1)"
    and t1: "(if to \<noteq> - 1 then andthen (on_iom (add_condition_timer now a to (cb_timeout info) info)) (\<lambda>a. ret (Some a))
              else ret None) h = (Inr (if to = - 1 then None else Some a), h\<lparr>iomgr := Some w1\<rparr>)"
    and armed: "to \<noteq> - 1 \<Longrightarrow> a \<in> set (m_timers (timers w1))
       \<and> tm_heap (timers w1) a = Timer_new now to (Some (OnTimer info (cb_timeout info))) False"
  proof (cases "to = - 1")
    case True
    have "h\<lparr>iomgr := Some w\<rparr> = h" using h(1) by simp
    then show thesis using that [of w] True h(3) by simp
  next
    case False
    obtain w1 where "add_timer now a to (Some (OnTimer info (cb_timeout info))) w = (Inr a, w1)" "io_view w1 = io_view w"
        "same_fibers w w1" "tm_inv (timers w1)" "a \<in> set (m_timers (timers w1))"
        "tm_heap (timers w1) a = Timer_new now to (Some (OnTimer info (cb_timeout info))) False"
      using add_timer_effect [OF a h(3)] by (metis fun_upd_same insertI1)
    then show thesis using that [of w1] False h(1) by (simp add: add_condition_timer_eq on_iom_def andthen_def)
  qed
  have pre: "io_inv w1" "\<not> has_event w1 fd event" "t_fiber (tls w1 t) = Some g" "m_state (fibers w1 g) = EXEC"
      "t_scheduler w1 t = Some 0"
    using w1 h wf free io_inv_view [of w1 w] by (auto simp: io_view_def has_event_def inside_def same_fibers_def)
  obtain w2 where w2: "IOManager_addEvent t False fd event None w1 = (Inr 0, w2)" "io_inv w2" "same_fibers w1 w2"
      "timers w2 = timers w1" "awaits w2 fd event g"
    using addEvent_fiber [OF pre(1) fd ev pre(2-5)] by blast
  have "same_fibers w w2" using w1(2) w2(3) by (simp add: same_fibers_def)
  then show thesis
    using that [of "if to = - 1 then None else Some a" w2] w1(3) w2 t1 armed
    by (simp add: arm_def andthen_Inr on_iom_Inr)
qed

text \<open>
  The thread after a fiber yielded in a call: the scheduler fiber continues, the fiber is on hold and resumable.
\<close>

definition thread_free :: "'k hstate \<Rightarrow> nat \<Rightarrow> nat \<Rightarrow> code \<Rightarrow> nat \<Rightarrow> bool" where
  "thread_free h t m k g \<longleftrightarrow>
     (case iomgr h of None \<Rightarrow> False
      | Some w \<Rightarrow> in_control t m k w \<and> resumable g w \<and> m_state (fibers w g) = HOLD)"

lemma yield_parks:
  assumes "inside t m k g w" and "g \<noteq> m"
  obtains w' where "Fiber_YieldToHold t w = (Inr (), w')" "in_control t m k w'" "resumable g w'" "m_state (fibers w' g) = HOLD"
    "io_view w' = io_view w" "timers w' = timers w" "m_fibers w' = m_fibers w" "t_scheduler w' = t_scheduler w"
proof -
  let ?w = "snd (Fiber_YieldToHold t w)"
  note l = leave_in_control [OF assms, where l = LeaveHold, simplified]
  have y: "Fiber_YieldToHold t w = (Inr (), ?w)" using l(1) by (simp add: prod_eq_iff)
  have "io_view ?w = io_view w" "timers ?w = timers w" "m_fibers ?w = m_fibers w" "t_scheduler ?w = t_scheduler w"
    using assms by (auto simp: fiber_op_defs inside_def io_view_def fiber_upd_def tls_upd_def)
  then show thesis using that [OF y] l by (simp add: resumable_def)
qed


lemma do_io_retry_parks:
  assumes c: "calls_from h t m k g w" and fd: "0 \<le> fd" and ev: "event = READ \<or> event = WRITE"
    and free: "\<not> has_event w fd event" and a: "a \<notin> set (m_timers (timers w))"
    and ans: "answers f i (kern h) (- 1) EAGAIN"
    and info: "infos h info = \<lparr>ti_cancelled = 0, ti_fd = fd, ti_event = event, ti_alive = True\<rparr>"
  obtains h' where "do_io_retry t f fd event to info now a False h = (Inr (Suspended (if to = - 1 then None else Some a)), h')"
    "parked h' fd event (now + to) info (if to = - 1 then None else Some a) g" "thread_free h' t m k g"
    "kern h' = after_calls f (Suc i) (kern h)"
proof -
  obtain en where loop: "eintr_loop t f h = Some (- 1, h\<lparr>kern := after_calls f (Suc i) (kern h), h_errno := en\<rparr>)" "en t = EAGAIN"
    using eintr_loop_answers [OF ans] by blast
  let ?h = "h\<lparr>kern := after_calls f (Suc i) (kern h), h_errno := en\<rparr>" and ?timer = "if to = - 1 then None else Some a"
  have "calls_from ?h t m k g w" using c by (simp add: calls_from_def)
  then obtain w1 where w1: "arm t fd event to info now a False ?h = (Inr (0, ?timer), ?h\<lparr>iomgr := Some w1\<rparr>)"
      "io_inv w1" "tm_inv (timers w1)" "same_fibers w w1" "awaits w1 fd event g"
      "to \<noteq> - 1 \<Longrightarrow> a \<in> set (m_timers (timers w1))
         \<and> tm_heap (timers w1) a = Timer_new now to (Some (OnTimer info (cb_timeout info))) False"
    using arm_effect [OF _ fd ev free a, of ?h t m k g to info now] by blast
  have "inside t m k g w1" "g \<noteq> m" using c w1(4) by (auto simp: calls_from_def inside_def same_fibers_def)
  then obtain w2 where w2: "Fiber_YieldToHold t w1 = (Inr (), w2)" "in_control t m k w2" "resumable g w2"
      "m_state (fibers w2 g) = HOLD" "io_view w2 = io_view w1" "timers w2 = timers w1"
    by (rule yield_parks)
  let ?h2 = "?h\<lparr>iomgr := Some w2\<rparr>"
  have run: "do_io_retry t f fd event to info now a False h = (Inr (Suspended ?timer), ?h2)"
    using loop w1(1) w2(1) by (simp add: do_io_retry_def andthen_Inr on_iom_Inr)
  have "io_inv w2" "awaits w2 fd event g"
    using w1(2,5) w2(5) io_inv_view [of w2 w1] by (auto simp: awaits_def has_event_def io_view_def)
  then have "parked ?h2 fd event (now + to) info ?timer g"
    using w1(3,6) w2(6) info ev by (auto simp: parked_def Timer_new_def)
  then show thesis
    using that [OF run] w2 by (simp add: thread_free_def)
qed

lemma fd_get_lookup:
  assumes "0 \<le> fd"
  shows "fd_get fd h = (Inr (fd_lookup (fds h) fd), h)"
  using assms by (auto simp: fd_get_def FdManager_get_def fd_lookup_def)

text \<open>The descriptor is a socket that the user has in blocking mode.\<close>

definition blocking_socket :: "'k hstate \<Rightarrow> int \<Rightarrow> bool" where
  "blocking_socket h fd \<longleftrightarrow> 0 \<le> fd \<and>
     (case fd_lookup (fds h) fd of None \<Rightarrow> False
      | Some c \<Rightarrow> m_isSocket c \<and> \<not> m_isClosed c \<and> \<not> m_userNonblock c)"

text \<open>
  C26: A hooked call that would block parks the fiber and frees the thread. A fiber calls a hooked read or write on a socket in blocking mode with
  nobody else waiting for the same event; the kernel interrupts the call any number of times and then says it would block.
  Then the call is suspended after exactly these kernel calls: the event is registered in the IO manager for this fiber, the fiber is
  on hold and can be resumed, the thread is back in its scheduler fiber, and a timer at the configured time-out is armed
  exactly if there is one.
\<close>

theorem hook_io_parks:
  assumes "t_hook_enable h t" and "blocking_socket h fd" and "event = READ \<or> event = WRITE"
    and "calls_from h t m k g w" and "\<not> has_event w fd event" and "a \<notin> set (m_timers (timers w))"
    and "answers f i (kern h) (- 1) EAGAIN"
  shows "let to = FdCtx_getTimeout timeout_so (the (fd_lookup (fds h) fd)); timer = (if to = - 1 then None else Some a) in
    case do_io t f fd event timeout_so now a False h of (Inl e, h') \<Rightarrow> False
    | (Inr r, h') \<Rightarrow> r = Suspended timer \<and> parked h' fd event (now + to) (next_info h) timer g
        \<and> thread_free h' t m k g \<and> kern h' = after_calls f (Suc i) (kern h)"
proof -
  obtain c where fd: "0 \<le> fd" and c: "fd_lookup (fds h) fd = Some c" "m_isSocket c" "\<not> m_isClosed c" "\<not> m_userNonblock c"
    using assms(2) by (auto simp: blocking_socket_def split: option.splits)
  let ?info = "next_info h" and ?to = "FdCtx_getTimeout timeout_so c"
  let ?h = "h\<lparr>infos := (infos h)(?info := \<lparr>ti_cancelled = 0, ti_fd = fd, ti_event = event, ti_alive = True\<rparr>),
      next_info := ?info + 1\<rparr>"
  have pre: "calls_from ?h t m k g w" "answers f i (kern ?h) (- 1) EAGAIN"
      "infos ?h ?info = \<lparr>ti_cancelled = 0, ti_fd = fd, ti_event = event, ti_alive = True\<rparr>"
    using assms(4,7) by (simp_all add: calls_from_def)
  obtain h' where h': "do_io_retry t f fd event ?to ?info now a False ?h = (Inr (Suspended (if ?to = - 1 then None else Some a)), h')"
    "parked h' fd event (now + ?to) ?info (if ?to = - 1 then None else Some a) g" "thread_free h' t m k g"
    "kern h' = after_calls f (Suc i) (kern ?h)"
    by (rule do_io_retry_parks [OF pre(1) fd assms(3,5,6) pre(2,3)])
  have "do_io t f fd event timeout_so now a False h = do_io_retry t f fd event ?to ?info now a False ?h"
    using assms(1) c fd by (simp add: do_io_def fd_get_lookup andthen_Inr new_info_def)
  then show ?thesis
    using h' c(1) by (simp add: Let_def)
qed


section \<open>Waking up\<close>

lemma awaits_stored:
  assumes "awaits w fd event g" and "event = READ \<or> event = WRITE"
  shows "stored_scheduler event (m_fdContexts w ! nat fd) = Some 0" "stored_task event (m_fdContexts w ! nat fd) = FiberPtr (Some g)"
  using assms by (auto simp: awaits_def stored_scheduler_def stored_task_def)

lemma io_timeout_effect:
  assumes p: "parked h fd event at info timer g" and w: "iomgr h = Some w"
  obtains w' where "do_io_timeout info False h =
      (Inr (), h\<lparr>infos := (infos h)(info := (infos h info)\<lparr>ti_cancelled := ETIMEDOUT\<rparr>), iomgr := Some w'\<rparr>)"
    "m_fibers w' = m_fibers w @ [FiberAndThread (FiberPtr (Some g)) (- 1)]" "\<not> has_event w' fd event"
proof -
  have ev: "event = READ \<or> event = WRITE" and aw: "awaits w fd event g" and inv: "io_inv w"
    and i: "infos h info = \<lparr>ti_cancelled = 0, ti_fd = fd, ti_event = event, ti_alive = True\<rparr>"
    using p w by (simp_all add: parked_def)
  have pre: "0 \<le> fd" "nat fd < length (m_fdContexts w)" "fc_events (m_fdContexts w ! nat fd) AND event \<noteq> 0"
    using aw by (auto simp: awaits_def has_event_def)
  note st = awaits_stored [OF aw ev]
  obtain es w' where c: "IOManager_cancelEvent False fd event w = (Inr (True, es), w')"
    using cancelEvent_total [OF inv ev pre(1,2) st(1), of False] pre(3) by auto
  note e = cancelEvent_effect [OF c inv ev, simplified]
  have clr: "fc_events (clear_event event c) AND event = 0" for c
    using ev by (auto simp: clear_event_def putContext_def and.assoc)
  have "\<not> has_event w' fd event" using e pre(2) clr by (auto simp: has_event_def io_view_def)
  then show thesis
    using that [of w'] c e st w i by (simp add: do_io_timeout_def on_iom_def andthen_def Let_def)
qed

text \<open>
  Time-outs of hooked calls. When the time-out callback of a parked call runs, exactly the parked fiber is queued to run and its event is no
  longer registered; and whenever the fiber continues, on whatever thread and in whatever state the
  timers and the event table are by then, the call returns -1 with \<open>errno\<close> set to \<open>ETIMEDOUT\<close> and without another kernel call, and the callback, should it
  run again, has no effect.
\<close>

theorem hook_io_timeout:
  assumes "parked h fd event at info timer g" and "iomgr h = Some w"
    and "do_io_timeout info False h = (r1, h1)"
    and "infos h2 info = infos h1 info" and "iomgr h2 = Some w2" and "tm_inv (timers w2)"
  shows "r1 = Inr ()
    \<and> m_fibers (the (iomgr h1)) = m_fibers w @ [FiberAndThread (FiberPtr (Some g)) (- 1)]
    \<and> \<not> has_event (the (iomgr h1)) fd event
    \<and> (case do_io_resume t f fd event to info timer now a fail h2 of (Inl e, h3) \<Rightarrow> False
       | (Inr r, h3) \<Rightarrow> r = Returned (- 1) \<and> h_errno h3 t = ETIMEDOUT \<and> kern h3 = kern h2
           \<and> do_io_timeout info fail' h3 = (Inr (), h3))"
proof -
  obtain w' where w': "do_io_timeout info False h =
      (Inr (), h\<lparr>infos := (infos h)(info := (infos h info)\<lparr>ti_cancelled := ETIMEDOUT\<rparr>), iomgr := Some w'\<rparr>)"
    "m_fibers w' = m_fibers w @ [FiberAndThread (FiberPtr (Some g)) (- 1)]" "\<not> has_event w' fd event"
    using io_timeout_effect [OF assms(1,2)] by blast
  then have c: "ti_cancelled (infos h2 info) = ETIMEDOUT" using assms(3,4) by auto
  obtain tm where "cancel_timer timer h2 = (Inr (), h2\<lparr>iomgr := Some (w2\<lparr>timers := tm\<rparr>)\<rparr>)"
    using cancel_timer_disarms [OF assms(5,6)] by blast
  then have "do_io_resume t f fd event to info timer now a fail h2 =
      io_return info (- 1) (set_errno t ETIMEDOUT (h2\<lparr>iomgr := Some (w2\<lparr>timers := tm\<rparr>)\<rparr>))"
    using c by (simp add: do_io_resume_def andthen_Inr)
  moreover have "r1 = Inr ()" "m_fibers (the (iomgr h1)) = m_fibers w @ [FiberAndThread (FiberPtr (Some g)) (- 1)]"
      "\<not> has_event (the (iomgr h1)) fd event"
    using w' assms(3) by auto
  ultimately show ?thesis by (simp add: io_return_def set_errno_def do_io_timeout_def Let_def)
qed

text \<open>
  C27: Completion of hooked calls. When a parked fiber continues before its time-out has struck and the kernel, after any number of interruptions, gives an answer other than
  would-block, the call returns that answer (with its error number) after exactly these kernel calls; its timer is disarmed, and
  the time-out callback, should it already be queued, has no effect.
\<close>

theorem hook_io_completes:
  assumes "iomgr h = Some w" and "tm_inv (timers w)" and "ti_cancelled (infos h info) = 0"
    and "answers f i (kern h) n e" and "n \<noteq> - 1 \<or> e \<noteq> EAGAIN"
  shows "case do_io_resume t f fd event to info timer now a fail h of (Inl _, h') \<Rightarrow> False
    | (Inr r, h') \<Rightarrow> r = Returned n \<and> (n = - 1 \<longrightarrow> h_errno h' t = e) \<and> kern h' = after_calls f (Suc i) (kern h)
        \<and> (\<forall>b. timer = Some b \<longrightarrow> m_cb (tm_heap (timers (the (iomgr h'))) b) = None)
        \<and> do_io_timeout info fail' h' = (Inr (), h')"
proof -
  obtain tm where tm: "cancel_timer timer h = (Inr (), h\<lparr>iomgr := Some (w\<lparr>timers := tm\<rparr>)\<rparr>)" "tm_inv tm"
      "\<forall>b. timer = Some b \<longrightarrow> m_cb (tm_heap tm b) = None"
    using cancel_timer_disarms [OF assms(1,2), where timer = timer] by blast
  let ?h = "h\<lparr>iomgr := Some (w\<lparr>timers := tm\<rparr>)\<rparr>"
  have "answers f i (kern ?h) n e" using assms(4) by simp
  then obtain en where en: "eintr_loop t f ?h = Some (n, ?h\<lparr>kern := after_calls f (Suc i) (kern ?h), h_errno := en\<rparr>)"
      "n = - 1 \<longrightarrow> en t = e"
    using eintr_loop_answers [where t = t] by blast
  let ?h1 = "?h\<lparr>kern := after_calls f (Suc i) (kern ?h), h_errno := en\<rparr>"
  have "\<not> (n = - 1 \<and> h_errno ?h1 t = EAGAIN)" using assms(5) en(2) by auto
  then have "do_io_retry t f fd event to info now a fail ?h = io_return info n ?h1"
    using en(1) by (auto simp: do_io_retry_def)
  then have "do_io_resume t f fd event to info timer now a fail h = io_return info n ?h1"
    using tm(1) assms(3) by (simp add: do_io_resume_def andthen_Inr)
  then show ?thesis
    using tm(3) en(2) by (simp add: io_return_def do_io_timeout_def Let_def)
qed


section \<open>Flags\<close>

lemma exp_bits:
  fixes x :: "'a::len word"
  shows "bit x n \<Longrightarrow> x OR 2 ^ n = x" "\<not> bit x n \<Longrightarrow> (x OR 2 ^ n) AND NOT (2 ^ n) = x"
  by (rule bit_word_eqI, auto simp: bit_or_iff bit_and_iff bit_not_iff bit_exp_iff)+

lemma nonblock_bits:
  fixes x :: u32
  shows "x AND O_NONBLOCK \<noteq> 0 \<Longrightarrow> x OR O_NONBLOCK = x" "x AND O_NONBLOCK = 0 \<Longrightarrow> (x OR O_NONBLOCK) AND NOT O_NONBLOCK = x"
    "(x OR O_NONBLOCK) AND O_NONBLOCK \<noteq> 0" "x AND NOT O_NONBLOCK AND O_NONBLOCK = 0"
proof -
  have b: "O_NONBLOCK = 2 ^ 11" by simp
  have n: "x AND O_NONBLOCK = 0 \<longleftrightarrow> \<not> bit x 11" unfolding b by (rule and_exp_eq_0_iff_not_bit)
  show "x OR O_NONBLOCK = x" if "x AND O_NONBLOCK \<noteq> 0"
    unfolding b by (rule exp_bits(1)) (use that n in blast)
  show "(x OR O_NONBLOCK) AND NOT O_NONBLOCK = x" if "x AND O_NONBLOCK = 0"
    unfolding b by (rule exp_bits(2)) (use that n in blast)
  show "(x OR O_NONBLOCK) AND O_NONBLOCK \<noteq> 0" "x AND NOT O_NONBLOCK AND O_NONBLOCK = 0"
    by (simp_all add: bit.conj_disj_distrib2 and.assoc)
qed


lemma fd_lookup_modify:
  assumes "fd_lookup (fds h) fd = Some c"
  shows "fd_lookup (fds (fd_modify fd g h)) i = (if i = fd then Some (g c) else fd_lookup (fds h) i)"
proof -
  have c: "0 \<le> fd" "nat fd < length (fds h)" "fds h ! nat fd = Some c"
    using assms by (auto simp: fd_lookup_def split: if_splits)
  then show ?thesis using fd_lookup_upd [OF c(1,2), of "Some (g c)" i] by (simp add: fd_modify_def)
qed

lemma fd_modify_kernel [simp]: "kflags (fd_modify fd g h) = kflags h" "kern (fd_modify fd g h) = kern h"
  by (simp_all add: fd_modify_def)

text \<open>
  The non-blocking flag. On a socket that the table switched to non-blocking mode, the flags a user sets with \<open>F_SETFL\<close> are the flags that
  \<open>F_GETFL\<close> returns; hooked calls block the fiber exactly if the user did not ask for \<open>O_NONBLOCK\<close>; underneath, the
  descriptor stays non-blocking whatever the user asks, and no other descriptor's context or flags change.
\<close>

theorem hook_fcntl_flags:
  assumes "0 \<le> fd" and "fd_lookup (fds h) fd = Some c" and "m_isSocket c" and "\<not> m_isClosed c" and "m_sysNonblock c"
  shows "case hook_fcntl t fcntl_f False fd F_SETFL arg h of (Inl e, h1) \<Rightarrow> False
    | (Inr r, h1) \<Rightarrow> r = 0
        \<and> hook_fcntl t' fcntl_f False fd F_GETFL arg' h1 = (Inr arg, h1)
        \<and> (blocking_socket h1 fd \<longleftrightarrow> arg AND O_NONBLOCK = 0)
        \<and> kflags h1 fd AND O_NONBLOCK \<noteq> 0
        \<and> (\<forall>i. i \<noteq> fd \<longrightarrow> kflags h1 i = kflags h i \<and> fd_lookup (fds h1) i = fd_lookup (fds h) i)"
proof -
  let ?u = "arg AND O_NONBLOCK \<noteq> 0"
  let ?m = "fd_modify fd (FdCtx_setUserNonblock ?u) h"
  let ?h1 = "?m\<lparr>kflags := (kflags h)(fd := arg OR O_NONBLOCK)\<rparr>"
  have set: "hook_fcntl t fcntl_f False fd F_SETFL arg h = (Inr 0, ?h1)"
    using assms by (simp add: hook_fcntl_def fd_get_lookup andthen_Inr fcntl_setfl_def Let_def)
  have look: "fd_lookup (fds ?h1) i = (if i = fd then Some (c\<lparr>m_userNonblock := ?u\<rparr>) else fd_lookup (fds h) i)" for i
    using fd_lookup_modify [OF assms(2), of "FdCtx_setUserNonblock ?u" i] by (simp add: FdCtx_setUserNonblock_def)
  have get: "hook_fcntl t' fcntl_f False fd F_GETFL arg' ?h1 = (Inr arg, ?h1)"
    using assms look [of fd] nonblock_bits(1,2) [of arg]
    by (auto simp: hook_fcntl_def fd_get_lookup andthen_Inr fcntl_getfl_def Let_def or.assoc)
  have "blocking_socket ?h1 fd \<longleftrightarrow> arg AND O_NONBLOCK = 0"
    using look [of fd] assms by (simp add: blocking_socket_def)
  then show ?thesis
    using set get look nonblock_bits(3) [of arg] by simp
qed

text \<open>
  \<open>ioctl(FIONBIO)\<close> hands the user's value to the kernel as it is: after a request for blocking mode the descriptor really blocks, although the
  table says the system has it non-blocking and the hooked calls rely on that.
\<close>

lemma ioctl_makes_descriptor_block:
  assumes "0 \<le> fd" and "fd_lookup (fds h) fd = Some c" and "m_isSocket c" and "\<not> m_isClosed c" and "m_sysNonblock c"
  shows "\<exists>h1 c1. hook_ioctl t ioctl_f False fd FIONBIO 0 h = (Inr 0, h1) \<and> kflags h1 fd AND O_NONBLOCK = 0
    \<and> fd_lookup (fds h1) fd = Some c1 \<and> m_sysNonblock c1 \<and> blocking_socket h1 fd"
  using assms fd_lookup_modify [OF assms(2), of "FdCtx_setUserNonblock False" fd]
  by (simp add: hook_ioctl_def fd_get_lookup andthen_Inr ioctl_fionbio_def blocking_socket_def FdCtx_setUserNonblock_def
      and.assoc Let_def)

text \<open>A failing \<open>F_GETFL\<close> on such a socket does not return -1 in blocking mode.\<close>

lemma fcntl_getfl_failure_lost:
  assumes "blocking_socket h fd"
  shows "hook_fcntl t fcntl_f True fd F_GETFL arg h = (Inr (- 2049), h)"
  using assms by (auto simp: blocking_socket_def hook_fcntl_def fd_get_lookup andthen_Inr fcntl_getfl_def split: option.splits)

section \<open>Sleeping, connecting, closing\<close>

text \<open>
  Hooked sleeping. The calling fiber is on hold, its thread is back in the scheduler fiber, and one timer is armed whose callback queues
  exactly this fiber: for \<open>sleep(s)\<close> after 1000 s milliseconds as long as that fits 32 bits.
\<close>

theorem hook_sleep_wakes:
  assumes "t_hook_enable h t" and "calls_from h t m k g w" and "a \<notin> set (m_timers (timers w))"
    and "unat seconds < 4294968"
  shows "case hook_sleep t sleep_f seconds now a h of (Inl e, h') \<Rightarrow> False
    | (Inr r, h') \<Rightarrow> r = Suspended None \<and> thread_free h' t m k g \<and> kern h' = kern h
        \<and> (case iomgr h' of None \<Rightarrow> False
           | Some w' \<Rightarrow> set (m_timers (timers w')) = insert a (set (m_timers (timers w)))
               \<and> tm_heap (timers w') a = Timer_new now (word_of_nat (1000 * unat seconds)) (Some (Callback (2 * g))) False
               \<and> (case run_timer_cb (2 * g) fail h' of (Inl e, h2) \<Rightarrow> False
                  | (Inr _, h2) \<Rightarrow> map_option m_fibers (iomgr h2) = Some (m_fibers w @ [FiberAndThread (FiberPtr (Some g)) (- 1)])))"
proof -
  have ms: "ucast (seconds * 1000 :: u32) = (word_of_nat (1000 * unat seconds) :: u64)"
  proof -
    have "unat (seconds * 1000 :: u32) = 1000 * unat seconds"
      using assms(4) by (simp add: unat_word_ariths mult.commute)
    then show ?thesis by (metis of_nat_unat)
  qed
  have h: "iomgr h = Some w" "tm_inv (timers w)" and i: "inside t m k g w" "g \<noteq> m"
    using assms(2) by (auto simp: calls_from_def)
  obtain w1 where w1: "add_timer now a (word_of_nat (1000 * unat seconds)) (Some (cb_schedule g)) w = (Inr a, w1)" "same_fibers w w1"
      "set (m_timers (timers w1)) = insert a (set (m_timers (timers w)))"
      "tm_heap (timers w1) = (tm_heap (timers w))(a := Timer_new now (word_of_nat (1000 * unat seconds)) (Some (cb_schedule g)) False)"
    using add_timer_effect [OF assms(3) h(2)] by metis
  have "inside t m k g w1" using i(1) w1(2) by (simp add: inside_def same_fibers_def)
  then obtain w2 where w2: "Fiber_YieldToHold t w1 = (Inr (), w2)" "in_control t m k w2" "resumable g w2"
      "m_state (fibers w2 g) = HOLD" "timers w2 = timers w1" "m_fibers w2 = m_fibers w1"
    using yield_parks [OF _ i(2)] by metis
  have this_fiber: "Fiber_GetThis t w = (Inr g, w)" using i(1) by (simp add: inside_def Fiber_GetThis_def)
  have run: "hook_sleep t sleep_f seconds now a h = (Inr (Suspended None), h\<lparr>iomgr := Some w2\<rparr>)"
    using assms(1) h(1) this_fiber w1(1) w2(1) ms
    by (simp add: hook_sleep_def sleep_for_def andthen_Inr on_iom_Inr)
  obtain es w3 where w3: "IOManager_schedule (FiberPtr (Some g)) (- 1) w2 = (Inr es, w3)"
    by (cases "scheduleNoLock (FiberPtr (Some g)) (- 1) w2") (auto simp: IOManager_schedule_def Scheduler_schedule_def andthen_def)
  have "m_fibers w3 = m_fibers w @ [FiberAndThread (FiberPtr (Some g)) (- 1)]"
    using IOManager_schedule_effect [OF w3] w1(2) w2(6) by (simp add: tasks_of_def same_fibers_def)
  then have "run_timer_cb (2 * g) fail (h\<lparr>iomgr := Some w2\<rparr>) = (Inr (), h\<lparr>iomgr := Some w3\<rparr>)
      \<and> m_fibers w3 = m_fibers w @ [FiberAndThread (FiberPtr (Some g)) (- 1)]"
    using w3 by (simp add: run_timer_cb_def andthen_Inr on_iom_Inr)
  then show ?thesis
    using run w1(3,4) w2 by (simp add: thread_free_def cb_schedule_def)
qed

text \<open>Beyond that the product wraps: 4294968 seconds are 704 milliseconds.\<close>

lemma sleep_wraps: "t_hook_enable h t \<Longrightarrow> hook_sleep t f 4294968 now a h = sleep_for t 704 now a h"
  by (simp add: hook_sleep_def)

text \<open>A sleep of less than a millisecond does not wait at all.\<close>

lemma usleep_short: "t_hook_enable h t \<Longrightarrow> hook_usleep t f 999 now a h = sleep_for t 0 now a h"
  by (simp add: hook_usleep_def)


text \<open>
  A connection in progress whose event cannot be registered is reported as established: the code goes on to ask for the socket's error,
  and there is none yet.
\<close>

lemma connect_unregistered_succeeds:
  assumes "t_hook_enable h t" and "blocking_socket h fd" and "connect_f (kern h) = ((- 1, EINPROGRESS), k)"
    and "iomgr h = Some w" and "IOManager_addEvent t True fd WRITE None w = (Inr (- 1), w')"
  shows "\<exists>h' info. connect_with_timeout t connect_f fd (- 1) (Some 0) now a True h = (Inr (Returned 0, info), h')"
  using assms
  by (auto simp: connect_with_timeout_def blocking_socket_def fd_get_lookup andthen_Inr sys_call_def new_info_def arm_def
      on_iom_def set_errno_def cancel_timer_def connect_end_def io_return_def Let_def split: option.splits)

text \<open>\<open>connect\<close> always waits without a time-out: the variable it passes is never assigned.\<close>

lemma connect_never_times_out:
  "hook_connect t connect_f fd = connect_with_timeout t connect_f fd (- 1)"
  by (simp add: hook_connect_def s_connect_timeout_def)

text \<open>Closing a hooked descriptor forgets its context.\<close>

lemma hook_close_forgets:
  assumes "t_hook_enable h t" and "0 \<le> fd" and "hook_close t close_f fd fail h = (Inr n, h')"
  shows "fd_lookup (fds h') fd = None"
proof -
  have sys: "fds (snd (sys_call t close_f h0)) = fds h0" for h0
    by (simp add: sys_call_def set_errno_def split: prod.splits)
  show ?thesis
  proof (cases "fd_lookup (fds h) fd")
    case None
    then have "h' = snd (sys_call t close_f h)"
      using assms by (auto simp: hook_close_def fd_get_lookup andthen_Inr split: prod.splits)
    then show ?thesis using None sys by simp
  next
    case (Some c)
    obtain u1 h1 where h1: "(if iomgr h \<noteq> None then andthen (on_iom (IOManager_cancelAll fail fd)) (\<lambda>_. ret ()) h
        else (Inr (), h)) = (Inr u1, h1)"
      and rest: "andthen (\<lambda>h. case FdManager_del fd (fds h) of (r, ds) \<Rightarrow> (r, h\<lparr>fds := ds\<rparr>))
        (\<lambda>_ h. case sys_call t close_f h of (n, h1) \<Rightarrow> (Inr n, h1)) h1 = (Inr n, h')"
      using assms Some
      by (fastforce simp: hook_close_def fd_get_lookup andthen_Inr andthen_def Let_def split: prod.splits sum.splits)
    have "fds h1 = fds h"
      using h1 by (auto simp: on_iom_def elim!: andthen_eq_InrE split: if_splits option.splits prod.splits)
    then have "h' = snd (sys_call t close_f (h1\<lparr>fds := (fds h)[nat fd := None]\<rparr>))"
      using rest Some by (auto simp: FdManager_del_def fd_lookup_def andthen_def split: if_splits prod.splits)
    then show ?thesis using sys by (simp add: fd_lookup_def)
  qed
qed

section \<open>A concrete run\<close>

text \<open>
  Thread 0 runs fiber 2, switched to by its main fiber 1; descriptor 5 is a socket with a receive time-out of 100 milliseconds. The
  kernel interrupts the first call and then answers that it would block.
\<close>

definition hook_iom :: iom where
  "hook_iom = iom_demo\<lparr>
     fibers := (\<lambda>a. \<lparr>f_id = 0, m_stacksize = 0, m_state = EXEC, m_ctx = Saved (Native 0), m_stack = (a \<noteq> 1), m_fcb = None\<rparr>),
     tls := (\<lambda>t. \<lparr>t_fiber = Some 2, t_threadFiber = Some 1, t_scheduler_fiber = Some 1, running = Body 2\<rparr>)\<rparr>"

definition hook_ctx :: FdCtx where
  "hook_ctx = \<lparr>m_isInit = True, m_isSocket = True, m_sysNonblock = True, m_userNonblock = False, m_isClosed = False, m_fd = 5,
     m_recvTimeout = 100, m_sendTimeout = - 1\<rparr>"

definition hook_demo :: "nat hstate" where
  "hook_demo = \<lparr>iomgr = Some hook_iom, fds = FdManager_new[5 := Some hook_ctx], t_hook_enable = (\<lambda>_. True), h_errno = (\<lambda>_. 0),
     kstat = (\<lambda>_. Some True), kflags = (\<lambda>_. O_NONBLOCK), kern = 0,
     infos = (\<lambda>_. \<lparr>ti_cancelled = 0, ti_fd = 0, ti_event = 0, ti_alive = False\<rparr>), next_info = 0\<rparr>"

definition busy :: "nat syscall" where
  "busy k = ((- 1, if k = 0 then EINTR else EAGAIN), k + 1)"

lemma hook_demo_calls:
  "calls_from hook_demo 0 1 (Native 0) 2 hook_iom" "\<not> has_event hook_iom 5 READ" "7 \<notin> set (m_timers (timers hook_iom))"
  "blocking_socket hook_demo 5" "fd_lookup (fds hook_demo) 5 = Some hook_ctx"
proof -
  have "io_inv iom_demo" using iom_demo_fields(1) IOManager_new_inv by blast
  then have "io_inv hook_iom" using io_inv_view [of hook_iom iom_demo] by (simp add: hook_iom_def io_view_def)
  moreover have t: "timers hook_iom = TimerManager_new 0" unfolding hook_iom_def iom_demo_def
    by (simp add: iom_eval del: upt_Suc upt_rec_numeral)
  ultimately show "calls_from hook_demo 0 1 (Native 0) 2 hook_iom"
    using TimerManager_new_inv by (simp add: calls_from_def hook_demo_def inside_def hook_iom_def iom_demo_fields)
  show "7 \<notin> set (m_timers (timers hook_iom))" by (simp add: t TimerManager_new_def)
  show "\<not> has_event hook_iom 5 READ"
    by (simp add: has_event_def hook_iom_def iom_demo_fields fresh_context_def del: upt_Suc upt_rec_numeral)
  show l: "fd_lookup (fds hook_demo) 5 = Some hook_ctx" by (simp add: hook_demo_def fd_lookup_def FdManager_new_def)
  show "blocking_socket hook_demo 5" by (simp add: blocking_socket_def l) (simp add: hook_ctx_def)
qed

theorem hook_io_parks_witness:
  "case do_io 0 busy 5 READ SO_RCVTIMEO 1000 7 False hook_demo of (Inl e, h') \<Rightarrow> False
   | (Inr r, h') \<Rightarrow> r = Suspended (Some 7) \<and> parked h' 5 READ 1100 0 (Some 7) 2 \<and> thread_free h' 0 1 (Native 0) 2 \<and> kern h' = 2"
proof -
  have "answers busy 1 (kern hook_demo) (- 1) EAGAIN" "t_hook_enable hook_demo 0"
    by (simp_all add: answers_def busy_def after_calls_def hook_demo_def)
  moreover have "FdCtx_getTimeout SO_RCVTIMEO hook_ctx = 100" "next_info hook_demo = 0" "after_calls busy (Suc 1) (kern hook_demo) = 2"
    by (simp_all add: FdCtx_getTimeout_def hook_ctx_def hook_demo_def after_calls_def busy_def)
  ultimately show ?thesis
    using hook_io_parks [of hook_demo 0 5 READ 1 "Native 0" 2 hook_iom 7 busy 1 SO_RCVTIMEO 1000] hook_demo_calls
    by (simp add: Let_def split: prod.splits sum.splits)
qed


definition hook_parked :: "nat hstate" where
  "hook_parked = snd (do_io_retry 0 busy 5 READ 100 0 1000 7 False
     (hook_demo\<lparr>infos := (\<lambda>_. \<lparr>ti_cancelled = 0, ti_fd = 5, ti_event = READ, ti_alive = True\<rparr>)\<rparr>))"

lemma hook_parked_ok: "parked hook_parked 5 READ 1100 0 (Some 7) 2"
proof -
  let ?h = "hook_demo\<lparr>infos := (\<lambda>_. \<lparr>ti_cancelled = 0, ti_fd = 5, ti_event = READ, ti_alive = True\<rparr>)\<rparr>"
  have "calls_from ?h 0 1 (Native 0) 2 hook_iom" using hook_demo_calls(1) by (simp add: calls_from_def)
  moreover have "answers busy 1 (kern ?h) (- 1) EAGAIN"
    by (simp add: answers_def busy_def after_calls_def hook_demo_def)
  ultimately obtain h' where "do_io_retry 0 busy 5 READ 100 0 1000 7 False ?h = (Inr (Suspended (Some 7)), h')"
      "parked h' 5 READ 1100 0 (Some 7) 2"
    using do_io_retry_parks [of ?h 0 1 "Native 0" 2 hook_iom 5 READ 7 busy 1 0 100 1000] hook_demo_calls(2,3) by auto
  then show ?thesis by (simp add: hook_parked_def)
qed

theorem hook_io_timeout_witness:
  "case do_io_timeout 0 False hook_parked of (r1, h1) \<Rightarrow> r1 = Inr () \<and>
     (case do_io_resume 3 busy 5 READ 100 0 (Some 7) 1200 8 False (h1\<lparr>iomgr := Some hook_iom\<rparr>) of (Inl e, h3) \<Rightarrow> False
      | (Inr r, h3) \<Rightarrow> r = Returned (- 1) \<and> h_errno h3 3 = ETIMEDOUT)"
proof -
  obtain r1 h1 where r: "do_io_timeout 0 False hook_parked = (r1, h1)" by (metis prod.exhaust)
  obtain w where w: "iomgr hook_parked = Some w" using hook_parked_ok by (auto simp: parked_def split: option.splits)
  have "tm_inv (timers hook_iom)" using hook_demo_calls(1) by (simp add: calls_from_def)
  then show ?thesis
    using hook_io_timeout [OF hook_parked_ok w r, where ?h2.0 = "h1\<lparr>iomgr := Some hook_iom\<rparr>" and ?w2.0 = hook_iom and t = 3 and f = busy
        and to = 100 and now = 1200 and a = 8 and fail = False]
    by (auto simp: r split: prod.splits sum.splits)
qed

text \<open>A kernel that interrupts once and then delivers 12 bytes.\<close>

definition ready :: "nat syscall" where
  "ready k = (if k = 0 then (- 1, EINTR) else (12, 0), k + 1)"

theorem hook_io_completes_witness:
  "case do_io_resume 0 ready 5 READ 100 0 (Some 7) 1050 8 False hook_demo of (Inl _, h') \<Rightarrow> False
   | (Inr r, h') \<Rightarrow> r = Returned 12 \<and> kern h' = 2"
proof -
  have "answers ready 1 (kern hook_demo) 12 0" "after_calls ready (Suc 1) (kern hook_demo) = 2"
    "ti_cancelled (infos hook_demo 0) = 0" "iomgr hook_demo = Some hook_iom"
    by (simp_all add: answers_def ready_def after_calls_def hook_demo_def)
  moreover have "tm_inv (timers hook_iom)" using hook_demo_calls(1) by (simp add: calls_from_def)
  ultimately show ?thesis
    using hook_io_completes [of hook_demo hook_iom 0 ready 1 12 0, where t = 0 and fd = 5 and event = READ and to = 100
        and timer = "Some 7" and now = 1050 and a = 8 and fail = False]
    by (auto split: prod.splits sum.splits)
qed

theorem hook_fcntl_flags_witness:
  "case hook_fcntl 0 (\<lambda>_ _ k. ((0, 0), k)) False 5 F_SETFL 2 hook_demo of (Inl e, h1) \<Rightarrow> False
   | (Inr r, h1) \<Rightarrow> hook_fcntl 1 (\<lambda>_ _ k. ((0, 0), k)) False 5 F_GETFL 0 h1 = (Inr 2, h1) \<and> blocking_socket h1 5
       \<and> kflags h1 5 AND O_NONBLOCK \<noteq> 0"
proof -
  have "m_isSocket hook_ctx" "\<not> m_isClosed hook_ctx" "m_sysNonblock hook_ctx" "(2 AND O_NONBLOCK :: u32) = 0"
    by (simp_all add: hook_ctx_def)
  then show ?thesis
    using hook_fcntl_flags [OF _ hook_demo_calls(5), where t = 0 and t' = 1 and fcntl_f = "\<lambda>_ _ k. ((0, 0), k)" and arg = 2 and arg' = 0]
    by (auto split: prod.splits sum.splits)
qed

theorem hook_sleep_wakes_witness:
  "case hook_sleep 0 busy 3 1000 7 hook_demo of (Inl e, h') \<Rightarrow> False
   | (Inr r, h') \<Rightarrow> r = Suspended None \<and> thread_free h' 0 1 (Native 0) 2
       \<and> map_option (\<lambda>w. m_next (tm_heap (timers w) 7)) (iomgr h') = Some 4000"
proof -
  have "t_hook_enable hook_demo 0" by (simp add: hook_demo_def)
  from hook_sleep_wakes [OF this hook_demo_calls(1,3), where seconds = 3 and sleep_f = busy and now = 1000 and fail = False]
  show ?thesis
    by (auto simp: Timer_new_def split: prod.splits sum.splits option.splits)
qed

end
