(* ===== verification/Mingo_Socket.thy ===== *)
theory Mingo_Socket
  imports Mingo_Hook_Props Mingo_Address
begin

text \<open>
  \<^verbatim>\<open>mingo/socket.cpp\<close>: the socket object. It calls the hooked functions of \<^verbatim>\<open>hook.cpp\<close>; the kernel keeps the open
  descriptors, and its answers to the calls that one operation makes (the descriptor of \<open>socket\<close>, the results of \<open>bind\<close>, \<open>listen\<close>, \<open>connect\<close>,
  \<open>accept\<close>, the names) are the argument \<open>env\<close>. \<open>connect\<close> and \<open>accept\<close> may suspend the fiber: their answer is what the hooked call
  returns in the end. An address answered by \<open>getsockname\<close> or \<open>getpeername\<close> comes in the structure of the socket's family, with its length.
  The state of an operation is the object and the state of the hooked calls.
\<close>

section \<open>State\<close>

abbreviation SOCK_STREAM :: int where "SOCK_STREAM \<equiv> 1"
abbreviation SOCK_DGRAM :: int where "SOCK_DGRAM \<equiv> 2"
abbreviation IPPROTO_TCP :: int where "IPPROTO_TCP \<equiv> 6"
abbreviation SO_REUSEADDR :: int where "SO_REUSEADDR \<equiv> 2"
abbreviation TCP_NODELAY :: int where "TCP_NODELAY \<equiv> 1"

record knet =
  open_fds :: "int list"

record sock_env =
  en_thread :: nat
  en_socket :: int
  en_bind :: int
  en_listen :: int
  en_connect :: int
  en_accept :: int
  en_option :: int
  en_sockname :: "(Address \<times> nat) option"
  en_peername :: "(Address \<times> nat) option"
  en_errno :: int
  en_fail :: bool

record Socket =
  m_sock :: int
  m_family :: u16
  m_type :: int
  m_protocol :: int
  m_isConnected :: bool
  m_localAddress :: "Address option"
  m_remoteAddress :: "Address option"

type_synonym 'a sock_oper = "(Socket \<times> knet hstate, 'a) oper"

text \<open>An operation of the rest of the state, and reading or changing the object.\<close>

definition on_sys :: "(knet hstate, 'a) oper \<Rightarrow> 'a sock_oper" where
  "on_sys f = (\<lambda>(s, h). case f h of (r, h') \<Rightarrow> (r, (s, h')))"

definition this :: "Socket sock_oper" where
  "this = (\<lambda>(s, h). (Inr s, (s, h)))"

definition modify_this :: "(Socket \<Rightarrow> Socket) \<Rightarrow> unit sock_oper" where
  "modify_this g = (\<lambda>(s, h). (Inr (), (g s, h)))"

definition k_socket :: "sock_env \<Rightarrow> knet syscall" where
  "k_socket env k =
     ((en_socket env, en_errno env), if en_socket env = - 1 then k else k\<lparr>open_fds := en_socket env # open_fds k\<rparr>)"

definition k_close :: "int \<Rightarrow> knet syscall" where
  "k_close fd k = ((0, 0), k\<lparr>open_fds := remove1 fd (open_fds k)\<rparr>)"

definition k_setsockopt :: "sock_env \<Rightarrow> knet syscall" where
  "k_setsockopt env k = ((en_option env, en_errno env), k)"

section \<open>Construction\<close>

definition Socket_new :: "u16 \<Rightarrow> int \<Rightarrow> int \<Rightarrow> Socket" where
  "Socket_new family type protocol =
     \<lparr>m_sock = - 1, m_family = family, m_type = type, m_protocol = protocol, m_isConnected = False,
      m_localAddress = None, m_remoteAddress = None\<rparr>"

definition Socket_isValid :: "Socket \<Rightarrow> bool" where
  "Socket_isValid s \<longleftrightarrow> m_sock s \<noteq> - 1"

text \<open>\<open>setOption\<close>; the value is given as the \<open>timeval\<close> that the pointer may be read as.\<close>

definition Socket_setOption :: "sock_env \<Rightarrow> int \<Rightarrow> int \<Rightarrow> int \<times> int \<Rightarrow> bool sock_oper" where
  "Socket_setOption env level option v =
     andthen this (\<lambda>s.
     andthen (on_sys (hook_setsockopt (en_thread env) (k_setsockopt env) (m_sock s) level option (fst v) (snd v))) (\<lambda>rt.
       ret (rt = 0)))"

definition Socket_initSock :: "sock_env \<Rightarrow> unit sock_oper" where
  "Socket_initSock env =
     andthen (Socket_setOption env SOL_SOCKET SO_REUSEADDR (1, 0)) (\<lambda>_.
     andthen this (\<lambda>s.
       if m_type s = SOCK_STREAM
       then andthen (Socket_setOption env IPPROTO_TCP TCP_NODELAY (1, 0)) (\<lambda>_. ret ())
       else ret ()))"

definition Socket_newSock :: "sock_env \<Rightarrow> unit sock_oper" where
  "Socket_newSock env =
     andthen (on_sys (hook_socket (en_thread env) (k_socket env))) (\<lambda>fd.
     andthen (modify_this (\<lambda>s. s\<lparr>m_sock := fd\<rparr>)) (\<lambda>_.
       if fd \<noteq> - 1 then Socket_initSock env else ret ()))"

definition Socket_CreateTCP :: "Address \<Rightarrow> Socket" where
  "Socket_CreateTCP address = Socket_new (Address_getFamily address) SOCK_STREAM 0"

text \<open>The factories of UDP sockets also create the descriptor; the object starts in the given state.\<close>

definition create_udp :: "sock_env \<Rightarrow> unit sock_oper" where
  "create_udp env = andthen (Socket_newSock env) (\<lambda>_. modify_this (\<lambda>s. s\<lparr>m_isConnected := True\<rparr>))"

definition Socket_CreateUDP :: "sock_env \<Rightarrow> Address \<Rightarrow> knet hstate \<Rightarrow> unit res \<times> Socket \<times> knet hstate" where
  "Socket_CreateUDP env address h = create_udp env (Socket_new (Address_getFamily address) SOCK_DGRAM 0, h)"

definition Socket_CreateTCPSocket :: Socket where
  "Socket_CreateTCPSocket = Socket_new AF_INET SOCK_STREAM 0"

definition Socket_CreateUDPSocket :: "sock_env \<Rightarrow> knet hstate \<Rightarrow> unit res \<times> Socket \<times> knet hstate" where
  "Socket_CreateUDPSocket env h = create_udp env (Socket_new AF_INET SOCK_DGRAM 0, h)"

definition Socket_CreateTCPSocket6 :: Socket where
  "Socket_CreateTCPSocket6 = Socket_new AF_INET6 SOCK_STREAM 0"

definition Socket_CreateUDPSocket6 :: "sock_env \<Rightarrow> knet hstate \<Rightarrow> unit res \<times> Socket \<times> knet hstate" where
  "Socket_CreateUDPSocket6 env h = create_udp env (Socket_new AF_INET6 SOCK_DGRAM 0, h)"

definition Socket_CreateUnixTCPSocket :: Socket where
  "Socket_CreateUnixTCPSocket = Socket_new AF_UNIX SOCK_STREAM 0"

definition Socket_CreateUnixUDPSocket :: Socket where
  "Socket_CreateUnixUDPSocket = Socket_new AF_UNIX SOCK_DGRAM 0"

section \<open>Time-outs\<close>

text \<open>The fields of \<open>timeval\<close> are computed with C's division and converted to \<open>int\<close>.\<close>

definition timeval_of :: "int \<Rightarrow> int \<times> int" where
  "timeval_of v = (c_int (v sdiv 1000), c_int (v smod 1000 * 1000))"

definition socket_timeout :: "int \<Rightarrow> int sock_oper" where
  "socket_timeout option =
     andthen this (\<lambda>s.
     andthen (on_sys (fd_get (m_sock s))) (\<lambda>ctx.
       ret (case ctx of Some c \<Rightarrow> sint (FdCtx_getTimeout option c) | None \<Rightarrow> - 1)))"

definition Socket_getSendTimeout :: "int sock_oper" where
  "Socket_getSendTimeout = socket_timeout SO_SNDTIMEO"

definition Socket_setSendTimeout :: "sock_env \<Rightarrow> int \<Rightarrow> unit sock_oper" where
  "Socket_setSendTimeout env v = andthen (Socket_setOption env SOL_SOCKET SO_SNDTIMEO (timeval_of v)) (\<lambda>_. ret ())"

definition Socket_getRecvTimeout :: "int sock_oper" where
  "Socket_getRecvTimeout = socket_timeout SO_RCVTIMEO"

definition Socket_setRecvTimeout :: "sock_env \<Rightarrow> int \<Rightarrow> unit sock_oper" where
  "Socket_setRecvTimeout env v = andthen (Socket_setOption env SOL_SOCKET SO_RCVTIMEO (timeval_of v)) (\<lambda>_. ret ())"

section \<open>Names\<close>

text \<open>\<open>getsockname\<close> and \<open>getpeername\<close>: the object the code creates for the family, filled with the answer.\<close>

definition named :: "u16 \<Rightarrow> Address \<times> nat \<Rightarrow> Address" where
  "named family ans =
     (case ans of
        (UnixAddress u, len) \<Rightarrow> if family = AF_UNIX then UnixAddress (UnixAddress_setAddrLen len u) else UnixAddress u
      | (a, _) \<Rightarrow> a)"

definition Socket_getLocalAddress :: "sock_env \<Rightarrow> Address sock_oper" where
  "Socket_getLocalAddress env =
     andthen this (\<lambda>s.
       case m_localAddress s of
         Some a \<Rightarrow> ret a
       | None \<Rightarrow>
           (case en_sockname env of
              None \<Rightarrow> ret (UnknownAddress (UnknownAddress_new (m_family s)))
            | Some ans \<Rightarrow>
                andthen (modify_this (\<lambda>s. s\<lparr>m_localAddress := Some (named (m_family s) ans)\<rparr>)) (\<lambda>_. ret (named (m_family s) ans))))"

definition Socket_getRemoteAddress :: "sock_env \<Rightarrow> Address sock_oper" where
  "Socket_getRemoteAddress env =
     andthen this (\<lambda>s.
       case m_remoteAddress s of
         Some a \<Rightarrow> ret a
       | None \<Rightarrow>
           (case en_peername env of
              None \<Rightarrow> ret (UnknownAddress (UnknownAddress_new (m_family s)))
            | Some ans \<Rightarrow>
                andthen (modify_this (\<lambda>s. s\<lparr>m_remoteAddress := Some (named (m_family s) ans)\<rparr>)) (\<lambda>_. ret (named (m_family s) ans))))"

section \<open>Connecting\<close>

definition Socket_close :: "sock_env \<Rightarrow> bool sock_oper" where
  "Socket_close env =
     andthen this (\<lambda>s.
       if \<not> m_isConnected s \<and> m_sock s = - 1 then ret True
       else
         andthen (modify_this (\<lambda>s. s\<lparr>m_isConnected := False\<rparr>)) (\<lambda>_.
           if m_sock s \<noteq> - 1 then
             andthen (on_sys (hook_close (en_thread env) (k_close (m_sock s)) (m_sock s) (en_fail env))) (\<lambda>_.
             andthen (modify_this (\<lambda>s. s\<lparr>m_sock := - 1\<rparr>)) (\<lambda>_. ret False))
           else ret False))"

text \<open>The destructor.\<close>

definition Socket_delete :: "sock_env \<Rightarrow> unit sock_oper" where
  "Socket_delete env = andthen (Socket_close env) (\<lambda>_. ret ())"

definition Socket_init :: "sock_env \<Rightarrow> int \<Rightarrow> bool sock_oper" where
  "Socket_init env sock =
     andthen (on_sys (fd_get sock)) (\<lambda>ctx.
       case ctx of
         None \<Rightarrow> ret False
       | Some c \<Rightarrow>
           if m_isSocket c \<and> \<not> m_isClosed c then
             andthen (modify_this (\<lambda>s. s\<lparr>m_sock := sock, m_isConnected := True\<rparr>)) (\<lambda>_.
             andthen (Socket_initSock env) (\<lambda>_.
             andthen (Socket_getLocalAddress env) (\<lambda>_.
             andthen (Socket_getRemoteAddress env) (\<lambda>_. ret True))))
           else ret False)"

text \<open>
  \<open>accept\<close>: the new object, if any, is the result. The hooked \<open>accept\<close> has entered a new descriptor into the table.
\<close>

definition Socket_accept :: "sock_env \<Rightarrow> Socket \<Rightarrow> (knet hstate, Socket option) oper" where
  "Socket_accept env s h =
     (let newsock = en_accept env;
          h1 = (if newsock \<ge> 0 then h\<lparr>kern := (kern h)\<lparr>open_fds := newsock # open_fds (kern h)\<rparr>\<rparr> else h) in
      andthen (accept_end (Returned newsock)) (\<lambda>_ h.
        if newsock = - 1 then (Inr None, h)
        else
          case Socket_init env newsock (Socket_new (m_family s) (m_type s) (m_protocol s), h) of
            (Inl e, (_, h')) \<Rightarrow> (Inl e, h')
          | (Inr b, (sock, h')) \<Rightarrow> (Inr (if b then Some sock else None), h')) h1)"

text \<open>The opening of \<open>bind\<close> and \<open>connect\<close>: a descriptor, and the family of the address.\<close>

definition prepare :: "sock_env \<Rightarrow> Address \<Rightarrow> bool sock_oper" where
  "prepare env addr =
     andthen this (\<lambda>s.
     andthen (if \<not> Socket_isValid s then Socket_newSock env else ret ()) (\<lambda>_.
     andthen this (\<lambda>s. ret (Socket_isValid s \<and> Address_getFamily addr = m_family s))))"

definition Socket_bind :: "sock_env \<Rightarrow> Address \<Rightarrow> bool sock_oper" where
  "Socket_bind env addr =
     andthen (prepare env addr) (\<lambda>ok.
       if \<not> ok then ret False
       else if en_bind env \<noteq> 0 then ret False
       else andthen (Socket_getLocalAddress env) (\<lambda>_. ret True))"

text \<open>The time-out chooses between \<open>connect\<close> and \<open>connect_with_timeout\<close>; either answer is \<open>en_connect\<close>.\<close>

definition Socket_connect :: "sock_env \<Rightarrow> Address \<Rightarrow> bool sock_oper" where
  "Socket_connect env addr =
     andthen (modify_this (\<lambda>s. s\<lparr>m_remoteAddress := Some addr\<rparr>)) (\<lambda>_.
     andthen (prepare env addr) (\<lambda>ok.
       if \<not> ok then ret False
       else if en_connect env \<noteq> 0 then andthen (Socket_close env) (\<lambda>_. ret False)
       else
         andthen (modify_this (\<lambda>s. s\<lparr>m_isConnected := True\<rparr>)) (\<lambda>_.
         andthen (Socket_getRemoteAddress env) (\<lambda>_.
         andthen (Socket_getLocalAddress env) (\<lambda>_. ret True)))))"

definition Socket_reconnect :: "sock_env \<Rightarrow> bool sock_oper" where
  "Socket_reconnect env =
     andthen this (\<lambda>s.
       case m_remoteAddress s of
         None \<Rightarrow> ret False
       | Some addr \<Rightarrow>
           andthen (modify_this (\<lambda>s. s\<lparr>m_localAddress := None\<rparr>)) (\<lambda>_. Socket_connect env addr))"

definition Socket_listen :: "sock_env \<Rightarrow> bool sock_oper" where
  "Socket_listen env = andthen this (\<lambda>s. if \<not> Socket_isValid s then ret False else ret (en_listen env = 0))"

section \<open>Transfers\<close>

text \<open>
  The eight transfers have one shape: without a connection the result is -1 and no call is made; otherwise the hooked call is made, and its \<open>ssize_t\<close> is
  converted to \<open>int\<close>. The call is an argument, on a state of any type; a receiving call also gives the bytes it put into memory.
\<close>

definition guarded_send :: "Socket \<Rightarrow> ('w \<Rightarrow> int \<times> 'w) \<Rightarrow> 'w \<Rightarrow> int \<times> 'w" where
  "guarded_send s call w = (if m_isConnected s then (case call w of (r, w') \<Rightarrow> (c_int r, w')) else (- 1, w))"

definition guarded_recv :: "Socket \<Rightarrow> ('w \<Rightarrow> (int \<times> byte list) \<times> 'w) \<Rightarrow> 'w \<Rightarrow> (int \<times> byte list) \<times> 'w" where
  "guarded_recv s call w = (if m_isConnected s then (case call w of ((r, bs), w') \<Rightarrow> ((c_int r, bs), w')) else ((- 1, []), w))"

text \<open>\<open>send\<close> with the bytes of the buffer, \<open>sendmsg\<close> with those of the vector, \<open>sendto\<close> and \<open>sendmsg\<close> with an address.\<close>

definition Socket_send :: "(int \<Rightarrow> byte list \<Rightarrow> 'w \<Rightarrow> int \<times> 'w) \<Rightarrow> Socket \<Rightarrow> byte list \<Rightarrow> 'w \<Rightarrow> int \<times> 'w" where
  "Socket_send send s buffer = guarded_send s (send (m_sock s) buffer)"

definition Socket_send_iov :: "(int \<Rightarrow> byte list list \<Rightarrow> 'w \<Rightarrow> int \<times> 'w) \<Rightarrow> Socket \<Rightarrow> byte list list \<Rightarrow> 'w \<Rightarrow> int \<times> 'w" where
  "Socket_send_iov sendmsg s buffers = guarded_send s (sendmsg (m_sock s) buffers)"

definition Socket_sendTo ::
    "(int \<Rightarrow> byte list \<Rightarrow> Address \<Rightarrow> 'w \<Rightarrow> int \<times> 'w) \<Rightarrow> Socket \<Rightarrow> byte list \<Rightarrow> Address \<Rightarrow> 'w \<Rightarrow> int \<times> 'w" where
  "Socket_sendTo sendto s buffer to = guarded_send s (sendto (m_sock s) buffer to)"

definition Socket_sendTo_iov ::
    "(int \<Rightarrow> byte list list \<Rightarrow> Address \<Rightarrow> 'w \<Rightarrow> int \<times> 'w) \<Rightarrow> Socket \<Rightarrow> byte list list \<Rightarrow> Address \<Rightarrow> 'w \<Rightarrow> int \<times> 'w" where
  "Socket_sendTo_iov sendmsg s buffers to = guarded_send s (sendmsg (m_sock s) buffers to)"

text \<open>\<open>recv\<close> of at most a number of bytes, \<open>recvmsg\<close> into pieces of the given lengths; the sender's address goes to the object \<open>from\<close> of the caller.\<close>

definition Socket_recv ::
    "(int \<Rightarrow> nat \<Rightarrow> 'w \<Rightarrow> (int \<times> byte list) \<times> 'w) \<Rightarrow> Socket \<Rightarrow> nat \<Rightarrow> 'w \<Rightarrow> (int \<times> byte list) \<times> 'w" where
  "Socket_recv recv s n = guarded_recv s (recv (m_sock s) n)"

definition Socket_recv_iov ::
    "(int \<Rightarrow> nat list \<Rightarrow> 'w \<Rightarrow> (int \<times> byte list) \<times> 'w) \<Rightarrow> Socket \<Rightarrow> nat list \<Rightarrow> 'w \<Rightarrow> (int \<times> byte list) \<times> 'w" where
  "Socket_recv_iov recvmsg s ns = guarded_recv s (recvmsg (m_sock s) ns)"

definition Socket_recvFrom ::
    "(int \<Rightarrow> nat \<Rightarrow> Address \<Rightarrow> 'w \<Rightarrow> (int \<times> byte list) \<times> 'w) \<Rightarrow> Socket \<Rightarrow> nat \<Rightarrow> Address \<Rightarrow> 'w \<Rightarrow> (int \<times> byte list) \<times> 'w" where
  "Socket_recvFrom recvfrom s n from_addr = guarded_recv s (recvfrom (m_sock s) n from_addr)"

definition Socket_recvFrom_iov ::
    "(int \<Rightarrow> nat list \<Rightarrow> Address \<Rightarrow> 'w \<Rightarrow> (int \<times> byte list) \<times> 'w) \<Rightarrow> Socket \<Rightarrow> nat list \<Rightarrow> Address \<Rightarrow> 'w \<Rightarrow> (int \<times> byte list) \<times> 'w" where
  "Socket_recvFrom_iov recvmsg s ns from_addr = guarded_recv s (recvmsg (m_sock s) ns from_addr)"

section \<open>Errors, text, cancellation\<close>

text \<open>\<open>getOption(SO_ERROR)\<close>: \<open>None\<close> when \<open>getsockopt\<close> fails, and then \<open>errno\<close> is the result.\<close>

definition Socket_getError :: "int option \<Rightarrow> int \<Rightarrow> int" where
  "Socket_getError opt errno = (case opt of Some error \<Rightarrow> error | None \<Rightarrow> errno)"

definition Socket_toString :: "endian \<Rightarrow> Socket \<Rightarrow> string" where
  "Socket_toString host s =
     ''[Socket sock='' @ show_int (m_sock s)
     @ '' is_connected='' @ (if m_isConnected s then ''1'' else ''0'')
     @ '' family='' @ dec (unat (m_family s))
     @ '' type='' @ show_int (m_type s)
     @ '' protocol='' @ show_int (m_protocol s)
     @ (case m_localAddress s of None \<Rightarrow> [] | Some a \<Rightarrow> '' local_address='' @ Address_toString host a)
     @ (case m_remoteAddress s of None \<Rightarrow> [] | Some a \<Rightarrow> '' remote_address='' @ Address_toString host a)
     @ '']''"

definition Socket_cancelRead :: "bool \<Rightarrow> bool sock_oper" where
  "Socket_cancelRead fail =
     andthen this (\<lambda>s. andthen (on_sys (on_iom (IOManager_cancelEvent fail (m_sock s) READ))) (\<lambda>(b, _). ret b))"

definition Socket_cancelWrite :: "bool \<Rightarrow> bool sock_oper" where
  "Socket_cancelWrite fail =
     andthen this (\<lambda>s. andthen (on_sys (on_iom (IOManager_cancelEvent fail (m_sock s) WRITE))) (\<lambda>(b, _). ret b))"

definition Socket_cancelAccept :: "bool \<Rightarrow> bool sock_oper" where
  "Socket_cancelAccept fail =
     andthen this (\<lambda>s. andthen (on_sys (on_iom (IOManager_cancelEvent fail (m_sock s) READ))) (\<lambda>(b, _). ret b))"

definition Socket_cancelAll :: "bool \<Rightarrow> bool sock_oper" where
  "Socket_cancelAll fail =
     andthen this (\<lambda>s. andthen (on_sys (on_iom (IOManager_cancelAll fail (m_sock s)))) (\<lambda>(b, _). ret b))"


section \<open>Time-outs are read back\<close>

lemma timeval_ms_of:
  assumes "\<bar>v\<bar> < 2 ^ 31 * 1000"
  shows "timeval_ms (fst (timeval_of v)) (snd (timeval_of v)) = word_of_int v"
proof -
  have id: "c_int x = x" if "- (2 ^ 31) \<le> x" "x < 2 ^ 31" for x
    using that by (simp add: c_int_def signed_of_int signed_take_bit_int_eq_self)
  have q: "- (2 ^ 31) \<le> v sdiv 1000 \<and> v sdiv 1000 < 2 ^ 31" "\<bar>v smod 1000\<bar> < 1000"
    using assms by (auto simp: signed_divide_int_def signed_modulo_int_def sgn_if)
  then have "- (2 ^ 31) \<le> v smod 1000 * 1000 \<and> v smod 1000 * 1000 < 2 ^ 31" by auto
  with q id have "timeval_of v = (v sdiv 1000, v smod 1000 * 1000)" by (simp add: timeval_of_def)
  moreover have "(x * 1000) sdiv 1000 = x" for x :: int
    by (simp add: signed_divide_int_def abs_mult sgn_mult)
      (metis mult_sgn_abs mult.commute)
  moreover have "v sdiv 1000 * 1000 + v smod 1000 = v"
    by (rule sdiv_mult_smod_eq)
  ultimately show ?thesis by (simp add: timeval_ms_def)
qed


lemma set_timeout_effect:
  assumes "t_hook_enable h (en_thread env)" and "0 \<le> m_sock s" and "fd_lookup (fds h) (m_sock s) = Some c"
    and "option = SO_RCVTIMEO \<or> option = SO_SNDTIMEO" and "\<bar>v\<bar> < 2 ^ 31 * 1000"
  shows "\<exists>b h'. Socket_setOption env SOL_SOCKET option (timeval_of v) (s, h) = (Inr b, (s, h'))
    \<and> fds h' = fds (fd_modify (m_sock s) (FdCtx_setTimeout option (word_of_int v)) h)"
  using assms timeval_ms_of [OF assms(5)]
  by (auto simp: Socket_setOption_def this_def on_sys_def andthen_def hook_setsockopt_def fd_get_lookup sys_call_def
      k_setsockopt_def set_errno_def Let_def)

lemma socket_timeout_lookup:
  assumes "0 \<le> m_sock s" and "fd_lookup (fds h) (m_sock s) = Some c"
  shows "socket_timeout option (s, h) = (Inr (sint (FdCtx_getTimeout option c)), (s, h))"
  using assms by (simp add: socket_timeout_def this_def on_sys_def andthen_def fd_get_lookup)

text \<open>
  Time-outs of a socket. With hooking on and a context for the descriptor, a receive time-out of v milliseconds (less than \<open>2 ^ 31\<close> seconds, negative ones
  included) set on a socket is the one read back, and the one the hooked reading calls use; the send time-out is as before. The same holds
  with the two exchanged, and the context of no other descriptor changes.
\<close>

theorem socket_timeout_roundtrip:
  assumes "t_hook_enable h (en_thread env)" and "0 \<le> m_sock s" and "fd_lookup (fds h) (m_sock s) = Some c"
    and "\<bar>v\<bar> < 2 ^ 31 * 1000"
  shows "(case Socket_setRecvTimeout env v (s, h) of (r, s', h') \<Rightarrow> r = Inr () \<and> s' = s
      \<and> fst (Socket_getRecvTimeout (s', h')) = Inr v
      \<and> fst (Socket_getSendTimeout (s', h')) = fst (Socket_getSendTimeout (s, h))
      \<and> (\<forall>i. i \<noteq> m_sock s \<longrightarrow> fd_lookup (fds h') i = fd_lookup (fds h) i))
    \<and> (case Socket_setSendTimeout env v (s, h) of (r, s', h') \<Rightarrow> r = Inr () \<and> s' = s
      \<and> fst (Socket_getSendTimeout (s', h')) = Inr v
      \<and> fst (Socket_getRecvTimeout (s', h')) = fst (Socket_getRecvTimeout (s, h))
      \<and> (\<forall>i. i \<noteq> m_sock s \<longrightarrow> fd_lookup (fds h') i = fd_lookup (fds h) i))"
proof -
  have v: "sint (word_of_int v :: u64) = v"
    using assms(4) by (simp add: signed_of_int signed_take_bit_int_eq_self)
  have "\<exists>h'. andthen (Socket_setOption env SOL_SOCKET option (timeval_of v)) (\<lambda>_. ret ()) (s, h) = (Inr (), (s, h'))
      \<and> socket_timeout option (s, h') = (Inr v, (s, h'))
      \<and> (other \<noteq> option \<longrightarrow> fst (socket_timeout other (s, h')) = fst (socket_timeout other (s, h)))
      \<and> (\<forall>i. i \<noteq> m_sock s \<longrightarrow> fd_lookup (fds h') i = fd_lookup (fds h) i)"
    if o: "option = SO_RCVTIMEO \<or> option = SO_SNDTIMEO" "other = SO_RCVTIMEO \<or> other = SO_SNDTIMEO" for option other
  proof -
    obtain b h' where h': "Socket_setOption env SOL_SOCKET option (timeval_of v) (s, h) = (Inr b, (s, h'))"
        "fds h' = fds (fd_modify (m_sock s) (FdCtx_setTimeout option (word_of_int v)) h)"
      using set_timeout_effect [OF assms(1-3) o(1) assms(4)] by blast
    have look: "fd_lookup (fds h') i = (if i = m_sock s then Some (FdCtx_setTimeout option (word_of_int v) c) else fd_lookup (fds h) i)" for i
      using fd_lookup_modify [OF assms(3)] h'(2) by simp
    have "socket_timeout option (s, h') = (Inr v, (s, h'))"
      using socket_timeout_lookup [OF assms(2), of h' _ option] look [of "m_sock s"] v o(1)
      by (auto simp: FdCtx_setTimeout_def FdCtx_getTimeout_def)
    moreover have "fst (socket_timeout other (s, h')) = fst (socket_timeout other (s, h))" if "other \<noteq> option"
      using socket_timeout_lookup [OF assms(2), of h' _ other] socket_timeout_lookup [OF assms(2,3), of other]
        look [of "m_sock s"] o that
      by (auto simp: FdCtx_setTimeout_def FdCtx_getTimeout_def)
    ultimately show ?thesis using h'(1) look by (simp add: andthen_Inr)
  qed
  from this [of SO_RCVTIMEO SO_SNDTIMEO] this [of SO_SNDTIMEO SO_RCVTIMEO] show ?thesis
    by (auto simp: Socket_setRecvTimeout_def Socket_setSendTimeout_def Socket_getRecvTimeout_def Socket_getSendTimeout_def)
qed

end
