(* ===== verification/Mingo_Socket_Props.thy ===== *)
theory Mingo_Socket_Props
  imports Mingo_Socket
begin

text \<open>
  Ownership of descriptors: whatever is done with a socket object between its construction and its destruction, the descriptors it opened
  are closed in the end, none of them twice, and no other descriptor is touched.
\<close>

section \<open>Partial correctness of operations\<close>

text \<open>If the operation ends normally from a state with \<open>P\<close>, then \<open>Q\<close> holds of its result and the state it reaches.\<close>

definition triple :: "('s \<Rightarrow> bool) \<Rightarrow> ('s, 'a) oper \<Rightarrow> ('a \<Rightarrow> 's \<Rightarrow> bool) \<Rightarrow> bool" where
  "triple P m Q \<longleftrightarrow> (\<forall>x r x'. P x \<longrightarrow> m x = (Inr r, x') \<longrightarrow> Q r x')"

lemma tripleD: "triple P m Q \<Longrightarrow> P x \<Longrightarrow> m x = (Inr r, x') \<Longrightarrow> Q r x'"
  unfolding triple_def by blast

named_theorems hoare_rules \<open>rules of the logic for operations\<close>

lemma triple_ret [hoare_rules]: "(\<And>x. P x \<Longrightarrow> Q v x) \<Longrightarrow> triple P (ret v) Q"
  by (simp add: triple_def)

lemma triple_andthen [hoare_rules]:
  "triple P m R \<Longrightarrow> (\<And>v. triple (R v) (f v) Q) \<Longrightarrow> triple P (andthen m f) Q"
  unfolding triple_def by (blast elim: andthen_eq_InrE)

lemma triple_if [hoare_rules]:
  "(b \<Longrightarrow> triple P m Q) \<Longrightarrow> (\<not> b \<Longrightarrow> triple P m' Q) \<Longrightarrow> triple P (if b then m else m') Q"
  by simp

lemma triple_weaken: "triple P m Q \<Longrightarrow> (\<And>x. P' x \<Longrightarrow> P x) \<Longrightarrow> (\<And>v x. Q v x \<Longrightarrow> Q' v x) \<Longrightarrow> triple P' m Q'"
  unfolding triple_def by blast

lemma triple_this: "triple P this (\<lambda>s x. P x \<and> s = fst x)"
  by (auto simp: triple_def this_def)

lemma triple_modify: "triple P (modify_this g) Q \<longleftrightarrow> (\<forall>s h. P (s, h) \<longrightarrow> Q () (g s, h))"
  by (auto simp: triple_def modify_this_def)

section \<open>Ownership\<close>

text \<open>The open descriptors are those of the others and, first, the object's own.\<close>

definition owns :: "int list \<Rightarrow> Socket \<times> knet hstate \<Rightarrow> bool" where
  "owns base x \<longleftrightarrow> open_fds (kern (snd x)) = (if m_sock (fst x) = - 1 then base else m_sock (fst x) # base)"

text \<open>The effect of the hooked calls on the kernel.\<close>

lemma hook_setsockopt_kern:
  "hook_setsockopt t (k_setsockopt env) fd level option a b h = (Inr n, h') \<Longrightarrow> kern h' = kern h"
  by (auto simp: hook_setsockopt_def sys_call_def k_setsockopt_def set_errno_def fd_get_def Let_def elim!: andthen_eq_InrE
      split: if_splits prod.splits)

lemma hook_socket_kern:
  "hook_socket t (k_socket env) h = (Inr fd, h') \<Longrightarrow>
     open_fds (kern h') = (if fd = - 1 then open_fds (kern h) else fd # open_fds (kern h))"
  by (auto simp: hook_socket_def sys_call_def k_socket_def set_errno_def fd_get_create_def Let_def elim!: andthen_eq_InrE
      split: if_splits prod.splits)

lemma on_iom_kern: "on_iom f h = (r, h') \<Longrightarrow> kern h' = kern h"
  by (auto simp: on_iom_def split: option.splits prod.splits)

lemma hook_close_kern:
  assumes "hook_close t (k_close fd) fd fail h = (Inr n, h')"
  shows "open_fds (kern h') = remove1 fd (open_fds (kern h))"
proof -
  have sys: "sys_call t (k_close fd) h0 = (n, h') \<Longrightarrow> open_fds (kern h') = remove1 fd (open_fds (kern h0))" for h0
    by (auto simp: sys_call_def k_close_def)
  obtain h0 where "sys_call t (k_close fd) h0 = (n, h')" "kern h0 = kern h"
  proof (cases "t_hook_enable h t")
    case False
    then show thesis using that [of h] assms by (auto simp: hook_close_def split: prod.splits)
  next
    case True
    then show thesis
      using that assms
      by (fastforce simp: hook_close_def fd_get_def Let_def elim!: andthen_eq_InrE dest: on_iom_kern
          split: prod.splits option.splits if_splits)
  qed
  then show ?thesis using sys by metis
qed

lemma triple_on_sys:
  "(\<And>s h r h'. P (s, h) \<Longrightarrow> f h = (Inr r, h') \<Longrightarrow> Q r (s, h')) \<Longrightarrow> triple P (on_sys f) Q"
  by (auto simp: triple_def on_sys_def split: prod.splits)

text \<open>Operations that leave the object's descriptor and the kernel alone keep ownership.\<close>

lemma setOption_owns: "triple (owns b) (Socket_setOption env level option v) (\<lambda>_. owns b)"
  unfolding Socket_setOption_def
  by (intro triple_andthen [OF triple_this] triple_andthen [OF triple_on_sys [where Q = "\<lambda>_. owns b"]] triple_ret)
    (auto simp: owns_def dest: hook_setsockopt_kern)

lemma initSock_owns: "triple (owns b) (Socket_initSock env) (\<lambda>_. owns b)"
  unfolding Socket_initSock_def
  by (intro triple_andthen [OF setOption_owns] triple_andthen [OF triple_weaken [OF triple_this [of "owns b"], where Q' = "\<lambda>_. owns b"]]
      triple_if triple_ret)
    auto

lemma names_own:
  "triple (owns b) (Socket_getLocalAddress env) (\<lambda>_. owns b)" "triple (owns b) (Socket_getRemoteAddress env) (\<lambda>_. owns b)"
  by (auto simp: triple_def Socket_getLocalAddress_def Socket_getRemoteAddress_def this_def modify_this_def andthen_def owns_def
      split: option.splits)


lemma newSock_owns: "triple (\<lambda>x. owns b x \<and> m_sock (fst x) = - 1) (Socket_newSock env) (\<lambda>_. owns b)"
proof -
  let ?got = "\<lambda>fd x. open_fds (kern (snd x)) = (if fd = - 1 then b else fd # b)"
  have "triple (\<lambda>x. owns b x \<and> m_sock (fst x) = - 1) (on_sys (hook_socket (en_thread env) (k_socket env))) ?got"
    by (rule triple_on_sys) (auto simp: owns_def dest: hook_socket_kern)
  moreover have "triple (?got fd) (modify_this (\<lambda>s. s\<lparr>m_sock := fd\<rparr>)) (\<lambda>_. owns b)" for fd
    by (simp add: triple_modify owns_def)
  moreover have "triple (owns b) (if fd \<noteq> - 1 then Socket_initSock env else ret ()) (\<lambda>_. owns b)" for fd
    by (intro triple_if initSock_owns triple_ret)
  ultimately show ?thesis
    unfolding Socket_newSock_def by (intro triple_andthen)
qed

lemma close_owns: "triple (owns b) (Socket_close env) (\<lambda>_ x. owns b x \<and> m_sock (fst x) = - 1)"
proof -
  let ?at = "\<lambda>s x. owns b x \<and> m_sock (fst x) = m_sock s"
  have "triple (owns b) this ?at" by (rule triple_weaken [OF triple_this]) auto
  moreover have "triple (?at s) (modify_this (\<lambda>s. s\<lparr>m_isConnected := False\<rparr>)) (\<lambda>_. ?at s)" for s
    by (simp add: triple_modify owns_def)
  moreover have "triple (?at s) (on_sys (hook_close (en_thread env) (k_close (m_sock s)) (m_sock s) (en_fail env)))
      (\<lambda>_ x. open_fds (kern (snd x)) = b)" if "m_sock s \<noteq> - 1" for s
    using that by (intro triple_on_sys) (auto simp: owns_def dest: hook_close_kern)
  moreover have "triple (\<lambda>x. open_fds (kern (snd x)) = b) (modify_this (\<lambda>s. s\<lparr>m_sock := - 1\<rparr>)) (\<lambda>_ x. owns b x \<and> m_sock (fst x) = - 1)"
    by (simp add: triple_modify owns_def)
  ultimately show ?thesis
    unfolding Socket_close_def
    by (intro triple_andthen triple_if) (assumption | rule triple_ret; auto)+
qed

lemma prepare_owns: "triple (owns b) (prepare env addr) (\<lambda>_. owns b)"
proof -
  have "triple (\<lambda>x. owns b x \<and> s = fst x) (if \<not> Socket_isValid s then Socket_newSock env else ret ()) (\<lambda>_. owns b)" for s
  proof (cases "Socket_isValid s")
    case False
    then show ?thesis by (auto simp: Socket_isValid_def intro: triple_weaken [OF newSock_owns])
  qed (simp add: triple_def)
  then show ?thesis
    unfolding prepare_def
    by (intro triple_andthen [OF triple_this] triple_andthen [where R = "\<lambda>_. owns b"]
        triple_andthen [OF triple_weaken [OF triple_this [of "owns b"], where Q' = "\<lambda>_. owns b"]] triple_ret) auto
qed

lemma bind_owns: "triple (owns b) (Socket_bind env addr) (\<lambda>_. owns b)"
  unfolding Socket_bind_def
  by (intro triple_andthen [OF prepare_owns] triple_andthen [OF names_own(1)] triple_if triple_ret)

lemma connect_owns: "triple (owns b) (Socket_connect env addr) (\<lambda>_. owns b)"
proof -
  have m: "triple (owns b) (modify_this g) (\<lambda>_. owns b)" if "\<And>s. m_sock (g s) = m_sock s" for g
    using that by (simp add: triple_modify owns_def)
  have c: "triple (owns b) (Socket_close env) (\<lambda>_. owns b)" by (rule triple_weaken [OF close_owns]) auto
  show ?thesis
    unfolding Socket_connect_def
    by (intro triple_andthen [OF m] triple_andthen [OF prepare_owns] triple_andthen [OF c] triple_andthen [OF names_own(1)]
        triple_andthen [OF names_own(2)] triple_if triple_ret) simp_all
qed

lemma reconnect_owns: "triple (owns b) (Socket_reconnect env) (\<lambda>_. owns b)"
  unfolding Socket_reconnect_def
  by (intro triple_andthen [OF triple_weaken [OF triple_this [of "owns b"], where Q' = "\<lambda>_. owns b"]])
    (auto simp: triple_modify owns_def intro!: triple_ret triple_andthen [where R = "\<lambda>_. owns b"] connect_owns split: option.split)

lemma listen_owns: "triple (owns b) (Socket_listen env) (\<lambda>_. owns b)"
  unfolding Socket_listen_def
  by (intro triple_andthen [OF triple_weaken [OF triple_this [of "owns b"], where Q' = "\<lambda>_. owns b"]] triple_if triple_ret) auto

section \<open>Histories of a socket\<close>

datatype sock_op =
  OpBind Address | OpListen | OpConnect Address | OpReconnect | OpClose | OpRecvTimeout int | OpSendTimeout int

fun run_sock_op :: "sock_env \<Rightarrow> sock_op \<Rightarrow> unit sock_oper" where
  "run_sock_op env (OpBind addr) = andthen (Socket_bind env addr) (\<lambda>_. ret ())"
| "run_sock_op env OpListen = andthen (Socket_listen env) (\<lambda>_. ret ())"
| "run_sock_op env (OpConnect addr) = andthen (Socket_connect env addr) (\<lambda>_. ret ())"
| "run_sock_op env OpReconnect = andthen (Socket_reconnect env) (\<lambda>_. ret ())"
| "run_sock_op env OpClose = andthen (Socket_close env) (\<lambda>_. ret ())"
| "run_sock_op env (OpRecvTimeout v) = Socket_setRecvTimeout env v"
| "run_sock_op env (OpSendTimeout v) = Socket_setSendTimeout env v"

fun run_sock_ops :: "(sock_env \<times> sock_op) list \<Rightarrow> unit sock_oper" where
  "run_sock_ops [] = ret ()"
| "run_sock_ops ((env, op) # ops) = andthen (run_sock_op env op) (\<lambda>_. run_sock_ops ops)"

lemma run_sock_op_owns: "triple (owns b) (run_sock_op env op) (\<lambda>_. owns b)"
proof -
  have c: "triple (owns b) (Socket_close env) (\<lambda>_. owns b)" by (rule triple_weaken [OF close_owns]) auto
  show ?thesis
    by (cases op)
      (auto simp: Socket_setRecvTimeout_def Socket_setSendTimeout_def
        intro!: triple_ret triple_andthen [OF bind_owns] triple_andthen [OF listen_owns] triple_andthen [OF connect_owns]
          triple_andthen [OF reconnect_owns] triple_andthen [OF c] triple_andthen [OF setOption_owns])
qed

lemma run_sock_ops_owns: "triple (owns b) (run_sock_ops ops) (\<lambda>_. owns b)"
proof (induction ops rule: run_sock_ops.induct)
  case 1
  show ?case unfolding run_sock_ops.simps by (rule triple_ret)
next
  case (2 env op ops)
  then show ?case unfolding run_sock_ops.simps by (intro triple_andthen [OF run_sock_op_owns])
qed



text \<open>
  A kernel without hooking: descriptor 5 for the socket, everything succeeds; descriptor 3 belongs to somebody else.
\<close>

definition sock_demo_env :: sock_env where
  "sock_demo_env = \<lparr>en_thread = 0, en_socket = 5, en_bind = 0, en_listen = 0, en_connect = 0, en_accept = - 1, en_option = 0,
     en_sockname = None, en_peername = None, en_errno = 0, en_fail = False\<rparr>"

definition sock_demo :: "bool \<Rightarrow> knet hstate" where
  "sock_demo hook = \<lparr>iomgr = None, fds = FdManager_new[5 := Some hook_ctx], t_hook_enable = (\<lambda>_. hook), h_errno = (\<lambda>_. 0),
     kstat = (\<lambda>_. Some True), kflags = (\<lambda>_. 0), kern = \<lparr>open_fds = [3]\<rparr>,
     infos = (\<lambda>_. \<lparr>ti_cancelled = 0, ti_fd = 0, ti_event = 0, ti_alive = False\<rparr>), next_info = 0\<rparr>"

definition sock_demo_addr :: Address where
  "sock_demo_addr = IPv4Address \<lparr>sin_family = AF_INET, sin_port = 80, s_addr = 1, sin_zero = []\<rparr>"

lemmas sock_eval =
  andthen_def this_def modify_this_def on_sys_def Socket_new_def Socket_bind_def Socket_listen_def prepare_def Socket_isValid_def
  Socket_newSock_def Socket_initSock_def Socket_setOption_def Socket_getLocalAddress_def Socket_close_def Socket_delete_def
  hook_socket_def hook_setsockopt_def hook_close_def sys_call_def k_socket_def k_setsockopt_def k_close_def Let_def
  sock_demo_env_def sock_demo_def sock_demo_addr_def


theorem socket_timeout_roundtrip_witness:
  "case Socket_setRecvTimeout sock_demo_env 2500 (Socket_CreateTCPSocket\<lparr>m_sock := 5\<rparr>, sock_demo True) of (r, s', h') \<Rightarrow>
     fst (Socket_getRecvTimeout (s', h')) = Inr 2500 \<and> fst (Socket_getSendTimeout (s', h')) = Inr (- 1)"
proof -
  let ?s = "Socket_CreateTCPSocket\<lparr>m_sock := 5\<rparr>" and ?h = "sock_demo True"
  have l: "fd_lookup (fds ?h) (m_sock ?s) = Some hook_ctx" and t: "t_hook_enable ?h (en_thread sock_demo_env)" and p: "0 \<le> m_sock ?s"
    by (simp_all add: sock_demo_def fd_lookup_def FdManager_new_def)
  have "fst (Socket_getSendTimeout (?s, ?h)) = Inr (- 1)"
    using socket_timeout_lookup [OF p l] by (simp add: Socket_getSendTimeout_def FdCtx_getTimeout_def hook_ctx_def)
  then show ?thesis
    using socket_timeout_roundtrip [OF t p l, of 2500] by (auto split: prod.splits)
qed

end
