(* ===== verification/Mingo_Stream.thy ===== *)
theory Mingo_Stream
  imports Mingo_ByteArray_Spec
begin

text \<open>
  \<^verbatim>\<open>mingo/stream.cpp\<close>: reading and writing a fixed number of bytes on top of the virtual \<open>read\<close> and \<open>write\<close> of a stream.
  These are arguments here: on a buffer, \<open>read n\<close> gives the returned number and the bytes it put into the memory at the pointer, and
  \<open>write\<close> gets the bytes from the pointer on; on a \<open>ByteArray\<close> they are operations on the stream and the
  array. Lengths are \<open>size_t\<close>; the loop variable is an \<open>int64_t\<close> and the result an \<open>int\<close>, so that both conversions wrap.
\<close>

section \<open>The loops\<close>

definition to_int64 :: "nat \<Rightarrow> int" where
  "to_int64 n = sint (word_of_nat n :: u64)"

definition to_int32 :: "nat \<Rightarrow> int" where
  "to_int32 n = sint (word_of_nat n :: u32)"

text \<open>
  The common loop: \<open>io\<close> is called with the offset and what is left, until nothing is left (\<open>None\<close>) or it returns a number that is not positive
  (which is the result). What is left goes down in every turn, whatever \<open>io\<close> does.
\<close>

function fix_loop :: "(nat \<Rightarrow> nat \<Rightarrow> ('s, int) oper) \<Rightarrow> nat \<Rightarrow> int \<Rightarrow> ('s, int option) oper" where
  "fix_loop io offset left s =
     (if left > 0 then
        (case io offset (nat left) s of
           (Inl e, s') \<Rightarrow> (Inl e, s')
         | (Inr len, s') \<Rightarrow>
             if len \<le> 0 then (Inr (Some len), s')
             else fix_loop io (offset + nat len) (left - len) s')
      else (Inr None, s))"
  by pat_completeness auto
termination
  by (relation "measure (\<lambda>(io, offset, left, s). nat left)") auto

declare fix_loop.simps [simp del]

definition fix_size :: "(nat \<Rightarrow> nat \<Rightarrow> ('s, int) oper) \<Rightarrow> nat \<Rightarrow> ('s, int) oper" where
  "fix_size io n =
     andthen (fix_loop io 0 (to_int64 n)) (\<lambda>r. ret (case r of Some len \<Rightarrow> len | None \<Rightarrow> to_int32 n))"

text \<open>Reading into memory: the bytes arrive at the offset of the buffer.\<close>

definition read_into :: "(nat \<Rightarrow> ('s, int \<times> byte list) oper) \<Rightarrow> nat \<Rightarrow> nat \<Rightarrow> ('s \<times> byte list, int) oper" where
  "read_into rd offset n = (\<lambda>(s, buffer).
     case rd n s of
       (Inl e, s') \<Rightarrow> (Inl e, (s', buffer))
     | (Inr (len, bs), s') \<Rightarrow> (Inr len, (s', put offset bs buffer)))"

definition Stream_readFixSize :: "(nat \<Rightarrow> ('s, int \<times> byte list) oper) \<Rightarrow> nat \<Rightarrow> ('s \<times> byte list, int) oper" where
  "Stream_readFixSize rd n = fix_size (read_into rd) n"

definition Stream_readFixSize_ba :: "(nat \<Rightarrow> ('s \<times> bytearray, int) oper) \<Rightarrow> nat \<Rightarrow> ('s \<times> bytearray, int) oper" where
  "Stream_readFixSize_ba rd n = fix_size (\<lambda>_. rd) n"

text \<open>Writing from memory: \<open>write\<close> may look at the bytes of the buffer from the offset on, at most as many as are left.\<close>

definition Stream_writeFixSize :: "(byte list \<Rightarrow> ('s, int) oper) \<Rightarrow> byte list \<Rightarrow> nat \<Rightarrow> ('s, int) oper" where
  "Stream_writeFixSize wr buffer n = fix_size (\<lambda>offset k. wr (take k (drop offset buffer))) n"

definition Stream_writeFixSize_ba :: "(nat \<Rightarrow> ('s \<times> bytearray, int) oper) \<Rightarrow> nat \<Rightarrow> ('s \<times> bytearray, int) oper" where
  "Stream_writeFixSize_ba wr n = fix_size (\<lambda>_. wr) n"

lemma to_int_id:
  "n < 2 ^ 63 \<Longrightarrow> to_int64 n = int n" "n < 2 ^ 31 \<Longrightarrow> to_int32 n = int n"
  by (simp_all add: to_int64_def to_int32_def signed_of_nat signed_take_bit_int_eq_self)

section \<open>The contract of a byte stream\<close>

text \<open>
  What the loops need of a source: the bytes it still has to deliver are a list, and \<open>rd\<close> takes a piece off its front: a positive result is the number of
  bytes delivered, not more than asked for; otherwise nothing is delivered.
\<close>

locale byte_source =
  fixes ok :: "'s \<Rightarrow> bool"
    and inflow :: "'s \<Rightarrow> byte list"
    and rd :: "nat \<Rightarrow> ('s, int \<times> byte list) oper"
  assumes rd_total: "ok s \<Longrightarrow> \<exists>len bs s'. rd n s = (Inr (len, bs), s')"
    and rd_some: "ok s \<Longrightarrow> rd n s = (Inr (len, bs), s') \<Longrightarrow> 0 < len \<Longrightarrow>
      ok s' \<and> int (length bs) = len \<and> length bs \<le> n \<and> inflow s = bs @ inflow s'"
    and rd_none: "ok s \<Longrightarrow> rd n s = (Inr (len, bs), s') \<Longrightarrow> len \<le> 0 \<Longrightarrow> ok s' \<and> bs = [] \<and> inflow s' = inflow s"
begin

text \<open>The buffer holds what arrived, from the offset on; the source has lost exactly that.\<close>

lemma fixed_read_loop:
  assumes "ok s" and "offset + nat left \<le> length buffer" and "0 \<le> left"
  shows "\<exists>r s' bs. fix_loop (read_into rd) offset left (s, buffer) = (Inr r, (s', put offset bs buffer))
    \<and> ok s' \<and> inflow s = bs @ inflow s'
    \<and> (case r of None \<Rightarrow> int (length bs) = left | Some len \<Rightarrow> len \<le> 0 \<and> int (length bs) < left)"
  using assms
proof (induction "nat left" arbitrary: offset left s buffer rule: less_induct)
  case less
  show ?case
  proof (cases "left > 0")
    case False
    then have "fix_loop (read_into rd) offset left (s, buffer) = (Inr None, (s, put offset [] buffer))"
      by (simp add: fix_loop.simps [of _ offset left])
    then show ?thesis using less.prems False by (intro exI [of _ None] exI [of _ s] exI [of _ "[]"]) simp
  next
    case True
    obtain len bs s1 where r: "rd (nat left) s = (Inr (len, bs), s1)" using rd_total [OF less.prems(1)] by blast
    show ?thesis
    proof (cases "len \<le> 0")
      case stop: True
      note n = rd_none [OF less.prems(1) r stop]
      then have "fix_loop (read_into rd) offset left (s, buffer) = (Inr (Some len), (s1, put offset [] buffer))"
        using True stop r by (simp add: fix_loop.simps [of _ offset left] read_into_def)
      then show ?thesis using n stop True by (intro exI [of _ "Some len"] exI [of _ s1] exI [of _ "[]"]) simp
    next
      case False
      then have n: "ok s1" "int (length bs) = len" "length bs \<le> nat left" "inflow s = bs @ inflow s1"
        using rd_some [OF less.prems(1) r] by simp_all
      let ?buf = "put offset bs buffer"
      have step: "fix_loop (read_into rd) offset left (s, buffer) = fix_loop (read_into rd) (offset + nat len) (left - len) (s1, ?buf)"
        using True False r by (simp add: fix_loop.simps [of _ offset left] read_into_def)
      have "length ?buf = length buffer" using n less.prems by (intro length_put) linarith
      then have "offset + nat len + nat (left - len) \<le> length ?buf" "0 \<le> left - len" "nat (left - len) < nat left"
        using n less.prems False by linarith+
      from less.hyps [OF this(3) n(1) this(1,2)] obtain r2 s2 bs2 where
        "fix_loop (read_into rd) (offset + nat len) (left - len) (s1, ?buf) = (Inr r2, (s2, put (offset + nat len) bs2 ?buf))"
        "ok s2" "inflow s1 = bs2 @ inflow s2"
        "case r2 of None \<Rightarrow> int (length bs2) = left - len | Some len' \<Rightarrow> len' \<le> 0 \<and> int (length bs2) < left - len"
        by blast
      moreover have "put (offset + nat len) bs2 ?buf = put offset (bs @ bs2) buffer"
        using put_put_append [of offset buffer bs bs2] n(2) less.prems(2) by (simp flip: n(2))
      ultimately show ?thesis
        using step n(2,4) by (intro exI [of _ r2] exI [of _ s2] exI [of _ "bs @ bs2"]) (auto split: option.splits)
    qed
  qed
qed

lemma readFixSize_spec:
  assumes "ok s" and "n \<le> length buffer" and "n < 2 ^ 31"
  shows "\<exists>r s' bs. Stream_readFixSize rd n (s, buffer) = (Inr r, (s', put 0 bs buffer)) \<and> ok s' \<and> inflow s = bs @ inflow s'
    \<and> (if 0 < n \<and> r \<le> 0 then length bs < n else r = int n \<and> length bs = n)"
proof -
  obtain r s' bs where l: "fix_loop (read_into rd) 0 (int n) (s, buffer) = (Inr r, (s', put 0 bs buffer))" "ok s'"
      "inflow s = bs @ inflow s'" "case r of None \<Rightarrow> length bs = n | Some len \<Rightarrow> len \<le> 0 \<and> length bs < n"
    using fixed_read_loop [OF assms(1), of 0 "int n" buffer] assms(2) by (auto split: option.splits)
  then have "Stream_readFixSize rd n (s, buffer) = (Inr (case r of Some len \<Rightarrow> len | None \<Rightarrow> int n), (s', put 0 bs buffer))"
    using assms(3) by (auto simp: Stream_readFixSize_def fix_size_def to_int_id andthen_Inr split: option.split)
  then show ?thesis
    using l by (intro exI [of _ "case r of Some len \<Rightarrow> len | None \<Rightarrow> int n"] exI [of _ s'] exI [of _ bs]) (auto split: option.splits)
qed

end

text \<open>The other direction: a sink takes a piece off the front of what it is offered and appends it to what it has sent.\<close>

locale byte_sink =
  fixes ok :: "'s \<Rightarrow> bool"
    and sent :: "'s \<Rightarrow> byte list"
    and wr :: "byte list \<Rightarrow> ('s, int) oper"
  assumes wr_total: "ok s \<Longrightarrow> \<exists>len s'. wr bs s = (Inr len, s')"
    and wr_some: "ok s \<Longrightarrow> wr bs s = (Inr len, s') \<Longrightarrow> 0 < len \<Longrightarrow>
      ok s' \<and> nat len \<le> length bs \<and> sent s' = sent s @ take (nat len) bs"
    and wr_none: "ok s \<Longrightarrow> wr bs s = (Inr len, s') \<Longrightarrow> len \<le> 0 \<Longrightarrow> ok s' \<and> sent s' = sent s"
begin

lemma fixed_write_loop:
  assumes "ok s" and "offset + nat left \<le> length buffer" and "0 \<le> left"
  shows "\<exists>r s' k. fix_loop (\<lambda>offset n. wr (take n (drop offset buffer))) offset left s = (Inr r, s') \<and> ok s'
    \<and> sent s' = sent s @ take k (drop offset buffer)
    \<and> (case r of None \<Rightarrow> int k = left | Some len \<Rightarrow> len \<le> 0 \<and> int k < left)"
  using assms
proof (induction "nat left" arbitrary: offset left s rule: less_induct)
  case less
  let ?io = "\<lambda>offset n. wr (take n (drop offset buffer))"
  show ?case
  proof (cases "left > 0")
    case False
    then have "fix_loop ?io offset left s = (Inr None, s)" by (simp add: fix_loop.simps [of _ offset left])
    then show ?thesis using less.prems False by (intro exI [of _ None] exI [of _ s] exI [of _ 0]) simp
  next
    case True
    obtain len s1 where w: "?io offset (nat left) s = (Inr len, s1)" using wr_total [OF less.prems(1)] by blast
    show ?thesis
    proof (cases "len \<le> 0")
      case stop: True
      then have "fix_loop ?io offset left s = (Inr (Some len), s1)" using True w by (simp add: fix_loop.simps [of _ offset left])
      then show ?thesis
        using wr_none [OF less.prems(1) w stop] stop True by (intro exI [of _ "Some len"] exI [of _ s1] exI [of _ 0]) simp
    next
      case False
      then have n: "ok s1" "nat len \<le> nat left" "sent s1 = sent s @ take (nat len) (drop offset buffer)"
        using wr_some [OF less.prems(1) w] by (simp_all add: min_def split: if_splits)
      have step: "fix_loop ?io offset left s = fix_loop ?io (offset + nat len) (left - len) s1"
        using True False w by (simp add: fix_loop.simps [of _ offset left])
      have "nat (left - len) < nat left" "offset + nat len + nat (left - len) \<le> length buffer" "0 \<le> left - len"
        using n less.prems False by linarith+
      from less.hyps [OF this(1) n(1) this(2,3)] obtain r2 s2 k2 where
        "fix_loop ?io (offset + nat len) (left - len) s1 = (Inr r2, s2)" "ok s2"
        "sent s2 = sent s1 @ take k2 (drop (offset + nat len) buffer)"
        "case r2 of None \<Rightarrow> int k2 = left - len | Some len' \<Rightarrow> len' \<le> 0 \<and> int k2 < left - len"
        by blast
      moreover have "take (nat len) (drop offset buffer) @ take k2 (drop (offset + nat len) buffer) = take (nat len + k2) (drop offset buffer)"
        by (simp add: take_add add.commute [of offset])
      ultimately show ?thesis
        using step n(3) False by (intro exI [of _ r2] exI [of _ s2] exI [of _ "nat len + k2"]) (auto split: option.splits)
    qed
  qed
qed

lemma writeFixSize_spec:
  assumes "ok s" and "n \<le> length buffer" and "n < 2 ^ 31"
  shows "\<exists>r s' k. Stream_writeFixSize wr buffer n s = (Inr r, s') \<and> ok s' \<and> sent s' = sent s @ take k buffer
    \<and> (if 0 < n \<and> r \<le> 0 then k < n else r = int n \<and> k = n)"
proof -
  obtain r s' k where l: "fix_loop (\<lambda>offset n. wr (take n (drop offset buffer))) 0 (int n) s = (Inr r, s')" "ok s'"
      "sent s' = sent s @ take k buffer" "case r of None \<Rightarrow> k = n | Some len \<Rightarrow> len \<le> 0 \<and> k < n"
    using fixed_write_loop [OF assms(1), of 0 "int n" buffer] assms(2) by (auto split: option.splits)
  then have "Stream_writeFixSize wr buffer n s = (Inr (case r of Some len \<Rightarrow> len | None \<Rightarrow> int n), s')"
    using assms(3) by (auto simp: Stream_writeFixSize_def fix_size_def to_int_id andthen_Inr split: option.split)
  then show ?thesis
    using l by (intro exI [of _ "case r of Some len \<Rightarrow> len | None \<Rightarrow> int n"] exI [of _ s'] exI [of _ k]) (auto split: option.splits)
qed

end

text \<open>
  The result is an \<open>int\<close>: a transfer of 2 GiB that succeeds is reported by a negative number. A length of \<open>2 ^ 63\<close> or more is not transferred at all.
\<close>

lemma fix_size_result_wraps: "to_int32 (2 ^ 31) = - (2 ^ 31)"
  by (simp add: to_int32_def)

lemma fix_size_huge: "fix_size io (2 ^ 63) s = (Inr 0, s)"
  by (simp add: fix_size_def to_int64_def to_int32_def fix_loop.simps andthen_def)

end
