(* ===== verification/Mingo_SocketStream.thy ===== *)
theory Mingo_SocketStream
  imports Mingo_Stream Mingo_Socket
begin

text \<open>
  \<^verbatim>\<open>mingo/streams/socket_stream.cpp\<close>: a stream on a socket. The kernel's side of a connection is the bytes on their way in, the bytes sent so
  far, and a plan of what each coming call does: a positive number is how many bytes it moves at most, 0 is an end of the connection, a negative
  number an error. So any behaviour the documentation of \<open>recv\<close> and \<open>send\<close> allows is some plan; a call moves at most \<open>0x7ffff000\<close> bytes.
  The state of an operation is the stream (a pointer to the socket, possibly null) with the connection.
\<close>

section \<open>The connection\<close>

record conn =
  rx :: "byte list"
  rplan :: "int list"
  tx :: "byte list"
  wplan :: "int list"

definition MAX_RW_COUNT :: nat where "MAX_RW_COUNT = 0x7ffff000"

definition k_recv :: "int \<Rightarrow> nat \<Rightarrow> conn \<Rightarrow> (int \<times> byte list) \<times> conn" where
  "k_recv fd n c =
     (case rplan c of
        [] \<Rightarrow> ((0, []), c)
      | p # ps \<Rightarrow>
          let k = min (nat p) (min n (min (length (rx c)) MAX_RW_COUNT)) in
          if k = 0 then ((if p < 0 then - 1 else 0, []), c\<lparr>rplan := ps\<rparr>)
          else ((int k, take k (rx c)), c\<lparr>rx := drop k (rx c), rplan := ps\<rparr>))"

definition k_send :: "int \<Rightarrow> byte list \<Rightarrow> conn \<Rightarrow> int \<times> conn" where
  "k_send fd bs c =
     (case wplan c of
        [] \<Rightarrow> (- 1, c)
      | p # ps \<Rightarrow>
          let k = min (nat p) (min (length bs) MAX_RW_COUNT) in
          if k = 0 then (if p < 0 then - 1 else 0, c\<lparr>wplan := ps\<rparr>)
          else (int k, c\<lparr>tx := tx c @ take k bs, wplan := ps\<rparr>))"

text \<open>\<open>recvmsg\<close> and \<open>sendmsg\<close> fill and empty the pieces in their order.\<close>

definition k_recvmsg :: "int \<Rightarrow> nat list \<Rightarrow> conn \<Rightarrow> (int \<times> byte list) \<times> conn" where
  "k_recvmsg fd ns c = k_recv fd (sum_list ns) c"

definition k_sendmsg :: "int \<Rightarrow> byte list list \<Rightarrow> conn \<Rightarrow> int \<times> conn" where
  "k_sendmsg fd bss c = k_send fd (concat bss) c"

fun scatter :: "iovec list \<Rightarrow> byte list \<Rightarrow> bytearray \<Rightarrow> bytearray" where
  "scatter [] bs ba = ba"
| "scatter ((i, off, n) # v) bs ba = scatter v (drop n bs) (memcpy_to i off (take n bs) ba)"

section \<open>The stream\<close>

record SocketStream =
  m_socket :: "Socket option"
  m_owner :: bool

type_synonym sstate = "SocketStream \<times> conn"

definition SocketStream_new :: "Socket option \<Rightarrow> bool \<Rightarrow> SocketStream" where
  "SocketStream_new sock owner = \<lparr>m_socket = sock, m_owner = owner\<rparr>"

definition SocketStream_isConnected :: "SocketStream \<Rightarrow> bool" where
  "SocketStream_isConnected ss = (case m_socket ss of None \<Rightarrow> False | Some s \<Rightarrow> m_isConnected s)"

definition SocketStream_read :: "nat \<Rightarrow> (sstate, int \<times> byte list) oper" where
  "SocketStream_read n = (\<lambda>(ss, c).
     if \<not> SocketStream_isConnected ss then (Inr (- 1, []), (ss, c))
     else case Socket_recv k_recv (the (m_socket ss)) n c of (r, c') \<Rightarrow> (Inr r, (ss, c')))"

definition SocketStream_write :: "byte list \<Rightarrow> (sstate, int) oper" where
  "SocketStream_write buffer = (\<lambda>(ss, c).
     if \<not> SocketStream_isConnected ss then (Inr (- 1), (ss, c))
     else case Socket_send k_send (the (m_socket ss)) buffer c of (r, c') \<Rightarrow> (Inr r, (ss, c')))"

text \<open>
  On a \<open>ByteArray\<close>: the pieces of its memory are handed to the kernel, and the position moves over what was transferred. An operation of the array that throws
  ends the call.
\<close>

definition SocketStream_read_ba :: "nat \<Rightarrow> (sstate \<times> bytearray, int) oper" where
  "SocketStream_read_ba n = (\<lambda>((ss, c), ba).
     if \<not> SocketStream_isConnected ss then (Inr (- 1), ((ss, c), ba))
     else
       case ByteArray_getWriteBuffers [] n ba of
         (Inl e, ba1) \<Rightarrow> (Inl e, ((ss, c), ba1))
       | (Inr (_, iovs), ba1) \<Rightarrow>
           (case Socket_recv_iov k_recvmsg (the (m_socket ss)) (map (\<lambda>(i, off, l). l) iovs) c of ((rt, bs), c1) \<Rightarrow>
              let ba2 = scatter iovs bs ba1 in
              if rt > 0 then
                (case ByteArray_setPosition (ByteArray_getPosition ba2 + nat rt) ba2 of
                   (Inl e, ba3) \<Rightarrow> (Inl e, ((ss, c1), ba3))
                 | (Inr _, ba3) \<Rightarrow> (Inr rt, ((ss, c1), ba3)))
              else (Inr rt, ((ss, c1), ba2))))"

definition SocketStream_write_ba :: "nat \<Rightarrow> (sstate \<times> bytearray, int) oper" where
  "SocketStream_write_ba n = (\<lambda>((ss, c), ba).
     if \<not> SocketStream_isConnected ss then (Inr (- 1), ((ss, c), ba))
     else
       case ByteArray_getReadBuffers ba [] n of
         Inl e \<Rightarrow> (Inl e, ((ss, c), ba))
       | Inr (_, iovs) \<Rightarrow>
           (case Socket_send_iov k_sendmsg (the (m_socket ss)) (map (\<lambda>(i, off, l). memcpy_from ba i off l) iovs) c of (rt, c1) \<Rightarrow>
              if rt > 0 then
                (case ByteArray_setPosition (ByteArray_getPosition ba + nat rt) ba of
                   (Inl e, ba1) \<Rightarrow> (Inl e, ((ss, c1), ba1))
                 | (Inr _, ba1) \<Rightarrow> (Inr rt, ((ss, c1), ba1)))
              else (Inr rt, ((ss, c1), ba))))"

text \<open>Closing and the destructor act on the socket, with the state of the hooked calls.\<close>

definition SocketStream_close :: "sock_env \<Rightarrow> (SocketStream \<times> knet hstate, unit) oper" where
  "SocketStream_close env = (\<lambda>(ss, h).
     case m_socket ss of
       None \<Rightarrow> (Inr (), (ss, h))
     | Some s \<Rightarrow>
         (case Socket_close env (s, h) of
            (Inl e, (s', h')) \<Rightarrow> (Inl e, (ss\<lparr>m_socket := Some s'\<rparr>, h'))
          | (Inr _, (s', h')) \<Rightarrow> (Inr (), (ss\<lparr>m_socket := Some s'\<rparr>, h'))))"

definition SocketStream_delete :: "sock_env \<Rightarrow> (SocketStream \<times> knet hstate, unit) oper" where
  "SocketStream_delete env = (\<lambda>(ss, h). if m_owner ss \<and> m_socket ss \<noteq> None then SocketStream_close env (ss, h) else (Inr (), (ss, h)))"

definition SocketStream_getRemoteAddress :: "sock_env \<Rightarrow> (SocketStream \<times> knet hstate, Address option) oper" where
  "SocketStream_getRemoteAddress env = (\<lambda>(ss, h).
     case m_socket ss of
       None \<Rightarrow> (Inr None, (ss, h))
     | Some s \<Rightarrow>
         (case Socket_getRemoteAddress env (s, h) of
            (Inl e, (s', h')) \<Rightarrow> (Inl e, (ss\<lparr>m_socket := Some s'\<rparr>, h'))
          | (Inr a, (s', h')) \<Rightarrow> (Inr (Some a), (ss\<lparr>m_socket := Some s'\<rparr>, h'))))"

definition SocketStream_getLocalAddress :: "sock_env \<Rightarrow> (SocketStream \<times> knet hstate, Address option) oper" where
  "SocketStream_getLocalAddress env = (\<lambda>(ss, h).
     case m_socket ss of
       None \<Rightarrow> (Inr None, (ss, h))
     | Some s \<Rightarrow>
         (case Socket_getLocalAddress env (s, h) of
            (Inl e, (s', h')) \<Rightarrow> (Inl e, (ss\<lparr>m_socket := Some s'\<rparr>, h'))
          | (Inr a, (s', h')) \<Rightarrow> (Inr (Some a), (ss\<lparr>m_socket := Some s'\<rparr>, h'))))"

definition SocketStream_getRemoteAddressString :: "endian \<Rightarrow> sock_env \<Rightarrow> (SocketStream \<times> knet hstate, string) oper" where
  "SocketStream_getRemoteAddressString host env =
     andthen (SocketStream_getRemoteAddress env) (\<lambda>addr. ret (case addr of Some a \<Rightarrow> Address_toString host a | None \<Rightarrow> []))"

definition SocketStream_getLocalAddressString :: "endian \<Rightarrow> sock_env \<Rightarrow> (SocketStream \<times> knet hstate, string) oper" where
  "SocketStream_getLocalAddressString host env =
     andthen (SocketStream_getLocalAddress env) (\<lambda>addr. ret (case addr of Some a \<Rightarrow> Address_toString host a | None \<Rightarrow> []))"

section \<open>The contract of the streams\<close>

lemma c_int_count: "k \<le> MAX_RW_COUNT \<Longrightarrow> c_int (int k) = int k"
  by (simp add: MAX_RW_COUNT_def c_int_def signed_of_nat signed_take_bit_int_eq_self)

lemma c_int_small [simp]: "c_int 0 = 0" "c_int (- 1) = - 1"
  by (simp_all add: c_int_def)

text \<open>A transfer that moves bytes and one that does not, on either side.\<close>

lemma k_recv_cases:
  obtains (moved) k where "0 < k" "k \<le> n" "k \<le> length (rx c)" "k \<le> MAX_RW_COUNT"
    "k_recv fd n c = ((int k, take k (rx c)), c\<lparr>rx := drop k (rx c), rplan := tl (rplan c)\<rparr>)"
  | (stopped) r where "r = 0 \<or> r = - 1" "k_recv fd n c = ((r, []), c\<lparr>rplan := tl (rplan c)\<rparr>)"
proof (cases "rplan c")
  case Nil
  then have "c\<lparr>rplan := tl (rplan c)\<rparr> = c" by (cases c) simp
  then show thesis using stopped [of 0] Nil by (simp add: k_recv_def)
next
  case (Cons p ps)
  let ?k = "min (nat p) (min n (min (length (rx c)) MAX_RW_COUNT))"
  show thesis
  proof (cases "?k = 0")
    case True
    then have "k_recv fd n c = ((if p < 0 then - 1 else 0, []), c\<lparr>rplan := tl (rplan c)\<rparr>)"
      unfolding k_recv_def Cons Let_def list.case by (simp only: if_True simp_thms list.sel)
    then show thesis by (rule stopped [rotated]) simp
  next
    case False
    then have "k_recv fd n c = ((int ?k, take ?k (rx c)), c\<lparr>rx := drop ?k (rx c), rplan := tl (rplan c)\<rparr>)"
      unfolding k_recv_def Cons Let_def list.case by (simp only: if_False simp_thms list.sel)
    then show thesis using False by (intro moved [of ?k]) linarith+
  qed
qed

lemma k_send_cases:
  obtains (moved) k where "0 < k" "k \<le> length bs" "k \<le> MAX_RW_COUNT"
    "k_send fd bs c = (int k, c\<lparr>tx := tx c @ take k bs, wplan := tl (wplan c)\<rparr>)"
  | (stopped) r where "r = 0 \<or> r = - 1" "k_send fd bs c = (r, c\<lparr>wplan := tl (wplan c)\<rparr>)"
proof (cases "wplan c")
  case Nil
  then have "c\<lparr>wplan := tl (wplan c)\<rparr> = c" by (cases c) simp
  then show thesis using stopped [of "- 1"] Nil by (simp add: k_send_def)
next
  case (Cons p ps)
  let ?k = "min (nat p) (min (length bs) MAX_RW_COUNT)"
  show thesis
  proof (cases "?k = 0")
    case True
    then have "k_send fd bs c = (if p < 0 then - 1 else 0, c\<lparr>wplan := tl (wplan c)\<rparr>)"
      unfolding k_send_def Cons Let_def list.case by (simp only: if_True simp_thms list.sel)
    then show thesis by (rule stopped [rotated]) simp
  next
    case False
    then have "k_send fd bs c = (int ?k, c\<lparr>tx := tx c @ take ?k bs, wplan := tl (wplan c)\<rparr>)"
      unfolding k_send_def Cons Let_def list.case by (simp only: if_False simp_thms list.sel)
    then show thesis using False by (intro moved [of ?k]) linarith+
  qed
qed

interpretation sock_in: byte_source "\<lambda>_. True" "\<lambda>x. rx (snd x)" SocketStream_read
proof unfold_locales
  fix s s' :: sstate and n :: nat and len :: int and bs :: "byte list"
  obtain ss c where s: "s = (ss, c)" by (cases s)
  show "\<exists>len bs s'. SocketStream_read n s = (Inr (len, bs), s')"
    by (simp add: s SocketStream_read_def split: prod.split)
  assume r: "SocketStream_read n s = (Inr (len, bs), s')"
  show "True \<and> int (length bs) = len \<and> length bs \<le> n \<and> rx (snd s) = bs @ rx (snd s')" if "0 < len"
    using r that
    by (cases rule: k_recv_cases [of n c "m_sock (the (m_socket ss))"])
      (auto simp: s SocketStream_read_def Socket_recv_def guarded_recv_def c_int_count split: if_splits)
  show "True \<and> bs = [] \<and> rx (snd s') = rx (snd s)" if "len \<le> 0"
    using r that
    by (cases rule: k_recv_cases [of n c "m_sock (the (m_socket ss))"])
      (auto simp: s SocketStream_read_def Socket_recv_def guarded_recv_def c_int_count split: if_splits)
qed

interpretation sock_out: byte_sink "\<lambda>_. True" "\<lambda>x. tx (snd x)" SocketStream_write
proof unfold_locales
  fix s s' :: sstate and len :: int and bs :: "byte list"
  obtain ss c where s: "s = (ss, c)" by (cases s)
  show "\<exists>len s'. SocketStream_write bs s = (Inr len, s')"
    by (simp add: s SocketStream_write_def split: prod.split)
  assume r: "SocketStream_write bs s = (Inr len, s')"
  show "True \<and> nat len \<le> length bs \<and> tx (snd s') = tx (snd s) @ take (nat len) bs" if "0 < len"
    using r that
    by (cases rule: k_send_cases [of bs "m_sock (the (m_socket ss))" c])
      (auto simp: s SocketStream_write_def Socket_send_def guarded_send_def c_int_count split: if_splits)
  show "True \<and> tx (snd s') = tx (snd s)" if "len \<le> 0"
    using r that
    by (cases rule: k_send_cases [of bs "m_sock (the (m_socket ss))" c])
      (auto simp: s SocketStream_write_def Socket_send_def guarded_send_def c_int_count split: if_splits)
qed

end
