(* ===== verification/Mingo_SocketStream_Props.thy ===== *)
theory Mingo_SocketStream_Props
  imports Mingo_SocketStream
begin

text \<open>
  Transfers over a connection: the fixed-size loops move exactly the bytes they report, and a \<open>ByteArray\<close> is filled from and emptied into a
  connection through its blocks.
\<close>

section \<open>Fixed sizes\<close>


section \<open>Scattering\<close>

text \<open>The pieces lie one after the other in the flat memory, from \<open>p\<close> on.\<close>

fun contig :: "bytearray \<Rightarrow> nat \<Rightarrow> iovec list \<Rightarrow> bool" where
  "contig ba p [] \<longleftrightarrow> True"
| "contig ba p ((i, off, n) # v) \<longleftrightarrow>
     i < length (m_nodes ba) \<and> off + n \<le> m_baseSize ba \<and> m_baseSize ba * i + off = p \<and> contig ba (p + n) v"

lemma contig_append:
  "contig ba p (v @ w) \<longleftrightarrow> contig ba p v \<and> contig ba (p + sum_list (map (\<lambda>(i, off, l). l) v)) w"
  by (induction ba p v rule: contig.induct) (auto simp: add.assoc)

lemma iov_loop_contig:
  assumes "iov_loop ba (Some i) npos (m_baseSize ba - npos) n bufs = Inr v" and "at_block ba i npos"
    and "contig ba p bufs" and "p + sum_list (map (\<lambda>(i, off, l). l) bufs) = m_baseSize ba * i + npos"
  shows "contig ba p v"
  using assms
proof (induction "length (m_nodes ba) - i" arbitrary: i npos n bufs)
  case 0
  then show ?case by (simp add: at_block_def)
next
  case (Suc x)
  let ?b = "m_baseSize ba"
  note at = Suc.prems(2)
  show ?case
  proof (cases "n = 0 \<or> ?b - npos \<ge> n")
    case True
    then show ?thesis
      using Suc.prems by (subst (asm) iov_loop.simps) (auto simp: contig_append at_block_def split: if_splits)
  next
    case False
    then obtain j where j: "node_next ba i = Some j"
        "iov_loop ba (Some j) 0 (node_size ba j) (n - (?b - npos)) (bufs @ [(i, npos, ?b - npos)]) = Inr v"
      using Suc.prems(1) by (subst (asm) iov_loop.simps) (auto split: option.splits)
    then have at': "j = Suc i" "at_block ba j 0" using at by (auto simp: node_next_def at_block_def split: if_splits)
    have "contig ba p (bufs @ [(i, npos, ?b - npos)])"
      "p + sum_list (map (\<lambda>(i, off, l). l) (bufs @ [(i, npos, ?b - npos)])) = ?b * j + 0"
      using Suc.prems(3,4) at at' by (auto simp: contig_append at_block_def)
    moreover have "x = length (m_nodes ba) - j" using Suc.hyps(2) at'(1) by simp
    ultimately show ?thesis using Suc.hyps(1) [of j 0] j(2) at'(2) by simp
  qed
qed

lemma scatter_spec:
  assumes "contig ba p v" and "blocks (m_baseSize ba) (m_nodes ba)" and "length bs \<le> sum_list (map (\<lambda>(i, off, l). l) v)"
  shows "\<exists>ns. scatter v bs ba = ba\<lparr>m_nodes := ns\<rparr> \<and> concat ns = put p bs (concat (m_nodes ba))
    \<and> blocks (m_baseSize ba) ns \<and> length ns = length (m_nodes ba)"
  using assms
proof (induction v bs ba arbitrary: p rule: scatter.induct)
  case (1 bs ba)
  then show ?case by (intro exI [of _ "m_nodes ba"]) simp
next
  case (2 i off n v bs ba)
  let ?b = "m_baseSize ba" and ?ba1 = "memcpy_to i off (take n bs) ba"
  have i: "i < length (m_nodes ba)" "off + n \<le> ?b" "?b * i + off = p" "contig ba (p + n) v" using "2.prems"(1) by auto
  have n: "length (m_nodes ba ! i) = ?b" using "2.prems"(2) i(1) by simp
  have flat: "concat (m_nodes ?ba1) = put p (take n bs) (concat (m_nodes ba))"
    using block_put [OF "2.prems"(2) i(1), of off "take n bs"] i(2,3) by (simp add: memcpy_to_def)
  have bl: "blocks ?b (m_nodes ?ba1)"
    using "2.prems"(2) n i(2) by (auto simp: memcpy_to_def intro!: blocks_update length_put)
  have same: "m_baseSize ?ba1 = ?b" "length (m_nodes ?ba1) = length (m_nodes ba)" by (simp_all add: memcpy_to_def)
  have cg: "contig ?ba1 q w \<longleftrightarrow> contig ba q w" for q w
    by (induction ba q w rule: contig.induct) (auto simp: memcpy_to_def)
  have "length (drop n bs) \<le> sum_list (map (\<lambda>(i, off, l). l) v)" using "2.prems"(3) by simp
  with "2.IH" [of "p + n"] i(4) bl cg same obtain ns where
    ns: "scatter v (drop n bs) ?ba1 = ?ba1\<lparr>m_nodes := ns\<rparr>" "concat ns = put (p + n) (drop n bs) (concat (m_nodes ?ba1))"
      "blocks ?b ns" "length ns = length (m_nodes ba)"
    by auto
  have "put (p + n) (drop n bs) (put p (take n bs) (concat (m_nodes ba))) = put p bs (concat (m_nodes ba))"
  proof (cases "n \<le> length bs")
    case True
    have "?b * Suc i \<le> ?b * length (m_nodes ba)" using i(1) by (intro mult_le_mono2) simp
    then have "p \<le> length (concat (m_nodes ba))" using i "2.prems"(2) by simp
    then show ?thesis using put_put_append [of p "concat (m_nodes ba)" "take n bs" "drop n bs"] True by simp
  qed simp
  then show ?case using ns flat by (intro exI [of _ ns]) (simp add: memcpy_to_def)
qed


section \<open>Byte arrays\<close>

lemma getWriteBuffers_contig:
  assumes inv: "ba_inv ba" and fits: "write_fits n ba" and n: "0 < n"
  obtains v ba' where "ByteArray_getWriteBuffers [] n ba = (Inr (n, v), ba')" "ba_inv ba'" "ba_contents ba' = ba_contents ba"
    "m_position ba' = m_position ba" "m_size ba' = m_size ba" "m_position ba + n \<le> m_capacity ba'"
    "contig ba' (m_position ba) v" "sum_list (map (\<lambda>(i, off, l). l) v) = n"
proof -
  from addCapacity_spec [OF inv n] obtain ba1 where
    A: "ByteArray_addCapacity n ba = (Inr (), ba1)" "ba_inv ba1" "ba_contents ba1 = ba_contents ba"
      "m_position ba1 = m_position ba" "m_size ba1 = m_size ba" "m_position ba + n \<le> m_capacity ba1" "m_position ba < m_capacity ba1"
    using fits by metis
  obtain i where I: "m_cur ba1 = Some i" "at_block ba1 i (m_position ba1 mod m_baseSize ba1)"
      "m_position ba1 = m_baseSize ba1 * i + m_position ba1 mod m_baseSize ba1"
      "node_size ba1 i = m_baseSize ba1" "0 < m_baseSize ba1"
    using ba_inv_at_block [of ba1] A by metis
  obtain v where v: "iov_loop ba1 (Some i) (m_position ba1 mod m_baseSize ba1)
        (m_baseSize ba1 - m_position ba1 mod m_baseSize ba1) n [] = Inr v" "sum_list (map (\<lambda>(i, off, l). l) v) = n"
    using iov_loop_spec [OF I(2) n] I(3) A(4,6) by auto
  have "contig ba1 (m_position ba) v"
    using iov_loop_contig [OF v(1) I(2), of "m_position ba"] I(3) A(4) by simp
  then show thesis
    using v A(2-6) n I(5) by (intro that [of v ba1]) (simp_all add: ByteArray_getWriteBuffers_def A(1) I(1,4) Let_def)
qed

text \<open>Filling the memory behind the position and moving the position over it.\<close>

lemma scatter_advance:
  assumes inv: "ba_inv ba" and cg: "contig ba (m_position ba) v" and len: "length bs \<le> sum_list (map (\<lambda>(i, off, l). l) v)"
    and cap: "m_position ba + length bs \<le> m_capacity ba" and bs: "bs \<noteq> []"
  obtains ba' where "ByteArray_setPosition (ByteArray_getPosition (scatter v bs ba) + length bs) (scatter v bs ba) = (Inr (), ba')"
    "ba_inv ba'" "ba_contents ba' = put (m_position ba) bs (ba_contents ba)" "m_position ba' = m_position ba + length bs"
proof -
  have bl: "blocks (m_baseSize ba) (m_nodes ba)" using inv by (simp add: ba_inv_def)
  obtain ns where ns: "scatter v bs ba = ba\<lparr>m_nodes := ns\<rparr>" "concat ns = put (m_position ba) bs (concat (m_nodes ba))"
      "blocks (m_baseSize ba) ns" "length ns = length (m_nodes ba)"
    using scatter_spec [OF cg bl len] by blast
  let ?ba = "ba\<lparr>m_nodes := ns\<rparr>"
  let ?v = "m_position ba + length bs"
  have inv': "ba_inv ?ba"
    using inv ns(3,4) by (auto simp: ba_inv_def cursor_at_def)
  have "?v \<le> m_capacity ?ba" using cap by simp
  from setPosition_refines [OF inv' this] setPosition_inv [OF inv' this]
  have s: "ByteArray_setPosition ?v ?ba = (Inr (), ?ba\<lparr>m_position := ?v, m_size := max (m_size ba) ?v, m_cur := cursor_at ?ba ?v\<rparr>)"
    "ba_inv (?ba\<lparr>m_position := ?v, m_size := max (m_size ba) ?v, m_cur := cursor_at ?ba ?v\<rparr>)"
    by simp_all
  have sizes: "m_position ba \<le> m_size ba" "m_size ba \<le> length (concat (m_nodes ba))" "?v \<le> length (concat (m_nodes ba))"
    using inv cap by (auto simp: ba_inv_def)
  have "take (max (m_size ba) ?v) (put (m_position ba) bs (concat (m_nodes ba))) = put (m_position ba) bs (take (m_size ba) (concat (m_nodes ba)))"
    by (rule put_take [OF sizes])
  then show thesis
    using that [of "?ba\<lparr>m_position := ?v, m_size := max (m_size ba) ?v, m_cur := cursor_at ?ba ?v\<rparr>"] s ns(1,2)
    by (simp add: ba_contents_def ByteArray_getPosition_def)
qed

lemma read_ba_spec:
  assumes conn: "SocketStream_isConnected ss" and inv: "ba_inv ba" and fits: "write_fits n ba" and n: "0 < n"
  shows "\<exists>r c' ba'. SocketStream_read_ba n ((ss, c), ba) = (Inr r, ((ss, c'), ba')) \<and> nat r \<le> n
    \<and> nat r \<le> length (rx c) \<and> rx c' = drop (nat r) (rx c) \<and> ba_inv ba'
    \<and> ba_contents ba' = put (m_position ba) (take (nat r) (rx c)) (ba_contents ba) \<and> m_position ba' = m_position ba + nat r"
proof -
  obtain v ba1 where B: "ByteArray_getWriteBuffers [] n ba = (Inr (n, v), ba1)" "ba_inv ba1" "ba_contents ba1 = ba_contents ba"
      "m_position ba1 = m_position ba" "m_position ba + n \<le> m_capacity ba1" "contig ba1 (m_position ba) v"
      "sum_list (map (\<lambda>(i, off, l). l) v) = n"
    using getWriteBuffers_contig [OF inv fits n] by metis
  obtain s where s: "m_socket ss = Some s" "m_isConnected s"
    using conn by (auto simp: SocketStream_isConnected_def split: option.splits)
  have cg: "contig ba1 (m_position ba1) v" using B by simp
  show ?thesis
  proof (cases rule: k_recv_cases [of n c "m_sock s"])
    case (moved k)
    have len: "length (take k (rx c)) = k" "take k (rx c) \<noteq> []" using moved by auto
    obtain ba2 where S: "ByteArray_setPosition (ByteArray_getPosition (scatter v (take k (rx c)) ba1) + k) (scatter v (take k (rx c)) ba1) = (Inr (), ba2)"
        "ba_inv ba2" "ba_contents ba2 = put (m_position ba) (take k (rx c)) (ba_contents ba)" "m_position ba2 = m_position ba + k"
      using scatter_advance [OF B(2) cg, of "take k (rx c)"] len moved(2) B(3,4,5,7) by auto
    then have "SocketStream_read_ba n ((ss, c), ba) = (Inr (int k), ((ss, c\<lparr>rx := drop k (rx c), rplan := tl (rplan c)\<rparr>), ba2))"
      using conn s B(1,7) moved
      by (simp add: SocketStream_read_ba_def Socket_recv_iov_def guarded_recv_def k_recvmsg_def c_int_count)
    then show ?thesis using S moved by auto
  next
    case (stopped r)
    have "scatter v [] ba1 = ba1" for v
      by (induction v "[] :: byte list" ba1 rule: scatter.induct) (auto simp: memcpy_to_def)
    then have "SocketStream_read_ba n ((ss, c), ba) = (Inr r, ((ss, c\<lparr>rplan := tl (rplan c)\<rparr>), ba1))"
      using conn s B(1,7) stopped
      by (auto simp: SocketStream_read_ba_def Socket_recv_iov_def guarded_recv_def k_recvmsg_def)
    then show ?thesis using B stopped(1) by auto
  qed
qed

lemma write_ba_spec:
  assumes conn: "SocketStream_isConnected ss" and inv: "ba_inv ba"
  shows "\<exists>r c' ba'. SocketStream_write_ba n ((ss, c), ba) = (Inr r, ((ss, c'), ba')) \<and> nat r \<le> n
    \<and> nat r \<le> length (ba_rest ba) \<and> tx c' = tx c @ take (nat r) (ba_rest ba) \<and> ba_inv ba'
    \<and> ba_contents ba' = ba_contents ba \<and> m_position ba' = m_position ba + nat r"
proof -
  obtain v where v: "ByteArray_getReadBuffers ba [] n = Inr (min n (length (ba_rest ba)), v)"
      "concat (map (\<lambda>(i, off, n). memcpy_from ba i off n) v) = take n (ba_rest ba)"
    using getReadBuffers_rest [OF inv, of n] by (auto simp: iov_bytes_def)
  obtain s where s: "m_socket ss = Some s" "m_isConnected s"
    using conn by (auto simp: SocketStream_isConnected_def split: option.splits)
  show ?thesis
  proof (cases rule: k_send_cases [of "take n (ba_rest ba)" "m_sock s" c])
    case (moved k)
    let ?v = "m_position ba + k"
    let ?ba = "ba\<lparr>m_position := ?v, m_size := max (m_size ba) ?v, m_cur := cursor_at ba ?v\<rparr>"
    have k: "k \<le> n" "k \<le> length (ba_rest ba)" using moved(2) by simp_all
    then have "?v \<le> m_size ba" using moved(1) length_ba_rest [OF inv] by (simp add: ByteArray_getReadSize_def)
    then have le: "?v \<le> m_capacity ba" "max (m_size ba) ?v = m_size ba" using inv by (auto simp: ba_inv_def)
    have "SocketStream_write_ba n ((ss, c), ba) =
        (Inr (int k), ((ss, c\<lparr>tx := tx c @ take k (take n (ba_rest ba)), wplan := tl (wplan c)\<rparr>), ?ba))"
      using conn s v moved setPosition_refines [OF inv le(1)]
      by (simp add: SocketStream_write_ba_def Socket_send_iov_def guarded_send_def k_sendmsg_def c_int_count ByteArray_getPosition_def)
    moreover have "ba_contents ?ba = ba_contents ba" using le(2) by (simp add: ba_contents_def)
    ultimately show ?thesis using setPosition_inv [OF inv le(1)] k by auto
  next
    case (stopped r)
    then have "SocketStream_write_ba n ((ss, c), ba) = (Inr r, ((ss, c\<lparr>wplan := tl (wplan c)\<rparr>), ba))"
      using conn s v
      by (auto simp: SocketStream_write_ba_def Socket_send_iov_def guarded_send_def k_sendmsg_def)
    then show ?thesis using inv stopped(1) by auto
  qed
qed

text \<open>
  A \<open>ByteArray\<close> exchanged with a connected socket. Reading at most n bytes into an array with room for them returns some r; the first r bytes of the incoming stream are then in the
  array at the old position, across its blocks, the position has moved over them and nothing else of the contents has changed. Writing at most n bytes sends the first r readable
  bytes, in order, and moves the position over them without changing the contents. The representation invariant of the array holds afterwards, and neither call throws.
\<close>

theorem socketstream_bytearray_transfer:
  assumes "SocketStream_isConnected ss" and "ba_inv ba"
  shows "(0 < n \<and> write_fits n ba \<longrightarrow>
      (\<exists>r c' ba'. SocketStream_read_ba n ((ss, c), ba) = (Inr r, ((ss, c'), ba')) \<and> nat r \<le> n
        \<and> nat r \<le> length (rx c) \<and> rx c' = drop (nat r) (rx c) \<and> ba_inv ba'
        \<and> ba_contents ba' = put (m_position ba) (take (nat r) (rx c)) (ba_contents ba) \<and> m_position ba' = m_position ba + nat r))
    \<and> (\<exists>r c' ba'. SocketStream_write_ba n ((ss, c), ba) = (Inr r, ((ss, c'), ba')) \<and> nat r \<le> n
        \<and> nat r \<le> length (ba_rest ba) \<and> tx c' = tx c @ take (nat r) (ba_rest ba) \<and> ba_inv ba'
        \<and> ba_contents ba' = ba_contents ba \<and> m_position ba' = m_position ba + nat r)"
  using read_ba_spec [OF assms] write_ba_spec [OF assms] by blast

section \<open>Witnesses\<close>

text \<open>A connected stream whose peer has sent five bytes, delivered in pieces of two and three; blocks of two bytes.\<close>

definition stream_demo :: SocketStream where
  "stream_demo = SocketStream_new (Some (Socket_CreateTCPSocket\<lparr>m_sock := 5, m_isConnected := True\<rparr>)) True"

definition conn_demo :: conn where
  "conn_demo = \<lparr>rx = [1, 2, 3, 4, 5], rplan = [2, 9], tx = [], wplan = [1, 9]\<rparr>"

lemmas stream_eval =
  Stream_readFixSize_def Stream_writeFixSize_def fix_size_def to_int_id fix_loop.simps read_into_def andthen_def SocketStream_read_def
  SocketStream_write_def SocketStream_isConnected_def stream_demo_def SocketStream_new_def Socket_recv_def Socket_send_def guarded_recv_def
  guarded_send_def k_recv_def k_send_def MAX_RW_COUNT_def conn_demo_def c_int_def Let_def put_def


theorem socketstream_bytearray_transfer_witness:
  "(\<exists>c' ba'. SocketStream_read_ba 4 ((stream_demo, conn_demo), ByteArray_new (\<lambda>_ _. 0) 8) = (Inr 2, ((stream_demo, c'), ba'))
      \<and> ba_contents ba' = [1, 2] \<and> rx c' = [3, 4, 5] \<and> m_position ba' = 2)
   \<and> (\<exists>r c' ba'. SocketStream_write_ba 4 ((stream_demo, conn_demo), ByteArray_new (\<lambda>_ _. 0) 8) = (Inr r, ((stream_demo, c'), ba')) \<and> tx c' = [])"
proof -
  let ?ba = "ByteArray_new (\<lambda>_ _. 0) 8"
  have con: "SocketStream_isConnected stream_demo" by (simp add: stream_eval)
  have inv: "ba_inv ?ba" by (rule ByteArray_new_inv) simp
  have fits: "write_fits 4 ?ba" by (simp add: write_fits_def ByteArray_getCapacity_def ByteArray_new_def)
  have e: "ba_contents ?ba = []" "m_position ?ba = 0" "ba_rest ?ba = []" by (simp_all add: ba_contents_def ba_rest_def ByteArray_new_def)
  have r: "fst (SocketStream_read_ba 4 ((stream_demo, conn_demo), ?ba)) = Inr 2"
    by (simp add: stream_eval SocketStream_read_ba_def ByteArray_getWriteBuffers_def ByteArray_new_def ByteArray_addCapacity_def
        ByteArray_getCapacity_def ByteArray_getPosition_def Socket_recv_iov_def k_recvmsg_def iov_loop.simps node_size_def
        Node_new_def memcpy_to_def ByteArray_setPosition_def seek_loop.simps Socket_CreateTCPSocket_def Socket_new_def)
  have d: "rx conn_demo = [1, 2, 3, 4, 5]" "tx conn_demo = []" by (simp_all add: conn_demo_def)
  show ?thesis
    using socketstream_bytearray_transfer [OF con inv, where n = 4 and c = conn_demo] fits r e d by (auto simp: put_def)
qed

end
