(* ===== verification/Mingo_Ragel.thy ===== *)
theory Mingo_Ragel
  imports Mingo_Text
begin

text \<open>
  The code that ragel generates from a grammar (\<^verbatim>\<open>mingo/uri.cpp\<close>, \<^verbatim>\<open>mingo/http/http11_parser.rl.cpp\<close>,
  \<^verbatim>\<open>mingo/http/httpclient_parser.rl.cpp\<close>) is one \<open>switch\<close> on the state. The block of a state compares the current character with
  constants and jumps to a label: \<open>st\<close>n enters a state, \<open>tr\<close>n runs actions first. A table keeps
  for each block the ranges of characters with their jumps (\<open>st0\<close>, the error state, where there is none), and for each label \<open>tr\<close>n the actions and the state
  entered. The blocks of one run of lines of the file, in the order of the file, are one part of the table. Characters are signed; some blocks first widen a few
  characters by a condition, which is \<open>_widec\<close> in the code.
\<close>

section \<open>Tables\<close>

datatype jump = St int | Tr int

type_synonym block = "int list \<times> (int \<times> int \<times> jump) list"
type_synonym 'a part = "(int \<times> block) list \<times> (int \<times> 'a list \<times> int) list"

definition blocks_of :: "'a part list \<Rightarrow> (int \<times> block) list" where
  "blocks_of ps = concat (map fst ps)"

definition labels_of :: "'a part list \<Rightarrow> (int \<times> 'a list \<times> int) list" where
  "labels_of ps = concat (map snd ps)"

text \<open>Looking up a number in the parts, one after the other.\<close>

fun find_block :: "'a part list \<Rightarrow> int \<Rightarrow> block option" where
  "find_block [] s = None"
| "find_block (p # ps) s = (case map_of (fst p) s of Some b \<Rightarrow> Some b | None \<Rightarrow> find_block ps s)"

fun find_label :: "'a part list \<Rightarrow> int \<Rightarrow> ('a list \<times> int) option" where
  "find_label [] t = None"
| "find_label (p # ps) t = (case map_of (snd p) t of Some l \<Rightarrow> Some l | None \<Rightarrow> find_label ps t)"

lemma find_block_map_of: "find_block ps s = map_of (blocks_of ps) s"
  by (induction ps) (auto simp: blocks_of_def map_add_def split: option.splits)

lemma find_label_map_of: "find_label ps t = map_of (labels_of ps) t"
  by (induction ps) (auto simp: labels_of_def map_add_def split: option.splits)

section \<open>Running\<close>

text \<open>The character of a byte, and \<open>_widec\<close>: the condition adds another 256.\<close>

definition c_char :: "byte \<Rightarrow> int" where
  "c_char b = sint b"

definition widec :: "bool \<Rightarrow> int list \<Rightarrow> int \<Rightarrow> int" where
  "widec cond ws c = (if List.member ws c then 128 + (c + 128) + (if cond then 256 else 0) else c)"

fun jump_on :: "(int \<times> int \<times> jump) list \<Rightarrow> int \<Rightarrow> jump" where
  "jump_on [] c = St 0"
| "jump_on ((lo, hi, j) # rs) c = (if lo \<le> c \<and> c \<le> hi then j else jump_on rs c)"

text \<open>
  One character in a state: the actions to run and the state entered. \<open>None\<close> is the jump to \<open>st0\<close>.
\<close>

definition edge :: "'a part list \<Rightarrow> bool \<Rightarrow> block \<Rightarrow> int \<Rightarrow> ('a list \<times> int) option" where
  "edge ps cond b c =
     (case jump_on (snd b) (widec cond (fst b) c) of
        St s \<Rightarrow> if s = 0 then None else Some ([], s)
      | Tr t \<Rightarrow> find_label ps t)"

text \<open>
  The machine from a state \<open>cs\<close> at the position \<open>p\<close>, before the characters \<open>bs\<close>. An action works on some data and gets the position. An action that
  breaks leaves the machine behind the character. At the end of the input the position is the end; a state without a block leaves
  the \<open>switch\<close> where it stands; the error state leaves it before the character that it does not accept.
\<close>

fun machine :: "'a part list \<Rightarrow> bool \<Rightarrow> ('a \<Rightarrow> nat \<Rightarrow> 'x \<Rightarrow> 'x) \<Rightarrow> ('a \<Rightarrow> bool) \<Rightarrow> 'x \<Rightarrow> int \<Rightarrow> nat \<Rightarrow> byte list \<Rightarrow> 'x \<times> int \<times> nat" where
  "machine ps cond act brk x cs p [] = (x, cs, p)"
| "machine ps cond act brk x cs p (c # bs) =
     (case find_block ps cs of
        None \<Rightarrow> (x, cs, p)
      | Some b \<Rightarrow>
          (case edge ps cond b (c_char c) of
             None \<Rightarrow> (x, 0, p)
           | Some (as, s) \<Rightarrow>
               (let x' = fold (\<lambda>a. act a p) as x in
                if list_ex brk as then (x', s, Suc p)
                else machine ps cond act brk x' s (Suc p) bs)))"

section \<open>Following a run\<close>

definition go :: "'a part list \<Rightarrow> bool \<Rightarrow> int \<Rightarrow> int \<Rightarrow> ('a list \<times> int) option" where
  "go ps cond s c = (case find_block ps s of None \<Rightarrow> None | Some b \<Rightarrow> edge ps cond b c)"

lemma machine_step:
  assumes "go ps cond cs (c_char c) = Some (as, s)"
  shows "machine ps cond act brk x cs p (c # bs) =
    (let x' = fold (\<lambda>a. act a p) as x in if list_ex brk as then (x', s, Suc p) else machine ps cond act brk x' s (Suc p) bs)"
  using assms by (auto simp: go_def split: option.splits)

lemma machine_stop:
  assumes "go ps cond cs (c_char c) = None" and "find_block ps cs \<noteq> None"
  shows "machine ps cond act brk x cs p (c # bs) = (x, 0, p)"
  using assms by (auto simp: go_def)

lemma machine_loop:
  assumes "\<forall>c \<in> set w. go ps cond cs (c_char c) = Some ([], cs)"
  shows "machine ps cond act brk x cs p (w @ bs) = machine ps cond act brk x cs (p + length w) bs"
  using assms by (induction w arbitrary: p) (simp_all add: machine_step del: machine.simps)

section \<open>Invariants of a run\<close>

text \<open>
  What a table check needs: a predicate on the characters read so far, the data and the state that every edge keeps. Then it holds wherever the machine stops, with the characters up to
  that place; in the error state it holds of the state before.
\<close>

locale machine_invariant =
  fixes ps :: "'a part list" and cond :: bool and act :: "'a \<Rightarrow> nat \<Rightarrow> 'x \<Rightarrow> 'x" and brk :: "'a \<Rightarrow> bool"
    and inp :: "byte list" and I :: "byte list \<Rightarrow> 'x \<Rightarrow> int \<Rightarrow> bool"
  assumes step: "I w x cs \<Longrightarrow> prefix (w @ [c]) inp \<Longrightarrow> find_block ps cs = Some b \<Longrightarrow>
    edge ps cond b (c_char c) = Some (as, s) \<Longrightarrow> I (w @ [c]) (fold (\<lambda>a. act a (length w)) as x) s"
begin

lemma machine_keeps:
  assumes "I w x cs" and "inp = w @ bs" and "machine ps cond act brk x cs (length w) bs = (x', cs', p')"
  shows "\<exists>v cs0. prefix v inp \<and> length v = p' \<and> length w \<le> p' \<and> I v x' cs0 \<and> (cs' = cs0 \<or> cs' = 0 \<and> p' < length inp)"
  using assms
proof (induction bs arbitrary: w x cs)
  case Nil
  then show ?case by (auto intro!: exI [of _ w])
next
  case (Cons c bs)
  show ?case
  proof (cases "find_block ps cs")
    case None
    then show ?thesis using Cons.prems by (auto intro!: exI [of _ w])
  next
    case (Some b)
    show ?thesis
    proof (cases "edge ps cond b (c_char c)")
      case None
      then show ?thesis using Cons.prems Some by (auto intro!: exI [of _ w] exI [of _ cs])
    next
      case e: (Some as_s)
      obtain as s where as: "as_s = (as, s)" by (cases as_s)
      let ?x = "fold (\<lambda>a. act a (length w)) as x"
      have "prefix (w @ [c]) inp" using Cons.prems(2) by simp
      from step [OF Cons.prems(1) this Some] e as have I: "I (w @ [c]) ?x s" by simp
      show ?thesis
      proof (cases "list_ex brk as")
        case True
        then show ?thesis using Cons.prems(2,3) Some e as I by (auto intro!: exI [of _ "w @ [c]"])
      next
        case False
        have "machine ps cond act brk ?x s (length (w @ [c])) bs = (x', cs', p')"
          using Cons.prems(3) Some e as False by (simp add: Let_def)
        from Cons.IH [OF I _ this] Cons.prems(2) show ?thesis by fastforce
      qed
    qed
  qed
qed

end

text \<open>Ranges of state numbers, as sets that a check evaluates.\<close>

fun in_ranges :: "(int \<times> int) list \<Rightarrow> int \<Rightarrow> bool" where
  "in_ranges [] s \<longleftrightarrow> False"
| "in_ranges ((lo, hi) # rs) s \<longleftrightarrow> lo \<le> s \<and> s \<le> hi \<or> in_ranges rs s"

text \<open>An edge comes from an entry of the block: its range holds the character, its jump gives the actions and the state.\<close>

definition entry_target :: "(int \<times> 'a list \<times> int) list \<Rightarrow> jump \<Rightarrow> ('a list \<times> int) option" where
  "entry_target labels j = (case j of St s \<Rightarrow> if s = 0 then None else Some ([], s) | Tr t \<Rightarrow> map_of labels t)"

lemma jump_on_entry: "jump_on rs c = St 0 \<or> (\<exists>lo hi. (lo, hi, jump_on rs c) \<in> set rs \<and> lo \<le> c \<and> c \<le> hi)"
  by (induction rs c rule: jump_on.induct) auto

lemma edge_entry:
  assumes "edge ps cond (ws, rs) c = Some (as, s)"
  obtains lo hi j where "(lo, hi, j) \<in> set rs" "lo \<le> widec cond ws c" "widec cond ws c \<le> hi" "entry_target (labels_of ps) j = Some (as, s)"
  using assms jump_on_entry [of rs "widec cond ws c"]
  by (auto simp: edge_def entry_target_def find_label_map_of split: jump.splits if_splits)

lemma find_block_mem: "find_block ps s = Some b \<Longrightarrow> (s, b) \<in> set (blocks_of ps)"
  by (simp add: find_block_map_of map_of_SomeD)

text \<open>A condition on every entry of every block, checked over the lists of blocks and labels.\<close>

definition all_entries ::
    "(int \<Rightarrow> int \<Rightarrow> int \<Rightarrow> 'a list \<Rightarrow> int \<Rightarrow> bool) \<Rightarrow> (int \<times> 'a list \<times> int) list \<Rightarrow> (int \<times> block) list \<Rightarrow> bool" where
  "all_entries P labels bs \<longleftrightarrow>
     list_all (\<lambda>(cs, ws, rs). list_all (\<lambda>(lo, hi, j). case entry_target labels j of None \<Rightarrow> True | Some (as, s) \<Rightarrow> P cs lo hi as s) rs) bs"

lemma all_entries_parts: "all_entries P labels (blocks_of ps) \<longleftrightarrow> list_all (\<lambda>p. all_entries P labels (fst p)) ps"
  by (induction ps) (auto simp: all_entries_def blocks_of_def)

lemma all_entries_edge:
  assumes "all_entries P (labels_of ps) (blocks_of ps)" and "find_block ps cs = Some (ws, rs)" and "edge ps cond (ws, rs) c = Some (as, s)"
  obtains lo hi where "lo \<le> widec cond ws c" "widec cond ws c \<le> hi" "P cs lo hi as s"
proof -
  obtain lo hi j where e: "(lo, hi, j) \<in> set rs" "lo \<le> widec cond ws c" "widec cond ws c \<le> hi" "entry_target (labels_of ps) j = Some (as, s)"
    using edge_entry [OF assms(3)] by blast
  then have "P cs lo hi as s"
    using assms(1) find_block_mem [OF assms(2)] by (fastforce simp: all_entries_def list_all_iff)
  with e show thesis by (intro that)
qed

section \<open>Classes of characters\<close>

text \<open>A class of characters that a block sends to one jump, checked character by character.\<close>

definition class_jumps :: "block \<Rightarrow> (int \<times> int) list \<Rightarrow> jump \<Rightarrow> bool" where
  "class_jumps b R j \<longleftrightarrow> list_all (\<lambda>(lo, hi). list_all (\<lambda>c. \<not> List.member (fst b) c \<and> jump_on (snd b) c = j) [lo..hi]) R"

lemma class_jumpsD: "class_jumps b R j \<Longrightarrow> in_ranges R c \<Longrightarrow> \<not> List.member (fst b) c \<and> jump_on (snd b) c = j"
  by (induction R c rule: in_ranges.induct) (auto simp: class_jumps_def list_all_iff)

definition sends :: "'a part list \<Rightarrow> bool \<Rightarrow> int \<Rightarrow> (int \<times> int) list \<Rightarrow> 'a list \<Rightarrow> int \<Rightarrow> bool" where
  "sends ps cond cs R as cs' \<longleftrightarrow> (\<forall>c. in_ranges R c \<longrightarrow> go ps cond cs c = Some (as, cs'))"

lemma sendsI:
  assumes "find_block ps cs = Some b" and "class_jumps b R j" and "entry_target (labels_of ps) j = Some (as, cs')"
  shows "sends ps cond cs R as cs'"
  using assms class_jumpsD [OF assms(2)]
  by (cases b) (auto simp: sends_def go_def edge_def widec_def entry_target_def find_label_map_of split: jump.splits if_splits)

text \<open>The machine at a position of a text.\<close>

abbreviation code :: "char \<Rightarrow> int" where "code c \<equiv> c_char (byte_of_char c)"

definition run_at :: "'a part list \<Rightarrow> bool \<Rightarrow> ('a \<Rightarrow> nat \<Rightarrow> 'x \<Rightarrow> 'x) \<Rightarrow> ('a \<Rightarrow> bool) \<Rightarrow> string \<Rightarrow> 'x \<Rightarrow> int \<Rightarrow> nat \<Rightarrow> 'x \<times> int \<times> nat" where
  "run_at ps cond act brk s x cs p = machine ps cond act brk x cs p (to_bytes (drop p s))"

lemma run_end: "run_at ps cond act brk s x cs (length s) = (x, cs, length s)"
  by (simp add: run_at_def)

lemma run_step:
  assumes "s = pre @ c # post" and "sends ps cond cs R as cs'" and "in_ranges R (code c)" and "\<not> list_ex brk as"
  shows "run_at ps cond act brk s x cs (length pre) =
    run_at ps cond act brk s (fold (\<lambda>a. act a (length pre)) as x) cs' (Suc (length pre))"
proof -
  have "go ps cond cs (code c) = Some (as, cs')" using assms(2,3) by (simp add: sends_def)
  then show ?thesis using assms(1,4) by (simp add: run_at_def machine_step del: machine.simps)
qed

lemma run_break:
  assumes "s = pre @ c # post" and "sends ps cond cs R as cs'" and "in_ranges R (code c)" and "list_ex brk as"
  shows "run_at ps cond act brk s x cs (length pre) = (fold (\<lambda>a. act a (length pre)) as x, cs', Suc (length pre))"
proof -
  have "go ps cond cs (code c) = Some (as, cs')" using assms(2,3) by (simp add: sends_def)
  then show ?thesis using assms(1,4) by (simp add: run_at_def machine_step del: machine.simps)
qed

lemma run_loop:
  assumes "s = pre @ w @ post" and "sends ps cond cs R [] cs" and "\<forall>c \<in> set w. in_ranges R (code c)"
  shows "run_at ps cond act brk s x cs (length pre) = run_at ps cond act brk s x cs (length (pre @ w))"
proof -
  have "\<forall>c \<in> set (to_bytes w). go ps cond cs (c_char c) = Some ([], cs)" using assms(2,3) by (auto simp: sends_def)
  from machine_loop [OF this] show ?thesis using assms(1) by (simp add: run_at_def)
qed

text \<open>A word: a first character of one class, then characters of another.\<close>

definition word_of :: "(int \<times> int) list \<Rightarrow> (int \<times> int) list \<Rightarrow> string \<Rightarrow> bool" where
  "word_of R1 R w \<longleftrightarrow> w \<noteq> [] \<and> in_ranges R1 (code (hd w)) \<and> list_all (\<lambda>c. in_ranges R (code c)) (tl w)"

lemma run_word:
  assumes s: "s = pre @ w @ post" and w: "word_of R1 R w" and e: "sends ps cond cs R1 as cs'" "sends ps cond cs' R [] cs'" and b: "\<not> list_ex brk as"
  shows "run_at ps cond act brk s x cs (length pre) = run_at ps cond act brk s (fold (\<lambda>a. act a (length pre)) as x) cs' (length (pre @ w))"
proof -
  obtain c w' where c: "w = c # w'" "in_ranges R1 (code c)" "\<forall>c \<in> set w'. in_ranges R (code c)"
    using w by (cases w) (auto simp: word_of_def list_all_iff)
  have "run_at ps cond act brk s x cs (length pre) = run_at ps cond act brk s (fold (\<lambda>a. act a (length pre)) as x) cs' (length (pre @ [c]))"
    using run_step [OF _ e(1) c(2) b, of s pre "w' @ post"] s c(1) by simp
  also have "\<dots> = run_at ps cond act brk s (fold (\<lambda>a. act a (length pre)) as x) cs' (length (pre @ w))"
    using run_loop [OF _ e(2) c(3), of s "pre @ [c]" post] s c(1) by simp
  finally show ?thesis .
qed

lemma code_ascii: "of_char c < (128 :: nat) \<Longrightarrow> code c = int (of_char c)"
  by (simp add: c_char_def byte_of_char_def signed_of_nat signed_take_bit_int_eq_self)

end
