(* ===== verification/Mingo_Uri.thy ===== *)
theory Mingo_Uri
  imports Mingo_Uri_Table Mingo_Address
begin

text \<open>
  \<^verbatim>\<open>mingo/uri.h\<close> and \<^verbatim>\<open>mingo/uri.cpp\<close>: a URI, its creation from a text by the generated automaton with the actions of
  \<^verbatim>\<open>uri.rl\<close>, and its text. \<open>mark\<close> is a position in the text or null; a string made from the null pointer throws
  \<open>std::logic_error\<close>, after which nothing more happens.
\<close>

section \<open>The object\<close>

record Uri =
  uri_scheme :: string
  uri_userinfo :: string
  uri_host :: string
  uri_path :: string
  uri_query :: string
  uri_fragment :: string
  uri_port :: int

definition Uri_new :: Uri where
  "Uri_new = \<lparr>uri_scheme = [], uri_userinfo = [], uri_host = [], uri_path = [], uri_query = [], uri_fragment = [], uri_port = 0\<rparr>"

definition Uri_setScheme :: "string \<Rightarrow> Uri \<Rightarrow> Uri" where "Uri_setScheme v u = u\<lparr>uri_scheme := v\<rparr>"
definition Uri_setUserinfo :: "string \<Rightarrow> Uri \<Rightarrow> Uri" where "Uri_setUserinfo v u = u\<lparr>uri_userinfo := v\<rparr>"
definition Uri_setHost :: "string \<Rightarrow> Uri \<Rightarrow> Uri" where "Uri_setHost v u = u\<lparr>uri_host := v\<rparr>"
definition Uri_setPath :: "string \<Rightarrow> Uri \<Rightarrow> Uri" where "Uri_setPath v u = u\<lparr>uri_path := v\<rparr>"
definition Uri_setQuery :: "string \<Rightarrow> Uri \<Rightarrow> Uri" where "Uri_setQuery v u = u\<lparr>uri_query := v\<rparr>"
definition Uri_setFragment :: "string \<Rightarrow> Uri \<Rightarrow> Uri" where "Uri_setFragment v u = u\<lparr>uri_fragment := v\<rparr>"
definition Uri_setPort :: "int \<Rightarrow> Uri \<Rightarrow> Uri" where "Uri_setPort v u = u\<lparr>uri_port := v\<rparr>"

definition Uri_isDefaultPort :: "Uri \<Rightarrow> bool" where
  "Uri_isDefaultPort u =
     (if uri_port u = 0 then True
      else if uri_scheme u = ''http'' \<or> uri_scheme u = ''ws'' then uri_port u = 80
      else if uri_scheme u = ''https'' \<or> uri_scheme u = ''wss'' then uri_port u = 443
      else False)"

definition Uri_getPath :: "Uri \<Rightarrow> string" where
  "Uri_getPath u = (if uri_path u = [] then ''/'' else uri_path u)"

definition Uri_getPort :: "Uri \<Rightarrow> int" where
  "Uri_getPort u =
     (if uri_port u \<noteq> 0 then uri_port u
      else if uri_scheme u = ''http'' \<or> uri_scheme u = ''ws'' then 80
      else if uri_scheme u = ''https'' \<or> uri_scheme u = ''wss'' then 443
      else uri_port u)"

definition Uri_toString :: "Uri \<Rightarrow> string" where
  "Uri_toString u =
     uri_scheme u @ ''://''
     @ uri_userinfo u
     @ (if uri_userinfo u = [] then [] else ''@'')
     @ uri_host u
     @ (if Uri_isDefaultPort u then [] else '':'' @ dec_int (uri_port u))
     @ Uri_getPath u
     @ (if uri_query u = [] then [] else ''?'')
     @ uri_query u
     @ (if uri_fragment u = [] then [] else ''#'')
     @ uri_fragment u"

text \<open>The port is converted to \<open>uint16_t\<close> by \<open>setPort\<close>.\<close>

definition Uri_createAddress :: "endian \<Rightarrow> (string \<Rightarrow> string option \<Rightarrow> sys_addr list option) \<Rightarrow> Uri \<Rightarrow> Address option" where
  "Uri_createAddress host getaddrinfo u =
     map_option (Address_setPort host (word_of_int (Uri_getPort u))) (Address_LookupAnyIPAddress getaddrinfo (uri_host u))"

section \<open>Creation\<close>

type_synonym uri_state = "(Uri \<times> nat option) res"

text \<open>A string from \<open>mark\<close> to the position, given to a setter.\<close>

definition save :: "string \<Rightarrow> (string \<Rightarrow> Uri \<Rightarrow> Uri) \<Rightarrow> nat \<Rightarrow> Uri \<Rightarrow> nat option \<Rightarrow> nat option \<Rightarrow> uri_state" where
  "save text setter p u mark mark' =
     (case mark of None \<Rightarrow> Inl LogicError | Some m \<Rightarrow> Inr (setter (take (p - m) (drop m text)) u, mark'))"

fun uri_do :: "string \<Rightarrow> uri_action \<Rightarrow> nat \<Rightarrow> Uri \<times> nat option \<Rightarrow> uri_state" where
  "uri_do text Uri_marku p (u, mark) = Inr (u, Some p)"
| "uri_do text Uri_markh p (u, mark) = Inr (u, Some p)"
| "uri_do text Uri_save_scheme p (u, mark) = save text Uri_setScheme p u mark None"
| "uri_do text Uri_save_port p (u, mark) =
     (if mark = Some p then Inr (u, None)
      else case mark of None \<Rightarrow> Inl NullDeref | Some m \<Rightarrow> Inr (Uri_setPort (atoi (drop m text)) u, None))"
| "uri_do text Uri_save_userinfo p (u, mark) =
     (if mark \<noteq> None then save text Uri_setUserinfo p u mark None else Inr (u, None))"
| "uri_do text Uri_save_host p (u, mark) =
     (if mark \<noteq> None then save text Uri_setHost p u mark mark else Inr (u, mark))"
| "uri_do text Uri_save_path p (u, mark) = save text Uri_setPath p u mark None"
| "uri_do text Uri_save_query p (u, mark) = save text Uri_setQuery p u mark None"
| "uri_do text Uri_save_fragment p (u, mark) = save text Uri_setFragment p u mark None"

definition uri_act :: "string \<Rightarrow> uri_action \<Rightarrow> nat \<Rightarrow> uri_state \<Rightarrow> uri_state" where
  "uri_act text a p x = (case x of Inl e \<Rightarrow> Inl e | Inr y \<Rightarrow> uri_do text a p y)"

abbreviation uri_parser_start :: int where "uri_parser_start \<equiv> 451"
abbreviation uri_parser_first_final :: int where "uri_parser_first_final \<equiv> 451"
abbreviation uri_parser_error :: int where "uri_parser_error \<equiv> 0"

fun eof_actions :: "(int list \<times> 'a list) list \<Rightarrow> int \<Rightarrow> 'a list" where
  "eof_actions [] cs = []"
| "eof_actions ((ss, as) # r) cs = (if List.member ss cs then as else eof_actions r cs)"

text \<open>At the end of the input, in a state that is not the error state, the actions of \<open>eof\<close> run.\<close>

definition uri_finish :: "string \<Rightarrow> uri_state \<times> int \<times> nat \<Rightarrow> uri_state \<times> int" where
  "uri_finish text = (\<lambda>(x, cs, p).
     if p = length text then (fold (\<lambda>a. uri_act text a p) (eof_actions uri_eof cs) x, cs) else (x, cs))"

definition Uri_Create :: "string \<Rightarrow> Uri option res" where
  "Uri_Create uristr =
     (case uri_finish uristr
          (machine uri_table False (uri_act uristr) (\<lambda>_. False) (Inr (Uri_new, None)) uri_parser_start 0 (to_bytes uristr)) of
        (Inl e, cs) \<Rightarrow> Inl e
      | (Inr (u, mark), cs) \<Rightarrow>
          Inr (if cs = uri_parser_error then None else if cs \<ge> uri_parser_first_final then Some u else None))"

section \<open>The table\<close>

text \<open>The labels of the table, collected.\<close>

lemma uri_labels:
  "labels_of uri_table =
    [(467, [Uri_marku, Uri_save_query], 453), (469, [Uri_save_query], 453), (474, [Uri_markh, Uri_save_host], 453), (485, [Uri_save_host],
     453), (489, [Uri_markh, Uri_save_port], 453), (493, [Uri_save_port], 453), (548, [Uri_markh, Uri_save_host, Uri_save_path], 453), (559,
     [Uri_save_host, Uri_markh, Uri_save_path], 453), (563, [Uri_save_path], 453), (566, [Uri_markh, Uri_save_port, Uri_save_path], 453),
     (570, [Uri_save_port, Uri_markh, Uri_save_path], 453), (462, [Uri_marku], 454), (463, [Uri_marku], 1), (476, [Uri_markh,
     Uri_save_host], 455), (486, [Uri_save_host], 455), (490, [Uri_markh, Uri_save_port], 455), (494, [Uri_save_port], 455), (482,
     [Uri_markh, Uri_save_host], 456), (488, [Uri_save_host], 456), (492, [Uri_markh, Uri_save_port], 456), (496, [Uri_save_port], 456),
     (556, [Uri_markh, Uri_save_host, Uri_save_path], 456), (562, [Uri_save_host, Uri_markh, Uri_save_path], 456), (565, [Uri_save_path],
     456), (569, [Uri_markh, Uri_save_port, Uri_save_path], 456), (573, [Uri_save_port, Uri_markh, Uri_save_path], 456), (466, [Uri_marku],
     457), (468, [Uri_marku], 7), (472, [Uri_markh], 9), (507, [Uri_markh, Uri_save_host], 461), (487, [Uri_save_host], 461), (491,
     [Uri_markh], 462), (473, [Uri_markh], 467), (475, [Uri_markh], 31), (481, [Uri_markh, Uri_save_host], 468), (499, [Uri_save_host],
     468), (38, [Uri_save_userinfo], 469), (483, [Uri_markh, Uri_save_userinfo], 469), (501, [Uri_markh], 470), (502, [Uri_markh], 36),
     (503, [Uri_markh], 471), (504, [Uri_markh], 485), (506, [Uri_markh], 486), (505, [Uri_markh], 487), (484, [Uri_markh], 38), (500,
     [Uri_markh], 489), (477, [Uri_markh], 490), (478, [Uri_markh], 504), (480, [Uri_markh], 505), (479, [Uri_markh], 506), (461,
     [Uri_marku], 508), (543, [Uri_save_scheme], 509), (546, [Uri_markh], 229), (550, [Uri_markh, Uri_save_host], 513), (567, [Uri_markh,
     Uri_save_port], 513), (560, [Uri_save_host, Uri_markh], 513), (571, [Uri_save_port, Uri_markh], 513), (584, [Uri_markh, Uri_save_host],
     514), (561, [Uri_save_host], 514), (568, [Uri_markh], 515), (547, [Uri_markh], 520), (549, [Uri_markh], 253), (555, [Uri_markh,
     Uri_save_host], 521), (576, [Uri_save_host], 521), (263, [Uri_save_userinfo], 522), (557, [Uri_markh, Uri_save_userinfo], 522), (578,
     [Uri_markh], 523), (579, [Uri_markh], 258), (580, [Uri_markh], 524), (581, [Uri_markh], 538), (583, [Uri_markh], 539), (582,
     [Uri_markh], 540), (558, [Uri_markh], 260), (577, [Uri_markh], 542), (551, [Uri_markh], 543), (552, [Uri_markh], 557), (554,
     [Uri_markh], 558), (553, [Uri_markh], 559)]"
  by code_simp

end
