(* ===== verification/Mingo_Uri_Roundtrip.thy ===== *)
theory Mingo_Uri_Roundtrip
  imports Mingo_Uri
begin

text \<open>
  The automaton of \<^verbatim>\<open>mingo/uri.cpp\<close> on the text of a URI with an authority: the states it goes through, the loops over the characters of a component, and the round
  trip \<open>Create (toString u)\<close>.
\<close>

named_theorems uri_edges \<open>the edges of the automaton that a plain URI uses\<close>

section \<open>The states of a plain URI\<close>

lemmas uri_part_defs =
  uri_part_1_def uri_part_2_def uri_part_3_def uri_part_4_def uri_part_5_def uri_part_6_def uri_part_7_def uri_part_8_def
  uri_part_9_def uri_part_10_def uri_part_11_def uri_part_12_def uri_part_13_def uri_part_14_def uri_part_15_def uri_part_16_def
  uri_part_17_def uri_part_18_def uri_part_19_def uri_part_20_def uri_part_21_def uri_part_22_def uri_part_23_def uri_part_24_def
  uri_part_25_def uri_part_26_def uri_part_27_def uri_part_28_def uri_part_29_def uri_part_30_def uri_part_31_def uri_part_32_def
  uri_part_33_def uri_part_34_def uri_part_35_def uri_part_36_def uri_part_37_def uri_part_38_def uri_part_39_def uri_part_40_def
  uri_part_41_def uri_part_42_def uri_part_43_def uri_part_44_def uri_part_45_def uri_part_46_def uri_part_47_def uri_part_48_def
  uri_part_49_def uri_part_50_def uri_part_51_def uri_part_52_def uri_part_53_def uri_part_54_def uri_part_55_def uri_part_56_def
  uri_part_57_def uri_part_58_def uri_part_59_def uri_part_60_def uri_part_61_def uri_part_62_def uri_part_63_def uri_part_64_def
  uri_part_65_def uri_part_66_def uri_part_67_def uri_part_68_def uri_part_69_def uri_part_70_def

lemmas uri_firsts = uri_part_defs [THEN arg_cong [where f = fst], unfolded fst_conv]

lemma uri_rows:
  "find_block uri_table 451 = Some ([],
    [(- 128, - 1, St 452), (33, 33, St 452), (35, 35, St 453), (36, 36, St 452), (37, 37, St 3), (38, 46, St 452), (47, 47, St 458), (48,
     57, St 452), (59, 59, St 452), (61, 61, St 452), (63, 63, St 456), (64, 64, St 452), (65, 90, Tr 461), (95, 95, St 452), (97, 122, Tr
     461), (126, 126, St 452)])"
  "find_block uri_table 508 = Some ([],
    [(- 128, - 1, St 452), (33, 33, St 452), (35, 35, St 453), (36, 36, St 452), (37, 37, St 3), (38, 42, St 452), (43, 43, St 508), (44,
     44, St 452), (45, 46, St 508), (47, 47, St 455), (48, 57, St 508), (58, 58, Tr 543), (59, 59, St 452), (61, 61, St 452), (63, 63, St
     456), (64, 64, St 452), (65, 90, St 508), (95, 95, St 452), (97, 122, St 508), (126, 126, St 452)])"
  "find_block uri_table 509 = Some ([],
    [(- 128, - 1, St 455), (33, 33, St 455), (35, 35, St 453), (36, 36, St 455), (37, 37, St 5), (38, 46, St 455), (47, 47, St 510), (48,
     59, St 455), (61, 61, St 455), (63, 63, St 456), (64, 90, St 455), (95, 95, St 455), (97, 122, St 455), (126, 126, St 455)])"
  "find_block uri_table 510 = Some ([],
    [(- 128, - 1, St 455), (33, 33, St 455), (35, 35, St 453), (36, 36, St 455), (37, 37, St 5), (38, 46, St 455), (47, 47, St 511), (48,
     59, St 455), (61, 61, St 455), (63, 63, St 456), (64, 90, St 455), (95, 95, St 455), (97, 122, St 455), (126, 126, St 455)])"
  "find_block uri_table 511 = Some ([],
    [(2, 2, Tr 546), (33, 33, Tr 547), (35, 35, Tr 548), (36, 36, Tr 547), (37, 37, Tr 549), (38, 46, Tr 547), (47, 47, Tr 550), (48, 48,
     Tr 551), (49, 49, Tr 552), (50, 50, Tr 553), (51, 57, Tr 554), (58, 58, Tr 555), (59, 59, Tr 547), (61, 61, Tr 547), (63, 63, Tr 556),
     (64, 64, Tr 557), (65, 90, Tr 547), (91, 91, Tr 558), (95, 95, Tr 547), (97, 122, Tr 547), (126, 126, Tr 547)])"
  "find_block uri_table 520 = Some ([],
    [(33, 33, St 520), (35, 35, Tr 559), (36, 36, St 520), (37, 37, St 253), (38, 46, St 520), (47, 47, Tr 560), (48, 57, St 520), (58, 58,
     Tr 576), (59, 59, St 520), (61, 61, St 520), (63, 63, Tr 562), (64, 64, Tr 263), (65, 90, St 520), (95, 95, St 520), (97, 122, St 520),
     (126, 126, St 520)])"
  "find_block uri_table 521 = Some ([],
    [(33, 33, St 255), (35, 35, Tr 566), (36, 36, St 255), (37, 37, St 256), (38, 46, St 255), (47, 47, Tr 567), (48, 57, Tr 577), (58, 59,
     St 255), (61, 61, St 255), (63, 63, Tr 569), (64, 64, Tr 263), (65, 90, St 255), (95, 95, St 255), (97, 122, St 255), (126, 126, St
     255)])"
  "find_block uri_table 542 = Some ([],
    [(33, 33, St 255), (35, 35, Tr 570), (36, 36, St 255), (37, 37, St 256), (38, 46, St 255), (47, 47, Tr 571), (48, 57, St 542), (58, 59,
     St 255), (61, 61, St 255), (63, 63, Tr 573), (64, 64, Tr 263), (65, 90, St 255), (95, 95, St 255), (97, 122, St 255), (126, 126, St
     255)])"
  "find_block uri_table 522 = Some ([],
    [(2, 2, Tr 546), (33, 33, Tr 578), (35, 35, Tr 548), (36, 36, Tr 578), (37, 37, Tr 579), (38, 46, Tr 578), (47, 47, Tr 550), (48, 48,
     Tr 580), (49, 49, Tr 581), (50, 50, Tr 582), (51, 57, Tr 583), (58, 58, Tr 584), (59, 59, Tr 578), (61, 61, Tr 578), (63, 63, Tr 556),
     (65, 90, Tr 578), (91, 91, Tr 558), (95, 95, Tr 578), (97, 122, Tr 578), (126, 126, Tr 578)])"
  "find_block uri_table 523 = Some ([],
    [(33, 33, St 523), (35, 35, Tr 559), (36, 36, St 523), (37, 37, St 258), (38, 46, St 523), (47, 47, Tr 560), (48, 57, St 523), (58, 58,
     Tr 561), (59, 59, St 523), (61, 61, St 523), (63, 63, Tr 562), (65, 90, St 523), (95, 95, St 523), (97, 122, St 523), (126, 126, St
     523)])"
  "find_block uri_table 514 = Some ([],
    [(35, 35, Tr 566), (47, 47, Tr 567), (48, 57, Tr 568), (63, 63, Tr 569)])"
  "find_block uri_table 515 = Some ([],
    [(35, 35, Tr 570), (47, 47, Tr 571), (48, 57, St 515), (63, 63, Tr 573)])"
  "find_block uri_table 513 = Some ([],
    [(- 128, - 1, St 513), (33, 33, St 513), (35, 35, Tr 563), (36, 36, St 513), (37, 37, St 243), (38, 59, St 513), (61, 61, St 513), (63,
     63, Tr 565), (64, 90, St 513), (95, 95, St 513), (97, 122, St 513), (126, 126, St 513)])"
  "find_block uri_table 456 = Some ([],
    [(- 128, - 1, Tr 466), (33, 33, Tr 466), (35, 35, Tr 467), (36, 36, Tr 466), (37, 37, Tr 468), (38, 59, Tr 466), (61, 61, Tr 466), (63,
     90, Tr 466), (95, 95, Tr 466), (97, 122, Tr 466), (126, 126, Tr 466)])"
  "find_block uri_table 457 = Some ([],
    [(- 128, - 1, St 457), (33, 33, St 457), (35, 35, Tr 469), (36, 36, St 457), (37, 37, St 7), (38, 59, St 457), (61, 61, St 457), (63,
     90, St 457), (95, 95, St 457), (97, 122, St 457), (126, 126, St 457)])"
  "find_block uri_table 453 = Some ([],
    [(- 128, - 1, Tr 462), (33, 33, Tr 462), (36, 36, Tr 462), (37, 37, Tr 463), (38, 59, Tr 462), (61, 61, Tr 462), (63, 90, Tr 462), (95,
     95, Tr 462), (97, 122, Tr 462), (126, 126, Tr 462)])"
  "find_block uri_table 454 = Some ([],
    [(- 128, - 1, St 454), (33, 33, St 454), (36, 36, St 454), (37, 37, St 1), (38, 59, St 454), (61, 61, St 454), (63, 90, St 454), (95,
     95, St 454), (97, 122, St 454), (126, 126, St 454)])"
  by (simp_all add: uri_table_def uri_firsts)

text \<open>Classes of characters, by their codes: of a scheme after its first, of a host or user, of a path, of a query or fragment (escapes apart).\<close>

abbreviation letters :: "(int \<times> int) list" where "letters \<equiv> [(65, 90), (97, 122)]"
abbreviation digits :: "(int \<times> int) list" where "digits \<equiv> [(48, 57)]"
abbreviation scheme_chars :: "(int \<times> int) list" where "scheme_chars \<equiv> [(43, 43), (45, 46), (48, 57), (65, 90), (97, 122)]"
abbreviation reg_chars :: "(int \<times> int) list" where
  "reg_chars \<equiv> [(33, 33), (36, 36), (38, 46), (48, 57), (59, 59), (61, 61), (65, 90), (95, 95), (97, 122), (126, 126)]"
abbreviation path_chars :: "(int \<times> int) list" where
  "path_chars \<equiv> [(- 128, - 1), (33, 33), (36, 36), (38, 59), (61, 61), (64, 90), (95, 95), (97, 122), (126, 126)]"
abbreviation query_chars :: "(int \<times> int) list" where
  "query_chars \<equiv> [(- 128, - 1), (33, 33), (36, 36), (38, 59), (61, 61), (63, 90), (95, 95), (97, 122), (126, 126)]"

abbreviation uri_sends :: "int \<Rightarrow> (int \<times> int) list \<Rightarrow> uri_action list \<Rightarrow> int \<Rightarrow> bool" where
  "uri_sends \<equiv> sends uri_table False"

lemma sends_451_508 [uri_edges]: "uri_sends 451 letters [Uri_marku] 508"
  by (rule sendsI [OF uri_rows(1), where j = "Tr 461"]) (code_simp, simp add: entry_target_def uri_labels)

lemma sends_508_508 [uri_edges]: "uri_sends 508 scheme_chars [] 508"
  by (rule sendsI [OF uri_rows(2), where j = "St 508"]) (code_simp, simp add: entry_target_def uri_labels)

lemma sends_508_509 [uri_edges]: "uri_sends 508 [(58, 58)] [Uri_save_scheme] 509"
  by (rule sendsI [OF uri_rows(2), where j = "Tr 543"]) (code_simp, simp add: entry_target_def uri_labels)

lemma sends_509_510 [uri_edges]: "uri_sends 509 [(47, 47)] [] 510"
  by (rule sendsI [OF uri_rows(3), where j = "St 510"]) (code_simp, simp add: entry_target_def uri_labels)

lemma sends_510_511 [uri_edges]: "uri_sends 510 [(47, 47)] [] 511"
  by (rule sendsI [OF uri_rows(4), where j = "St 511"]) (code_simp, simp add: entry_target_def uri_labels)

lemma sends_511_520 [uri_edges]: "uri_sends 511 letters [Uri_markh] 520"
  by (rule sendsI [OF uri_rows(5), where j = "Tr 547"]) (code_simp, simp add: entry_target_def uri_labels)

lemma sends_520_520 [uri_edges]: "uri_sends 520 reg_chars [] 520"
  by (rule sendsI [OF uri_rows(6), where j = "St 520"]) (code_simp, simp add: entry_target_def uri_labels)

lemma sends_520_513 [uri_edges]: "uri_sends 520 [(47, 47)] [Uri_save_host, Uri_markh] 513"
  by (rule sendsI [OF uri_rows(6), where j = "Tr 560"]) (code_simp, simp add: entry_target_def uri_labels)

lemma sends_520_521 [uri_edges]: "uri_sends 520 [(58, 58)] [Uri_save_host] 521"
  by (rule sendsI [OF uri_rows(6), where j = "Tr 576"]) (code_simp, simp add: entry_target_def uri_labels)

lemma sends_520_522 [uri_edges]: "uri_sends 520 [(64, 64)] [Uri_save_userinfo] 522"
  by (rule sendsI [OF uri_rows(6), where j = "Tr 263"]) (code_simp, simp add: entry_target_def uri_labels)

lemma sends_522_523 [uri_edges]: "uri_sends 522 letters [Uri_markh] 523"
  by (rule sendsI [OF uri_rows(9), where j = "Tr 578"]) (code_simp, simp add: entry_target_def uri_labels)

lemma sends_523_523 [uri_edges]: "uri_sends 523 reg_chars [] 523"
  by (rule sendsI [OF uri_rows(10), where j = "St 523"]) (code_simp, simp add: entry_target_def uri_labels)

lemma sends_523_513 [uri_edges]: "uri_sends 523 [(47, 47)] [Uri_save_host, Uri_markh] 513"
  by (rule sendsI [OF uri_rows(10), where j = "Tr 560"]) (code_simp, simp add: entry_target_def uri_labels)

lemma sends_523_514 [uri_edges]: "uri_sends 523 [(58, 58)] [Uri_save_host] 514"
  by (rule sendsI [OF uri_rows(10), where j = "Tr 561"]) (code_simp, simp add: entry_target_def uri_labels)

lemma sends_521_542 [uri_edges]: "uri_sends 521 digits [Uri_markh] 542"
  by (rule sendsI [OF uri_rows(7), where j = "Tr 577"]) (code_simp, simp add: entry_target_def uri_labels)

lemma sends_542_542 [uri_edges]: "uri_sends 542 digits [] 542"
  by (rule sendsI [OF uri_rows(8), where j = "St 542"]) (code_simp, simp add: entry_target_def uri_labels)

lemma sends_542_513 [uri_edges]: "uri_sends 542 [(47, 47)] [Uri_save_port, Uri_markh] 513"
  by (rule sendsI [OF uri_rows(8), where j = "Tr 571"]) (code_simp, simp add: entry_target_def uri_labels)

lemma sends_514_515 [uri_edges]: "uri_sends 514 digits [Uri_markh] 515"
  by (rule sendsI [OF uri_rows(11), where j = "Tr 568"]) (code_simp, simp add: entry_target_def uri_labels)

lemma sends_515_515 [uri_edges]: "uri_sends 515 digits [] 515"
  by (rule sendsI [OF uri_rows(12), where j = "St 515"]) (code_simp, simp add: entry_target_def uri_labels)

lemma sends_515_513 [uri_edges]: "uri_sends 515 [(47, 47)] [Uri_save_port, Uri_markh] 513"
  by (rule sendsI [OF uri_rows(12), where j = "Tr 571"]) (code_simp, simp add: entry_target_def uri_labels)

lemma sends_513_513 [uri_edges]: "uri_sends 513 path_chars [] 513"
  by (rule sendsI [OF uri_rows(13), where j = "St 513"]) (code_simp, simp add: entry_target_def uri_labels)

lemma sends_513_456 [uri_edges]: "uri_sends 513 [(63, 63)] [Uri_save_path] 456"
  by (rule sendsI [OF uri_rows(13), where j = "Tr 565"]) (code_simp, simp add: entry_target_def uri_labels)

lemma sends_513_453 [uri_edges]: "uri_sends 513 [(35, 35)] [Uri_save_path] 453"
  by (rule sendsI [OF uri_rows(13), where j = "Tr 563"]) (code_simp, simp add: entry_target_def uri_labels)

lemma sends_456_457 [uri_edges]: "uri_sends 456 query_chars [Uri_marku] 457"
  by (rule sendsI [OF uri_rows(14), where j = "Tr 466"]) (code_simp, simp add: entry_target_def uri_labels)

lemma sends_457_457 [uri_edges]: "uri_sends 457 query_chars [] 457"
  by (rule sendsI [OF uri_rows(15), where j = "St 457"]) (code_simp, simp add: entry_target_def uri_labels)

lemma sends_457_453 [uri_edges]: "uri_sends 457 [(35, 35)] [Uri_save_query] 453"
  by (rule sendsI [OF uri_rows(15), where j = "Tr 469"]) (code_simp, simp add: entry_target_def uri_labels)

lemma sends_453_454 [uri_edges]: "uri_sends 453 query_chars [Uri_marku] 454"
  by (rule sendsI [OF uri_rows(16), where j = "Tr 462"]) (code_simp, simp add: entry_target_def uri_labels)

lemma sends_454_454 [uri_edges]: "uri_sends 454 query_chars [] 454"
  by (rule sendsI [OF uri_rows(17), where j = "St 454"]) (code_simp, simp add: entry_target_def uri_labels)

section \<open>Reading words\<close>

lemma code_delims [simp]: "code CHR '':'' = 58" "code CHR ''/'' = 47" "code CHR ''@'' = 64" "code CHR ''?'' = 63" "code CHR ''#'' = 35"
  by code_simp+

abbreviation uri_at :: "string \<Rightarrow> uri_state \<Rightarrow> int \<Rightarrow> nat \<Rightarrow> uri_state \<times> int \<times> nat" where
  "uri_at s \<equiv> run_at uri_table False (uri_act s) (\<lambda>_. False) s"

lemma no_breaks [simp]: "\<not> list_ex (\<lambda>_. False) as"
  by (induction as) simp_all

lemma uri_end: "uri_at s x cs (length s) = (x, cs, length s)"
  by (rule run_end)

lemma uri_step:
  assumes "s = pre @ c # post" and "uri_sends cs R as cs'" and "in_ranges R (code c)"
  shows "uri_at s x cs (length pre) = uri_at s (fold (\<lambda>a. uri_act s a (length pre)) as x) cs' (Suc (length pre))"
  using run_step [OF assms, of "\<lambda>_. False" "uri_act s" x] by simp

lemma uri_word:
  assumes "s = pre @ w @ post" and "word_of R1 R w" and "uri_sends cs R1 [m] cs'" and "uri_sends cs' R [] cs'" and "m = Uri_marku \<or> m = Uri_markh"
  shows "uri_at s (Inr (u, mk)) cs (length pre) = uri_at s (Inr (u, Some (length pre))) cs' (length (pre @ w))"
  using run_word [OF assms(1-4), of "\<lambda>_. False" "uri_act s" "Inr (u, mk)"] assms(5) by (auto simp: uri_act_def)

lemma save_word: "s = pre @ w @ post \<Longrightarrow> save s f (length (pre @ w)) u (Some (length pre)) mk = Inr (f w u, mk)"
  by (simp add: save_def)

lemmas uri_setters =
  Uri_setScheme_def Uri_setUserinfo_def Uri_setHost_def Uri_setPath_def Uri_setQuery_def Uri_setFragment_def Uri_setPort_def

section \<open>The parts of a URI\<close>

lemma read_scheme:
  assumes s: "s = sch @ ''://'' @ post" and w: "word_of letters scheme_chars sch"
  shows "uri_at s (Inr (Uri_new, None)) 451 0 = uri_at s (Inr (Uri_new\<lparr>uri_scheme := sch\<rparr>, None)) 511 (length (sch @ ''://''))"
proof -
  have 1: "uri_at s (Inr (Uri_new, None)) 451 0 = uri_at s (Inr (Uri_new, Some 0)) 508 (length sch)"
    using uri_word [OF _ w sends_451_508 sends_508_508, of s "[]" "''://'' @ post"] s by simp
  have 2: "uri_at s (Inr (Uri_new, Some 0)) 508 (length sch) = uri_at s (Inr (Uri_new\<lparr>uri_scheme := sch\<rparr>, None)) 509 (length (sch @ '':''))"
    using uri_step [OF _ sends_508_509, of s sch "CHR '':''" "''//'' @ post"] save_word [of s "[]" sch "''://'' @ post"] s
    by (simp add: uri_act_def uri_setters)
  have 3: "uri_at s x 509 (length (sch @ '':'')) = uri_at s x 510 (length (sch @ '':/''))" for x
    using uri_step [OF _ sends_509_510, of s "sch @ '':''" "CHR ''/''" "''/'' @ post"] s by simp
  have 4: "uri_at s x 510 (length (sch @ '':/'')) = uri_at s x 511 (length (sch @ ''://''))" for x
    using uri_step [OF _ sends_510_511, of s "sch @ '':/''" "CHR ''/''" post] s by simp
  show ?thesis by (simp only: 1 2 3 4)
qed

lemma digit_code: "is_digit c \<Longrightarrow> in_ranges digits (code c)"
proof -
  assume "is_digit c"
  then have "48 \<le> (of_char c :: nat)" "of_char c \<le> (57 :: nat)" by (simp_all add: is_digit_def less_eq_char_def)
  then show ?thesis by (simp add: code_ascii)
qed

lemma dec_word: "word_of digits digits (dec n)"
proof -
  obtain c cs where d: "dec n = c # cs" by (cases "dec n") auto
  then have "\<forall>x \<in> set (c # cs). in_ranges digits (code x)" using dec_digits [of _ n] digit_code by auto
  then show ?thesis using d by (simp add: word_of_def list_all_iff)
qed

text \<open>A host in the state \<open>hs\<close>, with or without a port behind it (through \<open>pp\<close> and \<open>pd\<close>), up to the slash that follows.\<close>

lemma read_host_slash:
  assumes s: "s = pre @ host @ ''/'' @ post" and e: "uri_sends hs [(47, 47)] [Uri_save_host, Uri_markh] 513"
  shows "uri_at s (Inr (u, Some (length pre))) hs (length (pre @ host)) =
    uri_at s (Inr (u\<lparr>uri_host := host\<rparr>, Some (length (pre @ host)))) 513 (length (pre @ host @ ''/''))"
  using uri_step [OF _ e, of s "pre @ host" "CHR ''/''" post] save_word [of s pre host "''/'' @ post" Uri_setHost] s
  by (simp add: uri_act_def uri_setters)

lemma read_host_port:
  assumes s: "s = pre @ host @ '':'' @ dec n @ ''/'' @ post" and n: "n < 2 ^ 31"
    and e: "uri_sends hs [(58, 58)] [Uri_save_host] pp" "uri_sends pp digits [Uri_markh] pd" "uri_sends pd digits [] pd"
      "uri_sends pd [(47, 47)] [Uri_save_port, Uri_markh] 513"
  shows "uri_at s (Inr (u, Some (length pre))) hs (length (pre @ host)) =
    uri_at s (Inr (u\<lparr>uri_host := host, uri_port := int n\<rparr>, Some (length (pre @ host @ '':'' @ dec n)))) 513
      (length (pre @ host @ '':'' @ dec n @ ''/''))"
proof -
  let ?q = "pre @ host @ '':''"
  have 1: "uri_at s (Inr (u, Some (length pre))) hs (length (pre @ host)) =
      uri_at s (Inr (u\<lparr>uri_host := host\<rparr>, Some (length pre))) pp (length ?q)"
    using uri_step [OF _ e(1), of s "pre @ host" "CHR '':''"] save_word [of s pre host "'':'' @ dec n @ ''/'' @ post" Uri_setHost] s
    by (simp add: uri_act_def uri_setters)
  have 2: "uri_at s (Inr (u', Some (length pre))) pp (length ?q) = uri_at s (Inr (u', Some (length ?q))) pd (length (?q @ dec n))" for u'
    using uri_word [OF _ dec_word e(2,3), of s ?q n "''/'' @ post"] s by simp
  have "drop (length ?q) s = dec n @ CHR ''/'' # post" using s by simp
  then have a: "atoi (drop (length ?q) s) = int n"
    using atoi_dec [OF n, of "CHR ''/'' # post"] by (simp add: is_digit_def less_eq_char_def)
  have 3: "uri_at s (Inr (u', Some (length ?q))) pd (length (?q @ dec n)) =
      uri_at s (Inr (u'\<lparr>uri_port := int n\<rparr>, Some (length (?q @ dec n)))) 513 (length (?q @ dec n @ ''/''))" for u'
    using uri_step [OF _ e(4), of s "?q @ dec n" "CHR ''/''" post] a s
    by (simp add: uri_act_def uri_setters)
  show ?thesis using 1 2 [of "u\<lparr>uri_host := host\<rparr>"] 3 [of "u\<lparr>uri_host := host\<rparr>"] by simp
qed

text \<open>The text of an optional port, and what it sets.\<close>

definition port_text :: "nat option \<Rightarrow> string" where
  "port_text po = (case po of None \<Rightarrow> [] | Some n \<Rightarrow> '':'' @ dec n)"

lemma read_host:
  assumes s: "s = pre @ host @ port_text po @ ''/'' @ post" and po: "case po of None \<Rightarrow> True | Some n \<Rightarrow> n < 2 ^ 31"
    and e: "uri_sends hs [(47, 47)] [Uri_save_host, Uri_markh] 513" "uri_sends hs [(58, 58)] [Uri_save_host] pp" "uri_sends pp digits [Uri_markh] pd"
      "uri_sends pd digits [] pd" "uri_sends pd [(47, 47)] [Uri_save_port, Uri_markh] 513"
    and u: "uri_port u = 0"
  shows "uri_at s (Inr (u, Some (length pre))) hs (length (pre @ host)) =
    uri_at s (Inr (u\<lparr>uri_host := host, uri_port := (case po of None \<Rightarrow> 0 | Some n \<Rightarrow> int n)\<rparr>, Some (length (pre @ host @ port_text po)))) 513
      (length (pre @ host @ port_text po @ ''/''))"
proof (cases po)
  case None
  have "u\<lparr>uri_host := host, uri_port := 0\<rparr> = u\<lparr>uri_host := host\<rparr>" using u by (cases u) simp
  then show ?thesis using read_host_slash [OF _ e(1), of s pre host post u] s None by (simp add: port_text_def)
next
  case (Some n)
  then show ?thesis using read_host_port [OF _ _ e(2-5), of s pre host n post u] s po by (simp add: port_text_def)
qed

text \<open>The authority behind \<open>//\<close>: an optional user, the host, an optional port.\<close>

definition user_text :: "string \<Rightarrow> string" where
  "user_text ui = (if ui = [] then [] else ui @ ''@'')"

lemma read_authority:
  assumes s: "s = pre @ user_text ui @ host @ port_text po @ ''/'' @ post" and po: "case po of None \<Rightarrow> True | Some n \<Rightarrow> n < 2 ^ 31"
    and w: "ui = [] \<or> word_of letters reg_chars ui" "word_of letters reg_chars host" and u: "uri_port u = 0" "uri_userinfo u = []"
  defines "a \<equiv> pre @ user_text ui @ host @ port_text po"
  shows "uri_at s (Inr (u, None)) 511 (length pre) =
    uri_at s (Inr (u\<lparr>uri_userinfo := ui, uri_host := host, uri_port := (case po of None \<Rightarrow> 0 | Some n \<Rightarrow> int n)\<rparr>, Some (length a))) 513
      (length (a @ ''/''))"
proof (cases "ui = []")
  case True
  have "uri_at s (Inr (u, None)) 511 (length pre) = uri_at s (Inr (u, Some (length pre))) 520 (length (pre @ host))"
    using uri_word [OF _ w(2) sends_511_520 sends_520_520, of s pre "port_text po @ ''/'' @ post"] s True by (simp add: user_text_def)
  moreover have "u\<lparr>uri_userinfo := [], uri_host := h, uri_port := x\<rparr> = u\<lparr>uri_host := h, uri_port := x\<rparr>" for h x
    using u(2) by (cases u) simp
  ultimately show ?thesis
    using read_host [OF _ po sends_520_513 sends_520_521 sends_521_542 sends_542_542 sends_542_513 u(1), of s pre host post] s True
    by (simp add: a_def user_text_def)
next
  case False
  let ?q = "pre @ ui @ ''@''"
  have 1: "uri_at s (Inr (u, None)) 511 (length pre) = uri_at s (Inr (u, Some (length pre))) 520 (length (pre @ ui))"
    using uri_word [OF _ _ sends_511_520 sends_520_520, of s pre ui "''@'' @ host @ port_text po @ ''/'' @ post"] w(1) s False
    by (simp add: user_text_def)
  have 2: "uri_at s (Inr (u, Some (length pre))) 520 (length (pre @ ui)) = uri_at s (Inr (u\<lparr>uri_userinfo := ui\<rparr>, None)) 522 (length ?q)"
    using uri_step [OF _ sends_520_522, of s "pre @ ui" "CHR ''@''"] False s
      save_word [of s pre ui "''@'' @ host @ port_text po @ ''/'' @ post" Uri_setUserinfo]
    by (simp add: uri_act_def uri_setters user_text_def)
  have 3: "uri_at s (Inr (u', None)) 522 (length ?q) = uri_at s (Inr (u', Some (length ?q))) 523 (length (?q @ host))" for u'
    using uri_word [OF _ w(2) sends_522_523 sends_523_523, of s ?q "port_text po @ ''/'' @ post"] s False by (simp add: user_text_def)
  have p0: "uri_port (u\<lparr>uri_userinfo := ui\<rparr>) = 0" using u(1) by simp
  show ?thesis
    using 1 2 3 [of "u\<lparr>uri_userinfo := ui\<rparr>"] s False
      read_host [OF _ po sends_523_513 sends_523_514 sends_514_515 sends_515_515 sends_515_513 p0, of s ?q host post]
    by (simp add: a_def user_text_def)
qed

text \<open>The path, with the slash already read, and the optional query and fragment behind it.\<close>

definition tail_text :: "string \<Rightarrow> string \<Rightarrow> string" where
  "tail_text q f = (if q = [] then [] else ''?'' @ q) @ (if f = [] then [] else ''#'' @ f)"

lemma uri_eof_tail:
  "eof_actions uri_eof 513 = [Uri_save_path]" "eof_actions uri_eof 457 = [Uri_save_query]" "eof_actions uri_eof 454 = [Uri_save_fragment]"
  by code_simp+

lemma read_fragment:
  assumes s: "s = pre @ ''#'' @ f" and w: "word_of query_chars query_chars f"
  shows "uri_finish s (uri_at s (Inr (u, mk)) 453 (length (pre @ ''#''))) = (Inr (u\<lparr>uri_fragment := f\<rparr>, None), 454)"
proof -
  have "uri_at s (Inr (u, mk)) 453 (length (pre @ ''#'')) = (Inr (u, Some (length (pre @ ''#''))), 454, length s)"
    using uri_word [OF _ w sends_453_454 sends_454_454, of s "pre @ ''#''" "[]" u mk] uri_end [of s] s by simp
  then show ?thesis using save_word [of s "pre @ ''#''" f "[]" Uri_setFragment] s
    by (simp add: uri_finish_def uri_eof_tail uri_act_def uri_setters)
qed

lemma read_query:
  assumes s: "s = pre @ ''?'' @ q @ tail_text [] f" and w: "word_of query_chars query_chars q" "f = [] \<or> word_of query_chars query_chars f"
    and u: "uri_fragment u = []"
  shows "\<exists>cs \<in> {457, 454}. uri_finish s (uri_at s (Inr (u, mk)) 456 (length (pre @ ''?''))) = (Inr (u\<lparr>uri_query := q, uri_fragment := f\<rparr>, None), cs)"
proof -
  let ?p = "pre @ ''?''"
  have r: "uri_at s (Inr (u, mk)) 456 (length ?p) = uri_at s (Inr (u, Some (length ?p))) 457 (length (?p @ q))"
    using uri_word [OF _ w(1) sends_456_457 sends_457_457, of s ?p "tail_text [] f" u mk] s by simp
  have sv: "save s Uri_setQuery (length (?p @ q)) u (Some (length ?p)) None = Inr (u\<lparr>uri_query := q\<rparr>, None)"
    using save_word [of s ?p q "tail_text [] f" Uri_setQuery] s by (simp add: uri_setters)
  show ?thesis
  proof (cases "f = []")
    case True
    have "u\<lparr>uri_query := q, uri_fragment := []\<rparr> = u\<lparr>uri_query := q\<rparr>" using u by (cases u) simp
    moreover have "length (?p @ q) = length s" using s True by (simp add: tail_text_def)
    ultimately show ?thesis using r sv True uri_end [of s "Inr (u, Some (length ?p))" 457]
      by (simp add: uri_finish_def uri_eof_tail uri_act_def)
  next
    case False
    then have s': "s = (?p @ q) @ ''#'' @ f" using s by (simp add: tail_text_def)
    have "uri_at s (Inr (u, Some (length ?p))) 457 (length (?p @ q)) = uri_at s (Inr (u\<lparr>uri_query := q\<rparr>, None)) 453 (length ((?p @ q) @ ''#''))"
      using uri_step [OF _ sends_457_453, of s "?p @ q" "CHR ''#''" f] s' sv by (simp add: uri_act_def)
    then show ?thesis using r read_fragment [OF s', of "u\<lparr>uri_query := q\<rparr>" None] w(2) False by simp
  qed
qed

lemma read_path:
  assumes s: "s = pre @ ''/'' @ w @ tail_text q f" and w: "list_all (\<lambda>c. in_ranges path_chars (code c)) w"
    and q: "q = [] \<or> word_of query_chars query_chars q" "f = [] \<or> word_of query_chars query_chars f"
    and u: "uri_query u = []" "uri_fragment u = []"
  shows "\<exists>cs \<in> {513, 457, 454}. uri_finish s (uri_at s (Inr (u, Some (length pre))) 513 (length (pre @ ''/''))) =
    (Inr (u\<lparr>uri_path := ''/'' @ w, uri_query := q, uri_fragment := f\<rparr>, None), cs)"
proof -
  let ?p = "pre @ ''/'' @ w" and ?u = "u\<lparr>uri_path := ''/'' @ w\<rparr>"
  have r: "uri_at s (Inr (u, Some (length pre))) 513 (length (pre @ ''/'')) = uri_at s (Inr (u, Some (length pre))) 513 (length ?p)"
    using run_loop [OF _ sends_513_513, of s "pre @ ''/''" w "tail_text q f"] s w by (simp add: list_all_iff)
  have sv: "save s Uri_setPath (length ?p) u (Some (length pre)) None = Inr (?u, None)"
    using save_word [of s pre "''/'' @ w" "tail_text q f" Uri_setPath] s by (simp add: uri_setters)
  have qf: "?u\<lparr>uri_query := [], uri_fragment := f'\<rparr> = ?u\<lparr>uri_fragment := f'\<rparr>" for f' using u by (cases u) simp
  consider "q = []" "f = []" | "q = []" "f \<noteq> []" | "q \<noteq> []" by blast
  then show ?thesis
  proof cases
    case 1
    have "?u\<lparr>uri_fragment := []\<rparr> = ?u" using u by (cases u) simp
    moreover have "length ?p = length s" using s 1 by (simp add: tail_text_def)
    ultimately show ?thesis using r sv 1 qf [of "[]"] uri_end [of s "Inr (u, Some (length pre))" 513]
      by (simp add: uri_finish_def uri_eof_tail uri_act_def)
  next
    case 2
    then have s': "s = ?p @ ''#'' @ f" using s by (simp add: tail_text_def)
    have "uri_at s (Inr (u, Some (length pre))) 513 (length ?p) = uri_at s (Inr (?u, None)) 453 (length (?p @ ''#''))"
      using uri_step [OF _ sends_513_453, of s ?p "CHR ''#''" f] s' sv by (simp add: uri_act_def)
    then show ?thesis using r read_fragment [OF s', of ?u None] q(2) 2 qf [of f] by simp
  next
    case 3
    then have s': "s = ?p @ ''?'' @ q @ tail_text [] f" using s by (simp add: tail_text_def)
    have "uri_at s (Inr (u, Some (length pre))) 513 (length ?p) = uri_at s (Inr (?u, None)) 456 (length (?p @ ''?''))"
      using uri_step [OF _ sends_513_456, of s ?p "CHR ''?''" "q @ tail_text [] f"] s' sv by (simp add: uri_act_def)
    then show ?thesis using r read_query [OF s', of ?u None] q 3 u(2) by auto
  qed
qed

section \<open>The round trip\<close>

text \<open>
  A plain URI: the components consist of the characters that the grammar allows in them, without escapes; user and host start with a letter; the port is not
  negative. In particular there is no colon in the user part.
\<close>

definition uri_plain :: "Uri \<Rightarrow> bool" where
  "uri_plain u \<longleftrightarrow>
     word_of letters scheme_chars (uri_scheme u) \<and>
     (uri_userinfo u = [] \<or> word_of letters reg_chars (uri_userinfo u)) \<and>
     word_of letters reg_chars (uri_host u) \<and>
     0 \<le> uri_port u \<and> uri_port u < 2 ^ 31 \<and>
     (uri_path u = [] \<or> hd (uri_path u) = CHR ''/'' \<and> list_all (\<lambda>c. in_ranges path_chars (code c)) (tl (uri_path u))) \<and>
     (uri_query u = [] \<or> word_of query_chars query_chars (uri_query u)) \<and>
     (uri_fragment u = [] \<or> word_of query_chars query_chars (uri_fragment u))"

definition port_of :: "Uri \<Rightarrow> nat option" where
  "port_of u = (if Uri_isDefaultPort u then None else Some (nat (uri_port u)))"

lemma Uri_toString_split:
  assumes "0 \<le> uri_port u" and "Uri_getPath u = ''/'' @ w"
  shows "Uri_toString u = uri_scheme u @ ''://'' @ user_text (uri_userinfo u) @ uri_host u @ port_text (port_of u) @ ''/'' @ w
    @ tail_text (uri_query u) (uri_fragment u)"
  using assms by (simp add: Uri_toString_def user_text_def port_text_def port_of_def tail_text_def dec_int_def)

lemma Uri_Create_toString:
  assumes "uri_plain u"
  shows "Uri_Create (Uri_toString u) =
    Inr (Some (u\<lparr>uri_path := Uri_getPath u, uri_port := (if Uri_isDefaultPort u then 0 else uri_port u)\<rparr>))"
proof -
  let ?s = "Uri_toString u" and ?sch = "uri_scheme u" and ?a = "user_text (uri_userinfo u) @ uri_host u @ port_text (port_of u)"
  let ?pre = "?sch @ ''://'' @ ?a" and ?port = "if Uri_isDefaultPort u then 0 else uri_port u"
  note W = assms [unfolded uri_plain_def]
  obtain w where w: "Uri_getPath u = ''/'' @ w" "list_all (\<lambda>c. in_ranges path_chars (code c)) w"
    using W by (cases "uri_path u") (auto simp: Uri_getPath_def)
  have s: "?s = ?sch @ ''://'' @ ?a @ ''/'' @ w @ tail_text (uri_query u) (uri_fragment u)"
    using Uri_toString_split [OF _ w(1)] W by simp
  let ?u1 = "Uri_new\<lparr>uri_scheme := ?sch\<rparr>"
  let ?u2 = "?u1\<lparr>uri_userinfo := uri_userinfo u, uri_host := uri_host u, uri_port := ?port\<rparr>"
  have 1: "uri_at ?s (Inr (Uri_new, None)) 451 0 = uri_at ?s (Inr (?u1, None)) 511 (length (?sch @ ''://''))"
    using read_scheme [OF s] W by blast
  have po: "case port_of u of None \<Rightarrow> True | Some n \<Rightarrow> n < 2 ^ 31" using W by (simp add: port_of_def nat_less_iff)
  have "(case port_of u of None \<Rightarrow> 0 | Some n \<Rightarrow> int n) = ?port" using W by (simp add: port_of_def)
  then have 2: "uri_at ?s (Inr (?u1, None)) 511 (length (?sch @ ''://'')) = uri_at ?s (Inr (?u2, Some (length ?pre))) 513 (length (?pre @ ''/''))"
    using read_authority [of ?s "?sch @ ''://''" "uri_userinfo u" "uri_host u" "port_of u" "w @ tail_text (uri_query u) (uri_fragment u)" ?u1]
      s po W by (simp add: Uri_new_def)
  obtain cs where 3: "cs \<in> {513, 457, 454}" "uri_finish ?s (uri_at ?s (Inr (?u2, Some (length ?pre))) 513 (length (?pre @ ''/''))) =
      (Inr (?u2\<lparr>uri_path := ''/'' @ w, uri_query := uri_query u, uri_fragment := uri_fragment u\<rparr>, None), cs)"
    using read_path [of ?s ?pre w "uri_query u" "uri_fragment u" ?u2] s w(2) W by (auto simp: Uri_new_def)
  have "?u2\<lparr>uri_path := ''/'' @ w, uri_query := uri_query u, uri_fragment := uri_fragment u\<rparr> = u\<lparr>uri_path := Uri_getPath u, uri_port := ?port\<rparr>"
    using w(1) by (cases u) (simp add: Uri_new_def)
  then show ?thesis
    using 1 2 3 by (auto simp: Uri_Create_def run_at_def)
qed

text \<open>
  C30: Round trip of a URI. Creating a plain URI from the text that \<open>toString\<close> gives returns the same URI, with the default path written out and a default port
  omitted; path, port and text of the two are equal.
\<close>

theorem uri_roundtrip:
  assumes "uri_plain u"
  shows "\<exists>u'. Uri_Create (Uri_toString u) = Inr (Some u') \<and>
    u' = u\<lparr>uri_path := Uri_getPath u, uri_port := (if Uri_isDefaultPort u then 0 else uri_port u)\<rparr> \<and>
    Uri_getPath u' = Uri_getPath u \<and> Uri_getPort u' = Uri_getPort u \<and> Uri_toString u' = Uri_toString u"
proof -
  let ?u = "u\<lparr>uri_path := Uri_getPath u, uri_port := (if Uri_isDefaultPort u then 0 else uri_port u)\<rparr>"
  have p: "Uri_getPath ?u = Uri_getPath u" "Uri_isDefaultPort ?u = Uri_isDefaultPort u" "Uri_getPort ?u = Uri_getPort u"
    by (auto simp: Uri_getPath_def Uri_isDefaultPort_def Uri_getPort_def)
  then have "Uri_toString ?u = Uri_toString u" by (simp add: Uri_toString_def)
  then show ?thesis using Uri_Create_toString [OF assms] p by auto
qed

definition uri_demo :: Uri where
  "uri_demo = \<lparr>uri_scheme = ''http'', uri_userinfo = ''admin'', uri_host = ''www.sylar.top'', uri_path = ''/test/uri'',
     uri_query = ''id=100&name=sylar'', uri_fragment = ''frg'', uri_port = 81\<rparr>"

theorem uri_roundtrip_witness:
  "Uri_Create ''http://admin@www.sylar.top:81/test/uri?id=100&name=sylar#frg'' = Inr (Some uri_demo)"
proof -
  have plain: "uri_plain uri_demo" by code_simp
  have shown: "Uri_toString uri_demo = ''http://admin@www.sylar.top:81/test/uri?id=100&name=sylar#frg''" by code_simp
  have "uri_demo\<lparr>uri_path := Uri_getPath uri_demo, uri_port := (if Uri_isDefaultPort uri_demo then 0 else uri_port uri_demo)\<rparr> = uri_demo"
    by code_simp
  then show ?thesis using uri_roundtrip [OF plain] shown by simp
qed

section \<open>Numeric user parts and empty ports\<close>

text \<open>
  The digits behind a colon may be a port, so that the automaton sets the mark at the first of them; when an \<open>@\<close> follows, only they are taken for the user part: \<open>u:12@h\<close> gives the
  user \<open>12\<close>.
\<close>

lemma code_demo:
  "code CHR ''h'' = 104" "code CHR ''t'' = 116" "code CHR ''p'' = 112" "code CHR ''u'' = 117" "code CHR ''1'' = 49" "code CHR ''2'' = 50"
  by code_simp+

lemmas uri_eval =
  Uri_Create_def uri_rows edge_def widec_def find_label_map_of uri_labels code_demo uri_act_def save_def uri_setters uri_finish_def
  uri_eof_tail Let_def

lemma uri_numeric_password:
  "\<exists>u. Uri_Create ''http://u:12@h/p'' = Inr (Some u) \<and> uri_userinfo u = ''12'' \<and> uri_host u = ''h''"
  by (simp add: uri_eval)

lemma uri_empty_port_throws: "Uri_Create ''http://h:/p'' = Inl LogicError"
  by (simp add: uri_eval)

end
