(* ===== verification/Mingo_Uri_Props.thy ===== *)
theory Mingo_Uri_Props
  imports Mingo_Uri_Roundtrip
begin

text \<open>
  Properties of \<^verbatim>\<open>mingo/uri.cpp\<close>: the texts on which the creation of a URI can throw, by a check of the whole table.
\<close>

section \<open>When the mark is set\<close>

text \<open>
  In these states \<open>mark\<close> is not null, provided no empty port has been read; before these a colon has been read; these are entered by a
  colon that is not the first one.
\<close>

definition uri_marked :: "int \<Rightarrow> bool" where
  "uri_marked = in_ranges [(1, 2), (7, 450), (454, 454), (457, 457), (460, 468), (470, 508), (512, 521), (523, 560)]"

definition uri_coloned :: "int \<Rightarrow> bool" where
  "uri_coloned = in_ranges [(33, 35), (43, 224), (229, 450), (461, 462), (468, 468), (489, 489), (509, 560)]"

definition uri_after_colon :: "int \<Rightarrow> bool" where
  "uri_after_colon = in_ranges [(514, 514), (521, 521)]"

text \<open>Whether the mark is known to be set after the actions; \<open>None\<close> when one of them may use a null mark.\<close>

fun abs_marks :: "uri_action list \<Rightarrow> bool \<Rightarrow> bool option" where
  "abs_marks [] m = Some m"
| "abs_marks (a # as) m =
     (case a of
        Uri_marku \<Rightarrow> abs_marks as True
      | Uri_markh \<Rightarrow> abs_marks as True
      | Uri_save_host \<Rightarrow> abs_marks as m
      | Uri_save_userinfo \<Rightarrow> abs_marks as False
      | _ \<Rightarrow> if m then abs_marks as False else None)"

definition delimiter :: "int \<Rightarrow> bool" where
  "delimiter c \<longleftrightarrow> c = 35 \<or> c = 47 \<or> c = 63"

definition uri_entry_ok :: "int \<Rightarrow> int \<Rightarrow> int \<Rightarrow> uri_action list \<Rightarrow> int \<Rightarrow> bool" where
  "uri_entry_ok cs lo hi as s \<longleftrightarrow>
     (uri_after_colon s \<longrightarrow> lo = 58 \<and> hi = 58 \<and> uri_coloned cs) \<and>
     (uri_coloned s \<longrightarrow> uri_coloned cs \<or> lo = 58 \<and> hi = 58) \<and>
     (uri_after_colon cs \<and> lo = hi \<and> delimiter lo \<or>
      (case abs_marks as (uri_marked cs) of None \<Rightarrow> False | Some m \<Rightarrow> uri_marked s \<longrightarrow> m))"

definition uri_part_ok :: "uri_action part \<Rightarrow> bool" where
  "uri_part_ok p \<longleftrightarrow> all_entries uri_entry_ok (labels_of uri_table) (fst p)"

text \<open>The check of the table, part by part.\<close>

lemma uri_parts_ok_1:
  "uri_part_ok uri_part_1"
  "uri_part_ok uri_part_2"
  "uri_part_ok uri_part_3"
  "uri_part_ok uri_part_4"
  "uri_part_ok uri_part_5"
  "uri_part_ok uri_part_6"
  "uri_part_ok uri_part_7"
  "uri_part_ok uri_part_8"
  "uri_part_ok uri_part_9"
  "uri_part_ok uri_part_10"
  unfolding uri_part_ok_def uri_labels by code_simp+

lemma uri_parts_ok_2:
  "uri_part_ok uri_part_11"
  "uri_part_ok uri_part_12"
  "uri_part_ok uri_part_13"
  "uri_part_ok uri_part_14"
  "uri_part_ok uri_part_15"
  "uri_part_ok uri_part_16"
  "uri_part_ok uri_part_17"
  "uri_part_ok uri_part_18"
  "uri_part_ok uri_part_19"
  "uri_part_ok uri_part_20"
  unfolding uri_part_ok_def uri_labels by code_simp+

lemma uri_parts_ok_3:
  "uri_part_ok uri_part_21"
  "uri_part_ok uri_part_22"
  "uri_part_ok uri_part_23"
  "uri_part_ok uri_part_24"
  "uri_part_ok uri_part_25"
  "uri_part_ok uri_part_26"
  "uri_part_ok uri_part_27"
  "uri_part_ok uri_part_28"
  "uri_part_ok uri_part_29"
  "uri_part_ok uri_part_30"
  unfolding uri_part_ok_def uri_labels by code_simp+

lemma uri_parts_ok_4:
  "uri_part_ok uri_part_31"
  "uri_part_ok uri_part_32"
  "uri_part_ok uri_part_33"
  "uri_part_ok uri_part_34"
  "uri_part_ok uri_part_35"
  "uri_part_ok uri_part_36"
  "uri_part_ok uri_part_37"
  "uri_part_ok uri_part_38"
  "uri_part_ok uri_part_39"
  "uri_part_ok uri_part_40"
  unfolding uri_part_ok_def uri_labels by code_simp+

lemma uri_parts_ok_5:
  "uri_part_ok uri_part_41"
  "uri_part_ok uri_part_42"
  "uri_part_ok uri_part_43"
  "uri_part_ok uri_part_44"
  "uri_part_ok uri_part_45"
  "uri_part_ok uri_part_46"
  "uri_part_ok uri_part_47"
  "uri_part_ok uri_part_48"
  "uri_part_ok uri_part_49"
  "uri_part_ok uri_part_50"
  unfolding uri_part_ok_def uri_labels by code_simp+

lemma uri_parts_ok_6:
  "uri_part_ok uri_part_51"
  "uri_part_ok uri_part_52"
  "uri_part_ok uri_part_53"
  "uri_part_ok uri_part_54"
  "uri_part_ok uri_part_55"
  "uri_part_ok uri_part_56"
  "uri_part_ok uri_part_57"
  "uri_part_ok uri_part_58"
  "uri_part_ok uri_part_59"
  "uri_part_ok uri_part_60"
  unfolding uri_part_ok_def uri_labels by code_simp+

lemma uri_parts_ok_7:
  "uri_part_ok uri_part_61"
  "uri_part_ok uri_part_62"
  "uri_part_ok uri_part_63"
  "uri_part_ok uri_part_64"
  "uri_part_ok uri_part_65"
  "uri_part_ok uri_part_66"
  "uri_part_ok uri_part_67"
  "uri_part_ok uri_part_68"
  "uri_part_ok uri_part_69"
  "uri_part_ok uri_part_70"
  unfolding uri_part_ok_def uri_labels by code_simp+

lemmas uri_parts_ok =
  uri_parts_ok_1 uri_parts_ok_2 uri_parts_ok_3 uri_parts_ok_4 uri_parts_ok_5 uri_parts_ok_6 uri_parts_ok_7

lemma uri_table_ok: "all_entries uri_entry_ok (labels_of uri_table) (blocks_of uri_table)"
proof -
  have "list_all uri_part_ok uri_table" unfolding uri_table_def by (simp add: uri_parts_ok)
  then show ?thesis unfolding all_entries_parts uri_part_ok_def [abs_def] by (simp only:)
qed

lemma uri_eof_ok:
  "list_all (\<lambda>(ss, as). list_all (\<lambda>cs. uri_after_colon cs \<or> abs_marks as (uri_marked cs) \<noteq> None) ss) uri_eof"
  by code_simp

section \<open>Creation does not throw\<close>

lemma abs_marks_sound:
  assumes "abs_marks as m = Some m'" and "m \<longrightarrow> mk \<noteq> None"
  shows "\<exists>u' mk'. fold (\<lambda>a. uri_act text a p) as (Inr (u, mk)) = Inr (u', mk') \<and> (m' \<longrightarrow> mk' \<noteq> None)"
  using assms
proof (induction as arbitrary: m mk u)
  case Nil
  then show ?case by simp
next
  case (Cons a as)
  have "\<exists>u1 mk1 m1. uri_do text a p (u, mk) = Inr (u1, mk1) \<and> (m1 \<longrightarrow> mk1 \<noteq> None) \<and> abs_marks as m1 = Some m'"
    using Cons.prems by (cases a) (auto simp: save_def split: if_splits)
  then show ?case using Cons.IH by (auto simp: uri_act_def)
qed

text \<open>Whether some colon that is not the first one stands before \<open>/\<close>, \<open>?\<close>, \<open>#\<close> or the end.\<close>

fun empty_port :: "bool \<Rightarrow> string \<Rightarrow> bool" where
  "empty_port seen [] \<longleftrightarrow> False"
| "empty_port seen (c # cs) \<longleftrightarrow>
     (if c = CHR '':'' then seen \<and> (cs = [] \<or> hd cs = CHR ''/'' \<or> hd cs = CHR ''?'' \<or> hd cs = CHR ''#'') \<or> empty_port True cs
      else empty_port seen cs)"

lemma empty_port_later:
  assumes "CHR '':'' \<in> set pre \<or> seen"
    and "post = [] \<or> hd post = CHR ''/'' \<or> hd post = CHR ''?'' \<or> hd post = CHR ''#''"
  shows "empty_port seen (pre @ CHR '':'' # post)"
  using assms by (induction pre arbitrary: seen) auto

lemma c_char_ascii:
  assumes "c_char b = int n"
  shows "char_of_byte b = char_of n"
proof -
  have "b = word_of_int (int n)" using assms by (simp flip: assms add: c_char_def)
  moreover have "n < 128" using assms sint_lt [of b] by (simp add: c_char_def)
  ultimately show ?thesis by (simp add: char_of_byte_def unat_of_nat)
qed

lemma delimiter_chars:
  "char_of (35 :: nat) = CHR ''#''" "char_of (47 :: nat) = CHR ''/''" "char_of (58 :: nat) = CHR '':''" "char_of (63 :: nat) = CHR ''?''"
  by code_simp+

lemma widec_plain:
  assumes "lo \<le> widec False ws (c_char b)" and "widec False ws (c_char b) \<le> lo" and "lo < 128"
  shows "c_char b = lo"
  using assms sint_ge [of b] by (auto simp: widec_def c_char_def split: if_splits)

definition uri_inv :: "byte list \<Rightarrow> uri_state \<Rightarrow> int \<Rightarrow> bool" where
  "uri_inv w x cs \<longleftrightarrow>
     (\<exists>u mk. x = Inr (u, mk) \<and> (uri_marked cs \<longrightarrow> mk \<noteq> None)) \<and>
     (uri_coloned cs \<longrightarrow> CHR '':'' \<in> set (to_text w)) \<and>
     (uri_after_colon cs \<longrightarrow> (\<exists>v. to_text w = v @ '':'' \<and> CHR '':'' \<in> set v))"

lemma uri_inv_step:
  assumes inv: "uri_inv w x cs" and pre: "prefix (w @ [c]) (to_bytes text)" and ok: "\<not> empty_port False text"
    and b: "find_block uri_table cs = Some b" and e: "edge uri_table False b (c_char c) = Some (as, s)"
  shows "uri_inv (w @ [c]) (fold (\<lambda>a. uri_act text a (length w)) as x) s"
proof -
  obtain ws rs where b2: "b = (ws, rs)" by (cases b)
  obtain lo hi where r: "lo \<le> widec False ws (c_char c)" "widec False ws (c_char c) \<le> hi" and chk: "uri_entry_ok cs lo hi as s"
    using all_entries_edge [OF uri_table_ok, of cs ws rs False "c_char c" as s] b e b2 by blast
  have colon: "char_of_byte c = CHR '':''" if "lo = 58" "hi = 58"
    using widec_plain [of 58 ws c] r that c_char_ascii [of c 58] by (simp add: delimiter_chars)
  obtain post where post: "text = to_text w @ char_of_byte c # post"
    using pre by (auto simp: prefix_def) (metis append.assoc append_Cons append_Nil map_append list.simps(9) to_text_to_bytes(1))
  have fine: "\<not> (uri_after_colon cs \<and> lo = hi \<and> delimiter lo)"
  proof
    assume a: "uri_after_colon cs \<and> lo = hi \<and> delimiter lo"
    then obtain v where v: "to_text w = v @ '':''" "CHR '':'' \<in> set v" using inv by (auto simp: uri_inv_def)
    have "c_char c = lo" using widec_plain [of lo ws c] r a by (auto simp: delimiter_def)
    then have "char_of_byte c = CHR ''/'' \<or> char_of_byte c = CHR ''?'' \<or> char_of_byte c = CHR ''#''"
      using a c_char_ascii [of c 47] c_char_ascii [of c 63] c_char_ascii [of c 35] by (auto simp: delimiter_def delimiter_chars)
    then show False using ok post v empty_port_later [of v False "char_of_byte c # post"] by auto
  qed
  obtain u mk where x: "x = Inr (u, mk)" "uri_marked cs \<longrightarrow> mk \<noteq> None" using inv by (auto simp: uri_inv_def)
  obtain m' where m: "abs_marks as (uri_marked cs) = Some m'" "uri_marked s \<longrightarrow> m'"
    using chk fine by (auto simp: uri_entry_ok_def split: option.splits)
  obtain u' mk' where "fold (\<lambda>a. uri_act text a (length w)) as (Inr (u, mk)) = Inr (u', mk')" "m' \<longrightarrow> mk' \<noteq> None"
    using abs_marks_sound [OF m(1) x(2)] by blast
  moreover have "uri_coloned s \<longrightarrow> CHR '':'' \<in> set (to_text (w @ [c]))"
    using chk inv colon by (auto simp: uri_entry_ok_def uri_inv_def)
  moreover have "uri_after_colon s \<longrightarrow> (\<exists>v. to_text (w @ [c]) = v @ '':'' \<and> CHR '':'' \<in> set v)"
    using chk inv colon by (auto simp: uri_entry_ok_def uri_inv_def)
  ultimately show ?thesis using x(1) m(2) by (auto simp: uri_inv_def)
qed

interpretation uri_run: machine_invariant uri_table False "uri_act uristr" "\<lambda>_. False" "to_bytes uristr"
    "\<lambda>w x cs. \<not> empty_port False uristr \<longrightarrow> uri_inv w x cs" for uristr
  by unfold_locales (blast intro: uri_inv_step)

lemma eof_actions_ok: "uri_after_colon cs \<or> abs_marks (eof_actions uri_eof cs) (uri_marked cs) \<noteq> None"
proof -
  have "list_all (\<lambda>(ss, as). list_all (\<lambda>cs. uri_after_colon cs \<or> abs_marks as (uri_marked cs) \<noteq> None) ss) es \<Longrightarrow>
      uri_after_colon cs \<or> abs_marks (eof_actions es cs) (uri_marked cs) \<noteq> None" for es
    by (induction es cs rule: eof_actions.induct) (auto simp: list_all_iff)
  then show ?thesis using uri_eof_ok by blast
qed

lemma Uri_Create_returns:
  assumes ok: "\<not> empty_port False text"
  shows "\<exists>r. Uri_Create text = Inr r"
proof -
  let ?run = "machine uri_table False (uri_act text) (\<lambda>_. False) (Inr (Uri_new, None)) uri_parser_start 0 (to_bytes text)"
  obtain x cs p where run: "?run = (x, cs, p)" by (cases ?run) auto
  have start: "uri_inv [] (Inr (Uri_new, None)) uri_parser_start"
    by (simp add: uri_inv_def uri_marked_def uri_coloned_def uri_after_colon_def)
  obtain v cs0 where v: "prefix v (to_bytes text)" "length v = p" "uri_inv v x cs0" "cs = cs0 \<or> cs = 0 \<and> p < length text"
    using uri_run.machine_keeps [of "text" "[]" "Inr (Uri_new, None)" uri_parser_start "to_bytes text" x cs p] start ok run by auto
  obtain u mk where x: "x = Inr (u, mk)" "uri_marked cs0 \<longrightarrow> mk \<noteq> None" using v(3) by (auto simp: uri_inv_def)
  have "\<exists>y. fst (uri_finish text (x, cs, p)) = Inr y"
  proof (cases "p = length text")
    case True
    then have whole: "to_text v = text" "cs = cs0"
      using v by (auto simp: prefix_def) (metis append_Nil2 length_0_conv length_append length_map add_cancel_left_right map_append to_text_to_bytes(1))
    have "\<not> uri_after_colon cs0"
    proof
      assume "uri_after_colon cs0"
      then obtain w where "text = w @ '':''" "CHR '':'' \<in> set w" using v(3) whole by (auto simp: uri_inv_def)
      then show False using ok empty_port_later [of w False "[]"] by simp
    qed
    then obtain m' where "abs_marks (eof_actions uri_eof cs) (uri_marked cs0) = Some m'"
      using eof_actions_ok [of cs0] whole(2) by auto
    from abs_marks_sound [OF this x(2)] show ?thesis using True x(1) by (fastforce simp: uri_finish_def)
  next
    case False
    then show ?thesis using x(1) by (simp add: uri_finish_def)
  qed
  then show ?thesis using run by (auto simp: Uri_Create_def split: prod.splits sum.splits)
qed



end
