(* ===== verification/Mingo_HttpClient_Table.thy ===== *)
theory Mingo_HttpClient_Table
  imports Mingo_Ragel
begin

text \<open>
  The table of the response automaton of \<^verbatim>\<open>mingo/http/httpclient_parser.rl.cpp\<close>, which also reads the heads of chunks. The
  actions are those that \<^verbatim>\<open>httpclient_parser.rl\<close> names.
\<close>

datatype rsp_action =
    Rsp_mark
  | Rsp_start_field
  | Rsp_write_field
  | Rsp_start_value
  | Rsp_write_content_len
  | Rsp_write_connection_close
  | Rsp_write_value
  | Rsp_reason_phrase
  | Rsp_status_code
  | Rsp_http_version
  | Rsp_chunk_size
  | Rsp_trans_chunked
  | Rsp_done

definition httpclient_part_1 :: "rsp_action part" where
  "httpclient_part_1 = (
     [(1, [], [(48, 57, Tr 0), (65, 70, Tr 0), (72, 72, Tr 2), (97, 102, Tr 0)]),
      (2, [], [(10, 10, Tr 3), (13, 13, Tr 4), (48, 57, St 2), (59, 59, Tr 6), (65, 70, St 2), (97, 102, St 2)]),
      (120, [], [])],
     [(0, [Rsp_mark], 2),
      (3, [Rsp_chunk_size, Rsp_done], 120),
      (7, [Rsp_done], 120),
      (9, [Rsp_write_field, Rsp_start_value, Rsp_write_value, Rsp_done], 120),
      (15, [Rsp_write_value, Rsp_done], 120),
      (74, [Rsp_write_connection_close, Rsp_done], 120),
      (4, [Rsp_chunk_size], 3)])"

definition httpclient_part_2 :: "rsp_action part" where
  "httpclient_part_2 = (
     [(3, [], [(10, 10, Tr 7)]),
      (4, [], [(33, 33, Tr 8), (35, 39, Tr 8), (42, 43, Tr 8), (45, 46, Tr 8), (48, 57, Tr 8), (65, 90, Tr 8), (94, 122, Tr 8), (124,
        124, Tr 8), (126, 126, Tr 8)]),
      (5, [], [(10, 10, Tr 9), (13, 13, Tr 10), (33, 33, St 5), (35, 39, St 5), (42, 43, St 5), (45, 46, St 5), (48, 57, St 5), (59, 59,
        Tr 12), (61, 61, Tr 13), (65, 90, St 5), (94, 122, St 5), (124, 124, St 5), (126, 126, St 5)])],
     [(10, [Rsp_write_field, Rsp_start_value, Rsp_write_value], 3),
      (16, [Rsp_write_value], 3),
      (75, [Rsp_write_connection_close], 3),
      (6, [Rsp_chunk_size], 4),
      (12, [Rsp_write_field, Rsp_start_value, Rsp_write_value], 4),
      (18, [Rsp_write_value], 4),
      (8, [Rsp_start_field], 5),
      (13, [Rsp_write_field, Rsp_start_value], 6)])"

definition httpclient_part_3 :: "rsp_action part" where
  "httpclient_part_3 = (
     [(6, [], [(33, 33, Tr 14), (35, 39, Tr 14), (42, 43, Tr 14), (45, 46, Tr 14), (48, 57, Tr 14), (65, 90, Tr 14), (94, 122, Tr 14),
        (124, 124, Tr 14), (126, 126, Tr 14)]),
      (7, [], [(10, 10, Tr 15), (13, 13, Tr 16), (33, 33, St 7), (35, 39, St 7), (42, 43, St 7), (45, 46, St 7), (48, 57, St 7), (59,
        59, Tr 18), (65, 90, St 7), (94, 122, St 7), (124, 124, St 7), (126, 126, St 7)]),
      (8, [], [(84, 84, St 9)]),
      (9, [], [(84, 84, St 10)]),
      (10, [], [(80, 80, St 11)]),
      (11, [], [(47, 47, St 12)]),
      (12, [], [(48, 57, St 13)]),
      (13, [], [(46, 46, St 14), (48, 57, St 13)]),
      (14, [], [(48, 57, St 15)]),
      (15, [], [(32, 32, Tr 26), (48, 57, St 15)]),
      (16, [], [(48, 57, Tr 27)])],
     [(14, [Rsp_start_value], 7),
      (2, [Rsp_mark], 8),
      (26, [Rsp_http_version], 16),
      (27, [Rsp_mark], 17)])"

definition httpclient_part_4 :: "rsp_action part" where
  "httpclient_part_4 = (
     [(17, [], [(32, 32, Tr 28), (48, 57, St 17)]),
      (18, [], [(- 128, 9, Tr 30), (11, 127, Tr 30)]),
      (19, [], [(- 128, 9, St 19), (10, 10, Tr 32), (11, 12, St 19), (13, 13, Tr 33), (14, 127, St 19)]),
      (20, [], [(10, 10, Tr 7), (13, 13, St 3), (33, 33, Tr 35), (35, 39, Tr 35), (42, 43, Tr 35), (45, 46, Tr 35), (48, 57, Tr 35),
        (65, 66, Tr 35), (67, 67, Tr 36), (68, 83, Tr 35), (84, 84, Tr 37), (85, 90, Tr 35), (94, 98, Tr 35), (99, 99, Tr 36), (100,
        115, Tr 35), (116, 116, Tr 37), (117, 122, Tr 35), (124, 124, Tr 35), (126, 126, Tr 35)])],
     [(28, [Rsp_status_code], 18),
      (30, [Rsp_mark], 19),
      (45, [Rsp_write_value], 20),
      (32, [Rsp_reason_phrase], 20),
      (42, [Rsp_start_value, Rsp_write_value], 20),
      (111, [Rsp_write_value, Rsp_trans_chunked], 20),
      (113, [Rsp_trans_chunked], 20),
      (158, [Rsp_write_content_len, Rsp_write_value], 20),
      (35, [Rsp_start_field], 21),
      (76, [Rsp_write_connection_close, Rsp_start_field], 21)])"

definition httpclient_part_5 :: "rsp_action part" where
  "httpclient_part_5 = (
     [(21, [], [(33, 33, St 21), (35, 39, St 21), (42, 43, St 21), (45, 46, St 21), (48, 57, St 21), (58, 58, Tr 39), (65, 90, St 21),
        (94, 122, St 21), (124, 124, St 21), (126, 126, St 21)]),
      (22, [], [(- 128, 8, Tr 40), (9, 9, Tr 41), (10, 10, Tr 42), (11, 12, Tr 41), (13, 13, Tr 43), (14, 31, Tr 40), (32, 32, Tr 41),
        (33, 127, Tr 40)]),
      (23, [], [(- 128, 9, St 23), (10, 10, Tr 45), (11, 12, St 23), (13, 13, Tr 46), (14, 127, St 23)]),
      (24, [], [(10, 10, St 20)])],
     [(41, [Rsp_start_value], 22),
      (39, [Rsp_write_field], 22),
      (40, [Rsp_start_value], 23),
      (46, [Rsp_write_value], 24),
      (33, [Rsp_reason_phrase], 24),
      (43, [Rsp_start_value, Rsp_write_value], 24),
      (159, [Rsp_write_content_len, Rsp_write_value], 24),
      (36, [Rsp_start_field], 25),
      (77, [Rsp_write_connection_close, Rsp_start_field], 25)])"

definition httpclient_part_6 :: "rsp_action part" where
  "httpclient_part_6 = (
     [(25, [], [(33, 33, St 21), (35, 39, St 21), (42, 43, St 21), (45, 46, St 21), (48, 57, St 21), (58, 58, Tr 39), (65, 78, St 21),
        (79, 79, St 26), (80, 90, St 21), (94, 110, St 21), (111, 111, St 26), (112, 122, St 21), (124, 124, St 21), (126, 126, St
        21)]),
      (26, [], [(33, 33, St 21), (35, 39, St 21), (42, 43, St 21), (45, 46, St 21), (48, 57, St 21), (58, 58, Tr 39), (65, 77, St 21),
        (78, 78, St 27), (79, 90, St 21), (94, 109, St 21), (110, 110, St 27), (111, 122, St 21), (124, 124, St 21), (126, 126, St
        21)]),
      (27, [], [(33, 33, St 21), (35, 39, St 21), (42, 43, St 21), (45, 46, St 21), (48, 57, St 21), (58, 58, Tr 39), (65, 77, St 21),
        (78, 78, St 28), (79, 83, St 21), (84, 84, St 101), (85, 90, St 21), (94, 109, St 21), (110, 110, St 28), (111, 115, St 21),
        (116, 116, St 101), (117, 122, St 21), (124, 124, St 21), (126, 126, St 21)]),
      (28, [], [(33, 33, St 21), (35, 39, St 21), (42, 43, St 21), (45, 46, St 21), (48, 57, St 21), (58, 58, Tr 39), (65, 68, St 21),
        (69, 69, St 29), (70, 90, St 21), (94, 100, St 21), (101, 101, St 29), (102, 122, St 21), (124, 124, St 21), (126, 126, St
        21)]),
      (29, [], [(33, 33, St 21), (35, 39, St 21), (42, 43, St 21), (45, 46, St 21), (48, 57, St 21), (58, 58, Tr 39), (65, 66, St 21),
        (67, 67, St 30), (68, 90, St 21), (94, 98, St 21), (99, 99, St 30), (100, 122, St 21), (124, 124, St 21), (126, 126, St
        21)])],
     [])"

definition httpclient_part_7 :: "rsp_action part" where
  "httpclient_part_7 = (
     [(30, [], [(33, 33, St 21), (35, 39, St 21), (42, 43, St 21), (45, 46, St 21), (48, 57, St 21), (58, 58, Tr 39), (65, 83, St 21),
        (84, 84, St 31), (85, 90, St 21), (94, 115, St 21), (116, 116, St 31), (117, 122, St 21), (124, 124, St 21), (126, 126, St
        21)]),
      (31, [], [(33, 33, St 21), (35, 39, St 21), (42, 43, St 21), (45, 46, St 21), (48, 57, St 21), (58, 58, Tr 39), (65, 72, St 21),
        (73, 73, St 32), (74, 90, St 21), (94, 104, St 21), (105, 105, St 32), (106, 122, St 21), (124, 124, St 21), (126, 126, St
        21)]),
      (32, [], [(33, 33, St 21), (35, 39, St 21), (42, 43, St 21), (45, 46, St 21), (48, 57, St 21), (58, 58, Tr 39), (65, 78, St 21),
        (79, 79, St 33), (80, 90, St 21), (94, 110, St 21), (111, 111, St 33), (112, 122, St 21), (124, 124, St 21), (126, 126, St
        21)]),
      (33, [], [(33, 33, St 21), (35, 39, St 21), (42, 43, St 21), (45, 46, St 21), (48, 57, St 21), (58, 58, Tr 39), (65, 77, St 21),
        (78, 78, St 34), (79, 90, St 21), (94, 109, St 21), (110, 110, St 34), (111, 122, St 21), (124, 124, St 21), (126, 126, St
        21)]),
      (34, [], [(33, 33, St 21), (35, 39, St 21), (42, 43, St 21), (45, 46, St 21), (48, 57, St 21), (58, 58, Tr 58), (65, 90, St 21),
        (94, 122, St 21), (124, 124, St 21), (126, 126, St 21)])],
     [])"

definition httpclient_part_8 :: "rsp_action part" where
  "httpclient_part_8 = (
     [(35, [], [(- 128, 8, Tr 40), (9, 9, Tr 59), (10, 10, Tr 60), (11, 12, Tr 59), (13, 13, Tr 61), (14, 31, Tr 40), (32, 32, Tr 59),
        (33, 66, Tr 40), (67, 67, Tr 62), (68, 98, Tr 40), (99, 99, Tr 62), (100, 127, Tr 40)]),
      (36, [], [(9, 9, St 37), (10, 10, Tr 64), (11, 12, St 37), (13, 13, St 89), (32, 32, St 37), (33, 33, Tr 35), (35, 39, Tr 35),
        (42, 43, Tr 35), (45, 46, Tr 35), (48, 57, Tr 35), (65, 66, Tr 35), (67, 67, Tr 66), (68, 83, Tr 35), (84, 84, Tr 37), (85,
        90, Tr 35), (94, 98, Tr 35), (99, 99, Tr 66), (100, 115, Tr 35), (116, 116, Tr 37), (117, 122, Tr 35), (124, 124, Tr 35),
        (126, 126, Tr 35)]),
      (37, [], [(9, 13, St 37), (32, 32, St 37), (67, 67, St 38), (99, 99, St 38)]),
      (38, [], [(76, 76, St 39), (108, 108, St 39)]),
      (39, [], [(79, 79, St 40), (111, 111, St 40)]),
      (40, [], [(83, 83, St 41), (115, 115, St 41)]),
      (41, [], [(69, 69, St 42), (101, 101, St 42)]),
      (42, [], [(10, 10, St 43), (13, 13, St 88)])],
     [(59, [Rsp_start_value], 35),
      (58, [Rsp_write_field], 35),
      (60, [Rsp_start_value, Rsp_write_value], 36),
      (136, [Rsp_write_value], 43)])"

definition httpclient_part_9 :: "rsp_action part" where
  "httpclient_part_9 = (
     [(43, [], [(10, 10, Tr 74), (13, 13, Tr 75), (33, 33, Tr 76), (35, 39, Tr 76), (42, 43, Tr 76), (45, 46, Tr 76), (48, 57, Tr 76),
        (65, 66, Tr 76), (67, 67, Tr 77), (68, 83, Tr 76), (84, 84, Tr 78), (85, 90, Tr 76), (94, 98, Tr 76), (99, 99, Tr 77), (100,
        115, Tr 76), (116, 116, Tr 78), (117, 122, Tr 76), (124, 124, Tr 76), (126, 126, Tr 76)]),
      (44, [], [(33, 33, St 21), (35, 39, St 21), (42, 43, St 21), (45, 46, St 21), (48, 57, St 21), (58, 58, Tr 39), (65, 81, St 21),
        (82, 82, St 45), (83, 90, St 21), (94, 113, St 21), (114, 114, St 45), (115, 122, St 21), (124, 124, St 21), (126, 126, St
        21)]),
      (45, [], [(33, 33, St 21), (35, 39, St 21), (42, 43, St 21), (45, 46, St 21), (48, 57, St 21), (58, 58, Tr 39), (65, 65, St 46),
        (66, 90, St 21), (94, 96, St 21), (97, 97, St 46), (98, 122, St 21), (124, 124, St 21), (126, 126, St 21)]),
      (46, [], [(33, 33, St 21), (35, 39, St 21), (42, 43, St 21), (45, 46, St 21), (48, 57, St 21), (58, 58, Tr 39), (65, 77, St 21),
        (78, 78, St 47), (79, 90, St 21), (94, 109, St 21), (110, 110, St 47), (111, 122, St 21), (124, 124, St 21), (126, 126, St
        21)])],
     [(37, [Rsp_start_field], 44),
      (78, [Rsp_write_connection_close, Rsp_start_field], 44)])"

definition httpclient_part_10 :: "rsp_action part" where
  "httpclient_part_10 = (
     [(47, [], [(33, 33, St 21), (35, 39, St 21), (42, 43, St 21), (45, 46, St 21), (48, 57, St 21), (58, 58, Tr 39), (65, 82, St 21),
        (83, 83, St 48), (84, 90, St 21), (94, 114, St 21), (115, 115, St 48), (116, 122, St 21), (124, 124, St 21), (126, 126, St
        21)]),
      (48, [], [(33, 33, St 21), (35, 39, St 21), (42, 43, St 21), (45, 46, St 21), (48, 57, St 21), (58, 58, Tr 39), (65, 69, St 21),
        (70, 70, St 49), (71, 90, St 21), (94, 101, St 21), (102, 102, St 49), (103, 122, St 21), (124, 124, St 21), (126, 126, St
        21)]),
      (49, [], [(33, 33, St 21), (35, 39, St 21), (42, 43, St 21), (45, 46, St 21), (48, 57, St 21), (58, 58, Tr 39), (65, 68, St 21),
        (69, 69, St 50), (70, 90, St 21), (94, 100, St 21), (101, 101, St 50), (102, 122, St 21), (124, 124, St 21), (126, 126, St
        21)]),
      (50, [], [(33, 33, St 21), (35, 39, St 21), (42, 43, St 21), (45, 46, St 21), (48, 57, St 21), (58, 58, Tr 39), (65, 81, St 21),
        (82, 82, St 51), (83, 90, St 21), (94, 113, St 21), (114, 114, St 51), (115, 122, St 21), (124, 124, St 21), (126, 126, St
        21)]),
      (51, [], [(33, 33, St 21), (35, 39, St 21), (42, 43, St 21), (45, 45, St 52), (46, 46, St 21), (48, 57, St 21), (58, 58, Tr 39),
        (65, 90, St 21), (94, 122, St 21), (124, 124, St 21), (126, 126, St 21)])],
     [])"

definition httpclient_part_11 :: "rsp_action part" where
  "httpclient_part_11 = (
     [(52, [], [(33, 33, St 21), (35, 39, St 21), (42, 43, St 21), (45, 46, St 21), (48, 57, St 21), (58, 58, Tr 39), (65, 68, St 21),
        (69, 69, St 53), (70, 90, St 21), (94, 100, St 21), (101, 101, St 53), (102, 122, St 21), (124, 124, St 21), (126, 126, St
        21)]),
      (53, [], [(33, 33, St 21), (35, 39, St 21), (42, 43, St 21), (45, 46, St 21), (48, 57, St 21), (58, 58, Tr 39), (65, 77, St 21),
        (78, 78, St 54), (79, 90, St 21), (94, 109, St 21), (110, 110, St 54), (111, 122, St 21), (124, 124, St 21), (126, 126, St
        21)]),
      (54, [], [(33, 33, St 21), (35, 39, St 21), (42, 43, St 21), (45, 46, St 21), (48, 57, St 21), (58, 58, Tr 39), (65, 66, St 21),
        (67, 67, St 55), (68, 90, St 21), (94, 98, St 21), (99, 99, St 55), (100, 122, St 21), (124, 124, St 21), (126, 126, St
        21)]),
      (55, [], [(33, 33, St 21), (35, 39, St 21), (42, 43, St 21), (45, 46, St 21), (48, 57, St 21), (58, 58, Tr 39), (65, 78, St 21),
        (79, 79, St 56), (80, 90, St 21), (94, 110, St 21), (111, 111, St 56), (112, 122, St 21), (124, 124, St 21), (126, 126, St
        21)]),
      (56, [], [(33, 33, St 21), (35, 39, St 21), (42, 43, St 21), (45, 46, St 21), (48, 57, St 21), (58, 58, Tr 39), (65, 67, St 21),
        (68, 68, St 57), (69, 90, St 21), (94, 99, St 21), (100, 100, St 57), (101, 122, St 21), (124, 124, St 21), (126, 126, St
        21)])],
     [])"

definition httpclient_part_12 :: "rsp_action part" where
  "httpclient_part_12 = (
     [(57, [], [(33, 33, St 21), (35, 39, St 21), (42, 43, St 21), (45, 46, St 21), (48, 57, St 21), (58, 58, Tr 39), (65, 72, St 21),
        (73, 73, St 58), (74, 90, St 21), (94, 104, St 21), (105, 105, St 58), (106, 122, St 21), (124, 124, St 21), (126, 126, St
        21)]),
      (58, [], [(33, 33, St 21), (35, 39, St 21), (42, 43, St 21), (45, 46, St 21), (48, 57, St 21), (58, 58, Tr 39), (65, 77, St 21),
        (78, 78, St 59), (79, 90, St 21), (94, 109, St 21), (110, 110, St 59), (111, 122, St 21), (124, 124, St 21), (126, 126, St
        21)]),
      (59, [], [(33, 33, St 21), (35, 39, St 21), (42, 43, St 21), (45, 46, St 21), (48, 57, St 21), (58, 58, Tr 39), (65, 70, St 21),
        (71, 71, St 60), (72, 90, St 21), (94, 102, St 21), (103, 103, St 60), (104, 122, St 21), (124, 124, St 21), (126, 126, St
        21)]),
      (60, [], [(33, 33, St 21), (35, 39, St 21), (42, 43, St 21), (45, 46, St 21), (48, 57, St 21), (58, 58, Tr 95), (65, 90, St 21),
        (94, 122, St 21), (124, 124, St 21), (126, 126, St 21)]),
      (61, [], [(- 128, 8, Tr 40), (9, 9, Tr 96), (10, 10, Tr 97), (11, 12, Tr 96), (13, 13, Tr 98), (14, 31, Tr 40), (32, 32, Tr 96),
        (33, 66, Tr 40), (67, 67, Tr 99), (68, 98, Tr 40), (99, 99, Tr 99), (100, 127, Tr 40)])],
     [(96, [Rsp_start_value], 61),
      (95, [Rsp_write_field], 61),
      (97, [Rsp_start_value, Rsp_write_value], 62)])"

definition httpclient_part_13 :: "rsp_action part" where
  "httpclient_part_13 = (
     [(62, [], [(9, 9, St 63), (10, 10, Tr 101), (11, 12, St 63), (13, 13, St 72), (32, 32, St 63), (33, 33, Tr 35), (35, 39, Tr 35),
        (42, 43, Tr 35), (45, 46, Tr 35), (48, 57, Tr 35), (65, 66, Tr 35), (67, 67, Tr 103), (68, 83, Tr 35), (84, 84, Tr 37), (85,
        90, Tr 35), (94, 98, Tr 35), (99, 99, Tr 103), (100, 115, Tr 35), (116, 116, Tr 37), (117, 122, Tr 35), (124, 124, Tr 35),
        (126, 126, Tr 35)]),
      (63, [], [(9, 13, St 63), (32, 32, St 63), (67, 67, Tr 104), (99, 99, Tr 104)]),
      (64, [], [(72, 72, St 65), (104, 104, St 65)]),
      (65, [], [(85, 85, St 66), (117, 117, St 66)]),
      (66, [], [(78, 78, St 67), (110, 110, St 67)]),
      (67, [], [(75, 75, St 68), (107, 107, St 68)]),
      (68, [], [(69, 69, St 69), (101, 101, St 69)]),
      (69, [], [(68, 68, St 70), (100, 100, St 70)]),
      (70, [], [(10, 10, Tr 111), (13, 13, Tr 112)]),
      (71, [], [(10, 10, Tr 113)])],
     [(104, [Rsp_start_value], 64),
      (112, [Rsp_write_value], 71),
      (101, [Rsp_done], 121)])"

definition httpclient_part_14 :: "rsp_action part" where
  "httpclient_part_14 = (
     [(121, [], [(9, 13, St 63), (32, 32, St 63), (67, 67, Tr 104), (99, 99, Tr 104)]),
      (72, [], [(9, 9, St 63), (10, 10, Tr 101), (11, 13, St 63), (32, 32, St 63), (67, 67, Tr 104), (99, 99, Tr 104)]),
      (73, [], [(33, 33, St 21), (35, 39, St 21), (42, 43, St 21), (45, 46, St 21), (48, 57, St 21), (58, 58, Tr 39), (65, 71, St 21),
        (72, 72, St 74), (73, 78, St 21), (79, 79, St 26), (80, 90, St 21), (94, 103, St 21), (104, 104, St 74), (105, 110, St 21),
        (111, 111, St 26), (112, 122, St 21), (124, 124, St 21), (126, 126, St 21)]),
      (74, [], [(33, 33, St 21), (35, 39, St 21), (42, 43, St 21), (45, 46, St 21), (48, 57, St 21), (58, 58, Tr 39), (65, 84, St 21),
        (85, 85, St 75), (86, 90, St 21), (94, 116, St 21), (117, 117, St 75), (118, 122, St 21), (124, 124, St 21), (126, 126, St
        21)]),
      (75, [], [(33, 33, St 21), (35, 39, St 21), (42, 43, St 21), (45, 46, St 21), (48, 57, St 21), (58, 58, Tr 39), (65, 77, St 21),
        (78, 78, St 76), (79, 90, St 21), (94, 109, St 21), (110, 110, St 76), (111, 122, St 21), (124, 124, St 21), (126, 126, St
        21)])],
     [(103, [Rsp_start_value, Rsp_start_field], 73)])"

definition httpclient_part_15 :: "rsp_action part" where
  "httpclient_part_15 = (
     [(76, [], [(33, 33, St 21), (35, 39, St 21), (42, 43, St 21), (45, 46, St 21), (48, 57, St 21), (58, 58, Tr 39), (65, 74, St 21),
        (75, 75, St 77), (76, 90, St 21), (94, 106, St 21), (107, 107, St 77), (108, 122, St 21), (124, 124, St 21), (126, 126, St
        21)]),
      (77, [], [(33, 33, St 21), (35, 39, St 21), (42, 43, St 21), (45, 46, St 21), (48, 57, St 21), (58, 58, Tr 39), (65, 68, St 21),
        (69, 69, St 78), (70, 90, St 21), (94, 100, St 21), (101, 101, St 78), (102, 122, St 21), (124, 124, St 21), (126, 126, St
        21)]),
      (78, [], [(33, 33, St 21), (35, 39, St 21), (42, 43, St 21), (45, 46, St 21), (48, 57, St 21), (58, 58, Tr 39), (65, 67, St 21),
        (68, 68, St 79), (69, 90, St 21), (94, 99, St 21), (100, 100, St 79), (101, 122, St 21), (124, 124, St 21), (126, 126, St
        21)]),
      (79, [], [(10, 10, Tr 111), (13, 13, Tr 112), (33, 33, St 21), (35, 39, St 21), (42, 43, St 21), (45, 46, St 21), (48, 57, St 21),
        (58, 58, Tr 39), (65, 90, St 21), (94, 122, St 21), (124, 124, St 21), (126, 126, St 21)]),
      (80, [], [(9, 9, St 63), (10, 10, St 62), (11, 13, St 63), (32, 32, St 63), (67, 67, Tr 104), (99, 99, Tr 104)])],
     [(98, [Rsp_start_value, Rsp_write_value], 80),
      (99, [Rsp_start_value], 81)])"

definition httpclient_part_16 :: "rsp_action part" where
  "httpclient_part_16 = (
     [(81, [], [(- 128, 9, St 23), (10, 10, Tr 45), (11, 12, St 23), (13, 13, Tr 46), (14, 71, St 23), (72, 72, St 82), (73, 103, St
        23), (104, 104, St 82), (105, 127, St 23)]),
      (82, [], [(- 128, 9, St 23), (10, 10, Tr 45), (11, 12, St 23), (13, 13, Tr 46), (14, 84, St 23), (85, 85, St 83), (86, 116, St
        23), (117, 117, St 83), (118, 127, St 23)]),
      (83, [], [(- 128, 9, St 23), (10, 10, Tr 45), (11, 12, St 23), (13, 13, Tr 46), (14, 77, St 23), (78, 78, St 84), (79, 109, St
        23), (110, 110, St 84), (111, 127, St 23)]),
      (84, [], [(- 128, 9, St 23), (10, 10, Tr 45), (11, 12, St 23), (13, 13, Tr 46), (14, 74, St 23), (75, 75, St 85), (76, 106, St
        23), (107, 107, St 85), (108, 127, St 23)]),
      (85, [], [(- 128, 9, St 23), (10, 10, Tr 45), (11, 12, St 23), (13, 13, Tr 46), (14, 68, St 23), (69, 69, St 86), (70, 100, St
        23), (101, 101, St 86), (102, 127, St 23)]),
      (86, [], [(- 128, 9, St 23), (10, 10, Tr 45), (11, 12, St 23), (13, 13, Tr 46), (14, 67, St 23), (68, 68, St 87), (69, 99, St 23),
        (100, 100, St 87), (101, 127, St 23)]),
      (87, [], [(- 128, 9, St 23), (10, 10, Tr 111), (11, 12, St 23), (13, 13, Tr 112), (14, 127, St 23)]),
      (88, [], [(10, 10, St 43)]),
      (122, [], [(9, 13, St 37), (32, 32, St 37), (67, 67, St 38), (99, 99, St 38)]),
      (89, [], [(9, 9, St 37), (10, 10, Tr 64), (11, 13, St 37), (32, 32, St 37), (67, 67, St 38), (99, 99, St 38)])],
     [(137, [Rsp_write_value], 88),
      (64, [Rsp_done], 122),
      (66, [Rsp_start_field], 90)])"

definition httpclient_part_17 :: "rsp_action part" where
  "httpclient_part_17 = (
     [(90, [], [(33, 33, St 21), (35, 39, St 21), (42, 43, St 21), (45, 46, St 21), (48, 57, St 21), (58, 58, Tr 39), (65, 75, St 21),
        (76, 76, St 91), (77, 78, St 21), (79, 79, St 26), (80, 90, St 21), (94, 107, St 21), (108, 108, St 91), (109, 110, St 21),
        (111, 111, St 26), (112, 122, St 21), (124, 124, St 21), (126, 126, St 21)]),
      (91, [], [(33, 33, St 21), (35, 39, St 21), (42, 43, St 21), (45, 46, St 21), (48, 57, St 21), (58, 58, Tr 39), (65, 78, St 21),
        (79, 79, St 92), (80, 90, St 21), (94, 110, St 21), (111, 111, St 92), (112, 122, St 21), (124, 124, St 21), (126, 126, St
        21)]),
      (92, [], [(33, 33, St 21), (35, 39, St 21), (42, 43, St 21), (45, 46, St 21), (48, 57, St 21), (58, 58, Tr 39), (65, 82, St 21),
        (83, 83, St 93), (84, 90, St 21), (94, 114, St 21), (115, 115, St 93), (116, 122, St 21), (124, 124, St 21), (126, 126, St
        21)]),
      (93, [], [(33, 33, St 21), (35, 39, St 21), (42, 43, St 21), (45, 46, St 21), (48, 57, St 21), (58, 58, Tr 39), (65, 68, St 21),
        (69, 69, St 94), (70, 90, St 21), (94, 100, St 21), (101, 101, St 94), (102, 122, St 21), (124, 124, St 21), (126, 126, St
        21)]),
      (94, [], [(10, 10, St 43), (13, 13, St 88), (33, 33, St 21), (35, 39, St 21), (42, 43, St 21), (45, 46, St 21), (48, 57, St 21),
        (58, 58, Tr 39), (65, 90, St 21), (94, 122, St 21), (124, 124, St 21), (126, 126, St 21)])],
     [])"

definition httpclient_part_18 :: "rsp_action part" where
  "httpclient_part_18 = (
     [(95, [], [(9, 9, St 37), (10, 10, St 36), (11, 13, St 37), (32, 32, St 37), (67, 67, St 38), (99, 99, St 38)]),
      (96, [], [(- 128, 9, St 23), (10, 10, Tr 45), (11, 12, St 23), (13, 13, Tr 46), (14, 75, St 23), (76, 76, St 97), (77, 107, St
        23), (108, 108, St 97), (109, 127, St 23)]),
      (97, [], [(- 128, 9, St 23), (10, 10, Tr 45), (11, 12, St 23), (13, 13, Tr 46), (14, 78, St 23), (79, 79, St 98), (80, 110, St
        23), (111, 111, St 98), (112, 127, St 23)]),
      (98, [], [(- 128, 9, St 23), (10, 10, Tr 45), (11, 12, St 23), (13, 13, Tr 46), (14, 82, St 23), (83, 83, St 99), (84, 114, St
        23), (115, 115, St 99), (116, 127, St 23)]),
      (99, [], [(- 128, 9, St 23), (10, 10, Tr 45), (11, 12, St 23), (13, 13, Tr 46), (14, 68, St 23), (69, 69, St 100), (70, 100, St
        23), (101, 101, St 100), (102, 127, St 23)]),
      (100, [], [(- 128, 9, St 23), (10, 10, Tr 136), (11, 12, St 23), (13, 13, Tr 137), (14, 127, St 23)]),
      (101, [], [(33, 33, St 21), (35, 39, St 21), (42, 43, St 21), (45, 46, St 21), (48, 57, St 21), (58, 58, Tr 39), (65, 68, St 21),
        (69, 69, St 102), (70, 90, St 21), (94, 100, St 21), (101, 101, St 102), (102, 122, St 21), (124, 124, St 21), (126, 126, St
        21)]),
      (102, [], [(33, 33, St 21), (35, 39, St 21), (42, 43, St 21), (45, 46, St 21), (48, 57, St 21), (58, 58, Tr 39), (65, 77, St 21),
        (78, 78, St 103), (79, 90, St 21), (94, 109, St 21), (110, 110, St 103), (111, 122, St 21), (124, 124, St 21), (126, 126, St
        21)])],
     [(61, [Rsp_start_value, Rsp_write_value], 95),
      (62, [Rsp_start_value], 96)])"

definition httpclient_part_19 :: "rsp_action part" where
  "httpclient_part_19 = (
     [(103, [], [(33, 33, St 21), (35, 39, St 21), (42, 43, St 21), (45, 46, St 21), (48, 57, St 21), (58, 58, Tr 39), (65, 83, St 21),
        (84, 84, St 104), (85, 90, St 21), (94, 115, St 21), (116, 116, St 104), (117, 122, St 21), (124, 124, St 21), (126, 126, St
        21)]),
      (104, [], [(33, 33, St 21), (35, 39, St 21), (42, 43, St 21), (45, 45, St 105), (46, 46, St 21), (48, 57, St 21), (58, 58, Tr 39),
        (65, 90, St 21), (94, 122, St 21), (124, 124, St 21), (126, 126, St 21)]),
      (105, [], [(33, 33, St 21), (35, 39, St 21), (42, 43, St 21), (45, 46, St 21), (48, 57, St 21), (58, 58, Tr 39), (65, 75, St 21),
        (76, 76, St 106), (77, 90, St 21), (94, 107, St 21), (108, 108, St 106), (109, 122, St 21), (124, 124, St 21), (126, 126, St
        21)]),
      (106, [], [(33, 33, St 21), (35, 39, St 21), (42, 43, St 21), (45, 46, St 21), (48, 57, St 21), (58, 58, Tr 39), (65, 68, St 21),
        (69, 69, St 107), (70, 90, St 21), (94, 100, St 21), (101, 101, St 107), (102, 122, St 21), (124, 124, St 21), (126, 126, St
        21)]),
      (107, [], [(33, 33, St 21), (35, 39, St 21), (42, 43, St 21), (45, 46, St 21), (48, 57, St 21), (58, 58, Tr 39), (65, 77, St 21),
        (78, 78, St 108), (79, 90, St 21), (94, 109, St 21), (110, 110, St 108), (111, 122, St 21), (124, 124, St 21), (126, 126, St
        21)])],
     [])"

definition httpclient_part_20 :: "rsp_action part" where
  "httpclient_part_20 = (
     [(108, [], [(33, 33, St 21), (35, 39, St 21), (42, 43, St 21), (45, 46, St 21), (48, 57, St 21), (58, 58, Tr 39), (65, 70, St 21),
        (71, 71, St 109), (72, 90, St 21), (94, 102, St 21), (103, 103, St 109), (104, 122, St 21), (124, 124, St 21), (126, 126, St
        21)]),
      (109, [], [(33, 33, St 21), (35, 39, St 21), (42, 43, St 21), (45, 46, St 21), (48, 57, St 21), (58, 58, Tr 39), (65, 83, St 21),
        (84, 84, St 110), (85, 90, St 21), (94, 115, St 21), (116, 116, St 110), (117, 122, St 21), (124, 124, St 21), (126, 126, St
        21)]),
      (110, [], [(33, 33, St 21), (35, 39, St 21), (42, 43, St 21), (45, 46, St 21), (48, 57, St 21), (58, 58, Tr 39), (65, 71, St 21),
        (72, 72, St 111), (73, 90, St 21), (94, 103, St 21), (104, 104, St 111), (105, 122, St 21), (124, 124, St 21), (126, 126, St
        21)]),
      (111, [], [(33, 33, St 21), (35, 39, St 21), (42, 43, St 21), (45, 46, St 21), (48, 57, St 21), (58, 58, Tr 148), (65, 90, St 21),
        (94, 122, St 21), (124, 124, St 21), (126, 126, St 21)]),
      (112, [], [(- 128, 8, Tr 40), (9, 9, Tr 149), (10, 10, Tr 150), (11, 12, Tr 149), (13, 13, Tr 151), (14, 31, Tr 40), (32, 32, Tr
        149), (33, 47, Tr 40), (48, 57, Tr 152), (58, 127, Tr 40)])],
     [(149, [Rsp_start_value], 112),
      (148, [Rsp_write_field], 112)])"

definition httpclient_part_21 :: "rsp_action part" where
  "httpclient_part_21 = (
     [(113, [], [(9, 9, St 114), (10, 10, Tr 154), (11, 12, St 114), (13, 13, St 116), (32, 32, St 114), (33, 33, Tr 35), (35, 39, Tr
        35), (42, 43, Tr 35), (45, 46, Tr 35), (48, 57, Tr 156), (65, 66, Tr 35), (67, 67, Tr 36), (68, 83, Tr 35), (84, 84, Tr 37),
        (85, 90, Tr 35), (94, 98, Tr 35), (99, 99, Tr 36), (100, 115, Tr 35), (116, 116, Tr 37), (117, 122, Tr 35), (124, 124, Tr
        35), (126, 126, Tr 35)]),
      (114, [], [(9, 13, St 114), (32, 32, St 114), (48, 57, Tr 157)]),
      (115, [], [(10, 10, Tr 158), (13, 13, Tr 159), (48, 57, St 115)]),
      (123, [], [(9, 13, St 114), (32, 32, St 114), (48, 57, Tr 157)]),
      (116, [], [(9, 9, St 114), (10, 10, Tr 154), (11, 13, St 114), (32, 32, St 114), (48, 57, Tr 157)]),
      (117, [], [(10, 10, Tr 158), (13, 13, Tr 159), (33, 33, St 21), (35, 39, St 21), (42, 43, St 21), (45, 46, St 21), (48, 57, St
        117), (58, 58, Tr 39), (65, 90, St 21), (94, 122, St 21), (124, 124, St 21), (126, 126, St 21)])],
     [(150, [Rsp_start_value, Rsp_write_value], 113),
      (157, [Rsp_start_value], 115),
      (154, [Rsp_done], 123),
      (156, [Rsp_start_value, Rsp_start_field], 117)])"

definition httpclient_part_22 :: "rsp_action part" where
  "httpclient_part_22 = (
     [(118, [], [(9, 9, St 114), (10, 10, St 113), (11, 13, St 114), (32, 32, St 114), (48, 57, Tr 157)]),
      (119, [], [(- 128, 9, St 23), (10, 10, Tr 158), (11, 12, St 23), (13, 13, Tr 159), (14, 47, St 23), (48, 57, St 119), (58, 127, St
        23)])],
     [(151, [Rsp_start_value, Rsp_write_value], 118),
      (152, [Rsp_start_value], 119)])"

definition httpclient_table :: "rsp_action part list" where
  "httpclient_table = [httpclient_part_1, httpclient_part_2, httpclient_part_3, httpclient_part_4, httpclient_part_5, httpclient_part_6,
     httpclient_part_7, httpclient_part_8, httpclient_part_9, httpclient_part_10, httpclient_part_11, httpclient_part_12,
     httpclient_part_13, httpclient_part_14, httpclient_part_15, httpclient_part_16, httpclient_part_17, httpclient_part_18,
     httpclient_part_19, httpclient_part_20, httpclient_part_21, httpclient_part_22]"

end
