(* ===== verification/Mingo_HttpParser.thy ===== *)
theory Mingo_HttpParser
  imports Mingo_Http11_Table Mingo_HttpClient_Table Mingo_Http_Props
begin

text \<open>
  \<^verbatim>\<open>mingo/http/http_parser.cpp\<close> with the entry points of the generated automata: the parser of requests and the parser of responses. An automaton works on the
  first \<open>len\<close> bytes of a buffer and calls back with positions in it; the calls of one run are a list of events here, in their order, which the callbacks of the parser
  object then handle. The first one that throws ends the call. The memory of the buffer is a byte list, which
  a callback may read beyond the length it is given; what lies behind the buffer is not looked at.
\<close>

section \<open>The request automaton\<close>

record http_parser =
  hp_cs :: int
  hp_body_start :: nat
  hp_content_len :: int
  hp_nread :: nat
  hp_mark :: nat
  hp_field_start :: nat
  hp_field_len :: nat
  hp_query_start :: nat
  hp_xml_sent :: bool
  hp_json_sent :: bool
  hp_uri_relaxed :: bool

datatype req_event =
    Ev_method nat nat
  | Ev_uri nat nat
  | Ev_fragment nat nat
  | Ev_path nat nat
  | Ev_query nat nat
  | Ev_version nat nat
  | Ev_header_done nat nat
  | Ev_field nat nat nat nat

abbreviation http_parser_start :: int where "http_parser_start \<equiv> 1"
abbreviation http_parser_first_final :: int where "http_parser_first_final \<equiv> 348"
abbreviation http_parser_error :: int where "http_parser_error \<equiv> 0"

definition http_parser_init :: "http_parser \<Rightarrow> http_parser" where
  "http_parser_init p =
     p\<lparr>hp_cs := http_parser_start, hp_body_start := 0, hp_content_len := 0, hp_mark := 0, hp_nread := 0, hp_field_len := 0,
       hp_field_start := 0, hp_xml_sent := False, hp_json_sent := False\<rparr>"

definition http_parser_has_error :: "http_parser \<Rightarrow> bool" where
  "http_parser_has_error p \<longleftrightarrow> hp_cs p = http_parser_error"

definition http_parser_is_finished :: "http_parser \<Rightarrow> bool" where
  "http_parser_is_finished p \<longleftrightarrow> hp_cs p \<ge> http_parser_first_final"

definition http_parser_finish :: "http_parser \<Rightarrow> int" where
  "http_parser_finish p = (if http_parser_has_error p then - 1 else if http_parser_is_finished p then 1 else 0)"

text \<open>The actions at the position \<open>p\<close> of a buffer of \<open>pe\<close> bytes. \<open>LEN\<close> is a difference of \<open>size_t\<close>.\<close>

definition emit :: "req_event \<Rightarrow> http_parser \<times> req_event list \<Rightarrow> http_parser \<times> req_event list" where
  "emit e = (\<lambda>(h, es). (h, es @ [e]))"

fun req_do :: "nat \<Rightarrow> req_action \<Rightarrow> nat \<Rightarrow> http_parser \<times> req_event list \<Rightarrow> http_parser \<times> req_event list" where
  "req_do pe Req_mark p (h, es) = (h\<lparr>hp_mark := p\<rparr>, es)"
| "req_do pe Req_start_field p (h, es) = (h\<lparr>hp_field_start := p\<rparr>, es)"
| "req_do pe Req_write_field p (h, es) = (h\<lparr>hp_field_len := sub64 p (hp_field_start h)\<rparr>, es)"
| "req_do pe Req_start_value p (h, es) = (h\<lparr>hp_mark := p\<rparr>, es)"
| "req_do pe Req_write_value p (h, es) =
     emit (Ev_field (hp_field_start h) (hp_field_len h) (hp_mark h) (sub64 p (hp_mark h))) (h, es)"
| "req_do pe Req_request_method p (h, es) = emit (Ev_method (hp_mark h) (sub64 p (hp_mark h))) (h, es)"
| "req_do pe Req_request_uri p (h, es) = emit (Ev_uri (hp_mark h) (sub64 p (hp_mark h))) (h, es)"
| "req_do pe Req_fragment p (h, es) = emit (Ev_fragment (hp_mark h) (sub64 p (hp_mark h))) (h, es)"
| "req_do pe Req_start_query p (h, es) = (h\<lparr>hp_query_start := p\<rparr>, es)"
| "req_do pe Req_query_string p (h, es) = emit (Ev_query (hp_query_start h) (sub64 p (hp_query_start h))) (h, es)"
| "req_do pe Req_http_version p (h, es) = emit (Ev_version (hp_mark h) (sub64 p (hp_mark h))) (h, es)"
| "req_do pe Req_request_path p (h, es) = emit (Ev_path (hp_mark h) (sub64 p (hp_mark h))) (h, es)"
| "req_do pe Req_done p (h, es) =
     (if hp_xml_sent h \<or> hp_json_sent h
      then (h\<lparr>hp_body_start := hp_mark h, hp_content_len := c_int (int p - int (hp_mark h) + 1)\<rparr>, es)
      else emit (Ev_header_done (p + 1) (pe - p - 1)) (h\<lparr>hp_body_start := p + 1\<rparr>, es))"
| "req_do pe Req_xml p (h, es) = (h\<lparr>hp_xml_sent := True\<rparr>, es)"
| "req_do pe Req_json p (h, es) = (h\<lparr>hp_json_sent := True\<rparr>, es)"

text \<open>
  \<open>http_parser_execute\<close> at offset 0: the events and the structure afterwards. \<open>parser->cs\<close> changes only at the end. The assertions are stated apart: one comes before
  the machine and compares the length with its conversion to \<open>int\<close>, the others come after all callbacks.
\<close>

definition http_parser_enters :: "byte list \<Rightarrow> bool" where
  "http_parser_enters buf \<longleftrightarrow> buf = [] \<or> int (length buf) = c_int (int (length buf))"

definition http_parser_execute :: "byte list \<Rightarrow> http_parser \<Rightarrow> req_event list \<times> http_parser" where
  "http_parser_execute buf h =
     (if buf = [] then ([], h)
      else
        let h1 = h\<lparr>hp_nread := 0, hp_mark := 0, hp_field_len := 0, hp_field_start := 0\<rparr> in
        case machine http11_table (hp_uri_relaxed h) (req_do (length buf)) (\<lambda>a. a = Req_done) (h1, []) (hp_cs h1) 0 buf of
          ((h2, es), cs, p) \<Rightarrow>
            let h3 = (if http_parser_has_error h2 then h2 else h2\<lparr>hp_cs := cs\<rparr>) in
            (es, h3\<lparr>hp_nread := hp_nread h3 + p\<rparr>))"

definition http_parser_asserts :: "byte list \<Rightarrow> http_parser \<Rightarrow> bool" where
  "http_parser_asserts buf h \<longleftrightarrow>
     buf = [] \<or> hp_nread h \<le> length buf \<and> hp_body_start h \<le> length buf \<and> hp_mark h < length buf \<and> hp_field_len h \<le> length buf \<and>
       hp_field_start h < length buf"

definition http_parser_nread :: "byte list \<Rightarrow> http_parser \<Rightarrow> nat" where
  "http_parser_nread buf h = (if buf = [] then 0 else hp_nread h)"

section \<open>The request parser\<close>

record HttpRequestParser =
  rqp_parser :: http_parser
  rqp_data :: HttpRequest
  rqp_error :: int

text \<open>\<open>std::string(at, length)\<close>: more than \<open>max_size\<close> characters throw.\<close>

definition std_string :: "byte list \<Rightarrow> nat \<Rightarrow> nat \<Rightarrow> string res" where
  "std_string mem at len =
     (if len \<ge> 2 ^ 63 then Inl LengthError
      else if length mem < at + len then Inl BadMemory
      else Inr (to_text (take len (drop at mem))))"

definition set_text :: "(string \<Rightarrow> HttpRequest \<Rightarrow> HttpRequest) \<Rightarrow> byte list \<Rightarrow> nat \<Rightarrow> nat \<Rightarrow> HttpRequestParser \<Rightarrow> HttpRequestParser res" where
  "set_text setter mem at len r = map_sum id (\<lambda>s. r\<lparr>rqp_data := setter s (rqp_data r)\<rparr>) (std_string mem at len)"

definition on_request_method :: "byte list \<Rightarrow> nat \<Rightarrow> nat \<Rightarrow> HttpRequestParser \<Rightarrow> HttpRequestParser res" where
  "on_request_method mem at len r =
     (let m = CharsToHttpMethod (to_text (drop at mem)) in
      if m = INVALID_METHOD then Inr (r\<lparr>rqp_error := 1000\<rparr>)
      else Inr (r\<lparr>rqp_data := HttpRequest_setMethod m (rqp_data r)\<rparr>))"

definition on_request_fragment :: "byte list \<Rightarrow> nat \<Rightarrow> nat \<Rightarrow> HttpRequestParser \<Rightarrow> HttpRequestParser res" where
  "on_request_fragment = set_text HttpRequest_setFragment"

definition on_request_path :: "byte list \<Rightarrow> nat \<Rightarrow> nat \<Rightarrow> HttpRequestParser \<Rightarrow> HttpRequestParser res" where
  "on_request_path = set_text HttpRequest_setPath"

definition on_request_query :: "byte list \<Rightarrow> nat \<Rightarrow> nat \<Rightarrow> HttpRequestParser \<Rightarrow> HttpRequestParser res" where
  "on_request_query = set_text HttpRequest_setQuery"

definition http_version_of :: "byte list \<Rightarrow> nat \<Rightarrow> nat \<Rightarrow> byte option" where
  "http_version_of mem at len =
     (if strncmp (to_text (drop at mem)) ''HTTP/1.1'' len = 0 then Some 0x11
      else if strncmp (to_text (drop at mem)) ''HTTP/1.0'' len = 0 then Some 0x10
      else None)"

definition on_request_version :: "byte list \<Rightarrow> nat \<Rightarrow> nat \<Rightarrow> HttpRequestParser \<Rightarrow> HttpRequestParser res" where
  "on_request_version mem at len r =
     (case http_version_of mem at len of
        None \<Rightarrow> Inr (r\<lparr>rqp_error := 1001\<rparr>)
      | Some v \<Rightarrow> Inr (r\<lparr>rqp_data := HttpRequest_setVersion v (rqp_data r)\<rparr>))"

definition on_request_http_field :: "byte list \<Rightarrow> nat \<Rightarrow> nat \<Rightarrow> nat \<Rightarrow> nat \<Rightarrow> HttpRequestParser \<Rightarrow> HttpRequestParser res" where
  "on_request_http_field mem field flen value vlen r =
     (if flen = 0 then Inr r
      else
        case std_string mem field flen of
          Inl e \<Rightarrow> Inl e
        | Inr k \<Rightarrow>
            (case std_string mem value vlen of
               Inl e \<Rightarrow> Inl e
             | Inr v \<Rightarrow> Inr (r\<lparr>rqp_data := HttpRequest_setHeader k v (rqp_data r)\<rparr>)))"

text \<open>The function that the constructor stores for each element; \<open>on_request_uri\<close> and \<open>on_request_header_done\<close> are empty.\<close>

fun request_callback :: "byte list \<Rightarrow> req_event \<Rightarrow> HttpRequestParser \<Rightarrow> HttpRequestParser res" where
  "request_callback mem (Ev_method at len) r = on_request_method mem at len r"
| "request_callback mem (Ev_uri at len) r = Inr r"
| "request_callback mem (Ev_fragment at len) r = on_request_fragment mem at len r"
| "request_callback mem (Ev_path at len) r = on_request_path mem at len r"
| "request_callback mem (Ev_query at len) r = on_request_query mem at len r"
| "request_callback mem (Ev_version at len) r = on_request_version mem at len r"
| "request_callback mem (Ev_header_done at len) r = Inr r"
| "request_callback mem (Ev_field field flen value vlen) r = on_request_http_field mem field flen value vlen r"

fun callbacks :: "('e \<Rightarrow> 'r \<Rightarrow> 'r res) \<Rightarrow> 'e list \<Rightarrow> 'r \<Rightarrow> 'r res" where
  "callbacks cb [] r = Inr r"
| "callbacks cb (e # es) r = (case cb e r of Inl x \<Rightarrow> Inl x | Inr r' \<Rightarrow> callbacks cb es r')"

text \<open>The constructor; the structure \<open>h0\<close> is what the memory held before.\<close>

definition HttpRequestParser_new :: "http_parser \<Rightarrow> HttpRequestParser" where
  "HttpRequestParser_new h0 = \<lparr>rqp_parser = http_parser_init h0, rqp_data = HttpRequest_new 0x11 True, rqp_error = 0\<rparr>"

text \<open>\<open>boost::lexical_cast\<close> to \<open>uint64_t\<close> is an argument.\<close>

definition HttpRequestParser_getContentLength :: "(string \<Rightarrow> u64 option) \<Rightarrow> HttpRequestParser \<Rightarrow> u64" where
  "HttpRequestParser_getContentLength lexical_cast r = HttpRequest_getHeaderAs lexical_cast ''content-length'' 0 (rqp_data r)"

text \<open>\<open>execute\<close>: the number of bytes read; they are removed from the front of the buffer.\<close>

definition move_front :: "nat \<Rightarrow> nat \<Rightarrow> byte list \<Rightarrow> byte list" where
  "move_front n len mem = put 0 (take (len - n) (drop n mem)) mem"

definition HttpRequestParser_execute :: "nat \<Rightarrow> (HttpRequestParser \<times> byte list, nat) oper" where
  "HttpRequestParser_execute len = (\<lambda>(r, mem).
     let buf = take len mem in
     if \<not> http_parser_enters buf then (Inl AssertFail, (r, mem))
     else case http_parser_execute buf (rqp_parser r) of
       (es, h) \<Rightarrow>
         (case callbacks (request_callback mem) es r of
            Inl e \<Rightarrow> (Inl e, (r, mem))
          | Inr r1 \<Rightarrow>
              if \<not> http_parser_asserts buf h then (Inl AssertFail, (r1, mem))
              else let n = http_parser_nread buf h in (Inr n, (r1\<lparr>rqp_parser := h\<rparr>, move_front n len mem))))"

definition HttpRequestParser_isFinished :: "HttpRequestParser \<Rightarrow> int" where
  "HttpRequestParser_isFinished r = http_parser_finish (rqp_parser r)"

definition HttpRequestParser_hasError :: "HttpRequestParser \<Rightarrow> bool" where
  "HttpRequestParser_hasError r \<longleftrightarrow> rqp_error r \<noteq> 0 \<or> http_parser_has_error (rqp_parser r)"

section \<open>The tables\<close>

lemma http_parser_enters_int: "length buf < 2 ^ 31 \<Longrightarrow> http_parser_enters buf"
  by (simp add: http_parser_enters_def c_int_id)

text \<open>The labels of the table, collected.\<close>

lemma http11_labels:
  "labels_of http11_table =
    [(0, [Req_mark], 2), (4, [Req_request_method], 3), (6, [Req_mark, Req_request_path, Req_request_uri], 4), (37, [Req_request_path,
     Req_request_uri], 4), (44, [Req_mark, Req_fragment], 4), (47, [Req_fragment], 4), (54, [Req_start_query, Req_query_string,
     Req_request_uri], 4), (58, [Req_query_string, Req_request_uri], 4), (13, [Req_mark], 5), (21, [Req_http_version], 13), (30,
     [Req_start_value, Req_write_value], 13), (33, [Req_write_value], 13), (23, [Req_start_field], 14), (27, [Req_write_field], 15), (29,
     [Req_start_value], 15), (28, [Req_start_value], 16), (22, [Req_http_version], 17), (31, [Req_start_value, Req_write_value], 17), (34,
     [Req_write_value], 17), (24, [Req_start_field, Req_done], 348), (36, [Req_done], 348), (25, [Req_start_field], 18), (7, [Req_mark],
     19), (8, [Req_mark, Req_request_path, Req_request_uri], 20), (39, [Req_request_path, Req_request_uri], 20), (55, [Req_start_query,
     Req_query_string, Req_request_uri], 20), (59, [Req_query_string, Req_request_uri], 20), (43, [Req_mark], 21), (45, [Req_mark], 22), (9,
     [Req_mark], 24), (203, [Req_mark], 26), (204, [Req_mark], 27), (11, [Req_mark, Req_request_path], 29), (42, [Req_request_path], 29),
     (53, [Req_start_query], 30), (56, [Req_start_query], 31), (10, [Req_mark], 33), (12, [Req_mark], 173), (2, [Req_mark], 194), (224,
     [Req_request_path], 196), (227, [Req_xml, Req_done], 349), (235, [Req_json, Req_done], 349), (3, [Req_mark], 198), (228,
     [Req_request_path], 199), (232, [Req_mark], 200)]"
  by code_simp

end
