(* ===== verification/Mingo_HttpParser_Props.thy ===== *)
theory Mingo_HttpParser_Props
  imports Mingo_HttpParser
begin

text \<open>
  Properties of the request parser: for every input the generated automaton keeps its assertions, and what it passes to the callbacks lies in the buffer, unless the
  input is cut inside a query.
\<close>

section \<open>A check of the table\<close>

text \<open>
  In the states of a query, and only there, the automaton relies on a start of the query; in all but three states
  (inside the name of a field) the last field that was started has its length.
\<close>

definition in_query :: "int \<Rightarrow> bool" where "in_query = in_ranges [(30, 32)]"
definition in_name :: "int \<Rightarrow> bool" where "in_name = in_ranges [(14, 14), (18, 18), (348, 348)]"

text \<open>Whether the start of the query is known, and the field complete, after some actions; \<open>None\<close> when an action uses what is not known.\<close>

fun abs_known :: "req_action list \<Rightarrow> bool \<times> bool \<Rightarrow> (bool \<times> bool) option" where
  "abs_known [] k = Some k"
| "abs_known (a # as) (q, f) =
     (case a of
        Req_start_query \<Rightarrow> abs_known as (True, f)
      | Req_query_string \<Rightarrow> if q then abs_known as (q, f) else None
      | Req_start_field \<Rightarrow> abs_known as (q, False)
      | Req_write_field \<Rightarrow> abs_known as (q, True)
      | Req_write_value \<Rightarrow> if f then abs_known as (q, f) else None
      | _ \<Rightarrow> abs_known as (q, f))"

definition req_entry_ok :: "int \<Rightarrow> int \<Rightarrow> int \<Rightarrow> req_action list \<Rightarrow> int \<Rightarrow> bool" where
  "req_entry_ok cs lo hi as s \<longleftrightarrow>
     (case abs_known as (in_query cs, \<not> in_name cs) of None \<Rightarrow> False | Some (q, f) \<Rightarrow> (in_query s \<longrightarrow> q) \<and> (\<not> in_name s \<longrightarrow> f))"

definition req_part_ok :: "req_action part \<Rightarrow> bool" where
  "req_part_ok p \<longleftrightarrow> all_entries req_entry_ok (labels_of http11_table) (fst p)"

lemma req_parts_ok_1:
  "req_part_ok http11_part_1"
  "req_part_ok http11_part_2"
  "req_part_ok http11_part_3"
  "req_part_ok http11_part_4"
  "req_part_ok http11_part_5"
  "req_part_ok http11_part_6"
  "req_part_ok http11_part_7"
  "req_part_ok http11_part_8"
  "req_part_ok http11_part_9"
  "req_part_ok http11_part_10"
  "req_part_ok http11_part_11"
  unfolding req_part_ok_def http11_labels by code_simp+

lemma req_parts_ok_2:
  "req_part_ok http11_part_12"
  "req_part_ok http11_part_13"
  "req_part_ok http11_part_14"
  "req_part_ok http11_part_15"
  "req_part_ok http11_part_16"
  "req_part_ok http11_part_17"
  "req_part_ok http11_part_18"
  "req_part_ok http11_part_19"
  "req_part_ok http11_part_20"
  "req_part_ok http11_part_21"
  "req_part_ok http11_part_22"
  unfolding req_part_ok_def http11_labels by code_simp+

lemma req_parts_ok_3:
  "req_part_ok http11_part_23"
  "req_part_ok http11_part_24"
  "req_part_ok http11_part_25"
  "req_part_ok http11_part_26"
  "req_part_ok http11_part_27"
  "req_part_ok http11_part_28"
  "req_part_ok http11_part_29"
  "req_part_ok http11_part_30"
  "req_part_ok http11_part_31"
  "req_part_ok http11_part_32"
  "req_part_ok http11_part_33"
  unfolding req_part_ok_def http11_labels by code_simp+

lemma req_parts_ok_4:
  "req_part_ok http11_part_34"
  "req_part_ok http11_part_35"
  "req_part_ok http11_part_36"
  "req_part_ok http11_part_37"
  "req_part_ok http11_part_38"
  "req_part_ok http11_part_39"
  "req_part_ok http11_part_40"
  "req_part_ok http11_part_41"
  "req_part_ok http11_part_42"
  "req_part_ok http11_part_43"
  "req_part_ok http11_part_44"
  unfolding req_part_ok_def http11_labels by code_simp+

lemmas req_parts_ok = req_parts_ok_1 req_parts_ok_2 req_parts_ok_3 req_parts_ok_4

lemma http11_table_ok: "all_entries req_entry_ok (labels_of http11_table) (blocks_of http11_table)"
proof -
  have "list_all req_part_ok http11_table" unfolding http11_table_def by (simp add: req_parts_ok)
  then show ?thesis unfolding all_entries_parts req_part_ok_def [abs_def] by (simp only:)
qed

section \<open>Positions in the buffer\<close>

fun in_buffer :: "nat \<Rightarrow> req_event \<Rightarrow> bool" where
  "in_buffer n (Ev_field f fl v vl) \<longleftrightarrow> f + fl \<le> n \<and> v + vl \<le> n"
| "in_buffer n (Ev_method at l) \<longleftrightarrow> at + l \<le> n"
| "in_buffer n (Ev_uri at l) \<longleftrightarrow> at + l \<le> n"
| "in_buffer n (Ev_fragment at l) \<longleftrightarrow> at + l \<le> n"
| "in_buffer n (Ev_path at l) \<longleftrightarrow> at + l \<le> n"
| "in_buffer n (Ev_query at l) \<longleftrightarrow> at + l \<le> n"
| "in_buffer n (Ev_version at l) \<longleftrightarrow> at + l \<le> n"
| "in_buffer n (Ev_header_done at l) \<longleftrightarrow> at + l \<le> n"

text \<open>The structure and the events when \<open>p\<close> of \<open>n\<close> bytes have been read; \<open>q\<close>: the query start is known, \<open>f\<close>: the field is complete.\<close>

definition req_ok_at :: "nat \<Rightarrow> nat \<Rightarrow> bool \<Rightarrow> bool \<Rightarrow> http_parser \<times> req_event list \<Rightarrow> bool" where
  "req_ok_at n p q f = (\<lambda>(h, es).
     hp_mark h \<le> p \<and> hp_mark h < n \<and> hp_field_start h \<le> p \<and> hp_field_start h < n \<and> hp_field_len h \<le> n \<and> hp_body_start h \<le> n
     \<and> hp_nread h = 0 \<and> (q \<longrightarrow> hp_query_start h \<le> p) \<and> (f \<longrightarrow> hp_field_start h + hp_field_len h \<le> n)
     \<and> (\<forall>e \<in> set es. in_buffer n e))"

lemma req_do_ok:
  assumes "req_ok_at n p q f x" and "p < n" and "n < 2 ^ 64" and "abs_known (a # as) (q, f) = Some k"
  shows "\<exists>q' f'. req_ok_at n p q' f' (req_do n a p x) \<and> abs_known as (q', f') = Some k"
  using assms by (cases x; cases a) (auto simp: req_ok_at_def emit_def sub64_le split: if_splits)

lemma req_acts_ok:
  assumes "req_ok_at n p q f x" and "p < n" and "n < 2 ^ 64" and "abs_known as (q, f) = Some (q', f')"
  shows "req_ok_at n p q' f' (fold (\<lambda>a. req_do n a p) as x)"
  using assms
proof (induction as arbitrary: q f x)
  case Nil
  then show ?case by simp
next
  case (Cons a as)
  obtain q1 f1 where "req_ok_at n p q1 f1 (req_do n a p x)" "abs_known as (q1, f1) = Some (q', f')"
    using req_do_ok [OF Cons.prems] by blast
  from Cons.IH [OF this(1) Cons.prems(2,3) this(2)] show ?case by simp
qed

text \<open>A weaker condition leads to a weaker one.\<close>

lemma req_ok_at_mono: "req_ok_at n p q f x \<Longrightarrow> p \<le> p' \<Longrightarrow> (q' \<longrightarrow> q) \<Longrightarrow> (f' \<longrightarrow> f) \<Longrightarrow> req_ok_at n p' q' f' x"
  by (auto simp: req_ok_at_def split: prod.splits)

interpretation req_run: machine_invariant http11_table relaxed "req_do (length buf)" "\<lambda>a. a = Req_done" buf
    "\<lambda>w x cs. length buf < 2 ^ 64 \<longrightarrow> req_ok_at (length buf) (length w) (in_query cs) (\<not> in_name cs) x" for relaxed buf
proof unfold_locales
  fix w c cs b as s and x :: "http_parser \<times> req_event list"
  assume I: "length buf < 2 ^ 64 \<longrightarrow> req_ok_at (length buf) (length w) (in_query cs) (\<not> in_name cs) x"
    and p: "prefix (w @ [c]) buf" and b: "find_block http11_table cs = Some b" and e: "edge http11_table relaxed b (c_char c) = Some (as, s)"
  obtain ws rs where b2: "b = (ws, rs)" by (cases b)
  obtain lo hi where "req_entry_ok cs lo hi as s"
    using all_entries_edge [OF http11_table_ok, of cs ws rs relaxed "c_char c" as s] b e b2 by blast
  then obtain q f where k: "abs_known as (in_query cs, \<not> in_name cs) = Some (q, f)" "in_query s \<longrightarrow> q" "\<not> in_name s \<longrightarrow> f"
    by (auto simp: req_entry_ok_def split: option.splits)
  have lt: "length w < length buf" using prefix_length_le [OF p] by simp
  show "length buf < 2 ^ 64 \<longrightarrow>
      req_ok_at (length buf) (length (w @ [c])) (in_query s) (\<not> in_name s) (fold (\<lambda>a. req_do (length buf) a (length w)) as x)"
  proof
    assume n: "length buf < 2 ^ 64"
    have "req_ok_at (length buf) (length w) q f (fold (\<lambda>a. req_do (length buf) a (length w)) as x)"
      by (rule req_acts_ok [OF _ lt n k(1)]) (use I n in simp)
    then show "req_ok_at (length buf) (length (w @ [c])) (in_query s) (\<not> in_name s) (fold (\<lambda>a. req_do (length buf) a (length w)) as x)"
      by (rule req_ok_at_mono) (use k in simp_all)
  qed
qed

lemma http_parser_execute_ok:
  assumes x: "http_parser_execute buf h = (es, h')" and buf: "buf \<noteq> []" "length buf < 2 ^ 63" and h: "hp_body_start h \<le> length buf" "\<not> in_query (hp_cs h)"
  shows "http_parser_asserts buf h'" and "\<forall>e \<in> set es. in_buffer (length buf) e" and "hp_body_start h' \<le> length buf"
proof -
  let ?h = "h\<lparr>hp_nread := 0, hp_mark := 0, hp_field_len := 0, hp_field_start := 0\<rparr>" and ?n = "length buf"
  obtain h2 es2 cs p where m: "machine http11_table (hp_uri_relaxed h) (req_do ?n) (\<lambda>a. a = Req_done) (?h, []) (hp_cs h) 0 buf = ((h2, es2), cs, p)"
    by (metis prod.exhaust_sel)
  have n: "0 < ?n" "?n < 2 ^ 64" using buf by (auto intro: less_trans)
  have start: "req_ok_at ?n 0 (in_query (hp_cs h)) (\<not> in_name (hp_cs h)) (?h, [])" using h n by (simp add: req_ok_at_def)
  obtain v cs0 where v: "prefix v buf" "length v = p" "req_ok_at ?n (length v) (in_query cs0) (\<not> in_name cs0) (h2, es2)"
    using req_run.machine_keeps [where buf = buf and relaxed = "hp_uri_relaxed h" and w = "[]" and x = "(?h, [])" and cs = "hp_cs h" and bs = buf
        and x' = "(h2, es2)" and cs' = cs and p' = p] start n m by auto
  have "p \<le> ?n" using v(1,2) prefix_length_le by auto
  then show "http_parser_asserts buf h'" "\<forall>e \<in> set es. in_buffer (length buf) e" "hp_body_start h' \<le> length buf"
    using x buf(1) m v(3) by (cases "http_parser_has_error h2"; auto simp: http_parser_execute_def http_parser_asserts_def req_ok_at_def Let_def)+
qed

lemma std_string_ok: "at + len \<le> n \<Longrightarrow> n \<le> length mem \<Longrightarrow> n < 2 ^ 63 \<Longrightarrow> std_string mem at len = Inr (to_text (take len (drop at mem)))"
  by (simp add: std_string_def)

lemma callback_returns:
  assumes "in_buffer n e" and "n \<le> length mem" and "n < 2 ^ 63"
  shows "\<exists>r'. request_callback mem e r = Inr r'"
  using assms std_string_ok [OF _ assms(2,3)]
  by (cases e) (auto simp: on_request_method_def on_request_fragment_def on_request_path_def on_request_query_def on_request_version_def
    on_request_http_field_def set_text_def Let_def split: option.split)

lemma callbacks_return:
  assumes "\<forall>e \<in> set es. in_buffer n e" and "n \<le> length mem" and "n < 2 ^ 63"
  shows "\<exists>r'. callbacks (request_callback mem) es r = Inr r'"
  using assms(1)
proof (induction es arbitrary: r)
  case Nil
  then show ?case by simp
next
  case (Cons e es)
  obtain r1 where "request_callback mem e r = Inr r1" using callback_returns [OF _ assms(2,3)] Cons.prems by fastforce
  then show ?case using Cons by simp
qed

lemma take_move_front:
  assumes "n \<le> len" and "len \<le> length mem"
  shows "take (len - n) (move_front n len mem) = drop n (take len mem)" "length (move_front n len mem) = length mem"
  using assms by (simp_all add: move_front_def put_def drop_take)


end
