(* ===== verification/Mingo_HttpParser_Roundtrip.thy ===== *)
theory Mingo_HttpParser_Roundtrip
  imports Mingo_HttpParser_Props
begin

text \<open>
  The request automaton on the text of a request: the states it goes through, what each piece of the text adds to the request, and the result of
  executing the parser on a request that \<open>HttpRequest::dump\<close> has written.
\<close>

named_theorems req_edges \<open>the edges of the automaton that a plain request uses\<close>

section \<open>The states of a plain request\<close>

lemmas http11_part_defs =
  http11_part_1_def http11_part_2_def http11_part_3_def http11_part_4_def http11_part_5_def http11_part_6_def http11_part_7_def
  http11_part_8_def http11_part_9_def http11_part_10_def http11_part_11_def http11_part_12_def http11_part_13_def http11_part_14_def
  http11_part_15_def http11_part_16_def http11_part_17_def http11_part_18_def http11_part_19_def http11_part_20_def
  http11_part_21_def http11_part_22_def http11_part_23_def http11_part_24_def http11_part_25_def http11_part_26_def
  http11_part_27_def http11_part_28_def http11_part_29_def http11_part_30_def http11_part_31_def http11_part_32_def
  http11_part_33_def http11_part_34_def http11_part_35_def http11_part_36_def http11_part_37_def http11_part_38_def
  http11_part_39_def http11_part_40_def http11_part_41_def http11_part_42_def http11_part_43_def http11_part_44_def

lemmas http11_firsts = http11_part_defs [THEN arg_cong [where f = fst], unfolded fst_conv]

lemma req_rows:
  "find_block http11_table 1 = Some ([],
    [(48, 57, Tr 0), (60, 60, Tr 2), (64, 64, Tr 3), (65, 90, Tr 0)])"
  "find_block http11_table 2 = Some ([],
    [(32, 32, Tr 4), (48, 57, St 175), (65, 90, St 175)])"
  "find_block http11_table 175 = Some ([],
    [(32, 32, Tr 4), (48, 57, St 176), (65, 90, St 176)])"
  "find_block http11_table 176 = Some ([],
    [(32, 32, Tr 4), (48, 57, St 177), (65, 90, St 177)])"
  "find_block http11_table 177 = Some ([],
    [(32, 32, Tr 4), (48, 57, St 178), (65, 90, St 178)])"
  "find_block http11_table 178 = Some ([],
    [(32, 32, Tr 4), (48, 57, St 179), (65, 90, St 179)])"
  "find_block http11_table 179 = Some ([],
    [(32, 32, Tr 4), (48, 57, St 180), (65, 90, St 180)])"
  "find_block http11_table 180 = Some ([],
    [(32, 32, Tr 4), (48, 57, St 181), (65, 90, St 181)])"
  "find_block http11_table 181 = Some ([],
    [(32, 32, Tr 4), (48, 57, St 182), (65, 90, St 182)])"
  "find_block http11_table 182 = Some ([],
    [(32, 32, Tr 4), (48, 57, St 183), (65, 90, St 183)])"
  "find_block http11_table 183 = Some ([],
    [(32, 32, Tr 4), (48, 57, St 184), (65, 90, St 184)])"
  "find_block http11_table 184 = Some ([],
    [(32, 32, Tr 4), (48, 57, St 185), (65, 90, St 185)])"
  "find_block http11_table 185 = Some ([],
    [(32, 32, Tr 4), (48, 57, St 186), (65, 90, St 186)])"
  "find_block http11_table 3 = Some ([94, 123, 125],
    [(32, 32, Tr 6), (33, 33, Tr 7), (35, 35, Tr 8), (36, 36, Tr 7), (37, 37, Tr 9), (38, 46, Tr 7), (47, 47, Tr 10), (48, 57, Tr 7), (59,
     59, Tr 7), (61, 61, Tr 7), (63, 63, Tr 11), (64, 64, Tr 7), (65, 90, Tr 12), (95, 95, Tr 7), (97, 122, Tr 12), (126, 126, Tr 7), (606,
     606, Tr 7), (635, 635, Tr 7), (637, 637, Tr 7)])"
  "find_block http11_table 33 = Some ([94, 123, 125],
    [(- 128, - 1, St 26), (32, 32, Tr 37), (33, 33, St 26), (35, 35, Tr 39), (36, 36, St 26), (37, 37, St 27), (38, 46, St 26), (47, 47, St
     34), (48, 59, St 26), (61, 61, St 26), (63, 63, Tr 42), (64, 90, St 26), (95, 95, St 26), (97, 122, St 26), (126, 126, St 26), (606,
     606, St 26), (635, 635, St 26), (637, 637, St 26)])"
  "find_block http11_table 26 = Some ([94, 123, 125],
    [(- 128, - 1, St 26), (32, 32, Tr 37), (33, 33, St 26), (35, 35, Tr 39), (36, 36, St 26), (37, 37, St 27), (38, 59, St 26), (61, 61, St
     26), (63, 63, Tr 42), (64, 90, St 26), (95, 95, St 26), (97, 122, St 26), (126, 126, St 26), (606, 606, St 26), (635, 635, St 26),
     (637, 637, St 26)])"
  "find_block http11_table 29 = Some ([94, 123, 125],
    [(- 128, - 1, Tr 53), (32, 32, Tr 54), (33, 33, Tr 53), (35, 35, Tr 55), (36, 36, Tr 53), (37, 37, Tr 56), (38, 59, Tr 53), (61, 61, Tr
     53), (63, 90, Tr 53), (95, 95, Tr 53), (97, 122, Tr 53), (126, 126, Tr 53), (606, 606, Tr 53), (635, 635, Tr 53), (637, 637, Tr 53)])"
  "find_block http11_table 30 = Some ([94, 123, 125],
    [(- 128, - 1, St 30), (32, 32, Tr 58), (33, 33, St 30), (35, 35, Tr 59), (36, 36, St 30), (37, 37, St 31), (38, 59, St 30), (61, 61, St
     30), (63, 90, St 30), (95, 95, St 30), (97, 122, St 30), (126, 126, St 30), (606, 606, St 30), (635, 635, St 30), (637, 637, St 30)])"
  "find_block http11_table 20 = Some ([94, 123, 125],
    [(- 128, - 1, Tr 43), (32, 32, Tr 44), (33, 33, Tr 43), (36, 36, Tr 43), (37, 37, Tr 45), (38, 59, Tr 43), (61, 61, Tr 43), (63, 90, Tr
     43), (95, 95, Tr 43), (97, 122, Tr 43), (126, 126, Tr 43), (606, 606, Tr 43), (635, 635, Tr 43), (637, 637, Tr 43)])"
  "find_block http11_table 21 = Some ([94, 123, 125],
    [(- 128, - 1, St 21), (32, 32, Tr 47), (33, 33, St 21), (36, 36, St 21), (37, 37, St 22), (38, 59, St 21), (61, 61, St 21), (63, 90, St
     21), (95, 95, St 21), (97, 122, St 21), (126, 126, St 21), (606, 606, St 21), (635, 635, St 21), (637, 637, St 21)])"
  "find_block http11_table 4 = Some ([],
    [(72, 72, Tr 13)])"
  "find_block http11_table 5 = Some ([],
    [(84, 84, St 6)])"
  "find_block http11_table 6 = Some ([],
    [(84, 84, St 7)])"
  "find_block http11_table 7 = Some ([],
    [(80, 80, St 8)])"
  "find_block http11_table 8 = Some ([],
    [(47, 47, St 9)])"
  "find_block http11_table 9 = Some ([],
    [(49, 49, St 10)])"
  "find_block http11_table 10 = Some ([],
    [(46, 46, St 11)])"
  "find_block http11_table 11 = Some ([],
    [(48, 49, St 12)])"
  "find_block http11_table 12 = Some ([],
    [(10, 10, Tr 21), (13, 13, Tr 22)])"
  "find_block http11_table 17 = Some ([],
    [(10, 10, St 13)])"
  "find_block http11_table 13 = Some ([],
    [(1, 8, Tr 23), (10, 10, Tr 24), (11, 12, Tr 23), (13, 13, Tr 25), (14, 31, Tr 23), (33, 33, Tr 23), (35, 39, Tr 23), (42, 43, Tr 23),
     (45, 46, Tr 23), (48, 57, Tr 23), (65, 90, Tr 23), (94, 122, Tr 23), (124, 124, Tr 23), (126, 126, Tr 23)])"
  "find_block http11_table 14 = Some ([],
    [(1, 8, St 14), (10, 31, St 14), (33, 33, St 14), (35, 39, St 14), (42, 43, St 14), (45, 46, St 14), (48, 57, St 14), (58, 58, Tr 27),
     (65, 90, St 14), (94, 122, St 14), (124, 124, St 14), (126, 126, St 14)])"
  "find_block http11_table 15 = Some ([],
    [(- 128, - 1, Tr 28), (1, 8, Tr 28), (9, 9, Tr 29), (10, 10, Tr 30), (11, 12, Tr 28), (13, 13, Tr 31), (14, 31, Tr 28), (32, 32, Tr
     29), (33, 126, Tr 28)])"
  "find_block http11_table 16 = Some ([],
    [(- 128, - 1, St 16), (1, 9, St 16), (10, 10, Tr 33), (11, 12, St 16), (13, 13, Tr 34), (14, 126, St 16)])"
  "find_block http11_table 18 = Some ([],
    [(1, 8, St 14), (10, 10, Tr 36), (11, 31, St 14), (33, 33, St 14), (35, 39, St 14), (42, 43, St 14), (45, 46, St 14), (48, 57, St 14),
     (58, 58, Tr 27), (65, 90, St 14), (94, 122, St 14), (124, 124, St 14), (126, 126, St 14)])"
  by (simp_all add: http11_table_def http11_firsts)

text \<open>
  Classes of characters, by their codes: of a method, of the first segment of a path and of a path, of a query or fragment, of the name of a header, and of
  its value (escapes and control characters apart).
\<close>

abbreviation uppers :: "(int \<times> int) list" where
  "uppers \<equiv> [(48, 57), (65, 90)]"

abbreviation segment_chars :: "(int \<times> int) list" where
  "segment_chars \<equiv> [(- 128, - 1), (33, 33), (36, 36), (38, 46), (48, 59), (61, 61), (64, 90), (95, 95), (97, 122), (126, 126)]"

abbreviation path_chars :: "(int \<times> int) list" where
  "path_chars \<equiv> [(- 128, - 1), (33, 33), (36, 36), (38, 59), (61, 61), (64, 90), (95, 95), (97, 122), (126, 126)]"

abbreviation query_chars :: "(int \<times> int) list" where
  "query_chars \<equiv> [(- 128, - 1), (33, 33), (36, 36), (38, 59), (61, 61), (63, 90), (95, 95), (97, 122), (126, 126)]"

abbreviation token_chars :: "(int \<times> int) list" where
  "token_chars \<equiv> [(33, 33), (35, 39), (42, 43), (45, 46), (48, 57), (65, 90), (95, 122), (124, 124), (126, 126)]"

abbreviation value_starts :: "(int \<times> int) list" where
  "value_starts \<equiv> [(- 128, - 1), (33, 126)]"

abbreviation value_chars :: "(int \<times> int) list" where
  "value_chars \<equiv> [(- 128, - 1), (9, 9), (32, 126)]"

abbreviation req_sends :: "bool \<Rightarrow> int \<Rightarrow> (int \<times> int) list \<Rightarrow> req_action list \<Rightarrow> int \<Rightarrow> bool" where
  "req_sends rl \<equiv> sends http11_table rl"

lemma req_1_2 [req_edges]: "req_sends rl 1 uppers [Req_mark] 2"
  by (rule sendsI [OF req_rows(1), where j = "Tr 0"]) (code_simp, simp add: entry_target_def http11_labels)

lemma req_2_175 [req_edges]: "req_sends rl 2 uppers [] 175"
  by (rule sendsI [OF req_rows(2), where j = "St 175"]) (code_simp, simp add: entry_target_def http11_labels)

lemma req_175_176 [req_edges]: "req_sends rl 175 uppers [] 176"
  by (rule sendsI [OF req_rows(3), where j = "St 176"]) (code_simp, simp add: entry_target_def http11_labels)

lemma req_176_177 [req_edges]: "req_sends rl 176 uppers [] 177"
  by (rule sendsI [OF req_rows(4), where j = "St 177"]) (code_simp, simp add: entry_target_def http11_labels)

lemma req_177_178 [req_edges]: "req_sends rl 177 uppers [] 178"
  by (rule sendsI [OF req_rows(5), where j = "St 178"]) (code_simp, simp add: entry_target_def http11_labels)

lemma req_178_179 [req_edges]: "req_sends rl 178 uppers [] 179"
  by (rule sendsI [OF req_rows(6), where j = "St 179"]) (code_simp, simp add: entry_target_def http11_labels)

lemma req_179_180 [req_edges]: "req_sends rl 179 uppers [] 180"
  by (rule sendsI [OF req_rows(7), where j = "St 180"]) (code_simp, simp add: entry_target_def http11_labels)

lemma req_180_181 [req_edges]: "req_sends rl 180 uppers [] 181"
  by (rule sendsI [OF req_rows(8), where j = "St 181"]) (code_simp, simp add: entry_target_def http11_labels)

lemma req_181_182 [req_edges]: "req_sends rl 181 uppers [] 182"
  by (rule sendsI [OF req_rows(9), where j = "St 182"]) (code_simp, simp add: entry_target_def http11_labels)

lemma req_182_183 [req_edges]: "req_sends rl 182 uppers [] 183"
  by (rule sendsI [OF req_rows(10), where j = "St 183"]) (code_simp, simp add: entry_target_def http11_labels)

lemma req_183_184 [req_edges]: "req_sends rl 183 uppers [] 184"
  by (rule sendsI [OF req_rows(11), where j = "St 184"]) (code_simp, simp add: entry_target_def http11_labels)

lemma req_184_185 [req_edges]: "req_sends rl 184 uppers [] 185"
  by (rule sendsI [OF req_rows(12), where j = "St 185"]) (code_simp, simp add: entry_target_def http11_labels)

lemma req_2_3 [req_edges]: "req_sends rl 2 [(32, 32)] [Req_request_method] 3"
  by (rule sendsI [OF req_rows(2), where j = "Tr 4"]) (code_simp, simp add: entry_target_def http11_labels)

lemma req_175_3 [req_edges]: "req_sends rl 175 [(32, 32)] [Req_request_method] 3"
  by (rule sendsI [OF req_rows(3), where j = "Tr 4"]) (code_simp, simp add: entry_target_def http11_labels)

lemma req_176_3 [req_edges]: "req_sends rl 176 [(32, 32)] [Req_request_method] 3"
  by (rule sendsI [OF req_rows(4), where j = "Tr 4"]) (code_simp, simp add: entry_target_def http11_labels)

lemma req_177_3 [req_edges]: "req_sends rl 177 [(32, 32)] [Req_request_method] 3"
  by (rule sendsI [OF req_rows(5), where j = "Tr 4"]) (code_simp, simp add: entry_target_def http11_labels)

lemma req_178_3 [req_edges]: "req_sends rl 178 [(32, 32)] [Req_request_method] 3"
  by (rule sendsI [OF req_rows(6), where j = "Tr 4"]) (code_simp, simp add: entry_target_def http11_labels)

lemma req_179_3 [req_edges]: "req_sends rl 179 [(32, 32)] [Req_request_method] 3"
  by (rule sendsI [OF req_rows(7), where j = "Tr 4"]) (code_simp, simp add: entry_target_def http11_labels)

lemma req_180_3 [req_edges]: "req_sends rl 180 [(32, 32)] [Req_request_method] 3"
  by (rule sendsI [OF req_rows(8), where j = "Tr 4"]) (code_simp, simp add: entry_target_def http11_labels)

lemma req_181_3 [req_edges]: "req_sends rl 181 [(32, 32)] [Req_request_method] 3"
  by (rule sendsI [OF req_rows(9), where j = "Tr 4"]) (code_simp, simp add: entry_target_def http11_labels)

lemma req_182_3 [req_edges]: "req_sends rl 182 [(32, 32)] [Req_request_method] 3"
  by (rule sendsI [OF req_rows(10), where j = "Tr 4"]) (code_simp, simp add: entry_target_def http11_labels)

lemma req_183_3 [req_edges]: "req_sends rl 183 [(32, 32)] [Req_request_method] 3"
  by (rule sendsI [OF req_rows(11), where j = "Tr 4"]) (code_simp, simp add: entry_target_def http11_labels)

lemma req_184_3 [req_edges]: "req_sends rl 184 [(32, 32)] [Req_request_method] 3"
  by (rule sendsI [OF req_rows(12), where j = "Tr 4"]) (code_simp, simp add: entry_target_def http11_labels)

lemma req_185_3 [req_edges]: "req_sends rl 185 [(32, 32)] [Req_request_method] 3"
  by (rule sendsI [OF req_rows(13), where j = "Tr 4"]) (code_simp, simp add: entry_target_def http11_labels)

lemma req_3_33 [req_edges]: "req_sends rl 3 [(47, 47)] [Req_mark] 33"
  by (rule sendsI [OF req_rows(14), where j = "Tr 10"]) (code_simp, simp add: entry_target_def http11_labels)

lemma req_33_26 [req_edges]: "req_sends rl 33 segment_chars [] 26"
  by (rule sendsI [OF req_rows(15), where j = "St 26"]) (code_simp, simp add: entry_target_def http11_labels)

lemma req_26_26 [req_edges]: "req_sends rl 26 path_chars [] 26"
  by (rule sendsI [OF req_rows(16), where j = "St 26"]) (code_simp, simp add: entry_target_def http11_labels)

lemma req_33_4 [req_edges]: "req_sends rl 33 [(32, 32)] [Req_request_path, Req_request_uri] 4"
  by (rule sendsI [OF req_rows(15), where j = "Tr 37"]) (code_simp, simp add: entry_target_def http11_labels)

lemma req_26_4 [req_edges]: "req_sends rl 26 [(32, 32)] [Req_request_path, Req_request_uri] 4"
  by (rule sendsI [OF req_rows(16), where j = "Tr 37"]) (code_simp, simp add: entry_target_def http11_labels)

lemma req_33_29 [req_edges]: "req_sends rl 33 [(63, 63)] [Req_request_path] 29"
  by (rule sendsI [OF req_rows(15), where j = "Tr 42"]) (code_simp, simp add: entry_target_def http11_labels)

lemma req_26_29 [req_edges]: "req_sends rl 26 [(63, 63)] [Req_request_path] 29"
  by (rule sendsI [OF req_rows(16), where j = "Tr 42"]) (code_simp, simp add: entry_target_def http11_labels)

lemma req_33_20 [req_edges]: "req_sends rl 33 [(35, 35)] [Req_request_path, Req_request_uri] 20"
  by (rule sendsI [OF req_rows(15), where j = "Tr 39"]) (code_simp, simp add: entry_target_def http11_labels)

lemma req_26_20 [req_edges]: "req_sends rl 26 [(35, 35)] [Req_request_path, Req_request_uri] 20"
  by (rule sendsI [OF req_rows(16), where j = "Tr 39"]) (code_simp, simp add: entry_target_def http11_labels)

lemma req_29_30 [req_edges]: "req_sends rl 29 query_chars [Req_start_query] 30"
  by (rule sendsI [OF req_rows(17), where j = "Tr 53"]) (code_simp, simp add: entry_target_def http11_labels)

lemma req_30_30 [req_edges]: "req_sends rl 30 query_chars [] 30"
  by (rule sendsI [OF req_rows(18), where j = "St 30"]) (code_simp, simp add: entry_target_def http11_labels)

lemma req_30_4 [req_edges]: "req_sends rl 30 [(32, 32)] [Req_query_string, Req_request_uri] 4"
  by (rule sendsI [OF req_rows(18), where j = "Tr 58"]) (code_simp, simp add: entry_target_def http11_labels)

lemma req_30_20 [req_edges]: "req_sends rl 30 [(35, 35)] [Req_query_string, Req_request_uri] 20"
  by (rule sendsI [OF req_rows(18), where j = "Tr 59"]) (code_simp, simp add: entry_target_def http11_labels)

lemma req_20_21 [req_edges]: "req_sends rl 20 query_chars [Req_mark] 21"
  by (rule sendsI [OF req_rows(19), where j = "Tr 43"]) (code_simp, simp add: entry_target_def http11_labels)

lemma req_21_21 [req_edges]: "req_sends rl 21 query_chars [] 21"
  by (rule sendsI [OF req_rows(20), where j = "St 21"]) (code_simp, simp add: entry_target_def http11_labels)

lemma req_21_4 [req_edges]: "req_sends rl 21 [(32, 32)] [Req_fragment] 4"
  by (rule sendsI [OF req_rows(20), where j = "Tr 47"]) (code_simp, simp add: entry_target_def http11_labels)

lemma req_4_5 [req_edges]: "req_sends rl 4 [(72, 72)] [Req_mark] 5"
  by (rule sendsI [OF req_rows(21), where j = "Tr 13"]) (code_simp, simp add: entry_target_def http11_labels)

lemma req_5_6 [req_edges]: "req_sends rl 5 [(84, 84)] [] 6"
  by (rule sendsI [OF req_rows(22), where j = "St 6"]) (code_simp, simp add: entry_target_def http11_labels)

lemma req_6_7 [req_edges]: "req_sends rl 6 [(84, 84)] [] 7"
  by (rule sendsI [OF req_rows(23), where j = "St 7"]) (code_simp, simp add: entry_target_def http11_labels)

lemma req_7_8 [req_edges]: "req_sends rl 7 [(80, 80)] [] 8"
  by (rule sendsI [OF req_rows(24), where j = "St 8"]) (code_simp, simp add: entry_target_def http11_labels)

lemma req_8_9 [req_edges]: "req_sends rl 8 [(47, 47)] [] 9"
  by (rule sendsI [OF req_rows(25), where j = "St 9"]) (code_simp, simp add: entry_target_def http11_labels)

lemma req_9_10 [req_edges]: "req_sends rl 9 [(49, 49)] [] 10"
  by (rule sendsI [OF req_rows(26), where j = "St 10"]) (code_simp, simp add: entry_target_def http11_labels)

lemma req_10_11 [req_edges]: "req_sends rl 10 [(46, 46)] [] 11"
  by (rule sendsI [OF req_rows(27), where j = "St 11"]) (code_simp, simp add: entry_target_def http11_labels)

lemma req_11_12 [req_edges]: "req_sends rl 11 [(48, 49)] [] 12"
  by (rule sendsI [OF req_rows(28), where j = "St 12"]) (code_simp, simp add: entry_target_def http11_labels)

lemma req_12_17 [req_edges]: "req_sends rl 12 [(13, 13)] [Req_http_version] 17"
  by (rule sendsI [OF req_rows(29), where j = "Tr 22"]) (code_simp, simp add: entry_target_def http11_labels)

lemma req_17_13 [req_edges]: "req_sends rl 17 [(10, 10)] [] 13"
  by (rule sendsI [OF req_rows(30), where j = "St 13"]) (code_simp, simp add: entry_target_def http11_labels)

lemma req_13_14 [req_edges]: "req_sends rl 13 token_chars [Req_start_field] 14"
  by (rule sendsI [OF req_rows(31), where j = "Tr 23"]) (code_simp, simp add: entry_target_def http11_labels)

lemma req_14_14 [req_edges]: "req_sends rl 14 token_chars [] 14"
  by (rule sendsI [OF req_rows(32), where j = "St 14"]) (code_simp, simp add: entry_target_def http11_labels)

lemma req_14_15 [req_edges]: "req_sends rl 14 [(58, 58)] [Req_write_field] 15"
  by (rule sendsI [OF req_rows(32), where j = "Tr 27"]) (code_simp, simp add: entry_target_def http11_labels)

lemma req_15_15 [req_edges]: "req_sends rl 15 [(32, 32)] [Req_start_value] 15"
  by (rule sendsI [OF req_rows(33), where j = "Tr 29"]) (code_simp, simp add: entry_target_def http11_labels)

lemma req_15_16 [req_edges]: "req_sends rl 15 value_starts [Req_start_value] 16"
  by (rule sendsI [OF req_rows(33), where j = "Tr 28"]) (code_simp, simp add: entry_target_def http11_labels)

lemma req_15_17 [req_edges]: "req_sends rl 15 [(13, 13)] [Req_start_value, Req_write_value] 17"
  by (rule sendsI [OF req_rows(33), where j = "Tr 31"]) (code_simp, simp add: entry_target_def http11_labels)

lemma req_16_16 [req_edges]: "req_sends rl 16 value_chars [] 16"
  by (rule sendsI [OF req_rows(34), where j = "St 16"]) (code_simp, simp add: entry_target_def http11_labels)

lemma req_16_17 [req_edges]: "req_sends rl 16 [(13, 13)] [Req_write_value] 17"
  by (rule sendsI [OF req_rows(34), where j = "Tr 34"]) (code_simp, simp add: entry_target_def http11_labels)

lemma req_13_18 [req_edges]: "req_sends rl 13 [(13, 13)] [Req_start_field] 18"
  by (rule sendsI [OF req_rows(31), where j = "Tr 25"]) (code_simp, simp add: entry_target_def http11_labels)

lemma req_18_348 [req_edges]: "req_sends rl 18 [(10, 10)] [Req_done] 348"
  by (rule sendsI [OF req_rows(35), where j = "Tr 36"]) (code_simp, simp add: entry_target_def http11_labels)

section \<open>Pieces of a request\<close>

lemma code_signs [simp]:
  "code CHR '':'' = 58" "code CHR ''/'' = 47" "code CHR ''?'' = 63" "code CHR ''#'' = 35" "code CHR '' '' = 32" "code CHR ''.'' = 46"
  "code CHR ''H'' = 72" "code CHR ''T'' = 84" "code CHR ''P'' = 80" "code CHR ''0'' = 48" "code CHR ''1'' = 49" "code CR = 13" "code LF = 10"
  by code_simp+

abbreviation req_at :: "bool \<Rightarrow> string \<Rightarrow> http_parser \<times> req_event list \<Rightarrow> int \<Rightarrow> nat \<Rightarrow> (http_parser \<times> req_event list) \<times> int \<times> nat" where
  "req_at rl s \<equiv> run_at http11_table rl (req_do (length s)) (\<lambda>a. a = Req_done) s"

lemma req_step:
  assumes "s = pre @ c # post" and "req_sends rl cs R as cs'" and "in_ranges R (code c)" and "Req_done \<notin> set as"
  shows "req_at rl s x cs (length pre) = req_at rl s (fold (\<lambda>a. req_do (length s) a (length pre)) as x) cs' (length (pre @ [c]))"
  using run_step [OF assms(1-3), of "\<lambda>a. a = Req_done" "req_do (length s)" x] assms(4) by (auto simp: list_ex_iff)

lemma req_word:
  assumes "s = pre @ w @ post" and "word_of R1 R w" and "req_sends rl cs R1 as cs'" and "req_sends rl cs' R [] cs'" and "Req_done \<notin> set as"
  shows "req_at rl s x cs (length pre) = req_at rl s (fold (\<lambda>a. req_do (length s) a (length pre)) as x) cs' (length (pre @ w))"
  using run_word [OF assms(1-4), of "\<lambda>a. a = Req_done" "req_do (length s)" x] assms(5) by (auto simp: list_ex_iff)

lemma req_loop:
  assumes "s = pre @ w @ post" and "req_sends rl cs R [] cs" and "\<forall>c \<in> set w. in_ranges R (code c)"
  shows "req_at rl s x cs (length pre) = req_at rl s x cs (length (pre @ w))"
  by (rule run_loop [OF assms])

text \<open>What no action of a plain request changes before its end.\<close>

definition same_run :: "http_parser \<Rightarrow> http_parser \<Rightarrow> bool" where
  "same_run h h' \<longleftrightarrow> hp_xml_sent h' = hp_xml_sent h \<and> hp_json_sent h' = hp_json_sent h \<and> hp_nread h' = hp_nread h \<and> hp_cs h' = hp_cs h"

text \<open>
  In the text \<open>s\<close>, behind \<open>pre\<close> and in the state \<open>cs\<close>, the piece \<open>w\<close> leads to the state \<open>cs'\<close>, and the callbacks it causes change the
  parser by \<open>f\<close>. The buffer \<open>mem\<close> starts with the text.
\<close>

definition reads :: "bool \<Rightarrow> string \<Rightarrow> byte list \<Rightarrow> string \<Rightarrow> int \<Rightarrow> string \<Rightarrow> int \<Rightarrow> (HttpRequestParser \<Rightarrow> HttpRequestParser) \<Rightarrow> bool" where
  "reads rl s mem pre cs w cs' f \<longleftrightarrow>
     (\<forall>h es. \<exists>h' es'. req_at rl s (h, es) cs (length pre) = req_at rl s (h', es @ es') cs' (length (pre @ w)) \<and> same_run h h'
       \<and> (\<forall>r. callbacks (request_callback mem) es' r = Inr (f r)))"

lemma callbacks_append:
  "callbacks cb (es @ fs) r = (case callbacks cb es r of Inl e \<Rightarrow> Inl e | Inr r' \<Rightarrow> callbacks cb fs r')"
  by (induction es arbitrary: r) (auto split: sum.splits)

lemma readsI:
  assumes "\<And>h es. \<exists>h' es'. req_at rl s (h, es) cs (length pre) = req_at rl s (h', es @ es') cs' (length (pre @ w)) \<and> same_run h h'
    \<and> (\<forall>r. callbacks (request_callback mem) es' r = Inr (f r))"
  shows "reads rl s mem pre cs w cs' f"
  using assms by (simp add: reads_def)

lemma reads_seq:
  assumes "reads rl s mem pre cs w cs1 f" and "reads rl s mem (pre @ w) cs1 v cs2 g"
  shows "reads rl s mem pre cs (w @ v) cs2 (\<lambda>r. g (f r))"
proof (rule readsI)
  fix h es
  obtain h1 es1 where 1: "req_at rl s (h, es) cs (length pre) = req_at rl s (h1, es @ es1) cs1 (length (pre @ w))" "same_run h h1"
      "\<forall>r. callbacks (request_callback mem) es1 r = Inr (f r)"
    using assms(1) unfolding reads_def by blast
  obtain h2 es2 where 2: "req_at rl s (h1, es @ es1) cs1 (length (pre @ w)) = req_at rl s (h2, (es @ es1) @ es2) cs2 (length ((pre @ w) @ v))"
      "same_run h1 h2" "\<forall>r. callbacks (request_callback mem) es2 r = Inr (g r)"
    using assms(2) unfolding reads_def by blast
  show "\<exists>h' es'. req_at rl s (h, es) cs (length pre) = req_at rl s (h', es @ es') cs2 (length (pre @ w @ v)) \<and> same_run h h'
      \<and> (\<forall>r. callbacks (request_callback mem) es' r = Inr (g (f r)))"
    using 1 2 by (intro exI [of _ h2] exI [of _ "es1 @ es2"]) (simp add: same_run_def callbacks_append)
qed

lemma std_string_at:
  assumes "prefix (to_bytes (pre @ w)) mem" and "length mem < 2 ^ 63"
  shows "std_string mem (length pre) (length w) = Inr w"
  using assms by (auto simp: std_string_def prefix_def)

section \<open>The request line\<close>

text \<open>A method of up to eleven characters goes through a chain of states.\<close>

definition method_states :: "int list" where
  "method_states = [2, 175, 176, 177, 178, 179, 180, 181, 182, 183, 184]"

lemma method_chain: "i < 10 \<Longrightarrow> req_sends rl (method_states ! i) uppers [] (method_states ! Suc i)"
proof -
  assume "i < 10"
  then have "i = 0 \<or> i = 1 \<or> i = 2 \<or> i = 3 \<or> i = 4 \<or> i = 5 \<or> i = 6 \<or> i = 7 \<or> i = 8 \<or> i = 9" by arith
  then show ?thesis by (auto simp: method_states_def req_edges)
qed

lemma method_blank: "i < 11 \<Longrightarrow> req_sends rl (method_states ! i) [(32, 32)] [Req_request_method] 3"
proof -
  assume "i < 11"
  then have "i = 0 \<or> i = 1 \<or> i = 2 \<or> i = 3 \<or> i = 4 \<or> i = 5 \<or> i = 6 \<or> i = 7 \<or> i = 8 \<or> i = 9 \<or> i = 10" by arith
  then show ?thesis by (auto simp: method_states_def req_edges)
qed

lemma method_run:
  assumes "s = pre @ w @ post" and "\<forall>c \<in> set w. in_ranges uppers (code c)" and "i + length w < 11"
  shows "req_at rl s x (method_states ! i) (length pre) = req_at rl s x (method_states ! (i + length w)) (length (pre @ w))"
  using assms
proof (induction w arbitrary: pre i)
  case Nil
  then show ?case by simp
next
  case (Cons c w)
  have "req_at rl s x (method_states ! i) (length pre) = req_at rl s x (method_states ! Suc i) (length (pre @ [c]))"
    using req_step [OF _ method_chain, of s pre c "w @ post" i rl x] Cons.prems by simp
  also have "\<dots> = req_at rl s x (method_states ! (Suc i + length w)) (length ((pre @ [c]) @ w))"
    using Cons.IH [of "pre @ [c]" "Suc i"] Cons.prems by simp
  finally show ?case by simp
qed

lemma reads_method:
  assumes s: "s = w @ '' '' @ post" and w: "word_of uppers uppers w" "length w \<le> 11" and m: "m \<noteq> INVALID_METHOD" "HttpMethodToString m = w"
    and mem: "prefix (to_bytes s) mem" and n: "length s < 2 ^ 63"
  shows "reads rl s mem [] 1 (w @ '' '') 3 (\<lambda>r. r\<lparr>rqp_data := HttpRequest_setMethod m (rqp_data r)\<rparr>)"
proof (rule readsI)
  fix h :: http_parser and es
  obtain c w' where c: "w = c # w'" "in_ranges uppers (code c)" "\<forall>c \<in> set w'. in_ranges uppers (code c)"
    using w(1) by (cases w) (auto simp: word_of_def list_all_iff)
  let ?h = "h\<lparr>hp_mark := 0\<rparr>"
  have 1: "req_at rl s (h, es) 1 (length ([] :: string)) = req_at rl s (?h, es) (method_states ! 0) (length [c])"
    using req_step [OF _ req_1_2 c(2), of s "[]" "w' @ '' '' @ post" rl "(h, es)"] s c(1) by (simp add: method_states_def)
  have 2: "req_at rl s (?h, es) (method_states ! 0) (length [c]) = req_at rl s (?h, es) (method_states ! length w') (length w)"
    using method_run [of s "[c]" w' "'' '' @ post" 0 rl "(?h, es)"] s c w(2) by simp
  have 3: "req_at rl s (?h, es) (method_states ! length w') (length w) = req_at rl s (?h, es @ [Ev_method 0 (length w)]) 3 (length (w @ '' ''))"
    using req_step [OF _ method_blank, of s w "CHR '' ''" post "length w'" rl "(?h, es)"] s c(1) w(2) n by (simp add: emit_def sub64_le)
  have "CHR 0x00 \<notin> set w"
  proof
    assume "CHR 0x00 \<in> set w"
    then have "in_ranges uppers (code CHR 0x00)" using c by auto
    then show False by code_simp
  qed
  then have "c_str (w @ t) = w @ c_str t" for t by (simp add: c_str_def takeWhile_append)
  then have "prefix (HttpMethodToString m) (c_str (to_text mem))" using mem s m(2) by (auto simp: prefix_def)
  then have "CharsToHttpMethod (to_text mem) = m" using CharsToHttpMethod_iff [OF m(1)] by simp
  then have 4: "callbacks (request_callback mem) [Ev_method 0 (length w)] r = Inr (r\<lparr>rqp_data := HttpRequest_setMethod m (rqp_data r)\<rparr>)" for r
    using m(1) by (simp add: on_request_method_def)
  show "\<exists>h' es'. req_at rl s (h, es) 1 (length ([] :: string)) = req_at rl s (h', es @ es') 3 (length ([] @ w @ '' '')) \<and> same_run h h'
      \<and> (\<forall>r. callbacks (request_callback mem) es' r = Inr (r\<lparr>rqp_data := HttpRequest_setMethod m (rqp_data r)\<rparr>))"
    using 1 2 3 4 by (intro exI [of _ ?h] exI [of _ "[Ev_method 0 (length w)]"]) (simp add: same_run_def)
qed

text \<open>A path, up to the character that ends it.\<close>

lemma reads_path:
  assumes s: "s = pre @ ''/'' @ w @ [d] @ post" and w: "w = [] \<or> word_of segment_chars path_chars w"
    and d: "\<And>cs. cs = 33 \<or> cs = 26 \<Longrightarrow> req_sends rl cs R (Req_request_path # us) cs'" "in_ranges R (code d)" "us = [] \<or> us = [Req_request_uri]"
    and mem: "prefix (to_bytes s) mem" and n: "length mem < 2 ^ 63"
  shows "reads rl s mem pre 3 (''/'' @ w @ [d]) cs' (\<lambda>r. r\<lparr>rqp_data := HttpRequest_setPath (''/'' @ w) (rqp_data r)\<rparr>)"
proof (rule readsI)
  fix h :: http_parser and es
  let ?p = "pre @ ''/'' @ w" and ?h = "h\<lparr>hp_mark := length pre\<rparr>"
  let ?es = "Ev_path (length pre) (length (''/'' @ w)) # map (\<lambda>_. Ev_uri (length pre) (length (''/'' @ w))) us"
  have 1: "req_at rl s (h, es) 3 (length pre) = req_at rl s (?h, es) 33 (length (pre @ ''/''))"
    using req_step [OF _ req_3_33, of s pre "CHR ''/''" "w @ [d] @ post" rl "(h, es)"] s by simp
  have "\<exists>cs. (cs = 33 \<or> cs = 26) \<and> req_at rl s (?h, es) 33 (length (pre @ ''/'')) = req_at rl s (?h, es) cs (length ?p)"
  proof (cases "w = []")
    case False
    then show ?thesis using req_word [OF _ _ req_33_26 req_26_26, of s "pre @ ''/''" w "[d] @ post" rl "(?h, es)"] s w by auto
  qed auto
  then obtain cs where cs: "cs = 33 \<or> cs = 26" "req_at rl s (?h, es) 33 (length (pre @ ''/'')) = req_at rl s (?h, es) cs (length ?p)" by blast
  have len: "length ?p < 2 ^ 64" using mem n s prefix_length_le [OF mem] by simp
  have 2: "req_at rl s (?h, es) cs (length ?p) = req_at rl s (?h, es @ ?es) cs' (length (?p @ [d]))"
    using req_step [OF _ d(1) [OF cs(1)] d(2), of s ?p post "(?h, es)"] s d(3) len by (auto simp: emit_def sub64_le)
  have "prefix (to_bytes (pre @ ''/'' @ w)) mem" using mem s by (auto simp: prefix_def)
  from std_string_at [OF this n] d(3) have 3: "callbacks (request_callback mem) ?es r = Inr (r\<lparr>rqp_data := HttpRequest_setPath (''/'' @ w) (rqp_data r)\<rparr>)" for r
    by (auto simp: on_request_path_def set_text_def)
  show "\<exists>h' es'. req_at rl s (h, es) 3 (length pre) = req_at rl s (h', es @ es') cs' (length (pre @ ''/'' @ w @ [d])) \<and> same_run h h'
      \<and> (\<forall>r. callbacks (request_callback mem) es' r = Inr (r\<lparr>rqp_data := HttpRequest_setPath (''/'' @ w) (rqp_data r)\<rparr>))"
    using 1 2 3 cs(2) by (intro exI [of _ ?h] exI [of _ ?es]) (simp add: same_run_def)
qed

text \<open>A query, and a fragment, up to the character that ends it.\<close>

lemma reads_query:
  assumes s: "s = pre @ w @ [d] @ post" and w: "word_of query_chars query_chars w"
    and d: "req_sends rl 30 R [Req_query_string, Req_request_uri] cs'" "in_ranges R (code d)"
    and mem: "prefix (to_bytes s) mem" and n: "length mem < 2 ^ 63"
  shows "reads rl s mem pre 29 (w @ [d]) cs' (\<lambda>r. r\<lparr>rqp_data := HttpRequest_setQuery w (rqp_data r)\<rparr>)"
proof (rule readsI)
  fix h :: http_parser and es
  let ?p = "pre @ w" and ?h = "h\<lparr>hp_query_start := length pre\<rparr>"
  let ?es = "[Ev_query (length pre) (length w), Ev_uri (hp_mark h) (sub64 (length ?p) (hp_mark h))]"
  have 1: "req_at rl s (h, es) 29 (length pre) = req_at rl s (?h, es) 30 (length ?p)"
    using req_word [OF _ w req_29_30 req_30_30, of s pre "[d] @ post" rl "(h, es)"] s by simp
  have len: "length ?p < 2 ^ 64" using mem n s prefix_length_le [OF mem] by simp
  have 2: "req_at rl s (?h, es) 30 (length ?p) = req_at rl s (?h, es @ ?es) cs' (length (?p @ [d]))"
    using req_step [OF _ d, of s ?p post "(?h, es)"] s len by (simp add: emit_def sub64_le)
  have "prefix (to_bytes (pre @ w)) mem" using mem s by (auto simp: prefix_def)
  from std_string_at [OF this n] have 3: "callbacks (request_callback mem) ?es r = Inr (r\<lparr>rqp_data := HttpRequest_setQuery w (rqp_data r)\<rparr>)" for r
    by (simp add: on_request_query_def set_text_def)
  show "\<exists>h' es'. req_at rl s (h, es) 29 (length pre) = req_at rl s (h', es @ es') cs' (length (pre @ w @ [d])) \<and> same_run h h'
      \<and> (\<forall>r. callbacks (request_callback mem) es' r = Inr (r\<lparr>rqp_data := HttpRequest_setQuery w (rqp_data r)\<rparr>))"
    using 1 2 3 by (intro exI [of _ ?h] exI [of _ ?es]) (simp add: same_run_def)
qed

lemma reads_fragment:
  assumes s: "s = pre @ w @ '' '' @ post" and w: "word_of query_chars query_chars w" and mem: "prefix (to_bytes s) mem" and n: "length mem < 2 ^ 63"
  shows "reads rl s mem pre 20 (w @ '' '') 4 (\<lambda>r. r\<lparr>rqp_data := HttpRequest_setFragment w (rqp_data r)\<rparr>)"
proof (rule readsI)
  fix h :: http_parser and es
  let ?p = "pre @ w" and ?h = "h\<lparr>hp_mark := length pre\<rparr>" and ?es = "[Ev_fragment (length pre) (length w)]"
  have 1: "req_at rl s (h, es) 20 (length pre) = req_at rl s (?h, es) 21 (length ?p)"
    using req_word [OF _ w req_20_21 req_21_21, of s pre "'' '' @ post" rl "(h, es)"] s by simp
  have len: "length ?p < 2 ^ 64" using mem n s prefix_length_le [OF mem] by simp
  have 2: "req_at rl s (?h, es) 21 (length ?p) = req_at rl s (?h, es @ ?es) 4 (length (?p @ '' ''))"
    using req_step [OF _ req_21_4, of s ?p "CHR '' ''" post rl "(?h, es)"] s len by (simp add: emit_def sub64_le)
  have "prefix (to_bytes (pre @ w)) mem" using mem s by (auto simp: prefix_def)
  from std_string_at [OF this n] have 3: "callbacks (request_callback mem) ?es r = Inr (r\<lparr>rqp_data := HttpRequest_setFragment w (rqp_data r)\<rparr>)" for r
    by (simp add: on_request_fragment_def set_text_def)
  show "\<exists>h' es'. req_at rl s (h, es) 20 (length pre) = req_at rl s (h', es @ es') 4 (length (pre @ w @ '' '')) \<and> same_run h h'
      \<and> (\<forall>r. callbacks (request_callback mem) es' r = Inr (r\<lparr>rqp_data := HttpRequest_setFragment w (rqp_data r)\<rparr>))"
    using 1 2 3 by (intro exI [of _ ?h] exI [of _ ?es]) (simp add: same_run_def)
qed

text \<open>The version, with the end of the line. The digit after the point is 0 or 1.\<close>

definition version_text :: "byte \<Rightarrow> string" where
  "version_text v = (if v = 0x11 then ''HTTP/1.1'' else ''HTTP/1.0'')"

lemma c_str_prefix: "CHR 0x00 \<notin> set w \<Longrightarrow> c_str (w @ t) = w @ c_str t"
  by (simp add: c_str_def takeWhile_append)

lemma http_version_at:
  assumes "prefix (to_bytes (pre @ version_text v)) mem" and "v = 0x11 \<or> v = 0x10"
  shows "http_version_of mem (length pre) 8 = Some v"
proof -
  obtain t where "to_text (drop (length pre) mem) = version_text v @ t" using assms(1) by (auto simp: prefix_def)
  then show ?thesis using assms(2) by (auto simp: http_version_of_def strncmp_def version_text_def c_str_prefix) (simp_all add: c_str_def)
qed

lemma version_steps:
  assumes s: "s = pre @ version_text v @ [CR, LF] @ post" and n: "length s < 2 ^ 64"
  shows "req_at rl s (h, es) 4 (length pre) =
    req_at rl s (h\<lparr>hp_mark := length pre\<rparr>, es @ [Ev_version (length pre) 8]) 13 (length (pre @ version_text v @ [CR, LF]))"
proof -
  define d where "d = (if v = 0x11 then CHR ''1'' else CHR ''0'')"
  have d: "version_text v = ''HTTP/1.'' @ [d]" "in_ranges [(48, 49)] (code d)" by (simp_all add: version_text_def d_def)
  let ?s = "req_at rl s" and ?x = "(h\<lparr>hp_mark := length pre\<rparr>, es)" and ?t = "[d, CR, LF] @ post"
  have 1: "?s (h, es) 4 (length pre) = ?s ?x 5 (length (pre @ ''H''))"
    using req_step [OF _ req_4_5, of s pre "CHR ''H''" "''TTP/1.'' @ ?t"] s d(1) by simp
  have 2: "?s ?x 5 (length (pre @ ''H'')) = ?s ?x 6 (length (pre @ ''HT''))"
    using req_step [OF _ req_5_6, of s "pre @ ''H''" "CHR ''T''" "''TP/1.'' @ ?t"] s d(1) by simp
  have 3: "?s ?x 6 (length (pre @ ''HT'')) = ?s ?x 7 (length (pre @ ''HTT''))"
    using req_step [OF _ req_6_7, of s "pre @ ''HT''" "CHR ''T''" "''P/1.'' @ ?t"] s d(1) by simp
  have 4: "?s ?x 7 (length (pre @ ''HTT'')) = ?s ?x 8 (length (pre @ ''HTTP''))"
    using req_step [OF _ req_7_8, of s "pre @ ''HTT''" "CHR ''P''" "''/1.'' @ ?t"] s d(1) by simp
  have 5: "?s ?x 8 (length (pre @ ''HTTP'')) = ?s ?x 9 (length (pre @ ''HTTP/''))"
    using req_step [OF _ req_8_9, of s "pre @ ''HTTP''" "CHR ''/''" "''1.'' @ ?t"] s d(1) by simp
  have 6: "?s ?x 9 (length (pre @ ''HTTP/'')) = ?s ?x 10 (length (pre @ ''HTTP/1''))"
    using req_step [OF _ req_9_10, of s "pre @ ''HTTP/''" "CHR ''1''" "''.'' @ ?t"] s d(1) by simp
  have 7: "?s ?x 10 (length (pre @ ''HTTP/1'')) = ?s ?x 11 (length (pre @ ''HTTP/1.''))"
    using req_step [OF _ req_10_11, of s "pre @ ''HTTP/1''" "CHR ''.''" ?t] s d(1) by simp
  have 8: "?s ?x 11 (length (pre @ ''HTTP/1.'')) = ?s ?x 12 (length (pre @ version_text v))"
    using req_step [OF _ req_11_12 d(2), of s "pre @ ''HTTP/1.''" "[CR, LF] @ post"] s d(1) by simp
  have 9: "?s ?x 12 (length (pre @ version_text v)) = ?s (fst ?x, es @ [Ev_version (length pre) 8]) 17 (length (pre @ version_text v @ [CR]))"
    using req_step [OF _ req_12_17, of s "pre @ version_text v" CR "[LF] @ post" rl ?x] s d(1) n by (simp add: emit_def sub64_le)
  have 10: "?s y 17 (length (pre @ version_text v @ [CR])) = ?s y 13 (length (pre @ version_text v @ [CR, LF]))" for y
    using req_step [OF _ req_17_13, of s "pre @ version_text v @ [CR]" LF post rl y] s by simp
  show ?thesis by (simp only: 1 2 3 4 5 6 7 8 9 10 fst_conv)
qed

lemma reads_version:
  assumes s: "s = pre @ version_text v @ [CR, LF] @ post" and v: "v = 0x11 \<or> v = 0x10" and mem: "prefix (to_bytes s) mem" and n: "length mem < 2 ^ 63"
  shows "reads rl s mem pre 4 (version_text v @ [CR, LF]) 13 (\<lambda>r. r\<lparr>rqp_data := HttpRequest_setVersion v (rqp_data r)\<rparr>)"
proof (rule readsI)
  fix h :: http_parser and es
  have len: "length s < 2 ^ 64" using n prefix_length_le [OF mem] by simp
  have "prefix (to_bytes (pre @ version_text v)) mem" using mem s by (auto simp: prefix_def)
  from http_version_at [OF this v] have "callbacks (request_callback mem) [Ev_version (length pre) 8] r = Inr (r\<lparr>rqp_data := HttpRequest_setVersion v (rqp_data r)\<rparr>)" for r
    by (simp add: on_request_version_def)
  then show "\<exists>h' es'. req_at rl s (h, es) 4 (length pre) = req_at rl s (h', es @ es') 13 (length (pre @ version_text v @ [CR, LF])) \<and> same_run h h'
      \<and> (\<forall>r. callbacks (request_callback mem) es' r = Inr (r\<lparr>rqp_data := HttpRequest_setVersion v (rqp_data r)\<rparr>))"
    using version_steps [OF s len, of rl h es]
    by (intro exI [of _ "h\<lparr>hp_mark := length pre\<rparr>"] exI [of _ "[Ev_version (length pre) 8]"]) (simp add: same_run_def)
qed

end
