(* ===== verification/Mingo_HttpParser_Request.thy ===== *)
theory Mingo_HttpParser_Request
  imports Mingo_HttpParser_Roundtrip
begin

text \<open>
  The head of a request as \<open>HttpRequest::dump\<close> writes it, read by the request parser.
\<close>

section \<open>Header lines\<close>

definition header_line :: "string \<times> string \<Rightarrow> string" where
  "header_line kv = fst kv @ '': '' @ snd kv @ [CR, LF]"

definition header_plain :: "string \<times> string \<Rightarrow> bool" where
  "header_plain kv \<longleftrightarrow> word_of token_chars token_chars (fst kv) \<and> (snd kv = [] \<or> word_of value_starts value_chars (snd kv))"

lemma header_name_steps:
  assumes s: "s = pre @ k @ '': '' @ post" and k: "word_of token_chars token_chars k" and n: "length s < 2 ^ 64"
  shows "req_at rl s (h, es) 13 (length pre) =
    req_at rl s (h\<lparr>hp_field_start := length pre, hp_field_len := length k, hp_mark := length (pre @ k @ '':'')\<rparr>, es) 15 (length (pre @ k @ '': ''))"
proof -
  let ?h1 = "h\<lparr>hp_field_start := length pre\<rparr>" and ?h2 = "h\<lparr>hp_field_start := length pre, hp_field_len := length k\<rparr>"
  have 1: "req_at rl s (h, es) 13 (length pre) = req_at rl s (?h1, es) 14 (length (pre @ k))"
    using req_word [OF _ k req_13_14 req_14_14, of s pre "'': '' @ post" rl "(h, es)"] s by simp
  have 2: "req_at rl s (?h1, es) 14 (length (pre @ k)) = req_at rl s (?h2, es) 15 (length (pre @ k @ '':''))"
    using req_step [OF _ req_14_15, of s "pre @ k" "CHR '':''" "'' '' @ post" rl "(?h1, es)"] s n by (simp add: sub64_le)
  have 3: "req_at rl s (?h2, es) 15 (length (pre @ k @ '':'')) = req_at rl s (?h2\<lparr>hp_mark := length (pre @ k @ '':'')\<rparr>, es) 15 (length (pre @ k @ '': ''))"
    using req_step [OF _ req_15_15, of s "pre @ k @ '':''" "CHR '' ''" post rl "(?h2, es)"] s by simp
  show ?thesis by (simp only: 1 2 3)
qed

lemma header_value_steps:
  assumes s: "s = pre @ v @ [CR, LF] @ post" and v: "v = [] \<or> word_of value_starts value_chars v" and n: "length s < 2 ^ 64"
  shows "req_at rl s (h, es) 15 (length pre) =
    req_at rl s (h\<lparr>hp_mark := length pre\<rparr>, es @ [Ev_field (hp_field_start h) (hp_field_len h) (length pre) (length v)]) 13 (length (pre @ v @ [CR, LF]))"
proof -
  let ?h = "h\<lparr>hp_mark := length pre\<rparr>" and ?e = "Ev_field (hp_field_start h) (hp_field_len h) (length pre) (length v)"
  have cr: "req_at rl s (h, es) 15 (length pre) = req_at rl s (?h, es @ [?e]) 17 (length (pre @ v @ [CR]))"
  proof (cases "v = []")
    case True
    then show ?thesis using req_step [OF _ req_15_17, of s pre CR "[LF] @ post" rl "(h, es)"] s n by (simp add: emit_def sub64_le)
  next
    case False
    have "req_at rl s (h, es) 15 (length pre) = req_at rl s (?h, es) 16 (length (pre @ v))"
      using req_word [OF _ _ req_15_16 req_16_16, of s pre v "[CR, LF] @ post" rl "(h, es)"] s v False by simp
    then show ?thesis
      using req_step [OF _ req_16_17, of s "pre @ v" CR "[LF] @ post" rl "(?h, es)"] s n by (simp add: emit_def sub64_le)
  qed
  have lf: "req_at rl s x 17 (length (pre @ v @ [CR])) = req_at rl s x 13 (length (pre @ v @ [CR, LF]))" for x
    using req_step [OF _ req_17_13, of s "pre @ v @ [CR]" LF post rl x] s by simp
  show ?thesis by (simp only: cr lf)
qed

lemma reads_header:
  assumes s: "s = pre @ header_line kv @ post" and kv: "header_plain kv" and mem: "prefix (to_bytes s) mem" and n: "length mem < 2 ^ 63"
  shows "reads rl s mem pre 13 (header_line kv) 13 (\<lambda>r. r\<lparr>rqp_data := HttpRequest_setHeader (fst kv) (snd kv) (rqp_data r)\<rparr>)"
proof (rule readsI)
  fix h :: http_parser and es
  obtain k v where [simp]: "kv = (k, v)" by (cases kv)
  let ?q = "pre @ k @ '': ''"
  let ?e = "Ev_field (length pre) (length k) (length ?q) (length v)"
  let ?h1 = "h\<lparr>hp_field_start := length pre, hp_field_len := length k, hp_mark := length (pre @ k @ '':'')\<rparr>"
  have len: "length s < 2 ^ 64" using n prefix_length_le [OF mem] by simp
  have 1: "req_at rl s (h, es) 13 (length pre) = req_at rl s (?h1, es) 15 (length ?q)"
    using header_name_steps [of s pre k "v @ [CR, LF] @ post" rl h es] s kv len by (simp add: header_line_def header_plain_def)
  have 2: "req_at rl s (?h1, es) 15 (length ?q) = req_at rl s (?h1\<lparr>hp_mark := length ?q\<rparr>, es @ [?e]) 13 (length (?q @ v @ [CR, LF]))"
    using header_value_steps [of s ?q v post rl ?h1 es] s kv len by (simp add: header_line_def header_plain_def)
  have "prefix (to_bytes (pre @ k)) mem" "prefix (to_bytes (?q @ v)) mem" using mem s by (auto simp: prefix_def header_line_def)
  then have "std_string mem (length pre) (length k) = Inr k" "std_string mem (length ?q) (length v) = Inr v"
    using std_string_at [OF _ n] by blast+
  then have 3: "callbacks (request_callback mem) [?e] r = Inr (r\<lparr>rqp_data := HttpRequest_setHeader k v (rqp_data r)\<rparr>)" for r
    using kv by (auto simp: on_request_http_field_def header_plain_def word_of_def)
  show "\<exists>h' es'. req_at rl s (h, es) 13 (length pre) = req_at rl s (h', es @ es') 13 (length (pre @ header_line kv)) \<and> same_run h h'
      \<and> (\<forall>r. callbacks (request_callback mem) es' r = Inr (r\<lparr>rqp_data := HttpRequest_setHeader (fst kv) (snd kv) (rqp_data r)\<rparr>))"
    using 1 2 3 by (intro exI [of _ "?h1\<lparr>hp_mark := length ?q\<rparr>"] exI [of _ "[?e]"]) (simp add: same_run_def header_line_def)
qed

lemma reads_nothing: "reads rl s mem pre cs [] cs (\<lambda>r. r)"
  by (rule readsI) (auto intro!: exI [of _ "[]"] simp: same_run_def)

lemma reads_headers:
  assumes "s = pre @ concat (map header_line kvs) @ post" and "list_all header_plain kvs" and mem: "prefix (to_bytes s) mem" and n: "length mem < 2 ^ 63"
  shows "reads rl s mem pre 13 (concat (map header_line kvs)) 13
    (\<lambda>r. r\<lparr>rqp_data := foldl (\<lambda>d (k, v). HttpRequest_setHeader k v d) (rqp_data r) kvs\<rparr>)"
  using assms(1,2)
proof (induction kvs arbitrary: pre)
  case Nil
  have "r\<lparr>rqp_data := rqp_data r\<rparr> = r" for r :: HttpRequestParser by simp
  then show ?case using reads_nothing by simp
next
  case (Cons kv kvs)
  have 1: "reads rl s mem pre 13 (header_line kv) 13 (\<lambda>r. r\<lparr>rqp_data := HttpRequest_setHeader (fst kv) (snd kv) (rqp_data r)\<rparr>)"
    using reads_header [OF _ _ mem n, of pre kv] Cons.prems by simp
  have 2: "reads rl s mem (pre @ header_line kv) 13 (concat (map header_line kvs)) 13
      (\<lambda>r. r\<lparr>rqp_data := foldl (\<lambda>d (k, v). HttpRequest_setHeader k v d) (rqp_data r) kvs\<rparr>)"
    using Cons.IH [of "pre @ header_line kv"] Cons.prems by simp
  show ?case using reads_seq [OF 1 2] by (simp add: case_prod_unfold)
qed

end
