(* ===== verification/Mingo_HttpParser_Head.thy ===== *)
theory Mingo_HttpParser_Head
  imports Mingo_HttpParser_Request
begin

text \<open>
  The request line with the rest of the head, and the round trip: a request that \<open>HttpRequest::dump\<close> has written is read back by the request parser.
\<close>

section \<open>The target of a request\<close>

definition target_text :: "HttpRequest \<Rightarrow> string" where
  "target_text q = req_path q @ (if req_query q = [] then [] else ''?'' @ req_query q) @ (if req_fragment q = [] then [] else ''#'' @ req_fragment q)"

definition path_plain :: "string \<Rightarrow> bool" where
  "path_plain p \<longleftrightarrow> p \<noteq> [] \<and> hd p = CHR ''/'' \<and> (tl p = [] \<or> word_of segment_chars path_chars (tl p))"

definition target_plain :: "HttpRequest \<Rightarrow> bool" where
  "target_plain q \<longleftrightarrow> path_plain (req_path q) \<and> (req_query q = [] \<or> word_of query_chars query_chars (req_query q))
     \<and> (req_fragment q = [] \<or> word_of query_chars query_chars (req_fragment q))"

definition with_target :: "HttpRequest \<Rightarrow> HttpRequest \<Rightarrow> HttpRequest" where
  "with_target q d =
     (let d1 = HttpRequest_setPath (req_path q) d;
          d2 = (if req_query q = [] then d1 else HttpRequest_setQuery (req_query q) d1)
      in if req_fragment q = [] then d2 else HttpRequest_setFragment (req_fragment q) d2)"

lemma reads_target:
  assumes s: "s = pre @ target_text q @ '' '' @ post" and q: "target_plain q" and mem: "prefix (to_bytes s) mem" and n: "length mem < 2 ^ 63"
  shows "reads rl s mem pre 3 (target_text q @ '' '') 4 (\<lambda>r. r\<lparr>rqp_data := with_target q (rqp_data r)\<rparr>)"
proof -
  obtain w where p: "req_path q = ''/'' @ w" and w: "w = [] \<or> word_of segment_chars path_chars w"
    using q by (cases "req_path q") (auto simp: target_plain_def path_plain_def)
  have blank: "req_sends rl cs [(32, 32)] [Req_request_path, Req_request_uri] 4" if "cs = 33 \<or> cs = 26" for cs
    using that req_33_4 req_26_4 by blast
  have hash: "req_sends rl cs [(35, 35)] [Req_request_path, Req_request_uri] 20" if "cs = 33 \<or> cs = 26" for cs
    using that req_33_20 req_26_20 by blast
  have quest: "req_sends rl cs [(63, 63)] [Req_request_path] 29" if "cs = 33 \<or> cs = 26" for cs
    using that req_33_29 req_26_29 by blast
  let ?Q = "req_query q" and ?F = "req_fragment q" and ?p = "pre @ ''/'' @ w"
  consider (plain) "?Q = []" "?F = []" | (query) "?Q \<noteq> []" "?F = []" | (fragment) "?Q = []" "?F \<noteq> []" | (both) "?Q \<noteq> []" "?F \<noteq> []" by blast
  then show ?thesis
  proof cases
    case plain
    then show ?thesis using reads_path [OF _ w blank _ _ mem n, of pre "CHR '' ''" post] s p
      by (simp add: target_text_def with_target_def)
  next
    case query
    then have 1: "reads rl s mem pre 3 (''/'' @ w @ ''?'') 29 (\<lambda>r. r\<lparr>rqp_data := HttpRequest_setPath (''/'' @ w) (rqp_data r)\<rparr>)"
      using reads_path [OF _ w quest _ _ mem n, of pre "CHR ''?''" "?Q @ '' '' @ post"] s p by (simp add: target_text_def)
    have 2: "reads rl s mem (pre @ ''/'' @ w @ ''?'') 29 (?Q @ '' '') 4 (\<lambda>r. r\<lparr>rqp_data := HttpRequest_setQuery ?Q (rqp_data r)\<rparr>)"
      using reads_query [OF _ _ req_30_4 _ mem n, of "?p @ ''?''" ?Q "CHR '' ''" post] s p q query by (simp add: target_text_def target_plain_def)
    show ?thesis using reads_seq [OF 1 2] p query by (simp add: target_text_def with_target_def)
  next
    case fragment
    then have 1: "reads rl s mem pre 3 (''/'' @ w @ ''#'') 20 (\<lambda>r. r\<lparr>rqp_data := HttpRequest_setPath (''/'' @ w) (rqp_data r)\<rparr>)"
      using reads_path [OF _ w hash _ _ mem n, of pre "CHR ''#''" "?F @ '' '' @ post"] s p by (simp add: target_text_def)
    have 2: "reads rl s mem (pre @ ''/'' @ w @ ''#'') 20 (?F @ '' '') 4 (\<lambda>r. r\<lparr>rqp_data := HttpRequest_setFragment ?F (rqp_data r)\<rparr>)"
      using reads_fragment [OF _ _ mem n, of "?p @ ''#''" ?F post] s p q fragment by (simp add: target_text_def target_plain_def)
    show ?thesis using reads_seq [OF 1 2] p fragment by (simp add: target_text_def with_target_def)
  next
    case both
    then have 1: "reads rl s mem pre 3 (''/'' @ w @ ''?'') 29 (\<lambda>r. r\<lparr>rqp_data := HttpRequest_setPath (''/'' @ w) (rqp_data r)\<rparr>)"
      using reads_path [OF _ w quest _ _ mem n, of pre "CHR ''?''" "?Q @ ''#'' @ ?F @ '' '' @ post"] s p by (simp add: target_text_def)
    have 2: "reads rl s mem (pre @ ''/'' @ w @ ''?'') 29 (?Q @ ''#'') 20 (\<lambda>r. r\<lparr>rqp_data := HttpRequest_setQuery ?Q (rqp_data r)\<rparr>)"
      using reads_query [OF _ _ req_30_20 _ mem n, of "?p @ ''?''" ?Q "CHR ''#''" "?F @ '' '' @ post"] s p q both by (simp add: target_text_def target_plain_def)
    have 3: "reads rl s mem (pre @ (''/'' @ w @ ''?'') @ ?Q @ ''#'') 20 (?F @ '' '') 4 (\<lambda>r. r\<lparr>rqp_data := HttpRequest_setFragment ?F (rqp_data r)\<rparr>)"
      using reads_fragment [OF _ _ mem n, of "?p @ ''?'' @ ?Q @ ''#''" ?F post] s p q both by (simp add: target_text_def target_plain_def)
    show ?thesis using reads_seq [OF reads_seq [OF 1 2] 3] p both by (simp add: target_text_def with_target_def)
  qed
qed

section \<open>The head\<close>

definition headers_onto :: "(string \<times> string) list \<Rightarrow> HttpRequest \<Rightarrow> HttpRequest" where
  "headers_onto kvs d = foldl (\<lambda>d (k, v). HttpRequest_setHeader k v d) d kvs"

definition head_text :: "HttpRequest \<Rightarrow> (string \<times> string) list \<Rightarrow> string" where
  "head_text q kvs =
     HttpMethodToString (req_method q) @ '' '' @ target_text q @ '' '' @ version_text (req_version q) @ crlf @ concat (map header_line kvs)"

definition with_head :: "HttpRequest \<Rightarrow> (string \<times> string) list \<Rightarrow> HttpRequest \<Rightarrow> HttpRequest" where
  "with_head q kvs d = headers_onto kvs (HttpRequest_setVersion (req_version q) (with_target q (HttpRequest_setMethod (req_method q) d)))"

definition line_plain :: "HttpRequest \<Rightarrow> bool" where
  "line_plain q \<longleftrightarrow> req_method q \<noteq> INVALID_METHOD \<and> req_method q \<noteq> MSEARCH \<and> target_plain q \<and> (req_version q = 0x11 \<or> req_version q = 0x10)"

lemma method_words:
  "\<forall>(num, name, str) \<in> set HTTP_METHOD_MAP. name = MSEARCH \<or> word_of uppers uppers str \<and> length str \<le> 11"
  by code_simp

lemma method_word:
  assumes "m \<noteq> INVALID_METHOD" "m \<noteq> MSEARCH"
  shows "word_of uppers uppers (HttpMethodToString m)" "length (HttpMethodToString m) \<le> 11"
proof -
  obtain num str where "(num, m, str) \<in> set HTTP_METHOD_MAP" using method_table_complete [of m] assms(1) by auto
  then show "word_of uppers uppers (HttpMethodToString m)" "length (HttpMethodToString m) \<le> 11"
    using method_words method_table_strings assms(2) by fastforce+
qed

lemma reads_head:
  assumes s: "s = head_text q kvs @ post" and q: "line_plain q" "list_all header_plain kvs" and mem: "prefix (to_bytes s) mem" and n: "length mem < 2 ^ 63"
  shows "reads rl s mem [] 1 (head_text q kvs) 13 (\<lambda>r. r\<lparr>rqp_data := with_head q kvs (rqp_data r)\<rparr>)"
proof -
  let ?m = "HttpMethodToString (req_method q) @ '' ''" and ?t = "target_text q @ '' ''" and ?v = "version_text (req_version q) @ [CR, LF]"
  let ?k = "concat (map header_line kvs)"
  have m: "req_method q \<noteq> INVALID_METHOD" "req_method q \<noteq> MSEARCH" and v: "req_version q = 0x11 \<or> req_version q = 0x10" using q(1) by (auto simp: line_plain_def)
  have len: "length s < 2 ^ 63" using n prefix_length_le [OF mem] by simp
  have 1: "reads rl s mem [] 1 ?m 3 (\<lambda>r. r\<lparr>rqp_data := HttpRequest_setMethod (req_method q) (rqp_data r)\<rparr>)"
    using reads_method [OF _ method_word [OF m] m(1) refl mem len] s by (simp add: head_text_def)
  have 2: "reads rl s mem ([] @ ?m) 3 ?t 4 (\<lambda>r. r\<lparr>rqp_data := with_target q (rqp_data r)\<rparr>)"
    using reads_target [OF _ _ mem n, of ?m q "?v @ ?k @ post"] s q(1) by (simp add: head_text_def line_plain_def)
  have 3: "reads rl s mem ([] @ ?m @ ?t) 4 ?v 13 (\<lambda>r. r\<lparr>rqp_data := HttpRequest_setVersion (req_version q) (rqp_data r)\<rparr>)"
    using reads_version [OF _ v mem n, of "?m @ ?t" "?k @ post"] s by (simp add: head_text_def)
  have 4: "reads rl s mem ([] @ (?m @ ?t) @ ?v) 13 ?k 13 (\<lambda>r. r\<lparr>rqp_data := foldl (\<lambda>d (k, v). HttpRequest_setHeader k v d) (rqp_data r) kvs\<rparr>)"
    using reads_headers [OF _ q(2) mem n, of "(?m @ ?t) @ ?v" post] s by (simp add: head_text_def)
  show ?thesis
    using reads_seq [OF reads_seq [OF reads_seq [OF 1 2] 3] 4] by (simp add: head_text_def with_head_def headers_onto_def)
qed

lemma head_end:
  assumes s: "s = pre @ crlf @ post" and h: "\<not> hp_xml_sent h" "\<not> hp_json_sent h"
  shows "req_at rl s (h, es) 13 (length pre) =
    ((h\<lparr>hp_field_start := length pre, hp_body_start := length (pre @ crlf)\<rparr>, es @ [Ev_header_done (length (pre @ crlf)) (length post)]), 348, length (pre @ crlf))"
proof -
  let ?h = "h\<lparr>hp_field_start := length pre\<rparr>"
  have 1: "req_at rl s (h, es) 13 (length pre) = req_at rl s (?h, es) 18 (length (pre @ [CR]))"
    using req_step [OF _ req_13_18, of s pre CR "[LF] @ post" rl "(h, es)"] s by simp
  also have "\<dots> = (fold (\<lambda>a. req_do (length s) a (length (pre @ [CR]))) [Req_done] (?h, es), 348, Suc (length (pre @ [CR])))"
    using run_break [OF _ req_18_348, of s "pre @ [CR]" LF post "\<lambda>a. a = Req_done" rl "req_do (length s)" "(?h, es)"] s by simp
  finally show ?thesis using s h by (simp add: emit_def)
qed

lemma execute_head:
  assumes buf: "buf = to_bytes s" and s: "s = head_text q kvs @ crlf @ post" and q: "line_plain q" "list_all header_plain kvs" and mem: "prefix buf mem" and n: "length mem < 2 ^ 63"
    and h: "hp_cs h = http_parser_start" "\<not> hp_xml_sent h" "\<not> hp_json_sent h"
  obtains es h' where "http_parser_execute buf h = (es, h')" "hp_cs h' = http_parser_first_final" "hp_nread h' = length (head_text q kvs @ crlf)"
    "\<And>r. callbacks (request_callback mem) es r = Inr (r\<lparr>rqp_data := with_head q kvs (rqp_data r)\<rparr>)"
proof -
  let ?rl = "hp_uri_relaxed h" and ?h = "h\<lparr>hp_nread := 0, hp_mark := 0, hp_field_len := 0, hp_field_start := 0\<rparr>" and ?w = "head_text q kvs"
  have "reads ?rl s mem [] 1 ?w 13 (\<lambda>r. r\<lparr>rqp_data := with_head q kvs (rqp_data r)\<rparr>)"
    using reads_head [OF s q _ n] mem buf by simp
  then obtain h1 es1 where 1: "req_at ?rl s (?h, []) 1 0 = req_at ?rl s (h1, es1) 13 (length ?w)" "same_run ?h h1"
      "\<forall>r. callbacks (request_callback mem) es1 r = Inr (r\<lparr>rqp_data := with_head q kvs (rqp_data r)\<rparr>)"
    unfolding reads_def by fastforce
  let ?h2 = "h1\<lparr>hp_field_start := length ?w, hp_body_start := length (?w @ crlf)\<rparr>"
  let ?es = "es1 @ [Ev_header_done (length (?w @ crlf)) (length post)]"
  have "req_at ?rl s (h1, es1) 13 (length ?w) = ((?h2, ?es), 348, length (?w @ crlf))"
    using head_end [OF s] 1(2) h by (simp add: same_run_def)
  then have m: "machine http11_table ?rl (req_do (length buf)) (\<lambda>a. a = Req_done) (?h, []) 1 0 buf = ((?h2, ?es), 348, length (?w @ crlf))"
    using 1(1) buf by (simp add: run_at_def)
  have "buf \<noteq> []" using buf s by simp
  then have "http_parser_execute buf h = (?es, ?h2\<lparr>hp_cs := 348, hp_nread := length (?w @ crlf)\<rparr>)"
    using m 1(2) h by (simp add: http_parser_execute_def http_parser_has_error_def same_run_def Let_def)
  then show thesis using 1(3) by (intro that) (auto simp: callbacks_append)
qed

theorem execute_reads_head:
  assumes mem: "take len mem = to_bytes (head_text q kvs @ crlf) @ rest" and q: "line_plain q" "list_all header_plain kvs" and n: "length mem < 2 ^ 63" "len < 2 ^ 31"
  obtains h where "HttpRequestParser_execute len (HttpRequestParser_new h0, mem) =
      (Inr (length (head_text q kvs @ crlf)),
       (\<lparr>rqp_parser = h, rqp_data = with_head q kvs (HttpRequest_new 0x11 True), rqp_error = 0\<rparr>, move_front (length (head_text q kvs @ crlf)) len mem))"
    and "http_parser_finish h = 1" "hp_body_start h \<le> len"
proof -
  let ?w = "head_text q kvs @ crlf" and ?buf = "take len mem" and ?h = "http_parser_init h0"
  have s: "?buf = to_bytes (head_text q kvs @ crlf @ to_text rest)" using mem by simp
  have h: "hp_cs ?h = http_parser_start" "\<not> hp_xml_sent ?h" "\<not> hp_json_sent ?h" "hp_body_start ?h = 0" by (simp_all add: http_parser_init_def)
  obtain es h' where x: "http_parser_execute ?buf ?h = (es, h')" "hp_cs h' = 348" "hp_nread h' = length ?w"
      "\<And>r. callbacks (request_callback mem) es r = Inr (r\<lparr>rqp_data := with_head q kvs (rqp_data r)\<rparr>)"
    using execute_head [OF s refl q take_is_prefix n(1) h(1-3)] by blast
  have ne: "?buf \<noteq> []" using mem by simp
  have len: "length ?buf < 2 ^ 63" using n(1) by simp
  have e: "http_parser_enters ?buf" using n(2) by (intro http_parser_enters_int) simp
  have "\<not> in_query (hp_cs ?h)" using h(1) by (simp add: in_query_def)
  from http_parser_execute_ok [OF x(1) ne len _ this] h(4) have ok: "http_parser_asserts ?buf h'" "hp_body_start h' \<le> length ?buf" by auto
  show thesis
  proof (rule that)
    show "HttpRequestParser_execute len (HttpRequestParser_new h0, mem) =
      (Inr (length ?w), (\<lparr>rqp_parser = h', rqp_data = with_head q kvs (HttpRequest_new 0x11 True), rqp_error = 0\<rparr>, move_front (length ?w) len mem))"
      using x ok ne e by (simp add: HttpRequestParser_execute_def HttpRequestParser_new_def http_parser_nread_def Let_def)
    show "http_parser_finish h' = 1" using x(2) by (simp add: http_parser_finish_def http_parser_has_error_def http_parser_is_finished_def)
    show "hp_body_start h' \<le> len" using ok(2) by simp
  qed
qed

section \<open>The headers that are sent\<close>

text \<open>
  The headers of the text that \<open>dump\<close> writes, in their order.
\<close>

definition sent_headers :: "HttpRequest \<Rightarrow> (string \<times> string) list" where
  "sent_headers q =
     (if req_websocket q then [] else [(''connection'', if req_close q then ''close'' else ''keep-alive'')])
     @ filter (\<lambda>(k, v). req_websocket q \<or> strcasecmp k ''connection'' \<noteq> 0) (req_headers q)
     @ (if req_body q = [] then [] else [(''content-length'', dec (length (req_body q)))])"

lemma dump_headers_header_line:
  "dump_headers ws hs = concat (map header_line (filter (\<lambda>(k, v). ws \<or> strcasecmp k ''connection'' \<noteq> 0) hs))"
  by (induction hs) (auto simp: header_line_def)

lemma dump_version_text: "v = 0x11 \<or> v = 0x10 \<Longrightarrow> ''HTTP/'' @ dump_version v = version_text v"
proof -
  have "dump_version 0x11 = ''1.1''" "dump_version 0x10 = ''1.0''" by code_simp+
  then show "v = 0x11 \<or> v = 0x10 \<Longrightarrow> ''HTTP/'' @ dump_version v = version_text v" by (auto simp: version_text_def)
qed

lemma request_toString_head:
  assumes "line_plain q"
  shows "HttpRequest_toString q = head_text q (sent_headers q) @ crlf @ req_body q"
proof -
  have "''HTTP/'' @ dump_version (req_version q) = version_text (req_version q)" using assms by (intro dump_version_text) (auto simp: line_plain_def)
  then have "'' HTTP/'' @ dump_version (req_version q) @ t = '' '' @ version_text (req_version q) @ t" for t by simp
  then show ?thesis
    by (auto simp: HttpRequest_toString_def head_text_def target_text_def sent_headers_def dump_headers_header_line dump_connection_def dump_body_def header_line_def)
qed

definition request_plain :: "HttpRequest \<Rightarrow> bool" where
  "request_plain q \<longleftrightarrow> line_plain q \<and> list_all header_plain (req_headers q) \<and> req_ok q"

lemma digit_codes: "\<forall>n \<in> set [48 ..< 58 :: nat]. in_ranges value_starts (code (char_of n)) \<and> in_ranges value_chars (code (char_of n))"
  by code_simp

lemma dec_plain:
  assumes "is_digit c"
  shows "in_ranges value_starts (code c)" "in_ranges value_chars (code c)"
proof -
  have "48 \<le> (of_char c :: nat)" "(of_char c :: nat) < 58" using assms by (auto simp: is_digit_def less_eq_char_def)
  then have "of_char c \<in> set [48 ..< 58 :: nat]" by (simp only: set_upt atLeastLessThan_iff)
  from bspec [OF digit_codes this] show "in_ranges value_starts (code c)" "in_ranges value_chars (code c)" by (simp_all only: char_of_char)
qed

lemma sent_headers_plain:
  assumes "request_plain q"
  shows "list_all header_plain (sent_headers q)"
proof -
  have "header_plain (''connection'', ''close'')" "header_plain (''connection'', ''keep-alive'')" by code_simp+
  moreover have "header_plain (''content-length'', dec n)" for n
  proof -
    have "word_of token_chars token_chars ''content-length''" by code_simp
    moreover have "word_of value_starts value_chars (dec n)"
      unfolding word_of_def list_all_iff using dec_plain dec_digits [of _ n] dec_nonempty [of n] by (blast intro: hd_in_set list.set_sel(2))
    ultimately show ?thesis by (simp add: header_plain_def)
  qed
  ultimately show ?thesis using assms by (auto simp: sent_headers_def request_plain_def list_all_iff)
qed

text \<open>
  The headers on the other side: assigning the entries of an ordered map one after the other gives precedence to them.
\<close>

lemma headers_onto_fields:
  "headers_onto kvs d = d\<lparr>req_headers := foldl (\<lambda>m (k, v). MapType_assign k v m) (req_headers d) kvs\<rparr>"
  unfolding headers_onto_def by (induction kvs arbitrary: d) (auto simp: HttpRequest_setHeader_def)

lemma find_assigned:
  assumes "map_ok m"
  shows "MapType_find k (foldl (\<lambda>m (k, v). MapType_assign k v m) m kvs) =
    (case find (\<lambda>kv. strcasecmp (fst kv) k = 0) (rev kvs) of Some kv \<Rightarrow> Some (snd kv) | None \<Rightarrow> MapType_find k m)"
proof (induction kvs rule: rev_induct)
  case (snoc kv kvs)
  have "map_ok (foldl (\<lambda>m (k, v). MapType_assign k v m) m kvs)" by (rule map_ok_foldl [OF assms])
  then show ?case using snoc by (cases kv) (simp add: MapType_laws map_ok_def)
qed simp

lemma find_append: "find P (xs @ ys) = (case find P xs of Some x \<Rightarrow> Some x | None \<Rightarrow> find P ys)"
  by (induction xs) auto

lemma find_rev_ordered:
  assumes "map_ok m"
  shows "find (\<lambda>kv. strcasecmp (fst kv) k = 0) (rev m) = find (\<lambda>kv. strcasecmp (fst kv) k = 0) m"
  using assms
proof (induction m)
  case (Cons kv m)
  have "find (\<lambda>kv. strcasecmp (fst kv) k = 0) m = None" if "strcasecmp (fst kv) k = 0"
    using Cons.prems that by (auto simp: find_None_iff map_ok_def CaseInsensitiveLess_lower strcasecmp_0)
  then show ?case using Cons by (auto simp: find_append map_ok_def split: option.split)
qed simp

lemma find_filter_keep: "(\<And>x. P x \<Longrightarrow> Q x) \<Longrightarrow> find P (filter Q xs) = find P xs"
  by (induction xs) auto

lemma map_ok_filter: "map_ok m \<Longrightarrow> map_ok (filter P m)"
  by (simp add: map_ok_def sorted_wrt_map sorted_wrt_filter)

definition received_header :: "HttpRequest \<Rightarrow> string \<Rightarrow> string option" where
  "received_header q k =
     (if req_body q \<noteq> [] \<and> strcasecmp ''content-length'' k = 0 then Some (dec (length (req_body q)))
      else if \<not> req_websocket q \<and> strcasecmp ''connection'' k = 0 then Some (if req_close q then ''close'' else ''keep-alive'')
      else MapType_find k (req_headers q))"

lemma sent_headers_found:
  assumes "map_ok (req_headers q)"
  shows "MapType_find k (MapType_of (sent_headers q)) = received_header q k"
proof -
  let ?P = "\<lambda>kv :: string \<times> string. strcasecmp (fst kv) k = 0" and ?Q = "\<lambda>(k, v :: string). req_websocket q \<or> strcasecmp k ''connection'' \<noteq> 0"
  let ?hs = "filter ?Q (req_headers q)"
  have "find ?P (rev ?hs) = find ?P ?hs" using find_rev_ordered [OF map_ok_filter [OF assms]] .
  also have "\<dots> = (if \<not> req_websocket q \<and> strcasecmp ''connection'' k = 0 then None else find ?P (req_headers q))"
  proof (cases "\<not> req_websocket q \<and> strcasecmp ''connection'' k = 0")
    case True
    then show ?thesis by (auto simp: find_None_iff strcasecmp_0)
  next
    case False
    then show ?thesis by (auto simp: strcasecmp_0 intro!: find_filter_keep)
  qed
  finally have f: "find ?P (rev ?hs) = \<dots>" .
  have g: "MapType_find k (req_headers q) = map_option snd (find ?P (req_headers q))"
    using ci.smap_get_find [of "req_headers q" k] assms by (simp add: map_ok_def ci_same)
  show ?thesis
    unfolding MapType_of_def find_assigned [OF map_ok_Nil] received_header_def g
    using f by (auto simp: sent_headers_def find_append split: option.split)
qed

lemma with_head_fields:
  "req_method (with_head q kvs (HttpRequest_new v c)) = req_method q" "req_version (with_head q kvs (HttpRequest_new v c)) = req_version q"
  "req_path (with_head q kvs (HttpRequest_new v c)) = req_path q" "req_query (with_head q kvs (HttpRequest_new v c)) = req_query q"
  "req_fragment (with_head q kvs (HttpRequest_new v c)) = req_fragment q" "req_headers (with_head q kvs (HttpRequest_new v c)) = MapType_of kvs"
  by (simp_all add: with_head_def headers_onto_fields MapType_of_def with_target_def Let_def req_op_defs HttpRequest_new_def)

section \<open>The round trip\<close>


definition sample_request :: HttpRequest where
  "sample_request =
     HttpRequest_setBody ''hi'' (HttpRequest_setHeader ''Host'' ''h'' (HttpRequest_setFragment ''f'' (HttpRequest_setQuery ''x=1''
       (HttpRequest_setPath ''/a/b'' (HttpRequest_setMethod POST (HttpRequest_new 0x10 True))))))"

lemma sample_request_text:
  "HttpRequest_toString sample_request =
     ''POST /a/b?x=1#f HTTP/1.0'' @ crlf @ ''connection: close'' @ crlf @ ''Host: h'' @ crlf @ ''content-length: 2'' @ crlf @ crlf @ ''hi''"
  by code_simp

definition blank_parser :: http_parser where
  "blank_parser =
     \<lparr>hp_cs = 7, hp_body_start = 1, hp_content_len = 2, hp_nread = 3, hp_mark = 4, hp_field_start = 5, hp_field_len = 6, hp_query_start = 7,
      hp_xml_sent = True, hp_json_sent = True, hp_uri_relaxed = True\<rparr>"



section \<open>A request that arrives in pieces\<close>

text \<open>
  Between two calls of \<open>execute\<close> the positions are lost: the bytes read are gone from the buffer, \<open>mark\<close> is reset to 0 and \<open>query_start\<close> is kept. A request line that
  is cut inside the path loses the part before the cut; one that is cut inside the query makes the callback construct a string of negative length.
\<close>

lemma path_cut_lost:
  assumes "hp_cs (rqp_parser r) = 26" and "hp_body_start (rqp_parser r) = 0"
  shows "\<exists>r' mem'. HttpRequestParser_execute 1 (r, byte_of_char CHR '' '' # t) = (Inr 1, (r', mem')) \<and> req_path (rqp_data r') = []"
proof -
  have g: "go http11_table (hp_uri_relaxed (rqp_parser r)) 26 (code CHR '' '') = Some ([Req_request_path, Req_request_uri], 4)"
    using req_26_4 by (simp add: sends_def)
  have "sub64 0 0 = 0" by (simp add: sub64_le)
  then show ?thesis
    using assms machine_step [OF g, of "req_do 1" "\<lambda>a. a = Req_done" _ 0 "[]"]
    by (simp add: HttpRequestParser_execute_def http_parser_enters_int http_parser_execute_def http_parser_asserts_def http_parser_has_error_def http_parser_nread_def emit_def
        on_request_path_def set_text_def std_string_def HttpRequest_setPath_def Let_def del: machine.simps(2))
qed

lemma query_cut_throws:
  assumes "hp_cs (rqp_parser r) = 30" and "0 < hp_query_start (rqp_parser r)" and "hp_query_start (rqp_parser r) < 2 ^ 63"
  shows "HttpRequestParser_execute 1 (r, byte_of_char CHR '' '' # t) = (Inl LengthError, (r, byte_of_char CHR '' '' # t))"
proof -
  have g: "go http11_table (hp_uri_relaxed (rqp_parser r)) 30 (code CHR '' '') = Some ([Req_query_string, Req_request_uri], 4)"
    using req_30_4 by (simp add: sends_def)
  have "2 ^ 63 \<le> sub64 0 (hp_query_start (rqp_parser r))" using assms(2,3) by (simp add: sub64_wrap)
  then show ?thesis
    using assms(1) machine_step [OF g, of "req_do 1" "\<lambda>a. a = Req_done" _ 0 "[]"]
    by (simp add: HttpRequestParser_execute_def http_parser_enters_int http_parser_execute_def emit_def on_request_query_def set_text_def std_string_def Let_def del: machine.simps(2))
qed

end
