(* ===== verification/Mingo_HttpSession.thy ===== *)
theory Mingo_HttpSession
  imports Mingo_HttpParser_Head Mingo_SocketStream
begin

text \<open>
  \<^verbatim>\<open>mingo/http/http_session.cpp\<close>: the server's end of a connection. Its state is the stream with the kernel's side of the connection, and the state of the hooked calls, on
  which closing works. Arguments stand for what the code takes from elsewhere: the configured size of the buffer, what the fresh memory of the buffer and of the parser
  holds, \<open>boost::lexical_cast\<close>, and whether an allocation of a given size succeeds.
\<close>

section \<open>The session\<close>

type_synonym session = "SocketStream \<times> conn \<times> knet hstate"

definition on_conn :: "(sstate, 'a) oper \<Rightarrow> (session, 'a) oper" where
  "on_conn f = (\<lambda>(ss, c, h). case f (ss, c) of (r, (ss', c')) \<Rightarrow> (r, (ss', c', h)))"

definition on_net :: "(SocketStream \<times> knet hstate, 'a) oper \<Rightarrow> (session, 'a) oper" where
  "on_net f = (\<lambda>(ss, c, h). case f (ss, h) of (r, (ss', h')) \<Rightarrow> (r, (ss', c, h')))"

definition HttpSession_new :: "Socket option \<Rightarrow> SocketStream" where
  "HttpSession_new sock = SocketStream_new sock True"

text \<open>\<open>close(); return nullptr;\<close>\<close>

definition give_up :: "sock_env \<Rightarrow> (session, 'a option) oper" where
  "give_up env = andthen (on_net (SocketStream_close env)) (\<lambda>_. ret None)"

lemma read_uses_plan:
  assumes "on_conn (SocketStream_read n) s = (Inr (len, bs), s')" and "0 < len"
  shows "length (rplan (fst (snd s'))) < length (rplan (fst (snd s)))"
proof -
  obtain ss c h where s: "s = (ss, c, h)" by (cases s)
  have k: "k_recv fd n c = ((r, b), c') \<Longrightarrow> 0 < c_int r \<Longrightarrow> length (rplan c') < length (rplan c)" for fd r b c'
    by (cases "rplan c") (auto simp: k_recv_def Let_def split: if_splits)
  show ?thesis
    using assms k by (auto simp: s on_conn_def SocketStream_read_def Socket_recv_def guarded_recv_def split: if_splits prod.splits)
qed

text \<open>
  The loop of \<open>recvRequest\<close>: the parser, the buffer and the number of bytes at its front that are still unread.
\<close>

function recv_head :: "sock_env \<Rightarrow> nat \<Rightarrow> HttpRequestParser \<Rightarrow> byte list \<Rightarrow> int \<Rightarrow> (session, (HttpRequestParser \<times> byte list \<times> int) option) oper" where
  "recv_head env buff_size parser data offset s =
     (case on_conn (SocketStream_read (nat (int buff_size - offset))) s of
        (Inl e, s1) \<Rightarrow> (Inl e, s1)
      | (Inr (len, bs), s1) \<Rightarrow>
          if len \<le> 0 then give_up env s1
          else
            let len1 = c_int (len + offset) in
            (case HttpRequestParser_execute (nat len1) (parser, put (nat offset) bs data) of
               (Inl e, _) \<Rightarrow> (Inl e, s1)
             | (Inr nparse, (parser', data')) \<Rightarrow>
                 if HttpRequestParser_hasError parser' then give_up env s1
                 else
                   let offset' = c_int (len1 - int nparse) in
                   if offset' = c_int (int buff_size) then give_up env s1
                   else if HttpRequestParser_isFinished parser' \<noteq> 0 then (Inr (Some (parser', data', offset')), s1)
                   else recv_head env buff_size parser' data' offset' s1))"
  by pat_completeness auto
termination
proof (relation "measure (\<lambda>(env, n, r, d, off, s). length (rplan (fst (snd s))))", goal_cases)
  case 1
  show ?case by simp
next
  case (2 env buff_size parser data offset s x y b len bs)
  then have "on_conn (SocketStream_read (nat (int buff_size - offset))) s = (Inr (len, bs), y)" "0 < len" by simp_all
  from read_uses_plan [OF this] show ?case by simp
qed

declare recv_head.simps [simp del]

text \<open>
  The body: \<open>length\<close> is an \<open>int64_t\<close>; what is in the buffer comes first, the rest is read from the stream into the string.
\<close>

definition recv_body :: "(nat \<Rightarrow> bool) \<Rightarrow> sock_env \<Rightarrow> nat \<Rightarrow> byte list \<Rightarrow> int \<Rightarrow> (session, byte list option) oper" where
  "recv_body alloc env len data offset s =
     (if \<not> alloc len then (Inl BadAlloc, s)
      else
        let n = (if int len \<ge> offset then nat offset else len);
            body = put 0 (take n data) (replicate len 0);
            left = int len - offset
        in if left > 0 then
             (case on_conn (\<lambda>x. case Stream_readFixSize SocketStream_read (nat left) (x, drop n body) of (r, (x', b)) \<Rightarrow> (map_sum id (\<lambda>k. (k, b)) r, x')) s of
                (Inl e, s1) \<Rightarrow> (Inl e, s1)
              | (Inr (k, b), s1) \<Rightarrow> if k \<le> 0 then give_up env s1 else (Inr (Some (take n body @ b)), s1))
           else (Inr (Some body), s))"

definition HttpSession_recvRequest ::
    "(nat \<Rightarrow> bool) \<Rightarrow> (string \<Rightarrow> u64 option) \<Rightarrow> sock_env \<Rightarrow> nat \<Rightarrow> byte list \<Rightarrow> http_parser \<Rightarrow> (session, HttpRequest option) oper" where
  "HttpSession_recvRequest alloc lexical_cast env buff_size buffer h0 s =
     (case recv_head env buff_size (HttpRequestParser_new h0) buffer 0 s of
        (Inl e, s1) \<Rightarrow> (Inl e, s1)
      | (Inr None, s1) \<Rightarrow> (Inr None, s1)
      | (Inr (Some (parser, data, offset)), s1) \<Rightarrow>
          let len = sint (HttpRequestParser_getContentLength lexical_cast parser) in
          if len > 0 then
            (case recv_body alloc env (nat len) data offset s1 of
               (Inl e, s2) \<Rightarrow> (Inl e, s2)
             | (Inr None, s2) \<Rightarrow> (Inr None, s2)
             | (Inr (Some body), s2) \<Rightarrow> (Inr (Some (HttpRequest_init (HttpRequest_setBody (to_text body) (rqp_data parser)))), s2))
          else (Inr (Some (HttpRequest_init (rqp_data parser))), s1))"

definition HttpSession_sendResponse :: "HttpResponse \<Rightarrow> (session, int) oper" where
  "HttpSession_sendResponse rsp =
     (let data = to_bytes (HttpResponse_toString rsp) in on_conn (Stream_writeFixSize SocketStream_write data (length data)))"

end
