(* ===== verification/Mingo_HttpSession_Props.thy ===== *)
theory Mingo_HttpSession_Props
  imports Mingo_HttpSession
begin

text \<open>
  The session and the request: what a client has written arrives as the same request, in whatever pieces the body comes.
\<close>

section \<open>Reading from a connection that delivers\<close>

definition delivers :: "sstate \<Rightarrow> nat \<Rightarrow> bool" where
  "delivers x n \<longleftrightarrow> SocketStream_isConnected (fst x) \<and> n \<le> length (rplan (snd x)) \<and> n \<le> length (rx (snd x)) \<and> list_all (\<lambda>p. 0 < p) (rplan (snd x))"

lemma read_delivers:
  assumes "delivers x n" and "0 < n" and "n < 2 ^ 31"
  shows "\<exists>k bs x'. SocketStream_read n x = (Inr (int k, bs), x') \<and> 0 < k \<and> k \<le> n \<and> bs = take k (rx (snd x)) \<and> delivers x' (n - k) \<and> rx (snd x') = drop k (rx (snd x))"
proof -
  obtain ss c where x: "x = (ss, c)" by (cases x)
  obtain p ps where p: "rplan c = p # ps" using assms x by (cases "rplan c") (auto simp: delivers_def)
  define k where "k = min (nat p) (min n (min (length (rx c)) MAX_RW_COUNT))"
  have k: "0 < k" "k \<le> n" "k \<le> MAX_RW_COUNT" using assms x p by (auto simp: delivers_def k_def MAX_RW_COUNT_def)
  have "k_recv fd n c = ((int k, take k (rx c)), c\<lparr>rx := drop k (rx c), rplan := ps\<rparr>)" for fd
    using k(1) unfolding k_recv_def p list.case k_def Let_def by simp
  moreover have "m_isConnected (the (m_socket ss))" "SocketStream_isConnected ss"
    using assms(1) x by (auto simp: delivers_def SocketStream_isConnected_def split: option.splits)
  ultimately have "SocketStream_read n x = (Inr (int k, take k (rx c)), (ss, c\<lparr>rx := drop k (rx c), rplan := ps\<rparr>))"
    using k by (simp add: x SocketStream_read_def Socket_recv_def guarded_recv_def c_int_count)
  then show ?thesis using k assms(1) x p by (intro exI [of _ k]) (auto simp: delivers_def)
qed

lemma fix_loop_delivers:
  assumes "delivers x (nat left)" and "left < 2 ^ 31"
  shows "\<exists>x' b. fix_loop (read_into SocketStream_read) offset left (x, buffer) = (Inr None, (x', b))"
  using assms
proof (induction "nat left" arbitrary: left offset x buffer rule: less_induct)
  case less
  show ?case
  proof (cases "left > 0")
    case False
    then show ?thesis by (simp add: fix_loop.simps [of _ offset left])
  next
    case True
    obtain k bs x' where r: "SocketStream_read (nat left) x = (Inr (int k, bs), x')" "0 < k" "k \<le> nat left" "delivers x' (nat left - k)"
      using read_delivers [OF less.prems(1)] True less.prems(2) by fastforce
    have "nat (left - int k) < nat left" "nat (left - int k) = nat left - k" "left - int k < 2 ^ 31" using r True less.prems by auto
    then show ?thesis
      using less.hyps [of "left - int k" x' "offset + k" "put offset bs buffer"] r True
      by (simp add: fix_loop.simps [of _ offset left] read_into_def)
  qed
qed

lemma readFixSize_delivers:
  assumes "delivers x n" and "n \<le> length buffer" and "n < 2 ^ 31"
  shows "\<exists>x'. Stream_readFixSize SocketStream_read n (x, buffer) = (Inr (int n), (x', put 0 (take n (rx (snd x))) buffer))"
proof -
  obtain x' b where "fix_loop (read_into SocketStream_read) 0 (int n) (x, buffer) = (Inr None, (x', b))"
    using fix_loop_delivers [of x "int n" 0 buffer] assms by auto
  then have r: "Stream_readFixSize SocketStream_read n (x, buffer) = (Inr (int n), (x', b))"
    using assms(3) by (simp add: Stream_readFixSize_def fix_size_def to_int_id oper_simps andthen_def)
  obtain bs where "b = put 0 bs buffer" "rx (snd x) = bs @ rx (snd x')" "length bs = n"
    using sock_in.readFixSize_spec [OF TrueI assms(2,3), of x] r by (auto split: if_splits)
  then show ?thesis using r by simp
qed

section \<open>What reading leaves alone\<close>

text \<open>Reading changes neither the stream nor what was sent, and never lengthens the plan.\<close>

definition only_reads :: "sstate \<Rightarrow> sstate \<Rightarrow> bool" where
  "only_reads x x' \<longleftrightarrow> fst x' = fst x \<and> tx (snd x') = tx (snd x) \<and> wplan (snd x') = wplan (snd x) \<and> length (rplan (snd x')) \<le> length (rplan (snd x))"

lemma only_reads_refl [simp]: "only_reads x x"
  by (simp add: only_reads_def)

lemma only_reads_trans: "only_reads x y \<Longrightarrow> only_reads y z \<Longrightarrow> only_reads x z"
  by (simp add: only_reads_def)

lemma read_only_reads: "SocketStream_read n x = (r, x') \<Longrightarrow> only_reads x x'"
  by (cases x; cases rule: k_recv_cases [of n "snd x" "m_sock (the (m_socket (fst x)))"])
    (auto simp: only_reads_def SocketStream_read_def Socket_recv_def guarded_recv_def split: if_splits prod.splits)

lemma fix_loop_keeps:
  assumes io: "\<And>k n x r x'. io k n x = (r, x') \<Longrightarrow> R x x'" and refl: "\<And>x. R x x" and trans: "\<And>x y z. R x y \<Longrightarrow> R y z \<Longrightarrow> R x z"
  shows "fix_loop io offset left x = (r, x') \<Longrightarrow> R x x'"
proof (induction "nat left" arbitrary: left offset x rule: less_induct)
  case less
  obtain r1 x1 where 1: "io offset (nat left) x = (r1, x1)" by (rule prod.exhaust)
  note o1 = io [OF 1]
  consider (stop) "\<not> left > 0 \<or> (\<exists>e. r1 = Inl e) \<or> (\<exists>len \<le> 0. r1 = Inr len)" | (more) len where "left > 0" "r1 = Inr len" "len > 0"
    by (cases r1) force+
  then show ?case
  proof cases
    case stop
    then show ?thesis using less.prems 1 o1 refl by (auto simp: fix_loop.simps [of _ offset left] split: if_splits)
  next
    case more
    then have "fix_loop io (offset + nat len) (left - len) x1 = (r, x')" using less.prems 1 by (simp add: fix_loop.simps [of _ offset left])
    moreover have "nat (left - len) < nat left" using more by simp
    ultimately show ?thesis using less.hyps trans [OF o1] by blast
  qed
qed

lemma read_into_only_reads: "read_into SocketStream_read k n y = (r, y') \<Longrightarrow> only_reads (fst y) (fst y')"
  by (auto simp: read_into_def dest!: read_only_reads split: prod.splits sum.splits)

lemma readFixSize_only_reads:
  assumes "Stream_readFixSize SocketStream_read n (x, buffer) = (r, (x', b))"
  shows "only_reads x x'"
proof -
  obtain r1 y where 1: "fix_loop (read_into SocketStream_read) 0 (to_int64 n) (x, buffer) = (r1, y)" by (rule prod.exhaust)
  have "only_reads (fst (x, buffer)) (fst y)"
    by (rule fix_loop_keeps [where R = "\<lambda>y y'. only_reads (fst y) (fst y')", OF _ _ _ 1]) (auto dest: read_into_only_reads only_reads_trans)
  moreover have "y = (x', b)" using assms 1 by (auto simp: Stream_readFixSize_def fix_size_def andthen_def split: sum.splits)
  ultimately show ?thesis by simp
qed

section \<open>Receiving a request\<close>

lemma with_head_body: "req_body (with_head q kvs (HttpRequest_new v c)) = []"
  by (simp add: with_head_def headers_onto_fields with_target_def Let_def req_op_defs HttpRequest_new_def)

lemma HttpRequestParser_finished:
  "http_parser_finish h = 1 \<Longrightarrow> \<not> HttpRequestParser_hasError \<lparr>rqp_parser = h, rqp_data = d, rqp_error = 0\<rparr>"
  "http_parser_finish h = 1 \<Longrightarrow> HttpRequestParser_isFinished \<lparr>rqp_parser = h, rqp_data = d, rqp_error = 0\<rparr> = 1"
  by (auto simp: HttpRequestParser_hasError_def HttpRequestParser_isFinished_def http_parser_finish_def split: if_splits)

lemma recv_head_whole:
  assumes q: "line_plain q" "list_all header_plain kvs" and w: "w = head_text q kvs @ crlf"
    and c: "SocketStream_isConnected ss" "rx c = to_bytes w @ rest" "rplan c = p # ps" "int (length w) \<le> p"
    and n: "length w \<le> buff_size" "buff_size < 2 ^ 30" "length buffer = buff_size"
  shows "\<exists>h data k. recv_head env buff_size (HttpRequestParser_new h0) buffer 0 (ss, c, hs) =
      (Inr (Some (\<lparr>rqp_parser = h, rqp_data = with_head q kvs (HttpRequest_new 0x11 True), rqp_error = 0\<rparr>, data, int k)),
       (ss, c\<lparr>rx := drop k rest, rplan := ps\<rparr>, hs))
    \<and> k \<le> length rest \<and> k \<le> length data \<and> k < 2 ^ 30 \<and> take k data = take k rest"
proof -
  define m where "m = min (nat p) (min buff_size (length (rx c)))"
  have m: "length w \<le> m" "m \<le> length (rx c)" "m \<le> buff_size" "m < 2 ^ 30" "m \<le> MAX_RW_COUNT" "0 < m"
    using c n w by (auto simp: m_def MAX_RW_COUNT_def)
  have "min (nat p) (min buff_size (min (length (rx c)) MAX_RW_COUNT)) = m" using n(2) by (auto simp: m_def MAX_RW_COUNT_def)
  then have "k_recv fd buff_size c = ((int m, take m (rx c)), c\<lparr>rx := drop m (rx c), rplan := ps\<rparr>)" for fd
    using m(6) unfolding k_recv_def c(3) list.case Let_def by simp
  moreover have "m_isConnected (the (m_socket ss))" using c(1) by (auto simp: SocketStream_isConnected_def split: option.splits)
  ultimately have r: "on_conn (SocketStream_read buff_size) (ss, c, hs) = (Inr (int m, take m (rx c)), (ss, c\<lparr>rx := drop m (rx c), rplan := ps\<rparr>, hs))"
    using m c(1) by (simp add: on_conn_def SocketStream_read_def Socket_recv_def guarded_recv_def c_int_count)
  let ?mem = "put 0 (take m (rx c)) buffer" and ?k = "m - length w"
  have t: "take m ?mem = to_bytes (head_text q kvs @ crlf) @ take ?k rest"
  proof -
    have "take m ?mem = take m (rx c)" using m(2) by (simp add: put_def)
    also have "\<dots> = to_bytes w @ take ?k rest" using m(1) c(2) by simp
    finally show ?thesis using w by simp
  qed
  have l: "length ?mem = buff_size" using m n by simp
  have small: "length ?mem < 2 ^ 63" "m < 2 ^ 31" using l m n by simp_all
  obtain h where x: "HttpRequestParser_execute m (HttpRequestParser_new h0, ?mem) = (Inr (length w),
      (\<lparr>rqp_parser = h, rqp_data = with_head q kvs (HttpRequest_new 0x11 True), rqp_error = 0\<rparr>, move_front (length w) m ?mem))"
      and h: "http_parser_finish h = 1"
    using execute_reads_head [OF t q small] w by metis
  have d: "take ?k (move_front (length w) m ?mem) = take ?k rest" "length (move_front (length w) m ?mem) = buff_size"
    using take_move_front [of "length w" m ?mem] m l t w by simp_all
  have i: "c_int (int m) = int m" "c_int (int m - int (length w)) = int ?k" "c_int (int buff_size) = int buff_size"
    using m n by (simp_all add: c_int_id of_nat_diff)
  have "int ?k \<noteq> int buff_size" using m w by simp
  then have "recv_head env buff_size (HttpRequestParser_new h0) buffer 0 (ss, c, hs) =
      (Inr (Some (\<lparr>rqp_parser = h, rqp_data = with_head q kvs (HttpRequest_new 0x11 True), rqp_error = 0\<rparr>, move_front (length w) m ?mem, int ?k)),
       (ss, c\<lparr>rx := drop m (rx c), rplan := ps\<rparr>, hs))"
    using r x i HttpRequestParser_finished [OF h] m(6) by (simp add: recv_head.simps [of env buff_size "HttpRequestParser_new h0"] Let_def)
  moreover have "drop m (rx c) = drop ?k rest" using c(2) m by simp
  ultimately show ?thesis using d m c(2) by (intro exI [of _ h] exI [of _ "move_front (length w) m ?mem"] exI [of _ ?k]) auto
qed

lemma recv_body_delivered:
  assumes len: "len < 2 ^ 31" "alloc len" and k: "k \<le> length data" "take k data = take k rest"
    and x: "k \<le> length rest" "rx c = drop k rest" "len \<le> length rest" "SocketStream_isConnected ss" "len \<le> length (rplan c)" "list_all (\<lambda>p. 0 < p) (rplan c)"
  shows "\<exists>c'. recv_body alloc env len data (int k) (ss, c, hs) = (Inr (Some (take len rest)), (ss, c', hs)) \<and> tx c' = tx c \<and> wplan c' = wplan c"
proof (cases "len \<le> k")
  case True
  then have "take len data = take len rest" using k(2) by (metis min.absorb1 take_take)
  moreover have "put 0 (take len data) (replicate len 0) = take len data" using True k by (simp add: put_def)
  ultimately show ?thesis using True len by (cases "len = k") (simp_all add: recv_body_def Let_def)
next
  case False
  let ?n = "len - k" and ?body = "put 0 (take k data) (replicate len 0)"
  have b: "?body = take k rest @ replicate ?n 0" using False k x(1) by (simp add: put_def)
  then have d: "take k ?body = take k rest" "drop k ?body = replicate ?n 0" using x(1) by simp_all
  have "delivers (ss, c) ?n" using x False by (auto simp: delivers_def)
  then obtain x' where x': "Stream_readFixSize SocketStream_read ?n ((ss, c), replicate ?n 0) = (Inr (int ?n), (x', put 0 (take ?n (rx c)) (replicate ?n 0)))"
    using readFixSize_delivers [of "(ss, c)" ?n "replicate ?n 0"] less_imp_diff_less [OF len(1)] by auto
  moreover have "put 0 (take ?n (rx c)) (replicate ?n 0) = take ?n (drop k rest)" using x False by (simp add: put_def)
  moreover have "take k rest @ take ?n (drop k rest) = take len rest" using False by (simp flip: take_add)
  moreover have "nat (int len - int k) = ?n" "int len - int k > 0" "int k \<le> int len" using False by auto
  ultimately show ?thesis
    using x' readFixSize_only_reads [OF x'] len d False by (cases x') (simp add: recv_body_def on_conn_def only_reads_def Let_def)
qed

text \<open>
  A plain request is on its way to the session: its text is at the front of what the connection delivers, the first call of \<open>read\<close> delivers at least the head, every later
  call at least one byte, and there are enough of them for the body; the buffer is large enough for the head.
\<close>

definition head_length :: "HttpRequest \<Rightarrow> nat" where
  "head_length q = length (HttpRequest_toString q) - length (req_body q)"

definition arrives :: "HttpRequest \<Rightarrow> SocketStream \<Rightarrow> conn \<Rightarrow> nat \<Rightarrow> bool" where
  "arrives q ss c buff_size \<longleftrightarrow>
     request_plain q \<and> \<not> req_websocket q \<and> length (req_body q) < 2 ^ 31 \<and> (req_body q = [] \<longrightarrow> MapType_find ''content-length'' (req_headers q) = None)
     \<and> SocketStream_isConnected ss \<and> prefix (to_bytes (HttpRequest_toString q)) (rx c) \<and> rplan c \<noteq> [] \<and> int (head_length q) \<le> hd (rplan c)
     \<and> length (req_body q) \<le> length (tl (rplan c)) \<and> list_all (\<lambda>p. 0 < p) (tl (rplan c)) \<and> head_length q \<le> buff_size \<and> buff_size < 2 ^ 30"

definition received :: "HttpRequest \<Rightarrow> HttpRequest" where
  "received q =
     (let d = with_head q (sent_headers q) (HttpRequest_new 0x11 True) in HttpRequest_init (if req_body q = [] then d else HttpRequest_setBody (req_body q) d))"

lemma received_content_length:
  assumes "request_plain q" and "req_body q = [] \<longrightarrow> MapType_find ''content-length'' (req_headers q) = None" and "length (req_body q) < 2 ^ 31"
    and "lexical_cast (dec (length (req_body q))) = Some (word_of_nat (length (req_body q)))"
  shows "sint (HttpRequestParser_getContentLength lexical_cast \<lparr>rqp_parser = h, rqp_data = with_head q (sent_headers q) (HttpRequest_new 0x11 True), rqp_error = 0\<rparr>) =
    int (length (req_body q))"
proof -
  let ?d = "with_head q (sent_headers q) (HttpRequest_new 0x11 True)"
  have "MapType_find ''content-length'' (req_headers ?d) = received_header q ''content-length''"
    using sent_headers_found assms(1) by (simp add: with_head_fields request_plain_def req_ok_def)
  moreover have "strcasecmp ''content-length'' ''content-length'' = 0" "strcasecmp ''connection'' ''content-length'' \<noteq> 0" by code_simp+
  ultimately have "getAs lexical_cast (req_headers ?d) ''content-length'' 0 = word_of_nat (length (req_body q))"
    using assms(2,4) by (cases "req_body q = []") (auto simp: getAs_def received_header_def)
  then show ?thesis using assms(3) by (simp add: HttpRequestParser_getContentLength_def HttpRequest_getHeaderAs_def signed_of_nat signed_take_bit_int_eq_self)
qed

lemma session_receives:
  assumes a: "arrives q ss c (length buffer)"
    and cast: "lexical_cast (dec (length (req_body q))) = Some (word_of_nat (length (req_body q)))" and mem: "alloc (length (req_body q))"
  shows "\<exists>c'. HttpSession_recvRequest alloc lexical_cast env (length buffer) buffer h0 (ss, c, hs) = (Inr (Some (received q)), (ss, c', hs)) \<and> tx c' = tx c \<and> wplan c' = wplan c"
proof -
  let ?kvs = "sent_headers q" and ?w = "head_text q (sent_headers q) @ crlf" and ?b = "req_body q"
  let ?d = "with_head q (sent_headers q) (HttpRequest_new 0x11 True)"
  have pl: "line_plain q" "list_all header_plain ?kvs" using a sent_headers_plain by (auto simp: arrives_def request_plain_def)
  have s: "HttpRequest_toString q = ?w @ ?b" using request_toString_head [OF pl(1)] by simp
  then have l: "head_length q = length ?w" by (simp add: head_length_def)
  obtain rest where "rx c = to_bytes (HttpRequest_toString q) @ rest" using a by (auto simp: arrives_def prefix_def)
  then have rx: "rx c = to_bytes ?w @ to_bytes ?b @ rest" unfolding s by simp
  let ?rest = "to_bytes (req_body q) @ rest"
  obtain p ps where ps: "rplan c = p # ps" using a by (cases "rplan c") (auto simp: arrives_def)
  have n: "SocketStream_isConnected ss" "int (length ?w) \<le> p" "length ?w \<le> length buffer" "length buffer < 2 ^ 30" "length ?b \<le> length ps" "list_all (\<lambda>p. 0 < p) ps"
    "length ?b < 2 ^ 31" "request_plain q" "?b = [] \<longrightarrow> MapType_find ''content-length'' (req_headers q) = None"
    using a ps unfolding arrives_def l by auto
  let ?c = "\<lambda>k. c\<lparr>rx := drop k ?rest, rplan := ps\<rparr>"
  obtain h data k where r: "recv_head env (length buffer) (HttpRequestParser_new h0) buffer 0 (ss, c, hs) =
      (Inr (Some (\<lparr>rqp_parser = h, rqp_data = ?d, rqp_error = 0\<rparr>, data, int k)), (ss, ?c k, hs))"
      and k: "k \<le> length ?rest" "k \<le> length data" "take k data = take k ?rest"
    using recv_head_whole [OF pl refl n(1) rx ps n(2-4) refl, of env h0 hs] by blast
  note len = received_content_length [where lexical_cast = lexical_cast, OF n(8,9,7) cast, of h]
  show ?thesis
  proof (cases "?b = []")
    case True
    then show ?thesis using r len by (simp add: HttpSession_recvRequest_def received_def Let_def)
  next
    case False
    obtain c' where "recv_body alloc env (length ?b) data (int k) (ss, ?c k, hs) = (Inr (Some (to_bytes ?b)), (ss, c', hs))" "tx c' = tx c" "wplan c' = wplan c"
      using recv_body_delivered [of "length ?b" alloc k data ?rest "?c k" ss env hs] n mem k by auto
    then show ?thesis using r len False by (simp add: HttpSession_recvRequest_def received_def Let_def)
  qed
qed

lemma received_same:
  assumes "request_plain q" and "\<not> req_websocket q"
  shows "req_method (received q) = req_method q" "req_version (received q) = req_version q" "req_path (received q) = req_path q" "req_query (received q) = req_query q"
    "req_fragment (received q) = req_fragment q" "req_body (received q) = req_body q" "req_close (received q) = req_close q"
    "MapType_find k (req_headers (received q)) = received_header q k"
proof -
  let ?d = "with_head q (sent_headers q) (HttpRequest_new 0x11 True)"
  define d where "d = (if req_body q = [] then ?d else HttpRequest_setBody (req_body q) ?d)"
  have hd: "MapType_find key (req_headers ?d) = received_header q key" for key
    using sent_headers_found assms(1) by (simp add: with_head_fields request_plain_def req_ok_def)
  have f: "req_method d = req_method q" "req_version d = req_version q" "req_path d = req_path q" "req_query d = req_query q" "req_fragment d = req_fragment q"
    "req_body d = req_body q" "req_headers d = req_headers ?d"
    by (simp_all add: d_def HttpRequest_setBody_def with_head_fields with_head_body)
  have "strcasecmp ''content-length'' ''connection'' \<noteq> 0" "strcasecmp ''connection'' ''connection'' = 0" by code_simp+
  then have conn: "HttpRequest_getHeader ''connection'' [] d = (if req_close q then ''close'' else ''keep-alive'')"
    using assms(2) by (simp add: HttpRequest_getHeader_def f hd received_header_def)
  have "strcasecmp ''close'' ''keep-alive'' \<noteq> 0" "strcasecmp ''keep-alive'' ''keep-alive'' = 0" by code_simp+
  then have "received q = d\<lparr>req_close := req_close q\<rparr>" using conn by (simp add: received_def HttpRequest_init_def Let_def flip: d_def)
  then show "req_method (received q) = req_method q" "req_version (received q) = req_version q" "req_path (received q) = req_path q" "req_query (received q) = req_query q"
    "req_fragment (received q) = req_fragment q" "req_body (received q) = req_body q" "req_close (received q) = req_close q"
    "MapType_find k (req_headers (received q)) = received_header q k"
    using f hd by simp_all
qed

text \<open>
  A request arrives at the session. When the text of a plain request, followed by anything, is on its way (see \<open>arrives\<close>), a decimal number is read back by
  \<open>lexical_cast\<close> and the memory for the body can be had, \<open>recvRequest\<close> returns a request with the same method, version, path, query, fragment, body and close
  flag, whose headers are those of the request, with \<open>connection\<close> and \<open>content-length\<close> as they were sent. It writes nothing.
\<close>

theorem session_receives_request:
  assumes "arrives q ss c (length buffer)" and "lexical_cast (dec (length (req_body q))) = Some (word_of_nat (length (req_body q)))" and "alloc (length (req_body q))"
  shows "\<exists>q' c'. HttpSession_recvRequest alloc lexical_cast env (length buffer) buffer h0 (ss, c, hs) = (Inr (Some q'), (ss, c', hs))
    \<and> req_method q' = req_method q \<and> req_version q' = req_version q \<and> req_path q' = req_path q \<and> req_query q' = req_query q
    \<and> req_fragment q' = req_fragment q \<and> req_body q' = req_body q \<and> req_close q' = req_close q
    \<and> (\<forall>k. MapType_find k (req_headers q') = received_header q k) \<and> tx c' = tx c"
proof -
  have "request_plain q" "\<not> req_websocket q" using assms(1) by (auto simp: arrives_def)
  then show ?thesis using session_receives [where alloc = alloc and lexical_cast = lexical_cast, OF assms, of env h0 hs] received_same by (metis (no_types, lifting))
qed

definition sample_stream :: SocketStream where
  "sample_stream = HttpSession_new (Some (Socket_CreateTCPSocket\<lparr>m_sock := 5, m_isConnected := True\<rparr>))"

definition sample_conn :: conn where
  "sample_conn = \<lparr>rx = to_bytes (HttpRequest_toString sample_request), rplan = [75, 1, 1], tx = [], wplan = []\<rparr>"

lemma sample_arrives: "arrives sample_request sample_stream sample_conn 100"
proof -
  have q: "request_plain sample_request" "req_body sample_request = ''hi''" "\<not> req_websocket sample_request" by code_simp+
  have n: "length (HttpRequest_toString sample_request) = 77" by (simp add: sample_request_text)
  have "SocketStream_isConnected sample_stream" by (simp add: sample_stream_def HttpSession_new_def SocketStream_new_def SocketStream_isConnected_def)
  then show ?thesis using q n by (simp add: arrives_def head_length_def sample_conn_def)
qed

theorem session_receives_request_witness:
  "\<forall>env hs. \<exists>q' c'. HttpSession_recvRequest (\<lambda>_. True) (\<lambda>t. Some (word_of_nat (undec t))) env 100 (replicate 100 0) blank_parser (sample_stream, sample_conn, hs) =
      (Inr (Some q'), (sample_stream, c', hs)) \<and> req_path q' = ''/a/b'' \<and> req_body q' = ''hi'' \<and> req_close q' \<and> tx c' = []"
proof (intro allI)
  fix env and hs :: "knet hstate"
  have q: "req_body sample_request = ''hi''" "req_path sample_request = ''/a/b''" "req_close sample_request" by code_simp+
  show "\<exists>q' c'. HttpSession_recvRequest (\<lambda>_. True) (\<lambda>t. Some (word_of_nat (undec t))) env 100 (replicate 100 0) blank_parser (sample_stream, sample_conn, hs) =
      (Inr (Some q'), (sample_stream, c', hs)) \<and> req_path q' = ''/a/b'' \<and> req_body q' = ''hi'' \<and> req_close q' \<and> tx c' = []"
    using session_receives_request [of sample_request sample_stream sample_conn "replicate 100 0" "\<lambda>t. Some (word_of_nat (undec t))" "\<lambda>_. True" env blank_parser hs]
      sample_arrives q by (auto simp: sample_conn_def)
qed

end
