(* ===== verification/Mingo_TcpServer.thy ===== *)
theory Mingo_TcpServer
  imports Mingo_Socket_Props "HOL-Library.Multiset"
begin

text \<open>
  \<^verbatim>\<open>mingo/tcp_server.cpp\<close>: listening sockets, the loop that accepts clients, starting and stopping. The workers are their queues: what is scheduled on the
  accepting worker and the clients that are scheduled on the worker for input and output. Each call of the operating system gets its answers from an environment; for a sequence of
  calls there is a list of them. A socket that nobody points to any more is destroyed.
\<close>

section \<open>The server\<close>

datatype accept_task = StartAccept Socket | CloseSockets

record TcpServer =
  srv_socks :: "Socket list"
  srv_recvTimeout :: u64
  srv_name :: string
  srv_type :: string
  srv_isStop :: bool
  accept_queue :: "accept_task list"
  io_queue :: "Socket list"

type_synonym 'a server_oper = "(TcpServer \<times> knet hstate, 'a) oper"

definition TcpServer_new :: "u64 \<Rightarrow> TcpServer" where
  "TcpServer_new read_timeout =
     \<lparr>srv_socks = [], srv_recvTimeout = read_timeout, srv_name = ''mingo/1.0.0'', srv_type = ''tcp'', srv_isStop = True, accept_queue = [], io_queue = []\<rparr>"

text \<open>An operation on one socket, and the same on several, one after the other.\<close>

definition with_sock :: "'a sock_oper \<Rightarrow> Socket \<Rightarrow> (knet hstate, 'a \<times> Socket) oper" where
  "with_sock f s h = (case f (s, h) of (Inl e, (s', h')) \<Rightarrow> (Inl e, h') | (Inr r, (s', h')) \<Rightarrow> (Inr (r, s'), h'))"

fun with_socks :: "unit sock_oper \<Rightarrow> Socket list \<Rightarrow> (knet hstate, Socket list) oper" where
  "with_socks f [] = ret []"
| "with_socks f (s # ss) = andthen (with_sock f s) (\<lambda>(_, s'). andthen (with_socks f ss) (\<lambda>ss'. ret (s' # ss')))"

definition sys_of :: "(knet hstate, 'a) oper \<Rightarrow> 'a server_oper" where
  "sys_of f = (\<lambda>(srv, h). case f h of (r, h') \<Rightarrow> (r, (srv, h')))"

definition server :: "TcpServer server_oper" where
  "server = (\<lambda>(srv, h). (Inr srv, (srv, h)))"

definition update :: "(TcpServer \<Rightarrow> TcpServer) \<Rightarrow> unit server_oper" where
  "update g = (\<lambda>(srv, h). (Inr (), (g srv, h)))"

definition TcpServer_setName :: "string \<Rightarrow> TcpServer \<Rightarrow> TcpServer" where
  "TcpServer_setName v srv = srv\<lparr>srv_name := v\<rparr>"

definition TcpServer_setRecvTimeout :: "u64 \<Rightarrow> TcpServer \<Rightarrow> TcpServer" where
  "TcpServer_setRecvTimeout v srv = srv\<lparr>srv_recvTimeout := v\<rparr>"

text \<open>The destructor closes the sockets; then they are destroyed.\<close>

definition TcpServer_delete :: "sock_env \<Rightarrow> unit server_oper" where
  "TcpServer_delete env =
     andthen server (\<lambda>srv.
     andthen (sys_of (with_socks (andthen (Socket_close env) (\<lambda>_. ret ())) (srv_socks srv))) (\<lambda>ss.
     andthen (sys_of (with_socks (Socket_delete env) ss)) (\<lambda>_.
     update (\<lambda>srv. srv\<lparr>srv_socks := []\<rparr>))))"

section \<open>Binding\<close>

text \<open>One address: whether it is bound and listened to. A socket that fails is destroyed at the end of the turn.\<close>

definition bind_one :: "sock_env \<Rightarrow> Address \<Rightarrow> (knet hstate, Socket option) oper" where
  "bind_one env addr =
     andthen (with_sock (Socket_bind env addr) (Socket_CreateTCP addr)) (\<lambda>(ok, s1).
       if \<not> ok then andthen (with_sock (Socket_delete env) s1) (\<lambda>_. ret None)
       else
         andthen (with_sock (Socket_listen env) s1) (\<lambda>(ok, s2).
           if \<not> ok then andthen (with_sock (Socket_delete env) s2) (\<lambda>_. ret None)
           else ret (Some s2)))"

fun bind_loop :: "(sock_env \<times> Address) list \<Rightarrow> Address list \<Rightarrow> Address list server_oper" where
  "bind_loop [] fails = ret fails"
| "bind_loop ((env, addr) # addrs) fails =
     andthen (sys_of (bind_one env addr)) (\<lambda>s.
       case s of
         None \<Rightarrow> bind_loop addrs (fails @ [addr])
       | Some s \<Rightarrow> andthen (update (\<lambda>srv. srv\<lparr>srv_socks := srv_socks srv @ [s]\<rparr>)) (\<lambda>_. bind_loop addrs fails))"

text \<open>The result with what \<open>fails\<close> holds afterwards.\<close>

definition TcpServer_bind :: "sock_env \<Rightarrow> (sock_env \<times> Address) list \<Rightarrow> Address list \<Rightarrow> (bool \<times> Address list) server_oper" where
  "TcpServer_bind env addrs fails =
     andthen (bind_loop addrs fails) (\<lambda>fails'.
       if fails' \<noteq> [] then
         andthen server (\<lambda>srv.
         andthen (sys_of (with_socks (Socket_delete env) (srv_socks srv))) (\<lambda>_.
         andthen (update (\<lambda>srv. srv\<lparr>srv_socks := []\<rparr>)) (\<lambda>_. ret (False, fails'))))
       else ret (True, fails'))"

definition TcpServer_bind_one :: "sock_env \<Rightarrow> sock_env \<times> Address \<Rightarrow> bool server_oper" where
  "TcpServer_bind_one env addr = andthen (TcpServer_bind env [addr] []) (\<lambda>(ok, _). ret ok)"

section \<open>Accepting\<close>

text \<open>
  The loop of \<open>startAccept\<close>, for the answers that the coming calls of \<open>accept\<close> get. A client gets the time-out and is scheduled.
\<close>

fun TcpServer_startAccept :: "sock_env list \<Rightarrow> Socket \<Rightarrow> unit server_oper" where
  "TcpServer_startAccept [] sock = ret ()"
| "TcpServer_startAccept (env # envs) sock =
     andthen server (\<lambda>srv.
       if srv_isStop srv then ret ()
       else
         andthen (sys_of (Socket_accept env sock)) (\<lambda>client.
           case client of
             None \<Rightarrow> TcpServer_startAccept envs sock
           | Some c \<Rightarrow>
               andthen (sys_of (with_sock (Socket_setRecvTimeout env (sint (srv_recvTimeout srv))) c)) (\<lambda>(_, c').
               andthen (update (\<lambda>srv. srv\<lparr>io_queue := io_queue srv @ [c']\<rparr>)) (\<lambda>_. TcpServer_startAccept envs sock))))"

definition TcpServer_start :: "TcpServer \<Rightarrow> bool \<times> TcpServer" where
  "TcpServer_start srv =
     (if \<not> srv_isStop srv then (True, srv)
      else (True, srv\<lparr>srv_isStop := False, accept_queue := accept_queue srv @ map StartAccept (srv_socks srv)\<rparr>))"

definition TcpServer_stop :: "TcpServer \<Rightarrow> TcpServer" where
  "TcpServer_stop srv = srv\<lparr>srv_isStop := True, accept_queue := accept_queue srv @ [CloseSockets]\<rparr>"

text \<open>The function that \<open>stop\<close> schedules.\<close>

definition close_sockets :: "bool \<Rightarrow> sock_env \<Rightarrow> unit server_oper" where
  "close_sockets fail env =
     andthen server (\<lambda>srv.
     andthen (sys_of (with_socks (andthen (Socket_cancelAll fail) (\<lambda>_. andthen (Socket_close env) (\<lambda>_. ret ()))) (srv_socks srv))) (\<lambda>ss.
     andthen (sys_of (with_socks (Socket_delete env) ss)) (\<lambda>_.
     update (\<lambda>srv. srv\<lparr>srv_socks := []\<rparr>))))"

definition TcpServer_toString :: "string \<Rightarrow> string \<Rightarrow> string \<Rightarrow> TcpServer \<Rightarrow> string" where
  "TcpServer_toString worker accept pre srv =
     pre @ ''[type='' @ srv_type srv @ '' name='' @ srv_name srv @ '' worker='' @ worker @ '' accept='' @ accept
     @ '' recv_timeout='' @ dec (unat (srv_recvTimeout srv)) @ '']'' @ [LF]
     @ (let pfx = (if pre = [] then ''    '' else pre) in concat (map (\<lambda>s. pfx @ pfx @ dec_int (m_sock s) @ [LF]) (srv_socks srv)))"

section \<open>Descriptors\<close>

text \<open>
  The descriptors that some sockets hold, as a multiset, and the state in which the open descriptors are those of a socket and some others.
\<close>

definition fds_of :: "Socket list \<Rightarrow> int multiset" where
  "fds_of ss = mset (filter (\<lambda>fd. fd \<noteq> - 1) (map m_sock ss))"

definition holds :: "int multiset \<Rightarrow> Socket \<times> knet hstate \<Rightarrow> bool" where
  "holds M x \<longleftrightarrow> mset (open_fds (kern (snd x))) = fds_of [fst x] + M"

lemma fds_of_simps [simp]: "fds_of [] = {#}" "fds_of (ss @ ts) = fds_of ss + fds_of ts"
  by (simp_all add: fds_of_def)

lemma fds_of_Cons: "fds_of (s # ss) = fds_of [s] + fds_of ss"
  using fds_of_simps(2) [of "[s]" ss] by simp

lemma owns_holds: "owns b x \<Longrightarrow> holds (mset b) x"
  by (auto simp: owns_def holds_def fds_of_def)

lemma close_holds: "triple (holds M) (Socket_close env) (\<lambda>_ x. mset (open_fds (kern (snd x))) = M \<and> m_sock (fst x) = - 1)"
proof -
  let ?at = "\<lambda>s x. holds M x \<and> m_sock (fst x) = m_sock s" and ?Q = "\<lambda>x. mset (open_fds (kern (snd x))) = M"
  have "triple (holds M) this ?at" by (rule triple_weaken [OF triple_this]) auto
  moreover have "triple (?at s) (modify_this (\<lambda>s. s\<lparr>m_isConnected := False\<rparr>)) (\<lambda>_. ?at s)" for s
    by (simp add: triple_modify holds_def fds_of_def)
  moreover have "triple (?at s) (on_sys (hook_close (en_thread env) (k_close (m_sock s)) (m_sock s) (en_fail env))) (\<lambda>_. ?Q)" if "m_sock s \<noteq> - 1" for s
    using that by (intro triple_on_sys) (auto simp: holds_def fds_of_def dest: hook_close_kern)
  moreover have "triple ?Q (modify_this (\<lambda>s. s\<lparr>m_sock := - 1\<rparr>)) (\<lambda>_ x. ?Q x \<and> m_sock (fst x) = - 1)"
    by (simp add: triple_modify)
  ultimately show ?thesis
    unfolding Socket_close_def
    by (intro triple_andthen triple_if) (assumption | rule triple_ret; auto simp: holds_def fds_of_def)+
qed

lemma delete_holds: "triple (holds M) (Socket_delete env) (\<lambda>_ x. mset (open_fds (kern (snd x))) = M)"
  unfolding Socket_delete_def by (rule triple_andthen [OF close_holds triple_ret]) auto

lemma with_sock_holds:
  assumes "triple (holds M) f Q" and "with_sock f s h = (Inr (r, s'), h')" and "mset (open_fds (kern h)) = fds_of [s] + M"
  shows "Q r (s', h')"
  using assms by (auto simp: with_sock_def holds_def triple_def split: prod.splits sum.splits)

lemma with_socks_deleted:
  assumes "with_socks (Socket_delete env) ss h = (Inr ss', h')" and "mset (open_fds (kern h)) = fds_of ss + M"
  shows "mset (open_fds (kern h')) = M"
  using assms
proof (induction ss arbitrary: h ss')
  case Nil
  then show ?case by simp
next
  case (Cons s ss)
  obtain s1 h1 ss1 where 1: "with_sock (Socket_delete env) s h = (Inr ((), s1), h1)" "with_socks (Socket_delete env) ss h1 = (Inr ss1, h')"
    using Cons.prems(1) by (auto elim!: andthen_eq_InrE split: prod.splits)
  have "mset (open_fds (kern h)) = fds_of [s] + (fds_of ss + M)" using Cons.prems(2) fds_of_Cons [of s ss] by simp
  from with_sock_holds [OF delete_holds 1(1) this] have "mset (open_fds (kern h1)) = fds_of ss + M" by simp
  then show ?case using Cons.IH 1(2) by blast
qed

lemma with_sock_owns:
  assumes "triple (owns b) f (\<lambda>_. owns b)" and "with_sock f s h = (Inr (r, s'), h')" and "owns b (s, h)"
  shows "owns b (s', h')"
  using assms by (auto simp: with_sock_def triple_def split: prod.splits sum.splits)

lemma bind_one_fds:
  assumes "bind_one env addr h = (Inr s, h')"
  shows "mset (open_fds (kern h')) = (case s of None \<Rightarrow> {#} | Some s \<Rightarrow> fds_of [s]) + mset (open_fds (kern h))"
proof -
  let ?b = "open_fds (kern h)"
  have "owns ?b (Socket_CreateTCP addr, h)" by (simp add: owns_def Socket_CreateTCP_def Socket_new_def)
  moreover obtain ok s1 h1 where 1: "with_sock (Socket_bind env addr) (Socket_CreateTCP addr) h = (Inr (ok, s1), h1)"
    using assms by (auto simp: bind_one_def elim!: andthen_eq_InrE)
  ultimately have o1: "owns ?b (s1, h1)" using with_sock_owns [OF bind_owns] by blast
  have gone: "mset (open_fds (kern h3)) = mset ?b" if "with_sock (Socket_delete env) s2 h2 = (Inr (u, s3), h3)" "owns ?b (s2, h2)" for s2 h2 u s3 h3
    using with_sock_holds [OF delete_holds that(1)] owns_holds [OF that(2)] by (simp add: holds_def)
  show ?thesis
  proof (cases ok)
    case False
    then show ?thesis using assms 1 gone [OF _ o1] by (auto simp: bind_one_def andthen_def split: prod.splits sum.splits)
  next
    case True
    obtain ok2 s2 h2 where 2: "with_sock (Socket_listen env) s1 h1 = (Inr (ok2, s2), h2)"
      using assms 1 True by (auto simp: bind_one_def andthen_def split: prod.splits sum.splits)
    then have o2: "owns ?b (s2, h2)" using with_sock_owns [OF listen_owns] o1 by blast
    show ?thesis
      using assms 1 2 True gone [OF _ o2] owns_holds [OF o2]
      by (cases ok2) (auto simp: bind_one_def andthen_def holds_def split: prod.splits sum.splits)
  qed
qed

lemma bind_loop_fds:
  assumes "bind_loop addrs fails (srv, h) = (Inr fails', (srv', h'))" and "mset (open_fds (kern h)) = fds_of (srv_socks srv) + M"
  shows "mset (open_fds (kern h')) = fds_of (srv_socks srv') + M \<and> prefix (srv_socks srv) (srv_socks srv') \<and> prefix fails fails'
    \<and> length (srv_socks srv') + length fails' = length (srv_socks srv) + length fails + length addrs 
    \<and> srv_isStop srv' = srv_isStop srv \<and> accept_queue srv' = accept_queue srv"
  using assms
proof (induction addrs fails arbitrary: srv h rule: bind_loop.induct)
  case (1 fails)
  then show ?case by simp
next
  case (2 env addr addrs fails)
  obtain s h1 where 1: "bind_one env addr h = (Inr s, h1)"
    using "2.prems"(1) by (auto simp: sys_of_def elim!: andthen_eq_InrE split: prod.splits)
  note f = bind_one_fds [OF 1]
  show ?case
  proof (cases s)
    case None
    have r: "bind_loop addrs (fails @ [addr]) (srv, h1) = (Inr fails', (srv', h'))" using "2.prems"(1) 1 None by (simp add: andthen_def sys_of_def)
    have "mset (open_fds (kern h1)) = fds_of (srv_socks srv) + M" using f None "2.prems"(2) by simp
    from "2.IH"(1) [OF r this] show ?thesis by (auto simp: prefix_def)
  next
    case (Some t)
    let ?srv = "srv\<lparr>srv_socks := srv_socks srv @ [t]\<rparr>"
    have r: "bind_loop addrs fails (?srv, h1) = (Inr fails', (srv', h'))" using "2.prems"(1) 1 Some by (simp add: andthen_def sys_of_def update_def)
    have "mset (open_fds (kern h1)) = fds_of (srv_socks ?srv) + M" using f Some "2.prems"(2) by simp
    from "2.IH"(2) [OF r this] show ?thesis by (auto simp: prefix_def)
  qed
qed



end
