(* ===== verification/Mingo_HttpServer.thy ===== *)
theory Mingo_HttpServer
  imports Mingo_HttpSession_Props Mingo_TcpServer Mingo_Servlet
begin

text \<open>
  \<^verbatim>\<open>mingo/http/http_server.cpp\<close>: the server that reads requests from a client, lets the dispatcher of servlets handle them and writes the responses. The loop may run as long
  as the client sends requests, so that it is a partial function. \<open>fresh\<close> says what the memory of the buffer and of the parser holds when a session starts to receive.
\<close>

record HttpServer = TcpServer +
  srv_isKeepalive :: bool
  srv_dispatch :: "session servlet dispatch"

definition HttpServer_new :: "u64 \<Rightarrow> bool \<Rightarrow> HttpServer" where
  "HttpServer_new read_timeout keepalive =
     (TcpServer.extend (TcpServer_new read_timeout) (HttpServer.fields keepalive ServletDispatch_new))\<lparr>srv_type := ''http''\<rparr>"

definition HttpServer_setName :: "string \<Rightarrow> HttpServer \<Rightarrow> HttpServer" where
  "HttpServer_setName v srv = srv\<lparr>srv_name := v, srv_dispatch := ServletDispatch_setDefault (Some (NotFoundServlet_new v)) (srv_dispatch srv)\<rparr>"

text \<open>What the server takes from its surroundings.\<close>

record surroundings =
  sr_alloc :: "nat \<Rightarrow> bool"
  sr_cast :: "string \<Rightarrow> u64 option"
  sr_env :: sock_env
  sr_fnmatch :: "string \<Rightarrow> string \<Rightarrow> bool"
  sr_fresh :: "session \<Rightarrow> byte list \<times> http_parser"

definition server_recv :: "surroundings \<Rightarrow> (session, HttpRequest option) oper" where
  "server_recv e s = (case sr_fresh e s of (buffer, h0) \<Rightarrow> HttpSession_recvRequest (sr_alloc e) (sr_cast e) (sr_env e) (length buffer) buffer h0 s)"

definition server_response :: "HttpServer \<Rightarrow> HttpRequest \<Rightarrow> HttpResponse" where
  "server_response srv req =
     HttpResponse_setHeader ''Server'' (srv_name srv) (HttpResponse_new (req_version req) (req_close req \<or> \<not> srv_isKeepalive srv))"

text \<open>The loop of \<open>handleClient\<close>.\<close>

partial_function (option) client_loop :: "surroundings \<Rightarrow> HttpServer \<Rightarrow> session \<Rightarrow> (unit res \<times> session) option" where
  "client_loop e srv s =
     (case server_recv e s of
        (Inl x, s1) \<Rightarrow> Some (Inl x, s1)
      | (Inr None, s1) \<Rightarrow> Some (Inr (), s1)
      | (Inr (Some req), s1) \<Rightarrow>
          (case ServletDispatch_handle (sr_fnmatch e) (srv_dispatch srv) (req, server_response srv req, s1) of
             (Inl x, (_, _, s2)) \<Rightarrow> Some (Inl x, s2)
           | (Inr _, (req2, rsp, s2)) \<Rightarrow>
               (case HttpSession_sendResponse rsp s2 of
                  (Inl x, s3) \<Rightarrow> Some (Inl x, s3)
                | (Inr _, s3) \<Rightarrow>
                    if \<not> srv_isKeepalive srv \<or> req_close req2 then Some (Inr (), s3)
                    else client_loop e srv s3)))"

declare client_loop.simps [code]

text \<open>After the loop the session is closed and then destroyed.\<close>

definition HttpServer_handleClient :: "surroundings \<Rightarrow> HttpServer \<Rightarrow> Socket \<Rightarrow> conn \<Rightarrow> knet hstate \<Rightarrow> (unit res \<times> session) option" where
  "HttpServer_handleClient e srv client c h =
     map_option (\<lambda>(r, s). case r of
         Inl x \<Rightarrow> (Inl x, s)
       | Inr _ \<Rightarrow> andthen (on_net (SocketStream_close (sr_env e))) (\<lambda>_. on_net (SocketStream_delete (sr_env e))) s)
     (client_loop e srv (HttpSession_new (Some client), c, h))"

end
