(* ===== verification/Mingo_HttpServer_Props.thy ===== *)
theory Mingo_HttpServer_Props
  imports Mingo_HttpServer
begin

text \<open>
  Serving a client: the loop of the server ends when the connection ends, and a request that arrives is answered with what the servlets made of it.
\<close>

section \<open>The loop ends\<close>

definition plan :: "session \<Rightarrow> nat" where
  "plan s = length (rplan (fst (snd s)))"

lemma give_up_None: "give_up env s = (Inr y, s') \<Longrightarrow> y = None"
  by (auto simp: give_up_def elim!: andthen_eq_InrE)

lemma recv_head_plan: "recv_head env n r d off s = (Inr (Some y), s') \<Longrightarrow> plan s' < plan s"
proof (induction env n r d off s rule: recv_head.induct)
  case (1 env n r d off s)
  let ?rd = "on_conn (SocketStream_read (nat (int n - off)))"
  obtain len bs s1 where rd: "?rd s = (Inr (len, bs), s1)"
    using "1.prems" by (auto simp: recv_head.simps [of env n r d off s] split: prod.splits sum.splits)
  have pos: "0 < len" using "1.prems" rd give_up_None by (fastforce simp: recv_head.simps [of env n r d off s] split: if_splits)
  have less: "plan s1 < plan s" using read_uses_plan [OF rd pos] by (simp add: plan_def)
  let ?len = "c_int (len + off)"
  obtain np r2 d2 where x: "HttpRequestParser_execute (nat ?len) (r, put (nat off) bs d) = (Inr np, (r2, d2))"
    using "1.prems" rd pos by (auto simp: recv_head.simps [of env n r d off s] Let_def split: prod.splits sum.splits if_splits)
  let ?off = "c_int (?len - int np)"
  have ok: "\<not> HttpRequestParser_hasError r2" "?off \<noteq> c_int (int n)"
    using "1.prems" rd pos x give_up_None by (fastforce simp: recv_head.simps [of env n r d off s] Let_def split: if_splits)+
  show ?case
  proof (cases "HttpRequestParser_isFinished r2 = 0")
    case False
    then show ?thesis using "1.prems" rd pos x ok less by (simp add: recv_head.simps [of env n r d off s] Let_def)
  next
    case True
    then have "recv_head env n r2 d2 ?off s1 = (Inr (Some y), s')" using "1.prems" rd pos x ok by (simp add: recv_head.simps [of env n r d off s] Let_def)
    with "1.IH" [OF rd [symmetric] _ _ _ _ x [symmetric]] pos ok True have "plan s' < plan s1" by simp
    then show ?thesis using less by simp
  qed
qed

lemma recv_body_plan:
  assumes "recv_body alloc env len data off s = (Inr (Some b), s')"
  shows "plan s' \<le> plan s"
proof -
  obtain ss c h where s: "s = (ss, c, h)" by (cases s)
  have give: "give_up env y \<noteq> (Inr (Some b), s')" for y using give_up_None by fastforce
  have "only_reads (ss, c) x' \<Longrightarrow> plan (fst x', snd x', h) \<le> plan s" for x' by (simp add: only_reads_def plan_def s)
  then show ?thesis
    using assms give
    by (auto simp: s recv_body_def on_conn_def Let_def dest!: readFixSize_only_reads split: if_splits prod.splits sum.splits)
qed

lemma server_recv_plan:
  assumes "server_recv e s = (Inr (Some req), s')"
  shows "plan s' < plan s"
proof -
  obtain buffer h0 where f: "sr_fresh e s = (buffer, h0)" by (rule prod.exhaust)
  obtain parser data off s1 where 1: "recv_head (sr_env e) (length buffer) (HttpRequestParser_new h0) buffer 0 s = (Inr (Some (parser, data, off)), s1)"
    and 2: "s' = s1 \<or> (\<exists>b. recv_body (sr_alloc e) (sr_env e) (nat (sint (HttpRequestParser_getContentLength (sr_cast e) parser))) data off s1 = (Inr (Some b), s'))"
    using assms f by (auto simp: server_recv_def HttpSession_recvRequest_def Let_def split: prod.splits sum.splits option.splits if_splits)
  show ?thesis using recv_head_plan [OF 1] 2 recv_body_plan by fastforce
qed

text \<open>Writing changes neither the stream nor what is received.\<close>

definition only_writes :: "sstate \<Rightarrow> sstate \<Rightarrow> bool" where
  "only_writes x x' \<longleftrightarrow> fst x' = fst x \<and> rx (snd x') = rx (snd x) \<and> rplan (snd x') = rplan (snd x)"

lemma write_only_writes: "SocketStream_write bs x = (r, x') \<Longrightarrow> only_writes x x'"
  by (cases x; cases rule: k_send_cases [of bs "m_sock (the (m_socket (fst x)))" "snd x"])
    (auto simp: only_writes_def SocketStream_write_def Socket_send_def guarded_send_def split: if_splits prod.splits)

lemma writeFixSize_only_writes:
  assumes "Stream_writeFixSize SocketStream_write buffer n x = (r, x')"
  shows "only_writes x x'"
proof -
  let ?io = "\<lambda>k m. SocketStream_write (take m (drop k buffer))"
  obtain r1 y where 1: "fix_loop ?io 0 (to_int64 n) x = (r1, y)" by (rule prod.exhaust)
  have "only_writes x y"
    by (rule fix_loop_keeps [where R = only_writes, OF _ _ _ 1]) (auto dest: write_only_writes simp: only_writes_def)
  moreover have "y = x'" using assms 1 by (auto simp: Stream_writeFixSize_def fix_size_def andthen_def split: sum.splits)
  ultimately show ?thesis by simp
qed

lemma sendResponse_plan: "HttpSession_sendResponse rsp s = (r, s') \<Longrightarrow> plan s' = plan s"
  by (auto simp: HttpSession_sendResponse_def on_conn_def plan_def only_writes_def Let_def dest!: writeFixSize_only_writes split: prod.splits)

text \<open>A dispatcher whose servlets do not lengthen the plan of the connection, whatever they read.\<close>

definition sober :: "surroundings \<Rightarrow> HttpServer \<Rightarrow> bool" where
  "sober e srv \<longleftrightarrow> (\<forall>req rsp s. plan (snd (snd (snd (ServletDispatch_handle (sr_fnmatch e) (srv_dispatch srv) (req, rsp, s))))) \<le> plan s)"

lemma client_loop_returns:
  assumes "sober e srv"
  shows "client_loop e srv s \<noteq> None"
proof (induction "plan s" arbitrary: s rule: less_induct)
  case less
  obtain r1 s1 where 1: "server_recv e s = (r1, s1)" by (rule prod.exhaust)
  show ?case
  proof (cases "\<exists>req. r1 = Inr (Some req)")
    case False
    then show ?thesis using 1 by (subst client_loop.simps) (auto simp del: not_None_eq split: sum.split option.split)
  next
    case True
    then obtain req where req: "r1 = Inr (Some req)" by blast
    obtain r2 req2 rsp s2 where 2: "ServletDispatch_handle (sr_fnmatch e) (srv_dispatch srv) (req, server_response srv req, s1) = (r2, (req2, rsp, s2))"
      by (metis prod.exhaust)
    obtain r3 s3 where 3: "HttpSession_sendResponse rsp s2 = (r3, s3)" by (rule prod.exhaust)
    have "plan s2 \<le> plan s1" using assms 2 unfolding sober_def by (metis snd_conv)
    then have "plan s3 < plan s" using server_recv_plan 1 req sendResponse_plan [OF 3] by fastforce
    then have "client_loop e srv s3 \<noteq> None" by (rule less)
    then show ?thesis using 1 req 2 3 by (subst client_loop.simps) (auto simp del: not_None_eq split: sum.split)
  qed
qed


section \<open>An exchange\<close>

definition takes :: "sstate \<Rightarrow> nat \<Rightarrow> bool" where
  "takes x n \<longleftrightarrow> SocketStream_isConnected (fst x) \<and> n \<le> length (wplan (snd x)) \<and> list_all (\<lambda>p. 0 < p) (wplan (snd x))"

lemma write_takes:
  assumes "takes x (length bs)" and "bs \<noteq> []" and "length bs < 2 ^ 31"
  shows "\<exists>k x'. SocketStream_write bs x = (Inr (int k), x') \<and> 0 < k \<and> k \<le> length bs \<and> takes x' (length bs - k)"
proof -
  obtain ss c where x: "x = (ss, c)" by (cases x)
  obtain p ps where p: "wplan c = p # ps" using assms x by (cases "wplan c") (auto simp: takes_def)
  define k where "k = min (nat p) (min (length bs) MAX_RW_COUNT)"
  have k: "0 < k" "k \<le> length bs" "k \<le> MAX_RW_COUNT" using assms x p by (auto simp: takes_def k_def MAX_RW_COUNT_def)
  have "k_send fd bs c = (int k, c\<lparr>tx := tx c @ take k bs, wplan := ps\<rparr>)" for fd
    using k(1) unfolding k_send_def p list.case k_def Let_def by simp
  moreover have "m_isConnected (the (m_socket ss))" "SocketStream_isConnected ss"
    using assms(1) x by (auto simp: takes_def SocketStream_isConnected_def split: option.splits)
  ultimately have "SocketStream_write bs x = (Inr (int k), (ss, c\<lparr>tx := tx c @ take k bs, wplan := ps\<rparr>))"
    using k by (simp add: x SocketStream_write_def Socket_send_def guarded_send_def c_int_count)
  then show ?thesis using k assms(1) x p by (intro exI [of _ k]) (auto simp: takes_def)
qed

lemma fix_loop_takes:
  assumes "takes x (nat left)" and "left < 2 ^ 31" and "nat left \<le> length buffer - offset"
  shows "\<exists>x'. fix_loop (\<lambda>k m. SocketStream_write (take m (drop k buffer))) offset left x = (Inr None, x')"
  using assms
proof (induction "nat left" arbitrary: left offset x rule: less_induct)
  case less
  let ?bs = "take (nat left) (drop offset buffer)"
  show ?case
  proof (cases "left > 0")
    case False
    then show ?thesis by (simp add: fix_loop.simps [of _ offset left])
  next
    case True
    have l: "length ?bs = nat left" using less.prems(3) by simp
    then have "?bs \<noteq> []" "length ?bs < 2 ^ 31" "takes x (length ?bs)" using True less.prems by auto
    then obtain k x' where r: "SocketStream_write ?bs x = (Inr (int k), x')" "0 < k" "k \<le> nat left" "takes x' (nat left - k)"
      using write_takes l by metis
    have "nat (left - int k) < nat left" "nat (left - int k) = nat left - k" "left - int k < 2 ^ 31" using r True less.prems by auto
    then show ?thesis
      using less.hyps [of "left - int k" x' "offset + k"] r True less.prems(3) by (simp add: fix_loop.simps [of _ offset left])
  qed
qed

lemma writeFixSize_takes:
  assumes "takes x (length buffer)" and "length buffer < 2 ^ 31"
  shows "\<exists>x'. Stream_writeFixSize SocketStream_write buffer (length buffer) x = (Inr (int (length buffer)), x') \<and> tx (snd x') = tx (snd x) @ buffer"
proof -
  obtain x' where "fix_loop (\<lambda>k m. SocketStream_write (take m (drop k buffer))) 0 (int (length buffer)) x = (Inr None, x')"
    using fix_loop_takes [of x "int (length buffer)" buffer 0] assms by auto
  then have r: "Stream_writeFixSize SocketStream_write buffer (length buffer) x = (Inr (int (length buffer)), x')"
    using assms(2) by (simp add: Stream_writeFixSize_def fix_size_def to_int_id andthen_def)
  then show ?thesis using sock_out.writeFixSize_spec [OF TrueI le_refl assms(2), of x] by (auto split: if_splits)
qed

lemma on_net_conn: "on_net f s = (r, s') \<Longrightarrow> fst (snd s') = fst (snd s)"
  by (auto simp: on_net_def split: prod.splits)

lemma andthen_conn:
  assumes "\<And>s r s'. f s = (r, s') \<Longrightarrow> fst (snd s') = fst (snd s)" and "\<And>v s r s'. g v s = (r, s') \<Longrightarrow> fst (snd s') = fst (snd s)" and "andthen f g s = (r, s')"
  shows "fst (snd s') = fst (snd s)"
proof -
  obtain r1 s1 where 1: "f s = (r1, s1)" by (rule prod.exhaust)
  show ?thesis using assms(3) 1 assms(1) [OF 1] assms(2) by (cases r1) (auto simp: andthen_def)
qed


section \<open>Witnesses\<close>

text \<open>A server with no servlets but the default one, and a peer that takes what it gets.\<close>

definition sample_server :: HttpServer where
  "sample_server = HttpServer_setName ''x'' (HttpServer_new 120000 False)"

definition sample_client :: Socket where
  "sample_client = Socket_CreateTCPSocket\<lparr>m_sock := 5, m_isConnected := True\<rparr>"

definition sample_surroundings :: surroundings where
  "sample_surroundings =
     \<lparr>sr_alloc = \<lambda>_. True, sr_cast = \<lambda>t. Some (word_of_nat (undec t)), sr_env = sock_demo_env, sr_fnmatch = \<lambda>_ _. False,
      sr_fresh = \<lambda>_. (replicate 100 0, blank_parser)\<rparr>"

lemma sample_dispatch: "srv_dispatch sample_server = Dispatch [] [] (Some (NotFoundServlet_new ''x''))"
  by (simp add: sample_server_def HttpServer_setName_def HttpServer_new_def HttpServer.defs TcpServer.defs ServletDispatch_setDefault_def ServletDispatch_new_def)

definition sample_answer :: "HttpResponse \<Rightarrow> HttpResponse" where
  "sample_answer rsp =
     HttpResponse_setBody (''<html><head><title>404 Not Found'' @ ''</title></head><body><center><h1>404 Not Found</h1></center>'' @
         ''<hr><center>'' @ ''x'' @ ''</center></body></html>'')
       (HttpResponse_setHeader ''Content-Type'' ''text/html'' (HttpResponse_setHeader ''Server'' ''mingo/1.0.0'' (HttpResponse_setStatus 404 rsp)))"

lemma sample_handle: "ServletDispatch_handle fn (srv_dispatch sample_server) (req, rsp, s) = (Inr 0, (req, sample_answer rsp, s))"
  by (simp add: ServletDispatch_handle_def sample_dispatch ServletDispatch_getMatchedServlet_def NotFoundServlet_new_def NotFoundServlet_handle_def sample_answer_def Let_def)


definition peer_conn :: conn where
  "peer_conn = sample_conn\<lparr>wplan := replicate 300 1\<rparr>"

abbreviation sample_reply :: HttpResponse where
  "sample_reply \<equiv> sample_answer (server_response sample_server (received sample_request))"

lemma sample_reply_length: "length (HttpResponse_toString sample_reply) \<le> 300"
  by code_simp


end
