(* ===== verification/Mingo_HttpResponseParser.thy ===== *)
theory Mingo_HttpResponseParser
  imports Mingo_HttpParser_Props
begin

text \<open>
  The second half of \<^verbatim>\<open>mingo/http/http_parser.cpp\<close>: the parser of responses, on the automaton of \<^verbatim>\<open>mingo/http/httpclient_parser.rl.cpp\<close>,
  which also reads the head of a chunk. The actions convert numbers in the buffer with \<open>strtol\<close>, so that they see the memory from a position on.
\<close>

section \<open>The response automaton\<close>

record httpclient_parser =
  hc_cs :: int
  hc_body_start :: nat
  hc_content_len :: int
  hc_status :: int
  hc_chunked :: bool
  hc_chunks_done :: bool
  hc_close :: bool
  hc_nread :: nat
  hc_mark :: nat
  hc_field_start :: nat
  hc_field_len :: nat

datatype rsp_event =
    Rv_reason nat nat
  | Rv_status nat nat
  | Rv_chunk nat nat
  | Rv_version nat nat
  | Rv_header_done nat nat
  | Rv_last_chunk nat nat
  | Rv_field nat nat nat nat

abbreviation httpclient_parser_start :: int where "httpclient_parser_start \<equiv> 1"
abbreviation httpclient_parser_first_final :: int where "httpclient_parser_first_final \<equiv> 120"
abbreviation httpclient_parser_error :: int where "httpclient_parser_error \<equiv> 0"

definition httpclient_parser_init :: "httpclient_parser \<Rightarrow> httpclient_parser" where
  "httpclient_parser_init p =
     p\<lparr>hc_cs := httpclient_parser_start, hc_body_start := 0, hc_content_len := - 1, hc_chunked := False, hc_chunks_done := False, hc_mark := 0,
       hc_nread := 0, hc_field_len := 0, hc_field_start := 0, hc_close := False\<rparr>"

definition httpclient_parser_has_error :: "httpclient_parser \<Rightarrow> bool" where
  "httpclient_parser_has_error p \<longleftrightarrow> hc_cs p = httpclient_parser_error"

definition httpclient_parser_is_finished :: "httpclient_parser \<Rightarrow> bool" where
  "httpclient_parser_is_finished p \<longleftrightarrow> hc_cs p = httpclient_parser_first_final"

definition httpclient_parser_finish :: "httpclient_parser \<Rightarrow> int" where
  "httpclient_parser_finish p = (if httpclient_parser_has_error p then - 1 else if httpclient_parser_is_finished p then 1 else 0)"

definition announce :: "rsp_event \<Rightarrow> httpclient_parser \<times> rsp_event list \<Rightarrow> httpclient_parser \<times> rsp_event list" where
  "announce e = (\<lambda>(h, es). (h, es @ [e]))"

text \<open>The number at a position, as an \<open>int\<close>.\<close>

definition int_at :: "nat \<Rightarrow> byte list \<Rightarrow> nat \<Rightarrow> int" where
  "int_at base mem p = c_int (strtol base (c_str (to_text (drop p mem))))"

fun rsp_do :: "byte list \<Rightarrow> nat \<Rightarrow> rsp_action \<Rightarrow> nat \<Rightarrow> httpclient_parser \<times> rsp_event list \<Rightarrow> httpclient_parser \<times> rsp_event list" where
  "rsp_do mem pe Rsp_mark p (h, es) = (h\<lparr>hc_mark := p\<rparr>, es)"
| "rsp_do mem pe Rsp_start_field p (h, es) = (h\<lparr>hc_field_start := p\<rparr>, es)"
| "rsp_do mem pe Rsp_write_field p (h, es) = (h\<lparr>hc_field_len := sub64 p (hc_field_start h)\<rparr>, es)"
| "rsp_do mem pe Rsp_start_value p (h, es) = (h\<lparr>hc_mark := p\<rparr>, es)"
| "rsp_do mem pe Rsp_write_content_len p (h, es) = (h\<lparr>hc_content_len := int_at 10 mem (hc_mark h)\<rparr>, es)"
| "rsp_do mem pe Rsp_write_connection_close p (h, es) = (h\<lparr>hc_close := True\<rparr>, es)"
| "rsp_do mem pe Rsp_write_value p (h, es) =
     announce (Rv_field (hc_field_start h) (hc_field_len h) (hc_mark h) (sub64 p (hc_mark h))) (h, es)"
| "rsp_do mem pe Rsp_reason_phrase p (h, es) = announce (Rv_reason (hc_mark h) (sub64 p (hc_mark h))) (h, es)"
| "rsp_do mem pe Rsp_status_code p (h, es) =
     announce (Rv_status (hc_mark h) (sub64 p (hc_mark h))) (h\<lparr>hc_status := int_at 10 mem (hc_mark h)\<rparr>, es)"
| "rsp_do mem pe Rsp_http_version p (h, es) = announce (Rv_version (hc_mark h) (sub64 p (hc_mark h))) (h, es)"
| "rsp_do mem pe Rsp_chunk_size p (h, es) =
     (let n = int_at 16 mem (hc_mark h);
          h1 = h\<lparr>hc_chunked := True, hc_content_len := n, hc_chunks_done := n \<le> 0\<rparr>
      in announce ((if n \<le> 0 then Rv_last_chunk else Rv_chunk) (hc_mark h) (sub64 p (hc_mark h))) (h1, es))"
| "rsp_do mem pe Rsp_trans_chunked p (h, es) = (h\<lparr>hc_chunked := True\<rparr>, es)"
| "rsp_do mem pe Rsp_done p (h, es) = announce (Rv_header_done (p + 1) (pe - p - 1)) (h\<lparr>hc_body_start := p + 1\<rparr>, es)"

text \<open>
  \<open>httpclient_parser_execute\<close> at offset 0. Before the machine it asserts that the byte behind the buffer is 0 and that the length is an \<open>int\<close>; after it
  come two assertions and three checks, which make the result \<open>-1\<close>.
\<close>

definition httpclient_parser_enters :: "byte list \<Rightarrow> nat \<Rightarrow> bool" where
  "httpclient_parser_enters mem len \<longleftrightarrow> len < length mem \<and> mem ! len = 0 \<and> int len = c_int (int len)"

definition httpclient_parser_execute :: "byte list \<Rightarrow> nat \<Rightarrow> httpclient_parser \<Rightarrow> rsp_event list \<times> httpclient_parser" where
  "httpclient_parser_execute mem len h =
     (let h1 = h\<lparr>hc_nread := 0, hc_mark := 0, hc_field_len := 0, hc_field_start := 0\<rparr> in
      case machine httpclient_table False (rsp_do mem len) (\<lambda>a. a = Rsp_done) (h1, []) (hc_cs h1) 0 (take len mem) of
        ((h2, es), cs, p) \<Rightarrow> (es, h2\<lparr>hc_cs := cs, hc_nread := hc_nread h2 + p\<rparr>))"

definition httpclient_parser_asserts :: "nat \<Rightarrow> httpclient_parser \<Rightarrow> bool" where
  "httpclient_parser_asserts len h \<longleftrightarrow> hc_nread h \<le> len \<and> hc_body_start h \<le> len"

definition httpclient_parser_result :: "nat \<Rightarrow> httpclient_parser \<Rightarrow> int" where
  "httpclient_parser_result len h =
     (if hc_mark h < len \<and> hc_field_len h \<le> len \<and> hc_field_start h < len then c_int (int (hc_nread h)) else - 1)"

section \<open>The response parser\<close>

record HttpResponseParser =
  rsp_parser :: httpclient_parser
  rsp_data :: HttpResponse
  rsp_error :: int

definition on_response_reason :: "byte list \<Rightarrow> nat \<Rightarrow> nat \<Rightarrow> HttpResponseParser \<Rightarrow> HttpResponseParser res" where
  "on_response_reason mem at len r = map_sum id (\<lambda>s. r\<lparr>rsp_data := HttpResponse_setReason s (rsp_data r)\<rparr>) (std_string mem at len)"

text \<open>The status is an enumeration; the conversion keeps the number, which has at least one digit and no sign.\<close>

definition on_response_status :: "byte list \<Rightarrow> nat \<Rightarrow> nat \<Rightarrow> HttpResponseParser \<Rightarrow> HttpResponseParser res" where
  "on_response_status mem at len r = Inr (r\<lparr>rsp_data := HttpResponse_setStatus (nat (atoi (c_str (to_text (drop at mem))))) (rsp_data r)\<rparr>)"

definition on_response_version :: "byte list \<Rightarrow> nat \<Rightarrow> nat \<Rightarrow> HttpResponseParser \<Rightarrow> HttpResponseParser res" where
  "on_response_version mem at len r =
     (case http_version_of mem at len of
        None \<Rightarrow> Inr (r\<lparr>rsp_error := 1001\<rparr>)
      | Some v \<Rightarrow> Inr (r\<lparr>rsp_data := HttpResponse_setVersion v (rsp_data r)\<rparr>))"

definition on_response_http_field :: "byte list \<Rightarrow> nat \<Rightarrow> nat \<Rightarrow> nat \<Rightarrow> nat \<Rightarrow> HttpResponseParser \<Rightarrow> HttpResponseParser res" where
  "on_response_http_field mem field flen value vlen r =
     (if flen = 0 then Inr r
      else
        case std_string mem field flen of
          Inl e \<Rightarrow> Inl e
        | Inr k \<Rightarrow>
            (case std_string mem value vlen of
               Inl e \<Rightarrow> Inl e
             | Inr v \<Rightarrow> Inr (r\<lparr>rsp_data := HttpResponse_setHeader k v (rsp_data r)\<rparr>)))"

text \<open>\<open>on_response_chunk\<close>, \<open>on_response_header_done\<close> and \<open>on_response_last_chunk\<close> are empty.\<close>

fun response_callback :: "byte list \<Rightarrow> rsp_event \<Rightarrow> HttpResponseParser \<Rightarrow> HttpResponseParser res" where
  "response_callback mem (Rv_reason at len) r = on_response_reason mem at len r"
| "response_callback mem (Rv_status at len) r = on_response_status mem at len r"
| "response_callback mem (Rv_chunk at len) r = Inr r"
| "response_callback mem (Rv_version at len) r = on_response_version mem at len r"
| "response_callback mem (Rv_header_done at len) r = Inr r"
| "response_callback mem (Rv_last_chunk at len) r = Inr r"
| "response_callback mem (Rv_field field flen value vlen) r = on_response_http_field mem field flen value vlen r"

definition HttpResponseParser_new :: "httpclient_parser \<Rightarrow> HttpResponseParser" where
  "HttpResponseParser_new h0 = \<lparr>rsp_parser = httpclient_parser_init h0, rsp_data = HttpResponse_new 0x11 True, rsp_error = 0\<rparr>"

text \<open>
  \<open>execute\<close>: the \<open>int\<close> result becomes a \<open>size_t\<close>, so that after \<open>-1\<close> the move starts one byte before the buffer.
\<close>

definition HttpResponseParser_execute :: "nat \<Rightarrow> bool \<Rightarrow> (HttpResponseParser \<times> byte list, nat) oper" where
  "HttpResponseParser_execute len chunck = (\<lambda>(r, mem).
     let h0 = (if chunck then httpclient_parser_init (rsp_parser r) else rsp_parser r) in
     if \<not> httpclient_parser_enters mem len then (Inl AssertFail, (r, mem))
     else case httpclient_parser_execute mem len h0 of
       (es, h) \<Rightarrow>
         (case callbacks (response_callback mem) es r of
            Inl e \<Rightarrow> (Inl e, (r, mem))
          | Inr r1 \<Rightarrow>
              if \<not> httpclient_parser_asserts len h then (Inl AssertFail, (r1, mem))
              else if httpclient_parser_result len h < 0 then (Inl BadMemory, (r1\<lparr>rsp_parser := h\<rparr>, mem))
              else let n = nat (httpclient_parser_result len h) in (Inr n, (r1\<lparr>rsp_parser := h\<rparr>, move_front n len mem))))"

definition HttpResponseParser_isFinished :: "HttpResponseParser \<Rightarrow> int" where
  "HttpResponseParser_isFinished r = httpclient_parser_finish (rsp_parser r)"

definition HttpResponseParser_hasError :: "HttpResponseParser \<Rightarrow> bool" where
  "HttpResponseParser_hasError r \<longleftrightarrow> rsp_error r \<noteq> 0 \<or> httpclient_parser_has_error (rsp_parser r)"

definition HttpResponseParser_getContentLength :: "(string \<Rightarrow> u64 option) \<Rightarrow> HttpResponseParser \<Rightarrow> u64" where
  "HttpResponseParser_getContentLength lexical_cast r = HttpResponse_getHeaderAs lexical_cast ''content-length'' 0 (rsp_data r)"

section \<open>Every call ends inside the buffer\<close>

text \<open>The structure when \<open>p\<close> of \<open>n\<close> bytes have been read.\<close>

definition rsp_ok_at :: "nat \<Rightarrow> nat \<Rightarrow> httpclient_parser \<times> rsp_event list \<Rightarrow> bool" where
  "rsp_ok_at n p = (\<lambda>(h, es).
     hc_mark h \<le> p \<and> hc_mark h < n \<and> hc_field_start h \<le> p \<and> hc_field_start h < n \<and> hc_field_len h \<le> n \<and> hc_body_start h \<le> n \<and> hc_nread h = 0
     \<and> (\<forall>e \<in> set es. case e of
          Rv_reason at l \<Rightarrow> at + l \<le> n
        | Rv_field f fl v vl \<Rightarrow> f + fl \<le> n + n \<and> fl \<le> n \<and> v + vl \<le> n
        | _ \<Rightarrow> True))"

lemma rsp_do_ok: "rsp_ok_at n p x \<Longrightarrow> p < n \<Longrightarrow> n < 2 ^ 64 \<Longrightarrow> rsp_ok_at n p (rsp_do mem n a p x)"
  by (cases x; cases a) (auto simp: rsp_ok_at_def announce_def sub64_le Let_def)

lemma rsp_acts_ok: "rsp_ok_at n p x \<Longrightarrow> p < n \<Longrightarrow> n < 2 ^ 64 \<Longrightarrow> rsp_ok_at n p (fold (\<lambda>a. rsp_do mem n a p) as x)"
  by (induction as arbitrary: x) (simp_all add: rsp_do_ok)

interpretation rsp_run: machine_invariant httpclient_table False "rsp_do mem (length buf)" "\<lambda>a. a = Rsp_done" buf
    "\<lambda>w x cs. length buf < 2 ^ 64 \<longrightarrow> rsp_ok_at (length buf) (length w) x" for mem buf
proof unfold_locales
  fix w c cs b as s and x :: "httpclient_parser \<times> rsp_event list"
  assume I: "length buf < 2 ^ 64 \<longrightarrow> rsp_ok_at (length buf) (length w) x" and p: "prefix (w @ [c]) buf"
  have lt: "length w < length buf" using prefix_length_le [OF p] by simp
  show "length buf < 2 ^ 64 \<longrightarrow> rsp_ok_at (length buf) (length (w @ [c])) (fold (\<lambda>a. rsp_do mem (length buf) a (length w)) as x)"
    using rsp_acts_ok [of "length buf" "length w" x mem as] I lt by (auto simp: rsp_ok_at_def split: prod.splits)
qed

definition rsp_in_memory :: "nat \<Rightarrow> rsp_event \<Rightarrow> bool" where
  "rsp_in_memory n e = (case e of Rv_reason at l \<Rightarrow> at + l \<le> n | Rv_field f fl v vl \<Rightarrow> f + fl \<le> n + n \<and> fl \<le> n \<and> v + vl \<le> n | _ \<Rightarrow> True)"

lemma httpclient_parser_execute_ok:
  assumes x: "httpclient_parser_execute mem len h = (es, h')" and n: "0 < len" "len \<le> length mem" "len < 2 ^ 31" and h: "hc_body_start h \<le> len"
  shows "httpclient_parser_asserts len h'" "httpclient_parser_result len h' = int (hc_nread h')" "\<forall>e \<in> set es. rsp_in_memory len e"
proof -
  let ?h = "h\<lparr>hc_nread := 0, hc_mark := 0, hc_field_len := 0, hc_field_start := 0\<rparr>" and ?buf = "take len mem"
  have l: "length ?buf = len" using n by simp
  obtain h2 es2 cs p where m: "machine httpclient_table False (rsp_do mem len) (\<lambda>a. a = Rsp_done) (?h, []) (hc_cs h) 0 ?buf = ((h2, es2), cs, p)"
    by (metis prod.exhaust_sel)
  have "rsp_ok_at len 0 (?h, [])" using n h by (simp add: rsp_ok_at_def)
  then obtain v where v: "prefix v ?buf" "length v = p" "rsp_ok_at len p (h2, es2)"
    using rsp_run.machine_keeps [where w = "[]" and x = "(?h, [])" and cs = "hc_cs h" and bs = ?buf and buf = ?buf and mem = mem and x' = "(h2, es2)" and cs' = cs and p' = p]
      m n l by auto
  have "p \<le> len" using v(1,2) prefix_length_le [OF v(1)] by simp
  moreover have "es = es2" "h' = h2\<lparr>hc_cs := cs, hc_nread := hc_nread h2 + p\<rparr>" using x m by (simp_all add: httpclient_parser_execute_def Let_def)
  ultimately show "httpclient_parser_asserts len h'" "httpclient_parser_result len h' = int (hc_nread h')" "\<forall>e \<in> set es. rsp_in_memory len e"
    using v(3) n(3) by (auto simp: rsp_ok_at_def rsp_in_memory_def httpclient_parser_asserts_def httpclient_parser_result_def c_int_id)
qed

lemma response_callback_returns:
  assumes "rsp_in_memory n e" and "n \<le> length mem" and "n < 2 ^ 31"
  shows "case response_callback mem e r of Inl x \<Rightarrow> x = BadMemory \<and> length mem < n + n | Inr _ \<Rightarrow> True"
  using assms
  by (cases e) (auto simp: rsp_in_memory_def on_response_reason_def on_response_status_def on_response_version_def on_response_http_field_def std_string_def
      split: option.split sum.split)

lemma response_callbacks_return:
  assumes "\<forall>e \<in> set es. rsp_in_memory n e" and "n \<le> length mem" and "n < 2 ^ 31"
  shows "case callbacks (response_callback mem) es r of Inl x \<Rightarrow> x = BadMemory \<and> length mem < n + n | Inr _ \<Rightarrow> True"
  using assms(1)
proof (induction es arbitrary: r)
  case Nil
  then show ?case by simp
next
  case (Cons e es)
  then show ?case
    using response_callback_returns [OF _ assms(2,3), of e r] by (cases "response_callback mem e r") simp_all
qed


definition blank_client_parser :: httpclient_parser where
  "blank_client_parser = \<lparr>hc_cs = 0, hc_body_start = 0, hc_content_len = 0, hc_status = 0, hc_chunked = False, hc_chunks_done = False, hc_close = False, hc_nread = 0, hc_mark = 0,
     hc_field_start = 0, hc_field_len = 0\<rparr>"


end
