(* ===== verification/Mingo_HttpConnection.thy ===== *)
theory Mingo_HttpConnection
  imports Mingo_HttpSession Mingo_HttpResponseParser Mingo_Uri Mingo_TcpServer
begin

text \<open>
  \<^verbatim>\<open>mingo/http/http_connection.cpp\<close>, first half: the client's end of a connection. The state is that of a session. The loops over chunks end because
  each turn uses up a part of what the connection will deliver or shortens the bytes in the buffer. What the kernel of a new connection will deliver is an argument, like the resolver
  and the text of an error number.
\<close>

section \<open>Results\<close>

record HttpResult =
  hr_result :: int
  hr_response :: "HttpResponse option"
  hr_error :: string

datatype HttpError =
    HR_OK | INVALID_URL | INVALID_HOST | CONNECT_FAIL | SEND_CLOSE_BY_PEER | SEND_SOCKET_ERROR | TIMEOUT | CREATE_SOCKET_ERROR | POOL_GET_CONNECTION
  | POOL_INVALID_CONNECTION

fun error_num :: "HttpError \<Rightarrow> int" where
  "error_num HR_OK = 0"
| "error_num INVALID_URL = 1"
| "error_num INVALID_HOST = 2"
| "error_num CONNECT_FAIL = 3"
| "error_num SEND_CLOSE_BY_PEER = 4"
| "error_num SEND_SOCKET_ERROR = 5"
| "error_num TIMEOUT = 6"
| "error_num CREATE_SOCKET_ERROR = 7"
| "error_num POOL_GET_CONNECTION = 8"
| "error_num POOL_INVALID_CONNECTION = 9"

definition HttpResult_new :: "HttpError \<Rightarrow> HttpResponse option \<Rightarrow> string \<Rightarrow> HttpResult" where
  "HttpResult_new e response error = \<lparr>hr_result = error_num e, hr_response = response, hr_error = error\<rparr>"

definition HttpResult_toString :: "HttpResult \<Rightarrow> string" where
  "HttpResult_toString r =
     ''[HttpResult result='' @ dec_int (hr_result r) @ '' error='' @ hr_error r @ '' response=''
     @ (case hr_response r of Some rsp \<Rightarrow> HttpResponse_toString rsp | None \<Rightarrow> ''nullptr'') @ '']''"

section \<open>Receiving a response\<close>

definition HttpConnection_new :: "Socket option \<Rightarrow> SocketStream" where
  "HttpConnection_new sock = SocketStream_new sock True"

text \<open>The first loop of \<open>recvResponse\<close>; \<open>data\<close> has one byte more than \<open>buff_size\<close>.\<close>

function recv_rsp_head :: "sock_env \<Rightarrow> nat \<Rightarrow> HttpResponseParser \<Rightarrow> byte list \<Rightarrow> int \<Rightarrow> (session, (HttpResponseParser \<times> byte list \<times> int) option) oper" where
  "recv_rsp_head env buff_size parser data offset s =
     (case on_conn (SocketStream_read (nat (int buff_size - offset))) s of
        (Inl e, s1) \<Rightarrow> (Inl e, s1)
      | (Inr (len, bs), s1) \<Rightarrow>
          if len \<le> 0 then give_up env s1
          else
            let len1 = c_int (len + offset);
                data1 = put (nat len1) [0] (put (nat offset) bs data) in
            (case HttpResponseParser_execute (nat len1) False (parser, data1) of
               (Inl e, _) \<Rightarrow> (Inl e, s1)
             | (Inr nparse, (parser', data')) \<Rightarrow>
                 if HttpResponseParser_hasError parser' then give_up env s1
                 else
                   let offset' = c_int (len1 - int nparse) in
                   if offset' = c_int (int buff_size) then give_up env s1
                   else if HttpResponseParser_isFinished parser' \<noteq> 0 then (Inr (Some (parser', data', offset')), s1)
                   else recv_rsp_head env buff_size parser' data' offset' s1))"
  by pat_completeness auto
termination
proof (relation "measure (\<lambda>(env, n, r, d, off, s). length (rplan (fst (snd s))))", goal_cases)
  case 1
  show ?case by simp
next
  case (2 env buff_size parser data offset s x y b len bs)
  then have "on_conn (SocketStream_read (nat (int buff_size - offset))) s = (Inr (len, bs), y)" "0 < len" by simp_all
  from read_uses_plan [OF this] show ?case by simp
qed

declare recv_rsp_head.simps [simp del]

lemma reading_uses_plan:
  assumes "on_conn (SocketStream_read n) s = (r, s')"
  shows "length (rplan (fst (snd s'))) \<le> length (rplan (fst (snd s)))"
proof -
  obtain ss c h where s: "s = (ss, c, h)" by (cases s)
  have k: "k_recv fd n c = (x, c') \<Longrightarrow> length (rplan c') \<le> length (rplan c)" for fd x c'
    by (cases "rplan c") (auto simp: k_recv_def Let_def split: if_splits)
  show ?thesis
    using assms k by (auto simp: s on_conn_def SocketStream_read_def Socket_recv_def guarded_recv_def split: if_splits prod.splits)
qed

text \<open>How much of the plan of the connection is left.\<close>

abbreviation plan_left :: "session \<Rightarrow> nat" where
  "plan_left s \<equiv> length (rplan (fst (snd s)))"

text \<open>
  One chunk: its head is read until the parser is finished; more is read when there is nothing in the buffer, and in every turn but the first. So each turn but the first uses up a
  part of the plan.
\<close>

definition chunk_more :: "sock_env \<Rightarrow> nat \<Rightarrow> bool \<Rightarrow> byte list \<Rightarrow> int \<Rightarrow> (session, (byte list \<times> int) option) oper" where
  "chunk_more env buff_size begin data len s =
     (if \<not> begin \<or> len = 0 then
        (case on_conn (SocketStream_read (nat (int buff_size - len))) s of
           (Inl e, s1) \<Rightarrow> (Inl e, s1)
         | (Inr (rt, bs), s1) \<Rightarrow> if rt \<le> 0 then give_up env s1 else (Inr (Some (put (nat len) bs data, c_int (len + rt))), s1))
      else (Inr (Some (data, len)), s))"

lemma give_up_not_some: "give_up env s \<noteq> (Inr (Some x), s')"
  by (auto simp: give_up_def andthen_def split: prod.splits sum.splits)

lemma chunk_more_plan:
  assumes "chunk_more env n b data len s = (Inr (Some x), s')"
  shows "plan_left s' \<le> plan_left s" "\<not> b \<or> len = 0 \<Longrightarrow> plan_left s' < plan_left s" "b \<and> len \<noteq> 0 \<Longrightarrow> s' = s \<and> x = (data, len)"
  using assms read_uses_plan reading_uses_plan
  by (auto simp: chunk_more_def give_up_not_some split: if_splits prod.splits sum.splits)

function chunk_head :: "sock_env \<Rightarrow> nat \<Rightarrow> bool \<Rightarrow> HttpResponseParser \<Rightarrow> byte list \<Rightarrow> int \<Rightarrow> (session, (HttpResponseParser \<times> byte list \<times> int) option) oper" where
  "chunk_head env buff_size begin parser data len s =
     (case chunk_more env buff_size begin data len s of
        (Inl e, s1) \<Rightarrow> (Inl e, s1)
      | (Inr None, s1) \<Rightarrow> (Inr None, s1)
      | (Inr (Some (data1, len1)), s1) \<Rightarrow>
          (case HttpResponseParser_execute (nat len1) True (parser, put (nat len1) [0] data1) of
             (Inl e, _) \<Rightarrow> (Inl e, s1)
           | (Inr nparse, (parser', data')) \<Rightarrow>
               let len2 = c_int (len1 - int nparse) in
               if HttpResponseParser_hasError parser' then give_up env s1
               else if len2 = c_int (int buff_size) then give_up env s1
               else if HttpResponseParser_isFinished parser' \<noteq> 0 then (Inr (Some (parser', data', len2)), s1)
               else chunk_head env buff_size False parser' data' len2 s1))"
  by pat_completeness auto
termination
proof (relation "measure (\<lambda>(env, n, b, r, d, len, s). 2 * plan_left s + (if b then 1 else 0))", goal_cases)
  case 1
  show ?case by simp
next
  case (2 env n b parser data len s x y r xa data1 len1)
  then have "chunk_more env n b data len s = (Inr (Some (data1, len1)), y)" by simp
  from chunk_more_plan(1,2) [OF this] show ?case by (cases b) simp_all
qed

declare chunk_head.simps [simp del]

text \<open>The rest of a chunk is read in pieces of at most the size of the buffer.\<close>

function chunk_rest :: "sock_env \<Rightarrow> nat \<Rightarrow> int \<Rightarrow> byte list \<Rightarrow> byte list \<Rightarrow> (session, (byte list \<times> byte list) option) oper" where
  "chunk_rest env buff_size left body data s =
     (if left > 0 then
        (case on_conn (SocketStream_read (nat (if left > c_int (int buff_size) then c_int (int buff_size) else left))) s of
           (Inl e, s1) \<Rightarrow> (Inl e, s1)
         | (Inr (rt, bs), s1) \<Rightarrow>
             if rt \<le> 0 then give_up env s1
             else chunk_rest env buff_size (left - rt) (body @ take (nat rt) (put 0 bs data)) (put 0 bs data) s1)
      else (Inr (Some (body, data)), s))"
  by pat_completeness auto
termination
  by (relation "measure (\<lambda>(env, n, left, b, d, s). nat left)") auto

declare chunk_rest.simps [simp del]

text \<open>
  The body of a chunk: the content and the two bytes of the line end. A negative length becomes a huge \<open>size_t\<close>, also in \<open>body.size() - 2\<close>.
\<close>

definition chunk_body :: "sock_env \<Rightarrow> nat \<Rightarrow> int \<Rightarrow> byte list \<Rightarrow> byte list \<Rightarrow> int \<Rightarrow> (session, (byte list \<times> byte list \<times> int) option) oper" where
  "chunk_body env buff_size content_len body data len s =
     (if c_int (content_len + 2) \<le> len then
        if content_len < 0 then (Inl LengthError, s)
        else if length data < nat content_len + 2 then (Inl BadMemory, s)
        else
          let n = nat content_len in
          (Inr (Some (body @ take n data, move_front (n + 2) (nat len) data, len - (content_len + 2))), s)
      else
        (case chunk_rest env buff_size (c_int (content_len - len + 2)) (body @ take (nat len) data) data s of
           (Inl e, s1) \<Rightarrow> (Inl e, s1)
         | (Inr None, s1) \<Rightarrow> (Inr None, s1)
         | (Inr (Some (body', data')), s1) \<Rightarrow>
             if length body' < 2 then (Inl LengthError, s1) else (Inr (Some (take (length body' - 2) body', data', 0)), s1)))"

text \<open>A head that is finished has at least one byte, so that a turn without a read shortens what is in the buffer.\<close>

lemma c_int_range: "- (2 ^ 31) \<le> c_int v" "c_int v < 2 ^ 31"
  using sint_ge [of "word_of_int v :: 32 word"] sint_lt [of "word_of_int v :: 32 word"] by (simp_all add: c_int_def)

lemma machine_no_progress:
  assumes "machine ps cond act brk x cs p bs = (x', cs', p')" and "cs' \<noteq> 0"
  shows "p \<le> p'" "p' = p \<Longrightarrow> cs' = cs"
proof -
  have "p \<le> p' \<and> (p' = p \<longrightarrow> cs' = cs)"
    using assms by (induction ps cond act brk x cs p bs rule: machine.induct) (fastforce simp: Let_def split: option.splits if_splits)+
  then show "p \<le> p'" "p' = p \<Longrightarrow> cs' = cs" by simp_all
qed

lemma chunk_execute_progress:
  assumes "HttpResponseParser_execute len True (r, mem) = (Inr n, (r', mem'))" and "\<not> HttpResponseParser_hasError r'" and "HttpResponseParser_isFinished r' \<noteq> 0"
  shows "0 < n \<and> n \<le> len \<and> int len = c_int (int len)"
proof -
  let ?h = "httpclient_parser_init (rsp_parser r)"
  obtain es h where x: "httpclient_parser_execute mem len ?h = (es, h)" by (rule prod.exhaust)
  have e: "httpclient_parser_enters mem len" "httpclient_parser_asserts len h" "n = nat (httpclient_parser_result len h)" "0 \<le> httpclient_parser_result len h"
      "rsp_parser r' = h"
    using assms(1) x by (auto simp: HttpResponseParser_execute_def Let_def split: if_splits sum.splits)
  have c: "hc_cs h \<noteq> 0" "hc_cs h \<noteq> 1"
    using assms(2,3) e(5) by (auto simp: HttpResponseParser_hasError_def HttpResponseParser_isFinished_def httpclient_parser_finish_def
        httpclient_parser_has_error_def httpclient_parser_is_finished_def split: if_splits)
  have i: "int len = c_int (int len)" using e(1) by (simp add: httpclient_parser_enters_def)
  have nr: "hc_nread h \<le> len" using e(2) by (simp add: httpclient_parser_asserts_def)
  have "0 < hc_nread h"
    using x c by (auto simp: httpclient_parser_execute_def httpclient_parser_init_def Let_def split: prod.splits dest: machine_no_progress)
  moreover have "c_int (int (hc_nread h)) = int (hc_nread h)" using nr i c_int_range [of "int len"] by (intro c_int_id) linarith+
  ultimately show ?thesis using e(3,4) i nr by (simp add: httpclient_parser_result_def split: if_splits)
qed

lemma chunk_head_turn:
  assumes "chunk_head env n b parser data len s = (Inr (Some x), s')"
  obtains data1 len1 s1 nparse parser' data' where
    "chunk_more env n b data len s = (Inr (Some (data1, len1)), s1)"
    "HttpResponseParser_execute (nat len1) True (parser, put (nat len1) [0] data1) = (Inr nparse, (parser', data'))"
    "\<not> HttpResponseParser_hasError parser'"
    "if HttpResponseParser_isFinished parser' \<noteq> 0 then x = (parser', data', c_int (len1 - int nparse)) \<and> s' = s1
     else chunk_head env n False parser' data' (c_int (len1 - int nparse)) s1 = (Inr (Some x), s')"
proof -
  obtain r s1 where m: "chunk_more env n b data len s = (r, s1)" by (rule prod.exhaust)
  from m assms obtain data1 len1 where r: "r = Inr (Some (data1, len1))"
    by (subst (asm) chunk_head.simps) (auto split: sum.splits option.splits)
  obtain q parser' data' where e: "HttpResponseParser_execute (nat len1) True (parser, put (nat len1) [0] data1) = (q, (parser', data'))"
    by (metis prod.exhaust)
  from m r e assms obtain nparse where q: "q = Inr nparse"
    by (subst (asm) chunk_head.simps) (auto split: sum.splits)
  show thesis
  proof (rule that)
    show "chunk_more env n b data len s = (Inr (Some (data1, len1)), s1)" using m r by simp
    show "HttpResponseParser_execute (nat len1) True (parser, put (nat len1) [0] data1) = (Inr nparse, (parser', data'))" using e q by simp
  qed (use assms m r e q in \<open>subst (asm) chunk_head.simps, auto simp: Let_def give_up_not_some split: if_splits\<close>)+
qed

lemma chunk_head_plan: "chunk_head env n b parser data len s = (Inr (Some x), s') \<Longrightarrow> plan_left s' \<le> plan_left s"
proof (induction "2 * plan_left s + (if b then 1 else 0)" arbitrary: b parser data len s rule: less_induct)
  case less
  from less.prems show ?case
  proof (cases rule: chunk_head_turn)
    case (1 data1 len1 s1 nparse parser' data')
    note m = chunk_more_plan(1,2) [OF 1(1)]
    show ?thesis
    proof (cases "HttpResponseParser_isFinished parser' = 0")
      case True
      then have "chunk_head env n False parser' data' (c_int (len1 - int nparse)) s1 = (Inr (Some x), s')" using 1(4) by simp
      with less.hyps [of s1 False] m show ?thesis by (cases b) fastforce+
    qed (use 1(4) m in simp)
  qed
qed

lemma chunk_head_progress:
  assumes "chunk_head env n True parser data len s = (Inr (Some (parser1, data1, len1)), s1)"
  shows "plan_left s1 < plan_left s \<or> s1 = s \<and> 0 \<le> len1 \<and> len1 < len"
  using assms
proof (cases rule: chunk_head_turn)
  case (1 data2 len2 s2 nparse parser' data')
  show ?thesis
  proof (cases "len = 0")
    case True
    have "plan_left s1 \<le> plan_left s2" using 1(4) chunk_head_plan by (cases "HttpResponseParser_isFinished parser' = 0") simp_all
    with chunk_more_plan(2) [OF 1(1)] True show ?thesis by simp
  next
    case False
    then have s2: "s2 = s" "len2 = len" using chunk_more_plan(3) [OF 1(1)] by simp_all
    show ?thesis
    proof (cases "HttpResponseParser_isFinished parser' = 0")
      case True
      then have "chunk_head env n False parser' data' (c_int (len2 - int nparse)) s2 = (Inr (Some (parser1, data1, len1)), s1)" using 1(4) by simp
      then show ?thesis
      proof (cases rule: chunk_head_turn)
        case (1 data3 len3 s3 np p3 d3)
        have "plan_left s1 \<le> plan_left s3" using 1(4) chunk_head_plan by (cases "HttpResponseParser_isFinished p3 = 0") simp_all
        with chunk_more_plan(2) [OF 1(1)] s2 show ?thesis by simp
      qed
    next
      case fin: False
      from chunk_execute_progress [OF 1(2,3) fin] s2 have p: "0 < nparse" "nparse \<le> nat len" "int (nat len) = c_int (int (nat len))" by simp_all
      then have "c_int (len - int nparse) = len - int nparse" using c_int_range [of "int (nat len)"] by (intro c_int_id) linarith+
      with fin 1(4) s2 p show ?thesis by simp
    qed
  qed
qed

lemma chunk_rest_plan: "chunk_rest env n left body data s = (Inr (Some x), s') \<Longrightarrow> plan_left s' \<le> plan_left s"
proof (induction env n left body data s rule: chunk_rest.induct)
  case (1 env n left body data s)
  show ?case
  proof (cases "left > 0")
    case True
    obtain r s1 where m: "on_conn (SocketStream_read (nat (if left > c_int (int n) then c_int (int n) else left))) s = (r, s1)" by (rule prod.exhaust)
    with True "1.prems" obtain rt bs where r: "r = Inr (rt, bs)" "0 < rt"
      by (subst (asm) chunk_rest.simps) (auto simp: give_up_not_some split: sum.splits if_splits)
    have "chunk_rest env n (left - rt) (body @ take (nat rt) (put 0 bs data)) (put 0 bs data) s1 = (Inr (Some x), s')"
      using "1.prems" True m r by (subst (asm) chunk_rest.simps) simp
    with "1.IH" [OF True m [symmetric] r(1) refl] r(2) reading_uses_plan [OF m] show ?thesis by simp
  qed (use "1.prems" in \<open>subst (asm) chunk_rest.simps, simp\<close>)
qed

lemma chunk_body_progress:
  assumes "chunk_body env n content_len body data len s = (Inr (Some (body', data', len')), s')"
  shows "plan_left s' \<le> plan_left s" "nat len' \<le> nat len"
  using assms chunk_rest_plan
  by (auto simp: chunk_body_def Let_def split: if_splits prod.splits sum.splits option.splits)

function chunk_loop :: "sock_env \<Rightarrow> nat \<Rightarrow> HttpResponseParser \<Rightarrow> byte list \<Rightarrow> byte list \<Rightarrow> int \<Rightarrow> (session, (HttpResponseParser \<times> byte list) option) oper" where
  "chunk_loop env buff_size parser body data len s =
     (case chunk_head env buff_size True parser data len s of
        (Inl e, s1) \<Rightarrow> (Inl e, s1)
      | (Inr None, s1) \<Rightarrow> (Inr None, s1)
      | (Inr (Some (parser1, data1, len1)), s1) \<Rightarrow>
          (case chunk_body env buff_size (hc_content_len (rsp_parser parser1)) body data1 len1 s1 of
             (Inl e, s2) \<Rightarrow> (Inl e, s2)
           | (Inr None, s2) \<Rightarrow> (Inr None, s2)
           | (Inr (Some (body2, data2, len2)), s2) \<Rightarrow>
               if hc_chunks_done (rsp_parser parser1) then (Inr (Some (parser1, body2)), s2)
               else chunk_loop env buff_size parser1 body2 data2 len2 s2))"
  by pat_completeness auto
termination
proof (relation "measures [\<lambda>(env, n, r, b, d, len, s). plan_left s, \<lambda>(env, n, r, b, d, len, s). nat len]", goal_cases)
  case 1
  show ?case by simp
next
  case (2 env n parser body data len s x s1 r y parser1 z data1 len1 u s2 v w body2 x2 data2 len2)
  then have "chunk_head env n True parser data len s = (Inr (Some (parser1, data1, len1)), s1)"
    and "chunk_body env n (hc_content_len (rsp_parser parser1)) body data1 len1 s1 = (Inr (Some (body2, data2, len2)), s2)" by simp_all
  from chunk_head_progress [OF this(1)] chunk_body_progress [OF this(2)] show ?case by auto
qed

declare chunk_loop.simps [simp del]

text \<open>Only the body of a response that is not chunked is stored.\<close>

definition HttpConnection_recvResponse ::
    "(nat \<Rightarrow> bool) \<Rightarrow> (string \<Rightarrow> u64 option) \<Rightarrow> sock_env \<Rightarrow> nat \<Rightarrow> byte list \<Rightarrow> httpclient_parser \<Rightarrow> (session, HttpResponse option) oper" where
  "HttpConnection_recvResponse alloc lexical_cast env buff_size buffer h0 s =
     (case recv_rsp_head env buff_size (HttpResponseParser_new h0) buffer 0 s of
        (Inl e, s1) \<Rightarrow> (Inl e, s1)
      | (Inr None, s1) \<Rightarrow> (Inr None, s1)
      | (Inr (Some (parser, data, offset)), s1) \<Rightarrow>
          if hc_chunked (rsp_parser parser) then
            (case chunk_loop env buff_size parser [] data offset s1 of
               (Inl e, s2) \<Rightarrow> (Inl e, s2)
             | (Inr None, s2) \<Rightarrow> (Inr None, s2)
             | (Inr (Some (parser2, body)), s2) \<Rightarrow> (Inr (Some (rsp_data parser2)), s2))
          else
            let len = sint (HttpResponseParser_getContentLength lexical_cast parser) in
            if len > 0 then
              (case recv_body alloc env (nat len) data offset s1 of
                 (Inl e, s2) \<Rightarrow> (Inl e, s2)
               | (Inr None, s2) \<Rightarrow> (Inr None, s2)
               | (Inr (Some body), s2) \<Rightarrow> (Inr (Some (HttpResponse_setBody (to_text body) (rsp_data parser))), s2))
            else (Inr (Some (rsp_data parser)), s1))"

definition HttpConnection_sendRequest :: "HttpRequest \<Rightarrow> (session, int) oper" where
  "HttpConnection_sendRequest req =
     (let data = to_bytes (HttpRequest_toString req) in on_conn (Stream_writeFixSize SocketStream_write data (length data)))"

section \<open>Requests\<close>

text \<open>What a request needs from its surroundings.\<close>

record client_env =
  ce_host :: endian
  ce_alloc :: "nat \<Rightarrow> bool"
  ce_cast :: "string \<Rightarrow> u64 option"
  ce_env :: sock_env
  ce_getaddrinfo :: "string \<Rightarrow> string option \<Rightarrow> sys_addr list option"
  ce_errno :: string
  ce_peer :: conn
  ce_buffer :: "byte list"
  ce_parser :: httpclient_parser

definition client_recv :: "client_env \<Rightarrow> (session, HttpResponse option) oper" where
  "client_recv ce = HttpConnection_recvResponse (ce_alloc ce) (ce_cast ce) (ce_env ce) (length (ce_buffer ce) - 1) (ce_buffer ce) (ce_parser ce)"

text \<open>The loop over the headers: whether there is a host, and the request.\<close>

fun apply_headers :: "(string \<times> string) list \<Rightarrow> bool \<Rightarrow> HttpRequest \<Rightarrow> bool \<times> HttpRequest" where
  "apply_headers [] has_host req = (has_host, req)"
| "apply_headers ((k, v) # hs) has_host req =
     (if strcasecmp k ''connection'' = 0 then
        apply_headers hs has_host (if strcasecmp v ''keep-alive'' = 0 then HttpRequest_setClose False req else req)
      else
        apply_headers hs (if \<not> has_host \<and> strcasecmp k ''host'' = 0 then v \<noteq> [] else has_host) (HttpRequest_setHeader k v req))"

definition build_request :: "HttpMethod \<Rightarrow> Uri \<Rightarrow> (string \<times> string) list \<Rightarrow> string \<Rightarrow> HttpRequest" where
  "build_request method uri headers body =
     (let r0 = HttpRequest_setMethod method (HttpRequest_setFragment (uri_fragment uri) (HttpRequest_setQuery (uri_query uri)
                 (HttpRequest_setPath (Uri_getPath uri) (HttpRequest_new 0x11 True))))
      in case apply_headers headers False r0 of
           (has_host, r1) \<Rightarrow> HttpRequest_setBody body (if \<not> has_host then HttpRequest_setHeader ''Host'' (uri_host uri) r1 else r1))"

text \<open>The end of a connection object: the stream closes the socket, which is then destroyed.\<close>

definition drop_stream :: "sock_env \<Rightarrow> (SocketStream \<times> knet hstate, unit) oper" where
  "drop_stream env =
     andthen (SocketStream_delete env) (\<lambda>_ (ss, h).
       case m_socket ss of
         None \<Rightarrow> (Inr (), (ss, h))
       | Some s \<Rightarrow> (case Socket_delete env (s, h) of (r, (s', h')) \<Rightarrow> (r, (ss\<lparr>m_socket := Some s'\<rparr>, h'))))"

text \<open>The dialogue on a connection: what both the plain client and the pool do with it. The name of the peer is needed in messages only.\<close>

definition exchange :: "client_env \<Rightarrow> (session, string) oper \<Rightarrow> u64 \<Rightarrow> HttpRequest \<Rightarrow> (session, HttpResult) oper" where
  "exchange ce peer timeout_ms req =
     andthen (HttpConnection_sendRequest req) (\<lambda>rt.
       if rt = 0 then andthen peer (\<lambda>a. ret (HttpResult_new SEND_CLOSE_BY_PEER None (''send request closed by peer: '' @ a)))
       else if rt < 0 then ret (HttpResult_new SEND_SOCKET_ERROR None (''send request socket error errno='' @ ce_errno ce))
       else
         andthen (client_recv ce) (\<lambda>rsp.
           case rsp of
             None \<Rightarrow> andthen peer (\<lambda>a. ret (HttpResult_new TIMEOUT None (''recv response timeout: '' @ a @ '' timeout_ms:'' @ dec (unat timeout_ms))))
           | Some _ \<Rightarrow> ret (HttpResult_new HR_OK rsp ''ok'')))"

text \<open>
  \<open>DoRequest\<close> on a request object. \<open>Socket::CreateTCP\<close> never gives a null pointer, so that \<open>CREATE_SOCKET_ERROR\<close> does not arise. The connection object and its socket
  are destroyed at the end.
\<close>

definition on_session :: "SocketStream \<Rightarrow> conn \<Rightarrow> (session, 'a) oper \<Rightarrow> (knet hstate, 'a \<times> SocketStream \<times> conn) oper" where
  "on_session ss c f h = (case f (ss, c, h) of (Inl e, (_, _, h')) \<Rightarrow> (Inl e, h') | (Inr r, (ss', c', h')) \<Rightarrow> (Inr (r, ss', c'), h'))"

definition delete_stream :: "sock_env \<Rightarrow> SocketStream \<Rightarrow> (knet hstate, unit) oper" where
  "delete_stream env ss h = (case drop_stream env (ss, h) of (r, (_, h')) \<Rightarrow> (r, h'))"

definition HttpConnection_DoRequest_req :: "client_env \<Rightarrow> HttpRequest \<Rightarrow> Uri \<Rightarrow> u64 \<Rightarrow> (knet hstate, HttpResult) oper" where
  "HttpConnection_DoRequest_req ce req uri timeout_ms =
     (case Uri_createAddress (ce_host ce) (ce_getaddrinfo ce) uri of
        None \<Rightarrow> ret (HttpResult_new INVALID_HOST None (''invalid host: '' @ uri_host uri))
      | Some addr \<Rightarrow>
          let peer = Address_toString (ce_host ce) addr in
          andthen (with_sock (Socket_connect (ce_env ce) addr) (Socket_CreateTCP addr)) (\<lambda>(ok, sock).
            if \<not> ok then
              andthen (with_sock (Socket_delete (ce_env ce)) sock) (\<lambda>_. ret (HttpResult_new CONNECT_FAIL None (''connect fail: '' @ peer)))
            else
              andthen (with_sock (Socket_setRecvTimeout (ce_env ce) (sint timeout_ms)) sock) (\<lambda>(_, sock).
              andthen (on_session (HttpConnection_new (Some sock)) (ce_peer ce) (exchange ce (ret peer) timeout_ms req)) (\<lambda>(r, ss, _).
              andthen (delete_stream (ce_env ce) ss) (\<lambda>_. ret r)))))"

definition HttpConnection_DoRequest_uri :: "client_env \<Rightarrow> HttpMethod \<Rightarrow> Uri \<Rightarrow> u64 \<Rightarrow> (string \<times> string) list \<Rightarrow> string \<Rightarrow> (knet hstate, HttpResult) oper" where
  "HttpConnection_DoRequest_uri ce method uri timeout_ms headers body =
     HttpConnection_DoRequest_req ce (build_request method uri headers body) uri timeout_ms"

definition HttpConnection_DoRequest :: "client_env \<Rightarrow> HttpMethod \<Rightarrow> string \<Rightarrow> u64 \<Rightarrow> (string \<times> string) list \<Rightarrow> string \<Rightarrow> (knet hstate, HttpResult) oper" where
  "HttpConnection_DoRequest ce method url timeout_ms headers body =
     (case Uri_Create url of
        Inl e \<Rightarrow> raise e
      | Inr None \<Rightarrow> ret (HttpResult_new INVALID_URL None (''invalid url: '' @ url))
      | Inr (Some uri) \<Rightarrow> HttpConnection_DoRequest_uri ce method uri timeout_ms headers body)"

definition HttpConnection_DoGet :: "client_env \<Rightarrow> string \<Rightarrow> u64 \<Rightarrow> (string \<times> string) list \<Rightarrow> string \<Rightarrow> (knet hstate, HttpResult) oper" where
  "HttpConnection_DoGet ce = HttpConnection_DoRequest ce GET"

definition HttpConnection_DoPost :: "client_env \<Rightarrow> string \<Rightarrow> u64 \<Rightarrow> (string \<times> string) list \<Rightarrow> string \<Rightarrow> (knet hstate, HttpResult) oper" where
  "HttpConnection_DoPost ce = HttpConnection_DoRequest ce POST"

definition HttpConnection_DoGet_uri :: "client_env \<Rightarrow> Uri \<Rightarrow> u64 \<Rightarrow> (string \<times> string) list \<Rightarrow> string \<Rightarrow> (knet hstate, HttpResult) oper" where
  "HttpConnection_DoGet_uri ce = HttpConnection_DoRequest_uri ce GET"

definition HttpConnection_DoPost_uri :: "client_env \<Rightarrow> Uri \<Rightarrow> u64 \<Rightarrow> (string \<times> string) list \<Rightarrow> string \<Rightarrow> (knet hstate, HttpResult) oper" where
  "HttpConnection_DoPost_uri ce = HttpConnection_DoRequest_uri ce POST"

end
