(* ===== verification/Mingo_HttpConnection_Props.thy ===== *)
theory Mingo_HttpConnection_Props
  imports Mingo_HttpConnection Mingo_HttpSession_Props Mingo_Uri_Roundtrip
begin

text \<open>
  The client closes what it opens: on every path through a request, the errors of the peer and of its answer included, the descriptor of the connection is closed exactly once.
\<close>

section \<open>The descriptor of a session\<close>

definition stream_socks :: "SocketStream \<Rightarrow> Socket list" where
  "stream_socks ss = (case m_socket ss of None \<Rightarrow> [] | Some s \<Rightarrow> [s])"

definition sess_holds :: "int multiset \<Rightarrow> session \<Rightarrow> bool" where
  "sess_holds M = (\<lambda>(ss, c, h). mset (open_fds (kern h)) = fds_of (stream_socks ss) + M)"

abbreviation sess_keeps :: "int multiset \<Rightarrow> (session, 'a) oper \<Rightarrow> bool" where
  "sess_keeps M f \<equiv> triple (sess_holds M) f (\<lambda>_. sess_holds M)"

lemma conn_keeps: "(\<And>x r x'. f x = (r, x') \<Longrightarrow> fst x' = fst x) \<Longrightarrow> sess_keeps M (on_conn f)"
  unfolding triple_def by (fastforce simp: on_conn_def sess_holds_def split: prod.splits)

lemma read_keeps: "sess_keeps M (on_conn (SocketStream_read n))"
  by (rule conn_keeps) (use read_only_reads only_reads_def in blast)

lemma readFixSize_keeps:
  "sess_keeps M (on_conn (\<lambda>x. case Stream_readFixSize SocketStream_read n (x, b) of (r, (x', b')) \<Rightarrow> (map_sum id (\<lambda>k. (k, b')) r, x')))"
  by (rule conn_keeps) (use readFixSize_only_reads only_reads_def in \<open>fastforce split: prod.splits\<close>)

lemma writeFixSize_keeps: "sess_keeps M (on_conn (Stream_writeFixSize SocketStream_write data n))"
proof (rule conn_keeps)
  fix x r x'
  assume "Stream_writeFixSize SocketStream_write data n x = (r, x')"
  then obtain r1 where "fix_loop (\<lambda>offset k. SocketStream_write (take k (drop offset data))) 0 (to_int64 n) x = (r1, x')"
    by (auto simp: Stream_writeFixSize_def fix_size_def andthen_def split: prod.splits sum.splits)
  moreover have "SocketStream_write d x = (q, y) \<Longrightarrow> fst y = fst x" for d x q y
    by (auto simp: SocketStream_write_def split: prod.splits if_splits)
  ultimately show "fst x' = fst x" using fix_loop_keeps [where R = "\<lambda>x y. fst y = fst x"] by (metis (no_types, lifting))
qed

lemma stream_close_fds:
  assumes c: "SocketStream_close env (ss, h) = (Inr r, (ss', h'))" and h: "mset (open_fds (kern h)) = fds_of (stream_socks ss) + M"
  shows "mset (open_fds (kern h')) = fds_of (stream_socks ss') + M"
proof (cases "m_socket ss")
    case (Some s)
    with c obtain b s' where "Socket_close env (s, h) = (Inr b, (s', h'))" "ss' = ss\<lparr>m_socket := Some s'\<rparr>"
      by (auto simp: SocketStream_close_def split: prod.splits sum.splits)
    moreover have "holds M (s, h)" using h Some by (simp add: holds_def stream_socks_def)
    ultimately have "mset (open_fds (kern h')) = M" "m_sock s' = - 1" "ss' = ss\<lparr>m_socket := Some s'\<rparr>"
      using tripleD [OF close_holds [of M env], of "(s, h)" b "(s', h')"] by simp_all
    then show ?thesis by (simp add: stream_socks_def fds_of_def)
qed (use h c in \<open>simp add: SocketStream_close_def\<close>)

lemma give_up_keeps: "sess_keeps M (give_up env)"
proof -
  have "sess_keeps M (on_net (SocketStream_close env))"
    unfolding triple_def by (auto dest: stream_close_fds simp: on_net_def sess_holds_def split: prod.splits)
  then show ?thesis unfolding give_up_def by (rule triple_andthen) (rule triple_ret)
qed

lemmas sess_keepD = tripleD [OF give_up_keeps] tripleD [OF read_keeps] tripleD [OF readFixSize_keeps]

section \<open>Receiving\<close>

lemma recv_rsp_head_keeps: "recv_rsp_head env n parser data off s = (Inr x, s') \<Longrightarrow> sess_holds M s \<Longrightarrow> sess_holds M s'"
proof (induction env n parser data off s rule: recv_rsp_head.induct)
  case (1 env n parser data off s)
  obtain r s1 where r: "on_conn (SocketStream_read (nat (int n - off))) s = (r, s1)" by (rule prod.exhaust)
  have k: "\<And>v. r = Inr v \<Longrightarrow> sess_holds M s1" using tripleD [OF read_keeps "1.prems"(2)] r by blast
  show ?case
    using "1.prems" "1.IH" [OF r [symmetric]] r k
    by (subst (asm) recv_rsp_head.simps) (auto dest: sess_keepD simp: Let_def split: sum.splits prod.splits if_splits)
qed

lemma chunk_more_keeps: "sess_keeps M (chunk_more env n b data len)"
  unfolding triple_def by (auto dest: sess_keepD simp: chunk_more_def split: if_splits prod.splits sum.splits)

lemma chunk_head_keeps: "chunk_head env n b parser data len s = (Inr x, s') \<Longrightarrow> sess_holds M s \<Longrightarrow> sess_holds M s'"
proof (induction env n b parser data len s rule: chunk_head.induct)
  case (1 env n b parser data len s)
  obtain r s1 where r: "chunk_more env n b data len s = (r, s1)" by (rule prod.exhaust)
  have k: "\<And>v. r = Inr v \<Longrightarrow> sess_holds M s1" using tripleD [OF chunk_more_keeps "1.prems"(2)] r by blast
  show ?case
    using "1.prems" "1.IH" [OF r [symmetric]] r k
    by (subst (asm) chunk_head.simps) (auto dest: sess_keepD simp: Let_def split: sum.splits prod.splits if_splits option.splits)
qed

lemma chunk_rest_keeps: "chunk_rest env n left body data s = (Inr x, s') \<Longrightarrow> sess_holds M s \<Longrightarrow> sess_holds M s'"
proof (induction env n left body data s rule: chunk_rest.induct)
  case (1 env n left body data s)
  obtain r s1 where r: "on_conn (SocketStream_read (nat (if left > c_int (int n) then c_int (int n) else left))) s = (r, s1)" by (rule prod.exhaust)
  have k: "\<And>v. r = Inr v \<Longrightarrow> sess_holds M s1" using tripleD [OF read_keeps "1.prems"(2)] r by blast
  show ?case
    using "1.prems" "1.IH" [OF _ r [symmetric]] r k
    by (subst (asm) chunk_rest.simps) (auto dest: sess_keepD split: sum.splits prod.splits if_splits)
qed

lemma chunk_body_keeps: "sess_keeps M (chunk_body env n content_len body data len)"
  unfolding triple_def by (auto dest: chunk_rest_keeps simp: chunk_body_def Let_def split: if_splits prod.splits sum.splits option.splits)

lemma chunk_loop_keeps: "chunk_loop env n parser body data len s = (Inr x, s') \<Longrightarrow> sess_holds M s \<Longrightarrow> sess_holds M s'"
proof (induction env n parser body data len s rule: chunk_loop.induct)
  case (1 env n parser body data len s)
  obtain r s1 where r: "chunk_head env n True parser data len s = (r, s1)" by (rule prod.exhaust)
  have k: "\<And>v. r = Inr v \<Longrightarrow> sess_holds M s1" using chunk_head_keeps [OF _ "1.prems"(2)] r by blast
  have b: "chunk_body env n l body d m s1 = (Inr v, s2) \<Longrightarrow> r = Inr w \<Longrightarrow> sess_holds M s2" for l d m v s2 w
    using tripleD [OF chunk_body_keeps k] by blast
  show ?case
    using "1.prems" "1.IH" [OF r [symmetric]] r k b
    by (subst (asm) chunk_loop.simps) (auto dest: sess_keepD split: sum.splits prod.splits if_splits option.splits)
qed

lemma recv_body_keeps: "sess_keeps M (recv_body alloc env n data off)"
  unfolding triple_def by (auto dest: sess_keepD simp: recv_body_def Let_def split: if_splits prod.splits sum.splits)

lemma recvResponse_keeps: "sess_keeps M (HttpConnection_recvResponse alloc lexical_cast env n buffer h0)"
  unfolding triple_def
  by (auto dest: recv_rsp_head_keeps chunk_loop_keeps tripleD [OF recv_body_keeps] simp: HttpConnection_recvResponse_def Let_def split: if_splits prod.splits sum.splits option.splits)

lemma exchange_keeps: "sess_keeps M peer \<Longrightarrow> sess_keeps M (exchange ce peer t req)"
  unfolding exchange_def HttpConnection_sendRequest_def client_recv_def Let_def
  by (intro triple_andthen [OF writeFixSize_keeps] triple_if triple_ret triple_andthen [OF recvResponse_keeps])
    (auto intro: triple_ret triple_andthen split: option.split)

section \<open>A request from its beginning to its end\<close>

lemma delete_stream_fds:
  assumes "delete_stream env ss h = (Inr u, h')" and "mset (open_fds (kern h)) = fds_of (stream_socks ss) + M"
  shows "mset (open_fds (kern h')) = M"
proof -
  let ?P = "\<lambda>(ss, h). mset (open_fds (kern h)) = fds_of (stream_socks ss) + M"
  have d: "triple ?P (SocketStream_delete env) (\<lambda>_. ?P)"
    unfolding triple_def by (auto dest: stream_close_fds simp: SocketStream_delete_def split: if_splits)
  have "drop_stream env (ss, h) = (Inr u, (fst (snd (drop_stream env (ss, h))), h'))"
    using assms(1) by (auto simp: delete_stream_def split: prod.splits)
  then obtain ss1 h1 where 1: "SocketStream_delete env (ss, h) = (Inr (), (ss1, h1))"
    and 2: "case m_socket ss1 of None \<Rightarrow> h' = h1 | Some s \<Rightarrow> \<exists>s'. Socket_delete env (s, h1) = (Inr (), (s', h'))"
    unfolding drop_stream_def by (auto elim!: andthen_eq_InrE split: option.splits prod.splits)
  have f: "mset (open_fds (kern h1)) = fds_of (stream_socks ss1) + M" using tripleD [OF d _ 1] assms(2) by simp
  show ?thesis
  proof (cases "m_socket ss1")
    case (Some s)
    then have "holds M (s, h1)" using f by (simp add: holds_def stream_socks_def)
    then show ?thesis using 2 Some tripleD [OF delete_holds [of M env]] by fastforce
  qed (use 2 f in \<open>simp add: stream_socks_def\<close>)
qed

lemma setRecvTimeout_owns: "triple (owns b) (Socket_setRecvTimeout env v) (\<lambda>_. owns b)"
  unfolding Socket_setRecvTimeout_def by (intro triple_andthen [OF setOption_owns] triple_ret)

lemma connect_fds:
  assumes "with_sock (Socket_connect env addr) (Socket_CreateTCP addr) h = (Inr (ok, s), h')"
  shows "owns (open_fds (kern h)) (s, h')"
proof -
  have "owns (open_fds (kern h)) (Socket_CreateTCP addr, h)" by (simp add: owns_def Socket_CreateTCP_def Socket_new_def)
  with with_sock_owns [OF connect_owns assms] show ?thesis .
qed

lemma owned_deleted:
  assumes "with_sock (Socket_delete env) s h = (Inr r, h')" and "owns b (s, h)"
  shows "mset (open_fds (kern h')) = mset b"
  using with_sock_holds [OF delete_holds] owns_holds [OF assms(2)] assms(1) by (cases r) (fastforce simp: holds_def)

lemma on_session_fds:
  assumes "on_session ss c f h = (Inr (r, ss', c'), h')" and "sess_keeps M f" and "mset (open_fds (kern h)) = fds_of (stream_socks ss) + M"
  shows "mset (open_fds (kern h')) = fds_of (stream_socks ss') + M"
proof -
  have "f (ss, c, h) = (Inr r, (ss', c', h'))" using assms(1) by (auto simp: on_session_def split: prod.splits sum.splits)
  from tripleD [OF assms(2) _ this] assms(3) show ?thesis by (simp add: sess_holds_def)
qed

lemma exchange_answer:
  assumes "exchange ce peer t req s = (Inr r, s')"
  shows "0 \<le> hr_result r \<and> (hr_result r = 0 \<longleftrightarrow> hr_response r \<noteq> None)"
  using assms by (auto simp: exchange_def HttpResult_new_def elim!: andthen_eq_InrE split: if_splits option.splits)

lemma DoRequest_req_fds:
  assumes "HttpConnection_DoRequest_req ce req uri t h = (Inr r, h')"
  shows "mset (open_fds (kern h')) = mset (open_fds (kern h)) \<and> 0 \<le> hr_result r \<and> (hr_result r = 0 \<longleftrightarrow> hr_response r \<noteq> None)"
proof (cases "Uri_createAddress (ce_host ce) (ce_getaddrinfo ce) uri")
  case None
  then show ?thesis using assms by (auto simp: HttpConnection_DoRequest_req_def HttpResult_new_def)
next
  case (Some addr)
  let ?b = "open_fds (kern h)"
  obtain ok s1 h1 where 1: "with_sock (Socket_connect (ce_env ce) addr) (Socket_CreateTCP addr) h = (Inr (ok, s1), h1)"
    using assms Some by (auto simp: HttpConnection_DoRequest_req_def Let_def elim!: andthen_eq_InrE)
  note o1 = connect_fds [OF 1]
  show ?thesis
  proof (cases ok)
    case False
    obtain u where "with_sock (Socket_delete (ce_env ce)) s1 h1 = (Inr u, h')" "r = HttpResult_new CONNECT_FAIL None (''connect fail: '' @ Address_toString (ce_host ce) addr)"
      using assms Some 1 False by (auto simp: HttpConnection_DoRequest_req_def Let_def andthen_def split: prod.splits sum.splits)
    then show ?thesis using owned_deleted [OF _ o1] by (auto simp: HttpResult_new_def)
  next
    case True
    obtain u s2 h2 ss3 c3 h3 where 2: "with_sock (Socket_setRecvTimeout (ce_env ce) (sint t)) s1 h1 = (Inr (u, s2), h2)"
      and 3: "on_session (HttpConnection_new (Some s2)) (ce_peer ce) (exchange ce (ret (Address_toString (ce_host ce) addr)) t req) h2 = (Inr (r, ss3, c3), h3)"
      and 4: "delete_stream (ce_env ce) ss3 h3 = (Inr (), h')"
      using assms Some 1 True by (auto simp: HttpConnection_DoRequest_req_def Let_def andthen_def split: prod.splits sum.splits)
    have "owns ?b (s2, h2)" using with_sock_owns [OF setRecvTimeout_owns 2 o1] .
    then have "mset (open_fds (kern h2)) = fds_of (stream_socks (HttpConnection_new (Some s2))) + mset ?b"
      by (auto dest: owns_holds simp: holds_def stream_socks_def HttpConnection_new_def SocketStream_new_def)
    from on_session_fds [OF 3 exchange_keeps this] have "mset (open_fds (kern h3)) = fds_of (stream_socks ss3) + mset ?b" by (simp add: triple_ret)
    with delete_stream_fds [OF 4] exchange_answer 3 show ?thesis by (auto simp: on_session_def split: prod.splits sum.splits)
  qed
qed


text \<open>A system in which a connection is made, and a peer that then closes it.\<close>

definition client_uri :: Uri where
  "client_uri = \<lparr>uri_scheme = ''http'', uri_userinfo = [], uri_host = ''h'', uri_path = ''/'', uri_query = [], uri_fragment = [], uri_port = 0\<rparr>"

lemma client_uri_created: "Uri_Create (Uri_toString client_uri) = Inr (Some client_uri)"
proof -
  have p: "uri_plain client_uri" by code_simp
  then show ?thesis using Uri_Create_toString [OF p]
    by (simp add: client_uri_def Uri_getPath_def Uri_isDefaultPort_def)
qed

definition client_demo :: client_env where
  "client_demo = \<lparr>ce_host = MINGO_LITTLE_ENDIAN, ce_alloc = (\<lambda>_. True), ce_cast = (\<lambda>_. None), ce_env = sock_demo_env,
     ce_getaddrinfo = (\<lambda>_ _. Some [SysIn \<lparr>sin_family = AF_INET, sin_port = 0, s_addr = 1, sin_zero = []\<rparr>]), ce_errno = [],
     ce_peer = \<lparr>rx = [], rplan = [], tx = [], wplan = [0]\<rparr>, ce_buffer = replicate 100 0, ce_parser = blank_client_parser\<rparr>"

lemma client_demo_address:
  "\<exists>a. Address_LookupAnyIPAddress (ce_getaddrinfo client_demo) name = Some (IPv4Address a) \<and> sin_family a = AF_INET"
  by (auto simp: client_demo_def Address_LookupAnyIPAddress_def Address_Lookup_def map_filter_simps split: prod.split)

lemma sendRequest_refused:
  assumes "m_isConnected s" and "HttpRequest_toString req \<noteq> []" and "length (HttpRequest_toString req) < 100"
  shows "HttpConnection_sendRequest req (HttpConnection_new (Some s), ce_peer client_demo, h)
    = (Inr 0, (HttpConnection_new (Some s), (ce_peer client_demo)\<lparr>wplan := []\<rparr>, h))"
  using assms by (simp add: HttpConnection_sendRequest_def Let_def on_conn_def Stream_writeFixSize_def fix_size_def fix_loop.simps andthen_def HttpConnection_new_def
      SocketStream_new_def SocketStream_write_def SocketStream_isConnected_def client_demo_def Socket_send_def guarded_send_def k_send_def to_int_id c_int_id)

lemma connect_demo:
  assumes "sin_family a = AF_INET"
  obtains s h where "with_sock (Socket_connect sock_demo_env (IPv4Address a)) (Socket_CreateTCP (IPv4Address a)) (sock_demo False) = (Inr (True, s), h)"
    "m_isConnected s" "m_sock s = 5" "t_hook_enable h 0 = False"
  using assms by (simp add: with_sock_def Socket_connect_def sock_eval Socket_getRemoteAddress_def Socket_CreateTCP_def Address_getFamily.simps)

lemma setRecvTimeout_demo:
  assumes "t_hook_enable h 0 = False"
  obtains h' where "with_sock (Socket_setRecvTimeout sock_demo_env v) s h = (Inr ((), s), h')" "t_hook_enable h' 0 = False"
  using assms by (simp add: with_sock_def Socket_setRecvTimeout_def sock_eval split: prod.splits)

lemma delete_stream_demo:
  assumes "t_hook_enable h 0 = False" and "m_isConnected s" and "m_sock s = 5"
  shows "\<exists>h'. delete_stream sock_demo_env (HttpConnection_new (Some s)) h = (Inr (), h')"
  using assms
  by (simp add: delete_stream_def drop_stream_def HttpConnection_new_def SocketStream_new_def SocketStream_delete_def SocketStream_close_def sock_eval)


end
