(* ===== verification/Mingo_HttpPool.thy ===== *)
theory Mingo_HttpPool
  imports Mingo_HttpConnection_Props
begin

text \<open>
  \<^verbatim>\<open>mingo/http/http_connection.cpp\<close>, second half: the pool of connections to one host. A connection is lent with a deleter that gives it back. The clock is an argument of the
  operations that read it. Several threads use a pool: its operations are steps, and the connections that are lent are part of the state.
\<close>

section \<open>Connections and pools\<close>

record HttpConnection =
  hcn_stream :: SocketStream
  hcn_conn :: conn
  hcn_createTime :: u64
  hcn_request :: u64

record HttpConnectionPool =
  pool_host :: string
  pool_vhost :: string
  pool_port :: u32
  pool_maxSize :: u32
  pool_maxAliveTime :: u32
  pool_maxRequest :: u32
  pool_isHttps :: bool
  pool_conns :: "HttpConnection list"
  pool_total :: u32

type_synonym 'a pool_oper = "(HttpConnectionPool \<times> knet hstate, 'a) oper"

text \<open>The construction of a connection: the time is never set.\<close>

definition new_connection :: "Socket \<Rightarrow> conn \<Rightarrow> HttpConnection" where
  "new_connection sock c = \<lparr>hcn_stream = HttpConnection_new (Some sock), hcn_conn = c, hcn_createTime = 0, hcn_request = 0\<rparr>"

definition HttpConnectionPool_new :: "string \<Rightarrow> string \<Rightarrow> u32 \<Rightarrow> bool \<Rightarrow> u32 \<Rightarrow> u32 \<Rightarrow> u32 \<Rightarrow> HttpConnectionPool" where
  "HttpConnectionPool_new host vhost port is_https max_size max_alive_time max_request =
     \<lparr>pool_host = host, pool_vhost = vhost, pool_port = (if port \<noteq> 0 then port else if is_https then 443 else 80), pool_maxSize = max_size,
      pool_maxAliveTime = max_alive_time, pool_maxRequest = max_request, pool_isHttps = is_https, pool_conns = [], pool_total = 0\<rparr>"

text \<open>An invalid \<^verbatim>\<open>URI\<close> is logged, and then the null pointer is used.\<close>

definition HttpConnectionPool_Create :: "string \<Rightarrow> string \<Rightarrow> u32 \<Rightarrow> u32 \<Rightarrow> u32 \<Rightarrow> HttpConnectionPool res" where
  "HttpConnectionPool_Create uri vhost max_size max_alive_time max_request =
     (case Uri_Create uri of
        Inl e \<Rightarrow> Inl e
      | Inr None \<Rightarrow> Inl NullDeref
      | Inr (Some u) \<Rightarrow>
          Inr (HttpConnectionPool_new (uri_host u) vhost (word_of_int (Uri_getPort u)) (uri_scheme u = ''https'') max_size max_alive_time max_request))"

section \<open>Taking and giving back\<close>

text \<open>The loop under the lock: the connections to delete, the one taken, and those that stay. The comparison with the clock is the code's.\<close>

fun take_conn :: "u64 \<Rightarrow> u32 \<Rightarrow> HttpConnection list \<Rightarrow> HttpConnection list \<times> HttpConnection option \<times> HttpConnection list" where
  "take_conn now_ms max_alive [] = ([], None, [])"
| "take_conn now_ms max_alive (c # cs) =
     (if \<not> SocketStream_isConnected (hcn_stream c) \<or> hcn_createTime c + ucast max_alive > now_ms
      then (case take_conn now_ms max_alive cs of (invalid, ptr, rest) \<Rightarrow> (c # invalid, ptr, rest))
      else ([], Some c, cs))"

fun delete_conns :: "sock_env \<Rightarrow> HttpConnection list \<Rightarrow> (knet hstate, unit) oper" where
  "delete_conns env [] = ret ()"
| "delete_conns env (c # cs) = andthen (delete_stream env (hcn_stream c)) (\<lambda>_. delete_conns env cs)"

definition on_hooks :: "(knet hstate, 'a) oper \<Rightarrow> 'a pool_oper" where
  "on_hooks f = (\<lambda>(pool, h). case f h of (r, h') \<Rightarrow> (r, (pool, h')))"

definition the_pool :: "HttpConnectionPool pool_oper" where
  "the_pool = (\<lambda>(pool, h). (Inr pool, (pool, h)))"

definition change_pool :: "(HttpConnectionPool \<Rightarrow> HttpConnectionPool) \<Rightarrow> unit pool_oper" where
  "change_pool g = (\<lambda>(pool, h). (Inr (), (g pool, h)))"

definition open_conn :: "client_env \<Rightarrow> HttpConnectionPool \<Rightarrow> (knet hstate, HttpConnection option) oper" where
  "open_conn ce pool =
     (case Address_LookupAnyIPAddress (ce_getaddrinfo ce) (pool_host pool) of
        None \<Rightarrow> ret None
      | Some a \<Rightarrow>
          let addr = Address_setPort (ce_host ce) (ucast (pool_port pool)) a in
          andthen (with_sock (Socket_connect (ce_env ce) addr) (Socket_CreateTCP addr)) (\<lambda>(ok, sock).
            if \<not> ok then andthen (with_sock (Socket_delete (ce_env ce)) sock) (\<lambda>_. ret None)
            else ret (Some (new_connection sock (ce_peer ce)))))"

definition HttpConnectionPool_getConnection :: "client_env \<Rightarrow> u64 \<Rightarrow> HttpConnection option pool_oper" where
  "HttpConnectionPool_getConnection ce now_ms =
     andthen the_pool (\<lambda>pool.
       case take_conn now_ms (pool_maxAliveTime pool) (pool_conns pool) of
         (invalid, ptr, rest) \<Rightarrow>
           andthen (change_pool (\<lambda>p. p\<lparr>pool_conns := rest\<rparr>)) (\<lambda>_.
           andthen (on_hooks (delete_conns (ce_env ce) invalid)) (\<lambda>_.
           andthen (change_pool (\<lambda>p. p\<lparr>pool_total := pool_total p - word_of_nat (length invalid)\<rparr>)) (\<lambda>_.
             case ptr of
               Some c \<Rightarrow> ret (Some c)
             | None \<Rightarrow>
                 andthen (on_hooks (open_conn ce pool)) (\<lambda>c.
                   case c of
                     None \<Rightarrow> ret None
                   | Some c \<Rightarrow> andthen (change_pool (\<lambda>p. p\<lparr>pool_total := pool_total p + 1\<rparr>)) (\<lambda>_. ret (Some c)))))))"

definition HttpConnectionPool_ReleasePtr :: "sock_env \<Rightarrow> u64 \<Rightarrow> HttpConnection \<Rightarrow> unit pool_oper" where
  "HttpConnectionPool_ReleasePtr env now_ms c =
     (let c1 = c\<lparr>hcn_request := hcn_request c + 1\<rparr> in
      andthen the_pool (\<lambda>pool.
        if \<not> SocketStream_isConnected (hcn_stream c1) \<or> hcn_createTime c1 + ucast (pool_maxAliveTime pool) \<ge> now_ms \<or> hcn_request c1 \<ge> ucast (pool_maxRequest pool)
        then
          andthen (on_hooks (delete_stream env (hcn_stream c1))) (\<lambda>_.
          change_pool (\<lambda>p. p\<lparr>pool_total := pool_total p - 1\<rparr>))
        else change_pool (\<lambda>p. p\<lparr>pool_conns := pool_conns p @ [c1]\<rparr>)))"

section \<open>Requests\<close>

text \<open>What a request does with a connection it has got; the name of the peer is asked from the socket.\<close>

definition pool_info :: "HttpConnectionPool \<Rightarrow> string" where
  "pool_info pool = ''pool host:'' @ pool_host pool @ '' port:'' @ dec (unat (pool_port pool))"

definition pool_exchange :: "client_env \<Rightarrow> string \<Rightarrow> u64 \<Rightarrow> HttpRequest \<Rightarrow> HttpConnection \<Rightarrow> (knet hstate, HttpResult \<times> HttpConnection) oper" where
  "pool_exchange ce info timeout_ms req c =
     (case m_socket (hcn_stream c) of
        None \<Rightarrow> ret (HttpResult_new POOL_INVALID_CONNECTION None info, c)
      | Some sock \<Rightarrow>
          andthen (with_sock (Socket_setRecvTimeout (ce_env ce) (sint timeout_ms)) sock) (\<lambda>(_, sock).
          andthen (on_session ((hcn_stream c)\<lparr>m_socket := Some sock\<rparr>) (hcn_conn c)
                    (exchange ce (on_net (SocketStream_getRemoteAddressString (ce_host ce) (ce_env ce))) timeout_ms req)) (\<lambda>(r, ss, k).
          ret (r, c\<lparr>hcn_stream := ss, hcn_conn := k\<rparr>))))"

text \<open>\<open>doRequest\<close> on a request object; the clock is read when the connection is taken and when it is given back.\<close>

definition HttpConnectionPool_doRequest_req :: "client_env \<Rightarrow> u64 \<Rightarrow> u64 \<Rightarrow> HttpRequest \<Rightarrow> u64 \<Rightarrow> HttpResult pool_oper" where
  "HttpConnectionPool_doRequest_req ce now1 now2 req timeout_ms =
     andthen (HttpConnectionPool_getConnection ce now1) (\<lambda>conn.
     andthen the_pool (\<lambda>pool.
       case conn of
         None \<Rightarrow> ret (HttpResult_new POOL_GET_CONNECTION None (pool_info pool))
       | Some c \<Rightarrow>
           andthen (on_hooks (pool_exchange ce (pool_info pool) timeout_ms req c)) (\<lambda>(r, c).
           andthen (HttpConnectionPool_ReleasePtr (ce_env ce) now2 c) (\<lambda>_. ret r))))"

definition pool_request :: "HttpConnectionPool \<Rightarrow> HttpMethod \<Rightarrow> string \<Rightarrow> (string \<times> string) list \<Rightarrow> string \<Rightarrow> HttpRequest" where
  "pool_request pool method url headers body =
     (let r0 = HttpRequest_setClose False (HttpRequest_setMethod method (HttpRequest_setPath url (HttpRequest_new 0x11 True)))
      in case apply_headers headers False r0 of
           (has_host, r1) \<Rightarrow>
             HttpRequest_setBody body
               (if \<not> has_host then HttpRequest_setHeader ''Host'' (if pool_vhost pool = [] then pool_host pool else pool_vhost pool) r1 else r1))"

definition HttpConnectionPool_doRequest ::
    "client_env \<Rightarrow> u64 \<Rightarrow> u64 \<Rightarrow> HttpMethod \<Rightarrow> string \<Rightarrow> u64 \<Rightarrow> (string \<times> string) list \<Rightarrow> string \<Rightarrow> HttpResult pool_oper" where
  "HttpConnectionPool_doRequest ce now1 now2 method url timeout_ms headers body =
     andthen the_pool (\<lambda>pool. HttpConnectionPool_doRequest_req ce now1 now2 (pool_request pool method url headers body) timeout_ms)"

text \<open>The target of a \<^verbatim>\<open>URI\<close>: path, query and fragment.\<close>

definition uri_target :: "Uri \<Rightarrow> string" where
  "uri_target uri =
     Uri_getPath uri @ (if uri_query uri = [] then [] else ''?'') @ uri_query uri @ (if uri_fragment uri = [] then [] else ''#'') @ uri_fragment uri"

definition HttpConnectionPool_doRequest_uri ::
    "client_env \<Rightarrow> u64 \<Rightarrow> u64 \<Rightarrow> HttpMethod \<Rightarrow> Uri \<Rightarrow> u64 \<Rightarrow> (string \<times> string) list \<Rightarrow> string \<Rightarrow> HttpResult pool_oper" where
  "HttpConnectionPool_doRequest_uri ce now1 now2 method uri = HttpConnectionPool_doRequest ce now1 now2 method (uri_target uri)"

definition HttpConnectionPool_doGet :: "client_env \<Rightarrow> u64 \<Rightarrow> u64 \<Rightarrow> string \<Rightarrow> u64 \<Rightarrow> (string \<times> string) list \<Rightarrow> string \<Rightarrow> HttpResult pool_oper" where
  "HttpConnectionPool_doGet ce now1 now2 = HttpConnectionPool_doRequest ce now1 now2 GET"

definition HttpConnectionPool_doPost :: "client_env \<Rightarrow> u64 \<Rightarrow> u64 \<Rightarrow> string \<Rightarrow> u64 \<Rightarrow> (string \<times> string) list \<Rightarrow> string \<Rightarrow> HttpResult pool_oper" where
  "HttpConnectionPool_doPost ce now1 now2 = HttpConnectionPool_doRequest ce now1 now2 POST"

definition HttpConnectionPool_doGet_uri :: "client_env \<Rightarrow> u64 \<Rightarrow> u64 \<Rightarrow> Uri \<Rightarrow> u64 \<Rightarrow> (string \<times> string) list \<Rightarrow> string \<Rightarrow> HttpResult pool_oper" where
  "HttpConnectionPool_doGet_uri ce now1 now2 uri = HttpConnectionPool_doGet ce now1 now2 (uri_target uri)"

definition HttpConnectionPool_doPost_uri :: "client_env \<Rightarrow> u64 \<Rightarrow> u64 \<Rightarrow> Uri \<Rightarrow> u64 \<Rightarrow> (string \<times> string) list \<Rightarrow> string \<Rightarrow> HttpResult pool_oper" where
  "HttpConnectionPool_doPost_uri ce now1 now2 uri = HttpConnectionPool_doPost ce now1 now2 (uri_target uri)"

section \<open>The account of a pool\<close>

text \<open>The account: the counter is the number of connections in the pool and lent, and the open descriptors are theirs and those of others.\<close>

definition conn_socks :: "HttpConnection list \<Rightarrow> Socket list" where
  "conn_socks cs = concat (map (\<lambda>c. stream_socks (hcn_stream c)) cs)"

definition pool_account :: "int multiset \<Rightarrow> HttpConnection list \<Rightarrow> HttpConnectionPool \<times> knet hstate \<Rightarrow> bool" where
  "pool_account M lent = (\<lambda>(pool, h).
     pool_total pool = word_of_nat (length (pool_conns pool) + length lent)
     \<and> mset (open_fds (kern h)) = fds_of (conn_socks (pool_conns pool)) + fds_of (conn_socks lent) + M)"

text \<open>The steps of the threads: one of them takes a connection, uses one that it has, or gives one back.\<close>

inductive pool_step :: "HttpConnection list \<times> HttpConnectionPool \<times> knet hstate \<Rightarrow> HttpConnection list \<times> HttpConnectionPool \<times> knet hstate \<Rightarrow> bool" where
  Got: "HttpConnectionPool_getConnection ce now_ms (pool, h) = (Inr (Some c), (pool', h')) \<Longrightarrow> pool_step (lent, pool, h) (c # lent, pool', h')"
| Got_none: "HttpConnectionPool_getConnection ce now_ms (pool, h) = (Inr None, (pool', h')) \<Longrightarrow> pool_step (lent, pool, h) (lent, pool', h')"
| Used: "pool_exchange ce (pool_info pool) timeout_ms req c h = (Inr (r, c'), h') \<Longrightarrow> pool_step (lent @ c # lent', pool, h) (lent @ c' # lent', pool, h')"
| Released: "HttpConnectionPool_ReleasePtr env now_ms c (pool, h) = (Inr (), (pool', h')) \<Longrightarrow> pool_step (lent @ c # lent', pool, h) (lent @ lent', pool', h')"

inductive_cases pool_stepE: "pool_step (lent, pool, h) (lent', pool', h')"

lemma conn_socks_simps [simp]: "conn_socks [] = []" "conn_socks (c # cs) = stream_socks (hcn_stream c) @ conn_socks cs" "conn_socks (cs @ ds) = conn_socks cs @ conn_socks ds"
  by (simp_all add: conn_socks_def)

lemma take_conn_parts: "take_conn now_ms a cs = (invalid, ptr, rest) \<Longrightarrow> cs = invalid @ (case ptr of None \<Rightarrow> [] | Some c \<Rightarrow> [c]) @ rest \<and> (ptr = None \<longrightarrow> rest = [])"
  by (induction cs arbitrary: invalid) (auto split: if_splits prod.splits option.splits)

lemma delete_conns_fds:
  assumes "delete_conns env cs h = (Inr u, h')" and "mset (open_fds (kern h)) = fds_of (conn_socks cs) + M"
  shows "mset (open_fds (kern h')) = M"
  using assms
proof (induction cs arbitrary: h)
  case (Cons c cs)
  obtain h1 where 1: "delete_stream env (hcn_stream c) h = (Inr (), h1)" "delete_conns env cs h1 = (Inr u, h')"
    using Cons.prems(1) by (auto elim!: andthen_eq_InrE)
  have "mset (open_fds (kern h)) = fds_of (stream_socks (hcn_stream c)) + (fds_of (conn_socks cs) + M)" using Cons.prems(2) by simp
  from delete_stream_fds [OF 1(1) this] Cons.IH [OF 1(2)] show ?case by simp
qed simp

lemma open_conn_fds:
  assumes "open_conn ce pool h = (Inr c, h')"
  shows "mset (open_fds (kern h')) = (case c of None \<Rightarrow> {#} | Some c \<Rightarrow> fds_of (stream_socks (hcn_stream c))) + mset (open_fds (kern h))"
proof (cases "Address_LookupAnyIPAddress (ce_getaddrinfo ce) (pool_host pool)")
  case None
  then show ?thesis using assms by (auto simp: open_conn_def)
next
  case (Some a)
  let ?addr = "Address_setPort (ce_host ce) (ucast (pool_port pool)) a"
  obtain ok s h1 where 1: "with_sock (Socket_connect (ce_env ce) ?addr) (Socket_CreateTCP ?addr) h = (Inr (ok, s), h1)"
    using assms Some by (auto simp: open_conn_def Let_def elim!: andthen_eq_InrE)
  note o = connect_fds [OF 1]
  show ?thesis
  proof (cases ok)
    case False
    then obtain u where "with_sock (Socket_delete (ce_env ce)) s h1 = (Inr u, h')" "c = None"
      using assms Some 1 by (auto simp: open_conn_def Let_def andthen_def split: prod.splits sum.splits)
    then show ?thesis using owned_deleted [OF _ o] by simp
  next
    case True
    then have "c = Some (new_connection s (ce_peer ce))" "h' = h1" using assms Some 1 by (simp_all add: open_conn_def Let_def andthen_def)
    then show ?thesis using owns_holds [OF o] by (simp add: holds_def new_connection_def HttpConnection_new_def SocketStream_new_def stream_socks_def)
  qed
qed

lemma getConnection_turn:
  assumes "HttpConnectionPool_getConnection ce now_ms (pool, h) = (Inr r, (pool', h'))"
  obtains invalid ptr rest h1 where "take_conn now_ms (pool_maxAliveTime pool) (pool_conns pool) = (invalid, ptr, rest)"
    "delete_conns (ce_env ce) invalid h = (Inr (), h1)" "pool_conns pool' = rest"
    "case ptr of Some c \<Rightarrow> r = Some c \<and> h' = h1 \<and> pool_total pool' = pool_total pool - word_of_nat (length invalid)
     | None \<Rightarrow> open_conn ce pool h1 = (Inr r, h')
         \<and> pool_total pool' = pool_total pool - word_of_nat (length invalid) + (case r of None \<Rightarrow> 0 | Some _ \<Rightarrow> 1)"
proof -
  obtain invalid ptr rest where t: "take_conn now_ms (pool_maxAliveTime pool) (pool_conns pool) = (invalid, ptr, rest)" by (metis prod.exhaust)
  obtain q h1 where d: "delete_conns (ce_env ce) invalid h = (q, h1)" by (rule prod.exhaust)
  have q: "q = Inr ()"
    using assms t d by (cases q) (auto simp: HttpConnectionPool_getConnection_def andthen_def the_pool_def change_pool_def on_hooks_def)
  show thesis
  proof (cases ptr)
    case (Some c)
    show thesis
      by (rule that [OF t, of h1])
        (use assms t d q Some in \<open>auto simp: HttpConnectionPool_getConnection_def andthen_def the_pool_def change_pool_def on_hooks_def\<close>)
  next
    case None
    obtain q2 h2 where o: "open_conn ce pool h1 = (q2, h2)" by (rule prod.exhaust)
    with assms t d q None obtain k where k: "q2 = Inr k"
      by (cases q2) (auto simp: HttpConnectionPool_getConnection_def andthen_def the_pool_def change_pool_def on_hooks_def)
    show thesis
      by (rule that [OF t, of h1]; cases k)
        (use assms t d q None o k in \<open>auto simp: HttpConnectionPool_getConnection_def andthen_def the_pool_def change_pool_def on_hooks_def\<close>)
  qed
qed

lemma getConnection_account:
  assumes "HttpConnectionPool_getConnection ce now_ms (pool, h) = (Inr r, (pool', h'))" and "pool_account M lent (pool, h)"
  shows "pool_account M ((case r of None \<Rightarrow> [] | Some c \<Rightarrow> [c]) @ lent) (pool', h')"
  using assms(1)
proof (cases rule: getConnection_turn)
  case (1 invalid ptr rest h1)
  note t = take_conn_parts [OF 1(1)]
  let ?taken = "case ptr of None \<Rightarrow> [] | Some c \<Rightarrow> [c]"
  have "mset (open_fds (kern h)) = fds_of (conn_socks invalid) + (fds_of (conn_socks (?taken @ rest)) + fds_of (conn_socks lent) + M)"
    using assms(2) t by (simp add: pool_account_def)
  from delete_conns_fds [OF 1(2) this] have f: "mset (open_fds (kern h1)) = fds_of (conn_socks (?taken @ rest)) + fds_of (conn_socks lent) + M" .
  have n: "pool_total pool - word_of_nat (length invalid) = word_of_nat (length (?taken @ rest) + length lent)"
    using assms(2) t by (simp add: pool_account_def)
  show ?thesis
  proof (cases ptr)
    case (Some c)
    then show ?thesis using 1(3,4) f n by (simp add: pool_account_def)
  next
    case None
    then have o: "open_conn ce pool h1 = (Inr r, h')" and rest: "rest = []" using 1(4) t by simp_all
    from open_conn_fds [OF o] show ?thesis
      using 1(3,4) f n None rest by (cases r) (simp_all add: pool_account_def)
  qed
qed

lemma release_account:
  assumes "HttpConnectionPool_ReleasePtr env now_ms c (pool, h) = (Inr u, (pool', h'))" and "pool_account M (lent @ c # lent') (pool, h)"
  shows "pool_account M (lent @ lent') (pool', h')"
proof -
  let ?rest = "fds_of (conn_socks (pool_conns pool)) + fds_of (conn_socks (lent @ lent')) + M"
  have f: "mset (open_fds (kern h)) = fds_of (stream_socks (hcn_stream c)) + ?rest" using assms(2) by (simp add: pool_account_def)
  have d: "delete_stream env (hcn_stream c) h = (Inr (), h1) \<Longrightarrow> mset (open_fds (kern h1)) = ?rest" for h1
    using delete_stream_fds [OF _ f] by blast
  show ?thesis
    using assms f d
    by (auto simp: HttpConnectionPool_ReleasePtr_def Let_def andthen_def the_pool_def change_pool_def on_hooks_def pool_account_def split: if_splits prod.splits sum.splits)
qed

lemma remote_keeps: "sess_keeps M (on_net (SocketStream_getRemoteAddressString host env))"
proof -
  have g: "Socket_getRemoteAddress env (s, h) = (Inr a, (s', h')) \<Longrightarrow> m_sock s' = m_sock s \<and> h' = h" for s h a s' h'
    by (auto simp: Socket_getRemoteAddress_def this_def modify_this_def andthen_def split: option.splits)
  show ?thesis
    unfolding triple_def
    by (auto dest!: g simp: on_net_def SocketStream_getRemoteAddressString_def SocketStream_getRemoteAddress_def andthen_def sess_holds_def stream_socks_def fds_of_def
        split: prod.splits option.splits sum.splits)
qed

lemma pool_exchange_fds:
  assumes "pool_exchange ce info t req c h = (Inr (r, c'), h')" and "mset (open_fds (kern h)) = fds_of (stream_socks (hcn_stream c)) + M"
  shows "mset (open_fds (kern h')) = fds_of (stream_socks (hcn_stream c')) + M"
proof (cases "m_socket (hcn_stream c)")
  case None
  then show ?thesis using assms by (auto simp: pool_exchange_def)
next
  case (Some sock)
  let ?stream = "\<lambda>s. (hcn_stream c)\<lparr>m_socket := Some s\<rparr>"
  obtain u s1 h1 k where 1: "with_sock (Socket_setRecvTimeout (ce_env ce) (sint t)) sock h = (Inr (u, s1), h1)"
    and 2: "on_session (?stream s1) (hcn_conn c) (exchange ce (on_net (SocketStream_getRemoteAddressString (ce_host ce) (ce_env ce))) t req) h1 = (Inr (r, hcn_stream c', k), h')"
    using assms(1) Some by (auto simp: pool_exchange_def andthen_def split: prod.splits sum.splits)
  have "triple (holds M) (Socket_setRecvTimeout (ce_env ce) (sint t)) (\<lambda>_. holds M)"
    unfolding triple_def
    by (auto simp: Socket_setRecvTimeout_def Socket_setOption_def andthen_def this_def on_sys_def holds_def fds_of_def
        dest!: hook_setsockopt_kern split: prod.splits sum.splits)
  from with_sock_holds [OF this 1] assms(2) Some have "mset (open_fds (kern h1)) = fds_of (stream_socks (?stream s1)) + M"
    by (simp add: holds_def stream_socks_def)
  from on_session_fds [OF 2 exchange_keeps [OF remote_keeps] this] show ?thesis .
qed

lemma step_account:
  assumes "pool_step (lent, pool, h) (lent', pool', h')" and "pool_account M lent (pool, h)"
  shows "pool_account M lent' (pool', h')"
  using assms(1)
proof (elim pool_stepE)
  fix ce now_ms c
  assume "lent' = c # lent" and g: "HttpConnectionPool_getConnection ce now_ms (pool, h) = (Inr (Some c), (pool', h'))"
  then show ?thesis using getConnection_account [OF g assms(2)] by simp
next
  fix ce now_ms
  assume "lent' = lent" and g: "HttpConnectionPool_getConnection ce now_ms (pool, h) = (Inr None, (pool', h'))"
  then show ?thesis using getConnection_account [OF g assms(2)] by simp
next
  fix ce t req c r c' l l'
  assume l: "lent = l @ c # l'" "lent' = l @ c' # l'" "pool' = pool" and e: "pool_exchange ce (pool_info pool) t req c h = (Inr (r, c'), h')"
  let ?rest = "fds_of (conn_socks (pool_conns pool)) + fds_of (conn_socks (l @ l')) + M"
  have "mset (open_fds (kern h)) = fds_of (stream_socks (hcn_stream c)) + ?rest" using assms(2) l(1) by (simp add: pool_account_def)
  from pool_exchange_fds [OF e this] show ?thesis using assms(2) l by (simp add: pool_account_def)
next
  fix env now_ms c l l'
  assume "lent = l @ c # l'" "lent' = l @ l'" and g: "HttpConnectionPool_ReleasePtr env now_ms c (pool, h) = (Inr (), (pool', h'))"
  then show ?thesis using release_account [OF g] assms(2) by simp
qed

text \<open>
  C4: The account of a connection pool. However the threads take, use and give back connections, and whatever the peers and the system do, the counter of the pool is the number
  of the connections in the pool and lent, and the open descriptors are exactly theirs and those that others have: no connection is lost and none is closed under its user.
\<close>

theorem pool_steps_account:
  assumes "pool_step\<^sup>*\<^sup>* ([], HttpConnectionPool_new host vhost port is_https max_size max_alive_time max_request, h) (lent, pool', h')"
  shows "pool_account (mset (open_fds (kern h))) lent (pool', h')"
proof -
  let ?start = "([], HttpConnectionPool_new host vhost port is_https max_size max_alive_time max_request, h)" and ?M = "mset (open_fds (kern h))"
  have "pool_account ?M (fst y) (snd y)" if "pool_step\<^sup>*\<^sup>* ?start y" for y
    using that
  proof (induction rule: rtranclp_induct)
    case base
    show ?case by (simp add: pool_account_def HttpConnectionPool_new_def)
  next
    case (step y z)
    then show ?case using step_account by (metis prod.collapse)
  qed
  from this [OF assms] show ?thesis by simp
qed

text \<open>
  C38: A request through the pool is a run of these steps: it takes a connection, uses it and gives it back, so that the connections that others have are the same afterwards. When there
  is no connection to be had, nothing is given back. The result is 0 exactly when there is a response.
\<close>

theorem pool_request_steps:
  assumes "HttpConnectionPool_doRequest ce now1 now2 method url timeout_ms headers body (pool, h) = (Inr r, (pool', h'))"
  shows "pool_step\<^sup>*\<^sup>* (lent, pool, h) (lent, pool', h') \<and> 0 \<le> hr_result r \<and> (hr_result r = 0 \<longleftrightarrow> hr_response r \<noteq> None)"
proof -
  let ?req = "pool_request pool method url headers body"
  obtain c pool1 h1 where 1: "HttpConnectionPool_getConnection ce now1 (pool, h) = (Inr c, (pool1, h1))"
    using assms by (auto simp: HttpConnectionPool_doRequest_def HttpConnectionPool_doRequest_req_def the_pool_def elim!: andthen_eq_InrE)
  show ?thesis
  proof (cases c)
    case None
    then have "r = HttpResult_new POOL_GET_CONNECTION None (pool_info pool1)" "pool' = pool1" "h' = h1"
      using assms 1 by (auto simp: HttpConnectionPool_doRequest_def HttpConnectionPool_doRequest_req_def the_pool_def andthen_def)
    with pool_step.Got_none 1 None show ?thesis by (auto simp: HttpResult_new_def)
  next
    case (Some k)
    obtain k' h2 where 2: "pool_exchange ce (pool_info pool1) timeout_ms ?req k h1 = (Inr (r, k'), h2)"
      and 3: "HttpConnectionPool_ReleasePtr (ce_env ce) now2 k' (pool1, h2) = (Inr (), (pool', h'))"
      using assms 1 Some
      by (auto simp: HttpConnectionPool_doRequest_def HttpConnectionPool_doRequest_req_def the_pool_def on_hooks_def andthen_def split: prod.splits sum.splits)
    have "pool_step (lent, pool, h) (k # lent, pool1, h1)" using pool_step.Got 1 Some by blast
    moreover have "pool_step (k # lent, pool1, h1) (k' # lent, pool1, h2)" using pool_step.Used [OF 2, of "[]"] by simp
    moreover have "pool_step (k' # lent, pool1, h2) (lent, pool', h')" using pool_step.Released [OF 3, of "[]"] by simp
    moreover have "0 \<le> hr_result r \<and> (hr_result r = 0 \<longleftrightarrow> hr_response r \<noteq> None)"
      using 2 exchange_answer by (auto simp: pool_exchange_def on_session_def HttpResult_new_def andthen_def split: option.splits prod.splits sum.splits)
    ultimately show ?thesis by (meson rtranclp.rtrancl_into_rtrancl rtranclp.rtrancl_refl)
  qed
qed

text \<open>A pool whose peer closes the connection when something is sent.\<close>

definition pool_demo :: HttpConnectionPool where
  "pool_demo = HttpConnectionPool_new ''h'' [] 0 False 10 10 5"

lemma pool_demo_get:
  obtains s h where "HttpConnectionPool_getConnection client_demo 1000 (pool_demo, sock_demo False)
      = (Inr (Some (new_connection s (ce_peer client_demo))), (pool_demo\<lparr>pool_total := 1\<rparr>, h))" "m_isConnected s" "m_sock s = 5" "t_hook_enable h 0 = False"
proof -
  obtain a where a: "Address_LookupAnyIPAddress (ce_getaddrinfo client_demo) ''h'' = Some (IPv4Address a)" "sin_family a = AF_INET"
    using client_demo_address by blast
  let ?a = "IPv4Address_setPort MINGO_LITTLE_ENDIAN 80 a"
  have fam: "sin_family ?a = AF_INET" using a(2) by (simp add: IPv4Address_setPort_def)
  have e: "ce_host client_demo = MINGO_LITTLE_ENDIAN" "ce_env client_demo = sock_demo_env" by (simp_all add: client_demo_def)
  from connect_demo [OF fam] obtain s h where 1: "with_sock (Socket_connect sock_demo_env (IPv4Address ?a)) (Socket_CreateTCP (IPv4Address ?a)) (sock_demo False) = (Inr (True, s), h)"
      "m_isConnected s" "m_sock s = 5" "t_hook_enable h 0 = False" by blast
  show thesis
    by (rule that [OF _ 1(2-4)])
      (use a(1) e 1(1) in \<open>simp add: HttpConnectionPool_getConnection_def open_conn_def the_pool_def change_pool_def on_hooks_def andthen_def pool_demo_def HttpConnectionPool_new_def Let_def\<close>)
qed

theorem pool_steps_account_witness:
  "\<exists>c pool' h'. pool_step\<^sup>*\<^sup>* ([], pool_demo, sock_demo False) ([c], pool', h') \<and> pool_total pool' = 1 \<and> pool_account {#3#} [c] (pool', h')"
proof -
  obtain s h where g: "HttpConnectionPool_getConnection client_demo 1000 (pool_demo, sock_demo False)
      = (Inr (Some (new_connection s (ce_peer client_demo))), (pool_demo\<lparr>pool_total := 1\<rparr>, h))"
    using pool_demo_get by blast
  have r: "pool_step\<^sup>*\<^sup>* ([], pool_demo, sock_demo False) ([new_connection s (ce_peer client_demo)], pool_demo\<lparr>pool_total := 1\<rparr>, h)"
    using pool_step.Got [OF g, of "[]"] by blast
  have "mset (open_fds (kern (sock_demo False))) = {#3#}" by (simp add: sock_demo_def)
  then have "pool_account {#3#} [new_connection s (ce_peer client_demo)] (pool_demo\<lparr>pool_total := 1\<rparr>, h)"
    using pool_steps_account [OF r [unfolded pool_demo_def]] by (simp add: pool_demo_def)
  with r show ?thesis by (intro exI [of _ "new_connection s (ce_peer client_demo)"] exI [of _ "pool_demo\<lparr>pool_total := 1\<rparr>"] exI [of _ h]) simp
qed

lemma remote_demo:
  "\<exists>a. on_net (SocketStream_getRemoteAddressString host sock_demo_env) (HttpConnection_new (Some s), c, h) = (Inr a, (HttpConnection_new (Some s), c, h))"
  by (cases "m_remoteAddress s")
    (simp_all add: on_net_def SocketStream_getRemoteAddressString_def SocketStream_getRemoteAddress_def Socket_getRemoteAddress_def this_def andthen_def sock_demo_env_def
      HttpConnection_new_def SocketStream_new_def)

theorem pool_request_steps_witness:
  "\<exists>r pool' h'. HttpConnectionPool_doRequest client_demo 1000 1001 GET ''/'' 1000 [] [] (pool_demo, sock_demo False) = (Inr r, (pool', h'))
    \<and> length (pool_conns pool') = 1 \<and> pool_step\<^sup>*\<^sup>* ([], pool_demo, sock_demo False) ([], pool', h') \<and> hr_result r = 4 \<and> hr_response r = None"
proof -
  let ?req = "pool_request pool_demo GET ''/'' [] []"
  have t: "HttpRequest_toString ?req \<noteq> []" "length (HttpRequest_toString ?req) < 100" by code_simp+
  obtain s h1 where 1: "HttpConnectionPool_getConnection client_demo 1000 (pool_demo, sock_demo False)
      = (Inr (Some (new_connection s (ce_peer client_demo))), (pool_demo\<lparr>pool_total := 1\<rparr>, h1))" "m_isConnected s" "t_hook_enable h1 0 = False"
    using pool_demo_get by blast
  obtain h2 where 2: "with_sock (Socket_setRecvTimeout sock_demo_env (sint (1000 :: u64))) s h1 = (Inr ((), s), h2)"
    using setRecvTimeout_demo [OF 1(3)] by blast
  have e: "ce_env client_demo = sock_demo_env" by (simp add: client_demo_def)
  have n: "(HttpConnection_new (Some s))\<lparr>m_socket := Some s\<rparr> = HttpConnection_new (Some s)" "m_socket (HttpConnection_new (Some s)) = Some s"
    by (simp_all add: HttpConnection_new_def SocketStream_new_def)
  let ?c = "(ce_peer client_demo)\<lparr>wplan := []\<rparr>" and ?peer = "on_net (SocketStream_getRemoteAddressString (ce_host client_demo) sock_demo_env)"
  obtain a where a: "?peer (HttpConnection_new (Some s), ?c, h2) = (Inr a, (HttpConnection_new (Some s), ?c, h2))" using remote_demo by blast
  have x: "exchange client_demo ?peer 1000 ?req (HttpConnection_new (Some s), ce_peer client_demo, h2)
      = (Inr (HttpResult_new SEND_CLOSE_BY_PEER None (''send request closed by peer: '' @ a)), (HttpConnection_new (Some s), ?c, h2))"
    using sendRequest_refused [OF 1(2) t] a by (simp add: exchange_def andthen_def)
  obtain r c h3 where 3: "pool_exchange client_demo (pool_info (pool_demo\<lparr>pool_total := 1\<rparr>)) 1000 ?req (new_connection s (ce_peer client_demo)) h1 = (Inr (r, c), h3)"
      "hr_result r = 4" "SocketStream_isConnected (hcn_stream c)" "hcn_createTime c = 0" "hcn_request c = 0"
    using 2 e n(2) 1(2) x
    by (simp add: n(1) pool_exchange_def new_connection_def on_session_def HttpResult_new_def SocketStream_isConnected_def andthen_def)
  have 4: "\<not> hcn_createTime c + ucast (pool_maxAliveTime pool_demo) \<ge> (1001 :: u64)" "\<not> hcn_request c + 1 \<ge> ucast (pool_maxRequest pool_demo)" "pool_conns pool_demo = []"
    using 3(4,5) by (simp_all add: pool_demo_def HttpConnectionPool_new_def word_le_nat_alt)
  obtain pool' where "HttpConnectionPool_doRequest client_demo 1000 1001 GET ''/'' 1000 [] [] (pool_demo, sock_demo False) = (Inr r, (pool', h3))" "length (pool_conns pool') = 1"
    using 1(1) 3(1,3) 4
    by (simp add: HttpConnectionPool_doRequest_def HttpConnectionPool_doRequest_req_def HttpConnectionPool_ReleasePtr_def the_pool_def change_pool_def on_hooks_def andthen_def Let_def)
  with pool_request_steps [of client_demo 1000 1001 GET "''/''" 1000 "[]" "[]" pool_demo "sock_demo False" r pool' h3 "[]"] 3(2) show ?thesis by auto
qed

end
