(* ===== verification/Mingo_Env.thy ===== *)
theory Mingo_Env
  imports Mingo_Ordered Mingo_Text
begin

text \<open>
  \<^verbatim>\<open>mingo/env.cpp\<close>: the command line, the help texts and the environment of the process. The arguments are a \<open>std::map\<close>; the environment is a map that
  \<open>setenv\<close> changes. The reader of the command line is compared with a grammar of options.
\<close>

section \<open>The environment object\<close>

record Env =
  m_args :: "(string \<times> string) list"
  m_helps :: "(string \<times> string) list"
  m_program :: string

definition Env_new :: Env where
  "Env_new = \<lparr>m_args = [], m_helps = [], m_program = []\<rparr>"

definition Env_add :: "string \<Rightarrow> string \<Rightarrow> Env \<Rightarrow> Env" where
  "Env_add key val e = e\<lparr>m_args := smap_put (<) key val (m_args e)\<rparr>"

definition Env_has :: "string \<Rightarrow> Env \<Rightarrow> bool" where
  "Env_has key e \<longleftrightarrow> smap_get (<) key (m_args e) \<noteq> None"

definition Env_del :: "string \<Rightarrow> Env \<Rightarrow> Env" where
  "Env_del key e = e\<lparr>m_args := smap_del (<) key (m_args e)\<rparr>"

definition Env_get :: "string \<Rightarrow> string \<Rightarrow> Env \<Rightarrow> string" where
  "Env_get key default_value e = (case smap_get (<) key (m_args e) of Some v \<Rightarrow> v | None \<Rightarrow> default_value)"

definition Env_removeHelp :: "string \<Rightarrow> Env \<Rightarrow> Env" where
  "Env_removeHelp key e = e\<lparr>m_helps := filter (\<lambda>p. fst p \<noteq> key) (m_helps e)\<rparr>"

definition Env_addHelp :: "string \<Rightarrow> string \<Rightarrow> Env \<Rightarrow> Env" where
  "Env_addHelp key desc e = (let e1 = Env_removeHelp key e in e1\<lparr>m_helps := m_helps e1 @ [(key, desc)]\<rparr>)"

text \<open>What is printed.\<close>

definition Env_printHelp :: "Env \<Rightarrow> string" where
  "Env_printHelp e =
     ''Usage: '' @ m_program e @ '' [options]'' @ [LF] @ concat (map (\<lambda>(k, d). ''    -'' @ k @ '' : '' @ d @ [LF]) (m_helps e))"

text \<open>
  \<open>setenv\<close> refuses an empty name and a name with \<open>=\<close>; \<open>getenv\<close> reads the environment.
\<close>

definition Env_setEnv :: "string \<Rightarrow> string \<Rightarrow> (string \<rightharpoonup> string) \<Rightarrow> bool \<times> (string \<rightharpoonup> string)" where
  "Env_setEnv key val environ =
     (if c_str key = [] \<or> CHR ''='' \<in> set (c_str key) then (False, environ) else (True, environ(c_str key \<mapsto> c_str val)))"

definition Env_getEnv :: "string \<Rightarrow> string \<Rightarrow> (string \<rightharpoonup> string) \<Rightarrow> string" where
  "Env_getEnv key default_value environ = (case environ (c_str key) of None \<Rightarrow> default_value | Some v \<Rightarrow> v)"

section \<open>The command line\<close>

text \<open>The loop of \<open>init\<close>, with the key that waits for a value.\<close>

fun init_loop :: "string list \<Rightarrow> string option \<Rightarrow> Env \<Rightarrow> bool \<times> Env" where
  "init_loop [] now_key e = (True, (case now_key of Some k \<Rightarrow> Env_add k [] e | None \<Rightarrow> e))"
| "init_loop (a # argv) now_key e =
     (if a \<noteq> [] \<and> hd a = CHR ''-'' then
        if length a > 1 then init_loop argv (Some (tl a)) (case now_key of Some k \<Rightarrow> Env_add k [] e | None \<Rightarrow> e)
        else (False, e)
      else
        case now_key of
          Some k \<Rightarrow> init_loop argv None (Env_add k a e)
        | None \<Rightarrow> (False, e))"

text \<open>Without a program name \<open>argv[0]\<close> is a null pointer.\<close>

fun Env_init :: "string list \<Rightarrow> Env \<Rightarrow> bool res \<times> Env" where
  "Env_init [] e = (Inl NullDeref, e)"
| "Env_init (a # argv) e = (case init_loop argv None (e\<lparr>m_program := a\<rparr>) of (ok, e') \<Rightarrow> (Inr ok, e'))"

section \<open>The grammar of a command line\<close>

text \<open>An option is a name, not empty, with at most one value, which does not start with a hyphen.\<close>

definition option_ok :: "string \<times> string option \<Rightarrow> bool" where
  "option_ok = (\<lambda>(k, v). k \<noteq> [] \<and> (case v of None \<Rightarrow> True | Some w \<Rightarrow> w = [] \<or> hd w \<noteq> CHR ''-''))"

definition option_args :: "string \<times> string option \<Rightarrow> string list" where
  "option_args = (\<lambda>(k, v). (CHR ''-'' # k) # (case v of None \<Rightarrow> [] | Some w \<Rightarrow> [w]))"

definition add_option :: "string \<times> string option \<Rightarrow> Env \<Rightarrow> Env" where
  "add_option = (\<lambda>(k, v). Env_add k (case v of None \<Rightarrow> [] | Some w \<Rightarrow> w))"

abbreviation add_waiting :: "string option \<Rightarrow> Env \<Rightarrow> Env" where
  "add_waiting now_key e \<equiv> (case now_key of Some k \<Rightarrow> Env_add k [] e | None \<Rightarrow> e)"

lemma init_loop_options:
  "list_all option_ok os \<Longrightarrow> init_loop (concat (map option_args os)) now_key e = (True, fold add_option os (add_waiting now_key e))"
proof (induction os arbitrary: now_key e)
  case (Cons p os)
  obtain k v where o: "p = (k, v)" by (rule prod.exhaust)
  show ?case
    using Cons.prems Cons.IH [of "Some k" "add_waiting now_key e"] Cons.IH [of None "Env_add k (the v) (add_waiting now_key e)"]
    by (cases v; cases "the v") (auto simp: o option_ok_def option_args_def add_option_def)
qed simp

lemma init_loop_accepts:
  assumes "init_loop argv now_key e = (True, e')"
  shows "\<exists>os. list_all option_ok os \<and>
    (argv = concat (map option_args os) \<or> (\<exists>v. now_key \<noteq> None \<and> (v = [] \<or> hd v \<noteq> CHR ''-'') \<and> argv = v # concat (map option_args os)))"
  using assms
proof (induction argv now_key e rule: init_loop.induct)
  case (1 now_key e)
  then show ?case by (intro exI [of _ "[]"]) simp
next
  case (2 a argv now_key e)
  show ?case
  proof (cases "a \<noteq> [] \<and> hd a = CHR ''-''")
    case True
    then have l: "length a > 1" "init_loop argv (Some (tl a)) (add_waiting now_key e) = (True, e')" using "2.prems" by (auto split: if_splits)
    then have a: "a = CHR ''-'' # tl a" "tl a \<noteq> []" using True by (cases a; auto)+
    obtain os where os: "list_all option_ok os" "argv = concat (map option_args os) \<or> (\<exists>v. (v = [] \<or> hd v \<noteq> CHR ''-'') \<and> argv = v # concat (map option_args os))"
      using "2.IH"(1) [OF True l] by auto
    from os(2) consider (bare) "argv = concat (map option_args os)" | (valued) v where "v = [] \<or> hd v \<noteq> CHR ''-''" "argv = v # concat (map option_args os)" by blast
    then show ?thesis
    proof cases
      case bare
      then show ?thesis using os(1) a by (intro exI [of _ "(tl a, None) # os"]) (auto simp: option_ok_def option_args_def)
    next
      case (valued v)
      then show ?thesis using os(1) a by (intro exI [of _ "(tl a, Some v) # os"]) (auto simp: option_ok_def option_args_def)
    qed
  next
    case False
    then obtain k where k: "now_key = Some k" "init_loop argv None (Env_add k a e) = (True, e')" using "2.prems" by (auto split: option.splits)
    from "2.IH"(2) [OF False k] obtain os where "list_all option_ok os" "argv = concat (map option_args os)" by auto
    then show ?thesis using False k by auto
  qed
qed

text \<open>
  The command line. \<open>init\<close> accepts exactly the sequences of options, each a hyphen with a name and at most one value that does not start with a hyphen, and then every option is
  entered in its order, without a value as the empty text, so that the last one of a name counts.
\<close>

theorem env_init_options:
  "(fst (Env_init (program # argv) e) = Inr True \<longleftrightarrow> (\<exists>os. list_all option_ok os \<and> argv = concat (map option_args os)))
   \<and> (list_all option_ok os \<longrightarrow> Env_init (program # concat (map option_args os)) e = (Inr True, fold add_option os (e\<lparr>m_program := program\<rparr>)))"
proof -
  have "init_loop argv None e' = (True, e'') \<Longrightarrow> \<exists>os. list_all option_ok os \<and> argv = concat (map option_args os)" for e' e''
    using init_loop_accepts [of argv None] by auto
  then show ?thesis by (auto simp: init_loop_options split: prod.splits)
qed

theorem env_init_options_witness:
  "Env_init [''prog'', ''-config'', ''/etc'', ''-d''] Env_new = (Inr True, Env_add ''d'' [] (Env_add ''config'' ''/etc'' (Env_new\<lparr>m_program := ''prog''\<rparr>)))"
proof -
  have "list_all option_ok [(''config'', Some ''/etc''), (''d'', None)]" by (simp add: option_ok_def)
  moreover have "concat (map option_args [(''config'', Some ''/etc''), (''d'', None)]) = [''-config'', ''/etc'', ''-d'']" by (simp add: option_args_def)
  ultimately have "Env_init (''prog'' # [''-config'', ''/etc'', ''-d'']) Env_new
      = (Inr True, fold add_option [(''config'', Some ''/etc''), (''d'', None)] (Env_new\<lparr>m_program := ''prog''\<rparr>))"
    using env_init_options [of "''prog''" "[]" Env_new "[(''config'', Some ''/etc''), (''d'', None)]"] by metis
  then show ?thesis by (simp add: add_option_def)
qed

end
