(* ===== verification/Mingo_Log.thy ===== *)
theory Mingo_Log
  imports Mingo_Ordered Mingo_Text
begin

text \<open>
  \<^verbatim>\<open>mingo/log.cpp\<close>: the language of format patterns, loggers with their appenders, and the manager of the loggers. Appenders are shared objects, so that they live in a heap and
  loggers hold their indices; a logger is named by its key in the manager. Console and files are texts. What \<open>strftime\<close> makes of a time and whether a file can be opened
  are arguments. A logger and an appender hold a spin lock while they write, so that taking one of them again does not return.
\<close>

section \<open>Levels and events\<close>

text \<open>A level is a number: the listener of the configuration also uses 800.\<close>

type_synonym level = int

abbreviation UNKNOW :: level where "UNKNOW \<equiv> 0"
abbreviation DEBUG :: level where "DEBUG \<equiv> 1"
abbreviation INFO :: level where "INFO \<equiv> 2"
abbreviation WARN :: level where "WARN \<equiv> 3"
abbreviation ERROR :: level where "ERROR \<equiv> 4"
abbreviation FATAL :: level where "FATAL \<equiv> 5"

definition levelToString :: "level \<Rightarrow> string" where
  "levelToString level =
     (if level = DEBUG then ''DEBUG'' else if level = INFO then ''INFO'' else if level = WARN then ''WARN''
      else if level = ERROR then ''ERROR'' else if level = FATAL then ''FATAL'' else ''UNKNOW'')"

definition stringToLevel :: "string \<Rightarrow> level" where
  "stringToLevel str =
     (if str = ''fatal'' then FATAL else if str = ''error'' then ERROR else if str = ''warn'' then WARN else if str = ''info'' then INFO
      else if str = ''debug'' then DEBUG else if str = ''FATAL'' then FATAL else if str = ''ERROR'' then ERROR else if str = ''WARN'' then WARN
      else if str = ''INFO'' then INFO else if str = ''DEBUG'' then DEBUG else UNKNOW)"

record LogEvent =
  ev_file :: string
  ev_level :: level
  ev_line :: u32
  ev_elapse :: u32
  ev_threadId :: u32
  ev_fiberId :: u32
  ev_time :: u32
  ev_content :: string
  ev_threadName :: string

definition LogEvent_new :: "string \<Rightarrow> u32 \<Rightarrow> u32 \<Rightarrow> u32 \<Rightarrow> u32 \<Rightarrow> string \<Rightarrow> level \<Rightarrow> string \<Rightarrow> LogEvent" where
  "LogEvent_new filename line thread_id fiber_id time content level thread_name =
     \<lparr>ev_file = filename, ev_level = level, ev_line = line, ev_elapse = 0, ev_threadId = thread_id, ev_fiberId = fiber_id, ev_time = time,
      ev_content = content, ev_threadName = thread_name\<rparr>"

section \<open>Formatters\<close>

datatype FormatItem =
    PlainFormatItem string
  | LevelFormatItem
  | NameFormatItem
  | FilenameFormatItem
  | LineFormatItem
  | ThreadIdFormatItem
  | FiberIdFormatItem
  | TimeFormatItem string
  | ContentFormatItem
  | NewLineFormatItem
  | PercentSignFormatItem
  | TabFormatItem
  | ThreadNameFormatItem

fun FormatItem_format :: "(string \<Rightarrow> u32 \<Rightarrow> string) \<Rightarrow> string \<Rightarrow> LogEvent \<Rightarrow> FormatItem \<Rightarrow> string" where
  "FormatItem_format strftime name ev (PlainFormatItem s) = s"
| "FormatItem_format strftime name ev LevelFormatItem = levelToString (ev_level ev)"
| "FormatItem_format strftime name ev NameFormatItem = name"
| "FormatItem_format strftime name ev FilenameFormatItem = ev_file ev"
| "FormatItem_format strftime name ev LineFormatItem = dec (unat (ev_line ev))"
| "FormatItem_format strftime name ev ThreadIdFormatItem = dec (unat (ev_threadId ev))"
| "FormatItem_format strftime name ev FiberIdFormatItem = dec (unat (ev_fiberId ev))"
| "FormatItem_format strftime name ev (TimeFormatItem pattern) = strftime pattern (ev_time ev)"
| "FormatItem_format strftime name ev ContentFormatItem = ev_content ev"
| "FormatItem_format strftime name ev NewLineFormatItem = [LF]"
| "FormatItem_format strftime name ev PercentSignFormatItem = ''%''"
| "FormatItem_format strftime name ev TabFormatItem = [CHR 0x09]"
| "FormatItem_format strftime name ev ThreadNameFormatItem = ev_threadName ev"

definition TimeFormatItem_new :: "string \<Rightarrow> FormatItem" where
  "TimeFormatItem_new str = TimeFormatItem (if str = [] then ''%Y-%m-%d %H:%M:%S'' else str)"

definition format_item_map :: "char \<Rightarrow> FormatItem option" where
  "format_item_map = map_of
     [(CHR ''p'', LevelFormatItem), (CHR ''f'', FilenameFormatItem), (CHR ''l'', LineFormatItem), (CHR ''d'', TimeFormatItem_new ''%Y-%m-%d %H:%M:%S''),
      (CHR ''t'', ThreadIdFormatItem), (CHR ''F'', FiberIdFormatItem), (CHR ''m'', ContentFormatItem), (CHR ''n'', NewLineFormatItem),
      (CHR ''%'', PercentSignFormatItem), (CHR ''T'', TabFormatItem), (CHR ''c'', NameFormatItem), (CHR ''N'', ThreadNameFormatItem)]"

record LogFormatter =
  fm_pattern :: string
  fm_items :: "FormatItem list"
  fm_error :: bool

text \<open>The inner loop: where the next percent sign is, or the end.\<close>

definition scan_end :: "string \<Rightarrow> nat \<Rightarrow> nat" where
  "scan_end p i = i + length (takeWhile (\<lambda>c. c \<noteq> CHR ''%'') (drop i p))"

text \<open>The loop of \<open>init\<close>: the status (whether a percent sign was read), the position and the items so far.\<close>

function init_items :: "string \<Rightarrow> bool \<Rightarrow> nat \<Rightarrow> FormatItem list \<Rightarrow> FormatItem list \<times> bool" where
  "init_items p create i items =
     (if i < length p then
        if \<not> create then
          let str_end = scan_end p i in
          init_items p (str_end < length p) (Suc str_end) (items @ [PlainFormatItem (take (str_end - i) (drop i p))])
        else
          case format_item_map (p ! i) of
            None \<Rightarrow> (items, True)
          | Some item \<Rightarrow> init_items p False (Suc i) (items @ [item])
      else (items, False))"
  by pat_completeness auto
termination
  by (relation "measure (\<lambda>(p, create, i, items). length p - i)") (auto simp: scan_end_def)

declare init_items.simps [simp del]

definition LogFormatter_new :: "string \<Rightarrow> LogFormatter" where
  "LogFormatter_new pattern = (case init_items pattern False 0 [] of (items, err) \<Rightarrow> \<lparr>fm_pattern = pattern, fm_items = items, fm_error = err\<rparr>)"

definition LogFormatter_format :: "(string \<Rightarrow> u32 \<Rightarrow> string) \<Rightarrow> string \<Rightarrow> LogEvent \<Rightarrow> LogFormatter \<Rightarrow> string" where
  "LogFormatter_format strftime name ev f = concat (map (FormatItem_format strftime name ev) (fm_items f))"

section \<open>What a pattern means\<close>

text \<open>
  A pattern is right when every percent sign but a last one is followed by a known letter. Its meaning: a percent sign with its letter stands for a part of the event, any other character
  for itself, and a percent sign at the end for nothing.
\<close>

fun pattern_ok :: "string \<Rightarrow> bool" where
  "pattern_ok [] = True"
| "pattern_ok [c] = True"
| "pattern_ok (c # d # s) = (if c = CHR ''%'' then format_item_map d \<noteq> None \<and> pattern_ok s else pattern_ok (d # s))"

fun render :: "(FormatItem \<Rightarrow> string) \<Rightarrow> string \<Rightarrow> string" where
  "render fmt [] = []"
| "render fmt [c] = (if c = CHR ''%'' then [] else [c])"
| "render fmt (c # d # s) =
     (if c = CHR ''%'' then (case format_item_map d of Some item \<Rightarrow> fmt item | None \<Rightarrow> []) @ render fmt s else c # render fmt (d # s))"

lemma plain_prefix:
  assumes "CHR ''%'' \<notin> set w"
  shows "pattern_ok (w @ t) = pattern_ok t" "render fmt (w @ t) = w @ render fmt t"
proof -
  have step: "pattern_ok (c # s) = pattern_ok s" "render fmt (c # s) = c # render fmt s" if "c \<noteq> CHR ''%''" for c s
    using that by (cases s; simp)+
  show "pattern_ok (w @ t) = pattern_ok t" using assms by (induction w) (auto simp: step(1))
  show "render fmt (w @ t) = w @ render fmt t" using assms by (induction w) (auto simp: step(2))
qed

text \<open>What the loop has still to read: a percent sign that was read is put back.\<close>

definition pending :: "string \<Rightarrow> bool \<Rightarrow> nat \<Rightarrow> string" where
  "pending p create i = (if create then CHR ''%'' # drop i p else drop i p)"

lemma init_items_meaning:
  assumes "\<And>w. fmt (PlainFormatItem w) = w"
  shows "init_items p create i items = (items', err) \<Longrightarrow>
    \<exists>new. items' = items @ new \<and> err = (\<not> pattern_ok (pending p create i)) \<and> (\<not> err \<longrightarrow> concat (map fmt new) = render fmt (pending p create i))"
proof (induction p create i items rule: init_items.induct)
  case (1 p create i items)
  show ?case
  proof (cases "i < length p")
    case False
    then show ?thesis using "1.prems" by (auto simp: init_items.simps [of p create i] pending_def)
  next
    case i: True
    show ?thesis
    proof (cases create)
      case False
      let ?e = "scan_end p i" and ?w = "takeWhile (\<lambda>c. c \<noteq> CHR ''%'') (drop i p)"
      have w: "take (?e - i) (drop i p) = ?w" by (simp add: scan_end_def takeWhile_eq_take [symmetric])
      have nw: "CHR ''%'' \<notin> set ?w" by (auto dest: set_takeWhileD)
      have split: "drop i p = ?w @ pending p (?e < length p) (Suc ?e)"
      proof (cases "?e < length p")
        case True
        then have "drop ?e p = p ! ?e # drop (Suc ?e) p" by (simp add: Cons_nth_drop_Suc)
        moreover have "drop ?e p = dropWhile (\<lambda>c. c \<noteq> CHR ''%'') (drop i p)"
          by (simp add: scan_end_def dropWhile_eq_drop add.commute)
        ultimately have "p ! ?e = CHR ''%''" "dropWhile (\<lambda>c. c \<noteq> CHR ''%'') (drop i p) = CHR ''%'' # drop (Suc ?e) p"
          using hd_dropWhile [of "\<lambda>c. c \<noteq> CHR ''%''" "drop i p"] by auto
        then show ?thesis using True takeWhile_dropWhile_id [of "\<lambda>c. c \<noteq> CHR ''%''" "drop i p"] by (simp add: pending_def)
      next
        case False
        then have "length ?w \<ge> length (drop i p)" by (simp add: scan_end_def)
        then have "?w = drop i p" using length_takeWhile_le [of "\<lambda>c. c \<noteq> CHR ''%''" "drop i p"] by (metis append_Nil2 append_eq_conv_conj takeWhile_eq_take take_all)
        moreover have "pending p (?e < length p) (Suc ?e) = []" using False by (simp add: pending_def)
        ultimately show ?thesis by (metis append_Nil2)
      qed
      have "init_items p (?e < length p) (Suc ?e) (items @ [PlainFormatItem ?w]) = (items', err)"
        using "1.prems" i False w by (simp add: init_items.simps [of p False i] Let_def)
      from "1.IH"(1) [OF i _ refl] this False w obtain new where n: "items' = (items @ [PlainFormatItem ?w]) @ new"
          "err = (\<not> pattern_ok (pending p (?e < length p) (Suc ?e)))" "\<not> err \<longrightarrow> concat (map fmt new) = render fmt (pending p (?e < length p) (Suc ?e))"
        by auto
      have q: "pending p create i = ?w @ pending p (?e < length p) (Suc ?e)" using split False pending_def [of p create i] by simp
      have "pattern_ok (pending p create i) = pattern_ok (pending p (?e < length p) (Suc ?e))"
        "render fmt (pending p create i) = ?w @ render fmt (pending p (?e < length p) (Suc ?e))"
        unfolding q using nw by (rule plain_prefix)+
      then show ?thesis using n assms by (intro exI [of _ "PlainFormatItem ?w # new"]) simp
    next
      case True
      have d: "drop i p = p ! i # drop (Suc i) p" using i by (simp add: Cons_nth_drop_Suc)
      show ?thesis
      proof (cases "format_item_map (p ! i)")
        case None
        then show ?thesis using "1.prems" True i d by (auto simp: init_items.simps [of p True i] pending_def)
      next
        case (Some item)
        then have "init_items p False (Suc i) (items @ [item]) = (items', err)" using "1.prems" True i by (simp add: init_items.simps [of p True i])
        from "1.IH"(2) [OF i _ Some this] True obtain new where "items' = (items @ [item]) @ new" "err = (\<not> pattern_ok (drop (Suc i) p))"
            "\<not> err \<longrightarrow> concat (map fmt new) = render fmt (drop (Suc i) p)"
          by (auto simp: pending_def)
        then show ?thesis using True Some d by (intro exI [of _ "item # new"]) (simp add: pending_def)
      qed
    qed
  qed
qed

text \<open>
  C39: The format language. A formatter has an error exactly when a percent sign of its pattern is followed by an unknown letter; without one, formatting an event gives the meaning of the
  pattern, as the recursive definition of the language states it.
\<close>

theorem log_format_meaning:
  "fm_error (LogFormatter_new pattern) = (\<not> pattern_ok pattern) \<and>
   (pattern_ok pattern \<longrightarrow> LogFormatter_format strftime name ev (LogFormatter_new pattern) = render (FormatItem_format strftime name ev) pattern)"
proof -
  obtain items err where i: "init_items pattern False 0 [] = (items, err)" by (rule prod.exhaust)
  from init_items_meaning [OF _ this, of "FormatItem_format strftime name ev"] show ?thesis
    by (auto simp: LogFormatter_new_def LogFormatter_format_def i pending_def)
qed

definition event_demo :: LogEvent where
  "event_demo = LogEvent_new ''a.cpp'' 7 1 2 0 ''hello'' WARN ''main''"

theorem log_format_meaning_witness:
  "LogFormatter_format (\<lambda>_ _. ''now'') ''system'' event_demo (LogFormatter_new ''[%d] [%p] <%f: %l> 100%% %m'') = ''[now] [WARN] <a.cpp: 7> 100% hello''"
proof -
  have "pattern_ok ''[%d] [%p] <%f: %l> 100%% %m''" by code_simp
  moreover have "render (FormatItem_format (\<lambda>_ _. ''now'') ''system'' event_demo) ''[%d] [%p] <%f: %l> 100%% %m'' = ''[now] [WARN] <a.cpp: 7> 100% hello''" by code_simp
  ultimately show ?thesis using log_format_meaning [of "''[%d] [%p] <%f: %l> 100%% %m''" "\<lambda>_ _. ''now''" "''system''" event_demo] by simp
qed

end
