(* ===== verification/Mingo_Logger.thy ===== *)
theory Mingo_Logger
  imports Mingo_Log
begin

text \<open>
  Loggers, appenders and the manager of \<^verbatim>\<open>mingo/log.cpp\<close>, and what becomes of an event that is logged.
\<close>

section \<open>The objects\<close>

datatype AppenderType = StdoutLogAppender | FileLogAppender string

record LogAppender =
  ap_type :: AppenderType
  ap_formatter :: "LogFormatter option"
  ap_level :: level
  ap_open :: bool

record Logger =
  lg_name :: string
  lg_level :: level
  lg_format_pattern :: string
  lg_formatter :: "LogFormatter option"
  lg_appenders :: "nat list"

record log_world =
  lw_loggers :: "(string \<times> Logger) list"
  lw_appenders :: "LogAppender list"
  lw_out :: string
  lw_files :: "string \<Rightarrow> string"

record log_sys =
  ls_strftime :: "string \<Rightarrow> u32 \<Rightarrow> string"
  ls_can_open :: "string \<Rightarrow> bool"

type_synonym 'a log_oper = "(log_world, 'a) oper"

abbreviation default_pattern :: string where
  "default_pattern \<equiv> ''[%d] [%p] [%c] <%f: %l> [%N] [T:%t F:%F]%T%m%n''"

definition Logger_new :: "string \<Rightarrow> level \<Rightarrow> string \<Rightarrow> Logger" where
  "Logger_new name level pattern =
     \<lparr>lg_name = name, lg_level = level, lg_format_pattern = pattern, lg_formatter = Some (LogFormatter_new pattern), lg_appenders = []\<rparr>"

definition Logger_default :: Logger where
  "Logger_default = Logger_new ''default'' DEBUG default_pattern"

definition Logger_named :: "string \<Rightarrow> Logger" where
  "Logger_named name = Logger_new name DEBUG default_pattern"

text \<open>Access to the heap: a null pointer when there is no such logger.\<close>

definition the_logger :: "string \<Rightarrow> Logger log_oper" where
  "the_logger name = (\<lambda>w. (case smap_get (<) name (lw_loggers w) of Some lg \<Rightarrow> Inr lg | None \<Rightarrow> Inl NullDeref, w))"

definition put_logger :: "string \<Rightarrow> Logger \<Rightarrow> unit log_oper" where
  "put_logger name lg = (\<lambda>w. (Inr (), w\<lparr>lw_loggers := smap_put (<) name lg (lw_loggers w)\<rparr>))"

definition the_appender :: "nat \<Rightarrow> LogAppender log_oper" where
  "the_appender i = (\<lambda>w. (if i < length (lw_appenders w) then Inr (lw_appenders w ! i) else Inl BadMemory, w))"

definition put_appender :: "nat \<Rightarrow> LogAppender \<Rightarrow> unit log_oper" where
  "put_appender i a = (\<lambda>w. (Inr (), w\<lparr>lw_appenders := (lw_appenders w)[i := a]\<rparr>))"

section \<open>Appenders\<close>

definition LogAppender_new :: "AppenderType \<Rightarrow> level \<Rightarrow> nat log_oper" where
  "LogAppender_new type level = (\<lambda>w.
     (Inr (length (lw_appenders w)), w\<lparr>lw_appenders := lw_appenders w @ [\<lparr>ap_type = type, ap_formatter = None, ap_level = level, ap_open = False\<rparr>]\<rparr>))"

definition StdoutLogAppender_new :: "level \<Rightarrow> nat log_oper" where
  "StdoutLogAppender_new level = LogAppender_new StdoutLogAppender level"

definition FileLogAppender_reopen :: "log_sys \<Rightarrow> nat \<Rightarrow> bool log_oper" where
  "FileLogAppender_reopen sys i =
     andthen (the_appender i) (\<lambda>a.
       case ap_type a of
         StdoutLogAppender \<Rightarrow> ret False
       | FileLogAppender f \<Rightarrow> andthen (put_appender i (a\<lparr>ap_open := ls_can_open sys f\<rparr>)) (\<lambda>_. ret (ls_can_open sys f)))"

definition FileLogAppender_new :: "log_sys \<Rightarrow> string \<Rightarrow> level \<Rightarrow> nat log_oper" where
  "FileLogAppender_new sys file_name level =
     andthen (LogAppender_new (FileLogAppender file_name) level) (\<lambda>i. andthen (FileLogAppender_reopen sys i) (\<lambda>_. ret i))"

definition LogAppender_getFormatter :: "nat \<Rightarrow> LogFormatter option log_oper" where
  "LogAppender_getFormatter i = andthen (the_appender i) (\<lambda>a. ret (ap_formatter a))"

definition LogAppender_setFormatter :: "nat \<Rightarrow> LogFormatter option \<Rightarrow> unit log_oper" where
  "LogAppender_setFormatter i f = andthen (the_appender i) (\<lambda>a. put_appender i (a\<lparr>ap_formatter := f\<rparr>))"

definition LogAppender_setLevel :: "nat \<Rightarrow> level \<Rightarrow> unit log_oper" where
  "LogAppender_setLevel i level = andthen (the_appender i) (\<lambda>a. put_appender i (a\<lparr>ap_level := level\<rparr>))"

text \<open>Output: a file that could not be opened swallows it.\<close>

definition emit_text :: "LogAppender \<Rightarrow> string \<Rightarrow> unit log_oper" where
  "emit_text a s = (\<lambda>w. (Inr (),
     case ap_type a of
       StdoutLogAppender \<Rightarrow> w\<lparr>lw_out := lw_out w @ s\<rparr>
     | FileLogAppender f \<Rightarrow> if ap_open a then w\<lparr>lw_files := (lw_files w)(f := lw_files w f @ s)\<rparr> else w))"

fun type_name :: "AppenderType \<Rightarrow> string" where
  "type_name StdoutLogAppender = ''StdoutLogAppender''"
| "type_name (FileLogAppender f) = ''FileLogAppender''"

text \<open>
  \<open>log\<close> of an appender, which gives the event back: with an erroneous formatter its content is changed and the global logger is asked. The lock of one appender may be held already.
\<close>

definition LogAppender_log :: "log_sys \<Rightarrow> nat option \<Rightarrow> (LogEvent \<Rightarrow> LogEvent log_oper) \<Rightarrow> nat \<Rightarrow> string \<Rightarrow> level \<Rightarrow> LogEvent \<Rightarrow> LogEvent log_oper" where
  "LogAppender_log sys held global_log i name level ev =
     andthen (the_appender i) (\<lambda>a.
       if level \<ge> ap_level a then
         if held = Some i then raise NoReturn
         else
           case ap_formatter a of
             None \<Rightarrow> raise NullDeref
           | Some f \<Rightarrow>
               if \<not> fm_error f then andthen (emit_text a (LogFormatter_format (ls_strftime sys) name ev f)) (\<lambda>_. ret ev)
               else global_log (ev\<lparr>ev_content := ev_content ev @ '' logger: '' @ name @ '' '' @ type_name (ap_type a) @ '' formatter error. ''\<rparr>)
       else ret ev)"

section \<open>Loggers\<close>

fun log_appenders :: "log_sys \<Rightarrow> nat option \<Rightarrow> (nat \<Rightarrow> LogEvent \<Rightarrow> LogEvent log_oper) \<Rightarrow> nat list \<Rightarrow> string \<Rightarrow> LogEvent \<Rightarrow> LogEvent log_oper" where
  "log_appenders sys held global_log [] name ev = ret ev"
| "log_appenders sys held global_log (i # ids) name ev =
     andthen (LogAppender_log sys held (global_log i) i name (ev_level ev) ev) (\<lambda>ev'. log_appenders sys held global_log ids name ev')"

text \<open>The global logger, called by an appender of another logger: its own lock is free unless it is the caller, and then it cannot be called again.\<close>

definition global_log :: "log_sys \<Rightarrow> string \<Rightarrow> nat \<Rightarrow> LogEvent \<Rightarrow> LogEvent log_oper" where
  "global_log sys caller i ev =
     andthen (the_logger ''global'') (\<lambda>g.
       if ev_level ev \<ge> lg_level g then
         if caller = ''global'' then raise NoReturn
         else log_appenders sys (Some i) (\<lambda>_ _. raise NoReturn) (lg_appenders g) (lg_name g) ev
       else ret ev)"

definition Logger_log :: "log_sys \<Rightarrow> string \<Rightarrow> LogEvent \<Rightarrow> LogEvent log_oper" where
  "Logger_log sys name ev =
     andthen (the_logger name) (\<lambda>lg.
       if ev_level ev \<ge> lg_level lg then log_appenders sys None (global_log sys name) (lg_appenders lg) (lg_name lg) ev else ret ev)"

definition Logger_debug :: "log_sys \<Rightarrow> string \<Rightarrow> LogEvent \<Rightarrow> LogEvent log_oper" where
  "Logger_debug sys name ev = Logger_log sys name (ev\<lparr>ev_level := DEBUG\<rparr>)"

definition Logger_info :: "log_sys \<Rightarrow> string \<Rightarrow> LogEvent \<Rightarrow> LogEvent log_oper" where
  "Logger_info sys name ev = Logger_log sys name (ev\<lparr>ev_level := INFO\<rparr>)"

definition Logger_warn :: "log_sys \<Rightarrow> string \<Rightarrow> LogEvent \<Rightarrow> LogEvent log_oper" where
  "Logger_warn sys name ev = Logger_log sys name (ev\<lparr>ev_level := WARN\<rparr>)"

definition Logger_error :: "log_sys \<Rightarrow> string \<Rightarrow> LogEvent \<Rightarrow> LogEvent log_oper" where
  "Logger_error sys name ev = Logger_log sys name (ev\<lparr>ev_level := ERROR\<rparr>)"

definition Logger_fatal :: "log_sys \<Rightarrow> string \<Rightarrow> LogEvent \<Rightarrow> LogEvent log_oper" where
  "Logger_fatal sys name ev = Logger_log sys name (ev\<lparr>ev_level := FATAL\<rparr>)"

definition Logger_setLevel :: "string \<Rightarrow> level \<Rightarrow> unit log_oper" where
  "Logger_setLevel name level = andthen (the_logger name) (\<lambda>lg. put_logger name (lg\<lparr>lg_level := level\<rparr>))"

definition Logger_setFormatter_ptr :: "string \<Rightarrow> LogFormatter option \<Rightarrow> unit log_oper" where
  "Logger_setFormatter_ptr name val = andthen (the_logger name) (\<lambda>lg. put_logger name (lg\<lparr>lg_formatter := val\<rparr>))"

text \<open>A pattern with an error is reported and not used.\<close>

definition Logger_setFormatter :: "string \<Rightarrow> string \<Rightarrow> unit log_oper" where
  "Logger_setFormatter name val =
     (if fm_error (LogFormatter_new val) then andthen (the_logger name) (\<lambda>_. ret ()) else Logger_setFormatter_ptr name (Some (LogFormatter_new val)))"

definition Logger_getFormatter :: "string \<Rightarrow> LogFormatter option log_oper" where
  "Logger_getFormatter name = andthen (the_logger name) (\<lambda>lg. ret (lg_formatter lg))"

definition Logger_addAppender :: "string \<Rightarrow> nat \<Rightarrow> unit log_oper" where
  "Logger_addAppender name i =
     andthen (the_logger name) (\<lambda>lg.
     andthen (the_appender i) (\<lambda>a.
     andthen (if ap_formatter a = None then LogAppender_setFormatter i (lg_formatter lg) else ret ()) (\<lambda>_.
     put_logger name (lg\<lparr>lg_appenders := lg_appenders lg @ [i]\<rparr>))))"

definition Logger_delAppender :: "string \<Rightarrow> nat \<Rightarrow> unit log_oper" where
  "Logger_delAppender name i = andthen (the_logger name) (\<lambda>lg. put_logger name (lg\<lparr>lg_appenders := remove1 i (lg_appenders lg)\<rparr>))"

definition Logger_clearAppenders :: "string \<Rightarrow> unit log_oper" where
  "Logger_clearAppenders name = andthen (the_logger name) (\<lambda>lg. put_logger name (lg\<lparr>lg_appenders := []\<rparr>))"

section \<open>The manager\<close>

text \<open>A new logger with an appender to the console, entered under its name.\<close>

definition enter_logger :: "Logger \<Rightarrow> unit log_oper" where
  "enter_logger lg =
     andthen (put_logger (lg_name lg) lg) (\<lambda>_.
     andthen (StdoutLogAppender_new DEBUG) (\<lambda>i. Logger_addAppender (lg_name lg) i))"

definition LoggerManager_new :: "(string \<Rightarrow> string) \<Rightarrow> log_world" where
  "LoggerManager_new files = snd (enter_logger (Logger_new ''global'' DEBUG default_pattern) \<lparr>lw_loggers = [], lw_appenders = [], lw_out = [], lw_files = files\<rparr>)"

definition LoggerManager_getLogger :: "string \<Rightarrow> string log_oper" where
  "LoggerManager_getLogger name = (\<lambda>w.
     case smap_get (<) name (lw_loggers w) of
       Some _ \<Rightarrow> (Inr name, w)
     | None \<Rightarrow> andthen (enter_logger (Logger_named name)) (\<lambda>_. ret name) w)"

section \<open>Delivery\<close>

text \<open>What the appenders of a list write of an event, those that satisfy a condition, in their order.\<close>

definition written :: "log_sys \<Rightarrow> string \<Rightarrow> LogEvent \<Rightarrow> (LogAppender \<Rightarrow> bool) \<Rightarrow> LogAppender list \<Rightarrow> string" where
  "written sys name ev P as =
     concat (map (\<lambda>a. LogFormatter_format (ls_strftime sys) name ev (the (ap_formatter a))) (filter (\<lambda>a. ap_level a \<le> ev_level ev \<and> P a) as))"

definition sound_appender :: "log_world \<Rightarrow> nat \<Rightarrow> bool" where
  "sound_appender w i \<longleftrightarrow> i < length (lw_appenders w) \<and> (case ap_formatter (lw_appenders w ! i) of None \<Rightarrow> False | Some f \<Rightarrow> \<not> fm_error f)"

abbreviation appenders_at :: "log_world \<Rightarrow> nat list \<Rightarrow> LogAppender list" where
  "appenders_at w ids \<equiv> map (\<lambda>i. lw_appenders w ! i) ids"

definition delivered :: "log_sys \<Rightarrow> string \<Rightarrow> LogEvent \<Rightarrow> nat list \<Rightarrow> log_world \<Rightarrow> log_world" where
  "delivered sys name ev ids w =
     w\<lparr>lw_out := lw_out w @ written sys name ev (\<lambda>a. ap_type a = StdoutLogAppender) (appenders_at w ids),
       lw_files := (\<lambda>f. lw_files w f @ written sys name ev (\<lambda>a. ap_type a = FileLogAppender f \<and> ap_open a) (appenders_at w ids))\<rparr>"

lemma LogAppender_log_sound:
  assumes "sound_appender w i"
  shows "LogAppender_log sys None g i name (ev_level ev) ev w = (Inr ev, delivered sys name ev [i] w)"
  using assms
  by (auto simp: LogAppender_log_def sound_appender_def the_appender_def emit_text_def andthen_def delivered_def written_def fun_eq_iff
      split: option.splits AppenderType.splits)

lemma written_Cons: "written sys name ev P (a # as) = written sys name ev P [a] @ written sys name ev P as"
  by (simp add: written_def)

lemma delivered_Cons: "delivered sys name ev ids (delivered sys name ev [i] w) = delivered sys name ev (i # ids) w"
  using written_Cons [of sys name ev _ "lw_appenders w ! i" "appenders_at w ids"] by (simp add: delivered_def)

lemma log_appenders_sound:
  "list_all (sound_appender w) ids \<Longrightarrow> log_appenders sys None g ids name ev w = (Inr ev, delivered sys name ev ids w)"
proof (induction ids arbitrary: w)
  case Nil
  then show ?case by (simp add: delivered_def written_def)
next
  case (Cons i ids)
  have "list_all (sound_appender (delivered sys name ev [i] w)) ids" using Cons.prems by (simp add: list_all_iff sound_appender_def delivered_def)
  then show ?case using Cons LogAppender_log_sound [of w i] by (simp add: andthen_def delivered_Cons)
qed

text \<open>
  Delivery of an event. Logging through a logger whose appenders have right formatters returns, leaves the event as it is, and writes its text, made with the formatter of each appender,
  exactly once to the console or the open file of every appender whose level is not above that of the event, in the order of the appenders, and nothing anywhere else; below the level of
  the logger nothing happens at all.
\<close>

theorem log_delivers:
  assumes "smap_get (<) name (lw_loggers w) = Some lg" and "list_all (sound_appender w) (lg_appenders lg)"
  shows "Logger_log sys name ev w = (Inr ev, if lg_level lg \<le> ev_level ev then delivered sys (lg_name lg) ev (lg_appenders lg) w else w)"
  using assms log_appenders_sound by (simp add: Logger_log_def the_logger_def andthen_def)

section \<open>Reachable worlds\<close>

text \<open>Every logger knows its name and has a formatter, and every appender of a logger exists and has a formatter.\<close>

definition log_wf :: "log_world \<Rightarrow> bool" where
  "log_wf w \<longleftrightarrow> smap_get (<) ''global'' (lw_loggers w) \<noteq> None \<and> std_less.ord (map fst (lw_loggers w)) \<and>
     (\<forall>name lg. smap_get (<) name (lw_loggers w) = Some lg \<longrightarrow> lg_name lg = name \<and> lg_formatter lg \<noteq> None \<and>
        (\<forall>i \<in> set (lg_appenders lg). i < length (lw_appenders w) \<and> ap_formatter (lw_appenders w ! i) \<noteq> None))"

datatype log_op =
    GetLogger string
  | NewStdout level
  | NewFile string level
  | AppenderFormatter nat string
  | AppenderLevel nat level
  | Reopen nat
  | SetLevel string level
  | SetFormatter string string
  | SetFormatterPtr string string
  | AddAppender string nat
  | DelAppender string nat
  | ClearAppenders string
  | Log string LogEvent

fun run_log_op :: "log_sys \<Rightarrow> log_op \<Rightarrow> unit log_oper" where
  "run_log_op sys (GetLogger name) = andthen (LoggerManager_getLogger name) (\<lambda>_. ret ())"
| "run_log_op sys (NewStdout level) = andthen (StdoutLogAppender_new level) (\<lambda>_. ret ())"
| "run_log_op sys (NewFile file level) = andthen (FileLogAppender_new sys file level) (\<lambda>_. ret ())"
| "run_log_op sys (AppenderFormatter i pattern) = LogAppender_setFormatter i (Some (LogFormatter_new pattern))"
| "run_log_op sys (AppenderLevel i level) = LogAppender_setLevel i level"
| "run_log_op sys (Reopen i) = andthen (FileLogAppender_reopen sys i) (\<lambda>_. ret ())"
| "run_log_op sys (SetLevel name level) = Logger_setLevel name level"
| "run_log_op sys (SetFormatter name pattern) = Logger_setFormatter name pattern"
| "run_log_op sys (SetFormatterPtr name pattern) = Logger_setFormatter_ptr name (Some (LogFormatter_new pattern))"
| "run_log_op sys (AddAppender name i) = Logger_addAppender name i"
| "run_log_op sys (DelAppender name i) = Logger_delAppender name i"
| "run_log_op sys (ClearAppenders name) = Logger_clearAppenders name"
| "run_log_op sys (Log name ev) = andthen (Logger_log sys name ev) (\<lambda>_. ret ())"

text \<open>A run of operations, each with its own answers of the system; an operation that fails keeps what it did before.\<close>

definition log_run :: "(log_sys \<times> log_op) list \<Rightarrow> log_world \<Rightarrow> log_world" where
  "log_run ops w = fold (\<lambda>(sys, op) w. snd (run_log_op sys op w)) ops w"

abbreviation has_formatter :: "log_world \<Rightarrow> nat \<Rightarrow> bool" where
  "has_formatter w i \<equiv> i < length (lw_appenders w) \<and> ap_formatter (lw_appenders w ! i) \<noteq> None"

abbreviation logger_at :: "log_world \<Rightarrow> string \<Rightarrow> Logger option" where
  "logger_at w name \<equiv> smap_get (<) name (lw_loggers w)"

lemma logger_at_put: "log_wf w \<Longrightarrow> logger_at (w\<lparr>lw_loggers := smap_put (<) name lg (lw_loggers w)\<rparr>) n = (if n = name then Some lg else logger_at w n)"
  by (simp add: log_wf_def std_less.smap_get_put)

lemma put_logger_wf:
  assumes "log_wf w" and "lg_name lg = name" and "lg_formatter lg \<noteq> None" and "\<forall>i \<in> set (lg_appenders lg). has_formatter w i"
  shows "log_wf (snd (put_logger name lg w))"
  using assms unfolding log_wf_def put_logger_def by (auto simp: std_less.smap_get_put std_less.ord_smap_put)

lemma put_appender_wf:
  assumes "log_wf w" and "ap_formatter (lw_appenders w ! i) \<noteq> None \<longrightarrow> ap_formatter a \<noteq> None"
  shows "log_wf (snd (put_appender i a w))"
proof -
  have "has_formatter (snd (put_appender i a w)) j" if "has_formatter w j" for j
    using that assms(2) by (cases "j = i") (auto simp: put_appender_def)
  then show ?thesis using assms(1) unfolding log_wf_def by (auto simp: put_appender_def)
qed

lemma log_wf_cong: "log_wf w \<Longrightarrow> lw_loggers w' = lw_loggers w \<Longrightarrow> lw_appenders w' = lw_appenders w \<Longrightarrow> log_wf w'"
  by (simp add: log_wf_def)

lemma LogAppender_new_wf: "log_wf w \<Longrightarrow> log_wf (snd (LogAppender_new type level w))"
  unfolding log_wf_def LogAppender_new_def by (fastforce simp: nth_append)

lemma logger_wf:
  assumes "log_wf w" and "logger_at w name = Some lg"
  shows "lg_name lg = name" "lg_formatter lg \<noteq> None" "\<forall>i \<in> set (lg_appenders lg). has_formatter w i"
  using assms by (auto simp: log_wf_def)

text \<open>An operation that reads a logger and stores a changed one.\<close>

lemma change_logger_wf:
  assumes "log_wf w" and "\<And>lg. logger_at w name = Some lg \<Longrightarrow> lg_name (f lg) = name \<and> lg_formatter (f lg) \<noteq> None \<and> (\<forall>i \<in> set (lg_appenders (f lg)). has_formatter w i)"
  shows "log_wf (snd (andthen (the_logger name) (\<lambda>lg. put_logger name (f lg)) w))"
  using assms put_logger_wf by (auto simp: andthen_def the_logger_def split: option.splits)

lemma change_appender_wf:
  assumes "log_wf w" and "\<And>a. ap_formatter a \<noteq> None \<Longrightarrow> ap_formatter (f a) \<noteq> None"
  shows "log_wf (snd (andthen (the_appender i) (\<lambda>a. put_appender i (f a)) w))"
  using assms put_appender_wf by (auto simp: andthen_def the_appender_def)

lemma addAppender_wf:
  assumes "log_wf w"
  shows "log_wf (snd (Logger_addAppender name i w))"
proof (cases "logger_at w name = None \<or> \<not> i < length (lw_appenders w)")
  case True
  then show ?thesis using assms by (auto simp: Logger_addAppender_def andthen_def the_logger_def the_appender_def split: option.splits)
next
  case False
  then obtain lg where lg: "logger_at w name = Some lg" "i < length (lw_appenders w)" by auto
  let ?a = "lw_appenders w ! i"
  let ?w = "if ap_formatter ?a = None then snd (put_appender i (?a\<lparr>ap_formatter := lg_formatter lg\<rparr>) w) else w"
  have "log_wf ?w" using assms put_appender_wf [OF assms] by simp
  moreover have "\<forall>j \<in> set (lg_appenders lg @ [i]). has_formatter ?w j"
    using logger_wf [OF assms lg(1)] lg(2) by (auto simp: put_appender_def nth_list_update)
  moreover have "snd (Logger_addAppender name i w) = snd (put_logger name (lg\<lparr>lg_appenders := lg_appenders lg @ [i]\<rparr>) ?w)"
    using lg by (simp add: Logger_addAppender_def LogAppender_setFormatter_def andthen_def the_logger_def the_appender_def put_appender_def)
  ultimately show ?thesis using put_logger_wf [of ?w "lg\<lparr>lg_appenders := lg_appenders lg @ [i]\<rparr>" name] logger_wf [OF assms lg(1)] by simp
qed

lemma enter_logger_wf:
  assumes "log_wf w" and "lg_formatter lg \<noteq> None" and "lg_appenders lg = []"
  shows "log_wf (snd (enter_logger lg w))"
proof -
  have "log_wf (snd (put_logger (lg_name lg) lg w))" using assms by (simp add: put_logger_wf)
  from LogAppender_new_wf [OF this] addAppender_wf show ?thesis
    by (simp add: enter_logger_def StdoutLogAppender_new_def andthen_def put_logger_def LogAppender_new_def)
qed

lemma addAppender_at: "log_wf w \<Longrightarrow> logger_at w n \<noteq> None \<Longrightarrow> logger_at (snd (Logger_addAppender name i w)) n \<noteq> None"
  by (auto simp: Logger_addAppender_def LogAppender_setFormatter_def andthen_def the_logger_def the_appender_def put_appender_def put_logger_def log_wf_def
      std_less.smap_get_put split: option.splits)

lemma enter_logger_at:
  assumes "log_wf w" and "lg_formatter lg \<noteq> None" and "lg_appenders lg = []"
  shows "logger_at (snd (enter_logger lg w)) (lg_name lg) \<noteq> None"
proof -
  let ?w = "snd (put_logger (lg_name lg) lg w)"
  have w: "log_wf ?w" "logger_at ?w (lg_name lg) = Some lg" using assms logger_at_put [OF assms(1), where name = "lg_name lg" and lg = lg and n = "lg_name lg"] by (simp add: put_logger_wf, simp add: put_logger_def)
  then have "logger_at (snd (LogAppender_new StdoutLogAppender DEBUG ?w)) (lg_name lg) \<noteq> None" by (simp add: LogAppender_new_def)
  from addAppender_at [OF LogAppender_new_wf [OF w(1)] this] show ?thesis
    by (simp add: enter_logger_def StdoutLogAppender_new_def andthen_def put_logger_def LogAppender_new_def)
qed

lemma getLogger_wf:
  assumes "log_wf w"
  shows "log_wf (snd (LoggerManager_getLogger name w))" "logger_at (snd (LoggerManager_getLogger name w)) name \<noteq> None"
proof -
  have s: "snd (andthen f (\<lambda>_. ret x) w) = snd (f w)" for f :: "'b log_oper" and x :: 'c
    by (auto simp: andthen_def split: prod.splits sum.splits)
  have n: "lg_name (Logger_named name) = name" "lg_formatter (Logger_named name) \<noteq> None" "lg_appenders (Logger_named name) = []"
    by (simp_all add: Logger_named_def Logger_new_def)
  show "log_wf (snd (LoggerManager_getLogger name w))"
    using assms enter_logger_wf [OF assms n(2,3)] by (cases "logger_at w name") (simp_all add: LoggerManager_getLogger_def s)
  show "logger_at (snd (LoggerManager_getLogger name w)) name \<noteq> None"
    using enter_logger_at [OF assms n(2,3)] n(1) by (cases "logger_at w name") (simp_all add: LoggerManager_getLogger_def s)
qed

text \<open>Logging changes output only. It returns, or it waits for a lock that is held.\<close>

definition calm :: "LogEvent log_oper \<Rightarrow> log_world \<Rightarrow> bool" where
  "calm f w \<longleftrightarrow> (case f w of (r, w') \<Rightarrow> lw_loggers w' = lw_loggers w \<and> lw_appenders w' = lw_appenders w \<and> (case r of Inl e \<Rightarrow> e = NoReturn | Inr _ \<Rightarrow> True))"

lemma calm_andthen:
  assumes "calm f w" and "\<And>ev w'. f w = (Inr ev, w') \<Longrightarrow> lw_loggers w' = lw_loggers w \<Longrightarrow> lw_appenders w' = lw_appenders w \<Longrightarrow> calm (g ev) w'"
  shows "calm (andthen f g) w"
proof (cases "f w")
  case (Pair r w')
  then show ?thesis
  proof (cases r)
    case (Inr ev)
    have k: "lw_loggers w' = lw_loggers w" "lw_appenders w' = lw_appenders w" using assms(1) Pair by (simp_all add: calm_def)
    from assms(2) [OF _ k] have "calm (g ev) w'" using Pair Inr by simp
    with k Pair Inr show ?thesis by (auto simp: calm_def andthen_def)
  qed (use assms(1) in \<open>simp add: calm_def andthen_def\<close>)
qed

lemma calm_simple [simp]: "calm (ret ev) w" "calm (raise NoReturn) w"
  by (simp_all add: calm_def)

lemma calm_if: "(b \<Longrightarrow> calm f w) \<Longrightarrow> (\<not> b \<Longrightarrow> calm g w) \<Longrightarrow> calm (if b then f else g) w"
  by simp

lemma LogAppender_log_calm:
  assumes "has_formatter w i" and "\<And>ev. calm (g ev) w"
  shows "calm (LogAppender_log sys held g i name level ev) w"
proof -
  obtain f where f: "ap_formatter (lw_appenders w ! i) = Some f" using assms(1) by auto
  have "calm (andthen (emit_text a s) (\<lambda>_. ret ev)) w" for a s ev
    by (auto simp: calm_def andthen_def emit_text_def split: AppenderType.splits)
  then show ?thesis
    using assms f unfolding LogAppender_log_def by (simp add: calm_def andthen_def the_appender_def)
qed

lemma log_appenders_calm:
  assumes "\<forall>i \<in> set ids. has_formatter w i" and "\<And>i ev w'. lw_loggers w' = lw_loggers w \<Longrightarrow> lw_appenders w' = lw_appenders w \<Longrightarrow> calm (g i ev) w'"
  shows "calm (log_appenders sys held g ids name ev) w"
  using assms
proof (induction ids arbitrary: w ev)
  case (Cons i ids)
  have "calm (LogAppender_log sys held (g i) i name (ev_level ev) ev) w" using Cons.prems by (intro LogAppender_log_calm) simp_all
  then show ?case unfolding log_appenders.simps
  proof (rule calm_andthen)
    fix ev' :: LogEvent and w' :: log_world
    assume "lw_loggers w' = lw_loggers w" "lw_appenders w' = lw_appenders w"
    then show "calm (log_appenders sys held g ids name ev') w'" using Cons.prems by (intro Cons.IH) simp_all
  qed
qed simp

lemma calm_logger: "logger_at w name = Some lg \<Longrightarrow> calm (f lg) w \<Longrightarrow> calm (andthen (the_logger name) f) w"
  by (simp add: calm_def andthen_def the_logger_def)

lemma global_log_calm: "log_wf w \<Longrightarrow> calm (global_log sys caller i ev) w"
proof -
  assume w: "log_wf w"
  then obtain g where g: "logger_at w ''global'' = Some g" by (auto simp: log_wf_def)
  show ?thesis unfolding global_log_def
    using logger_wf(3) [OF w g] by (intro calm_logger [OF g] calm_if log_appenders_calm) simp_all
qed

lemma Logger_log_calm:
  assumes "log_wf w" and "logger_at w name \<noteq> None"
  shows "calm (Logger_log sys name ev) w"
proof -
  obtain lg where lg: "logger_at w name = Some lg" using assms(2) by auto
  show ?thesis unfolding Logger_log_def
    using logger_wf(3) [OF assms(1) lg] assms(1) by (intro calm_logger [OF lg] calm_if log_appenders_calm global_log_calm) (auto intro: log_wf_cong)
qed

lemma run_log_op_wf:
  assumes "log_wf w"
  shows "log_wf (snd (run_log_op sys op w))"
proof -
  have drop_result: "snd (andthen f (\<lambda>_. ret x) w) = snd (f w)" for f :: "'b log_oper" and x :: 'c
    by (auto simp: andthen_def split: prod.splits sum.splits)
  note set_wf = change_logger_wf [OF assms] change_appender_wf [OF assms] logger_wf [OF assms]
  show ?thesis
  proof (cases op)
    case (GetLogger name)
    then show ?thesis using getLogger_wf(1) [OF assms] by (simp add: drop_result)
  next
    case (NewStdout level)
    then show ?thesis using LogAppender_new_wf [OF assms] by (simp add: drop_result StdoutLogAppender_new_def)
  next
    case (NewFile fname level)
    let ?w = "snd (LogAppender_new (FileLogAppender fname) level w)" and ?i = "length (lw_appenders w)"
    have "log_wf (snd (andthen (the_appender ?i) (\<lambda>a. put_appender ?i (a\<lparr>ap_open := ls_can_open sys fname\<rparr>)) ?w))"
      by (rule change_appender_wf [OF LogAppender_new_wf [OF assms]]) simp
    then show ?thesis using NewFile
      by (simp add: FileLogAppender_new_def FileLogAppender_reopen_def LogAppender_new_def the_appender_def put_appender_def andthen_def)
  next
    case (AppenderFormatter i pattern)
    then show ?thesis by (simp add: LogAppender_setFormatter_def set_wf)
  next
    case (AppenderLevel i level)
    then show ?thesis by (simp add: LogAppender_setLevel_def set_wf)
  next
    case (Reopen i)
    have "log_wf (snd (FileLogAppender_reopen sys i w))"
      using assms put_appender_wf [OF assms, of i]
      by (auto simp: FileLogAppender_reopen_def andthen_def the_appender_def put_appender_def split: AppenderType.splits)
    then show ?thesis using Reopen by (simp add: drop_result)
  next
    case (SetLevel name level)
    then show ?thesis by (simp add: Logger_setLevel_def set_wf)
  next
    case (SetFormatter name pattern)
    have "log_wf (snd (andthen (the_logger name) (\<lambda>_. ret ()) w))" using assms by (simp add: drop_result the_logger_def)
    then show ?thesis using SetFormatter by (simp add: Logger_setFormatter_def Logger_setFormatter_ptr_def set_wf)
  next
    case (SetFormatterPtr name pattern)
    then show ?thesis by (simp add: Logger_setFormatter_ptr_def set_wf)
  next
    case (AddAppender name i)
    then show ?thesis using addAppender_wf [OF assms] by simp
  next
    case (DelAppender name i)
    have "set (remove1 i (lg_appenders lg)) \<subseteq> set (lg_appenders lg)" for lg by (rule set_remove1_subset)
    then show ?thesis using DelAppender unfolding run_log_op.simps Logger_delAppender_def DelAppender
      by (intro set_wf(1)) (use logger_wf [OF assms] in \<open>auto dest: set_remove1_subset [THEN subsetD]\<close>)
  next
    case (ClearAppenders name)
    then show ?thesis by (simp add: Logger_clearAppenders_def set_wf)
  next
    case (Log name ev)
    then show ?thesis
    proof (cases "logger_at w name")
      case None
      then show ?thesis using Log assms by (simp add: drop_result Logger_log_def andthen_def the_logger_def)
    next
      case (Some lg)
      have "calm (Logger_log sys name ev) w" using Logger_log_calm [OF assms] Some by simp
      then have "log_wf (snd (Logger_log sys name ev w))" using assms by (auto simp: calm_def intro: log_wf_cong split: prod.splits)
      then show ?thesis using Log by (simp add: drop_result)
    qed
  qed
qed

lemma LoggerManager_new_wf: "log_wf (LoggerManager_new files)"
  by (simp add: LoggerManager_new_def enter_logger_def Logger_new_def put_logger_def StdoutLogAppender_new_def LogAppender_new_def Logger_addAppender_def
      LogAppender_setFormatter_def the_logger_def the_appender_def put_appender_def andthen_def log_wf_def)

lemma log_run_wf: "log_wf w \<Longrightarrow> log_wf (log_run ops w)"
  by (induction ops arbitrary: w) (auto simp: log_run_def run_log_op_wf)


section \<open>A log\<close>

definition log_demo_sys :: log_sys where
  "log_demo_sys = \<lparr>ls_strftime = (\<lambda>_ _. ''now''), ls_can_open = (\<lambda>_. True)\<rparr>"

definition log_demo :: log_world where
  "log_demo = log_run [(log_demo_sys, GetLogger ''system''), (log_demo_sys, NewFile ''a.log'' ERROR), (log_demo_sys, AppenderFormatter 2 ''%m''),
     (log_demo_sys, AppenderFormatter 1 ''%p %m%n''), (log_demo_sys, AddAppender ''system'' 2)] (LoggerManager_new (\<lambda>_. []))"

lemma log_demo_logger:
  "case smap_get (<) ''system'' (lw_loggers log_demo) of
     None \<Rightarrow> False
   | Some lg \<Rightarrow> list_all (sound_appender log_demo) (lg_appenders lg) \<and> lg_level lg \<le> ev_level event_demo
       \<and> lw_out (delivered log_demo_sys (lg_name lg) event_demo (lg_appenders lg) log_demo) = ''WARN hello'' @ [LF]
       \<and> lw_files (delivered log_demo_sys (lg_name lg) event_demo (lg_appenders lg) log_demo) ''a.log'' = []"
  by code_simp

theorem log_delivers_witness:
  "case Logger_log log_demo_sys ''system'' event_demo log_demo of (r, w) \<Rightarrow> lw_out w = ''WARN hello'' @ [LF] \<and> lw_files w ''a.log'' = []"
proof -
  obtain lg where lg: "logger_at log_demo ''system'' = Some lg" "list_all (sound_appender log_demo) (lg_appenders lg)" "lg_level lg \<le> ev_level event_demo"
      "lw_out (delivered log_demo_sys (lg_name lg) event_demo (lg_appenders lg) log_demo) = ''WARN hello'' @ [LF]"
      "lw_files (delivered log_demo_sys (lg_name lg) event_demo (lg_appenders lg) log_demo) ''a.log'' = []"
    using log_demo_logger by (auto split: option.splits)
  show ?thesis using log_delivers [OF lg(1,2), of log_demo_sys event_demo] lg(3-5) by simp
qed

end
