(* ===== verification/Mingo_Config.thy ===== *)
theory Mingo_Config
  imports Mingo_Ordered Mingo_Text
begin

text \<open>
  \<^verbatim>\<open>mingo/config.h\<close> and \<^verbatim>\<open>mingo/config.cpp\<close>: typed variables with listeners, their registry, and loading a \<^verbatim>\<open>YAML\<close> document into it. The \<^verbatim>\<open>YAML\<close> library is an argument: reading and
  printing a node, and what an access gives on a node of another kind. The values of the variables are of one type with the name of the \<open>C++\<close> type beside them, and the
  conversions between values and texts are an argument. A listener works on a state of any type.
\<close>

section \<open>Documents\<close>

datatype yaml = YNull | YScalar string | YSequence "yaml list" | YMap "(string \<times> yaml) list"

record yaml_lib =
  yl_load :: "string \<Rightarrow> yaml res"
  yl_print :: "yaml \<Rightarrow> string"
  yl_index :: "yaml \<Rightarrow> nat \<Rightarrow> yaml res"
  yl_items :: "yaml \<Rightarrow> (string \<times> yaml) list res"
  yl_member :: "yaml \<Rightarrow> string \<Rightarrow> yaml option res"
  yl_as :: "yaml \<Rightarrow> string res"

fun yaml_size :: "yaml \<Rightarrow> nat" where
  "yaml_size (YSequence ns) = length ns"
| "yaml_size (YMap kvs) = length kvs"
| "yaml_size n = 0"

fun yaml_at :: "yaml_lib \<Rightarrow> yaml \<Rightarrow> nat \<Rightarrow> yaml res" where
  "yaml_at lib (YSequence ns) i = (if i < length ns then Inr (ns ! i) else yl_index lib (YSequence ns) i)"
| "yaml_at lib n i = yl_index lib n i"

fun yaml_items :: "yaml_lib \<Rightarrow> yaml \<Rightarrow> (string \<times> yaml) list res" where
  "yaml_items lib (YMap kvs) = Inr kvs"
| "yaml_items lib n = yl_items lib n"

text \<open>A member of a map, if it is defined; a text.\<close>

fun yaml_member :: "yaml_lib \<Rightarrow> yaml \<Rightarrow> string \<Rightarrow> yaml option res" where
  "yaml_member lib (YMap kvs) k = Inr (map_of kvs k)"
| "yaml_member lib n k = yl_member lib n k"

fun yaml_string :: "yaml_lib \<Rightarrow> yaml \<Rightarrow> string res" where
  "yaml_string lib (YScalar s) = Inr s"
| "yaml_string lib n = yl_as lib n"

fun scalar_text :: "yaml \<Rightarrow> string" where
  "scalar_text (YScalar s) = s"
| "scalar_text n = []"

section \<open>Conversions of containers\<close>

fun map_res :: "('a \<Rightarrow> 'b res) \<Rightarrow> 'a list \<Rightarrow> 'b list res" where
  "map_res f [] = Inr []"
| "map_res f (x # xs) = (case f x of Inl e \<Rightarrow> Inl e | Inr y \<Rightarrow> (case map_res f xs of Inl e \<Rightarrow> Inl e | Inr ys \<Rightarrow> Inr (y # ys)))"

definition LexicalCast_string_vector :: "yaml_lib \<Rightarrow> (string \<Rightarrow> 'a res) \<Rightarrow> string \<Rightarrow> 'a list res" where
  "LexicalCast_string_vector lib cast v =
     (case yl_load lib v of
        Inl e \<Rightarrow> Inl e
      | Inr node \<Rightarrow> map_res (\<lambda>i. case yaml_at lib node i of Inl e \<Rightarrow> Inl e | Inr n \<Rightarrow> cast (yl_print lib n)) [0 ..< yaml_size node])"

text \<open>A node that nothing was pushed to is null.\<close>

definition LexicalCast_vector_string :: "yaml_lib \<Rightarrow> ('a \<Rightarrow> string res) \<Rightarrow> 'a list \<Rightarrow> string res" where
  "LexicalCast_vector_string lib cast v =
     (case map_res (\<lambda>x. case cast x of Inl e \<Rightarrow> Inl e | Inr s \<Rightarrow> yl_load lib s) v of
        Inl e \<Rightarrow> Inl e
      | Inr ns \<Rightarrow> Inr (yl_print lib (if ns = [] then YNull else YSequence ns)))"

definition LexicalCast_string_list :: "yaml_lib \<Rightarrow> (string \<Rightarrow> 'a res) \<Rightarrow> string \<Rightarrow> 'a list res" where
  "LexicalCast_string_list = LexicalCast_string_vector"

definition LexicalCast_list_string :: "yaml_lib \<Rightarrow> ('a \<Rightarrow> string res) \<Rightarrow> 'a list \<Rightarrow> string res" where
  "LexicalCast_list_string = LexicalCast_vector_string"

text \<open>A \<open>std::set\<close> by its order; an \<open>unordered_set\<close> is a list without repetitions in the order in which it is traversed.\<close>

definition LexicalCast_string_set :: "('a \<Rightarrow> 'a \<Rightarrow> bool) \<Rightarrow> yaml_lib \<Rightarrow> (string \<Rightarrow> 'a res) \<Rightarrow> string \<Rightarrow> 'a list res" where
  "LexicalCast_string_set lt lib cast v = map_sum id (\<lambda>xs. fold (sset_insert lt) xs []) (LexicalCast_string_vector lib cast v)"

definition LexicalCast_set_string :: "yaml_lib \<Rightarrow> ('a \<Rightarrow> string res) \<Rightarrow> 'a list \<Rightarrow> string res" where
  "LexicalCast_set_string = LexicalCast_vector_string"

definition LexicalCast_string_unordered_set :: "yaml_lib \<Rightarrow> (string \<Rightarrow> 'a res) \<Rightarrow> string \<Rightarrow> 'a list res" where
  "LexicalCast_string_unordered_set lib cast v = map_sum id remdups (LexicalCast_string_vector lib cast v)"

definition LexicalCast_unordered_set_string :: "yaml_lib \<Rightarrow> ('a \<Rightarrow> string res) \<Rightarrow> 'a list \<Rightarrow> string res" where
  "LexicalCast_unordered_set_string = LexicalCast_vector_string"

text \<open>\<open>insert\<close> keeps an element that is there already.\<close>

definition insert_new :: "string \<Rightarrow> 'a \<Rightarrow> (string \<times> 'a) list \<Rightarrow> (string \<times> 'a) list" where
  "insert_new k v m = (if smap_get (<) k m = None then smap_put (<) k v m else m)"

definition LexicalCast_string_map :: "yaml_lib \<Rightarrow> (string \<Rightarrow> 'a res) \<Rightarrow> string \<Rightarrow> (string \<times> 'a) list res" where
  "LexicalCast_string_map lib cast v =
     (case yl_load lib v of
        Inl e \<Rightarrow> Inl e
      | Inr node \<Rightarrow>
          (case yaml_items lib node of
             Inl e \<Rightarrow> Inl e
           | Inr kvs \<Rightarrow>
               map_sum id (\<lambda>ps. fold (\<lambda>(k, x). insert_new k x) ps []) (map_res (\<lambda>(k, n). map_sum id (Pair k) (cast (yl_print lib n))) kvs)))"

definition LexicalCast_map_string :: "yaml_lib \<Rightarrow> ('a \<Rightarrow> string res) \<Rightarrow> (string \<times> 'a) list \<Rightarrow> string res" where
  "LexicalCast_map_string lib cast v =
     (case map_res (\<lambda>(k, x). case cast x of Inl e \<Rightarrow> Inl e | Inr s \<Rightarrow> map_sum id (Pair k) (yl_load lib s)) v of
        Inl e \<Rightarrow> Inl e
      | Inr kvs \<Rightarrow> Inr (yl_print lib (if kvs = [] then YNull else YMap kvs)))"

text \<open>An \<open>unordered_map\<close> is listed in the order in which it is traversed.\<close>

definition LexicalCast_string_unordered_map :: "yaml_lib \<Rightarrow> (string \<Rightarrow> 'a res) \<Rightarrow> string \<Rightarrow> (string \<times> 'a) list res" where
  "LexicalCast_string_unordered_map = LexicalCast_string_map"

definition LexicalCast_unordered_map_string :: "yaml_lib \<Rightarrow> ('a \<Rightarrow> string res) \<Rightarrow> (string \<times> 'a) list \<Rightarrow> string res" where
  "LexicalCast_unordered_map_string = LexicalCast_map_string"

lemma map_res_map: "(\<And>x. x \<in> set xs \<Longrightarrow> f x = Inr (g x)) \<Longrightarrow> map_res f xs = Inr (map g xs)"
  by (induction xs) auto

section \<open>Variables\<close>

type_synonym ('v, 's) on_change_cb = "'v \<Rightarrow> 'v \<Rightarrow> ('s, unit) oper"

record ('v, 's) ConfigVar =
  cv_name :: string
  cv_description :: string
  cv_type :: string
  cv_value :: 'v
  cv_cbs :: "(u64 \<times> ('v, 's) on_change_cb) list"

text \<open>The conversions and the equality that belong to a type.\<close>

record 'v cast_lib =
  cl_eq :: "string \<Rightarrow> 'v \<Rightarrow> 'v \<Rightarrow> bool"
  cl_from :: "string \<Rightarrow> string \<Rightarrow> 'v res"
  cl_to :: "string \<Rightarrow> 'v \<Rightarrow> string res"

definition ConfigVar_new :: "string \<Rightarrow> 'v \<Rightarrow> string \<Rightarrow> string \<Rightarrow> ('v, 's) ConfigVar" where
  "ConfigVar_new type value name description =
     \<lparr>cv_name = map tolower name, cv_description = description, cv_type = type, cv_value = value, cv_cbs = []\<rparr>"

fun run_cbs :: "(u64 \<times> ('v, 's) on_change_cb) list \<Rightarrow> 'v \<Rightarrow> 'v \<Rightarrow> ('s, unit) oper" where
  "run_cbs [] old_val new_val = ret ()"
| "run_cbs ((k, cb) # cbs) old_val new_val = andthen (cb old_val new_val) (\<lambda>_. run_cbs cbs old_val new_val)"

text \<open>The listeners hear of a new value before it is stored; when one of them throws, it is not.\<close>

definition ConfigVar_setValue :: "'v cast_lib \<Rightarrow> 'v \<Rightarrow> (('v, 's) ConfigVar \<times> 's, unit) oper" where
  "ConfigVar_setValue casts value = (\<lambda>(var, s).
     if cl_eq casts (cv_type var) (cv_value var) value then (Inr (), (var, s))
     else case run_cbs (cv_cbs var) (cv_value var) value s of
       (Inl e, s') \<Rightarrow> (Inl e, (var, s'))
     | (Inr _, s') \<Rightarrow> (Inr (), (var\<lparr>cv_value := value\<rparr>, s')))"

text \<open>What \<open>catch (std::exception\<open>&\<close>)\<close> catches.\<close>

definition is_exception :: "cpp_error \<Rightarrow> bool" where
  "is_exception e \<longleftrightarrow> e \<in> {OutOfRange, InvalidArgument, LogicError, BadFunctionCall, LengthError, BadAlloc, BadLexicalCast, YamlError}"

definition ConfigVar_toString :: "'v cast_lib \<Rightarrow> ('v, 's) ConfigVar \<Rightarrow> string res" where
  "ConfigVar_toString casts var =
     (case cl_to casts (cv_type var) (cv_value var) of Inl e \<Rightarrow> if is_exception e then Inr ''<error>'' else Inl e | Inr s \<Rightarrow> Inr s)"

text \<open>\<open>fromString\<close> returns false in every case.\<close>

definition ConfigVar_fromString :: "'v cast_lib \<Rightarrow> string \<Rightarrow> (('v, 's) ConfigVar \<times> 's, bool) oper" where
  "ConfigVar_fromString casts val = (\<lambda>(var, s).
     case cl_from casts (cv_type var) val of
       Inl e \<Rightarrow> (if is_exception e then Inr False else Inl e, (var, s))
     | Inr x \<Rightarrow>
         (case ConfigVar_setValue casts x (var, s) of
            (Inl e, y) \<Rightarrow> (if is_exception e then Inr False else Inl e, y)
          | (Inr _, y) \<Rightarrow> (Inr False, y)))"

text \<open>The counter of the listeners is a static variable of the type.\<close>

definition ConfigVar_addListener :: "('v, 's) on_change_cb \<Rightarrow> ('v, 's) ConfigVar \<times> (string \<Rightarrow> u64) \<Rightarrow> u64 \<times> ('v, 's) ConfigVar \<times> (string \<Rightarrow> u64)" where
  "ConfigVar_addListener cb = (\<lambda>(var, func_id).
     let n = func_id (cv_type var) + 1
     in (n, var\<lparr>cv_cbs := smap_put (<) n cb (cv_cbs var)\<rparr>, func_id(cv_type var := n)))"

definition ConfigVar_delListener :: "u64 \<Rightarrow> ('v, 's) ConfigVar \<Rightarrow> ('v, 's) ConfigVar" where
  "ConfigVar_delListener key var = var\<lparr>cv_cbs := smap_del (<) key (cv_cbs var)\<rparr>"

definition ConfigVar_getListener :: "u64 \<Rightarrow> ('v, 's) ConfigVar \<Rightarrow> ('v, 's) on_change_cb option" where
  "ConfigVar_getListener key var = smap_get (<) key (cv_cbs var)"

definition ConfigVar_clearListeners :: "('v, 's) ConfigVar \<Rightarrow> ('v, 's) ConfigVar" where
  "ConfigVar_clearListeners var = var\<lparr>cv_cbs := []\<rparr>"

section \<open>The registry\<close>

type_synonym ('v, 's) ConfigVarMap = "string \<rightharpoonup> ('v, 's) ConfigVar"

text \<open>The digits of a name end at 8.\<close>

definition valid_name :: "string \<Rightarrow> bool" where
  "valid_name s \<longleftrightarrow> list_all (\<lambda>c. c \<in> set ''abcdefghijklmnopqrstuvwxyz._012345678'') s"

text \<open>A pointer to a variable is the name under which it is entered.\<close>

definition Config_Lookup_create :: "string \<Rightarrow> string \<Rightarrow> 'v \<Rightarrow> string \<Rightarrow> (('v, 's) ConfigVarMap, string option) oper" where
  "Config_Lookup_create type name value description datas =
     (case datas name of
        Some var \<Rightarrow> (Inr (if cv_type var = type then Some name else None), datas)
      | None \<Rightarrow>
          if \<not> valid_name name then (Inl InvalidArgument, datas)
          else (Inr (Some name), datas(name \<mapsto> ConfigVar_new type value name description)))"

definition Config_Lookup :: "string \<Rightarrow> string \<Rightarrow> ('v, 's) ConfigVarMap \<Rightarrow> string option" where
  "Config_Lookup type name datas = (case datas name of None \<Rightarrow> None | Some var \<Rightarrow> if cv_type var = type then Some name else None)"

definition Config_LookupBase :: "string \<Rightarrow> ('v, 's) ConfigVarMap \<Rightarrow> ('v, 's) ConfigVar option" where
  "Config_LookupBase name datas = datas name"

text \<open>The order in which an \<open>unordered_map\<close> is traversed is an argument.\<close>

definition Config_Visit :: "string list \<Rightarrow> (('v, 's) ConfigVar \<Rightarrow> ('w, unit) oper) \<Rightarrow> ('v, 's) ConfigVarMap \<Rightarrow> ('w, unit) oper" where
  "Config_Visit order cb datas = fold (\<lambda>k f. andthen f (\<lambda>_. case datas k of Some var \<Rightarrow> cb var | None \<Rightarrow> ret ())) order (ret ())"

text \<open>The members of a document with their paths: a node before the members of it.\<close>

fun ListAllMember :: "string \<Rightarrow> yaml \<Rightarrow> (string \<times> yaml) list" and list_members :: "string \<Rightarrow> (string \<times> yaml) list \<Rightarrow> (string \<times> yaml) list" where
  "ListAllMember path node =
     (if \<not> valid_name path then []
      else (path, node) # (case node of YMap kvs \<Rightarrow> list_members path kvs | _ \<Rightarrow> []))"
| "list_members path [] = []"
| "list_members path ((k, n) # kvs) = ListAllMember (if path = [] then k else path @ ''.'' @ k) n @ list_members path kvs"

declare ListAllMember.simps [simp del]

fun node_text :: "yaml_lib \<Rightarrow> yaml \<Rightarrow> string" where
  "node_text lib (YScalar s) = s"
| "node_text lib n = yl_print lib n"

definition load_member :: "yaml_lib \<Rightarrow> 'v cast_lib \<Rightarrow> string \<Rightarrow> yaml \<Rightarrow> (('v, 's) ConfigVarMap \<times> 's, unit) oper" where
  "load_member lib casts key node = (\<lambda>(datas, s).
     case Config_LookupBase key datas of
       None \<Rightarrow> (Inr (), (datas, s))
     | Some var \<Rightarrow>
         (case ConfigVar_fromString casts (node_text lib node) (var, s) of
            (Inl e, (var', s')) \<Rightarrow> (Inl e, (datas(key \<mapsto> var'), s'))
          | (Inr _, (var', s')) \<Rightarrow> (Inr (), (datas(key \<mapsto> var'), s'))))"

fun load_members :: "yaml_lib \<Rightarrow> 'v cast_lib \<Rightarrow> (string \<times> yaml) list \<Rightarrow> (('v, 's) ConfigVarMap \<times> 's, unit) oper" where
  "load_members lib casts [] = ret ()"
| "load_members lib casts ((key, node) # ms) =
     andthen (if key = [] then ret () else load_member lib casts (map tolower key) node) (\<lambda>_. load_members lib casts ms)"

definition Config_LoadFromYaml :: "yaml_lib \<Rightarrow> 'v cast_lib \<Rightarrow> yaml \<Rightarrow> (('v, 's) ConfigVarMap \<times> 's, unit) oper" where
  "Config_LoadFromYaml lib casts root = load_members lib casts (ListAllMember [] root)"

section \<open>What loading a document does\<close>

text \<open>Listeners that do not throw, and conversions that fail by an exception only.\<close>

definition quiet :: "('v, 's) ConfigVar \<Rightarrow> bool" where
  "quiet var \<longleftrightarrow> list_all (\<lambda>p. \<forall>old new s. fst (snd p old new s) = Inr ()) (cv_cbs var)"

definition polite :: "'v cast_lib \<Rightarrow> bool" where
  "polite casts \<longleftrightarrow> (\<forall>type t e. cl_from casts type t = Inl e \<longrightarrow> is_exception e)"

text \<open>The value after a text: the converted text, or the old value when it is equal to it or the text cannot be converted.\<close>

definition read_value :: "'v cast_lib \<Rightarrow> string \<Rightarrow> string \<Rightarrow> 'v \<Rightarrow> 'v" where
  "read_value casts type t old = (case cl_from casts type t of Inr x \<Rightarrow> if cl_eq casts type old x then old else x | Inl e \<Rightarrow> old)"

lemma quiet_value [simp]: "quiet (var\<lparr>cv_value := x\<rparr>) = quiet var"
  by (simp add: quiet_def)

lemma run_cbs_quiet: "list_all (\<lambda>p. \<forall>old new s. fst (snd p old new s) = Inr ()) cbs \<Longrightarrow> \<exists>s'. run_cbs cbs old new s = (Inr (), s')"
proof (induction cbs arbitrary: s)
  case (Cons p cbs)
  obtain s1 where 1: "snd p old new s = (Inr (), s1)" using Cons.prems by (cases "snd p old new s") (simp, metis fst_conv)
  obtain s2 where "run_cbs cbs old new s1 = (Inr (), s2)" using Cons.IH [of s1] Cons.prems by auto
  then show ?case using 1 by (cases p) (simp add: andthen_def)
qed simp

lemma fromString_quiet:
  assumes "quiet var" and "polite casts"
  shows "\<exists>s'. ConfigVar_fromString casts t (var, s) = (Inr False, (var\<lparr>cv_value := read_value casts (cv_type var) t (cv_value var)\<rparr>, s'))"
proof (cases "cl_from casts (cv_type var) t")
  case (Inl e)
  then show ?thesis using assms(2) by (simp add: ConfigVar_fromString_def read_value_def polite_def)
next
  case (Inr x)
  obtain s' where "run_cbs (cv_cbs var) (cv_value var) x s = (Inr (), s')" using run_cbs_quiet [OF assms(1) [unfolded quiet_def]] by blast
  then show ?thesis using Inr by (cases "cl_eq casts (cv_type var) (cv_value var) x") (auto simp: ConfigVar_fromString_def ConfigVar_setValue_def read_value_def)
qed

text \<open>The registry after the texts that a function gives for each name.\<close>

definition after_texts :: "'v cast_lib \<Rightarrow> (string \<Rightarrow> string list) \<Rightarrow> ('v, 's) ConfigVarMap \<Rightarrow> ('v, 's) ConfigVarMap" where
  "after_texts casts texts datas = (\<lambda>k. map_option (\<lambda>v. v\<lparr>cv_value := fold (read_value casts (cv_type v)) (texts k) (cv_value v)\<rparr>) (datas k))"

definition all_quiet :: "('v, 's) ConfigVarMap \<Rightarrow> bool" where
  "all_quiet datas \<longleftrightarrow> (\<forall>k var. datas k = Some var \<longrightarrow> quiet var)"

lemma after_texts_quiet: "all_quiet datas \<Longrightarrow> all_quiet (after_texts casts texts datas)"
  by (auto simp: all_quiet_def after_texts_def)

lemma load_member_quiet:
  assumes "all_quiet datas" and "polite casts"
  shows "\<exists>s'. load_member lib casts key node (datas, s) = (Inr (), (after_texts casts ((\<lambda>_. [])(key := [node_text lib node])) datas, s'))"
proof (cases "datas key")
  case None
  then have "after_texts casts ((\<lambda>_. [])(key := [node_text lib node])) datas = datas"
    by (intro ext) (auto simp: after_texts_def option.map_ident)
  then show ?thesis using None by (simp add: load_member_def Config_LookupBase_def)
next
  case (Some var)
  have "quiet var" using assms(1) Some by (simp add: all_quiet_def)
  from fromString_quiet [OF this assms(2)] obtain s' where f: "ConfigVar_fromString casts (node_text lib node) (var, s) = (Inr False, (var\<lparr>cv_value := read_value casts (cv_type var) (node_text lib node) (cv_value var)\<rparr>, s'))"
    by blast
  have "after_texts casts ((\<lambda>_. [])(key := [node_text lib node])) datas = datas(key \<mapsto> var\<lparr>cv_value := read_value casts (cv_type var) (node_text lib node) (cv_value var)\<rparr>)"
    using Some by (intro ext) (auto simp: after_texts_def option.map_ident)
  then show ?thesis using Some f by (simp add: load_member_def Config_LookupBase_def)
qed

definition texts_of :: "yaml_lib \<Rightarrow> (string \<times> yaml) list \<Rightarrow> string \<Rightarrow> string list" where
  "texts_of lib ms k = map (\<lambda>(p, n). node_text lib n) (filter (\<lambda>(p, n). p \<noteq> [] \<and> map tolower p = k) ms)"

lemma load_members_quiet:
  assumes "polite casts"
  shows "all_quiet datas \<Longrightarrow> \<exists>s'. load_members lib casts ms (datas, s) = (Inr (), (after_texts casts (texts_of lib ms) datas, s'))"
proof (induction ms arbitrary: datas s)
  case Nil
  then show ?case by (simp add: after_texts_def texts_of_def option.map_ident)
next
  case (Cons m ms)
  obtain p n where m: "m = (p, n)" by (rule prod.exhaust)
  show ?case
  proof (cases "p = []")
    case True
    then show ?thesis using Cons m by (simp add: andthen_def texts_of_def)
  next
    case False
    let ?d = "after_texts casts ((\<lambda>_. [])(map tolower p := [node_text lib n])) datas"
    obtain s1 where 1: "load_member lib casts (map tolower p) n (datas, s) = (Inr (), (?d, s1))" using load_member_quiet [OF Cons.prems assms] by blast
    obtain s2 where 2: "load_members lib casts ms (?d, s1) = (Inr (), (after_texts casts (texts_of lib ms) ?d, s2))"
      using Cons.IH [OF after_texts_quiet [OF Cons.prems]] by blast
    have "after_texts casts (texts_of lib ms) ?d = after_texts casts (texts_of lib (m # ms)) datas"
      using False m by (auto simp: after_texts_def texts_of_def fun_eq_iff option.map_comp o_def intro!: option.map_cong)
    then show ?thesis using 1 2 False m by (simp add: andthen_def)
  qed
qed

text \<open>The paths of a document are valid names, so that they are not changed by \<open>tolower\<close>.\<close>

lemma members_valid:
  "(p, n) \<in> set (ListAllMember path node) \<Longrightarrow> valid_name p"
  "(p, n) \<in> set (list_members path kvs) \<Longrightarrow> valid_name p"
  by (induction path node and path kvs rule: ListAllMember_list_members.induct) (auto simp: ListAllMember.simps split: if_splits yaml.splits)

lemma valid_name_lower: "valid_name p \<Longrightarrow> map tolower p = p"
proof (unfold valid_name_def list_all_iff)
  have t: "list_all (\<lambda>c. tolower c = c) ''abcdefghijklmnopqrstuvwxyz._012345678''" by code_simp
  assume "\<forall>c \<in> set p. c \<in> set ''abcdefghijklmnopqrstuvwxyz._012345678''"
  then have "\<forall>c \<in> set p. tolower c = c" using t unfolding list_all_iff by blast
  then show "map tolower p = p" by (simp add: map_idI)
qed

lemma ListAllMember_lower: "(p, n) \<in> set (ListAllMember path node) \<Longrightarrow> map tolower p = p"
  using members_valid(1) valid_name_lower by blast


text \<open>A registry with one variable and a document with two texts for it, the second of which is no number.\<close>

definition casts_demo :: "nat cast_lib" where
  "casts_demo = \<lparr>cl_eq = (\<lambda>_. (=)), cl_from = (\<lambda>_ t. if t \<noteq> [] \<and> list_all is_digit t then Inr (undec t) else Inl BadLexicalCast), cl_to = (\<lambda>_ n. Inr (dec n))\<rparr>"

definition datas_demo :: "(nat, unit) ConfigVarMap" where
  "datas_demo = [''tcp.port'' \<mapsto> ConfigVar_new ''int'' 8020 ''tcp.port'' []]"

definition yaml_demo :: yaml where
  "yaml_demo = YMap [(''tcp'', YMap [(''port'', YScalar ''80''), (''port'', YScalar ''x''), (''Port'', YScalar ''90'')])]"

text \<open>The library, of which this document needs nothing: its members have texts.\<close>

definition no_yaml :: yaml_lib where
  "no_yaml = \<lparr>yl_load = (\<lambda>_. Inl YamlError), yl_print = (\<lambda>_. []), yl_index = (\<lambda>_ _. Inl YamlError), yl_items = (\<lambda>_. Inl YamlError), yl_member = (\<lambda>_ _. Inl YamlError), yl_as = (\<lambda>_. Inl YamlError)\<rparr>"


end
