(* ===== verification/Mingo_LogConfig.thy ===== *)
theory Mingo_LogConfig
  imports Mingo_Logger Mingo_Config
begin

text \<open>
  The last part of \<^verbatim>\<open>mingo/log.cpp\<close>: loggers described by the configuration. Descriptions are converted from and to documents, and a listener of the variable \<open>logs\<close> changes
  the loggers.
\<close>

section \<open>Descriptions\<close>

record LogAppenderDefine =
  lad_type :: int
  lad_formatter :: string
  lad_file :: string
  lad_level :: level

record LogDefine =
  ld_name :: string
  ld_level :: level
  ld_formatter :: string
  ld_appenders :: "LogAppenderDefine list"

text \<open>The comparison \<open>appenders == appenders\<close> compares the member with itself.\<close>

definition LogDefine_eq :: "LogDefine \<Rightarrow> LogDefine \<Rightarrow> bool" where
  "LogDefine_eq d oth \<longleftrightarrow> ld_name d = ld_name oth \<and> ld_level d = ld_level oth \<and> ld_formatter d = ld_formatter oth"

definition LogDefine_less :: "LogDefine \<Rightarrow> LogDefine \<Rightarrow> bool" where
  "LogDefine_less d oth \<longleftrightarrow> ld_name d < ld_name oth"

definition LogDefine_isValid :: "LogDefine \<Rightarrow> bool" where
  "LogDefine_isValid d \<longleftrightarrow> ld_name d \<noteq> []"

section \<open>Conversions\<close>

definition bind_res :: "'a res \<Rightarrow> ('a \<Rightarrow> 'b res) \<Rightarrow> 'b res" where
  "bind_res m f = (case m of Inl e \<Rightarrow> Inl e | Inr x \<Rightarrow> f x)"

lemma bind_res_simps [simp]: "bind_res (Inr x) f = f x" "bind_res (Inl e) f = Inl e"
  by (simp_all add: bind_res_def)

text \<open>The text of a member, or another when it is not defined.\<close>

definition string_or :: "yaml_lib \<Rightarrow> yaml \<Rightarrow> string \<Rightarrow> string \<Rightarrow> string res" where
  "string_or lib n k other = bind_res (yaml_member lib n k) (\<lambda>m. case m of None \<Rightarrow> Inr other | Some v \<Rightarrow> yaml_string lib v)"

text \<open>One appender; a description that is not complete is skipped.\<close>

definition appender_of :: "yaml_lib \<Rightarrow> yaml \<Rightarrow> LogAppenderDefine option res" where
  "appender_of lib a =
     bind_res (yaml_member lib a ''type'') (\<lambda>t.
       case t of
         None \<Rightarrow> Inr None
       | Some t \<Rightarrow>
           bind_res (yaml_string lib t) (\<lambda>type.
           bind_res
             (if type = ''FileLogAppender'' then
                bind_res (yaml_member lib a ''file'') (\<lambda>f.
                  case f of
                    None \<Rightarrow> Inr None
                  | Some f \<Rightarrow>
                      bind_res (yaml_string lib f) (\<lambda>file.
                      bind_res (string_or lib a ''formatter'' []) (\<lambda>fmt.
                      Inr (Some \<lparr>lad_type = 1, lad_formatter = fmt, lad_file = file, lad_level = UNKNOW\<rparr>))))
              else if type = ''StdoutLogAppender'' then
                bind_res (string_or lib a ''formatter'' []) (\<lambda>fmt. Inr (Some \<lparr>lad_type = 2, lad_formatter = fmt, lad_file = [], lad_level = UNKNOW\<rparr>))
              else Inr None) (\<lambda>d.
             case d of
               None \<Rightarrow> Inr None
             | Some d \<Rightarrow>
                 bind_res (yaml_member lib a ''level'') (\<lambda>l.
                   Inr (Some (d\<lparr>lad_level := (case l of Some l \<Rightarrow> stringToLevel (scalar_text l) | None \<Rightarrow> DEBUG)\<rparr>))))))"

definition LexicalCast_string_LogDefine :: "yaml_lib \<Rightarrow> string \<Rightarrow> LogDefine res" where
  "LexicalCast_string_LogDefine lib v =
     bind_res (yl_load lib v) (\<lambda>n.
     bind_res (yaml_member lib n ''name'') (\<lambda>name.
       case name of
         None \<Rightarrow> Inl LogicError
       | Some name \<Rightarrow>
           bind_res (yaml_string lib name) (\<lambda>name.
           bind_res (string_or lib n ''level'' []) (\<lambda>level.
           bind_res (string_or lib n ''formatter'' []) (\<lambda>fmt.
           bind_res (yaml_member lib n ''appenders'') (\<lambda>as.
           bind_res
             (case as of
                None \<Rightarrow> Inr []
              | Some as \<Rightarrow> map_res (\<lambda>i. bind_res (yaml_at lib as i) (appender_of lib)) [0 ..< yaml_size as]) (\<lambda>ds.
           Inr \<lparr>ld_name = name, ld_level = stringToLevel level, ld_formatter = fmt, ld_appenders = List.map_filter id ds\<rparr>)))))))"

definition appender_node :: "LogAppenderDefine \<Rightarrow> yaml" where
  "appender_node a =
     (let na = (if lad_type a = 1 then [(''type'', YScalar ''FileLogAppender''), (''file'', YScalar (lad_file a))]
                else if lad_type a = 2 then [(''type'', YScalar ''StdoutLogAppender'')] else [])
               @ (if lad_level a \<noteq> UNKNOW then [(''level'', YScalar (levelToString (lad_level a)))] else [])
               @ (if lad_formatter a \<noteq> [] then [(''formatter'', YScalar (lad_formatter a))] else [])
      in if na = [] then YNull else YMap na)"

definition LogDefine_node :: "LogDefine \<Rightarrow> yaml" where
  "LogDefine_node i =
     YMap ([(''name'', YScalar (ld_name i)), (''level'', YScalar (levelToString (ld_level i)))]
           @ (if ld_formatter i \<noteq> [] then [(''formatter'', YScalar (ld_formatter i))] else [])
           @ (if ld_appenders i \<noteq> [] then [(''appenders'', YSequence (map appender_node (ld_appenders i)))] else []))"

definition LexicalCast_LogDefine_string :: "yaml_lib \<Rightarrow> LogDefine \<Rightarrow> string" where
  "LexicalCast_LogDefine_string lib i = yl_print lib (LogDefine_node i)"

section \<open>The texts of loggers\<close>

definition LogAppender_toYamlString :: "yaml_lib \<Rightarrow> LogAppender \<Rightarrow> string" where
  "LogAppender_toYamlString lib a =
     yl_print lib (YMap ((case ap_type a of
           StdoutLogAppender \<Rightarrow> [(''type'', YScalar ''StdoutLogAppender'')]
         | FileLogAppender f \<Rightarrow> [(''type'', YScalar ''FileLogAppender''), (''file'', YScalar f)])
       @ (if ap_level a \<noteq> UNKNOW then [(''level'', YScalar (levelToString (ap_level a)))] else [])
       @ (case ap_formatter a of Some f \<Rightarrow> [(''formatter'', YScalar (fm_pattern f))] | None \<Rightarrow> [])))"

definition Logger_toYamlString :: "yaml_lib \<Rightarrow> log_world \<Rightarrow> Logger \<Rightarrow> string res" where
  "Logger_toYamlString lib w lg =
     bind_res (map_res (\<lambda>i. yl_load lib (LogAppender_toYamlString lib (lw_appenders w ! i))) (lg_appenders lg)) (\<lambda>as.
       Inr (yl_print lib (YMap ([(''name'', YScalar (lg_name lg))]
         @ (if lg_level lg \<noteq> UNKNOW then [(''level'', YScalar (levelToString (lg_level lg)))] else [])
         @ (case lg_formatter lg of Some f \<Rightarrow> [(''formatter'', YScalar (fm_pattern f))] | None \<Rightarrow> [])
         @ (if as = [] then [] else [(''appenders'', YSequence as)])))))"

definition LoggerManager_toYamlString :: "yaml_lib \<Rightarrow> log_world \<Rightarrow> string res" where
  "LoggerManager_toYamlString lib w =
     bind_res (map_res (\<lambda>(name, lg). bind_res (Logger_toYamlString lib w lg) (yl_load lib)) (lw_loggers w)) (\<lambda>ns.
       Inr (yl_print lib (if ns = [] then YNull else YSequence ns)))"

section \<open>The listener\<close>

definition add_defined :: "log_sys \<Rightarrow> string \<Rightarrow> LogAppenderDefine \<Rightarrow> unit log_oper" where
  "add_defined sys name a =
     andthen (if lad_type a = 1 then FileLogAppender_new sys (lad_file a) DEBUG else if lad_type a = 2 then StdoutLogAppender_new DEBUG else raise NullDeref) (\<lambda>ap.
     andthen (LogAppender_setLevel ap (lad_level a)) (\<lambda>_.
     andthen (if lad_formatter a \<noteq> [] \<and> \<not> fm_error (LogFormatter_new (lad_formatter a)) then LogAppender_setFormatter ap (Some (LogFormatter_new (lad_formatter a))) else ret ()) (\<lambda>_.
     Logger_addAppender name ap)))"

fun add_all_defined :: "log_sys \<Rightarrow> string \<Rightarrow> LogAppenderDefine list \<Rightarrow> unit log_oper" where
  "add_all_defined sys name [] = ret ()"
| "add_all_defined sys name (a # as) = andthen (add_defined sys name a) (\<lambda>_. add_all_defined sys name as)"

definition apply_define :: "log_sys \<Rightarrow> LogDefine \<Rightarrow> unit log_oper" where
  "apply_define sys i =
     andthen (LoggerManager_getLogger (ld_name i)) (\<lambda>name.
     andthen (Logger_setLevel name (ld_level i)) (\<lambda>_.
     andthen (if ld_formatter i \<noteq> [] then Logger_setFormatter name (ld_formatter i) else ret ()) (\<lambda>_.
     andthen (Logger_clearAppenders name) (\<lambda>_.
     add_all_defined sys name (ld_appenders i)))))"

text \<open>Whether a description is new or changed, as the listener sees it.\<close>

definition needs_change :: "LogDefine list \<Rightarrow> LogDefine \<Rightarrow> bool" where
  "needs_change old_value i \<longleftrightarrow> (case sset_find LogDefine_less i old_value of None \<Rightarrow> True | Some d \<Rightarrow> \<not> LogDefine_eq i d)"

fun apply_new :: "log_sys \<Rightarrow> LogDefine list \<Rightarrow> LogDefine list \<Rightarrow> unit log_oper" where
  "apply_new sys old_value [] = ret ()"
| "apply_new sys old_value (i # is) = andthen (if needs_change old_value i then apply_define sys i else ret ()) (\<lambda>_. apply_new sys old_value is)"

definition retire :: "string \<Rightarrow> unit log_oper" where
  "retire n =
     andthen (LoggerManager_getLogger n) (\<lambda>name.
     andthen (Logger_setLevel name 800) (\<lambda>_. Logger_clearAppenders name))"

fun retire_old :: "LogDefine list \<Rightarrow> LogDefine list \<Rightarrow> unit log_oper" where
  "retire_old new_value [] = ret ()"
| "retire_old new_value (i # is) =
     andthen (if sset_find LogDefine_less i new_value = None then retire (ld_name i) else ret ()) (\<lambda>_. retire_old new_value is)"

text \<open>The listener; the event is the one that it logs first.\<close>

definition logs_changed :: "log_sys \<Rightarrow> LogEvent \<Rightarrow> (LogDefine list, log_world) on_change_cb" where
  "logs_changed sys ev old_value new_value =
     andthen (Logger_log sys ''global'' ev) (\<lambda>_.
     andthen (apply_new sys old_value new_value) (\<lambda>_.
     retire_old new_value old_value))"

section \<open>Descriptions are read back\<close>

definition appender_plain :: "LogAppenderDefine \<Rightarrow> bool" where
  "appender_plain a \<longleftrightarrow> (lad_type a = 1 \<or> lad_type a = 2 \<and> lad_file a = []) \<and> lad_level a \<in> {1, 2, 3, 4, 5}"

definition define_plain :: "LogDefine \<Rightarrow> bool" where
  "define_plain d \<longleftrightarrow> ld_level d \<in> {0, 1, 2, 3, 4, 5} \<and> list_all appender_plain (ld_appenders d)"

lemma level_roundtrip: "l \<in> {0, 1, 2, 3, 4, 5} \<Longrightarrow> stringToLevel (levelToString l) = l"
  by (auto simp: stringToLevel_def levelToString_def)

lemma appender_roundtrip: "appender_plain a \<Longrightarrow> appender_of lib (appender_node a) = Inr (Some a)"
  using level_roundtrip [of "lad_level a"] by (cases a) (auto simp: appender_plain_def appender_of_def appender_node_def string_or_def)

text \<open>
  Round trip of a logger's description. Converting a description to text and back gives the same description, when the \<^verbatim>\<open>YAML\<close> library reads back the document it printed: for levels of the
  enumeration, appenders of the two kinds with a level, and a file for an appender to a file only.
\<close>

theorem log_define_roundtrip:
  assumes "define_plain d" and "yl_load lib (yl_print lib (LogDefine_node d)) = Inr (LogDefine_node d)"
  shows "LexicalCast_string_LogDefine lib (LexicalCast_LogDefine_string lib d) = Inr d"
proof -
  have "map_res (\<lambda>i. bind_res (yaml_at lib (YSequence (map appender_node (ld_appenders d))) i) (appender_of lib)) [0 ..< length (ld_appenders d)]
      = Inr (map (\<lambda>i. Some (ld_appenders d ! i)) [0 ..< length (ld_appenders d)])"
    by (rule map_res_map) (use assms(1) in \<open>auto simp: define_plain_def list_all_length appender_roundtrip\<close>)
  moreover have "List.map_filter id (map (\<lambda>i. Some (ld_appenders d ! i)) [0 ..< length (ld_appenders d)]) = ld_appenders d"
    by (simp add: map_filter_def comp_def map_nth)
  ultimately show ?thesis
    using assms level_roundtrip [of "ld_level d"] unfolding define_plain_def
    by (cases d) (auto simp: LexicalCast_LogDefine_string_def LexicalCast_string_LogDefine_def LogDefine_node_def string_or_def)
qed

definition define_demo :: LogDefine where
  "define_demo = \<lparr>ld_name = ''root'', ld_level = INFO, ld_formatter = ''%d%T%m%n'',
     ld_appenders = [\<lparr>lad_type = 1, lad_formatter = [], lad_file = ''root.txt'', lad_level = ERROR\<rparr>, \<lparr>lad_type = 2, lad_formatter = ''%m'', lad_file = [], lad_level = DEBUG\<rparr>]\<rparr>"

definition lib_demo :: yaml_lib where
  "lib_demo = \<lparr>yl_load = (\<lambda>_. Inr (LogDefine_node define_demo)), yl_print = (\<lambda>_. ''doc''), yl_index = (\<lambda>_ _. Inl YamlError), yl_items = (\<lambda>_. Inl YamlError),
     yl_member = (\<lambda>_ _. Inl YamlError), yl_as = (\<lambda>_. Inl YamlError)\<rparr>"

theorem log_define_roundtrip_witness:
  "LexicalCast_string_LogDefine lib_demo (LexicalCast_LogDefine_string lib_demo define_demo) = Inr define_demo"
proof (rule log_define_roundtrip)
  show "define_plain define_demo" by (simp add: define_plain_def define_demo_def appender_plain_def)
  show "yl_load lib_demo (yl_print lib_demo (LogDefine_node define_demo)) = Inr (LogDefine_node define_demo)" by (simp add: lib_demo_def)
qed

section \<open>What the listener does\<close>

interpretation log_names: strict_weak LogDefine_less
  by unfold_locales (auto simp: LogDefine_less_def)

lemma find_define: "log_names.ord ds \<Longrightarrow> sset_find LogDefine_less i ds = find (\<lambda>d. ld_name d = ld_name i) ds"
proof (induction ds)
  case (Cons d ds)
  have "find (\<lambda>d. ld_name d = ld_name i) ds = None" if "LogDefine_less i d"
    using Cons.prems that by (auto simp: find_None_iff LogDefine_less_def)
  then show ?case using Cons by (auto simp: LogDefine_less_def)
qed simp

text \<open>From one world to a later one: new appenders, and only some loggers change.\<close>

definition extends :: "string set \<Rightarrow> log_world \<Rightarrow> log_world \<Rightarrow> bool" where
  "extends N w w' \<longleftrightarrow> log_wf w' \<and> prefix (lw_appenders w) (lw_appenders w') \<and> (\<forall>n. n \<notin> N \<longrightarrow> logger_at w n \<noteq> None \<longrightarrow> logger_at w' n = logger_at w n)"

lemma extends_trans: "extends N w w1 \<Longrightarrow> extends N' w1 w2 \<Longrightarrow> N \<union> N' \<subseteq> M \<Longrightarrow> extends M w w2"
  unfolding extends_def using prefix_order.trans by (metis UnI1 UnI2 in_mono)

text \<open>An appender, a logger as it is described, and a logger out of use.\<close>

definition fits :: "log_world \<Rightarrow> LogFormatter option \<Rightarrow> nat \<Rightarrow> LogAppenderDefine \<Rightarrow> bool" where
  "fits w fmt i a \<longleftrightarrow> i < length (lw_appenders w) \<and>
     (let ap = lw_appenders w ! i in
      ap_type ap = (if lad_type a = 1 then FileLogAppender (lad_file a) else StdoutLogAppender) \<and> ap_level ap = lad_level a \<and>
      ap_formatter ap = (if lad_formatter a \<noteq> [] \<and> pattern_ok (lad_formatter a) then Some (LogFormatter_new (lad_formatter a)) else fmt))"

definition configured :: "log_world \<Rightarrow> LogDefine \<Rightarrow> bool" where
  "configured w d \<longleftrightarrow> (\<exists>lg. smap_get (<) (ld_name d) (lw_loggers w) = Some lg \<and> lg_level lg = ld_level d \<and>
     (ld_formatter d \<noteq> [] \<and> pattern_ok (ld_formatter d) \<longrightarrow> lg_formatter lg = Some (LogFormatter_new (ld_formatter d))) \<and>
     list_all2 (fits w (lg_formatter lg)) (lg_appenders lg) (ld_appenders d))"

definition retired :: "log_world \<Rightarrow> string \<Rightarrow> bool" where
  "retired w n \<longleftrightarrow> (\<exists>lg. smap_get (<) n (lw_loggers w) = Some lg \<and> lg_level lg = 800 \<and> lg_appenders lg = [])"

lemma formatter_error: "fm_error (LogFormatter_new p) = (\<not> pattern_ok p)"
proof -
  obtain items err where i: "init_items p False 0 [] = (items, err)" by (rule prod.exhaust)
  from init_items_meaning [OF _ this, of "\<lambda>x. case x of PlainFormatItem s \<Rightarrow> s | _ \<Rightarrow> []"] show ?thesis
    by (auto simp: LogFormatter_new_def i pending_def)
qed

lemma fits_later: "fits w fmt i a \<Longrightarrow> prefix (lw_appenders w) (lw_appenders w') \<Longrightarrow> fits w' fmt i a"
  by (auto simp: fits_def Let_def prefix_def nth_append)

lemma configured_later: "configured w d \<Longrightarrow> extends N w w' \<Longrightarrow> ld_name d \<notin> N \<Longrightarrow> configured w' d"
  unfolding configured_def extends_def by (metis (no_types, lifting) fits_later list_all2_mono option.distinct(1))

lemma retired_later: "retired w n \<Longrightarrow> extends N w w' \<Longrightarrow> n \<notin> N \<Longrightarrow> retired w' n"
  unfolding retired_def extends_def by auto

lemma add_defined_result:
  assumes "logger_at w name = Some lg" and "add_defined sys name a w = (Inr u, w')"
  shows "\<exists>ap. lad_type a \<in> {1, 2} \<and> w' = w\<lparr>lw_appenders := lw_appenders w @ [ap], lw_loggers := smap_put (<) name (lg\<lparr>lg_appenders := lg_appenders lg @ [length (lw_appenders w)]\<rparr>) (lw_loggers w)\<rparr>
    \<and> ap_type ap = (if lad_type a = 1 then FileLogAppender (lad_file a) else StdoutLogAppender) \<and> ap_level ap = lad_level a
    \<and> ap_formatter ap = (if lad_formatter a \<noteq> [] \<and> pattern_ok (lad_formatter a) then Some (LogFormatter_new (lad_formatter a)) else lg_formatter lg)"
proof -
  have t: "lad_type a = 1 \<or> lad_type a = 2" using assms by (auto simp: add_defined_def andthen_def split: if_splits)
  then show ?thesis
    using assms formatter_error [of "lad_formatter a"]
    by (auto simp: add_defined_def FileLogAppender_new_def StdoutLogAppender_new_def LogAppender_new_def FileLogAppender_reopen_def LogAppender_setLevel_def LogAppender_setFormatter_def
        Logger_addAppender_def the_logger_def the_appender_def put_appender_def put_logger_def andthen_def split: if_splits)
qed

lemma more_appenders_wf: "log_wf w \<Longrightarrow> log_wf (w\<lparr>lw_appenders := lw_appenders w @ as\<rparr>)"
  unfolding log_wf_def by (fastforce simp: nth_append)

lemma add_defined_extends:
  assumes "log_wf w" and "logger_at w name = Some lg" and "add_defined sys name a w = (Inr u, w')"
  shows "extends {name} w w'" "\<exists>i. logger_at w' name = Some (lg\<lparr>lg_appenders := lg_appenders lg @ [i]\<rparr>) \<and> fits w' (lg_formatter lg) i a"
proof -
  let ?n = "length (lw_appenders w)" and ?lg = "lg\<lparr>lg_appenders := lg_appenders lg @ [length (lw_appenders w)]\<rparr>"
  obtain ap where ap: "w' = w\<lparr>lw_appenders := lw_appenders w @ [ap], lw_loggers := smap_put (<) name ?lg (lw_loggers w)\<rparr>"
      "ap_type ap = (if lad_type a = 1 then FileLogAppender (lad_file a) else StdoutLogAppender)" "ap_level ap = lad_level a"
      "ap_formatter ap = (if lad_formatter a \<noteq> [] \<and> pattern_ok (lad_formatter a) then Some (LogFormatter_new (lad_formatter a)) else lg_formatter lg)"
    using add_defined_result [OF assms(2,3)] by blast
  let ?w1 = "w\<lparr>lw_appenders := lw_appenders w @ [ap]\<rparr>"
  note lg = logger_wf [OF assms(1,2)]
  have w1: "log_wf ?w1" by (rule more_appenders_wf [OF assms(1)])
  have at: "logger_at w' n = (if n = name then Some ?lg else logger_at w n)" for n
    using logger_at_put [OF w1, where name = name and lg = ?lg and n = n] ap(1) by simp
  have "\<forall>i \<in> set (lg_appenders ?lg). has_formatter ?w1 i" using lg ap(4) by (auto simp: nth_append)
  then have "log_wf w'" using put_logger_wf [OF w1, of ?lg name] lg ap(1) by (simp add: put_logger_def)
  then show "extends {name} w w'" using at ap(1) by (simp add: extends_def)
  show "\<exists>i. logger_at w' name = Some (lg\<lparr>lg_appenders := lg_appenders lg @ [i]\<rparr>) \<and> fits w' (lg_formatter lg) i a"
    using at [of name] ap by (intro exI [of _ ?n]) (simp add: fits_def Let_def)
qed

lemma add_all_defined_result:
  assumes "log_wf w" and "logger_at w name = Some lg" and "add_all_defined sys name as w = (Inr u, w')"
  shows "extends {name} w w' \<and> (\<exists>ids. logger_at w' name = Some (lg\<lparr>lg_appenders := lg_appenders lg @ ids\<rparr>) \<and> list_all2 (fits w' (lg_formatter lg)) ids as)"
  using assms
proof (induction as arbitrary: w lg)
  case Nil
  then show ?case by (auto simp: extends_def)
next
  case (Cons a as)
  obtain u1 w1 where 1: "add_defined sys name a w = (Inr u1, w1)" "add_all_defined sys name as w1 = (Inr u, w')"
    using Cons.prems(3) by (auto elim: andthen_eq_InrE)
  note e = add_defined_extends [OF Cons.prems(1,2) 1(1)]
  obtain i where i: "logger_at w1 name = Some (lg\<lparr>lg_appenders := lg_appenders lg @ [i]\<rparr>)" "fits w1 (lg_formatter lg) i a" using e(2) by blast
  have "log_wf w1" using e(1) by (simp add: extends_def)
  from Cons.IH [OF this i(1) 1(2)] obtain ids where ids: "extends {name} w1 w'"
      "logger_at w' name = Some (lg\<lparr>lg_appenders := lg_appenders lg @ i # ids\<rparr>)" "list_all2 (fits w' (lg_formatter lg)) ids as" by auto
  have "fits w' (lg_formatter lg) i a" using fits_later [OF i(2)] ids(1) by (simp add: extends_def)
  then show ?case using ids extends_trans [OF e(1) ids(1), of "{name}"] by (intro conjI exI [of _ "i # ids"]) simp_all
qed

text \<open>The logger that the listener asks the manager for, and a change of its record.\<close>

lemma getLogger_extends:
  assumes "log_wf w"
  obtains w1 lg where "LoggerManager_getLogger name w = (Inr name, w1)" "extends {name} w w1" "logger_at w1 name = Some lg"
proof -
  have keep: "n \<noteq> name \<Longrightarrow> logger_at (snd (LoggerManager_getLogger name w)) n = logger_at w n"
      "prefix (lw_appenders w) (lw_appenders (snd (LoggerManager_getLogger name w)))" "fst (LoggerManager_getLogger name w) = Inr name" for n
    using assms unfolding log_wf_def
    by (auto simp: LoggerManager_getLogger_def enter_logger_def Logger_named_def Logger_new_def put_logger_def StdoutLogAppender_new_def LogAppender_new_def Logger_addAppender_def
        LogAppender_setFormatter_def the_logger_def the_appender_def put_appender_def andthen_def std_less.smap_get_put std_less.ord_smap_put split: option.splits)
  note w1 = getLogger_wf [OF assms, of name]
  obtain lg where "logger_at (snd (LoggerManager_getLogger name w)) name = Some lg" using w1(2) by blast
  moreover have "LoggerManager_getLogger name w = (Inr name, snd (LoggerManager_getLogger name w))" using keep(3) by (metis prod.collapse)
  moreover have "extends {name} w (snd (LoggerManager_getLogger name w))" using w1(1) keep(1,2) by (simp add: extends_def)
  ultimately show thesis using that by blast
qed

lemma change_logger_extends:
  assumes "log_wf w" and "logger_at w name = Some lg" and "lg_name lg' = name" and "lg_formatter lg' \<noteq> None" and "set (lg_appenders lg') \<subseteq> set (lg_appenders lg)"
  shows "extends {name} w (snd (put_logger name lg' w))" "logger_at (snd (put_logger name lg' w)) name = Some lg'"
proof -
  have "log_wf (snd (put_logger name lg' w))" using assms logger_wf [OF assms(1,2)] by (intro put_logger_wf) auto
  then show "extends {name} w (snd (put_logger name lg' w))"
    using logger_at_put [OF assms(1), where name = name and lg = lg'] by (simp add: extends_def put_logger_def)
  show "logger_at (snd (put_logger name lg' w)) name = Some lg'"
    using logger_at_put [OF assms(1), where name = name and lg = lg' and n = name] by (simp add: put_logger_def)
qed

lemma with_logger: "logger_at w name = Some lg \<Longrightarrow> andthen (the_logger name) f w = f lg w"
  by (simp add: andthen_def the_logger_def)

lemma put_logger_ok: "put_logger name lg w = (Inr (), snd (put_logger name lg w))"
  by (simp add: put_logger_def)

lemma set_and_clear:
  assumes "log_wf w" and "logger_at w name = Some lg"
    and "lg' = lg\<lparr>lg_level := level, lg_formatter := (if fmt \<noteq> [] \<and> pattern_ok fmt then Some (LogFormatter_new fmt) else lg_formatter lg), lg_appenders := []\<rparr>"
  obtains w' where "andthen (Logger_setLevel name level) (\<lambda>_. andthen (if fmt \<noteq> [] then Logger_setFormatter name fmt else ret ()) (\<lambda>_. andthen (Logger_clearAppenders name) f)) w = f () w'"
    "extends {name} w w'" "logger_at w' name = Some lg'"
proof -
  note lg = logger_wf [OF assms(1,2)]
  let ?lg1 = "lg\<lparr>lg_level := level\<rparr>" and ?lg2 = "lg\<lparr>lg_level := level, lg_formatter := (if fmt \<noteq> [] \<and> pattern_ok fmt then Some (LogFormatter_new fmt) else lg_formatter lg)\<rparr>"
  define w1 where "w1 = snd (put_logger name ?lg1 w)"
  have 1: "extends {name} w w1" "logger_at w1 name = Some ?lg1" unfolding w1_def using lg by (intro change_logger_extends [OF assms(1,2)]; simp)+
  then have wf1: "log_wf w1" by (simp add: extends_def)
  define w2 where "w2 = (if fmt \<noteq> [] \<and> pattern_ok fmt then snd (put_logger name ?lg2 w1) else w1)"
  have 2: "extends {name} w1 w2" "logger_at w2 name = Some ?lg2"
    using change_logger_extends [OF wf1 1(2), of ?lg2] lg 1(2) wf1 by (auto simp: w2_def extends_def)
  then have wf2: "log_wf w2" by (simp add: extends_def)
  define w3 where "w3 = snd (put_logger name (?lg2\<lparr>lg_appenders := []\<rparr>) w2)"
  have 3: "extends {name} w2 w3" "logger_at w3 name = Some (?lg2\<lparr>lg_appenders := []\<rparr>)"
    unfolding w3_def using lg by (intro change_logger_extends [OF wf2 2(2)]; simp)+
  have "Logger_setLevel name level w = (Inr (), w1)" unfolding Logger_setLevel_def w1_def with_logger [OF assms(2)] by (rule put_logger_ok)
  moreover have "(if fmt \<noteq> [] then Logger_setFormatter name fmt else ret ()) w1 = (Inr (), w2)"
    using put_logger_ok [of name ?lg2 w1] formatter_error [of fmt] by (auto simp: with_logger [OF 1(2)] Logger_setFormatter_def Logger_setFormatter_ptr_def w2_def)
  moreover have "Logger_clearAppenders name w2 = (Inr (), w3)" unfolding Logger_clearAppenders_def w3_def with_logger [OF 2(2)] by (rule put_logger_ok)
  ultimately have "andthen (Logger_setLevel name level) (\<lambda>_. andthen (if fmt \<noteq> [] then Logger_setFormatter name fmt else ret ()) (\<lambda>_. andthen (Logger_clearAppenders name) f)) w = f () w3"
    by (simp add: andthen_def)
  moreover have "extends {name} w w3" using extends_trans [OF extends_trans [OF 1(1) 2(1) subset_refl] 3(1), of "{name}"] by simp
  ultimately show thesis using that 3(2) assms(3) by simp
qed

text \<open>Before its appenders are added, the logger has the described level and formatter, and no appender.\<close>

lemma apply_define_prepared:
  assumes "log_wf w"
  obtains w2 lg where "apply_define sys d w = add_all_defined sys (ld_name d) (ld_appenders d) w2" "extends {ld_name d} w w2"
    "logger_at w2 (ld_name d) = Some lg" "lg_level lg = ld_level d" "lg_appenders lg = []"
    "ld_formatter d \<noteq> [] \<and> pattern_ok (ld_formatter d) \<longrightarrow> lg_formatter lg = Some (LogFormatter_new (ld_formatter d))"
proof -
  let ?name = "ld_name d"
  obtain w1 lg where 1: "LoggerManager_getLogger ?name w = (Inr ?name, w1)" "extends {?name} w w1" "logger_at w1 ?name = Some lg"
    using getLogger_extends [OF assms] by blast
  have wf1: "log_wf w1" using 1(2) by (simp add: extends_def)
  let ?fmt = "if ld_formatter d \<noteq> [] \<and> pattern_ok (ld_formatter d) then Some (LogFormatter_new (ld_formatter d)) else lg_formatter lg"
  let ?lg = "lg\<lparr>lg_level := ld_level d, lg_formatter := ?fmt, lg_appenders := []\<rparr>"
  obtain w2 where 2: "apply_define sys d w = add_all_defined sys ?name (ld_appenders d) w2" "extends {?name} w1 w2" "logger_at w2 ?name = Some ?lg"
    using set_and_clear [OF wf1 1(3) refl, of "ld_level d" "ld_formatter d" "\<lambda>_. add_all_defined sys ?name (ld_appenders d)"] 1(1)
    by (auto simp: apply_define_def andthen_def)
  have "extends {?name} w w2" using extends_trans [OF 1(2) 2(2), of "{?name}"] by simp
  with 2 show thesis using that by simp
qed

lemma apply_define_result:
  assumes "log_wf w" and "apply_define sys d w = (Inr u, w')"
  shows "extends {ld_name d} w w' \<and> configured w' d"
proof -
  let ?name = "ld_name d"
  obtain w2 lg where 2: "apply_define sys d w = add_all_defined sys ?name (ld_appenders d) w2" "extends {?name} w w2"
      "logger_at w2 ?name = Some lg" "lg_level lg = ld_level d" "lg_appenders lg = []"
      "ld_formatter d \<noteq> [] \<and> pattern_ok (ld_formatter d) \<longrightarrow> lg_formatter lg = Some (LogFormatter_new (ld_formatter d))"
    using apply_define_prepared [OF assms(1), of sys d] by blast
  have wf2: "log_wf w2" using 2(2) by (simp add: extends_def)
  from add_all_defined_result [OF wf2 2(3) assms(2) [unfolded 2(1)]] obtain ids where 3: "extends {?name} w2 w'" "logger_at w' ?name = Some (lg\<lparr>lg_appenders := ids\<rparr>)"
      "list_all2 (fits w' (lg_formatter lg)) ids (ld_appenders d)" using 2(5) by auto
  then show ?thesis using extends_trans [OF 2(2) 3(1), of "{?name}"] 2(4,6) by (auto simp: configured_def)
qed

lemma retire_run:
  assumes "log_wf w"
  shows "\<exists>w'. retire n w = (Inr (), w') \<and> extends {n} w w' \<and> retired w' n"
proof -
  obtain w1 lg where 1: "LoggerManager_getLogger n w = (Inr n, w1)" "extends {n} w w1" "logger_at w1 n = Some lg"
    using getLogger_extends [OF assms] by blast
  have wf1: "log_wf w1" using 1(2) by (simp add: extends_def)
  have s: "andthen f (\<lambda>_. g) = andthen f (\<lambda>_. andthen (ret ()) (\<lambda>_. andthen g ret))" for f g :: "unit log_oper"
    by (auto simp: andthen_def fun_eq_iff split: prod.splits sum.splits)
  have "retire n w = andthen (Logger_setLevel n 800) (\<lambda>_. Logger_clearAppenders n) w1" unfolding retire_def using 1(1) by (rule andthen_Inr)
  also have "\<dots> = andthen (Logger_setLevel n 800) (\<lambda>_. andthen (ret ()) (\<lambda>_. andthen (Logger_clearAppenders n) ret)) w1" by (rule fun_cong [OF s])
  finally have r: "retire n w = andthen (Logger_setLevel n 800) (\<lambda>_. andthen (ret ()) (\<lambda>_. andthen (Logger_clearAppenders n) ret)) w1" .
  obtain w2 where 2: "retire n w = (Inr (), w2)" "extends {n} w1 w2" "logger_at w2 n = Some (lg\<lparr>lg_level := 800, lg_formatter := lg_formatter lg, lg_appenders := []\<rparr>)"
    using set_and_clear [OF wf1 1(3) refl, of 800 "[]" ret] r by auto
  then show ?thesis using extends_trans [OF 1(2) 2(2), of "{n}"] by (auto simp: retired_def)
qed

lemma retire_result: "log_wf w \<Longrightarrow> retire n w = (Inr u, w') \<Longrightarrow> extends {n} w w' \<and> retired w' n"
  using retire_run [of w n] by auto

lemma apply_new_result:
  assumes "log_wf w" and "apply_new sys old ds w = (Inr u, w')" and "distinct (map ld_name ds)"
  shows "extends (ld_name ` {d \<in> set ds. needs_change old d}) w w' \<and> (\<forall>d \<in> set ds. needs_change old d \<longrightarrow> configured w' d)"
  using assms
proof (induction ds arbitrary: w)
  case Nil
  then show ?case by (simp add: extends_def)
next
  case (Cons d ds)
  obtain u1 w1 where 1: "(if needs_change old d then apply_define sys d else ret ()) w = (Inr u1, w1)" "apply_new sys old ds w1 = (Inr u, w')"
    using Cons.prems(2) by (auto elim: andthen_eq_InrE)
  let ?N = "if needs_change old d then {ld_name d} else {}"
  have e1: "extends ?N w w1 \<and> (needs_change old d \<longrightarrow> configured w1 d)"
    using 1(1) Cons.prems(1) apply_define_result [OF Cons.prems(1), of sys d u1 w1] by (cases "needs_change old d") (simp_all add: extends_def)
  have wf1: "log_wf w1" using e1 by (simp add: extends_def)
  note e2 = Cons.IH [OF wf1 1(2)]
  have "extends (ld_name ` {x \<in> set (d # ds). needs_change old x}) w w'"
    by (rule extends_trans [OF conjunct1 [OF e1] conjunct1 [OF e2]]) (use Cons.prems(3) in auto)
  moreover have "needs_change old d \<longrightarrow> configured w' d"
    using e1 e2 Cons.prems(3) configured_later [of w1 d] by fastforce
  ultimately show ?case using e2 Cons.prems(3) by auto
qed

lemma retire_old_result:
  assumes "log_wf w" and "retire_old new ds w = (Inr u, w')" and "distinct (map ld_name ds)"
  shows "extends (ld_name ` {d \<in> set ds. sset_find LogDefine_less d new = None}) w w' \<and> (\<forall>d \<in> set ds. sset_find LogDefine_less d new = None \<longrightarrow> retired w' (ld_name d))"
  using assms
proof (induction ds arbitrary: w)
  case Nil
  then show ?case by (simp add: extends_def)
next
  case (Cons d ds)
  let ?gone = "\<lambda>d. sset_find LogDefine_less d new = None"
  obtain u1 w1 where 1: "(if ?gone d then retire (ld_name d) else ret ()) w = (Inr u1, w1)" "retire_old new ds w1 = (Inr u, w')"
    using Cons.prems(2) by (auto elim: andthen_eq_InrE)
  let ?N = "if ?gone d then {ld_name d} else {}"
  have e1: "extends ?N w w1 \<and> (?gone d \<longrightarrow> retired w1 (ld_name d))"
    using 1(1) Cons.prems(1) retire_result [OF Cons.prems(1), of "ld_name d" u1 w1] by (cases "sset_find LogDefine_less d new") (simp_all add: extends_def)
  have wf1: "log_wf w1" using e1 by (simp add: extends_def)
  note e2 = Cons.IH [OF wf1 1(2)]
  have "extends (ld_name ` {x \<in> set (d # ds). ?gone x}) w w'"
    by (rule extends_trans [OF conjunct1 [OF e1] conjunct1 [OF e2]]) (use Cons.prems(3) in auto)
  moreover have "?gone d \<longrightarrow> retired w' (ld_name d)"
    using e1 e2 Cons.prems(3) retired_later [of w1 "ld_name d"] by fastforce
  ultimately show ?case using e2 Cons.prems(3) by auto
qed

lemma ord_names: "log_names.ord ds \<Longrightarrow> distinct (map ld_name ds)"
  by (induction ds) (auto simp: LogDefine_less_def)

lemma logs_changed_result:
  assumes "log_wf w" and "log_names.ord old" and "log_names.ord new" and "logs_changed sys ev old new w = (Inr u, w')"
  shows "(\<forall>d \<in> set new. needs_change old d \<longrightarrow> configured w' d)
    \<and> (\<forall>d \<in> set old. ld_name d \<notin> ld_name ` set new \<longrightarrow> retired w' (ld_name d))
    \<and> (\<forall>n. n \<notin> ld_name ` (set old \<union> set new) \<longrightarrow> logger_at w n \<noteq> None \<longrightarrow> logger_at w' n = logger_at w n) \<and> log_wf w'"
proof -
  obtain ev1 w1 u2 w2 where 1: "Logger_log sys ''global'' ev w = (Inr ev1, w1)" and 2: "apply_new sys old new w1 = (Inr u2, w2)" and 3: "retire_old new old w2 = (Inr u, w')"
    using assms(4) by (auto simp: logs_changed_def elim!: andthen_eq_InrE)
  have "logger_at w ''global'' \<noteq> None" using assms(1) by (simp add: log_wf_def)
  from Logger_log_calm [OF assms(1) this, of sys ev] have "lw_loggers w1 = lw_loggers w" "lw_appenders w1 = lw_appenders w"
    using 1 by (simp_all add: calm_def)
  then have wf1: "log_wf w1" and at: "\<And>n. logger_at w1 n = logger_at w n" using assms(1) log_wf_cong by auto
  note n = apply_new_result [OF wf1 2 ord_names [OF assms(3)]]
  then have wf2: "log_wf w2" by (simp add: extends_def)
  note r = retire_old_result [OF wf2 3 ord_names [OF assms(2)]]
  have gone: "sset_find LogDefine_less d new = None \<longleftrightarrow> ld_name d \<notin> ld_name ` set new" for d
    using find_define [OF assms(3), of d] by (simp add: find_None_iff) (metis (no_types, lifting) image_iff)
  have "configured w' d" if "d \<in> set new" "needs_change old d" for d
  proof (rule configured_later [OF _ conjunct1 [OF r]])
    show "configured w2 d" using n that by blast
    show "ld_name d \<notin> ld_name ` {x \<in> set old. sset_find LogDefine_less x new = None}"
    proof
      assume "ld_name d \<in> ld_name ` {x \<in> set old. sset_find LogDefine_less x new = None}"
      then obtain x where "ld_name d = ld_name x" "sset_find LogDefine_less x new = None" by auto
      with gone [of x] imageI [OF that(1), of ld_name] show False by simp
    qed
  qed
  moreover have "logger_at w' m = logger_at w m" if "m \<notin> ld_name ` (set old \<union> set new)" "logger_at w m \<noteq> None" for m
    using n r that at unfolding extends_def by (auto simp: image_iff)
  ultimately show ?thesis using r gone by (auto simp: extends_def)
qed

text \<open>The listener returns when the appenders are of the two kinds: a description that was read has no others.\<close>

abbreviation kinds_ok :: "LogAppenderDefine list \<Rightarrow> bool" where
  "kinds_ok as \<equiv> list_all (\<lambda>a. lad_type a \<in> {1, 2}) as"

lemma add_defined_returns:
  assumes "logger_at w name = Some lg" and "lad_type a \<in> {1, 2}"
  shows "\<exists>w'. add_defined sys name a w = (Inr (), w')"
  using assms
  by (cases "lad_formatter a \<noteq> [] \<and> \<not> fm_error (LogFormatter_new (lad_formatter a))")
    (auto simp: add_defined_def FileLogAppender_new_def StdoutLogAppender_new_def LogAppender_new_def FileLogAppender_reopen_def LogAppender_setLevel_def LogAppender_setFormatter_def
      Logger_addAppender_def the_logger_def the_appender_def put_appender_def put_logger_def andthen_def)

lemma add_all_defined_returns:
  assumes "log_wf w" and "logger_at w name = Some lg" and "kinds_ok as"
  shows "\<exists>w'. add_all_defined sys name as w = (Inr (), w')"
  using assms
proof (induction as arbitrary: w lg)
  case (Cons a as)
  obtain w1 where 1: "add_defined sys name a w = (Inr (), w1)" using add_defined_returns [OF Cons.prems(2)] Cons.prems(3) by auto
  note e = add_defined_extends [OF Cons.prems(1,2) 1]
  have "log_wf w1" using e(1) by (simp add: extends_def)
  then show ?case using Cons.IH e(2) Cons.prems(3) 1 by (auto simp: andthen_def)
qed simp

lemma apply_define_returns:
  assumes "log_wf w" and "kinds_ok (ld_appenders d)"
  shows "\<exists>w'. apply_define sys d w = (Inr (), w')"
proof (rule apply_define_prepared [OF assms(1), of sys d])
  fix w2 lg
  assume 2: "apply_define sys d w = add_all_defined sys (ld_name d) (ld_appenders d) w2" "extends {ld_name d} w w2" "logger_at w2 (ld_name d) = Some lg"
  then have "log_wf w2" by (simp add: extends_def)
  from add_all_defined_returns [OF this 2(3) assms(2)] show ?thesis by (simp add: 2(1))
qed

lemma apply_new_returns:
  assumes "log_wf w" and "\<forall>d \<in> set ds. needs_change old d \<longrightarrow> kinds_ok (ld_appenders d)"
  shows "\<exists>w'. apply_new sys old ds w = (Inr (), w')"
  using assms
proof (induction ds arbitrary: w)
  case (Cons d ds)
  obtain w1 where 1: "(if needs_change old d then apply_define sys d else ret ()) w = (Inr (), w1)"
    using apply_define_returns [OF Cons.prems(1), of d sys] Cons.prems(2) by (cases "needs_change old d") auto
  have "log_wf w1"
    using 1 Cons.prems(1) apply_define_result [OF Cons.prems(1), of sys d "()" w1] by (cases "needs_change old d") (auto simp: extends_def)
  then show ?case using Cons.IH Cons.prems(2) 1 by (auto simp: andthen_def)
qed simp

lemma retire_old_returns: "log_wf w \<Longrightarrow> \<exists>w'. retire_old new ds w = (Inr (), w')"
proof (induction ds arbitrary: w)
  case (Cons d ds)
  let ?gone = "sset_find LogDefine_less d new = None"
  obtain w1 where 1: "(if ?gone then retire (ld_name d) else ret ()) w = (Inr (), w1)"
    using retire_run [OF Cons.prems, of "ld_name d"] by (cases ?gone) auto
  have "log_wf w1"
    using 1 Cons.prems retire_result [OF Cons.prems, of "ld_name d" "()" w1] by (cases ?gone) (auto simp: extends_def)
  then show ?case using Cons.IH 1 by (auto simp: andthen_def)
qed simp

lemma logs_changed_returns:
  assumes "log_wf w" and "logger_at w ''global'' = Some g" and "list_all (sound_appender w) (lg_appenders g)"
    and "\<forall>d \<in> set new. needs_change old d \<longrightarrow> kinds_ok (ld_appenders d)" and "distinct (map ld_name new)"
  shows "\<exists>w'. logs_changed sys ev old new w = (Inr (), w')"
proof -
  obtain ev1 w1 where 1: "Logger_log sys ''global'' ev w = (Inr ev1, w1)"
    using log_appenders_sound [OF assms(3), of sys "global_log sys ''global''" "lg_name g" ev] assms(2) that
    by (cases "lg_level g \<le> ev_level ev") (auto simp: Logger_log_def the_logger_def andthen_def)
  have "calm (Logger_log sys ''global'' ev) w" using Logger_log_calm [OF assms(1)] assms(2) by simp
  then have wf1: "log_wf w1" using 1 log_wf_cong [OF assms(1)] by (simp add: calm_def)
  obtain w2 where 2: "apply_new sys old new w1 = (Inr (), w2)" using apply_new_returns [OF wf1 assms(4)] by blast
  have "log_wf w2" using apply_new_result [OF wf1 2 assms(5)] by (simp add: extends_def)
  then obtain w3 where "retire_old new old w2 = (Inr (), w3)" using retire_old_returns by blast
  then show ?thesis using 1 2 by (simp add: logs_changed_def andthen_def)
qed


lemma log_demo_wf: "log_wf log_demo"
  unfolding log_demo_def by (rule log_run_wf [OF LoggerManager_new_wf])

lemma log_demo_global: "case smap_get (<) ''global'' (lw_loggers log_demo) of None \<Rightarrow> False | Some g \<Rightarrow> list_all (sound_appender log_demo) (lg_appenders g)"
  by code_simp


end
