(* ===== verification/Mingo_Thread.thy ===== *)
theory Mingo_Thread
  imports Mingo_Text
begin

text \<open>
  \<^verbatim>\<open>mingo/thread.h\<close> and \<^verbatim>\<open>mingo/thread.cpp\<close>: locks with the objects that hold them in a scope, semaphores, and the handshake between the constructor of a thread and the new thread. A lock of the
  system is whether a writer holds it and how many readers do; a mutex, a spin lock and a flag that is tested and set are locks without readers. An operation that has to wait is not enabled.
\<close>

section \<open>Locks\<close>

record lock =
  held_write :: bool
  held_read :: nat

definition free_lock :: lock where
  "free_lock = \<lparr>held_write = False, held_read = 0\<rparr>"

definition lock_rdlock :: "lock \<Rightarrow> lock option" where
  "lock_rdlock l = (if held_write l then None else Some (l\<lparr>held_read := Suc (held_read l)\<rparr>))"

definition lock_wrlock :: "lock \<Rightarrow> lock option" where
  "lock_wrlock l = (if held_write l \<or> held_read l > 0 then None else Some (l\<lparr>held_write := True\<rparr>))"

text \<open>Unlocking what nobody holds is not defined.\<close>

definition lock_unlock :: "lock \<Rightarrow> lock res" where
  "lock_unlock l =
     (if held_write l then Inr (l\<lparr>held_write := False\<rparr>)
      else if held_read l > 0 then Inr (l\<lparr>held_read := held_read l - 1\<rparr>)
      else Inl BadMemory)"

section \<open>Scoped locks\<close>

text \<open>\<open>ScopedLockImpl\<close>, \<open>ReadScopedLockImpl\<close> and \<open>WriteScopedLockImpl\<close> differ in the call that locks.\<close>

datatype lock_kind = Plain | Read | Write

record scoped =
  sl_kind :: lock_kind
  sl_locked :: bool

fun acquire :: "lock_kind \<Rightarrow> lock \<Rightarrow> lock option" where
  "acquire Read l = lock_rdlock l"
| "acquire Plain l = lock_wrlock l"
| "acquire Write l = lock_wrlock l"

definition Scoped_new :: "lock_kind \<Rightarrow> lock \<Rightarrow> (scoped \<times> lock) option" where
  "Scoped_new k l = map_option (Pair \<lparr>sl_kind = k, sl_locked = True\<rparr>) (acquire k l)"

definition Scoped_lock :: "scoped \<Rightarrow> lock \<Rightarrow> (scoped \<times> lock) option" where
  "Scoped_lock s l = (if \<not> sl_locked s then map_option (Pair (s\<lparr>sl_locked := True\<rparr>)) (acquire (sl_kind s) l) else Some (s, l))"

definition Scoped_unlock :: "scoped \<Rightarrow> lock \<Rightarrow> (scoped \<times> lock) res" where
  "Scoped_unlock s l = (if sl_locked s then map_sum id (Pair (s\<lparr>sl_locked := False\<rparr>)) (lock_unlock l) else Inr (s, l))"

text \<open>The threads create, lock, unlock and destroy such objects, each with an identity.\<close>

inductive lock_step :: "(nat \<rightharpoonup> scoped) \<times> lock \<Rightarrow> (nat \<rightharpoonup> scoped) \<times> lock \<Rightarrow> bool" where
  Created: "objs i = None \<Longrightarrow> Scoped_new k l = Some (s, l') \<Longrightarrow> lock_step (objs, l) (objs(i \<mapsto> s), l')"
| Locked: "objs i = Some s \<Longrightarrow> Scoped_lock s l = Some (s', l') \<Longrightarrow> lock_step (objs, l) (objs(i \<mapsto> s'), l')"
| Unlocked: "objs i = Some s \<Longrightarrow> Scoped_unlock s l = Inr (s', l') \<Longrightarrow> lock_step (objs, l) (objs(i \<mapsto> s'), l')"
| Destroyed: "objs i = Some s \<Longrightarrow> Scoped_unlock s l = Inr (s', l') \<Longrightarrow> lock_step (objs, l) (objs(i := None), l')"

definition lockers :: "(nat \<rightharpoonup> scoped) \<Rightarrow> bool \<Rightarrow> nat set" where
  "lockers objs rd = {i. \<exists>s. objs i = Some s \<and> sl_locked s \<and> (sl_kind s = Read) = rd}"

text \<open>The lock is held by the objects that think so.\<close>

definition lock_inv :: "(nat \<rightharpoonup> scoped) \<times> lock \<Rightarrow> bool" where
  "lock_inv = (\<lambda>(objs, l). finite (lockers objs True) \<and> card (lockers objs True) = held_read l \<and>
     (if held_write l then (\<exists>i. lockers objs False = {i}) \<and> held_read l = 0 else lockers objs False = {}))"

lemma lockers_upd:
  "lockers (objs(i \<mapsto> s)) rd = (if sl_locked s \<and> (sl_kind s = Read) = rd then insert i (lockers objs rd) else lockers objs rd - {i})"
  "lockers (objs(i := None)) rd = lockers objs rd - {i}"
  by (auto simp: lockers_def)

lemma lockers_mem: "objs i = Some s \<Longrightarrow> i \<in> lockers objs rd \<longleftrightarrow> sl_locked s \<and> (sl_kind s = Read) = rd"
  by (simp add: lockers_def)

lemma lockers_none: "objs i = None \<Longrightarrow> i \<notin> lockers objs rd"
  by (simp add: lockers_def)

text \<open>Locking for an object that does not hold the lock, and unlocking for one that does.\<close>

lemma acquire_inv:
  assumes "lock_inv (objs, l)" and "\<And>rd. i \<notin> lockers objs rd" and "acquire k l = Some l'"
  shows "lock_inv (objs(i \<mapsto> \<lparr>sl_kind = k, sl_locked = True\<rparr>), l')"
  using assms by (cases k) (auto simp: lock_inv_def lock_rdlock_def lock_wrlock_def lockers_upd split: if_splits)

lemma unlock_inv:
  assumes "lock_inv (objs, l)" and "objs i = Some s" and "sl_locked s"
  shows "\<exists>l'. lock_unlock l = Inr l' \<and> lock_inv (objs(i \<mapsto> s\<lparr>sl_locked := False\<rparr>), l') \<and> lock_inv (objs(i := None), l')"
proof -
  have m: "i \<in> lockers objs (sl_kind s = Read)" "i \<notin> lockers objs (sl_kind s \<noteq> Read)" using assms(2,3) by (simp_all add: lockers_mem)
  show ?thesis
  proof (cases "sl_kind s = Read")
    case True
    then have "finite (lockers objs True)" "i \<in> lockers objs True" "i \<notin> lockers objs False" "card (lockers objs True) = held_read l" using m assms(1) by (auto simp: lock_inv_def)
    then have "0 < held_read l" "card (lockers objs True - {i}) = held_read l - 1"
      using card_gt_0_iff [of "lockers objs True"] card_Diff_singleton [of i "lockers objs True"] by auto
    moreover have "\<not> held_write l" using \<open>0 < held_read l\<close> assms(1) by (auto simp: lock_inv_def split: if_splits)
    moreover note \<open>finite (lockers objs True)\<close>
    ultimately show ?thesis using assms(1) True m by (auto simp: lock_inv_def lock_unlock_def lockers_upd split: if_splits)
  next
    case False
    then have "lockers objs False = {i}" "held_write l" "held_read l = 0" "lockers objs True = {}"
      using m assms(1) by (auto simp: lock_inv_def split: if_splits)
    then show ?thesis using False by (simp add: lock_inv_def lock_unlock_def lockers_upd)
  qed
qed

lemma lock_step_inv: "lock_step x y \<Longrightarrow> lock_inv x \<Longrightarrow> lock_inv y"
proof (induction rule: lock_step.induct)
  case (Created objs i k l s l')
  then show ?case using acquire_inv [of objs l i k l'] lockers_none by (auto simp: Scoped_new_def)
next
  case (Locked objs i s l s' l')
  then show ?case
  proof (cases "sl_locked s")
    case False
    then have "\<And>rd. i \<notin> lockers objs rd" "acquire (sl_kind s) l = Some l'" "s' = \<lparr>sl_kind = sl_kind s, sl_locked = True\<rparr>"
      using Locked by (auto simp: lockers_mem Scoped_lock_def)
    then show ?thesis using acquire_inv [OF Locked.prems] by blast
  qed (use Locked in \<open>auto simp: Scoped_lock_def fun_upd_idem\<close>)
next
  case (Unlocked objs i s l s' l')
  then show ?case using unlock_inv [OF Unlocked.prems Unlocked.hyps(1)] by (cases "sl_locked s") (auto simp: Scoped_unlock_def fun_upd_idem)
next
  case (Destroyed objs i s l s' l')
  then show ?case
  proof (cases "sl_locked s")
    case False
    then have "lockers (objs(i := None)) rd = lockers objs rd" for rd using Destroyed by (simp add: lockers_upd lockers_mem)
    then show ?thesis using Destroyed False by (simp add: Scoped_unlock_def lock_inv_def)
  qed (use unlock_inv [OF Destroyed.prems Destroyed.hyps(1)] Destroyed in \<open>auto simp: Scoped_unlock_def\<close>)
qed



section \<open>Semaphores\<close>

text \<open>\<open>wait\<close> is not enabled at 0. A call of the system that fails, as an interrupted \<open>sem_wait\<close> does, throws.\<close>

definition Semaphore_new :: "bool \<Rightarrow> nat \<Rightarrow> nat res" where
  "Semaphore_new fail count = (if fail then Inl LogicError else Inr count)"

definition Semaphore_wait :: "bool \<Rightarrow> nat \<Rightarrow> nat res option" where
  "Semaphore_wait fail n = (if fail then Some (Inl LogicError) else if n = 0 then None else Some (Inr (n - 1)))"

definition Semaphore_notify :: "bool \<Rightarrow> nat \<Rightarrow> nat res" where
  "Semaphore_notify fail n = (if fail then Inl LogicError else Inr (Suc n))"

section \<open>Threads\<close>

record 'c Thread =
  th_id :: int
  th_thread :: u64
  th_cb :: "'c option"
  th_name :: string
  th_semaphore :: nat

text \<open>The variables that belong to one thread of the system.\<close>

record thread_local =
  t_thread :: "nat option"
  t_thread_name :: string

definition thread_local_new :: thread_local where
  "thread_local_new = \<lparr>t_thread = None, t_thread_name = ''UNKNOW''\<rparr>"

text \<open>The constructor before it waits, for the result and the handle that \<open>pthread_create\<close> gives.\<close>

definition Thread_new :: "'c \<Rightarrow> string \<Rightarrow> int \<Rightarrow> u64 \<Rightarrow> 'c Thread res" where
  "Thread_new cb name rt handle =
     (if rt \<noteq> 0 then Inl LogicError
      else Inr \<lparr>th_id = - 1, th_thread = handle, th_cb = Some cb, th_name = (if name = [] then ''UNKNOW'' else name), th_semaphore = 0\<rparr>)"

text \<open>\<open>run\<close>: its steps before the callback, which it takes away from the object, and the notification.\<close>

definition Thread_run_setup :: "nat \<Rightarrow> int \<Rightarrow> 'c Thread \<Rightarrow> thread_local \<Rightarrow> 'c option \<times> 'c Thread \<times> thread_local" where
  "Thread_run_setup self tid t v = (th_cb t, t\<lparr>th_id := tid, th_cb := None\<rparr>, v\<lparr>t_thread := Some self, t_thread_name := th_name t\<rparr>)"

text \<open>The name that the system is given.\<close>

definition pthread_name :: "'c Thread \<Rightarrow> string" where
  "pthread_name t = c_str (take 15 (th_name t))"

definition Thread_notify :: "bool \<Rightarrow> 'c Thread \<Rightarrow> 'c Thread res" where
  "Thread_notify fail t = map_sum id (\<lambda>n. t\<lparr>th_semaphore := n\<rparr>) (Semaphore_notify fail (th_semaphore t))"

definition Thread_await :: "bool \<Rightarrow> 'c Thread \<Rightarrow> 'c Thread res option" where
  "Thread_await fail t = map_option (map_sum id (\<lambda>n. t\<lparr>th_semaphore := n\<rparr>)) (Semaphore_wait fail (th_semaphore t))"

definition Thread_join :: "int \<Rightarrow> 'c Thread \<Rightarrow> 'c Thread res" where
  "Thread_join rt t = (if th_thread t \<noteq> 0 then if rt \<noteq> 0 then Inl LogicError else Inr (t\<lparr>th_thread := 0\<rparr>) else Inr t)"

text \<open>Whether the destructor detaches the thread.\<close>

definition Thread_delete :: "'c Thread \<Rightarrow> bool" where
  "Thread_delete t \<longleftrightarrow> th_thread t \<noteq> 0"

definition Thread_GetName :: "thread_local \<Rightarrow> string" where
  "Thread_GetName v = t_thread_name v"

definition Thread_GetThis :: "thread_local \<Rightarrow> nat option" where
  "Thread_GetThis v = t_thread v"

text \<open>\<open>SetName\<close> with the object of the current thread, if there is one.\<close>

definition Thread_SetName :: "string \<Rightarrow> 'c Thread option \<Rightarrow> thread_local \<Rightarrow> 'c Thread option \<times> thread_local" where
  "Thread_SetName name this v = (map_option (\<lambda>t. t\<lparr>th_name := name\<rparr>) this, v\<lparr>t_thread_name := name\<rparr>)"

text \<open>
  The handshake: the constructor waits (0) or has returned (1); the new thread starts (0), has set itself up (1), has notified and runs the callback (2) or has ended (3).
\<close>

record 'c handshake =
  hs_thread :: "'c Thread"
  hs_locals :: thread_local
  hs_creator :: nat
  hs_runner :: nat
  hs_taken :: "'c option"

inductive handshake_step :: "nat \<Rightarrow> int \<Rightarrow> 'c handshake \<Rightarrow> 'c handshake \<Rightarrow> bool" for self tid where
  Setup: "hs_runner x = 0 \<Longrightarrow> Thread_run_setup self tid (hs_thread x) (hs_locals x) = (cb, t, v) \<Longrightarrow>
    handshake_step self tid x (x\<lparr>hs_thread := t, hs_locals := v, hs_taken := cb, hs_runner := 1\<rparr>)"
| Notify: "hs_runner x = 1 \<Longrightarrow> Thread_notify False (hs_thread x) = Inr t \<Longrightarrow> handshake_step self tid x (x\<lparr>hs_thread := t, hs_runner := 2\<rparr>)"
| Ran: "hs_runner x = 2 \<Longrightarrow> handshake_step self tid x (x\<lparr>hs_runner := 3\<rparr>)"
| Returned: "hs_creator x = 0 \<Longrightarrow> Thread_await False (hs_thread x) = Some (Inr t) \<Longrightarrow> handshake_step self tid x (x\<lparr>hs_thread := t, hs_creator := 1\<rparr>)"

definition handshake_inv :: "int \<Rightarrow> 'c \<Rightarrow> string \<Rightarrow> 'c handshake \<Rightarrow> bool" where
  "handshake_inv tid cb name x \<longleftrightarrow> hs_runner x \<le> 3 \<and> th_name (hs_thread x) = name \<and>
     (hs_runner x = 0 \<longrightarrow> th_cb (hs_thread x) = Some cb) \<and>
     (hs_runner x \<ge> 1 \<longrightarrow> th_id (hs_thread x) = tid \<and> th_cb (hs_thread x) = None \<and> hs_taken x = Some cb \<and> t_thread_name (hs_locals x) = name) \<and>
     th_semaphore (hs_thread x) + hs_creator x = (if hs_runner x \<ge> 2 then 1 else 0)"

lemma handshake_step_inv: "handshake_step self tid x y \<Longrightarrow> handshake_inv tid cb name x \<Longrightarrow> handshake_inv tid cb name y"
  by (induction rule: handshake_step.induct)
    (auto simp: handshake_inv_def Thread_run_setup_def Thread_notify_def Thread_await_def Semaphore_notify_def Semaphore_wait_def split: if_splits)

text \<open>
  The handshake of a thread. When the constructor has returned, the new thread has stored its number in the object and taken the callback, which it has called or is calling exactly as it was given;
  as long as the constructor waits, there is a step to take; and no run has more than four steps, so that the constructor returns.
\<close>

theorem thread_handshake:
  assumes "Thread_new cb name 0 handle = Inr t"
    and "(handshake_step self tid)\<^sup>*\<^sup>* \<lparr>hs_thread = t, hs_locals = thread_local_new, hs_creator = 0, hs_runner = 0, hs_taken = None\<rparr> x"
  shows "(hs_creator x = 1 \<longrightarrow> th_id (hs_thread x) = tid \<and> th_cb (hs_thread x) = None \<and> hs_taken x = Some cb \<and> hs_runner x \<ge> 2)
    \<and> (hs_creator x = 0 \<longrightarrow> (\<exists>y. handshake_step self tid x y))
    \<and> hs_creator x + hs_runner x \<le> 4 \<and> (\<forall>y. handshake_step self tid x y \<longrightarrow> hs_creator y + hs_runner y = Suc (hs_creator x + hs_runner x))"
proof -
  let ?x = "\<lparr>hs_thread = t, hs_locals = thread_local_new, hs_creator = 0, hs_runner = 0, hs_taken = None\<rparr>"
  have "handshake_inv tid cb (th_name t) ?x" using assms(1) by (auto simp: handshake_inv_def Thread_new_def)
  with assms(2) have i: "handshake_inv tid cb (th_name t) x" by (induction rule: rtranclp_induct) (auto intro: handshake_step_inv)
  have "\<exists>y. handshake_step self tid x y" if "hs_creator x = 0"
  proof -
    consider "hs_runner x = 0" | "hs_runner x = 1" | "hs_runner x \<ge> 2" by linarith
    then show ?thesis
    proof cases
      case 1
      then show ?thesis using handshake_step.Setup by (metis prod_cases3)
    next
      case 2
      then show ?thesis using handshake_step.Notify [OF 2] by (auto simp: Thread_notify_def Semaphore_notify_def)
    next
      case 3
      then have "th_semaphore (hs_thread x) = 1" using i that by (simp add: handshake_inv_def)
      then show ?thesis using handshake_step.Returned [OF that] by (auto simp: Thread_await_def Semaphore_wait_def)
    qed
  qed
  moreover have "hs_creator x + hs_runner x \<le> 4" using i by (auto simp: handshake_inv_def split: if_splits)
  moreover have "hs_creator y + hs_runner y = Suc (hs_creator x + hs_runner x)" if "handshake_step self tid x y" for y
    using that by cases simp_all
  ultimately show ?thesis using i by (auto simp: handshake_inv_def split: if_splits)
qed

theorem thread_handshake_witness:
  "\<exists>t x. Thread_new (7 :: nat) ''io'' 0 1 = Inr t
    \<and> (handshake_step 0 42)\<^sup>*\<^sup>* \<lparr>hs_thread = t, hs_locals = thread_local_new, hs_creator = 0, hs_runner = 0, hs_taken = None\<rparr> x \<and> hs_creator x = 1
    \<and> th_id (hs_thread x) = 42 \<and> hs_taken x = Some 7"
proof -
  obtain t where t: "Thread_new (7 :: nat) ''io'' 0 1 = Inr t" by (simp add: Thread_new_def)
  let ?x = "\<lparr>hs_thread = t, hs_locals = thread_local_new, hs_creator = 0, hs_runner = 0, hs_taken = None\<rparr>"
  obtain cb t1 v where 1: "Thread_run_setup 0 42 t thread_local_new = (cb, t1, v)" by (metis prod_cases3)
  let ?x1 = "?x\<lparr>hs_thread := t1, hs_locals := v, hs_taken := cb, hs_runner := 1\<rparr>"
  have s1: "handshake_step 0 42 ?x ?x1" by (rule handshake_step.Setup) (simp_all add: 1)
  obtain t2 where 2: "Thread_notify False t1 = Inr t2" "th_semaphore t2 \<noteq> 0" by (simp add: Thread_notify_def Semaphore_notify_def)
  have s2: "handshake_step 0 42 ?x1 (?x1\<lparr>hs_thread := t2, hs_runner := 2\<rparr>)" by (rule handshake_step.Notify) (simp_all add: 2)
  obtain t3 where 3: "Thread_await False t2 = Some (Inr t3)" using 2(2) by (simp add: Thread_await_def Semaphore_wait_def)
  let ?x3 = "?x1\<lparr>hs_thread := t2, hs_runner := 2\<rparr>\<lparr>hs_thread := t3, hs_creator := 1\<rparr>"
  have s3: "handshake_step 0 42 (?x1\<lparr>hs_thread := t2, hs_runner := 2\<rparr>) ?x3" by (rule handshake_step.Returned) (simp_all add: 3)
  have r: "(handshake_step 0 42)\<^sup>*\<^sup>* ?x ?x3" using s1 s2 s3 by (meson rtranclp.rtrancl_into_rtrancl rtranclp.rtrancl_refl)
  have "hs_creator ?x3 = 1" by simp
  with thread_handshake [OF t r] t r show ?thesis by blast
qed

end
