(* ===== verification/Mingo_Daemon.thy ===== *)
theory Mingo_Daemon
  imports Mingo_Text
begin

text \<open>
  \<^verbatim>\<open>mingo/daemon.cpp\<close>: running a program under a supervisor that starts it again. The answers of the system are functions of the number of the round; the loop may go on for
  ever and is a partial function. What happens for each sequence of answers is determined completely.
\<close>

section \<open>The processes\<close>

record ProcessInfo =
  parent_id :: int
  main_id :: int
  parent_start_time :: u64
  main_start_time :: u64
  restart_count :: u32

definition ProcessInfo_new :: ProcessInfo where
  "ProcessInfo_new = \<lparr>parent_id = 0, main_id = 0, parent_start_time = 0, main_start_time = 0, restart_count = 0\<rparr>"

text \<open>\<open>Time2Str\<close> with its default format, for the given \<open>strftime\<close> of the system.\<close>

definition Time2Str :: "(string \<Rightarrow> u64 \<Rightarrow> string) \<Rightarrow> u64 \<Rightarrow> string" where
  "Time2Str strftime ts = strftime ''%Y-%m-%d %H:%M:%S'' ts"

definition ProcessInfo_toString :: "(string \<Rightarrow> u64 \<Rightarrow> string) \<Rightarrow> ProcessInfo \<Rightarrow> string" where
  "ProcessInfo_toString strftime p =
     ''[ProcessInfo parent_id='' @ dec_int (parent_id p) @ '' main_id='' @ dec_int (main_id p) @
     '' parent_start_time='' @ Time2Str strftime (parent_start_time p) @ '' main_start_time='' @ Time2Str strftime (main_start_time p) @
     '' restart_count='' @ dec (unat (restart_count p)) @ '']''"

text \<open>
  The system: the number of the process and the time at the start; and for round \<open>k\<close> the result of \<open>fork\<close>, the number of the child and the two times that it reads, the status
  that \<open>waitpid\<close> stores, unless it fails, and the configured interval.
\<close>

record daemon_sys =
  ds_pid :: int
  ds_time :: u64
  ds_fork :: "nat \<Rightarrow> int"
  ds_child :: "nat \<Rightarrow> int"
  ds_child_time :: "nat \<Rightarrow> u64"
  ds_main_time :: "nat \<Rightarrow> u64"
  ds_status :: "nat \<Rightarrow> int option"
  ds_interval :: "nat \<Rightarrow> u32"

text \<open>\<open>main_cb\<close> sees the object with the processes. The second part of the state is what the process has slept.\<close>

type_synonym main_cb = "ProcessInfo \<Rightarrow> int"
type_synonym daemon = "ProcessInfo \<times> u32 list"

definition real_start :: "int \<Rightarrow> u64 \<Rightarrow> main_cb \<Rightarrow> daemon \<Rightarrow> int \<times> daemon" where
  "real_start pid now main_cb = (\<lambda>(p, slept).
     let p1 = p\<lparr>main_id := pid, main_start_time := now\<rparr> in (main_cb p1, (p1, slept)))"

text \<open>A status that \<open>waitpid\<close> does not store is 0.\<close>

definition wait_status :: "daemon_sys \<Rightarrow> nat \<Rightarrow> int" where
  "wait_status sys k = (case ds_status sys k of Some st \<Rightarrow> st | None \<Rightarrow> 0)"

partial_function (option) daemon_loop :: "daemon_sys \<Rightarrow> main_cb \<Rightarrow> nat \<Rightarrow> daemon \<Rightarrow> (int \<times> daemon) option" where
  "daemon_loop sys main_cb k d =
     (let pid = ds_fork sys k in
      if pid = 0 then
        Some (real_start (ds_child sys k) (ds_main_time sys k) main_cb ((fst d)\<lparr>main_id := ds_child sys k, main_start_time := ds_child_time sys k\<rparr>, snd d))
      else if pid < 0 then Some (- 1, d)
      else
        let status = wait_status sys k in
        if status \<noteq> 0 then
          if status = 9 then Some (0, d)
          else daemon_loop sys main_cb (Suc k) ((fst d)\<lparr>restart_count := restart_count (fst d) + 1\<rparr>, snd d @ [ds_interval sys k])
        else Some (0, d))"

declare daemon_loop.simps [code]

definition real_daemon :: "daemon_sys \<Rightarrow> main_cb \<Rightarrow> daemon \<Rightarrow> (int \<times> daemon) option" where
  "real_daemon sys main_cb d = daemon_loop sys main_cb 0 ((fst d)\<lparr>parent_id := ds_pid sys, parent_start_time := ds_time sys\<rparr>, snd d)"

definition start_daemon :: "daemon_sys \<Rightarrow> main_cb \<Rightarrow> bool \<Rightarrow> daemon \<Rightarrow> (int \<times> daemon) option" where
  "start_daemon sys main_cb is_daemon d =
     (if \<not> is_daemon then Some (real_start (ds_pid sys) (ds_main_time sys 0) main_cb ((fst d)\<lparr>parent_id := ds_pid sys, parent_start_time := ds_time sys\<rparr>, snd d))
      else real_daemon sys main_cb d)"

section \<open>The supervisor\<close>

text \<open>A round restarts the program when the child ended with a status other than 0 and the signal 9.\<close>

definition restarts :: "daemon_sys \<Rightarrow> nat \<Rightarrow> bool" where
  "restarts sys k \<longleftrightarrow> ds_fork sys k > 0 \<and> (\<exists>st. ds_status sys k = Some st \<and> st \<noteq> 0 \<and> st \<noteq> 9)"

text \<open>What the last round does.\<close>

definition last_round :: "daemon_sys \<Rightarrow> main_cb \<Rightarrow> nat \<Rightarrow> daemon \<Rightarrow> int \<times> daemon" where
  "last_round sys main_cb k d =
     (if ds_fork sys k = 0 then let p = (fst d)\<lparr>main_id := ds_child sys k, main_start_time := ds_main_time sys k\<rparr> in (main_cb p, p, snd d)
      else (if ds_fork sys k < 0 then - 1 else 0, d))"

definition after_rounds :: "daemon_sys \<Rightarrow> nat \<Rightarrow> nat \<Rightarrow> daemon \<Rightarrow> daemon" where
  "after_rounds sys k n d = ((fst d)\<lparr>restart_count := restart_count (fst d) + of_nat n\<rparr>, snd d @ map (ds_interval sys) [k ..< k + n])"

lemma daemon_loop_step:
  "daemon_loop sys main_cb k d = (if restarts sys k then daemon_loop sys main_cb (Suc k) (after_rounds sys k 1 d) else Some (last_round sys main_cb k d))"
  by (subst daemon_loop.simps)
    (auto simp: restarts_def last_round_def after_rounds_def real_start_def wait_status_def Let_def split: option.splits)

lemma after_rounds_Suc: "after_rounds sys (Suc k) n (after_rounds sys k 1 d) = after_rounds sys k (Suc n) d"
proof -
  have "[k ..< k + Suc n] = k # [Suc k ..< Suc k + n]" by (simp add: upt_conv_Cons)
  then show ?thesis by (simp add: after_rounds_def add.assoc upt_rec [of k "Suc k"] del: upt_Suc)
qed

lemma daemon_loop_ends:
  "(\<And>j. j < n \<Longrightarrow> restarts sys (k + j)) \<Longrightarrow> \<not> restarts sys (k + n) \<Longrightarrow>
     daemon_loop sys main_cb k d = Some (last_round sys main_cb (k + n) (after_rounds sys k n d))"
proof (induction n arbitrary: k d)
  case 0
  then show ?case by (subst daemon_loop_step) (simp add: after_rounds_def)
next
  case (Suc n)
  have "restarts sys (Suc k + j)" if "j < n" for j using Suc.prems(1) [of "Suc j"] that by simp
  moreover have "restarts sys k" using Suc.prems(1) [of 0] by simp
  ultimately show ?case using Suc.IH [of "Suc k"] Suc.prems(2) by (subst daemon_loop_step) (simp add: after_rounds_Suc [unfolded One_nat_def])
qed

lemma daemon_loop_returns: "daemon_loop sys main_cb k d = Some r \<Longrightarrow> \<exists>n. \<not> restarts sys n"
proof (induction rule: daemon_loop.raw_induct [rotated, consumes 1, case_names Step])
  case (Step loop sys main_cb k d r)
  show ?case
  proof (cases "restarts sys k")
    case True
    with Step(2) show ?thesis by (intro Step(1)) (auto simp: restarts_def Let_def wait_status_def)
  qed blast
qed

text \<open>
  C11: The supervisor. It starts the program again exactly as long as each child ends with a status other than 0 and the signal 9: when that is always so, it never returns; otherwise it
  returns in the first other round, in a child with the result of the program, after a failed \<open>fork\<close> with \<open>- 1\<close>, and else with 0, and has then counted the restarts and slept the
  configured interval before each.
\<close>

theorem daemon_supervises:
  "case start_daemon sys main_cb True (ProcessInfo_new, []) of
     None \<Rightarrow> \<forall>k. restarts sys k
   | Some r \<Rightarrow> \<exists>n. (\<forall>k < n. restarts sys k) \<and> \<not> restarts sys n \<and>
       r = last_round sys main_cb n
         (ProcessInfo_new\<lparr>parent_id := ds_pid sys, parent_start_time := ds_time sys, restart_count := of_nat n\<rparr>, map (ds_interval sys) [0 ..< n])"
proof -
  let ?d = "(ProcessInfo_new\<lparr>parent_id := ds_pid sys, parent_start_time := ds_time sys\<rparr>, [])"
  have s: "start_daemon sys main_cb True (ProcessInfo_new, []) = daemon_loop sys main_cb 0 ?d" by (simp add: start_daemon_def real_daemon_def)
  show ?thesis
  proof (cases "\<forall>k. restarts sys k")
    case True
    then have "daemon_loop sys main_cb 0 ?d = None" using daemon_loop_returns by (metis not_Some_eq)
    then show ?thesis using True by (simp add: s)
  next
    case False
    define n where "n = (LEAST n. \<not> restarts sys n)"
    have n: "\<not> restarts sys n" "k < n \<Longrightarrow> restarts sys k" for k using False LeastI_ex [of "\<lambda>n. \<not> restarts sys n"] not_less_Least by (auto simp: n_def)
    have "daemon_loop sys main_cb 0 ?d = Some (last_round sys main_cb n (after_rounds sys 0 n ?d))" using daemon_loop_ends [of n sys 0] n by simp
    moreover have "after_rounds sys 0 n ?d
        = (ProcessInfo_new\<lparr>parent_id := ds_pid sys, parent_start_time := ds_time sys, restart_count := of_nat n\<rparr>, map (ds_interval sys) [0 ..< n])"
      by (simp add: after_rounds_def ProcessInfo_new_def)
    ultimately show ?thesis unfolding s using n by auto
  qed
qed

text \<open>A program that crashes twice and then ends.\<close>

definition daemon_demo :: daemon_sys where
  "daemon_demo = \<lparr>ds_pid = 100, ds_time = 5, ds_fork = (\<lambda>k. 101 + int k), ds_child = (\<lambda>k. 101 + int k), ds_child_time = (\<lambda>_. 6), ds_main_time = (\<lambda>_. 6),
     ds_status = (\<lambda>k. Some (if k < 2 then 11 else 0)), ds_interval = (\<lambda>_. 5)\<rparr>"

theorem daemon_supervises_witness:
  "\<exists>p. start_daemon daemon_demo (\<lambda>_. 0) True (ProcessInfo_new, []) = Some (0, p, [5, 5]) \<and> restart_count p = 2"
proof -
  have r: "restarts daemon_demo k \<longleftrightarrow> k < 2" for k by (simp add: restarts_def daemon_demo_def)
  have "start_daemon daemon_demo (\<lambda>_. 0) True (ProcessInfo_new, []) \<noteq> None"
    using daemon_supervises [of daemon_demo "\<lambda>_. 0"] r [of 2] by (auto split: option.splits)
  then obtain x where x: "start_daemon daemon_demo (\<lambda>_. 0) True (ProcessInfo_new, []) = Some x" by blast
  obtain n where n: "\<forall>k < n. k < 2" "\<not> n < 2" "x = last_round daemon_demo (\<lambda>_. 0) n
      (ProcessInfo_new\<lparr>parent_id := ds_pid daemon_demo, parent_start_time := ds_time daemon_demo, restart_count := of_nat n\<rparr>, map (ds_interval daemon_demo) [0 ..< n])"
    using daemon_supervises [of daemon_demo "\<lambda>_. 0"] x r by auto
  have "n = 2" using n(1,2) by (metis less_antisym linorder_neqE_nat nat_less_le not_less_eq one_add_one plus_1_eq_Suc)
  then show ?thesis using n(3) x by (simp add: last_round_def daemon_demo_def upt_rec)
qed

end
