(* ===== verification/Spec2Isabelle.thy ===== *)
theory Spec2Isabelle
  imports Mingo_ByteArray_Props Mingo_Timer Mingo_Http_Props Mingo_Scheduler_Props Mingo_IOManager_Props
    Mingo_Address_Props Mingo_Servlet Mingo_Socket_Props Mingo_SocketStream_Props
    Mingo_Uri_Props Mingo_HttpServer_Props Mingo_HttpPool Mingo_Env Mingo_LogConfig Mingo_Thread Mingo_Daemon
begin

text \<open>
  Verification of mingo, a server framework in C++: byte buffers, fibers and their scheduler, timers, an event loop on \<open>epoll\<close> with replacements of the blocking system calls, sockets
  and streams, HTTP with generated parsers, servlets, server, client and connection pool, and the services around them (logging, configuration, command line, threads, supervisor).

  \<^bold>\<open>How the parts interact.\<close> A \<open>TcpServer\<close> binds \<open>Socket\<close>s to \<open>Address\<close>es and accepts clients on the workers of an \<open>IOManager\<close>. Each client is a task of the \<open>Scheduler\<close>, which runs
  tasks as \<open>Fiber\<close>s. A fiber that reads or writes calls a function of \<^verbatim>\<open>hook.cpp\<close>: when the kernel would block, the fiber registers an event and a timer with the \<open>IOManager\<close> (which is
  a \<open>Scheduler\<close> and a \<open>TimerManager\<close>), yields, and is queued again when the event or the timer fires. \<open>HttpServer\<close> reads a request through \<open>HttpSession\<close>, a \<open>SocketStream\<close>, with the
  parser on the automaton that ragel generated, lets the \<open>ServletDispatch\<close> handle it and writes the text of the response; \<open>HttpConnection\<close> and its pool are the client's side. The
  pieces are composed in the model as in the code: the state of a session contains the state of the hooked calls, that the state of the event loop, and so on down to the fibers.

  \<^bold>\<open>Conventions.\<close> A method \<open>A::b\<close> is \<open>A_b\<close>; an overload has a suffix. An operation takes and returns the state explicitly; an operation that can fail has the type \<open>oper\<close> of
  \<^verbatim>\<open>Mingo_Prelude\<close>: the error (\<open>cpp_error\<close>: each exception, a failing assertion, a null pointer, a bad access, a call that never returns) or the result, together with the state reached
  then, since C++ keeps what was written before a throw. Integers that can wrap are words of their width. Shared pointers whose identity matters are addresses of a heap. An
  ordered container is the list of its elements in the order of iteration, with the comparator of the source (\<^verbatim>\<open>Mingo_Ordered\<close>, locales \<open>strict_weak\<close> and \<open>strict_total\<close>).

  \<^bold>\<open>Theories and sources\<close> (all sources under \<^verbatim>\<open>src/mingo/\<close>).
  \<^item> \<^verbatim>\<open>Mingo_Prelude\<close>, \<^verbatim>\<open>Mingo_Ordered\<close>, \<^verbatim>\<open>Mingo_Text\<close>: the vocabulary above, lists in blocks, the laws of ordered sets and maps, the C string functions and decimal output.
  \<^item> \<^verbatim>\<open>Mingo_ByteArray\<close>, \<^verbatim>\<open>_Codec\<close>, \<^verbatim>\<open>_Spec\<close>, \<^verbatim>\<open>_Props\<close> (\<^verbatim>\<open>bytearray.cpp\<close>, \<^verbatim>\<open>endian.h\<close>): the chain of blocks with the cursor, and the typed layer over it. The chain refines one flat
    byte string with a position; the locale \<open>byte_buffer\<close> is the contract on which the typed layer is proved once. Reads and writes on every branch, the invariant over all runs,
    round trips of all encodings.
  \<^item> \<^verbatim>\<open>Mingo_Timer\<close> (\<^verbatim>\<open>timer.cpp\<close>): the set of timers is ordered and holds every armed timer; expiry hands out exactly the due callbacks; cancelling erases that timer only.
  \<^item> \<^verbatim>\<open>Mingo_Fiber\<close>, \<^verbatim>\<open>Mingo_Scheduler\<close>, \<^verbatim>\<open>Mingo_Scheduler_Props\<close> (\<^verbatim>\<open>fiber.cpp\<close>, \<^verbatim>\<open>scheduler.cpp\<close>): switches of context; the scheduler as a transition system over all interleavings of its
    threads, cut at the accesses to shared state: no task is lost or invented, the counters count, a thread ends only when all is done.
  \<^item> \<^verbatim>\<open>Mingo_FdManager\<close>, \<^verbatim>\<open>Mingo_IOManager\<close>, \<^verbatim>\<open>Mingo_Hook\<close> with their \<^verbatim>\<open>_Props\<close> (\<^verbatim>\<open>fd_manager.cpp\<close>, \<^verbatim>\<open>iomanager.cpp\<close>, \<^verbatim>\<open>hook.cpp\<close>): the table of events agrees with the registration in the
    kernel; a blocked call parks its fiber, and an event or time-out wakes exactly that fiber.
  \<^item> \<^verbatim>\<open>Mingo_Address\<close>, \<^verbatim>\<open>Mingo_Socket\<close>, \<^verbatim>\<open>Mingo_Stream\<close>, \<^verbatim>\<open>Mingo_SocketStream\<close>, \<^verbatim>\<open>Mingo_TcpServer\<close> with their \<^verbatim>\<open>_Props\<close>: subnets and texts of addresses and their order; descriptors are closed
    exactly once; the loops of fixed size move exactly the bytes they report (locales \<open>byte_source\<close> and \<open>byte_sink\<close>, interpreted by the socket stream).
  \<^item> \<^verbatim>\<open>Mingo_Ragel\<close> with the tables \<^verbatim>\<open>Mingo_Uri_Table\<close>, \<^verbatim>\<open>Mingo_Http11_Table\<close>, \<^verbatim>\<open>Mingo_HttpClient_Table\<close> (\<^verbatim>\<open>uri.cpp\<close>, \<^verbatim>\<open>http/http11_parser.rl.cpp\<close>, \<^verbatim>\<open>http/httpclient_parser.rl.cpp\<close>): the
    generated code is data, one entry for each block of the source with its ranges of characters, actions and target, and one interpreter; the locale \<open>machine_invariant\<close> proves an
    invariant of a run from a check of the whole table that the kernel evaluates.
  \<^item> \<^verbatim>\<open>Mingo_Uri\<close>, \<^verbatim>\<open>_Props\<close>, \<^verbatim>\<open>_Roundtrip\<close> (\<^verbatim>\<open>uri.cpp\<close>, \<^verbatim>\<open>uri.rl\<close>): creation of a URI, when it throws, and the round trip.
  \<^item> \<^verbatim>\<open>Mingo_Http\<close>, \<^verbatim>\<open>Mingo_Http_Props\<close> (\<^verbatim>\<open>http/http.cpp\<close>): messages, their headers as a map up to the case of letters, and their text.
  \<^item> \<^verbatim>\<open>Mingo_HttpParser\<close>, \<^verbatim>\<open>_Props\<close>, \<^verbatim>\<open>_Roundtrip\<close>, \<^verbatim>\<open>_Request\<close>, \<^verbatim>\<open>_Head\<close>, \<^verbatim>\<open>Mingo_HttpResponseParser\<close> (\<^verbatim>\<open>http/http_parser.cpp\<close>): the parsers return on any bytes, with every access inside the
    buffer; a request that was written is read back.
  \<^item> \<^verbatim>\<open>Mingo_Servlet\<close>, \<^verbatim>\<open>Mingo_HttpSession\<close>, \<^verbatim>\<open>Mingo_HttpServer\<close> with their \<^verbatim>\<open>_Props\<close>: the dispatcher against a reference over the history of registrations; a request on the wire is
    answered on the wire with what the servlets made of it.
  \<^item> \<^verbatim>\<open>Mingo_HttpConnection\<close>, \<^verbatim>\<open>_Props\<close>, \<^verbatim>\<open>Mingo_HttpPool\<close> (\<^verbatim>\<open>http/http_connection.cpp\<close>): the client closes what it opens on every path; the counter of the pool is the number of its
    connections, lent ones included, over all interleavings of takers and returners.
  \<^item> \<^verbatim>\<open>Mingo_Log\<close>, \<^verbatim>\<open>Mingo_Logger\<close>, \<^verbatim>\<open>Mingo_LogConfig\<close> (\<^verbatim>\<open>log.cpp\<close>): the meaning of format patterns; delivery of events to appenders; logging never meets a null pointer; a
    changed configuration is applied to exactly the loggers it names.
  \<^item> \<^verbatim>\<open>Mingo_Config\<close> (\<^verbatim>\<open>config.h\<close>, \<^verbatim>\<open>config.cpp\<close>): casts of containers, variables with listeners, and loading a document into the registry.
  \<^item> \<^verbatim>\<open>Mingo_Env\<close>, \<^verbatim>\<open>Mingo_Thread\<close>, \<^verbatim>\<open>Mingo_Daemon\<close> (\<^verbatim>\<open>env.cpp\<close>, \<^verbatim>\<open>thread.h\<close>, \<^verbatim>\<open>daemon.cpp\<close>): the command line against a grammar; exclusion by scoped locks and the handshake at the
    start of a thread; the supervisor, for every sequence of answers of the system.

  \<^bold>\<open>Loops and bounds.\<close> Loops are total functions with a measure wherever the code ends: what is left of a buffer, of the bytes on their way, or of the finite plan of how many bytes
  the kernel moves in each call, after which it reports the end of the connection. There is no fuel. Loops that need not end are partial functions into an option: the repetition of
  an interrupted call, the loop that serves a client and that of the supervisor; that they return, and when they do not, is stated. The scheduler and the pool, the locks and the start
  of a thread are step relations, and their properties hold in every reachable state.

  \<^bold>\<open>Parameters.\<close> What is not in the repository is an argument: the answers of the kernel, \<open>getaddrinfo\<close>, \<open>fnmatch\<close>, \<open>strftime\<close>, the allocator where it may refuse, the YAML library
  and the conversions of boost. The order of bytes of the host is an argument as well.

  \<^bold>\<open>Not modelled.\<close> Backtraces, the clock and thread numbers of \<^verbatim>\<open>util.cpp\<close>, the macros of assertions (their conditions are errors of the operations), build files and test programs. Calls of the
  log inside other parts are left out there: they change nothing but the log. Time passes between operations only.
\<close>

end
